(* ===== verification/Prelude.thy ===== *)
theory Prelude
  imports Main "HOL-Library.Word"
begin

text \<open>
  Shared vocabulary of the Auspex development: the widths of the Rust integers, \<open>Result\<close>
  values and the few \<open>Option\<close>/\<open>Result\<close> combinators the code uses, saturating and checked
  arithmetic, UTF-8 byte strings with \<open>str::trim\<close>, decimal printing, and the vector idioms
  (\<open>position\<close>, \<open>find\<close>, \<open>retain\<close>) that the components share.

  A Rust \<open>String\<close> is the list of its UTF-8 bytes, so \<open>length\<close> is \<open>str::len\<close>.  A method
  taking \<open>&mut self\<close> and returning \<open>Result\<close> is a function into \<open>('e + 'a) \<times> 's\<close>: the
  state comes back on the error path too, because the code may have written it by then.
\<close>

section \<open>Collections of rewrite rules\<close>

named_theorems result_simps \<open>equations of the Result and Option combinators\<close>
named_theorems string_simps \<open>facts on byte strings, trimming and decimal printing\<close>

section \<open>Machine integers\<close>

type_synonym u32 = "32 word"
type_synonym u64 = "64 word"
type_synonym u128 = "128 word"

text \<open>\<open>saturating_add\<close> and \<open>checked_add\<close> of the unsigned integer types.\<close>

definition saturating_add :: "'a::len word \<Rightarrow> 'a word \<Rightarrow> 'a word" where
  "saturating_add a b =
     (if unat a + unat b < 2 ^ LENGTH('a) then a + b else word_of_nat (2 ^ LENGTH('a) - 1))"

definition checked_add :: "'a::len word \<Rightarrow> 'a word \<Rightarrow> 'a word option" where
  "checked_add a b = (if unat a + unat b < 2 ^ LENGTH('a) then Some (a + b) else None)"

lemma unat_saturating_add:
  "unat (saturating_add a (b :: 'a::len word)) = min (unat a + unat b) (2 ^ LENGTH('a) - 1)"
proof (cases "unat a + unat b < 2 ^ LENGTH('a)")
  case True
  then show ?thesis
    by (simp add: saturating_add_def unat_word_ariths)
next
  case False
  have "unat (word_of_nat (2 ^ LENGTH('a) - 1) :: 'a word) = 2 ^ LENGTH('a) - 1"
    by (simp only: unat_of_nat) (simp add: mod_less)
  with False show ?thesis
    by (simp add: saturating_add_def del: of_nat_diff)
qed

lemma saturating_add_ge: "a \<le> saturating_add a (b :: 'a::len word)"
proof -
  have "unat a < 2 ^ LENGTH('a)" by (rule unsigned_less)
  then have "unat a \<le> 2 ^ LENGTH('a) - 1" by linarith
  then show ?thesis by (simp add: word_le_nat_alt unat_saturating_add)
qed

lemma checked_add_Some:
  "checked_add a b = Some c \<Longrightarrow> unat c = unat a + unat (b :: 'a::len word)"
  by (auto simp: checked_add_def unat_word_ariths split: if_splits)

lemma checked_add_None:
  "checked_add a (b :: 'a::len word) = None \<longleftrightarrow> 2 ^ LENGTH('a) \<le> unat a + unat b"
  by (auto simp: checked_add_def)

section \<open>Results\<close>

abbreviation Ok :: "'a \<Rightarrow> 'e + 'a" where "Ok \<equiv> Inr"
abbreviation Err :: "'e \<Rightarrow> 'e + 'a" where "Err \<equiv> Inl"

definition is_ok :: "'e + 'a \<Rightarrow> bool" where
  "is_ok r = (case r of Inl _ \<Rightarrow> False | Inr _ \<Rightarrow> True)"

definition and_then :: "'e + 'a \<Rightarrow> ('a \<Rightarrow> 'e + 'b) \<Rightarrow> 'e + 'b" where
  "and_then r f = (case r of Inl e \<Rightarrow> Inl e | Inr a \<Rightarrow> f a)"

definition map_err :: "('e \<Rightarrow> 'f) \<Rightarrow> 'e + 'a \<Rightarrow> 'f + 'a" where
  "map_err f r = (case r of Inl e \<Rightarrow> Inl (f e) | Inr a \<Rightarrow> Inr a)"

definition ok_or :: "'e \<Rightarrow> 'a option \<Rightarrow> 'e + 'a" where
  "ok_or e x = (case x of None \<Rightarrow> Inl e | Some a \<Rightarrow> Inr a)"

definition unwrap_or :: "'a option \<Rightarrow> 'a \<Rightarrow> 'a" where
  "unwrap_or x d = (case x of None \<Rightarrow> d | Some a \<Rightarrow> a)"

definition or_else :: "'a option \<Rightarrow> 'a option \<Rightarrow> 'a option" where
  "or_else x y = (case x of None \<Rightarrow> y | Some a \<Rightarrow> Some a)"

lemma is_ok_simps [simp, result_simps]: "is_ok (Ok a)" "\<not> is_ok (Err e)"
  by (simp_all add: is_ok_def)

lemma and_then_simps [simp, result_simps]:
  "and_then (Ok a) f = f a" "and_then (Err e) f = Err e"
  by (simp_all add: and_then_def)

lemma and_then_eq_Ok:
  "and_then r f = Ok b \<longleftrightarrow> (\<exists>a. r = Ok a \<and> f a = Ok b)"
  by (cases r) auto

lemma map_err_simps [simp, result_simps]:
  "map_err f (Ok a) = Ok a" "map_err f (Err e) = Err (f e)"
  by (simp_all add: map_err_def)

lemma map_err_eq_Ok [simp]: "map_err f r = Ok a \<longleftrightarrow> r = Ok a"
  by (cases r) auto

lemma ok_or_simps [simp, result_simps]:
  "ok_or e (Some a) = Ok a" "ok_or e None = Err e"
  by (simp_all add: ok_or_def)

lemma ok_or_eq_Ok [simp]: "ok_or e x = Ok a \<longleftrightarrow> x = Some a"
  by (cases x) auto

lemma unwrap_or_simps [simp, result_simps]:
  "unwrap_or (Some a) d = a" "unwrap_or None d = d"
  by (simp_all add: unwrap_or_def)

lemma or_else_simps [simp, result_simps]:
  "or_else (Some a) y = Some a" "or_else None y = y"
  by (simp_all add: or_else_def)

section \<open>Vectors\<close>

text \<open>
  \<open>iter().position(p)\<close>: the index of the first element that satisfies \<open>p\<close>.
\<close>

fun position :: "('a \<Rightarrow> bool) \<Rightarrow> 'a list \<Rightarrow> nat option" where
  "position p [] = None"
| "position p (x # xs) = (if p x then Some 0 else map_option Suc (position p xs))"

lemma position_Some:
  "position p xs = Some i \<Longrightarrow>
     i < length xs \<and> p (xs ! i) \<and> (\<forall>j < i. \<not> p (xs ! j))"
proof (induction xs arbitrary: i)
  case Nil
  then show ?case by simp
next
  case (Cons x xs)
  show ?case
  proof (cases "p x")
    case True
    with Cons.prems show ?thesis by simp
  next
    case False
    with Cons.prems obtain k where k: "position p xs = Some k" "i = Suc k"
      by auto
    from Cons.IH [OF k(1)] False show ?thesis
      by (auto simp: k(2) nth_Cons split: nat.splits)
  qed
qed

lemma position_None: "position p xs = None \<longleftrightarrow> (\<forall>x \<in> set xs. \<not> p x)"
  by (induction xs) auto

lemma find_position:
  "List.find p xs = map_option (\<lambda>i. xs ! i) (position p xs)"
  by (induction xs) (auto simp: option.map_comp comp_def)

lemma position_nth_mem: "position p xs = Some i \<Longrightarrow> xs ! i \<in> set xs"
  by (auto dest: position_Some)

text \<open>Replacing one element keeps the projection of the list that the element keeps.\<close>

lemma map_list_update_same:
  "f y = f (xs ! i) \<Longrightarrow> map f (xs[i := y]) = map f xs"
  by (metis list_update_id map_update)

lemma set_list_update_subset: "set (xs[i := y]) \<subseteq> insert y (set xs)"
  by (rule set_update_subset_insert)

section \<open>Byte strings\<close>

definition starts_with :: "string \<Rightarrow> string \<Rightarrow> bool" where
  "starts_with s w \<longleftrightarrow> take (length w) s = w"

lemma starts_with_take: "starts_with (take n s) w \<Longrightarrow> starts_with s w"
  by (metis starts_with_def length_take min.cobounded1 take_take append_take_drop_id
      min.absorb_iff2 min_def take_all_iff nat_le_linear)

text \<open>
  \<open>str::trim\<close> removes the characters with the Unicode property White_Space at both ends.
  The list gives their UTF-8 encodings; UTF-8 is self-synchronising, so matching the encodings
  at the two ends of a byte string is matching characters.
\<close>

definition white_space :: "string list" where
  "white_space =
     [[CHR 0x09], [CHR 0x0A], [CHR 0x0B], [CHR 0x0C], [CHR 0x0D], [CHR 0x20],
      [CHR 0xC2, CHR 0x85], [CHR 0xC2, CHR 0xA0], [CHR 0xE1, CHR 0x9A, CHR 0x80],
      [CHR 0xE2, CHR 0x80, CHR 0x80], [CHR 0xE2, CHR 0x80, CHR 0x81],
      [CHR 0xE2, CHR 0x80, CHR 0x82], [CHR 0xE2, CHR 0x80, CHR 0x83],
      [CHR 0xE2, CHR 0x80, CHR 0x84], [CHR 0xE2, CHR 0x80, CHR 0x85],
      [CHR 0xE2, CHR 0x80, CHR 0x86], [CHR 0xE2, CHR 0x80, CHR 0x87],
      [CHR 0xE2, CHR 0x80, CHR 0x88], [CHR 0xE2, CHR 0x80, CHR 0x89],
      [CHR 0xE2, CHR 0x80, CHR 0x8A], [CHR 0xE2, CHR 0x80, CHR 0xA8],
      [CHR 0xE2, CHR 0x80, CHR 0xA9], [CHR 0xE2, CHR 0x80, CHR 0xAF],
      [CHR 0xE2, CHR 0x81, CHR 0x9F], [CHR 0xE3, CHR 0x80, CHR 0x80]]"

function strip_seqs :: "string list \<Rightarrow> string \<Rightarrow> string" where
  "strip_seqs ws s =
     (case List.find (\<lambda>w. w \<noteq> [] \<and> starts_with s w) ws of
        None \<Rightarrow> s
      | Some w \<Rightarrow> strip_seqs ws (drop (length w) s))"
  by pat_completeness auto
termination
proof (relation "measure (\<lambda>(ws, s). length s)", goal_cases)
  case 1
  show ?case by simp
next
  case (2 ws s w)
  from 2 have "w \<noteq> []" and "starts_with s w"
    by (auto simp: find_Some_iff)
  then have "0 < length w" and "s \<noteq> []"
    by (auto simp: starts_with_def)
  then show ?case by simp
qed

declare strip_seqs.simps [simp del]

definition trim_start :: "string \<Rightarrow> string" where
  "trim_start s = strip_seqs white_space s"

definition trim_end :: "string \<Rightarrow> string" where
  "trim_end s = rev (strip_seqs (map rev white_space) (rev s))"

definition trim :: "string \<Rightarrow> string" where
  "trim s = trim_end (trim_start s)"

lemma strip_seqs_drop: "\<exists>n. strip_seqs ws s = drop n s"
proof (induction ws s rule: strip_seqs.induct)
  case (1 ws s)
  show ?case
  proof (cases "List.find (\<lambda>w. w \<noteq> [] \<and> starts_with s w) ws")
    case None
    then show ?thesis
      by (subst strip_seqs.simps) (auto intro: exI [where x = 0])
  next
    case (Some w)
    from "1.IH" [OF Some] obtain n where "strip_seqs ws (drop (length w) s) = drop n (drop (length w) s)"
      by blast
    with Some show ?thesis
      by (subst strip_seqs.simps) auto
  qed
qed

lemma strip_seqs_stops:
  "w \<in> set ws \<Longrightarrow> w \<noteq> [] \<Longrightarrow> \<not> starts_with (strip_seqs ws s) w"
proof (induction ws s rule: strip_seqs.induct)
  case (1 ws s)
  show ?case
  proof (cases "List.find (\<lambda>w. w \<noteq> [] \<and> starts_with s w) ws")
    case None
    with "1.prems" show ?thesis
      by (simp add: strip_seqs.simps [of ws s]) (auto simp: find_None_iff)
  next
    case (Some v)
    with "1.IH" [OF Some] "1.prems" show ?thesis
      by (subst strip_seqs.simps) simp
  qed
qed

lemma strip_seqs_id:
  "(\<And>w. w \<in> set ws \<Longrightarrow> w \<noteq> [] \<Longrightarrow> \<not> starts_with s w) \<Longrightarrow> strip_seqs ws s = s"
  by (subst strip_seqs.simps) (auto simp: find_Some_iff split: option.split)

lemma trim_start_stops:
  "w \<in> set white_space \<Longrightarrow> w \<noteq> [] \<Longrightarrow> \<not> starts_with (trim_start s) w"
  by (simp add: trim_start_def strip_seqs_stops)

lemma trim_end_take: "\<exists>n. trim_end s = take n s"
proof -
  obtain n where "strip_seqs (map rev white_space) (rev s) = drop n (rev s)"
    using strip_seqs_drop by blast
  then have "trim_end s = take (length s - n) s"
    by (simp add: trim_end_def rev_drop)
  then show ?thesis ..
qed

lemma trim_end_idem [simp]: "trim_end (trim_end s) = trim_end s"
proof -
  have "strip_seqs (map rev white_space) (strip_seqs (map rev white_space) (rev s)) =
        strip_seqs (map rev white_space) (rev s)"
    by (rule strip_seqs_id) (rule strip_seqs_stops)
  then show ?thesis by (simp add: trim_end_def)
qed

text \<open>Trimming is idempotent: cutting the end off cannot expose white space at the start.\<close>

lemma trim_idem [simp, string_simps]: "trim (trim s) = trim s"
proof -
  obtain n where n: "trim s = take n (trim_start s)"
    using trim_end_take by (auto simp: trim_def)
  have "trim_start (trim s) = trim s"
    unfolding trim_start_def [of "trim s"]
    by (rule strip_seqs_id) (metis n trim_start_stops starts_with_take)
  then show ?thesis by (simp add: trim_def)
qed

lemma length_trim_le: "length (trim s) \<le> length s"
proof -
  obtain n where "trim s = take n (trim_start s)"
    using trim_end_take by (auto simp: trim_def)
  moreover obtain m where "trim_start s = drop m s"
    using strip_seqs_drop by (auto simp: trim_start_def)
  ultimately show ?thesis by simp
qed

lemma trim_Nil [simp, string_simps]: "trim [] = []"
  using length_trim_le [of "[]"] by simp

section \<open>Decimal printing\<close>

text \<open>\<open>format!("{n}")\<close> of an unsigned integer.\<close>

definition digit_char :: "nat \<Rightarrow> char" where
  "digit_char d = char_of (48 + d)"

fun show_nat :: "nat \<Rightarrow> string" where
  "show_nat n = (if n < 10 then [digit_char n] else show_nat (n div 10) @ [digit_char (n mod 10)])"

declare show_nat.simps [simp del]

text \<open>The reading of a digit string, used to show that printing loses nothing.\<close>

definition read_nat :: "string \<Rightarrow> nat" where
  "read_nat s = foldl (\<lambda>acc c. acc * 10 + (of_char c - 48)) 0 s"

lemma of_char_digit: "d < 10 \<Longrightarrow> of_char (digit_char d) - (48 :: nat) = d"
  by (simp add: digit_char_def of_char_of)

lemma read_show_nat [simp, string_simps]: "read_nat (show_nat n) = n"
proof (induction n rule: show_nat.induct)
  case (1 n)
  show ?case
  proof (cases "n < 10")
    case True
    then show ?thesis
      by (subst show_nat.simps) (simp add: read_nat_def of_char_digit)
  next
    case False
    with "1.IH" have "read_nat (show_nat (n div 10)) = n div 10" by simp
    with False show ?thesis
      by (subst show_nat.simps) (simp add: read_nat_def of_char_digit)
  qed
qed

lemma show_nat_inject [simp, string_simps]: "show_nat m = show_nat n \<longleftrightarrow> m = n"
  by (metis read_show_nat)

lemma show_nat_not_Nil [simp]: "show_nat n \<noteq> []"
  by (subst show_nat.simps) simp

lemma show_nat_digits: "c \<in> set (show_nat n) \<Longrightarrow> of_char c \<in> {48 .. 57 :: nat}"
proof (induction n rule: show_nat.induct)
  case (1 n)
  then show ?case
    by (subst (asm) show_nat.simps)
      (auto simp: digit_char_def of_char_of split: if_splits)
qed

end
