(* ===== verification/OrdMap.thy ===== *)
theory OrdMap
  imports Prelude
begin

text \<open>
  The model of \<open>std::collections::BTreeMap\<close>: the association list that iteration yields, in
  strictly increasing key order.  The locale \<open>ordered_map\<close> is the interface the components
  rely on (lookup after insertion, after removal and after an update in place, and the order of
  iteration); its interpretation \<open>bt\<close> discharges the laws for the list model.
\<close>

section \<open>The interface\<close>

locale ordered_map =
  fixes empty :: "'m"
    and get :: "'m \<Rightarrow> 'k::linorder \<Rightarrow> 'v option"
    and insert :: "'k \<Rightarrow> 'v \<Rightarrow> 'm \<Rightarrow> 'm"
    and remove :: "'k \<Rightarrow> 'm \<Rightarrow> 'm"
    and update_all :: "('k \<Rightarrow> 'v \<Rightarrow> 'v) \<Rightarrow> 'm \<Rightarrow> 'm"
    and entries :: "'m \<Rightarrow> ('k \<times> 'v) list"
    and ok :: "'m \<Rightarrow> bool"
  assumes ok_empty: "ok empty"
    and ok_insert: "ok m \<Longrightarrow> ok (insert k v m)"
    and ok_remove: "ok m \<Longrightarrow> ok (remove k m)"
    and ok_update_all: "ok m \<Longrightarrow> ok (update_all f m)"
    and get_empty: "get empty k = None"
    and get_insert: "ok m \<Longrightarrow> get (insert k v m) k' = (if k' = k then Some v else get m k')"
    and get_remove: "ok m \<Longrightarrow> get (remove k m) k' = (if k' = k then None else get m k')"
    and get_update_all: "ok m \<Longrightarrow> get (update_all f m) k = map_option (f k) (get m k)"
    and entries_get: "ok m \<Longrightarrow> (k, v) \<in> set (entries m) \<longleftrightarrow> get m k = Some v"
    and entries_sorted: "ok m \<Longrightarrow> sorted_wrt (<) (map fst (entries m))"
begin

definition all_values :: "('k \<Rightarrow> 'v \<Rightarrow> bool) \<Rightarrow> 'm \<Rightarrow> bool" where
  "all_values P m \<longleftrightarrow> (\<forall>k v. get m k = Some v \<longrightarrow> P k v)"

lemma all_valuesI: "(\<And>k v. get m k = Some v \<Longrightarrow> P k v) \<Longrightarrow> all_values P m"
  by (simp add: all_values_def)

lemma all_valuesD: "all_values P m \<Longrightarrow> get m k = Some v \<Longrightarrow> P k v"
  by (simp add: all_values_def)

lemma all_values_empty: "all_values P empty"
  by (simp add: all_values_def get_empty)

lemma all_values_insert: "ok m \<Longrightarrow> all_values P m \<Longrightarrow> P k v \<Longrightarrow> all_values P (insert k v m)"
  by (auto simp: all_values_def get_insert)

lemma all_values_remove: "ok m \<Longrightarrow> all_values P m \<Longrightarrow> all_values P (remove k m)"
  by (auto simp: all_values_def get_remove)

lemma all_values_update:
  "ok m \<Longrightarrow> all_values P m \<Longrightarrow> (\<And>k v. P k v \<Longrightarrow> P k (f k v)) \<Longrightarrow> all_values P (update_all f m)"
  by (auto simp: all_values_def get_update_all)

lemma distinct_keys: "ok m \<Longrightarrow> distinct (map fst (entries m))"
  by (rule strict_sorted_iff [THEN iffD1, THEN conjunct2]) (rule entries_sorted)

text \<open>
  The keys of the entries that satisfy a predicate, in the order of iteration: what the code
  collects with \<open>iter().filter_map(...)\<close>.
\<close>

definition keys_where :: "('k \<Rightarrow> 'v \<Rightarrow> bool) \<Rightarrow> 'm \<Rightarrow> 'k list" where
  "keys_where P m = map fst (filter (\<lambda>(k, v). P k v) (entries m))"

lemma keys_where_iff:
  "ok m \<Longrightarrow> k \<in> set (keys_where P m) \<longleftrightarrow> (\<exists>v. get m k = Some v \<and> P k v)"
  by (force simp: keys_where_def simp flip: entries_get)

lemma keys_where_sorted: "ok m \<Longrightarrow> sorted_wrt (<) (keys_where P m)"
  unfolding keys_where_def
  by (drule entries_sorted) (simp add: sorted_wrt_map sorted_wrt_filter)

end

section \<open>The list model\<close>

type_synonym ('k, 'v) btree = "('k \<times> 'v) list"

definition bt_empty :: "('k, 'v) btree" where
  "bt_empty = []"

definition bt_get :: "('k, 'v) btree \<Rightarrow> 'k \<Rightarrow> 'v option" where
  "bt_get m k = map_of m k"

fun bt_insert :: "'k::linorder \<Rightarrow> 'v \<Rightarrow> ('k, 'v) btree \<Rightarrow> ('k, 'v) btree" where
  "bt_insert k v [] = [(k, v)]"
| "bt_insert k v (e # m) =
     (if fst e < k then e # bt_insert k v m
      else if fst e = k then (k, v) # m
      else (k, v) # e # m)"

definition bt_remove :: "'k \<Rightarrow> ('k, 'v) btree \<Rightarrow> ('k, 'v) btree" where
  "bt_remove k m = filter (\<lambda>e. fst e \<noteq> k) m"

text \<open>\<open>values_mut\<close>: every value rewritten in place.\<close>

definition bt_update_all :: "('k \<Rightarrow> 'v \<Rightarrow> 'v) \<Rightarrow> ('k, 'v) btree \<Rightarrow> ('k, 'v) btree" where
  "bt_update_all f m = map (\<lambda>(k, v). (k, f k v)) m"

definition bt_ok :: "('k::linorder, 'v) btree \<Rightarrow> bool" where
  "bt_ok m \<longleftrightarrow> sorted_wrt (<) (map fst m)"

lemma bt_insert_keys: "fst ` set (bt_insert k v m) = insert k (fst ` set m)"
  by (induction m) auto

lemma bt_insert_sorted:
  "sorted_wrt (<) (map fst m) \<Longrightarrow> sorted_wrt (<) (map fst (bt_insert k v m))"
proof (induction m)
  case Nil
  then show ?case by simp
next
  case (Cons e m)
  have below: "\<forall>x \<in> fst ` set (bt_insert k v m). fst e < x" if "fst e < k"
    using that Cons.prems by (simp add: bt_insert_keys)
  have above: "\<forall>x \<in> fst ` set m. k < x" if "k < fst e"
    using that Cons.prems by (auto intro: less_trans)
  from Cons below above show ?case
    by (cases "fst e" k rule: linorder_cases) auto
qed

lemma map_of_bt_insert:
  "sorted_wrt (<) (map fst m) \<Longrightarrow> map_of (bt_insert k v m) = (map_of m)(k \<mapsto> v)"
  by (induction m) (auto simp: fun_eq_iff)

lemma map_of_filter_key:
  "map_of (filter (\<lambda>e. fst e \<noteq> k) m) k' = (if k' = k then None else map_of m k')"
  by (induction m) auto

lemma map_of_update_all: "map_of (map (\<lambda>(k, v). (k, f k v)) m) k = map_option (f k) (map_of m k)"
  by (induction m) auto

lemma bt_remove_sorted: "bt_ok m \<Longrightarrow> bt_ok (bt_remove k m)"
  by (simp add: bt_ok_def bt_remove_def sorted_wrt_map sorted_wrt_filter)

lemma bt_ok_distinct: "bt_ok m \<Longrightarrow> distinct (map fst m)"
  unfolding bt_ok_def by (simp add: strict_sorted_iff)

interpretation bt: ordered_map bt_empty bt_get bt_insert bt_remove bt_update_all "\<lambda>m. m" bt_ok
proof (unfold_locales, goal_cases)
  case 1 show ?case by (simp add: bt_ok_def bt_empty_def)
next
  case 2 then show ?case by (simp add: bt_ok_def bt_insert_sorted)
next
  case 3 then show ?case by (rule bt_remove_sorted)
next
  case 4 then show ?case by (simp add: bt_ok_def bt_update_all_def comp_def case_prod_beta)
next
  case 5 show ?case by (simp add: bt_get_def bt_empty_def)
next
  case 6 then show ?case by (simp add: bt_get_def bt_ok_def map_of_bt_insert)
next
  case 7 show ?case by (simp add: bt_get_def bt_remove_def map_of_filter_key)
next
  case 8 show ?case by (simp add: bt_get_def bt_update_all_def map_of_update_all)
next
  case 9 then show ?case by (simp add: bt_get_def bt_ok_distinct map_of_eq_Some_iff)
next
  case 10 then show ?case by (simp add: bt_ok_def)
qed

text \<open>
  \<open>get_mut(k)\<close> followed by a write through the reference: only the entry of \<open>k\<close> changes.
\<close>

definition bt_adjust :: "'k \<Rightarrow> ('v \<Rightarrow> 'v) \<Rightarrow> ('k, 'v) btree \<Rightarrow> ('k, 'v) btree" where
  "bt_adjust k f m = bt_update_all (\<lambda>k' v. if k' = k then f v else v) m"

lemma bt_get_adjust:
  "bt_ok m \<Longrightarrow> bt_get (bt_adjust k f m) k' = (if k' = k then map_option f (bt_get m k) else bt_get m k')"
  by (simp add: bt_adjust_def bt.get_update_all option.map_id [unfolded id_def])

lemma bt_ok_adjust: "bt_ok m \<Longrightarrow> bt_ok (bt_adjust k f m)"
  by (simp add: bt_adjust_def bt.ok_update_all)

lemma bt_keys_update_all: "map fst (bt_update_all f m) = map fst m"
  by (simp add: bt_update_all_def comp_def case_prod_beta)

lemma bt_keys_adjust: "map fst (bt_adjust k f m) = map fst m"
  by (simp add: bt_adjust_def bt_keys_update_all)

lemmas bt_ok_intros = bt.ok_empty bt.ok_insert bt.ok_remove bt.ok_update_all bt_ok_adjust
lemmas bt_get_simps = bt.get_empty bt.get_insert bt.get_remove bt.get_update_all bt_get_adjust

end
