(* ===== verification/Strings.thy ===== *)
theory Strings
  imports Prelude
begin

text \<open>
  The operations on \<open>str\<close> that several components use: case, searching, cutting, splitting, joining
  and reading numbers.  A string is its UTF-8 bytes; the patterns are ASCII or whole UTF-8 sequences,
  for which matching bytes is matching characters.
\<close>

type_synonym u16 = "16 word"
type_synonym i64 = "64 word"

section \<open>Case\<close>

text \<open>\<open>to_ascii_lowercase\<close> and \<open>replace('_', "-")\<close> work byte by byte.\<close>

definition ascii_lower :: "char \<Rightarrow> char" where
  "ascii_lower c =
     (let n = of_char c :: nat in if 65 \<le> n \<and> n \<le> 90 then char_of (n + 32) else c)"

definition to_ascii_lowercase :: "string \<Rightarrow> string" where
  "to_ascii_lowercase = map ascii_lower"

definition replace_char :: "char \<Rightarrow> char \<Rightarrow> string \<Rightarrow> string" where
  "replace_char a b = map (\<lambda>c. if c = a then b else c)"

section \<open>Searching\<close>

text \<open>\<open>str::contains\<close> of a string.\<close>

fun contains_str :: "string \<Rightarrow> string \<Rightarrow> bool" where
  "contains_str needle [] \<longleftrightarrow> needle = []"
| "contains_str needle (c # s) \<longleftrightarrow> starts_with (c # s) needle \<or> contains_str needle s"

definition ends_with :: "string \<Rightarrow> string \<Rightarrow> bool" where
  "ends_with s suffix \<longleftrightarrow> length suffix \<le> length s \<and> drop (length s - length suffix) s = suffix"

section \<open>Replacing and joining\<close>

text \<open>\<open>str::replace\<close> with a non-empty pattern: left to right, without overlaps.\<close>

function replace_all :: "string \<Rightarrow> string \<Rightarrow> string \<Rightarrow> string" where
  "replace_all pat rep [] = []"
| "replace_all pat rep (c # cs) =
     (if pat \<noteq> [] \<and> starts_with (c # cs) pat
      then rep @ replace_all pat rep (drop (length pat) (c # cs))
      else c # replace_all pat rep cs)"
  by pat_completeness auto
termination
  by (relation "measure (\<lambda>(_, _, s). length s)") (auto simp: diff_less_Suc)

text \<open>\<open>join\<close> of a vector of strings.\<close>

fun join :: "string \<Rightarrow> string list \<Rightarrow> string" where
  "join sep [] = []"
| "join sep [x] = x"
| "join sep (x # y # ys) = x @ sep @ join sep (y # ys)"

definition newline :: string where
  "newline = [CHR 0x0A]"

section \<open>Numbers\<close>

text \<open>\<open>str::parse::<u64>()\<close>: decimal digits with an optional plus sign, within range.\<close>

definition is_digit :: "char \<Rightarrow> bool" where
  "is_digit c \<longleftrightarrow> 48 \<le> (of_char c :: nat) \<and> (of_char c :: nat) \<le> 57"

definition parse_u64 :: "string \<Rightarrow> u64 option" where
  "parse_u64 s =
     (let digits = (case s of [] \<Rightarrow> [] | c # cs \<Rightarrow> if c = CHR ''+'' then cs else s)
      in if digits \<noteq> [] \<and> list_all is_digit digits \<and> read_nat digits < 2 ^ 64
         then Some (word_of_nat (read_nat digits)) else None)"

text \<open>The same for the narrower unsigned types, and \<open>str::parse::<i64>()\<close> with its sign.\<close>

definition parse_unsigned :: "nat \<Rightarrow> string \<Rightarrow> nat option" where
  "parse_unsigned width s =
     (let digits = (case s of [] \<Rightarrow> [] | c # cs \<Rightarrow> if c = CHR ''+'' then cs else s)
      in if digits \<noteq> [] \<and> list_all is_digit digits \<and> read_nat digits < 2 ^ width
         then Some (read_nat digits) else None)"

definition parse_i64 :: "string \<Rightarrow> int option" where
  "parse_i64 s =
     (case s of
        [] \<Rightarrow> None
      | c # cs \<Rightarrow>
          (let digits = (if c = CHR ''+'' \<or> c = CHR ''-'' then cs else s);
               n = int (read_nat digits); v = (if c = CHR ''-'' then - n else n)
           in if digits \<noteq> [] \<and> list_all is_digit digits \<and> - 9223372036854775808 \<le> v \<and> v < 9223372036854775808
              then Some v else None))"

lemma show_nat_is_digits: "list_all is_digit (show_nat n)"
  using show_nat_digits [of _ n] by (auto simp: list_all_iff is_digit_def)

lemma show_nat_no_sign: "\<exists>c cs. show_nat n = c # cs \<and> c \<noteq> CHR ''+'' \<and> c \<noteq> CHR ''-''"
  using show_nat_is_digits [of n] show_nat_not_Nil [of n]
  by (cases "show_nat n") (auto simp: is_digit_def)

lemma parse_unsigned_show_nat [simp]: "n < 2 ^ width \<Longrightarrow> parse_unsigned width (show_nat n) = Some n"
proof -
  assume "n < 2 ^ width"
  moreover obtain c cs where "show_nat n = c # cs" "c \<noteq> CHR ''+''"
    using show_nat_no_sign by blast
  moreover from this have "read_nat (c # cs) = n" "list_all is_digit (c # cs)"
    using read_show_nat [of n] show_nat_is_digits [of n] by metis+
  ultimately show ?thesis by (simp add: parse_unsigned_def)
qed

section \<open>Cutting and splitting\<close>

text \<open>\<open>trim_start_matches\<close> of a character: every leading occurrence goes.\<close>

definition trim_start_char :: "char \<Rightarrow> string \<Rightarrow> string" where
  "trim_start_char c = dropWhile (\<lambda>x. x = c)"

definition strip_prefix :: "string \<Rightarrow> string \<Rightarrow> string option" where
  "strip_prefix s pre = (if starts_with s pre then Some (drop (length pre) s) else None)"

definition strip_suffix :: "string \<Rightarrow> string \<Rightarrow> string option" where
  "strip_suffix s suf = (if ends_with s suf then Some (take (length s - length suf) s) else None)"

definition split_once :: "char \<Rightarrow> string \<Rightarrow> (string \<times> string) option" where
  "split_once d s =
     (if d \<in> set s then Some (takeWhile (\<lambda>c. c \<noteq> d) s, tl (dropWhile (\<lambda>c. c \<noteq> d) s)) else None)"

definition rsplit_once :: "char \<Rightarrow> string \<Rightarrow> (string \<times> string) option" where
  "rsplit_once d s = map_option (\<lambda>(after, before). (rev before, rev after)) (split_once d (rev s))"

text \<open>\<open>split(d)\<close> yields one more piece than there are separators.\<close>

fun split_on :: "char \<Rightarrow> string \<Rightarrow> string list" where
  "split_on d [] = [[]]"
| "split_on d (c # s) =
     (if c = d then [] # split_on d s
      else (case split_on d s of [] \<Rightarrow> [[c]] | p # ps \<Rightarrow> (c # p) # ps))"

text \<open>\<open>lines()\<close>: a line may end in a carriage return, and the last line may lack its end.\<close>

definition str_lines :: "string \<Rightarrow> string list" where
  "str_lines s =
     (let ps = split_on (CHR 0x0A) s; full = (if last ps = [] then butlast ps else ps);
          cut = (\<lambda>l. unwrap_or (strip_suffix l [CHR 0x0D]) l)
      in if last ps = [] then map cut full else map cut (butlast full) @ [last full])"

text \<open>\<open>split_whitespace()\<close>: the pieces between the white space, none of them empty.\<close>

function ws_words :: "string \<Rightarrow> string \<Rightarrow> string list" where
  "ws_words acc s =
     (let flush = (if acc = [] then [] else [rev acc]) in
      case s of
        [] \<Rightarrow> flush
      | c # cs \<Rightarrow>
          (case List.find (\<lambda>w. starts_with s w) white_space of
             None \<Rightarrow> ws_words (c # acc) cs
           | Some w \<Rightarrow> flush @ ws_words [] (drop (max 1 (length w)) s)))"
  by pat_completeness auto
termination
  by (relation "measure (\<lambda>(_, s). length s)") (auto simp: less_Suc_eq_le)

definition split_whitespace :: "string \<Rightarrow> string list" where
  "split_whitespace s = ws_words [] s"

lemma strip_prefix_append [simp]: "strip_prefix (pre @ s) pre = Some s"
  by (simp add: strip_prefix_def starts_with_def)

lemma strip_prefix_Some: "strip_prefix s pre = Some t \<longleftrightarrow> s = pre @ t"
  by (auto simp: strip_prefix_def starts_with_def) (metis append_take_drop_id)

lemma ends_with_append [simp]: "ends_with (s @ suf) suf"
  by (simp add: ends_with_def)

lemma strip_suffix_append [simp]: "strip_suffix (s @ suf) suf = Some s"
  by (simp add: strip_suffix_def)

lemma split_once_append [simp]: "d \<notin> set a \<Longrightarrow> split_once d (a @ d # b) = Some (a, b)"
  by (induction a) (auto simp: split_once_def split: if_splits)

lemma split_once_Some: "split_once d s = Some (a, b) \<Longrightarrow> s = a @ d # b \<and> d \<notin> set a"
proof -
  assume split: "split_once d s = Some (a, b)"
  then have mem: "d \<in> set s" and a: "a = takeWhile (\<lambda>c. c \<noteq> d) s"
    and b: "b = tl (dropWhile (\<lambda>c. c \<noteq> d) s)"
    by (auto simp: split_once_def split: if_splits)
  from mem have "dropWhile (\<lambda>c. c \<noteq> d) s \<noteq> []" by auto
  then have "dropWhile (\<lambda>c. c \<noteq> d) s = d # b"
    using hd_dropWhile [of "\<lambda>c. c \<noteq> d" s] b by (cases "dropWhile (\<lambda>c. c \<noteq> d) s") auto
  then show ?thesis
    using a takeWhile_dropWhile_id [of "\<lambda>c. c \<noteq> d" s] set_takeWhileD [of d "\<lambda>c. c \<noteq> d" s] by auto
qed

lemma split_on_not_Nil [simp]: "split_on d s \<noteq> []"
  by (induction s) (auto split: list.split)

lemma join_split_on [simp]: "join [d] (split_on d s) = s"
proof (induction s)
  case Nil
  then show ?case by simp
next
  case (Cons c s)
  obtain p ps where "split_on d s = p # ps" by (meson neq_Nil_conv split_on_not_Nil)
  with Cons.IH show ?case by (cases ps) auto
qed

lemma contains_str_append: "contains_str needle (a @ needle @ b)"
proof (induction a)
  case Nil
  have "starts_with (needle @ b) needle" by (simp add: starts_with_def)
  then show ?case by (cases "needle @ b") auto
qed simp

lemma contains_str_iff: "contains_str needle s \<longleftrightarrow> (\<exists>a b. s = a @ needle @ b)"
proof
  show "contains_str needle s \<Longrightarrow> \<exists>a b. s = a @ needle @ b"
  proof (induction s)
    case Nil
    then show ?case by simp
  next
    case (Cons c s)
    then consider "starts_with (c # s) needle" | "contains_str needle s" by auto
    then show ?case
    proof cases
      case 1
      then have "c # s = [] @ needle @ drop (length needle) (c # s)"
        by (metis append.left_neutral append_take_drop_id starts_with_def)
      then show ?thesis by blast
    next
      case 2
      with Cons.IH obtain a b where "s = a @ needle @ b" by blast
      then show ?thesis by (metis append_Cons)
    qed
  qed
qed (auto simp: contains_str_append)

end
