(* ===== verification/Ids.thy ===== *)
theory Ids
  imports OrdMap Strings "HOL-Library.Char_ord" "HOL-Library.List_Lexorder" "HOL-Library.Product_Lexorder"
begin

text \<open>
  The identities of the managed-agent subsystem: the UUID newtypes made by the macro
  \<open>uuid_id!\<close> (\<open>managed_agents.rs\<close>), \<open>ManagedCommandId\<close> (\<open>runtime_types.rs\<close>) and
  \<open>OmegonTaskId\<close>.  A UUID is its 128-bit value; \<open>uuid::Uuid\<close> orders UUIDs by their
  big-endian bytes, which is the unsigned order of the value, and the newtypes derive \<open>Ord\<close>
  from it.  \<open>Uuid::new_v4()\<close> is random: an operation that draws one takes the drawn identity as
  an argument.
\<close>

type_synonym Uuid = u128

datatype ManagedRunId = ManagedRunId (run_uuid: Uuid)
datatype WorkerId = WorkerId (worker_uuid: Uuid)
datatype ManagedCommandId = ManagedCommandId (command_uuid: Uuid)

instantiation ManagedRunId :: linorder
begin

definition less_eq_ManagedRunId :: "ManagedRunId \<Rightarrow> ManagedRunId \<Rightarrow> bool" where
  "less_eq_ManagedRunId a b \<longleftrightarrow> run_uuid a \<le> run_uuid b"

definition less_ManagedRunId :: "ManagedRunId \<Rightarrow> ManagedRunId \<Rightarrow> bool" where
  "less_ManagedRunId a b \<longleftrightarrow> run_uuid a < run_uuid b"

instance
  by standard
    (auto simp: less_eq_ManagedRunId_def less_ManagedRunId_def intro: ManagedRunId.expand)

end

instantiation ManagedCommandId :: linorder
begin

definition less_eq_ManagedCommandId :: "ManagedCommandId \<Rightarrow> ManagedCommandId \<Rightarrow> bool" where
  "less_eq_ManagedCommandId a b \<longleftrightarrow> command_uuid a \<le> command_uuid b"

definition less_ManagedCommandId :: "ManagedCommandId \<Rightarrow> ManagedCommandId \<Rightarrow> bool" where
  "less_ManagedCommandId a b \<longleftrightarrow> command_uuid a < command_uuid b"

instance
  by standard
    (auto simp: less_eq_ManagedCommandId_def less_ManagedCommandId_def
      intro: ManagedCommandId.expand)

end

instantiation WorkerId :: linorder
begin

definition less_eq_WorkerId :: "WorkerId \<Rightarrow> WorkerId \<Rightarrow> bool" where
  "less_eq_WorkerId a b \<longleftrightarrow> worker_uuid a \<le> worker_uuid b"

definition less_WorkerId :: "WorkerId \<Rightarrow> WorkerId \<Rightarrow> bool" where
  "less_WorkerId a b \<longleftrightarrow> worker_uuid a < worker_uuid b"

instance
  by standard (auto simp: less_eq_WorkerId_def less_WorkerId_def intro: WorkerId.expand)

end

lemmas id_order_defs [simp] =
  less_eq_ManagedRunId_def less_ManagedRunId_def less_eq_ManagedCommandId_def
  less_ManagedCommandId_def less_eq_WorkerId_def less_WorkerId_def

datatype OmegonTaskId = OmegonTaskId (as_str: string)

datatype ManagedAgentValidationError =
    EmptyOmegonTaskId
  | EmptyDirective
  | ZeroSupervisorDeadline
  | EmptyParentSessionId
  | EmptyParentTurnId

text \<open>\<open>OmegonTaskId::parse\<close>.\<close>

definition parse_task_id :: "string \<Rightarrow> ManagedAgentValidationError + OmegonTaskId" where
  "parse_task_id value =
     (let trimmed = trim value
      in if trimmed = [] then Err EmptyOmegonTaskId else Ok (OmegonTaskId trimmed))"

lemma parse_task_id_Ok:
  "parse_task_id v = Ok t \<longleftrightarrow> trim v \<noteq> [] \<and> as_str t = trim v"
  by (cases t) (auto simp: parse_task_id_def Let_def)

end
