(* ===== verification/Managed_Agents.thy ===== *)
theory Managed_Agents
  imports Ids
begin

text \<open>
  The supervision domain of \<open>auspex-core/src/managed_agents.rs\<close>: the request of a managed run,
  the worker's observations, the run state machine with its eleven operations, and the contract
  the operations share.  Every operation returns its \<open>Result\<close> and the run, which it may have
  written before failing.
\<close>

section \<open>Requests\<close>

datatype WorkerProfile = Scout | Patch | Verify

record ManagedRunRequest =
  req_directive :: string
  req_worker_profile :: WorkerProfile
  req_scope :: "string list" \<comment> \<open>a \<open>BTreeSet\<close>, in iteration order\<close>
  req_model :: "string option"
  req_thinking_level :: "string option"
  req_supervisor_deadline_seconds :: u64

definition new_request ::
  "string \<Rightarrow> WorkerProfile \<Rightarrow> string list \<Rightarrow> u64 \<Rightarrow> ManagedAgentValidationError + ManagedRunRequest"
where
  "new_request directive worker_profile scope supervisor_deadline_seconds =
     (let directive = trim directive
      in if directive = [] then Err EmptyDirective
         else if supervisor_deadline_seconds = 0 then Err ZeroSupervisorDeadline
         else Ok \<lparr>req_directive = directive,
                  req_worker_profile = worker_profile,
                  req_scope = scope,
                  req_model = None,
                  req_thinking_level = None,
                  req_supervisor_deadline_seconds = supervisor_deadline_seconds\<rparr>)"

section \<open>Observations of the worker\<close>

datatype OmegonFailureKind =
  MissingLocalModel | MissingCredential | ProviderStartup | WorkspaceStartup | Unknown

fun failure_code :: "OmegonFailureKind \<Rightarrow> string" where
  "failure_code MissingLocalModel = ''missing_local_model''"
| "failure_code MissingCredential = ''missing_credential''"
| "failure_code ProviderStartup = ''provider_startup''"
| "failure_code WorkspaceStartup = ''workspace_startup''"
| "failure_code Unknown = ''unknown''"

datatype OmegonDelegateStatus =
    Running
  | Completed bool
  | Failed OmegonFailureKind string
  | Cancelled "string option" bool

record ToolActivityObservation =
  act_tool :: string
  act_args_summary :: "string option"

record ChecklistItemObservation =
  chk_label :: string
  chk_done :: bool

record RouteObservation =
  rt_model :: "string option"
  rt_provider :: "string option"
  rt_fallback_used :: bool

record OmegonDelegateObservation =
  obs_task_id :: OmegonTaskId
  obs_label :: "string option"
  obs_agent_name :: "string option"
  obs_task_description :: string
  obs_status :: OmegonDelegateStatus
  obs_result :: "string option"
  obs_result_viewed :: bool
  obs_started_at_unix_ms :: u64
  obs_completed_at_unix_ms :: "u64 option"
  obs_last_tool :: "ToolActivityObservation option"
  obs_last_turn :: "u32 option"
  obs_checklist :: "ChecklistItemObservation list"
  obs_route :: "RouteObservation option"

record OmegonEffectivePolicy =
  pol_worker_profile :: WorkerProfile
  pol_max_turns :: u32
  pol_wall_timeout_seconds :: u64
  pol_idle_timeout_seconds :: u64
  pol_enabled_tools :: "string list"
  pol_model :: "string option"
  pol_thinking_level :: "string option"

section \<open>Results and failures\<close>

record ManagedRunResult =
  res_summary :: string
  res_changed_files :: "string list"
  res_validation :: "string list"
  res_commits :: "string list"
  res_artifacts :: "string list"
  res_questions :: "string list"

definition normalize_raw_result :: "string \<Rightarrow> ManagedRunResult" where
  "normalize_raw_result result =
     \<lparr>res_summary = result, res_changed_files = [], res_validation = [], res_commits = [],
      res_artifacts = [], res_questions = []\<rparr>"

record ManagedRunFailure =
  fail_code :: string
  fail_safe_message :: string

definition reported_failure :: "string \<Rightarrow> ManagedRunResult option \<Rightarrow> ManagedRunFailure" where
  "reported_failure code result =
     \<lparr>fail_code = code,
      fail_safe_message =
        unwrap_or (map_option res_summary result) ''Delegate reported unsuccessful completion''\<rparr>"

section \<open>The run\<close>

datatype ManagedRunState =
    Dispatching
  | DispatchTimedOut
  | Running
  | Cancelling "string option"
  | Completed ManagedRunResult
  | Failed ManagedRunFailure
  | Cancelled "string option" bool
  | Disconnected "OmegonDelegateObservation option"

fun is_terminal :: "ManagedRunState \<Rightarrow> bool" where
  "is_terminal DispatchTimedOut = True"
| "is_terminal (ManagedRunState.Completed _) = True"
| "is_terminal (ManagedRunState.Failed _) = True"
| "is_terminal (ManagedRunState.Cancelled _ confirmed) = confirmed"
| "is_terminal _ = False"

datatype ManagedRunTransitionError =
    InvalidState
  | TerminalRun
  | DispatchNotAccepted
  | TaskIdentityMismatch
  | ResultRequired

record ManagedAgentRun =
  run_id :: ManagedRunId
  run_worker_id :: WorkerId
  run_parent_session_id :: string
  run_parent_turn_id :: string
  run_request :: ManagedRunRequest
  run_omegon_task_id :: "OmegonTaskId option"
  run_state :: ManagedRunState
  run_latest_observation :: "OmegonDelegateObservation option"

text \<open>\<open>ManagedAgentRun::new\<close>; \<open>fresh\<close> is the identity drawn by \<open>ManagedRunId::new()\<close>.\<close>

definition new_run ::
  "ManagedRunId \<Rightarrow> WorkerId \<Rightarrow> string \<Rightarrow> string \<Rightarrow> ManagedRunRequest \<Rightarrow>
     ManagedAgentValidationError + ManagedAgentRun"
where
  "new_run fresh worker_id parent_session_id parent_turn_id request =
     (if trim parent_session_id = [] then Err EmptyParentSessionId
      else if trim parent_turn_id = [] then Err EmptyParentTurnId
      else Ok \<lparr>run_id = fresh,
               run_worker_id = worker_id,
               run_parent_session_id = parent_session_id,
               run_parent_turn_id = parent_turn_id,
               run_request = request,
               run_omegon_task_id = None,
               run_state = Dispatching,
               run_latest_observation = None\<rparr>)"

type_synonym run_op = "ManagedAgentRun \<Rightarrow> (ManagedRunTransitionError + unit) \<times> ManagedAgentRun"

definition accept_dispatch :: "OmegonTaskId \<Rightarrow> run_op" where
  "accept_dispatch task_id r =
     (case run_state r of
        Dispatching \<Rightarrow>
          (Ok (), r\<lparr>run_omegon_task_id := Some task_id, run_state := ManagedRunState.Running\<rparr>)
      | _ \<Rightarrow> (Err InvalidState, r))"

definition request_cancellation :: "string option \<Rightarrow> run_op" where
  "request_cancellation reason r =
     (case run_state r of
        ManagedRunState.Running \<Rightarrow> (Ok (), r\<lparr>run_state := Cancelling reason\<rparr>)
      | Disconnected _ \<Rightarrow> (Ok (), r\<lparr>run_state := Cancelling reason\<rparr>)
      | _ \<Rightarrow> (Err InvalidState, r))"

text \<open>The state an observation puts the run in, the \<open>match\<close> of \<open>apply_observation\<close>.\<close>

definition observed_state ::
  "OmegonDelegateObservation \<Rightarrow> ManagedRunTransitionError + ManagedRunState"
where
  "observed_state observation =
     (case obs_status observation of
        OmegonDelegateStatus.Running \<Rightarrow> Ok ManagedRunState.Running
      | OmegonDelegateStatus.Completed success \<Rightarrow>
          (if success then
             (case obs_result observation of
                None \<Rightarrow> Err ResultRequired
              | Some result \<Rightarrow> Ok (ManagedRunState.Completed (normalize_raw_result result)))
           else
             Ok (ManagedRunState.Failed
                   (reported_failure ''delegate_completed_unsuccessfully''
                      (map_option normalize_raw_result (obs_result observation)))))
      | OmegonDelegateStatus.Failed kind safe_message \<Rightarrow>
          Ok (ManagedRunState.Failed
                \<lparr>fail_code = failure_code kind, fail_safe_message = safe_message\<rparr>)
      | OmegonDelegateStatus.Cancelled reason confirmed \<Rightarrow>
          Ok (ManagedRunState.Cancelled reason confirmed))"

definition apply_observation :: "OmegonDelegateObservation \<Rightarrow> run_op" where
  "apply_observation observation r =
     (case run_omegon_task_id r of
        None \<Rightarrow> (Err DispatchNotAccepted, r)
      | Some expected \<Rightarrow>
          if expected \<noteq> obs_task_id observation then (Err TaskIdentityMismatch, r)
          else (case observed_state observation of
                  Inl e \<Rightarrow> (Err e, r)
                | Inr st \<Rightarrow>
                    (Ok (), r\<lparr>run_state := st, run_latest_observation := Some observation\<rparr>)))"

definition mark_dispatch_timed_out :: run_op where
  "mark_dispatch_timed_out r =
     (case run_state r of
        Dispatching \<Rightarrow> (Ok (), r\<lparr>run_state := DispatchTimedOut\<rparr>)
      | _ \<Rightarrow> (Err InvalidState, r))"

definition apply_cancellation_response :: "bool \<Rightarrow> bool \<Rightarrow> string option \<Rightarrow> run_op" where
  "apply_cancellation_response acknowledged confirmed reason r =
     (case run_state r of
        Cancelling _ \<Rightarrow>
          if confirmed then (Ok (), r\<lparr>run_state := ManagedRunState.Cancelled reason True\<rparr>)
          else if \<not> acknowledged then (Err InvalidState, r)
          else (Ok (), r)
      | _ \<Rightarrow> (Err InvalidState, r))"

definition complete_from_result :: "string \<Rightarrow> run_op" where
  "complete_from_result result r =
     (if is_terminal (run_state r) \<and>
         \<not> (case run_state r of ManagedRunState.Completed _ \<Rightarrow> True | _ \<Rightarrow> False)
      then (Err TerminalRun, r)
      else (Ok (), r\<lparr>run_state := ManagedRunState.Completed (normalize_raw_result result)\<rparr>))"

definition fail :: "string \<Rightarrow> string \<Rightarrow> run_op" where
  "fail code safe_message r =
     (if is_terminal (run_state r) then (Err TerminalRun, r)
      else (Ok (), r\<lparr>run_state :=
              ManagedRunState.Failed \<lparr>fail_code = code, fail_safe_message = safe_message\<rparr>\<rparr>))"

definition mark_cancellation_accepted :: "string option \<Rightarrow> run_op" where
  "mark_cancellation_accepted reason r =
     (case run_state r of
        ManagedRunState.Running \<Rightarrow> (Ok (), r\<lparr>run_state := Cancelling reason\<rparr>)
      | Disconnected _ \<Rightarrow> (Ok (), r\<lparr>run_state := Cancelling reason\<rparr>)
      | Cancelling current \<Rightarrow>
          (Ok (), if reason \<noteq> None then r\<lparr>run_state := Cancelling reason\<rparr> else r)
      | state \<Rightarrow>
          if is_terminal state then (Err TerminalRun, r) else (Err InvalidState, r))"

definition confirm_termination :: "string option \<Rightarrow> run_op" where
  "confirm_termination reason r =
     (if is_terminal (run_state r) then (Err TerminalRun, r)
      else (Ok (), r\<lparr>run_state := ManagedRunState.Cancelled reason True\<rparr>))"

definition mark_reconnected :: run_op where
  "mark_reconnected r =
     (case run_state r of
        Disconnected _ \<Rightarrow> (Ok (), r\<lparr>run_state := ManagedRunState.Running\<rparr>)
      | state \<Rightarrow> if is_terminal state then (Err TerminalRun, r) else (Ok (), r))"

definition mark_disconnected :: run_op where
  "mark_disconnected r =
     (if is_terminal (run_state r) then (Err TerminalRun, r)
      else (Ok (), r\<lparr>run_state := Disconnected (run_latest_observation r)\<rparr>))"

lemmas run_op_defs =
  accept_dispatch_def request_cancellation_def apply_observation_def mark_dispatch_timed_out_def
  apply_cancellation_response_def complete_from_result_def fail_def mark_cancellation_accepted_def
  confirm_termination_def mark_reconnected_def mark_disconnected_def

section \<open>What every operation keeps\<close>

text \<open>
  The identity of a run is written once, by \<open>new_run\<close>.  Well-formedness relates the fields the
  operations write: a run that is still dispatching (or timed out while doing so) has no task
  handle, an observation is always one of the task the run is bound to, and a disconnected run
  carries the latest observation.
\<close>

definition same_identity :: "ManagedAgentRun \<Rightarrow> ManagedAgentRun \<Rightarrow> bool" where
  "same_identity r r' \<longleftrightarrow>
     run_id r' = run_id r \<and> run_worker_id r' = run_worker_id r \<and>
     run_parent_session_id r' = run_parent_session_id r \<and>
     run_parent_turn_id r' = run_parent_turn_id r \<and> run_request r' = run_request r"

definition wf_request :: "ManagedRunRequest \<Rightarrow> bool" where
  "wf_request q \<longleftrightarrow>
     req_directive q \<noteq> [] \<and> trim (req_directive q) = req_directive q \<and>
     req_supervisor_deadline_seconds q \<noteq> 0"

fun state_fits :: "ManagedRunState \<Rightarrow> OmegonTaskId option \<Rightarrow> OmegonDelegateObservation option \<Rightarrow> bool" where
  "state_fits Dispatching task seen = (task = None)"
| "state_fits DispatchTimedOut task seen = (task = None)"
| "state_fits (Disconnected kept) task seen = (kept = seen)"
| "state_fits _ task seen = True"

definition observation_fits :: "OmegonTaskId option \<Rightarrow> OmegonDelegateObservation option \<Rightarrow> bool" where
  "observation_fits task seen \<longleftrightarrow> seen = None \<or> map_option obs_task_id seen = task"

definition wf_run :: "ManagedAgentRun \<Rightarrow> bool" where
  "wf_run r \<longleftrightarrow>
     trim (run_parent_session_id r) \<noteq> [] \<and> trim (run_parent_turn_id r) \<noteq> [] \<and>
     state_fits (run_state r) (run_omegon_task_id r) (run_latest_observation r) \<and>
     observation_fits (run_omegon_task_id r) (run_latest_observation r)"

lemma observation_fits_simps [simp]:
  "observation_fits None seen \<longleftrightarrow> seen = None"
  "observation_fits task None"
  "observation_fits task (Some observation) \<longleftrightarrow> task = Some (obs_task_id observation)"
  by (auto simp: observation_fits_def)

lemma new_request_wf:
  "new_request d p sc secs = Ok q \<Longrightarrow> wf_request q \<and> req_directive q = trim d"
  by (auto simp: new_request_def wf_request_def Let_def split: if_splits)

lemma new_run_wf:
  "new_run fresh w ps pt q = Ok r \<Longrightarrow>
     wf_run r \<and> run_state r = Dispatching \<and> run_id r = fresh \<and> run_worker_id r = w \<and>
     run_parent_session_id r = ps \<and> run_parent_turn_id r = pt \<and> run_request r = q"
  by (auto simp: new_run_def wf_run_def split: if_splits)

lemma same_identity_refl [simp]: "same_identity r r"
  by (simp add: same_identity_def)

lemma same_identity_trans: "same_identity a b \<Longrightarrow> same_identity b c \<Longrightarrow> same_identity a c"
  by (simp add: same_identity_def)

locale run_operation =
  fixes op :: run_op
  assumes keeps_identity: "same_identity r (snd (op r))"
    and keeps_wf: "wf_run r \<Longrightarrow> wf_run (snd (op r))"
    and keeps_task: "wf_run r \<Longrightarrow> run_omegon_task_id r = Some t \<Longrightarrow>
                       run_omegon_task_id (snd (op r)) = Some t"
    and error_frame: "fst (op r) = Err e \<Longrightarrow> snd (op r) = r"
begin

lemma keeps_id [simp]: "run_id (snd (op r)) = run_id r"
  using keeps_identity [of r] by (simp add: same_identity_def)

lemma keeps_worker [simp]: "run_worker_id (snd (op r)) = run_worker_id r"
  using keeps_identity [of r] by (simp add: same_identity_def)

lemma keeps_parent_session [simp]: "run_parent_session_id (snd (op r)) = run_parent_session_id r"
  using keeps_identity [of r] by (simp add: same_identity_def)

lemma changed_ok: "snd (op r) \<noteq> r \<Longrightarrow> fst (op r) = Ok ()"
  by (cases "fst (op r)") (auto dest: error_frame)

end

text \<open>
  A terminal-guarded operation leaves a terminal run alone; a terminal-stable one may rewrite the
  payload of the terminal state (a completed run accepts a newer result text) but not its kind.
\<close>

datatype terminal_kind = KTimedOut | KCompleted | KFailed | KCancelled

fun terminal_kind_of :: "ManagedRunState \<Rightarrow> terminal_kind option" where
  "terminal_kind_of DispatchTimedOut = Some KTimedOut"
| "terminal_kind_of (ManagedRunState.Completed _) = Some KCompleted"
| "terminal_kind_of (ManagedRunState.Failed _) = Some KFailed"
| "terminal_kind_of (ManagedRunState.Cancelled _ confirmed) =
     (if confirmed then Some KCancelled else None)"
| "terminal_kind_of _ = None"

lemma is_terminal_kind: "is_terminal st \<longleftrightarrow> terminal_kind_of st \<noteq> None"
  by (cases st) auto

locale terminal_stable = run_operation +
  assumes terminal_kind_kept:
    "is_terminal (run_state r) \<Longrightarrow>
       terminal_kind_of (run_state (snd (op r))) = terminal_kind_of (run_state r)"

locale terminal_guarded = run_operation +
  assumes terminal_fixed: "is_terminal (run_state r) \<Longrightarrow> snd (op r) = r"

sublocale terminal_guarded \<subseteq> terminal_stable
  by unfold_locales (simp add: terminal_fixed)

lemma observed_state_fits: "observed_state observation = Ok st \<Longrightarrow> state_fits st task seen"
  by (auto simp: observed_state_def split: OmegonDelegateStatus.splits option.splits if_splits)

lemmas run_contract_simps = run_op_defs same_identity_def wf_run_def

interpretation accept_op: terminal_guarded "accept_dispatch t" for t
  by (unfold_locales; case_tac "run_state r"; auto simp: run_contract_simps split: if_splits)

interpretation request_cancel_op: terminal_guarded "request_cancellation reason" for reason
  by (unfold_locales; case_tac "run_state r"; auto simp: run_contract_simps split: if_splits)

interpretation timeout_op: terminal_guarded mark_dispatch_timed_out
  by (unfold_locales; case_tac "run_state r"; auto simp: run_contract_simps split: if_splits)

interpretation cancel_response_op:
  terminal_guarded "apply_cancellation_response acknowledged confirmed reason"
  for acknowledged confirmed reason
  by (unfold_locales; case_tac "run_state r"; auto simp: run_contract_simps split: if_splits)

interpretation fail_op: terminal_guarded "fail code msg" for code msg
  by (unfold_locales; case_tac "run_state r"; auto simp: run_contract_simps split: if_splits)

interpretation cancel_accepted_op: terminal_guarded "mark_cancellation_accepted reason" for reason
  by (unfold_locales; case_tac "run_state r"; auto simp: run_contract_simps split: if_splits)

interpretation confirm_op: terminal_guarded "confirm_termination reason" for reason
  by (unfold_locales; case_tac "run_state r"; auto simp: run_contract_simps split: if_splits)

interpretation reconnect_op: terminal_guarded mark_reconnected
  by (unfold_locales; case_tac "run_state r"; auto simp: run_contract_simps split: if_splits)

interpretation disconnect_op: terminal_guarded mark_disconnected
  by (unfold_locales; case_tac "run_state r"; auto simp: run_contract_simps split: if_splits)

interpretation complete_op: terminal_stable "complete_from_result result" for result
  by (unfold_locales; case_tac "run_state r"; auto simp: run_contract_simps split: if_splits)

interpretation observe_op: run_operation "apply_observation observation" for observation
  by (unfold_locales; auto simp: run_contract_simps observed_state_fits
        split: option.splits sum.splits if_splits)

section \<open>Runs of the machine\<close>

text \<open>
  The public methods of \<open>ManagedAgentRun\<close> that write the run, as calls: what the supervisor and
  the workers do to one run is a sequence of calls, in any order, each of which may fail.
\<close>

datatype run_call =
    CallAcceptDispatch OmegonTaskId
  | CallRequestCancellation "string option"
  | CallApplyObservation OmegonDelegateObservation
  | CallMarkDispatchTimedOut
  | CallApplyCancellationResponse bool bool "string option"
  | CallCompleteFromResult string
  | CallFail string string
  | CallMarkCancellationAccepted "string option"
  | CallConfirmTermination "string option"
  | CallMarkReconnected
  | CallMarkDisconnected

fun perform :: "run_call \<Rightarrow> run_op" where
  "perform (CallAcceptDispatch t) = accept_dispatch t"
| "perform (CallRequestCancellation reason) = request_cancellation reason"
| "perform (CallApplyObservation observation) = apply_observation observation"
| "perform CallMarkDispatchTimedOut = mark_dispatch_timed_out"
| "perform (CallApplyCancellationResponse ack confirmed reason) =
     apply_cancellation_response ack confirmed reason"
| "perform (CallCompleteFromResult result) = complete_from_result result"
| "perform (CallFail code msg) = fail code msg"
| "perform (CallMarkCancellationAccepted reason) = mark_cancellation_accepted reason"
| "perform (CallConfirmTermination reason) = confirm_termination reason"
| "perform CallMarkReconnected = mark_reconnected"
| "perform CallMarkDisconnected = mark_disconnected"

fun run_calls :: "run_call list \<Rightarrow> ManagedAgentRun \<Rightarrow> ManagedAgentRun" where
  "run_calls [] r = r"
| "run_calls (c # cs) r = run_calls cs (snd (perform c r))"

inductive reachable_run :: "ManagedAgentRun \<Rightarrow> bool" where
  created: "new_run fresh w ps pt q = Ok r \<Longrightarrow> reachable_run r"
| called: "reachable_run r \<Longrightarrow> reachable_run (snd (perform c r))"

text \<open>Every call meets the contract; every call but an observation is terminal-stable.\<close>

interpretation call_op: run_operation "perform c" for c
proof (cases c)
  case (CallAcceptDispatch t)
  then show "run_operation (perform c)" by (simp add: accept_op.run_operation_axioms)
next
  case (CallRequestCancellation reason)
  then show "run_operation (perform c)" by (simp add: request_cancel_op.run_operation_axioms)
next
  case (CallApplyObservation observation)
  then show "run_operation (perform c)" by (simp add: observe_op.run_operation_axioms)
next
  case CallMarkDispatchTimedOut
  then show "run_operation (perform c)" by (simp add: timeout_op.run_operation_axioms)
next
  case (CallApplyCancellationResponse ack confirmed reason)
  then show "run_operation (perform c)" by (simp add: cancel_response_op.run_operation_axioms)
next
  case (CallCompleteFromResult result)
  then show "run_operation (perform c)" by (simp add: complete_op.run_operation_axioms)
next
  case (CallFail code msg)
  then show "run_operation (perform c)" by (simp add: fail_op.run_operation_axioms)
next
  case (CallMarkCancellationAccepted reason)
  then show "run_operation (perform c)" by (simp add: cancel_accepted_op.run_operation_axioms)
next
  case (CallConfirmTermination reason)
  then show "run_operation (perform c)" by (simp add: confirm_op.run_operation_axioms)
next
  case CallMarkReconnected
  then show "run_operation (perform c)" by (simp add: reconnect_op.run_operation_axioms)
next
  case CallMarkDisconnected
  then show "run_operation (perform c)" by (simp add: disconnect_op.run_operation_axioms)
qed

fun is_observation :: "run_call \<Rightarrow> bool" where
  "is_observation (CallApplyObservation _) = True"
| "is_observation _ = False"

lemmas terminal_kind_rules =
  accept_op.terminal_kind_kept request_cancel_op.terminal_kind_kept timeout_op.terminal_kind_kept
  cancel_response_op.terminal_kind_kept complete_op.terminal_kind_kept fail_op.terminal_kind_kept
  cancel_accepted_op.terminal_kind_kept confirm_op.terminal_kind_kept
  reconnect_op.terminal_kind_kept disconnect_op.terminal_kind_kept

lemma perform_terminal_kind:
  "\<not> is_observation c \<Longrightarrow> is_terminal (run_state r) \<Longrightarrow>
     terminal_kind_of (run_state (snd (perform c r))) = terminal_kind_of (run_state r)"
  by (cases c) (simp_all add: terminal_kind_rules)

lemma reachable_run_calls: "reachable_run r \<Longrightarrow> reachable_run (run_calls cs r)"
  by (induction cs arbitrary: r) (auto intro: reachable_run.called)

lemma run_calls_identity: "same_identity r (run_calls cs r)"
  by (induction cs arbitrary: r) (auto intro: same_identity_trans call_op.keeps_identity)

lemma run_calls_wf: "wf_run r \<Longrightarrow> wf_run (run_calls cs r)"
  by (induction cs arbitrary: r) (auto intro: call_op.keeps_wf)

lemma run_calls_task:
  "wf_run r \<Longrightarrow> run_omegon_task_id r = Some t \<Longrightarrow> run_omegon_task_id (run_calls cs r) = Some t"
  by (induction cs arbitrary: r) (auto intro: call_op.keeps_wf call_op.keeps_task)

lemma run_calls_terminal_kind:
  "\<forall>c \<in> set cs. \<not> is_observation c \<Longrightarrow> is_terminal (run_state r) \<Longrightarrow>
     terminal_kind_of (run_state (run_calls cs r)) = terminal_kind_of (run_state r)"
proof (induction cs arbitrary: r)
  case Nil
  then show ?case by simp
next
  case (Cons c cs)
  then have kind: "terminal_kind_of (run_state (snd (perform c r))) = terminal_kind_of (run_state r)"
    by (simp add: perform_terminal_kind)
  with Cons.prems have "is_terminal (run_state (snd (perform c r)))"
    by (simp add: is_terminal_kind)
  with Cons kind show ?case by simp
qed

section \<open>An abstract machine of run phases\<close>

text \<open>
  The phases an operator sees and the moves between them that the supervisor itself can make; the
  worker's own reports (\<open>apply_observation\<close>) are not among them.  Every call of the supervisor
  refines one move, or stays where it is.
\<close>

datatype run_phase =
  PhPending | PhActive | PhStopping | PhDetached | PhStopReported | PhTerminal terminal_kind

fun phase_of :: "ManagedRunState \<Rightarrow> run_phase" where
  "phase_of Dispatching = PhPending"
| "phase_of DispatchTimedOut = PhTerminal KTimedOut"
| "phase_of ManagedRunState.Running = PhActive"
| "phase_of (Cancelling _) = PhStopping"
| "phase_of (ManagedRunState.Completed _) = PhTerminal KCompleted"
| "phase_of (ManagedRunState.Failed _) = PhTerminal KFailed"
| "phase_of (ManagedRunState.Cancelled _ confirmed) =
     (if confirmed then PhTerminal KCancelled else PhStopReported)"
| "phase_of (Disconnected _) = PhDetached"

inductive phase_step :: "run_phase \<Rightarrow> run_phase \<Rightarrow> bool" where
  accepted: "phase_step PhPending PhActive"
| timed_out: "phase_step PhPending (PhTerminal KTimedOut)"
| stop_active: "phase_step PhActive PhStopping"
| stop_detached: "phase_step PhDetached PhStopping"
| resumed: "phase_step PhDetached PhActive"
| lost: "p \<in> {PhPending, PhActive, PhStopping, PhStopReported} \<Longrightarrow> phase_step p PhDetached"
| ended: "\<forall>k. p \<noteq> PhTerminal k \<Longrightarrow> k' \<in> {KCompleted, KFailed, KCancelled} \<Longrightarrow>
            phase_step p (PhTerminal k')"

inductive_cases phase_step_terminalE: "phase_step (PhTerminal k) p"

lemma phase_terminal: "phase_of st = PhTerminal k \<longleftrightarrow> terminal_kind_of st = Some k"
  by (cases st) auto

lemma phase_step_from_terminal: "\<not> phase_step (PhTerminal k) p"
  by (auto elim: phase_step_terminalE)

lemma not_terminal_phase: "\<not> is_terminal st \<Longrightarrow> phase_of st \<noteq> PhTerminal k"
  by (cases st) auto

lemma perform_phase:
  "\<not> is_observation c \<Longrightarrow>
     phase_step\<^sup>=\<^sup>= (phase_of (run_state r)) (phase_of (run_state (snd (perform c r))))"
  by (cases c; cases "run_state r")
    (auto simp: run_op_defs intro: phase_step.intros)

lemma run_calls_phase:
  "\<forall>c \<in> set cs. \<not> is_observation c \<Longrightarrow>
     phase_step\<^sup>*\<^sup>* (phase_of (run_state r)) (phase_of (run_state (run_calls cs r)))"
proof (induction cs arbitrary: r)
  case Nil
  then show ?case by simp
next
  case (Cons c cs)
  from Cons.prems have "phase_step\<^sup>=\<^sup>= (phase_of (run_state r)) (phase_of (run_state (snd (perform c r))))"
    by (intro perform_phase) simp
  moreover from Cons have
    "phase_step\<^sup>*\<^sup>* (phase_of (run_state (snd (perform c r))))
       (phase_of (run_state (run_calls cs (snd (perform c r)))))"
    by simp
  ultimately show ?case
    by (auto intro: converse_rtranclp_into_rtranclp)
qed

section \<open>Properties\<close>

lemma run_calls_append: "run_calls (cs @ ds) r = run_calls ds (run_calls cs r)"
  by (induction cs arbitrary: r) simp_all

text \<open>
  C1: Whatever calls are made on a run after its creation, in whatever order and however many of
  them fail, the run stays well-formed, keeps the identity it was created with, and once it is
  bound to a task handle no later call rebinds or unbinds it.
\<close>

theorem run_lifecycle_invariant:
  assumes "new_run fresh w ps pt q = Ok r"
  shows "wf_run (run_calls cs r) \<and> same_identity r (run_calls cs r) \<and>
         (run_omegon_task_id (run_calls cs r) = Some t \<longrightarrow>
            run_omegon_task_id (run_calls (cs @ ds) r) = Some t)"
proof -
  from assms have "wf_run r" by (simp add: new_run_wf)
  then have "wf_run (run_calls cs r)" by (rule run_calls_wf)
  then show ?thesis
    by (auto simp: run_calls_identity run_calls_append intro: run_calls_task)
qed

definition sample_request :: ManagedRunRequest where
  "sample_request =
     \<lparr>req_directive = ''inspect'', req_worker_profile = Scout, req_scope = [''src''],
      req_model = None, req_thinking_level = None, req_supervisor_deadline_seconds = 60\<rparr>"

definition sample_run :: ManagedAgentRun where
  "sample_run =
     \<lparr>run_id = ManagedRunId 1, run_worker_id = WorkerId 2, run_parent_session_id = ''s'',
      run_parent_turn_id = ''t'', run_request = sample_request, run_omegon_task_id = None,
      run_state = Dispatching, run_latest_observation = None\<rparr>"

definition sample_observation :: "OmegonDelegateStatus \<Rightarrow> OmegonDelegateObservation" where
  "sample_observation st =
     \<lparr>obs_task_id = OmegonTaskId ''task'', obs_label = None, obs_agent_name = None,
      obs_task_description = ''d'', obs_status = st, obs_result = Some ''done'',
      obs_result_viewed = False, obs_started_at_unix_ms = 0, obs_completed_at_unix_ms = None,
      obs_last_tool = None, obs_last_turn = None, obs_checklist = [], obs_route = None\<rparr>"

lemma trim_samples [simp]: "trim ''s'' = ''s''" "trim ''t'' = ''t''"
  by code_simp+

lemma new_sample_run:
  "new_run (ManagedRunId 1) (WorkerId 2) ''s'' ''t'' sample_request = Ok sample_run"
  by (simp add: new_run_def sample_run_def)

theorem run_lifecycle_invariant_witness:
  "run_omegon_task_id
     (run_calls [CallAcceptDispatch (OmegonTaskId ''a''), CallMarkDisconnected,
                 CallAcceptDispatch (OmegonTaskId ''b''), CallMarkReconnected] sample_run) =
   Some (OmegonTaskId ''a'')"
  using run_lifecycle_invariant
    [OF new_sample_run, of "[CallAcceptDispatch (OmegonTaskId ''a'')]" "OmegonTaskId ''a''"
      "[CallMarkDisconnected, CallAcceptDispatch (OmegonTaskId ''b''), CallMarkReconnected]"]
  by (simp add: accept_dispatch_def sample_run_def)

text \<open>
  C2: A run that has timed out, completed, failed or been cancelled with confirmation stays so,
  with the same kind of outcome, under every sequence of calls that holds no worker observation:
  responses, A2A events, cancellations, deadlines and (re)connections cannot reopen it.
\<close>

theorem terminal_run_is_final:
  assumes "is_terminal (run_state r)" and "\<forall>c \<in> set cs. \<not> is_observation c"
  shows "is_terminal (run_state (run_calls cs r)) \<and>
         terminal_kind_of (run_state (run_calls cs r)) = terminal_kind_of (run_state r)"
  using run_calls_terminal_kind [OF assms(2,1)] assms(1) by (simp add: is_terminal_kind)

theorem terminal_run_is_final_witness:
  "terminal_kind_of (run_state
     (run_calls [CallMarkReconnected, CallCompleteFromResult ''late'', CallConfirmTermination None]
        (sample_run\<lparr>run_state := DispatchTimedOut\<rparr>))) = Some KTimedOut"
  using terminal_run_is_final
    [of "sample_run\<lparr>run_state := DispatchTimedOut\<rparr>"
      "[CallMarkReconnected, CallCompleteFromResult ''late'', CallConfirmTermination None]"]
  by simp



text \<open>
  A worker observation is not guarded by the terminal check the other operations make: a
  \<open>running\<close> report for the run's own task sets any run, also a completed, failed or cancelled
  one, back to running, and the earlier outcome is gone.
\<close>

theorem running_observation_reopens_any_run:
  assumes "run_omegon_task_id r = Some (obs_task_id observation)"
    and "obs_status observation = OmegonDelegateStatus.Running"
  shows "apply_observation observation r =
           (Ok (), r\<lparr>run_state := ManagedRunState.Running,
                      run_latest_observation := Some observation\<rparr>)"
  using assms by (simp add: apply_observation_def observed_state_def)

theorem running_observation_reopens_any_run_example:
  "\<exists>r. is_terminal (run_state r) \<and> wf_run r \<and>
       \<not> is_terminal (run_state (snd (apply_observation
            (sample_observation OmegonDelegateStatus.Running) r)))"
proof -
  let ?r = "sample_run\<lparr>run_omegon_task_id := Some (OmegonTaskId ''task''),
              run_state := ManagedRunState.Completed (normalize_raw_result ''done'')\<rparr>"
  have "is_terminal (run_state ?r)" and "wf_run ?r"
    by (simp_all add: wf_run_def sample_run_def)
  moreover have "run_state (snd (apply_observation (sample_observation OmegonDelegateStatus.Running) ?r)) =
        ManagedRunState.Running"
    using running_observation_reopens_any_run
      [of ?r "sample_observation OmegonDelegateStatus.Running"]
    by (simp add: sample_observation_def)
  ultimately show ?thesis by (intro exI [of _ ?r]) simp
qed

text \<open>
  A worker that disconnects and reconnects while its dispatch is still unanswered leaves the
  run running with no task handle: the dispatch response is then refused as an invalid state and
  every observation as not accepted, so only a cancellation or an outcome event can end the run.
\<close>

theorem reconnect_strands_unaccepted_run:
  assumes "new_run fresh w ps pt q = Ok r"
  shows "let r' = run_calls [CallMarkDisconnected, CallMarkReconnected] r
         in run_state r' = ManagedRunState.Running \<and> run_omegon_task_id r' = None \<and>
            accept_dispatch t r' = (Err InvalidState, r') \<and>
            apply_observation observation r' = (Err DispatchNotAccepted, r') \<and>
            mark_dispatch_timed_out r' = (Err InvalidState, r')"
proof -
  from assms have "run_state r = Dispatching" "run_omegon_task_id r = None"
    by (auto simp: new_run_def split: if_splits)
  then show ?thesis
    by (simp add: Let_def mark_disconnected_def mark_reconnected_def accept_dispatch_def
        apply_observation_def mark_dispatch_timed_out_def)
qed

theorem reconnect_strands_unaccepted_run_example:
  "fst (accept_dispatch (OmegonTaskId ''a'')
          (run_calls [CallMarkDisconnected, CallMarkReconnected] sample_run)) = Err InvalidState"
  using reconnect_strands_unaccepted_run
    [OF new_sample_run, of "OmegonTaskId ''a''" "sample_observation OmegonDelegateStatus.Running"]
  by (simp add: Let_def)

text \<open>
  Parsing a task handle is a normalisation: it fails exactly on blank text, the handle it
  returns is trimmed and not blank, and parsing the text of a parsed handle returns that handle.
\<close>

lemma parse_task_id_normalises:
  "(parse_task_id v = Err EmptyOmegonTaskId \<longleftrightarrow> trim v = []) \<and>
   (trim v \<noteq> [] \<longrightarrow>
      parse_task_id v = Ok (OmegonTaskId (trim v)) \<and>
      parse_task_id (as_str (OmegonTaskId (trim v))) = Ok (OmegonTaskId (trim v)))"
  by (auto simp: parse_task_id_def Let_def)

lemma parse_task_id_normalises_example:
  "parse_task_id '' task '' = Ok (OmegonTaskId ''task'')"
proof -
  have "trim '' task '' = ''task''" by code_simp
  then show ?thesis using parse_task_id_normalises [of "'' task ''"] by simp
qed

end
