(* ===== verification/Supervisor_Contract.thy ===== *)
theory Supervisor_Contract
  imports Managed_Agents
begin

text \<open>
  The wire contract between the supervisor and Omegon: the targeted commands of
  \<open>auspex-core/src/runtime_types.rs\<close> and the requests, responses, receipts and
  acknowledgements of \<open>auspex-core/src/managed_agent_supervisor.rs\<close> with their validation.
  \<open>'v\<close> is the type of \<open>serde_json::Value\<close>; the serialisers of \<open>serde_json\<close> are the fields
  of \<open>supervisor_encoder\<close>, an argument of the definitions that serialise.
\<close>

section \<open>Targeted commands\<close>

record CommandTarget =
  ct_session_key :: string
  ct_dispatcher_instance_id :: "string option"

record CanonicalSlashCommand =
  slash_name :: string
  slash_args :: string
  slash_raw_input :: string

datatype 'v OperatorCommand =
    PromptSubmit string
  | TurnCancel
  | CanonicalSlash CanonicalSlashCommand
  | DispatcherSwitch string string "string option"
  | ControlMethod ManagedCommandId string 'v

record 'v TargetedCommand =
  tc_target :: CommandTarget
  tc_command :: "'v OperatorCommand"

definition prompt_submit :: "CommandTarget \<Rightarrow> string \<Rightarrow> 'v TargetedCommand" where
  "prompt_submit target text = \<lparr>tc_target = target, tc_command = PromptSubmit text\<rparr>"

definition turn_cancel :: "CommandTarget \<Rightarrow> 'v TargetedCommand" where
  "turn_cancel target = \<lparr>tc_target = target, tc_command = TurnCancel\<rparr>"

definition canonical_slash :: "CommandTarget \<Rightarrow> CanonicalSlashCommand \<Rightarrow> 'v TargetedCommand" where
  "canonical_slash target slash = \<lparr>tc_target = target, tc_command = CanonicalSlash slash\<rparr>"

definition dispatcher_switch ::
  "CommandTarget \<Rightarrow> string \<Rightarrow> string \<Rightarrow> string option \<Rightarrow> 'v TargetedCommand"
where
  "dispatcher_switch target request_id profile model =
     \<lparr>tc_target = target, tc_command = DispatcherSwitch request_id profile model\<rparr>"

text \<open>\<open>fresh\<close> is the identity drawn by \<open>ManagedCommandId::new()\<close>.\<close>

definition control_method ::
  "ManagedCommandId \<Rightarrow> CommandTarget \<Rightarrow> string \<Rightarrow> 'v \<Rightarrow> 'v TargetedCommand"
where
  "control_method fresh target method_name payload =
     \<lparr>tc_target = target, tc_command = ControlMethod fresh method_name payload\<rparr>"

definition managed_command_id :: "'v TargetedCommand \<Rightarrow> ManagedCommandId option" where
  "managed_command_id c =
     (case tc_command c of ControlMethod command_id _ _ \<Rightarrow> Some command_id | _ \<Rightarrow> None)"

definition command_method :: "'v TargetedCommand \<Rightarrow> string option" where
  "command_method c = (case tc_command c of ControlMethod _ m _ \<Rightarrow> Some m | _ \<Rightarrow> None)"

lemma control_method_simps [simp]:
  "managed_command_id (control_method fresh target m payload) = Some fresh"
  "command_method (control_method fresh target m payload) = Some m"
  "tc_target (control_method fresh target m payload) = target"
  by (simp_all add: managed_command_id_def command_method_def control_method_def)

section \<open>Messages\<close>

definition SUPERVISOR_SCHEMA_VERSION :: u32 where "SUPERVISOR_SCHEMA_VERSION = 1"
definition METHOD_DELEGATE_DISPATCH :: string where
  "METHOD_DELEGATE_DISPATCH = ''delegate_dispatch''"
definition METHOD_DELEGATE_GET :: string where "METHOD_DELEGATE_GET = ''delegate_get''"
definition METHOD_DELEGATE_RESULT :: string where "METHOD_DELEGATE_RESULT = ''delegate_result''"
definition METHOD_DELEGATE_CANCEL :: string where "METHOD_DELEGATE_CANCEL = ''delegate_cancel''"

datatype ManagedAgentCommandAckStatus = Accepted | Rejected

record ManagedAgentCommandAckRejection =
  arej_code :: string
  arej_safe_message :: string
  arej_retryable :: bool

record ManagedAgentCommandAck =
  ack_schema_version :: u32
  ack_command_id :: ManagedCommandId
  ack_method :: string
  ack_managed_run_id :: ManagedRunId
  ack_worker_id :: WorkerId
  ack_task_id :: "OmegonTaskId option"
  ack_status :: ManagedAgentCommandAckStatus
  ack_rejection :: "ManagedAgentCommandAckRejection option"
  ack_accepted_at_unix_ms :: u64

datatype ControlCommandReceiptStatus = Accepted | Duplicate | Rejected

record SupervisorRejection =
  srej_code :: string
  srej_safe_message :: string

record ControlCommandReceipt =
  rcpt_schema_version :: u32
  rcpt_command_id :: ManagedCommandId
  rcpt_receipt_status :: ControlCommandReceiptStatus
  rcpt_received_at_unix_ms :: u64
  rcpt_rejection :: "SupervisorRejection option"

record DelegateDispatchRequest =
  ddq_schema_version :: u32
  ddq_managed_run_id :: ManagedRunId
  ddq_worker_id :: WorkerId
  ddq_request :: ManagedRunRequest

record DelegateTaskRequest =
  dtq_schema_version :: u32
  dtq_managed_run_id :: ManagedRunId
  dtq_worker_id :: WorkerId
  dtq_task_id :: OmegonTaskId

record DelegateCancelRequest =
  dcq_schema_version :: u32
  dcq_managed_run_id :: ManagedRunId
  dcq_worker_id :: WorkerId
  dcq_task_id :: OmegonTaskId
  dcq_reason :: "string option"

record DelegateDispatchResponse =
  ddr_schema_version :: u32
  ddr_managed_run_id :: ManagedRunId
  ddr_worker_id :: WorkerId
  ddr_accepted :: bool
  ddr_task_id :: "OmegonTaskId option"
  ddr_effective_policy :: "OmegonEffectivePolicy option"
  ddr_rejection :: "SupervisorRejection option"

record DelegateObservationResponse =
  dor_schema_version :: u32
  dor_managed_run_id :: ManagedRunId
  dor_worker_id :: WorkerId
  dor_observation :: OmegonDelegateObservation

record DelegateResultResponse =
  drr_schema_version :: u32
  drr_managed_run_id :: ManagedRunId
  drr_worker_id :: WorkerId
  drr_task_id :: OmegonTaskId
  drr_result :: string

record DelegateCancelResponse =
  dcr_schema_version :: u32
  dcr_managed_run_id :: ManagedRunId
  dcr_worker_id :: WorkerId
  dcr_task_id :: OmegonTaskId
  dcr_acknowledged :: bool
  dcr_termination_confirmed :: bool
  dcr_reason :: "string option"

datatype SupervisorContractError =
    UnsupportedSchema u32
  | IdentityMismatch
  | MissingTaskId
  | InvalidAcknowledgement
  | OversizedSafeMessage
  | ContradictoryDispatchResponse
  | OversizedReason
  | OversizedResult
  | Serialization string

section \<open>Validation\<close>

definition ack_method_known :: "string \<Rightarrow> bool" where
  "ack_method_known m \<longleftrightarrow>
     m = METHOD_DELEGATE_DISPATCH \<or> m = METHOD_DELEGATE_GET \<or>
     m = METHOD_DELEGATE_RESULT \<or> m = METHOD_DELEGATE_CANCEL"

text \<open>Codes that are never retryable, and codes that always are.\<close>

definition permanent_codes :: "string list" where
  "permanent_codes =
     [''unsupported_schema'', ''invalid_envelope'', ''unauthorized'', ''unknown_method'',
      ''command_id_conflict'']"

definition transient_codes :: "string list" where
  "transient_codes = [''overloaded'', ''temporarily_unavailable'']"

text \<open>\<open>ManagedAgentCommandAck::validate\<close>.\<close>

definition validate_ack :: "ManagedAgentCommandAck \<Rightarrow> SupervisorContractError + unit" where
  "validate_ack ack =
     (if ack_schema_version ack \<noteq> SUPERVISOR_SCHEMA_VERSION
      then Err (UnsupportedSchema (ack_schema_version ack))
      else if \<not> ack_method_known (ack_method ack) then Err InvalidAcknowledgement
      else case (ack_status ack, ack_rejection ack) of
             (ManagedAgentCommandAckStatus.Accepted, None) \<Rightarrow> Ok ()
           | (ManagedAgentCommandAckStatus.Rejected, Some rejection) \<Rightarrow>
               if length (arej_safe_message rejection) > 1024 then Err OversizedSafeMessage
               else if arej_code rejection = [] \<or>
                       arej_code rejection \<in> set permanent_codes \<and> arej_retryable rejection \<or>
                       arej_code rejection \<in> set transient_codes \<and> \<not> arej_retryable rejection
               then Err InvalidAcknowledgement
               else Ok ()
           | _ \<Rightarrow> Err InvalidAcknowledgement)"

definition validate_envelope ::
  "u32 \<Rightarrow> ManagedRunId \<Rightarrow> WorkerId \<Rightarrow> ManagedRunId \<Rightarrow> WorkerId \<Rightarrow> SupervisorContractError + unit"
where
  "validate_envelope schema_version run worker expected_run expected_worker =
     (if schema_version \<noteq> SUPERVISOR_SCHEMA_VERSION then Err (UnsupportedSchema schema_version)
      else if run \<noteq> expected_run \<or> worker \<noteq> expected_worker then Err IdentityMismatch
      else Ok ())"

definition validate_dispatch_response ::
  "ManagedRunId \<Rightarrow> WorkerId \<Rightarrow> DelegateDispatchResponse \<Rightarrow> SupervisorContractError + OmegonTaskId"
where
  "validate_dispatch_response expected_run expected_worker resp =
     and_then
       (validate_envelope (ddr_schema_version resp) (ddr_managed_run_id resp) (ddr_worker_id resp)
          expected_run expected_worker)
       (\<lambda>_. case (ddr_accepted resp, ddr_task_id resp, ddr_rejection resp) of
              (True, Some task_id, None) \<Rightarrow> Ok task_id
            | (True, None, _) \<Rightarrow> Err MissingTaskId
            | _ \<Rightarrow> Err ContradictoryDispatchResponse)"

definition validate_observation_response ::
  "ManagedRunId \<Rightarrow> WorkerId \<Rightarrow> OmegonTaskId \<Rightarrow> DelegateObservationResponse \<Rightarrow>
     SupervisorContractError + unit"
where
  "validate_observation_response expected_run expected_worker expected_task resp =
     and_then
       (validate_envelope (dor_schema_version resp) (dor_managed_run_id resp) (dor_worker_id resp)
          expected_run expected_worker)
       (\<lambda>_. if obs_task_id (dor_observation resp) \<noteq> expected_task then Err IdentityMismatch
            else Ok ())"

definition validate_result_response ::
  "ManagedRunId \<Rightarrow> WorkerId \<Rightarrow> OmegonTaskId \<Rightarrow> nat \<Rightarrow> DelegateResultResponse \<Rightarrow>
     SupervisorContractError + unit"
where
  "validate_result_response expected_run expected_worker expected_task max_result_bytes resp =
     and_then
       (validate_envelope (drr_schema_version resp) (drr_managed_run_id resp) (drr_worker_id resp)
          expected_run expected_worker)
       (\<lambda>_. if drr_task_id resp \<noteq> expected_task then Err IdentityMismatch
            else if length (drr_result resp) > max_result_bytes then Err OversizedResult
            else Ok ())"

definition validate_cancel_response ::
  "ManagedRunId \<Rightarrow> WorkerId \<Rightarrow> OmegonTaskId \<Rightarrow> DelegateCancelResponse \<Rightarrow>
     SupervisorContractError + unit"
where
  "validate_cancel_response expected_run expected_worker expected_task resp =
     and_then
       (validate_envelope (dcr_schema_version resp) (dcr_managed_run_id resp) (dcr_worker_id resp)
          expected_run expected_worker)
       (\<lambda>_. if dcr_task_id resp \<noteq> expected_task \<or>
               (dcr_termination_confirmed resp \<and> \<not> dcr_acknowledged resp)
            then Err IdentityMismatch else Ok ())"

section \<open>Requests and their commands\<close>

record 'v supervisor_encoder =
  enc_dispatch :: "DelegateDispatchRequest \<Rightarrow> string + 'v"
  enc_task :: "DelegateTaskRequest \<Rightarrow> string + 'v"
  enc_cancel :: "DelegateCancelRequest \<Rightarrow> string + 'v"

definition encode_command ::
  "ManagedCommandId \<Rightarrow> CommandTarget \<Rightarrow> string \<Rightarrow> string + 'v \<Rightarrow>
     SupervisorContractError + 'v TargetedCommand"
where
  "encode_command fresh target method_name encoded =
     (case encoded of
        Inl error \<Rightarrow> Err (Serialization error)
      | Inr payload \<Rightarrow> Ok (control_method fresh target method_name payload))"

definition new_dispatch_request ::
  "ManagedRunId \<Rightarrow> WorkerId \<Rightarrow> ManagedRunRequest \<Rightarrow> DelegateDispatchRequest"
where
  "new_dispatch_request managed_run_id worker_id request =
     \<lparr>ddq_schema_version = SUPERVISOR_SCHEMA_VERSION, ddq_managed_run_id = managed_run_id,
      ddq_worker_id = worker_id, ddq_request = request\<rparr>"

definition dispatch_request_command ::
  "'v supervisor_encoder \<Rightarrow> ManagedCommandId \<Rightarrow> CommandTarget \<Rightarrow> DelegateDispatchRequest \<Rightarrow>
     SupervisorContractError + 'v TargetedCommand"
where
  "dispatch_request_command enc fresh target q =
     encode_command fresh target METHOD_DELEGATE_DISPATCH (enc_dispatch enc q)"

definition new_task_request :: "ManagedRunId \<Rightarrow> WorkerId \<Rightarrow> OmegonTaskId \<Rightarrow> DelegateTaskRequest" where
  "new_task_request managed_run_id worker_id task_id =
     \<lparr>dtq_schema_version = SUPERVISOR_SCHEMA_VERSION, dtq_managed_run_id = managed_run_id,
      dtq_worker_id = worker_id, dtq_task_id = task_id\<rparr>"

definition get_command ::
  "'v supervisor_encoder \<Rightarrow> ManagedCommandId \<Rightarrow> CommandTarget \<Rightarrow> DelegateTaskRequest \<Rightarrow>
     SupervisorContractError + 'v TargetedCommand"
where
  "get_command enc fresh target q =
     encode_command fresh target METHOD_DELEGATE_GET (enc_task enc q)"

definition result_command ::
  "'v supervisor_encoder \<Rightarrow> ManagedCommandId \<Rightarrow> CommandTarget \<Rightarrow> DelegateTaskRequest \<Rightarrow>
     SupervisorContractError + 'v TargetedCommand"
where
  "result_command enc fresh target q =
     encode_command fresh target METHOD_DELEGATE_RESULT (enc_task enc q)"

definition new_cancel_request ::
  "ManagedRunId \<Rightarrow> WorkerId \<Rightarrow> OmegonTaskId \<Rightarrow> string option \<Rightarrow>
     SupervisorContractError + DelegateCancelRequest"
where
  "new_cancel_request managed_run_id worker_id task_id reason =
     (if (case reason of None \<Rightarrow> False | Some v \<Rightarrow> length v > 1024) then Err OversizedReason
      else Ok \<lparr>dcq_schema_version = SUPERVISOR_SCHEMA_VERSION,
               dcq_managed_run_id = managed_run_id, dcq_worker_id = worker_id,
               dcq_task_id = task_id, dcq_reason = reason\<rparr>)"

definition cancel_request_command ::
  "'v supervisor_encoder \<Rightarrow> ManagedCommandId \<Rightarrow> CommandTarget \<Rightarrow> DelegateCancelRequest \<Rightarrow>
     SupervisorContractError + 'v TargetedCommand"
where
  "cancel_request_command enc fresh target q =
     encode_command fresh target METHOD_DELEGATE_CANCEL (enc_cancel enc q)"

section \<open>Lemmas\<close>

lemma encode_command_Ok:
  "encode_command fresh target m e = Ok c \<Longrightarrow>
     managed_command_id c = Some fresh \<and> command_method c = Some m \<and> tc_target c = target"
  by (auto simp: encode_command_def split: sum.splits)

lemma validate_envelope_Ok [simp]:
  "validate_envelope v r w r' w' = Ok () \<longleftrightarrow> v = SUPERVISOR_SCHEMA_VERSION \<and> r = r' \<and> w = w'"
  by (simp add: validate_envelope_def)

lemma validate_dispatch_response_Ok:
  "validate_dispatch_response r w resp = Ok t \<longleftrightarrow>
     ddr_schema_version resp = SUPERVISOR_SCHEMA_VERSION \<and> ddr_managed_run_id resp = r \<and>
     ddr_worker_id resp = w \<and> ddr_accepted resp \<and> ddr_task_id resp = Some t \<and>
     ddr_rejection resp = None"
  by (auto simp: validate_dispatch_response_def and_then_eq_Ok split: bool.splits option.splits)

lemma validate_observation_response_Ok:
  "validate_observation_response r w t resp = Ok () \<longleftrightarrow>
     dor_schema_version resp = SUPERVISOR_SCHEMA_VERSION \<and> dor_managed_run_id resp = r \<and>
     dor_worker_id resp = w \<and> obs_task_id (dor_observation resp) = t"
  by (auto simp: validate_observation_response_def and_then_eq_Ok split: if_splits)

lemma validate_result_response_Ok:
  "validate_result_response r w t n resp = Ok () \<longleftrightarrow>
     drr_schema_version resp = SUPERVISOR_SCHEMA_VERSION \<and> drr_managed_run_id resp = r \<and>
     drr_worker_id resp = w \<and> drr_task_id resp = t \<and> length (drr_result resp) \<le> n"
  by (auto simp: validate_result_response_def and_then_eq_Ok split: if_splits)

lemma validate_cancel_response_Ok:
  "validate_cancel_response r w t resp = Ok () \<longleftrightarrow>
     dcr_schema_version resp = SUPERVISOR_SCHEMA_VERSION \<and> dcr_managed_run_id resp = r \<and>
     dcr_worker_id resp = w \<and> dcr_task_id resp = t \<and>
     (dcr_termination_confirmed resp \<longrightarrow> dcr_acknowledged resp)"
  by (auto simp: validate_cancel_response_def and_then_eq_Ok split: if_splits)

lemmas validate_response_Ok =
  validate_dispatch_response_Ok validate_observation_response_Ok validate_result_response_Ok
  validate_cancel_response_Ok

text \<open>
  The retry class of an acknowledged rejection: permanent codes are never retryable and
  transient codes always are, so the retry decision of the runtime cannot contradict the code.
\<close>

lemma validate_ack_Ok:
  "validate_ack ack = Ok () \<longleftrightarrow>
     ack_schema_version ack = SUPERVISOR_SCHEMA_VERSION \<and> ack_method_known (ack_method ack) \<and>
     (case ack_rejection ack of
        None \<Rightarrow> ack_status ack = ManagedAgentCommandAckStatus.Accepted
      | Some rejection \<Rightarrow>
          ack_status ack = ManagedAgentCommandAckStatus.Rejected \<and>
          length (arej_safe_message rejection) \<le> 1024 \<and> arej_code rejection \<noteq> [] \<and>
          (arej_code rejection \<in> set permanent_codes \<longrightarrow> \<not> arej_retryable rejection) \<and>
          (arej_code rejection \<in> set transient_codes \<longrightarrow> arej_retryable rejection))"
  by (auto simp: validate_ack_def
      split: option.splits ManagedAgentCommandAckStatus.splits if_splits)

end
