(* ===== verification/A2a_Bearer.thy ===== *)
theory A2a_Bearer
  imports Managed_Agents
begin

text \<open>
  The MQTT bearer of \<open>auspex-core/src/managed_agent_mqtt.rs\<close>: the A2A messages of a managed
  run, the numbering of outgoing envelopes and the decoding of received outcomes.  The client of
  \<open>styrene_mqtt\<close> (connecting, publishing, receiving) is transport I/O and is not modelled.  The
  envelope type and its constructor (\<open>styrene_a2a\<close>), \<open>serde_json\<close> and the text form of a UUID
  are arguments: the fields of \<open>envelope_api\<close> and \<open>outcome_decoder\<close>.
\<close>

section \<open>Messages\<close>

definition MANAGED_RUN_REQUEST_SCHEMA :: string where
  "MANAGED_RUN_REQUEST_SCHEMA = ''io.styrene.auspex.managed-run-request.v1''"
definition MANAGED_RUN_CANCEL_SCHEMA :: string where
  "MANAGED_RUN_CANCEL_SCHEMA = ''io.styrene.auspex.managed-run-cancel.v1''"
definition MANAGED_RUN_OUTCOME_SCHEMA :: string where
  "MANAGED_RUN_OUTCOME_SCHEMA = ''io.styrene.auspex.managed-run-outcome.v1''"

datatype ManagedRunA2aOutcome =
    Accepted
  | Duplicate
  | Completed string
  | Failed string string
  | CancellationAccepted "string option"
  | TerminationConfirmed "string option"

record ManagedRunA2aOutcomePayload =
  out_managed_run_id :: ManagedRunId
  out_outcome :: ManagedRunA2aOutcome

type_synonym message_id = "8 word list"

datatype ManagedAgentA2aEvent =
    Accepted ManagedRunId string message_id
  | Duplicate ManagedRunId string message_id
  | Completed ManagedRunId string message_id string
  | Failed ManagedRunId string message_id string string
  | CancellationAccepted ManagedRunId string message_id "string option"
  | TerminationConfirmed ManagedRunId string message_id "string option"

fun event_managed_run_id :: "ManagedAgentA2aEvent \<Rightarrow> ManagedRunId" where
  "event_managed_run_id (ManagedAgentA2aEvent.Accepted r _ _) = r"
| "event_managed_run_id (ManagedAgentA2aEvent.Duplicate r _ _) = r"
| "event_managed_run_id (ManagedAgentA2aEvent.Completed r _ _ _) = r"
| "event_managed_run_id (ManagedAgentA2aEvent.Failed r _ _ _ _) = r"
| "event_managed_run_id (ManagedAgentA2aEvent.CancellationAccepted r _ _ _) = r"
| "event_managed_run_id (ManagedAgentA2aEvent.TerminationConfirmed r _ _ _) = r"

record ManagedRunA2aRequest =
  a2aq_managed_run_id :: ManagedRunId
  a2aq_worker_id :: WorkerId
  a2aq_parent_session_id :: string
  a2aq_parent_turn_id :: string
  a2aq_request :: ManagedRunRequest

record ManagedRunA2aCancel =
  a2ac_managed_run_id :: ManagedRunId
  a2ac_worker_id :: WorkerId
  a2ac_reason :: "string option"

datatype ManagedAgentMqttError =
    Mqtt string
  | Json string
  | Extension string
  | WrongTarget
  | UnsupportedSchema string
  | MissingTaskId
  | RunIdentityMismatch
  | SequenceExhausted

section \<open>Outgoing envelopes\<close>

text \<open>
  The arguments of \<open>AgentEnvelope::new\<close> that vary between calls, in the order of the call, and
  the two fields the code sets on the envelope afterwards.  The kind (\<open>Command\<close>) and the agent
  and runtime identities are fixed per bridge and part of the constructor.
\<close>

record ('e, 'root) envelope_api =
  root_operation_id :: "string \<Rightarrow> string + 'root"
  envelope_new :: "'root \<Rightarrow> string option \<Rightarrow> string \<Rightarrow> u64 \<Rightarrow> u64 \<Rightarrow> string \<Rightarrow> string \<Rightarrow> 'e"
  set_parent_task_id :: "string option \<Rightarrow> 'e \<Rightarrow> 'e"
  set_expires_at_ms :: "u64 option \<Rightarrow> 'e \<Rightarrow> 'e"
  request_to_vec :: "ManagedRunA2aRequest \<Rightarrow> string + string"
  cancel_to_vec :: "ManagedRunA2aCancel \<Rightarrow> string + string"
  uuid_to_string :: "Uuid \<Rightarrow> string"

record ManagedAgentMqttBridge =
  mqb_local_agent_id :: string
  mqb_next_sequence :: u64

text \<open>\<open>ttl.as_millis() as u64\<close> truncates; \<open>Duration\<close> is counted in nanoseconds.\<close>

definition ttl_millis :: "nat \<Rightarrow> u64" where
  "ttl_millis ttl = word_of_nat (ttl div 1000000)"

definition advance_sequence ::
  "'e \<Rightarrow> ManagedAgentMqttBridge \<Rightarrow> (ManagedAgentMqttError + 'e) \<times> ManagedAgentMqttBridge"
where
  "advance_sequence envelope b =
     (case checked_add (mqb_next_sequence b) 1 of
        None \<Rightarrow> (Err SequenceExhausted, b)
      | Some n \<Rightarrow> (Ok envelope, b\<lparr>mqb_next_sequence := n\<rparr>))"

definition command_envelope ::
  "('e, 'root) envelope_api \<Rightarrow> ManagedRunA2aRequest \<Rightarrow> u64 \<Rightarrow> nat \<Rightarrow> ManagedAgentMqttBridge \<Rightarrow>
     (ManagedAgentMqttError + 'e) \<times> ManagedAgentMqttBridge"
where
  "command_envelope api command now_ms ttl b =
     (let task_id = uuid_to_string api (run_uuid (a2aq_managed_run_id command))
      in case request_to_vec api command of
           Inl e \<Rightarrow> (Err (Json e), b)
         | Inr payload \<Rightarrow>
             case root_operation_id api (a2aq_parent_session_id command) of
               Inl e \<Rightarrow> (Err (Extension e), b)
             | Inr root \<Rightarrow>
                 let envelope = envelope_new api root (Some task_id) task_id (mqb_next_sequence b)
                                  now_ms MANAGED_RUN_REQUEST_SCHEMA payload;
                     envelope = set_parent_task_id api (Some (a2aq_parent_turn_id command)) envelope;
                     envelope = set_expires_at_ms api
                                  (Some (saturating_add now_ms (ttl_millis ttl))) envelope
                 in advance_sequence envelope b)"

definition cancellation_envelope ::
  "('e, 'root) envelope_api \<Rightarrow> ManagedRunA2aCancel \<Rightarrow> string \<Rightarrow> u64 \<Rightarrow> nat \<Rightarrow>
     ManagedAgentMqttBridge \<Rightarrow> (ManagedAgentMqttError + 'e) \<times> ManagedAgentMqttBridge"
where
  "cancellation_envelope api cancellation root_id now_ms ttl b =
     (let task_id = uuid_to_string api (run_uuid (a2ac_managed_run_id cancellation))
      in case cancel_to_vec api cancellation of
           Inl e \<Rightarrow> (Err (Json e), b)
         | Inr payload \<Rightarrow>
             case root_operation_id api root_id of
               Inl e \<Rightarrow> (Err (Extension e), b)
             | Inr root \<Rightarrow>
                 let envelope = envelope_new api root (Some task_id) task_id (mqb_next_sequence b)
                                  now_ms MANAGED_RUN_CANCEL_SCHEMA payload;
                     envelope = set_expires_at_ms api
                                  (Some (saturating_add now_ms (ttl_millis ttl))) envelope
                 in advance_sequence envelope b)"

section \<open>Received outcomes\<close>

text \<open>The fields of a received \<open>AgentEnvelope\<close> that \<open>decode_event\<close> reads.\<close>

record ReceivedEnvelope =
  env_target_agent_id :: string
  env_payload_schema :: string
  env_task_id :: "string option"
  env_a2a_payload :: string
  env_message_id :: message_id

definition decode_event ::
  "(string \<Rightarrow> string + ManagedRunA2aOutcomePayload) \<Rightarrow> (Uuid \<Rightarrow> string) \<Rightarrow>
     ManagedAgentMqttBridge \<Rightarrow> ReceivedEnvelope \<Rightarrow> ManagedAgentMqttError + ManagedAgentA2aEvent"
where
  "decode_event from_slice uuid_string b envelope =
     (if env_target_agent_id envelope \<noteq> mqb_local_agent_id b then Err WrongTarget
      else if env_payload_schema envelope \<noteq> MANAGED_RUN_OUTCOME_SCHEMA
      then Err (UnsupportedSchema (env_payload_schema envelope))
      else case env_task_id envelope of
             None \<Rightarrow> Err MissingTaskId
           | Some task_id \<Rightarrow>
               case from_slice (env_a2a_payload envelope) of
                 Inl e \<Rightarrow> Err (Json e)
               | Inr payload \<Rightarrow>
                   let r = out_managed_run_id payload; i = env_message_id envelope
                   in if uuid_string (run_uuid r) \<noteq> task_id then Err RunIdentityMismatch
                      else Ok (case out_outcome payload of
                        ManagedRunA2aOutcome.Accepted \<Rightarrow> ManagedAgentA2aEvent.Accepted r task_id i
                      | ManagedRunA2aOutcome.Duplicate \<Rightarrow> ManagedAgentA2aEvent.Duplicate r task_id i
                      | ManagedRunA2aOutcome.Completed result \<Rightarrow>
                          ManagedAgentA2aEvent.Completed r task_id i result
                      | ManagedRunA2aOutcome.Failed code msg \<Rightarrow>
                          ManagedAgentA2aEvent.Failed r task_id i code msg
                      | ManagedRunA2aOutcome.CancellationAccepted reason \<Rightarrow>
                          ManagedAgentA2aEvent.CancellationAccepted r task_id i reason
                      | ManagedRunA2aOutcome.TerminationConfirmed reason \<Rightarrow>
                          ManagedAgentA2aEvent.TerminationConfirmed r task_id i reason))"

section \<open>Sequence numbers\<close>

text \<open>The two builders as calls, and the sequence numbers a series of calls hands out.\<close>

datatype bearer_call =
    BuildCommand ManagedRunA2aRequest u64 nat
  | BuildCancel ManagedRunA2aCancel string u64 nat

fun bearer_step ::
  "('e, 'root) envelope_api \<Rightarrow> bearer_call \<Rightarrow> ManagedAgentMqttBridge \<Rightarrow>
     (ManagedAgentMqttError + 'e) \<times> ManagedAgentMqttBridge"
where
  "bearer_step api (BuildCommand command now ttl) b = command_envelope api command now ttl b"
| "bearer_step api (BuildCancel c root now ttl) b = cancellation_envelope api c root now ttl b"

fun used_sequences ::
  "('e, 'root) envelope_api \<Rightarrow> bearer_call list \<Rightarrow> ManagedAgentMqttBridge \<Rightarrow> u64 list"
where
  "used_sequences api [] b = []"
| "used_sequences api (c # cs) b =
     (case bearer_step api c b of
        (Inl _, b') \<Rightarrow> used_sequences api cs b'
      | (Inr _, b') \<Rightarrow> mqb_next_sequence b # used_sequences api cs b')"

lemma advance_sequence_cases:
  "advance_sequence e b =
     (if Suc (unat (mqb_next_sequence b)) < 2 ^ 64
      then (Ok e, b\<lparr>mqb_next_sequence := mqb_next_sequence b + 1\<rparr>)
      else (Err SequenceExhausted, b))"
  by (simp add: advance_sequence_def checked_add_def)

lemma bearer_step_sequence:
  "bearer_step api c b = (res, b') \<Longrightarrow>
     (case res of
        Inl _ \<Rightarrow> b' = b
      | Inr _ \<Rightarrow> unat (mqb_next_sequence b') = Suc (unat (mqb_next_sequence b)))"
  by (cases c)
    (auto simp: command_envelope_def cancellation_envelope_def advance_sequence_cases Let_def
        unat_word_ariths split: sum.splits if_splits)

lemma used_sequences_ge: "n \<in> set (used_sequences api cs b) \<Longrightarrow> mqb_next_sequence b \<le> n"
proof (induction cs arbitrary: b)
  case Nil
  then show ?case by simp
next
  case (Cons c cs)
  obtain res b' where step: "bearer_step api c b = (res, b')" by fastforce
  from bearer_step_sequence [OF step] Cons step show ?case
    by (cases res) (fastforce simp: word_le_nat_alt)+
qed

text \<open>
  Over any series of command and cancellation envelopes, with failures anywhere in it, the
  envelopes that are handed out carry strictly increasing sequence numbers: a number is never
  reused and the counter never wraps.
\<close>

theorem envelope_sequences_increase: "sorted_wrt (<) (used_sequences api cs b)"
proof (induction cs arbitrary: b)
  case Nil
  then show ?case by simp
next
  case (Cons c cs)
  obtain res b' where step: "bearer_step api c b = (res, b')" by fastforce
  show ?case
  proof (cases res)
    case (Inl e)
    with step Cons show ?thesis by simp
  next
    case (Inr e)
    with bearer_step_sequence [OF step] have "mqb_next_sequence b < mqb_next_sequence b'"
      by (simp add: word_less_nat_alt)
    then have "\<forall>n \<in> set (used_sequences api cs b'). mqb_next_sequence b < n"
      using used_sequences_ge less_le_trans by blast
    with Cons step Inr show ?thesis by simp
  qed
qed

lemma decode_event_Ok:
  assumes "decode_event from_slice uuid_string b envelope = Ok ev"
  shows "env_target_agent_id envelope = mqb_local_agent_id b"
    and "env_payload_schema envelope = MANAGED_RUN_OUTCOME_SCHEMA"
    and "env_task_id envelope = Some (uuid_string (run_uuid (event_managed_run_id ev)))"
  using assms
  by (auto simp: decode_event_def Let_def
      split: if_splits option.splits sum.splits ManagedRunA2aOutcome.splits)

end
