(* ===== verification/Supervisor_Runtime.thy ===== *)
theory Supervisor_Runtime
  imports Supervisor_Contract A2a_Bearer
begin

text \<open>
  The supervisor runtime of \<open>auspex-core/src/managed_agent_runtime.rs\<close>: the table of runs, the
  table of commands sent to workers with their delivery state, and the operations that dispatch,
  poll, cancel, replay, time out and apply what workers answer.

  Clocks are arguments: \<open>Instant::now()\<close> is \<open>now\<close>, in nanoseconds.  The random identities an
  operation draws are arguments, and so are the JSON (de)serialisers, as in the contract.
\<close>

section \<open>Time\<close>

type_synonym Instant = nat
type_synonym Duration = nat

text \<open>
  \<open>Instant::checked_add\<close> fails when the seconds leave the range of an \<open>i64\<close>;
  \<open>duration_since\<close> saturates at zero, as subtraction on \<open>nat\<close> does.
\<close>

definition instant_limit :: Instant where
  "instant_limit = 2 ^ 63 * 1000000000"

definition instant_checked_add :: "Instant \<Rightarrow> Duration \<Rightarrow> Instant option" where
  "instant_checked_add i d = (if i + d < instant_limit then Some (i + d) else None)"

definition from_secs :: "u64 \<Rightarrow> Duration" where
  "from_secs s = unat s * 1000000000"

section \<open>State\<close>

datatype ManagedCommandKind = Dispatch | Poll | Cancel

datatype ManagedCommandDeliveryState =
    Pending
  | Accepted
  | Duplicate
  | RetryPending string
  | Rejected string
  | ProvenByResult

datatype ManagedAgentTransportBinding =
    OmegonControl string CommandTarget
  | StyreneA2a string

datatype SupervisorEvent =
    DispatchRequested ManagedRunId WorkerId
  | DispatchAccepted ManagedRunId OmegonTaskId
  | DispatchRejected ManagedRunId string
  | CancellationRequested ManagedRunId "string option"
  | WorkerDisconnected ManagedRunId
  | WorkerReconnected ManagedRunId
  | ResultFetched ManagedRunId OmegonTaskId

record 'v PendingManagedCommand =
  pmc_command :: "'v TargetedCommand"
  pmc_kind :: ManagedCommandKind
  pmc_run_id :: ManagedRunId
  pmc_worker_id :: WorkerId
  pmc_task_id :: "OmegonTaskId option"
  pmc_state :: ManagedCommandDeliveryState
  pmc_attempts :: u32
  pmc_last_sent_at :: Instant

record RuntimeEntry =
  ent_run :: ManagedAgentRun
  ent_transport :: ManagedAgentTransportBinding
  ent_dispatched_at_unix_ms :: u64
  ent_dispatched_at :: Instant
  ent_deadline_at :: Instant
  ent_events :: "SupervisorEvent list"

record 'v ManagedAgentSupervisorRuntime =
  sup_runs :: "(ManagedRunId, RuntimeEntry) btree"
  sup_commands :: "(ManagedCommandId, 'v PendingManagedCommand) btree"
  sup_command_runs :: "(ManagedCommandId, ManagedRunId) btree"
  sup_max_result_bytes :: nat

datatype SupervisorRuntimeError =
    UnknownRun
  | UnknownCommand
  | MissingCommandId
  | DuplicateRun
  | CommandAlreadyPending
  | UnexpectedResponseType string
  | ResponseRejected string string
  | Contract SupervisorContractError
  | Domain ManagedRunTransitionError
  | Validation ManagedAgentValidationError
  | InvalidJson string
  | WrongTransport
  | DeadlineExceeded

type_synonym ('v, 'a) runtime_result =
  "(SupervisorRuntimeError + 'a) \<times> 'v ManagedAgentSupervisorRuntime"

definition new_runtime :: "nat \<Rightarrow> 'v ManagedAgentSupervisorRuntime" where
  "new_runtime max_bytes =
     \<lparr>sup_runs = bt_empty, sup_commands = bt_empty, sup_command_runs = bt_empty,
      sup_max_result_bytes = max_bytes\<rparr>"

definition get_run :: "'v ManagedAgentSupervisorRuntime \<Rightarrow> ManagedRunId \<Rightarrow> RuntimeEntry option" where
  "get_run s rid = bt_get (sup_runs s) rid"

text \<open>A write through \<open>self.runs.get_mut(&run_id)\<close>, or an insertion.\<close>

definition put_run ::
  "ManagedRunId \<Rightarrow> RuntimeEntry \<Rightarrow> 'v ManagedAgentSupervisorRuntime \<Rightarrow>
     'v ManagedAgentSupervisorRuntime"
where
  "put_run rid entry s = s\<lparr>sup_runs := bt_insert rid entry (sup_runs s)\<rparr>"

section \<open>Registering and creating\<close>

definition register_command ::
  "Instant \<Rightarrow> ManagedRunId \<Rightarrow> ManagedCommandKind \<Rightarrow> 'v TargetedCommand \<Rightarrow>
     'v ManagedAgentSupervisorRuntime \<Rightarrow> ('v, 'v TargetedCommand) runtime_result"
where
  "register_command now rid kind command s =
     (case managed_command_id command of
        None \<Rightarrow> (Err MissingCommandId, s)
      | Some command_id \<Rightarrow>
          case get_run s rid of
            None \<Rightarrow> (Err UnknownRun, s)
          | Some entry \<Rightarrow>
              (Ok command,
               s\<lparr>sup_command_runs := bt_insert command_id rid (sup_command_runs s),
                 sup_commands := bt_insert command_id
                   \<lparr>pmc_command = command, pmc_kind = kind, pmc_run_id = rid,
                    pmc_worker_id = run_worker_id (ent_run entry),
                    pmc_task_id = run_omegon_task_id (ent_run entry),
                    pmc_state = Pending, pmc_attempts = 1, pmc_last_sent_at = now\<rparr>
                   (sup_commands s)\<rparr>))"

definition prepare_run ::
  "ManagedRunId \<Rightarrow> Instant \<Rightarrow> WorkerId \<Rightarrow> string \<Rightarrow> string \<Rightarrow> ManagedRunRequest \<Rightarrow>
     ManagedAgentTransportBinding \<Rightarrow> u64 \<Rightarrow> 'v ManagedAgentSupervisorRuntime \<Rightarrow>
     ('v, ManagedRunId) runtime_result"
where
  "prepare_run fresh now worker_id parent_session_id parent_turn_id request transport now_unix_ms s =
     (case new_run fresh worker_id parent_session_id parent_turn_id request of
        Inl e \<Rightarrow> (Err (Validation e), s)
      | Inr run \<Rightarrow>
          let rid = run_id run
          in if get_run s rid \<noteq> None then (Err DuplicateRun, s)
             else
               let deadline_at =
                     unwrap_or
                       (instant_checked_add now
                          (from_secs (req_supervisor_deadline_seconds (run_request run)))) now
               in (Ok rid,
                   put_run rid
                     \<lparr>ent_run = run, ent_transport = transport,
                      ent_dispatched_at_unix_ms = now_unix_ms, ent_dispatched_at = now,
                      ent_deadline_at = deadline_at,
                      ent_events = [DispatchRequested rid worker_id]\<rparr> s))"

text \<open>
  The run that \<open>prepare_run\<close> just inserted is there, so the \<open>expect\<close> of the code cannot fire
  and the \<open>None\<close> branch below is dead (lemma \<open>prepared_run_exists\<close>).
\<close>

definition dispatch ::
  "'v supervisor_encoder \<Rightarrow> ManagedRunId \<Rightarrow> ManagedCommandId \<Rightarrow> Instant \<Rightarrow> Instant \<Rightarrow> WorkerId \<Rightarrow>
     string \<Rightarrow> string \<Rightarrow> ManagedRunRequest \<Rightarrow> CommandTarget \<Rightarrow> u64 \<Rightarrow>
     'v ManagedAgentSupervisorRuntime \<Rightarrow> ('v, ManagedRunId \<times> 'v TargetedCommand) runtime_result"
where
  "dispatch enc fresh fresh_command now now_registered worker_id parent_session_id parent_turn_id
     request target now_unix_ms s =
     (case prepare_run fresh now worker_id parent_session_id parent_turn_id request
             (OmegonControl [] target) now_unix_ms s of
        (Inl e, s1) \<Rightarrow> (Err e, s1)
      | (Inr rid, s1) \<Rightarrow>
          case get_run s1 rid of
            None \<Rightarrow> (Err UnknownRun, s1)
          | Some entry \<Rightarrow>
              case dispatch_request_command enc fresh_command target
                     (new_dispatch_request rid worker_id (run_request (ent_run entry))) of
                Inl e \<Rightarrow> (Err (Contract e), s1)
              | Inr command \<Rightarrow>
                  case register_command now_registered rid Dispatch command s1 of
                    (Inl e, s2) \<Rightarrow> (Err e, s2)
                  | (Inr c, s2) \<Rightarrow> (Ok (rid, c), s2))"

section \<open>Polling and cancelling\<close>

definition poll_command ::
  "'v supervisor_encoder \<Rightarrow> ManagedCommandId \<Rightarrow> Instant \<Rightarrow> ManagedRunId \<Rightarrow>
     'v ManagedAgentSupervisorRuntime \<Rightarrow> ('v, 'v TargetedCommand) runtime_result"
where
  "poll_command enc fresh now rid s =
     (if \<exists>(command_id, pending) \<in> set (sup_commands s).
           bt_get (sup_command_runs s) command_id = Some rid \<and>
           pmc_kind pending = Poll \<and> pmc_state pending = Pending
      then (Err CommandAlreadyPending, s)
      else case get_run s rid of
        None \<Rightarrow> (Err UnknownRun, s)
      | Some entry \<Rightarrow>
          case run_omegon_task_id (ent_run entry) of
            None \<Rightarrow> (Err (Domain DispatchNotAccepted), s)
          | Some task_id \<Rightarrow>
              case ent_transport entry of
                StyreneA2a _ \<Rightarrow> (Err WrongTransport, s)
              | OmegonControl _ target \<Rightarrow>
                  case get_command enc fresh target
                         (new_task_request rid (run_worker_id (ent_run entry)) task_id) of
                    Inl e \<Rightarrow> (Err (Contract e), s)
                  | Inr command \<Rightarrow> register_command now rid Poll command s)"

text \<open>
  The run is moved to cancelling and the event is recorded before the transport and the length of
  the reason are looked at, so those failures return a changed runtime.
\<close>

definition cancel_command ::
  "'v supervisor_encoder \<Rightarrow> ManagedCommandId \<Rightarrow> Instant \<Rightarrow> ManagedRunId \<Rightarrow> string option \<Rightarrow>
     'v ManagedAgentSupervisorRuntime \<Rightarrow> ('v, 'v TargetedCommand) runtime_result"
where
  "cancel_command enc fresh now rid reason s =
     (case get_run s rid of
        None \<Rightarrow> (Err UnknownRun, s)
      | Some entry \<Rightarrow>
          case run_omegon_task_id (ent_run entry) of
            None \<Rightarrow> (Err (Domain DispatchNotAccepted), s)
          | Some task_id \<Rightarrow>
              case request_cancellation reason (ent_run entry) of
                (Inl e, run) \<Rightarrow> (Err (Domain e), put_run rid (entry\<lparr>ent_run := run\<rparr>) s)
              | (Inr _, run) \<Rightarrow>
                  let entry1 = entry\<lparr>ent_run := run,
                                     ent_events := ent_events entry @ [CancellationRequested rid reason]\<rparr>;
                      s1 = put_run rid entry1 s
                  in case ent_transport entry1 of
                       StyreneA2a _ \<Rightarrow> (Err WrongTransport, s1)
                     | OmegonControl _ target \<Rightarrow>
                         case new_cancel_request rid (run_worker_id run) task_id reason of
                           Inl e \<Rightarrow> (Err (Contract e), s1)
                         | Inr q \<Rightarrow>
                             case cancel_request_command enc fresh target q of
                               Inl e \<Rightarrow> (Err (Contract e), s1)
                             | Inr command \<Rightarrow> register_command now rid Cancel command s1)"

definition request_a2a_cancellation ::
  "ManagedRunId \<Rightarrow> string option \<Rightarrow> 'v ManagedAgentSupervisorRuntime \<Rightarrow>
     ('v, ManagedRunA2aCancel) runtime_result"
where
  "request_a2a_cancellation rid reason s =
     (case get_run s rid of
        None \<Rightarrow> (Err UnknownRun, s)
      | Some entry \<Rightarrow>
          case ent_transport entry of
            OmegonControl _ _ \<Rightarrow> (Err WrongTransport, s)
          | StyreneA2a _ \<Rightarrow>
              case request_cancellation reason (ent_run entry) of
                (Inl e, run) \<Rightarrow> (Err (Domain e), put_run rid (entry\<lparr>ent_run := run\<rparr>) s)
              | (Inr _, run) \<Rightarrow>
                  (Ok \<lparr>a2ac_managed_run_id = rid, a2ac_worker_id = run_worker_id run,
                       a2ac_reason = reason\<rparr>,
                   put_run rid
                     (entry\<lparr>ent_run := run,
                            ent_events := ent_events entry @ [CancellationRequested rid reason]\<rparr>) s))"

section \<open>Receipts and acknowledgements\<close>

definition put_command_state ::
  "ManagedCommandId \<Rightarrow> ManagedCommandDeliveryState \<Rightarrow> 'v ManagedAgentSupervisorRuntime \<Rightarrow>
     'v ManagedAgentSupervisorRuntime"
where
  "put_command_state command_id st s =
     s\<lparr>sup_commands := bt_adjust command_id (\<lambda>pending. pending\<lparr>pmc_state := st\<rparr>) (sup_commands s)\<rparr>"

definition apply_receipt_json ::
  "(string \<Rightarrow> string + ControlCommandReceipt) \<Rightarrow> string \<Rightarrow> 'v ManagedAgentSupervisorRuntime \<Rightarrow>
     ('v, ManagedCommandId) runtime_result"
where
  "apply_receipt_json from_str json s =
     (case from_str json of
        Inl error \<Rightarrow> (Err (InvalidJson error), s)
      | Inr receipt \<Rightarrow>
          if rcpt_schema_version receipt \<noteq> 1
          then (Err (Contract (SupervisorContractError.UnsupportedSchema (rcpt_schema_version receipt))), s)
          else case bt_get (sup_commands s) (rcpt_command_id receipt) of
                 None \<Rightarrow> (Err UnknownCommand, s)
               | Some pending \<Rightarrow>
                   (Ok (rcpt_command_id receipt),
                    put_command_state (rcpt_command_id receipt)
                      (case rcpt_receipt_status receipt of
                         ControlCommandReceiptStatus.Accepted \<Rightarrow> Accepted
                       | ControlCommandReceiptStatus.Duplicate \<Rightarrow> Duplicate
                       | ControlCommandReceiptStatus.Rejected \<Rightarrow>
                           Rejected (unwrap_or (map_option srej_code (rcpt_rejection receipt))
                                       ''rejected'')) s))"

fun delivery_settled :: "ManagedCommandDeliveryState \<Rightarrow> bool" where
  "delivery_settled Pending = False"
| "delivery_settled (RetryPending _) = False"
| "delivery_settled _ = True"

text \<open>
  An acknowledgement that validates as rejected carries its rejection (lemma
  \<open>validate_ack_Ok\<close>), so the \<open>expect\<close> of the code cannot fire and the inner \<open>None\<close> is dead.
\<close>

definition acknowledged_state ::
  "ManagedAgentCommandAck \<Rightarrow> ManagedCommandDeliveryState \<Rightarrow> ManagedCommandDeliveryState"
where
  "acknowledged_state ack current =
     (case ack_status ack of
        ManagedAgentCommandAckStatus.Accepted \<Rightarrow> Accepted
      | ManagedAgentCommandAckStatus.Rejected \<Rightarrow>
          (case ack_rejection ack of
             None \<Rightarrow> current
           | Some rejection \<Rightarrow>
               if arej_retryable rejection then RetryPending (arej_code rejection)
               else Rejected (arej_code rejection)))"

definition apply_command_ack_json ::
  "(string \<Rightarrow> string + ManagedAgentCommandAck) \<Rightarrow> string \<Rightarrow> 'v ManagedAgentSupervisorRuntime \<Rightarrow>
     ('v, ManagedCommandId) runtime_result"
where
  "apply_command_ack_json from_str json s =
     (case from_str json of
        Inl error \<Rightarrow> (Err (InvalidJson error), s)
      | Inr ack \<Rightarrow>
          case validate_ack ack of
            Inl e \<Rightarrow> (Err (Contract e), s)
          | Inr _ \<Rightarrow>
              case bt_get (sup_commands s) (ack_command_id ack) of
                None \<Rightarrow> (Err UnknownCommand, s)
              | Some pending \<Rightarrow>
                  if pmc_run_id pending \<noteq> ack_managed_run_id ack \<or>
                     pmc_worker_id pending \<noteq> ack_worker_id ack \<or>
                     pmc_task_id pending \<noteq> ack_task_id ack \<or>
                     command_method (pmc_command pending) \<noteq> Some (ack_method ack)
                  then (Err (Contract IdentityMismatch), s)
                  else if delivery_settled (pmc_state pending) then (Ok (ack_command_id ack), s)
                  else (Ok (ack_command_id ack),
                        put_command_state (ack_command_id ack)
                          (acknowledged_state ack (pmc_state pending)) s))"

section \<open>Replay\<close>

definition replay_due :: "Instant \<Rightarrow> Duration \<Rightarrow> 'v PendingManagedCommand \<Rightarrow> bool" where
  "replay_due now receipt_timeout pending \<longleftrightarrow>
     \<not> delivery_settled (pmc_state pending) \<and>
     receipt_timeout \<le> now - pmc_last_sent_at pending"

definition replay_due_commands ::
  "Instant \<Rightarrow> Duration \<Rightarrow> 'v ManagedAgentSupervisorRuntime \<Rightarrow>
     'v TargetedCommand list \<times> 'v ManagedAgentSupervisorRuntime"
where
  "replay_due_commands now receipt_timeout s =
     (map (\<lambda>(_, pending). pmc_command pending)
        (filter (\<lambda>(_, pending). replay_due now receipt_timeout pending) (sup_commands s)),
      s\<lparr>sup_commands :=
          bt_update_all
            (\<lambda>_ pending.
               if replay_due now receipt_timeout pending
               then pending\<lparr>pmc_last_sent_at := now,
                            pmc_attempts := saturating_add (pmc_attempts pending) 1,
                            pmc_state := Pending\<rparr>
               else pending)
            (sup_commands s)\<rparr>)"

definition command_run_id ::
  "'v ManagedAgentSupervisorRuntime \<Rightarrow> ManagedCommandId \<Rightarrow> ManagedRunId option"
where
  "command_run_id s command_id = bt_get (sup_command_runs s) command_id"

section \<open>Projections\<close>

datatype ManagedCommandProjectionKind = Dispatch | Poll | Cancel

fun projection_kind :: "ManagedCommandKind \<Rightarrow> ManagedCommandProjectionKind" where
  "projection_kind ManagedCommandKind.Dispatch = ManagedCommandProjectionKind.Dispatch"
| "projection_kind ManagedCommandKind.Poll = ManagedCommandProjectionKind.Poll"
| "projection_kind ManagedCommandKind.Cancel = ManagedCommandProjectionKind.Cancel"

datatype ManagedCommandDeliveryProjectionState =
    Pending
  | Accepted
  | Duplicate
  | RetryPending string
  | Rejected string
  | ProvenByResult

fun projection_state :: "ManagedCommandDeliveryState \<Rightarrow> ManagedCommandDeliveryProjectionState" where
  "projection_state ManagedCommandDeliveryState.Pending = ManagedCommandDeliveryProjectionState.Pending"
| "projection_state ManagedCommandDeliveryState.Accepted = ManagedCommandDeliveryProjectionState.Accepted"
| "projection_state ManagedCommandDeliveryState.Duplicate = ManagedCommandDeliveryProjectionState.Duplicate"
| "projection_state (ManagedCommandDeliveryState.RetryPending code) =
     ManagedCommandDeliveryProjectionState.RetryPending code"
| "projection_state (ManagedCommandDeliveryState.Rejected code) =
     ManagedCommandDeliveryProjectionState.Rejected code"
| "projection_state ManagedCommandDeliveryState.ProvenByResult =
     ManagedCommandDeliveryProjectionState.ProvenByResult"

record ManagedCommandDeliveryProjection =
  mcp_command_id :: ManagedCommandId
  mcp_method :: string
  mcp_command_kind :: ManagedCommandProjectionKind
  mcp_attempts :: u32
  mcp_state :: ManagedCommandDeliveryProjectionState

record ManagedAgentRunProjection =
  prj_schema_version :: u32
  prj_run_id :: ManagedRunId
  prj_worker_id :: WorkerId
  prj_parent_session_id :: string
  prj_parent_turn_id :: string
  prj_task_id :: "OmegonTaskId option"
  prj_state :: ManagedRunState
  prj_commands :: "ManagedCommandDeliveryProjection list"

datatype ManagedAgentProjectionError = UnknownRun | ParentSessionMismatch

definition project_command ::
  "ManagedCommandId \<Rightarrow> 'v PendingManagedCommand \<Rightarrow> ManagedCommandDeliveryProjection"
where
  "project_command command_id pending =
     \<lparr>mcp_command_id = command_id,
      mcp_method = unwrap_or (command_method (pmc_command pending)) [],
      mcp_command_kind = projection_kind (pmc_kind pending),
      mcp_attempts = pmc_attempts pending,
      mcp_state = projection_state (pmc_state pending)\<rparr>"

definition project_run_for_parent ::
  "'v ManagedAgentSupervisorRuntime \<Rightarrow> ManagedRunId \<Rightarrow> string \<Rightarrow>
     ManagedAgentProjectionError + ManagedAgentRunProjection"
where
  "project_run_for_parent s rid parent_session_id =
     (case get_run s rid of
        None \<Rightarrow> Err ManagedAgentProjectionError.UnknownRun
      | Some entry \<Rightarrow>
          if run_parent_session_id (ent_run entry) \<noteq> parent_session_id
          then Err ParentSessionMismatch
          else Ok \<lparr>prj_schema_version = 1,
                   prj_run_id = rid,
                   prj_worker_id = run_worker_id (ent_run entry),
                   prj_parent_session_id = run_parent_session_id (ent_run entry),
                   prj_parent_turn_id = run_parent_turn_id (ent_run entry),
                   prj_task_id = run_omegon_task_id (ent_run entry),
                   prj_state = run_state (ent_run entry),
                   prj_commands =
                     map (\<lambda>(command_id, pending). project_command command_id pending)
                       (filter (\<lambda>(_, pending). pmc_run_id pending = rid) (sup_commands s))\<rparr>)"

definition project_runs_for_parent ::
  "'v ManagedAgentSupervisorRuntime \<Rightarrow> string \<Rightarrow> ManagedAgentRunProjection list"
where
  "project_runs_for_parent s parent_session_id =
     List.map_filter
       (\<lambda>rid. case project_run_for_parent s rid parent_session_id of
                Inl _ \<Rightarrow> None | Inr projection \<Rightarrow> Some projection)
       (map fst (sup_runs s))"

section \<open>Responses of the worker\<close>

text \<open>
  \<open>serde_json\<close> on the response: parsing, the accessors of \<open>Value\<close> the code uses, and the
  decoders of the typed responses.
\<close>

record 'v response_decoder =
  dec_value :: "string \<Rightarrow> string + 'v"
  val_get :: "'v \<Rightarrow> string \<Rightarrow> 'v option"
  val_as_str :: "'v \<Rightarrow> string option"
  val_is_null :: "'v \<Rightarrow> bool"
  dec_run_id :: "'v \<Rightarrow> string + ManagedRunId"
  dec_rejection :: "'v \<Rightarrow> string + SupervisorRejection"
  dec_dispatch :: "'v \<Rightarrow> string + DelegateDispatchResponse"
  dec_observation :: "'v \<Rightarrow> string + DelegateObservationResponse"
  dec_cancel :: "'v \<Rightarrow> string + DelegateCancelResponse"
  dec_result :: "'v \<Rightarrow> string + DelegateResultResponse"

datatype response_type = DispatchResult | GetResult | ResultResult | CancelResult

text \<open>The first \<open>match\<close> on the type: the four names, and the command kind each proves.\<close>

definition response_type_of :: "string \<Rightarrow> response_type option" where
  "response_type_of t =
     (if t = ''delegate_dispatch_result'' then Some DispatchResult
      else if t = ''delegate_get_result'' then Some GetResult
      else if t = ''delegate_result_result'' then Some ResultResult
      else if t = ''delegate_cancel_result'' then Some CancelResult
      else None)"

fun response_kind :: "response_type \<Rightarrow> ManagedCommandKind" where
  "response_kind DispatchResult = ManagedCommandKind.Dispatch"
| "response_kind GetResult = ManagedCommandKind.Poll"
| "response_kind ResultResult = ManagedCommandKind.Poll"
| "response_kind CancelResult = ManagedCommandKind.Cancel"

type_synonym entry_result = "(SupervisorRuntimeError + unit) \<times> RuntimeEntry"

text \<open>Running an operation of the run inside its entry, with the error lifted by \<open>?\<close>.\<close>

definition on_run :: "run_op \<Rightarrow> RuntimeEntry \<Rightarrow> entry_result" where
  "on_run f entry =
     (case f (ent_run entry) of
        (Inl e, run) \<Rightarrow> (Err (Domain e), entry\<lparr>ent_run := run\<rparr>)
      | (Inr _, run) \<Rightarrow> (Ok (), entry\<lparr>ent_run := run\<rparr>))"

definition with_task :: "RuntimeEntry \<Rightarrow> (OmegonTaskId \<Rightarrow> entry_result) \<Rightarrow> entry_result" where
  "with_task entry f =
     (case run_omegon_task_id (ent_run entry) of
        None \<Rightarrow> (Err (Domain DispatchNotAccepted), entry)
      | Some expected \<Rightarrow> f expected)"

text \<open>The second \<open>match\<close> on the type: decoding, validating and applying one response.\<close>

definition apply_typed_response ::
  "'v response_decoder \<Rightarrow> nat \<Rightarrow> ManagedRunId \<Rightarrow> 'v \<Rightarrow> response_type \<Rightarrow> RuntimeEntry \<Rightarrow> entry_result"
where
  "apply_typed_response d max_bytes rid value ty entry =
     (let worker = run_worker_id (ent_run entry)
      in case ty of
        DispatchResult \<Rightarrow>
          (case dec_dispatch d value of
             Inl e \<Rightarrow> (Err (InvalidJson e), entry)
           | Inr resp \<Rightarrow>
               case validate_dispatch_response rid worker resp of
                 Inl e \<Rightarrow> (Err (Contract e), entry)
               | Inr task_id \<Rightarrow>
                   case on_run (accept_dispatch task_id) entry of
                     (Inl e, entry1) \<Rightarrow> (Err e, entry1)
                   | (Inr _, entry1) \<Rightarrow>
                       (Ok (), entry1\<lparr>ent_events := ent_events entry1 @ [DispatchAccepted rid task_id]\<rparr>))
      | GetResult \<Rightarrow>
          (case dec_observation d value of
             Inl e \<Rightarrow> (Err (InvalidJson e), entry)
           | Inr resp \<Rightarrow>
               with_task entry (\<lambda>expected.
                 case validate_observation_response rid worker expected resp of
                   Inl e \<Rightarrow> (Err (Contract e), entry)
                 | Inr _ \<Rightarrow> on_run (apply_observation (dor_observation resp)) entry))
      | CancelResult \<Rightarrow>
          (case dec_cancel d value of
             Inl e \<Rightarrow> (Err (InvalidJson e), entry)
           | Inr resp \<Rightarrow>
               with_task entry (\<lambda>expected.
                 case validate_cancel_response rid worker expected resp of
                   Inl e \<Rightarrow> (Err (Contract e), entry)
                 | Inr _ \<Rightarrow>
                     on_run (apply_cancellation_response (dcr_acknowledged resp)
                               (dcr_termination_confirmed resp) (dcr_reason resp)) entry))
      | ResultResult \<Rightarrow>
          (case dec_result d value of
             Inl e \<Rightarrow> (Err (InvalidJson e), entry)
           | Inr resp \<Rightarrow>
               with_task entry (\<lambda>expected.
                 case validate_result_response rid worker expected max_bytes resp of
                   Inl e \<Rightarrow> (Err (Contract e), entry)
                 | Inr _ \<Rightarrow> on_run (complete_from_result (drr_result resp)) entry)))"

text \<open>\<open>values_mut().find(...)\<close>: the first matching command in key order is proven by the result.\<close>

fun prove_first ::
  "('v PendingManagedCommand \<Rightarrow> bool) \<Rightarrow> (ManagedCommandId, 'v PendingManagedCommand) btree \<Rightarrow>
     (ManagedCommandId, 'v PendingManagedCommand) btree"
where
  "prove_first p [] = []"
| "prove_first p ((command_id, pending) # rest) =
     (if p pending
      then (command_id, pending\<lparr>pmc_state := ManagedCommandDeliveryState.ProvenByResult\<rparr>) # rest
      else (command_id, pending) # prove_first p rest)"

definition proves_command :: "ManagedRunId \<Rightarrow> ManagedCommandKind \<Rightarrow> 'v PendingManagedCommand \<Rightarrow> bool" where
  "proves_command rid kind pending \<longleftrightarrow>
     pmc_run_id pending = rid \<and> pmc_kind pending = kind \<and> \<not> delivery_settled (pmc_state pending)"

definition apply_response_json ::
  "'v response_decoder \<Rightarrow> string \<Rightarrow> 'v ManagedAgentSupervisorRuntime \<Rightarrow>
     ('v, ManagedRunId) runtime_result"
where
  "apply_response_json d raw s =
     (case dec_value d raw of
        Inl e \<Rightarrow> (Err (InvalidJson e), s)
      | Inr value \<Rightarrow>
          let ty = unwrap_or (Option.bind (val_get d value ''type'') (val_as_str d)) []
          in case val_get d value ''managed_run_id'' of
               None \<Rightarrow> (Err (InvalidJson ''missing managed_run_id''), s)
             | Some id_value \<Rightarrow>
                 case dec_run_id d id_value of
                   Inl e \<Rightarrow> (Err (InvalidJson e), s)
                 | Inr rid \<Rightarrow>
                     case Option.bind (val_get d value ''rejection'')
                            (\<lambda>v. if val_is_null d v then None else Some v) of
                       Some rejection_value \<Rightarrow>
                         (case dec_rejection d rejection_value of
                            Inl e \<Rightarrow> (Err (InvalidJson e), s)
                          | Inr rejection \<Rightarrow>
                              (Err (ResponseRejected (srej_code rejection) (srej_safe_message rejection)),
                               case get_run s rid of
                                 None \<Rightarrow> s
                               | Some entry \<Rightarrow>
                                   put_run rid
                                     (entry\<lparr>ent_events := ent_events entry @
                                        [DispatchRejected rid (srej_safe_message rejection)]\<rparr>) s))
                     | None \<Rightarrow>
                         case response_type_of ty of
                           None \<Rightarrow> (Err (UnexpectedResponseType ty), s)
                         | Some rty \<Rightarrow>
                             case get_run s rid of
                               None \<Rightarrow> (Err SupervisorRuntimeError.UnknownRun, s)
                             | Some entry \<Rightarrow>
                                 case apply_typed_response d (sup_max_result_bytes s) rid value rty entry of
                                   (Inl e, entry1) \<Rightarrow> (Err e, put_run rid entry1 s)
                                 | (Inr _, entry1) \<Rightarrow>
                                     (Ok rid,
                                      (put_run rid entry1 s)\<lparr>sup_commands :=
                                         prove_first (proves_command rid (response_kind rty))
                                           (sup_commands s)\<rparr>))"

section \<open>A2A events\<close>

definition apply_event_to_run :: "ManagedAgentA2aEvent \<Rightarrow> RuntimeEntry \<Rightarrow> entry_result" where
  "apply_event_to_run ev entry =
     (let accept = (\<lambda>task_id.
            case run_state (ent_run entry) of
              Dispatching \<Rightarrow>
                (case parse_task_id task_id of
                   Inl e \<Rightarrow> (Err (Validation e), entry)
                 | Inr t \<Rightarrow> on_run (accept_dispatch t) entry)
            | _ \<Rightarrow> (Ok (), entry))
      in case ev of
        ManagedAgentA2aEvent.Accepted _ task_id _ \<Rightarrow> accept task_id
      | ManagedAgentA2aEvent.Duplicate _ task_id _ \<Rightarrow> accept task_id
      | ManagedAgentA2aEvent.Completed _ _ _ result \<Rightarrow> on_run (complete_from_result result) entry
      | ManagedAgentA2aEvent.Failed _ _ _ code safe_message \<Rightarrow> on_run (fail code safe_message) entry
      | ManagedAgentA2aEvent.CancellationAccepted _ _ _ reason \<Rightarrow>
          on_run (mark_cancellation_accepted reason) entry
      | ManagedAgentA2aEvent.TerminationConfirmed _ _ _ reason \<Rightarrow>
          on_run (confirm_termination reason) entry)"

definition apply_a2a_event ::
  "ManagedAgentA2aEvent \<Rightarrow> 'v ManagedAgentSupervisorRuntime \<Rightarrow> ('v, ManagedRunId) runtime_result"
where
  "apply_a2a_event ev s =
     (let rid = event_managed_run_id ev
      in case get_run s rid of
           None \<Rightarrow> (Err SupervisorRuntimeError.UnknownRun, s)
         | Some entry \<Rightarrow>
             case apply_event_to_run ev entry of
               (Inl e, entry1) \<Rightarrow> (Err e, put_run rid entry1 s)
             | (Inr _, entry1) \<Rightarrow> (Ok rid, put_run rid entry1 s))"

section \<open>Connections, removal and deadlines\<close>

definition of_live_worker :: "WorkerId \<Rightarrow> RuntimeEntry \<Rightarrow> bool" where
  "of_live_worker worker_id entry \<longleftrightarrow>
     run_worker_id (ent_run entry) = worker_id \<and> \<not> is_terminal (run_state (ent_run entry))"

text \<open>One pass of the loop over \<open>values_mut()\<close>: the operation, and the event where it succeeded.\<close>

definition mark_entry :: "run_op \<Rightarrow> (ManagedRunId \<Rightarrow> SupervisorEvent) \<Rightarrow> RuntimeEntry \<Rightarrow> RuntimeEntry" where
  "mark_entry f event entry =
     (let rid = run_id (ent_run entry)
      in case f (ent_run entry) of
           (Inl _, run) \<Rightarrow> entry\<lparr>ent_run := run\<rparr>
         | (Inr _, run) \<Rightarrow> entry\<lparr>ent_run := run, ent_events := ent_events entry @ [event rid]\<rparr>)"

definition mark_worker_disconnected ::
  "WorkerId \<Rightarrow> 'v ManagedAgentSupervisorRuntime \<Rightarrow> 'v ManagedAgentSupervisorRuntime"
where
  "mark_worker_disconnected worker_id s =
     s\<lparr>sup_runs := bt_update_all
         (\<lambda>_ entry. if of_live_worker worker_id entry
                    then mark_entry mark_disconnected WorkerDisconnected entry else entry)
         (sup_runs s)\<rparr>"

definition mark_worker_reconnected ::
  "WorkerId \<Rightarrow> 'v ManagedAgentSupervisorRuntime \<Rightarrow> 'v ManagedAgentSupervisorRuntime"
where
  "mark_worker_reconnected worker_id s =
     s\<lparr>sup_runs := bt_update_all
         (\<lambda>_ entry. if of_live_worker worker_id entry
                    then mark_entry mark_reconnected WorkerReconnected entry else entry)
         (sup_runs s)\<rparr>"

definition remove_run ::
  "ManagedRunId \<Rightarrow> 'v ManagedAgentSupervisorRuntime \<Rightarrow>
     ManagedAgentRun option \<times> 'v ManagedAgentSupervisorRuntime"
where
  "remove_run rid s =
     (map_option ent_run (get_run s rid), s\<lparr>sup_runs := bt_remove rid (sup_runs s)\<rparr>)"

definition pollable_run_ids :: "'v ManagedAgentSupervisorRuntime \<Rightarrow> ManagedRunId list" where
  "pollable_run_ids s =
     map fst (filter (\<lambda>(_, entry). run_state (ent_run entry) = ManagedRunState.Running) (sup_runs s))"

definition is_omegon_control_run :: "'v ManagedAgentSupervisorRuntime \<Rightarrow> ManagedRunId \<Rightarrow> bool" where
  "is_omegon_control_run s rid =
     (case map_option ent_transport (get_run s rid) of
        Some (OmegonControl _ _) \<Rightarrow> True | _ \<Rightarrow> False)"

definition active_run_ids :: "'v ManagedAgentSupervisorRuntime \<Rightarrow> ManagedRunId list" where
  "active_run_ids s =
     map fst (filter (\<lambda>(_, entry). \<not> is_terminal (run_state (ent_run entry))) (sup_runs s))"

definition dispatch_overdue :: "Instant \<Rightarrow> Duration \<Rightarrow> RuntimeEntry \<Rightarrow> bool" where
  "dispatch_overdue now timeout entry \<longleftrightarrow>
     run_state (ent_run entry) = Dispatching \<and> timeout \<le> now - ent_dispatched_at entry \<and>
     is_ok (fst (mark_dispatch_timed_out (ent_run entry)))"

definition time_out_entry :: "RuntimeEntry \<Rightarrow> RuntimeEntry" where
  "time_out_entry entry = entry\<lparr>ent_run := snd (mark_dispatch_timed_out (ent_run entry))\<rparr>"

definition expire_dispatches_at ::
  "Instant \<Rightarrow> Duration \<Rightarrow> 'v ManagedAgentSupervisorRuntime \<Rightarrow>
     ManagedRunId list \<times> 'v ManagedAgentSupervisorRuntime"
where
  "expire_dispatches_at now timeout s =
     (map (\<lambda>(_, entry). run_id (ent_run entry))
        (filter (\<lambda>(_, entry). dispatch_overdue now timeout entry) (sup_runs s)),
      s\<lparr>sup_runs := bt_update_all
          (\<lambda>_ entry. if dispatch_overdue now timeout entry then time_out_entry entry else entry)
          (sup_runs s)\<rparr>)"

text \<open>
  \<open>expire_dispatches_for\<close> visits a \<open>HashSet\<close>, in an order the code does not rely on: \<open>run_ids\<close>
  is that order, as a list without repetitions.
\<close>

fun expire_dispatches_for ::
  "Instant \<Rightarrow> ManagedRunId list \<Rightarrow> Duration \<Rightarrow> 'v ManagedAgentSupervisorRuntime \<Rightarrow>
     ManagedRunId list \<times> 'v ManagedAgentSupervisorRuntime"
where
  "expire_dispatches_for now [] timeout s = ([], s)"
| "expire_dispatches_for now (rid # rids) timeout s =
     (case get_run s rid of
        None \<Rightarrow> expire_dispatches_for now rids timeout s
      | Some entry \<Rightarrow>
          if dispatch_overdue now timeout entry
          then (case expire_dispatches_for now rids timeout (put_run rid (time_out_entry entry) s) of
                  (expired, s1) \<Rightarrow> (rid # expired, s1))
          else expire_dispatches_for now rids timeout s)"

definition expired_runs_at :: "'v ManagedAgentSupervisorRuntime \<Rightarrow> Instant \<Rightarrow> ManagedRunId list" where
  "expired_runs_at s now =
     map fst
       (filter (\<lambda>(_, entry). \<not> is_terminal (run_state (ent_run entry)) \<and> ent_deadline_at entry \<le> now)
          (sup_runs s))"

end
