(* ===== verification/Supervisor_Invariant.thy ===== *)
theory Supervisor_Invariant
  imports Supervisor_Runtime
begin

text \<open>
  What every operation of the supervisor runtime keeps: the tables are ordered maps, every entry
  is filed under the identity of its run and holds a well-formed run, and the two command tables
  agree.  The operations on a run enter through the contract \<open>run_operation\<close>, proved once here
  for a run inside its entry.
\<close>

section \<open>Entries\<close>

definition wf_entry :: "ManagedRunId \<Rightarrow> RuntimeEntry \<Rightarrow> bool" where
  "wf_entry rid entry \<longleftrightarrow>
     run_id (ent_run entry) = rid \<and> wf_run (ent_run entry) \<and>
     ent_dispatched_at entry \<le> ent_deadline_at entry \<and>
     (\<exists>later. ent_events entry = DispatchRequested rid (run_worker_id (ent_run entry)) # later)"

text \<open>Two entries that differ at most in what the operations of the run write, and in later events.\<close>

definition same_entry :: "RuntimeEntry \<Rightarrow> RuntimeEntry \<Rightarrow> bool" where
  "same_entry e e' \<longleftrightarrow>
     same_identity (ent_run e) (ent_run e') \<and> ent_transport e' = ent_transport e \<and>
     ent_dispatched_at e' = ent_dispatched_at e \<and> ent_deadline_at e' = ent_deadline_at e \<and>
     (\<exists>later. ent_events e' = ent_events e @ later)"

lemma same_entry_refl [simp]: "same_entry e e"
  by (simp add: same_entry_def)

lemma wf_entry_same:
  "wf_entry rid e \<Longrightarrow> same_entry e e' \<Longrightarrow> wf_run (ent_run e') \<Longrightarrow> wf_entry rid e'"
  by (auto simp: wf_entry_def same_entry_def same_identity_def)

lemma wf_entry_events: "wf_entry rid e \<Longrightarrow> wf_entry rid (e\<lparr>ent_events := ent_events e @ later\<rparr>)"
  by (auto simp: wf_entry_def)

context run_operation
begin

lemma op_identity: "op r = (res, r') \<Longrightarrow> same_identity r r'"
  using keeps_identity [of r] by simp

lemma op_wf: "op r = (res, r') \<Longrightarrow> wf_run r \<Longrightarrow> wf_run r'"
  using keeps_wf [of r] by simp

lemma on_run_entry: "snd (on_run op e) = e\<lparr>ent_run := snd (op (ent_run e))\<rparr>"
  by (cases "op (ent_run e)") (auto simp: on_run_def split: sum.splits)

lemma on_run_result: "fst (on_run op e) = map_err Domain (fst (op (ent_run e)))"
  by (cases "op (ent_run e)") (auto simp: on_run_def split: sum.splits)

lemma on_run_same: "same_entry e (snd (on_run op e))"
  by (simp add: on_run_entry same_entry_def keeps_identity)

lemma on_run_wf: "wf_entry rid e \<Longrightarrow> wf_entry rid (snd (on_run op e))"
  by (rule wf_entry_same [OF _ on_run_same]) (auto simp: on_run_entry wf_entry_def intro: keeps_wf)

lemma mark_entry_same: "same_entry e (mark_entry op event e)"
  by (auto simp: mark_entry_def same_entry_def Let_def intro: op_identity
      split: prod.splits sum.splits)

lemma mark_entry_wf: "wf_entry rid e \<Longrightarrow> wf_entry rid (mark_entry op event e)"
  by (rule wf_entry_same [OF _ mark_entry_same])
    (auto simp: mark_entry_def wf_entry_def Let_def intro: op_wf split: prod.splits sum.splits)

lemma set_run_wf: "op (ent_run e) = (res, r') \<Longrightarrow> wf_entry rid e \<Longrightarrow> wf_entry rid (e\<lparr>ent_run := r'\<rparr>)"
  by (auto simp: wf_entry_def intro: op_wf dest: op_identity simp: same_identity_def)

end

section \<open>The runtime\<close>

definition wf_command :: "ManagedCommandId \<Rightarrow> 'v PendingManagedCommand \<Rightarrow> bool" where
  "wf_command command_id pending \<longleftrightarrow>
     managed_command_id (pmc_command pending) = Some command_id \<and> 1 \<le> pmc_attempts pending"

definition wf_runtime :: "'v ManagedAgentSupervisorRuntime \<Rightarrow> bool" where
  "wf_runtime s \<longleftrightarrow>
     bt_ok (sup_runs s) \<and> bt_ok (sup_commands s) \<and> bt_ok (sup_command_runs s) \<and>
     bt.all_values wf_entry (sup_runs s) \<and> bt.all_values wf_command (sup_commands s) \<and>
     (\<forall>c. bt_get (sup_command_runs s) c = map_option pmc_run_id (bt_get (sup_commands s) c))"

lemma wf_new_runtime: "wf_runtime (new_runtime n)"
  by (simp add: wf_runtime_def new_runtime_def bt.ok_empty bt.all_values_empty bt.get_empty)

lemma wf_get_run: "wf_runtime s \<Longrightarrow> get_run s rid = Some e \<Longrightarrow> wf_entry rid e"
  by (auto simp: wf_runtime_def get_run_def dest: bt.all_valuesD)

lemma wf_get_command:
  "wf_runtime s \<Longrightarrow> bt_get (sup_commands s) c = Some p \<Longrightarrow> wf_command c p"
  by (auto simp: wf_runtime_def dest: bt.all_valuesD)

lemma wf_put_run: "wf_runtime s \<Longrightarrow> wf_entry rid e \<Longrightarrow> wf_runtime (put_run rid e s)"
  by (simp add: wf_runtime_def put_run_def bt.ok_insert bt.all_values_insert)

lemma get_put_run:
  "wf_runtime s \<Longrightarrow> get_run (put_run rid e s) rid' = (if rid' = rid then Some e else get_run s rid')"
  by (simp add: wf_runtime_def put_run_def get_run_def bt.get_insert)

lemma put_run_commands [simp]:
  "sup_commands (put_run rid e s) = sup_commands s"
  "sup_command_runs (put_run rid e s) = sup_command_runs s"
  "sup_max_result_bytes (put_run rid e s) = sup_max_result_bytes s"
  by (simp_all add: put_run_def)

lemma wf_update_runs:
  "wf_runtime s \<Longrightarrow> (\<And>rid e. wf_entry rid e \<Longrightarrow> wf_entry rid (f rid e)) \<Longrightarrow>
     wf_runtime (s\<lparr>sup_runs := bt_update_all f (sup_runs s)\<rparr>)"
  by (simp add: wf_runtime_def bt.ok_update_all bt.all_values_update)

lemma wf_update_commands:
  "wf_runtime s \<Longrightarrow>
     (\<And>c p. wf_command c p \<Longrightarrow> wf_command c (f c p) \<and> pmc_run_id (f c p) = pmc_run_id p) \<Longrightarrow>
     wf_runtime (s\<lparr>sup_commands := bt_update_all f (sup_commands s)\<rparr>)"
  by (auto simp: wf_runtime_def bt.ok_update_all bt.all_values_update bt.get_update_all
      option.map_comp comp_def intro!: option.map_cong0 option.map_cong dest: bt.all_valuesD)

lemma wf_put_command_state: "wf_runtime s \<Longrightarrow> wf_runtime (put_command_state c st s)"
  unfolding put_command_state_def bt_adjust_def
  by (rule wf_update_commands) (auto simp: wf_command_def)

lemma wf_register_command:
  "wf_runtime s \<Longrightarrow> wf_runtime (snd (register_command now rid kind command s))"
  by (auto simp: register_command_def wf_runtime_def bt.ok_insert bt.all_values_insert
      bt.get_insert wf_command_def split: option.splits)

lemma register_command_runs [simp]:
  "sup_runs (snd (register_command now rid kind command s)) = sup_runs s"
  by (auto simp: register_command_def split: option.splits)

lemma new_entry_wf:
  assumes "new_run fresh w ps pt q = Ok run"
  shows "wf_entry (run_id run)
    \<lparr>ent_run = run, ent_transport = transport, ent_dispatched_at_unix_ms = ms,
     ent_dispatched_at = now,
     ent_deadline_at = unwrap_or (instant_checked_add now d) now,
     ent_events = [DispatchRequested (run_id run) w]\<rparr>"
  using new_run_wf [OF assms]
  by (auto simp: wf_entry_def instant_checked_add_def)

lemma wf_prepare_run:
  "wf_runtime s \<Longrightarrow> wf_runtime (snd (prepare_run fresh now w ps pt q transport ms s))"
  by (auto simp: prepare_run_def Let_def intro: wf_put_run new_entry_wf split: sum.splits)

lemma prepared_run_exists:
  assumes "wf_runtime s" and "prepare_run fresh now w ps pt q transport ms s = (Ok rid, s')"
  shows "\<exists>entry. get_run s' rid = Some entry \<and> rid = fresh \<and> run_id (ent_run entry) = rid \<and>
           run_request (ent_run entry) = q \<and> run_worker_id (ent_run entry) = w \<and>
           run_parent_session_id (ent_run entry) = ps \<and> ent_transport entry = transport \<and>
           run_state (ent_run entry) = Dispatching"
  using assms
  by (auto simp: prepare_run_def Let_def get_put_run dest!: new_run_wf split: sum.splits if_splits)

lemma wf_register_result:
  "register_command now rid kind command s = (res, s') \<Longrightarrow> wf_runtime s \<Longrightarrow> wf_runtime s'"
  using wf_register_command [of s now rid kind command] by simp

lemma wf_prepare_result:
  "prepare_run fresh now w ps pt q transport ms s = (res, s') \<Longrightarrow> wf_runtime s \<Longrightarrow> wf_runtime s'"
  using wf_prepare_run [of s fresh now w ps pt q transport ms] by simp

lemmas wf_results = wf_register_result wf_prepare_result

lemma wf_dispatch:
  "wf_runtime s \<Longrightarrow> wf_runtime (snd (dispatch enc fresh fc now now' w ps pt q target ms s))"
  by (auto simp: dispatch_def split: prod.splits sum.splits option.splits intro: wf_results)

lemma wf_poll_command: "wf_runtime s \<Longrightarrow> wf_runtime (snd (poll_command enc fresh now rid s))"
  by (auto simp: poll_command_def intro: wf_register_command
      split: option.splits ManagedAgentTransportBinding.splits sum.splits)

lemma wf_cancelled_entry:
  "request_cancellation reason (ent_run e) = (res, r) \<Longrightarrow> wf_runtime s \<Longrightarrow>
     get_run s rid = Some e \<Longrightarrow> wf_runtime (put_run rid (e\<lparr>ent_run := r, ent_events := ent_events e @ later\<rparr>) s)"
  using wf_entry_events [OF request_cancel_op.set_run_wf, of reason e res r rid later]
  by (auto intro!: wf_put_run dest: wf_get_run)

lemma wf_cancel_failed:
  "request_cancellation reason (ent_run e) = (res, r) \<Longrightarrow> wf_runtime s \<Longrightarrow>
     get_run s rid = Some e \<Longrightarrow> wf_runtime (put_run rid (e\<lparr>ent_run := r\<rparr>) s)"
  by (blast intro: wf_put_run request_cancel_op.set_run_wf wf_get_run)

lemma wf_cancel_command:
  "wf_runtime s \<Longrightarrow> wf_runtime (snd (cancel_command enc fresh now rid reason s))"
  by (auto simp: cancel_command_def Let_def intro: wf_register_command wf_cancelled_entry wf_cancel_failed
      split: option.splits prod.splits sum.splits ManagedAgentTransportBinding.splits)

lemma wf_request_a2a_cancellation:
  "wf_runtime s \<Longrightarrow> wf_runtime (snd (request_a2a_cancellation rid reason s))"
  by (auto simp: request_a2a_cancellation_def intro: wf_cancelled_entry wf_cancel_failed
      split: option.splits prod.splits sum.splits ManagedAgentTransportBinding.splits)

lemma wf_apply_receipt: "wf_runtime s \<Longrightarrow> wf_runtime (snd (apply_receipt_json p json s))"
  by (auto simp: apply_receipt_json_def intro: wf_put_command_state split: sum.splits option.splits)

lemma wf_apply_command_ack: "wf_runtime s \<Longrightarrow> wf_runtime (snd (apply_command_ack_json p json s))"
  by (auto simp: apply_command_ack_json_def intro: wf_put_command_state
      split: sum.splits option.splits)

lemma saturating_add_ge_one: "1 \<le> a \<Longrightarrow> 1 \<le> saturating_add a (b :: 'a::len word)"
  by (metis order_trans saturating_add_ge)

lemma wf_replay: "wf_runtime s \<Longrightarrow> wf_runtime (snd (replay_due_commands now timeout s))"
  unfolding replay_due_commands_def snd_conv
  by (rule wf_update_commands) (auto simp: wf_command_def saturating_add_ge_one)

lemma wf_mark_disconnected: "wf_runtime s \<Longrightarrow> wf_runtime (mark_worker_disconnected w s)"
  unfolding mark_worker_disconnected_def
  by (rule wf_update_runs) (auto intro: disconnect_op.mark_entry_wf)

lemma wf_mark_reconnected: "wf_runtime s \<Longrightarrow> wf_runtime (mark_worker_reconnected w s)"
  unfolding mark_worker_reconnected_def
  by (rule wf_update_runs) (auto intro: reconnect_op.mark_entry_wf)

lemma wf_remove_run: "wf_runtime s \<Longrightarrow> wf_runtime (snd (remove_run rid s))"
  by (simp add: remove_run_def wf_runtime_def bt.ok_remove bt.all_values_remove)

lemma time_out_entry_wf: "wf_entry rid e \<Longrightarrow> wf_entry rid (time_out_entry e)"
  using timeout_op.on_run_wf [of rid e] by (simp add: time_out_entry_def timeout_op.on_run_entry)

lemma wf_expire_dispatches_at: "wf_runtime s \<Longrightarrow> wf_runtime (snd (expire_dispatches_at now d s))"
  unfolding expire_dispatches_at_def snd_conv
  by (rule wf_update_runs) (auto intro: time_out_entry_wf)

lemma wf_expire_dispatches_for:
  "wf_runtime s \<Longrightarrow> wf_runtime (snd (expire_dispatches_for now rids d s))"
proof (induction rids arbitrary: s)
  case Nil
  then show ?case by simp
next
  case (Cons rid rids)
  then show ?case
    by (auto simp: case_prod_beta split: option.splits
        intro!: Cons.IH wf_put_run time_out_entry_wf dest: wf_get_run)
qed

lemma prove_first_keys: "map fst (prove_first p m) = map fst m"
  by (induction p m rule: prove_first.induct) auto

lemma prove_first_ok: "bt_ok m \<Longrightarrow> bt_ok (prove_first p m)"
  by (simp add: bt_ok_def prove_first_keys)

lemma prove_first_get:
  "bt_get (prove_first p m) c = bt_get m c \<or>
   (\<exists>q. bt_get m c = Some q \<and> p q \<and>
        bt_get (prove_first p m) c =
          Some (q\<lparr>pmc_state := ManagedCommandDeliveryState.ProvenByResult\<rparr>))"
  unfolding bt_get_def by (induction p m rule: prove_first.induct) auto

lemma wf_prove_first:
  assumes "wf_runtime s"
  shows "wf_runtime (s\<lparr>sup_commands := prove_first p (sup_commands s)\<rparr>)"
proof -
  have same_run: "map_option pmc_run_id (bt_get (prove_first p (sup_commands s)) c) =
        map_option pmc_run_id (bt_get (sup_commands s) c)" for c
    using prove_first_get [of p "sup_commands s" c] by auto
  have wf: "wf_command c q'" if "bt_get (prove_first p (sup_commands s)) c = Some q'" for c q'
    using prove_first_get [of p "sup_commands s" c] that wf_get_command [OF assms, of c]
    by (auto simp: wf_command_def)
  from assms show ?thesis
    by (simp add: wf_runtime_def prove_first_ok same_run bt.all_valuesI wf)
qed

lemma on_run_wf_rules:
  "wf_entry rid e \<Longrightarrow> wf_entry rid (snd (on_run (accept_dispatch t) e))"
  "wf_entry rid e \<Longrightarrow> wf_entry rid (snd (on_run (apply_observation observation) e))"
  "wf_entry rid e \<Longrightarrow> wf_entry rid (snd (on_run (apply_cancellation_response ack confirmed reason) e))"
  "wf_entry rid e \<Longrightarrow> wf_entry rid (snd (on_run (complete_from_result result) e))"
  "wf_entry rid e \<Longrightarrow> wf_entry rid (snd (on_run (fail code msg) e))"
  "wf_entry rid e \<Longrightarrow> wf_entry rid (snd (on_run (mark_cancellation_accepted reason) e))"
  "wf_entry rid e \<Longrightarrow> wf_entry rid (snd (on_run (confirm_termination reason) e))"
  by (rule accept_op.on_run_wf observe_op.on_run_wf cancel_response_op.on_run_wf
      complete_op.on_run_wf fail_op.on_run_wf cancel_accepted_op.on_run_wf confirm_op.on_run_wf;
      assumption)+

lemma wf_accepted_entry:
  "on_run (accept_dispatch t) e = (res, e') \<Longrightarrow> wf_entry rid e \<Longrightarrow>
     wf_entry rid e' \<and> wf_entry rid (e'\<lparr>ent_events := ent_events e' @ later\<rparr>)"
  using on_run_wf_rules(1) [of rid e t] by (auto intro: wf_entry_events)

lemma apply_typed_response_wf:
  "wf_entry rid e \<Longrightarrow> wf_entry rid (snd (apply_typed_response d n rid value ty e))"
  by (cases ty)
    (auto simp: apply_typed_response_def with_task_def Let_def intro: on_run_wf_rules
      split: sum.splits option.splits prod.splits dest: wf_accepted_entry)

lemma apply_event_to_run_wf: "wf_entry rid e \<Longrightarrow> wf_entry rid (snd (apply_event_to_run ev e))"
  by (cases ev)
    (auto simp: apply_event_to_run_def Let_def intro: on_run_wf_rules
      split: sum.splits ManagedRunState.splits)

definition response_names :: "'v response_decoder \<Rightarrow> string \<Rightarrow> ManagedRunId \<Rightarrow> bool" where
  "response_names d raw rid \<longleftrightarrow>
     (\<exists>v x. dec_value d raw = Ok v \<and> val_get d v ''managed_run_id'' = Some x \<and> dec_run_id d x = Ok rid)"

text \<open>
  A response leaves the runtime alone, records a rejection, fails inside the typed part, or is
  applied to the one run it names.
\<close>

lemma apply_response_cases:
  assumes "apply_response_json d raw s = (res, s')"
  obtains
    (unchanged) "s' = s" "\<not> is_ok res"
  | (rejected) rid e later where "get_run s rid = Some e" "\<not> is_ok res"
      "s' = put_run rid (e\<lparr>ent_events := ent_events e @ later\<rparr>) s" "response_names d raw rid"
  | (failed) v rid e ty err e' where "dec_value d raw = Ok v" "get_run s rid = Some e"
      "apply_typed_response d (sup_max_result_bytes s) rid v ty e = (Err err, e')"
      "res = Err err" "s' = put_run rid e' s" "response_names d raw rid"
  | (applied) v rid e ty e' where "dec_value d raw = Ok v" "get_run s rid = Some e"
      "apply_typed_response d (sup_max_result_bytes s) rid v ty e = (Ok (), e')"
      "res = Ok rid"
      "s' = (put_run rid e' s)\<lparr>sup_commands :=
              prove_first (proves_command rid (response_kind ty)) (sup_commands s)\<rparr>"
      "response_names d raw rid"
proof (cases "dec_value d raw")
  case (Inl e)
  with assms unchanged show ?thesis by (auto simp: apply_response_json_def)
next
  case (Inr v)
  note [simp] = apply_response_json_def Let_def response_names_def
  consider "val_get d v ''managed_run_id'' = None"
    | x e where "val_get d v ''managed_run_id'' = Some x" "dec_run_id d x = Err e"
    | x rid where "val_get d v ''managed_run_id'' = Some x" "dec_run_id d x = Ok rid"
    by (metis not_None_eq old.sum.exhaust)
  then show ?thesis
  proof cases
    case 1
    with Inr assms unchanged show ?thesis by auto
  next
    case 2
    with Inr assms unchanged show ?thesis by auto
  next
    case (3 y rid)
    show ?thesis
    proof (cases "Option.bind (val_get d v ''rejection'') (\<lambda>v. if val_is_null d v then None else Some v)")
      case (Some x)
      show ?thesis
      proof (cases "dec_rejection d x")
        case (Inl e)
        from assms have "s' = s" and "\<not> is_ok res" by (auto simp: 3 \<open>dec_value d raw = _\<close> Some Inl)
        then show ?thesis by (rule unchanged)
      next
        case (Inr rejection)
        show ?thesis
        proof (cases "get_run s rid")
          case None
          from assms have "s' = s" and "\<not> is_ok res"
            by (auto simp: 3 \<open>dec_value d raw = _\<close> Some Inr None)
          then show ?thesis by (rule unchanged)
        next
          case (Some e)
          show ?thesis
            by (rule rejected [OF Some])
              (use assms in \<open>auto simp: 3 \<open>dec_value d raw = _\<close> \<open>_ = Some x\<close> Inr Some\<close>)
        qed
      qed
    next
      case no_rejection: None
      let ?ty = "response_type_of (unwrap_or (Option.bind (val_get d v ''type'') (val_as_str d)) [])"
      show ?thesis
      proof (cases "?ty = None \<or> get_run s rid = None")
        case True
        with assms have "s' = s" and "\<not> is_ok res"
          by (auto simp: 3 \<open>dec_value d raw = _\<close> no_rejection split: option.splits)
        then show ?thesis by (rule unchanged)
      next
        case False
        then obtain ty e where ty: "?ty = Some ty" and e: "get_run s rid = Some e" by auto
        obtain r e' where r: "apply_typed_response d (sup_max_result_bytes s) rid v ty e = (r, e')"
          by fastforce
        show ?thesis
        proof (cases r)
          case (Inl err)
          show ?thesis
            by (rule failed [OF \<open>dec_value d raw = _\<close> e r [unfolded Inl]])
              (use assms in \<open>simp_all add: 3 \<open>dec_value d raw = _\<close> no_rejection ty e r Inl\<close>)
        next
          case ok: (Inr u)
          show ?thesis
            by (rule applied [OF \<open>dec_value d raw = _\<close> e, of ty e'])
              (use assms in \<open>simp_all add: 3 \<open>dec_value d raw = _\<close> no_rejection ty e r ok\<close>)
        qed
      qed
    qed
  qed
qed

lemma wf_apply_response:
  assumes s: "wf_runtime s"
  shows "wf_runtime (snd (apply_response_json d raw s))"
proof -
  have entry: "wf_entry rid e'" if "get_run s rid = Some e"
    "apply_typed_response d n rid v ty e = (res, e')" for rid e e' n v ty res
    using apply_typed_response_wf [of rid e d n v ty] wf_get_run [OF s that(1)] that(2) by simp
  obtain res s' where r: "apply_response_json d raw s = (res, s')" by fastforce
  then have "wf_runtime s'"
  proof (cases rule: apply_response_cases)
    case unchanged
    with s show ?thesis by simp
  next
    case rejected
    with s show ?thesis by (auto intro: wf_put_run wf_entry_events wf_get_run)
  next
    case failed
    with s show ?thesis by (auto intro: wf_put_run entry)
  next
    case (applied v rid e ty e')
    then have "wf_runtime (put_run rid e' s)" using s by (auto intro: wf_put_run entry)
    from wf_prove_first [OF this] applied show ?thesis by simp
  qed
  with r show ?thesis by simp
qed

lemma wf_apply_a2a_event: "wf_runtime s \<Longrightarrow> wf_runtime (snd (apply_a2a_event ev s))"
proof -
  assume s: "wf_runtime s"
  have "wf_entry rid e'" if "get_run s rid = Some e" "apply_event_to_run ev e = (res, e')"
    for rid e e' res
    using apply_event_to_run_wf [of rid e ev] wf_get_run [OF s that(1)] that(2) by simp
  with s show ?thesis
    by (auto simp: apply_a2a_event_def Let_def intro: wf_put_run
        split: sum.splits option.splits prod.splits)
qed

section \<open>Steps of the runtime\<close>

text \<open>
  One rule per public operation that writes the runtime.  A drawn command identity is one that is
  not in the table: that is what \<open>Uuid::new_v4()\<close> is used for.  Run identities need no such
  premise, the code checks them itself.
\<close>

inductive sup_step ::
  "'v ManagedAgentSupervisorRuntime \<Rightarrow> 'v ManagedAgentSupervisorRuntime \<Rightarrow> bool"
where
  step_prepare: "sup_step s (snd (prepare_run fresh now w ps pt q transport ms s))"
| step_dispatch: "bt_get (sup_commands s) fc = None \<Longrightarrow>
    sup_step s (snd (dispatch enc fresh fc now now' w ps pt q target ms s))"
| step_poll: "bt_get (sup_commands s) fc = None \<Longrightarrow>
    sup_step s (snd (poll_command enc fc now rid s))"
| step_cancel: "bt_get (sup_commands s) fc = None \<Longrightarrow>
    sup_step s (snd (cancel_command enc fc now rid reason s))"
| step_a2a_cancel: "sup_step s (snd (request_a2a_cancellation rid reason s))"
| step_receipt: "sup_step s (snd (apply_receipt_json parse_receipt json s))"
| step_ack: "sup_step s (snd (apply_command_ack_json parse_ack json s))"
| step_replay: "sup_step s (snd (replay_due_commands now timeout s))"
| step_response: "sup_step s (snd (apply_response_json d raw s))"
| step_a2a_event: "sup_step s (snd (apply_a2a_event ev s))"
| step_disconnected: "sup_step s (mark_worker_disconnected w s)"
| step_reconnected: "sup_step s (mark_worker_reconnected w s)"
| step_remove: "sup_step s (snd (remove_run rid s))"
| step_expire_at: "sup_step s (snd (expire_dispatches_at now timeout s))"
| step_expire_for: "sup_step s (snd (expire_dispatches_for now rids timeout s))"

lemmas wf_operations =
  wf_prepare_run wf_dispatch wf_poll_command wf_cancel_command wf_request_a2a_cancellation
  wf_apply_receipt wf_apply_command_ack wf_replay wf_apply_response wf_apply_a2a_event
  wf_mark_disconnected wf_mark_reconnected wf_remove_run wf_expire_dispatches_at
  wf_expire_dispatches_for

lemma sup_step_wf: "sup_step s s' \<Longrightarrow> wf_runtime s \<Longrightarrow> wf_runtime s'"
  by (induction rule: sup_step.induct) (rule wf_operations, assumption)+

lemma sup_steps_wf: "sup_step\<^sup>*\<^sup>* s s' \<Longrightarrow> wf_runtime s \<Longrightarrow> wf_runtime s'"
  by (induction rule: rtranclp_induct) (auto intro: sup_step_wf)

section \<open>Settled commands\<close>

definition settled :: "'v ManagedAgentSupervisorRuntime \<Rightarrow> ManagedCommandId \<Rightarrow> bool" where
  "settled s c \<longleftrightarrow>
     (\<exists>p. bt_get (sup_commands s) c = Some p \<and> delivery_settled (pmc_state p))"

lemma commands_unchanged [simp]:
  "sup_commands (snd (prepare_run fresh now w ps pt q transport ms s)) = sup_commands s"
  "sup_commands (snd (request_a2a_cancellation rid reason s)) = sup_commands s"
  "sup_commands (snd (apply_a2a_event ev s)) = sup_commands s"
  "sup_commands (mark_worker_disconnected w s) = sup_commands s"
  "sup_commands (mark_worker_reconnected w s) = sup_commands s"
  "sup_commands (snd (remove_run rid s)) = sup_commands s"
  "sup_commands (snd (expire_dispatches_at now timeout s)) = sup_commands s"
  by (auto simp: prepare_run_def request_a2a_cancellation_def apply_a2a_event_def
      mark_worker_disconnected_def mark_worker_reconnected_def remove_run_def
      expire_dispatches_at_def Let_def
      split: sum.splits option.splits prod.splits ManagedAgentTransportBinding.splits)

lemma commands_unchanged_expire_for [simp]:
  "sup_commands (snd (expire_dispatches_for now rids timeout s)) = sup_commands s"
  by (induction rids arbitrary: s) (auto simp: case_prod_beta split: option.splits)

lemma register_command_get:
  "wf_runtime s \<Longrightarrow> managed_command_id command = Some fc \<Longrightarrow> c \<noteq> fc \<Longrightarrow>
     bt_get (sup_commands (snd (register_command now rid kind command s))) c = bt_get (sup_commands s) c"
  by (auto simp: register_command_def wf_runtime_def bt.get_insert split: option.splits)

text \<open>Sending a command draws an identity and touches the table nowhere else.\<close>

lemma send_keeps_commands:
  assumes "wf_runtime s" and "c \<noteq> fc"
  shows "bt_get (sup_commands (snd (poll_command enc fc now rid s))) c = bt_get (sup_commands s) c"
    and "bt_get (sup_commands (snd (cancel_command enc fc now rid reason s))) c =
           bt_get (sup_commands s) c"
    and "bt_get (sup_commands (snd (dispatch enc fresh fc now now' w ps pt q target ms s))) c =
           bt_get (sup_commands s) c"
proof -
  have reg: "bt_get (sup_commands (snd (register_command now rid kind command t))) c =
      bt_get (sup_commands t) c" if "encode_command fc target m e = Ok command" "wf_runtime t"
    for now rid kind command t target m e
    using that assms(2) by (auto dest!: encode_command_Ok intro: register_command_get)
  show "bt_get (sup_commands (snd (poll_command enc fc now rid s))) c = bt_get (sup_commands s) c"
    using assms by (auto simp: poll_command_def get_command_def reg
        split: option.splits ManagedAgentTransportBinding.splits sum.splits)
  show "bt_get (sup_commands (snd (cancel_command enc fc now rid reason s))) c =
           bt_get (sup_commands s) c"
    using assms by (auto simp: cancel_command_def cancel_request_command_def Let_def reg
        wf_cancelled_entry
        split: option.splits prod.splits sum.splits ManagedAgentTransportBinding.splits)
  obtain r t where p: "prepare_run fresh now w ps pt q (OmegonControl [] target) ms s = (r, t)"
    by fastforce
  with commands_unchanged(1) [of fresh now w ps pt q "OmegonControl [] target" ms s]
  have t: "sup_commands t = sup_commands s" "wf_runtime t"
    using assms(1) by (auto intro: wf_prepare_result)
  show "bt_get (sup_commands (snd (dispatch enc fresh fc now now' w ps pt q target ms s))) c =
           bt_get (sup_commands s) c"
    using t p reg [OF _ t(2)]
    by (auto simp: dispatch_def dispatch_request_command_def split: sum.splits option.splits prod.splits)
      (metis snd_conv)+
qed

lemma put_command_state_settled:
  "wf_runtime s \<Longrightarrow> delivery_settled st \<Longrightarrow> settled s c \<Longrightarrow> settled (put_command_state c' st s) c"
  by (auto simp: settled_def put_command_state_def wf_runtime_def bt_get_adjust)

lemma put_command_state_other:
  "wf_runtime s \<Longrightarrow> c \<noteq> c' \<Longrightarrow> settled s c \<Longrightarrow> settled (put_command_state c' st s) c"
  by (auto simp: settled_def put_command_state_def wf_runtime_def bt_get_adjust)

lemma receipt_keeps_settled:
  "wf_runtime s \<Longrightarrow> settled s c \<Longrightarrow> settled (snd (apply_receipt_json p json s)) c"
  by (auto simp: apply_receipt_json_def intro!: put_command_state_settled
      split: sum.splits option.splits ControlCommandReceiptStatus.splits)

lemma ack_keeps_settled:
  assumes "wf_runtime s" and "settled s c"
  shows "settled (snd (apply_command_ack_json p json s)) c"
proof -
  have "settled (put_command_state c' st s) c"
    if "bt_get (sup_commands s) c' = Some q" "\<not> delivery_settled (pmc_state q)" for c' st q
    using that assms by (intro put_command_state_other) (auto simp: settled_def)
  with assms show ?thesis
    by (auto simp: apply_command_ack_json_def split: sum.splits option.splits)
qed

lemma replay_keeps_settled:
  "wf_runtime s \<Longrightarrow> settled s c \<Longrightarrow> settled (snd (replay_due_commands now timeout s)) c"
  by (auto simp: settled_def replay_due_commands_def wf_runtime_def bt.get_update_all replay_due_def)

lemma response_keeps_settled:
  assumes "settled s c"
  shows "settled (snd (apply_response_json d raw s)) c"
proof -
  obtain res s' where r: "apply_response_json d raw s = (res, s')" by fastforce
  then have "settled s' c"
  proof (cases rule: apply_response_cases)
    case (applied v rid e ty e')
    then show ?thesis
      using prove_first_get [of "proves_command rid (response_kind ty)" "sup_commands s" c] assms
      by (auto simp: settled_def)
  qed (use assms in \<open>auto simp: settled_def\<close>)
  with r show ?thesis by simp
qed

lemma commands_settled:
  assumes "settled s c"
  shows "settled (snd (prepare_run fresh now w ps pt q transport ms s)) c"
    and "settled (snd (request_a2a_cancellation rid reason s)) c"
    and "settled (snd (apply_a2a_event ev s)) c"
    and "settled (mark_worker_disconnected w s) c"
    and "settled (mark_worker_reconnected w s) c"
    and "settled (snd (remove_run rid s)) c"
    and "settled (snd (expire_dispatches_at now timeout s)) c"
    and "settled (snd (expire_dispatches_for now rids timeout s)) c"
  using assms by (simp_all add: settled_def)

lemma sup_step_settled:
  "sup_step s s' \<Longrightarrow> wf_runtime s \<Longrightarrow> settled s c \<Longrightarrow> settled s' c"
proof (induction rule: sup_step.induct)
  case (step_dispatch s fc enc fresh now now' w ps pt q target ms)
  then have "c \<noteq> fc" by (auto simp: settled_def)
  with step_dispatch show ?case by (simp add: settled_def send_keeps_commands)
next
  case (step_poll s fc enc now rid)
  then have "c \<noteq> fc" by (auto simp: settled_def)
  with step_poll show ?case by (simp add: settled_def send_keeps_commands)
next
  case (step_cancel s fc enc now rid reason)
  then have "c \<noteq> fc" by (auto simp: settled_def)
  with step_cancel show ?case by (simp add: settled_def send_keeps_commands)
qed (simp_all add: receipt_keeps_settled ack_keeps_settled replay_keeps_settled
    response_keeps_settled commands_settled)

lemma sup_steps_settled:
  "sup_step\<^sup>*\<^sup>* s s' \<Longrightarrow> wf_runtime s \<Longrightarrow> settled s c \<Longrightarrow> settled s' c"
  by (induction rule: rtranclp_induct) (auto intro: sup_step_settled sup_steps_wf)

end
