(* ===== verification/Supervisor_Props.thy ===== *)
theory Supervisor_Props
  imports Supervisor_Invariant
begin

text \<open>
  What the supervisor runtime promises its callers: consistency of the tables, delivery of
  commands (at least until settled, never after), responses and events applied to the run they
  name and to no other, projections scoped to a parent session, deadlines, and two situations in
  which the code leaves a run or a command behind.
\<close>

section \<open>A runtime for the witnesses\<close>

text \<open>A JSON value type, an encoder and a decoder small enough to evaluate.\<close>

datatype sample_json = JStr string | JId ManagedRunId | JDispatch DelegateDispatchResponse

definition sample_encoder :: "sample_json supervisor_encoder" where
  "sample_encoder =
     \<lparr>enc_dispatch = \<lambda>_. Ok (JStr ''d''), enc_task = \<lambda>_. Ok (JStr ''t''),
      enc_cancel = \<lambda>_. Ok (JStr ''c'')\<rparr>"

definition sample_acceptance :: DelegateDispatchResponse where
  "sample_acceptance =
     \<lparr>ddr_schema_version = 1, ddr_managed_run_id = ManagedRunId 1, ddr_worker_id = WorkerId 2,
      ddr_accepted = True, ddr_task_id = Some (OmegonTaskId ''task''),
      ddr_effective_policy = None, ddr_rejection = None\<rparr>"

fun sample_field :: "sample_json \<Rightarrow> string \<Rightarrow> sample_json option" where
  "sample_field (JDispatch resp) key =
     (if key = ''type'' then Some (JStr ''delegate_dispatch_result'')
      else if key = ''managed_run_id'' then Some (JId (ddr_managed_run_id resp))
      else None)"
| "sample_field _ key = None"

fun sample_str :: "sample_json \<Rightarrow> string option" where
  "sample_str (JStr t) = Some t"
| "sample_str _ = None"

fun sample_run_id :: "sample_json \<Rightarrow> string + ManagedRunId" where
  "sample_run_id (JId rid) = Ok rid"
| "sample_run_id _ = Err ''run id''"

fun sample_dispatch :: "sample_json \<Rightarrow> string + DelegateDispatchResponse" where
  "sample_dispatch (JDispatch resp) = Ok resp"
| "sample_dispatch _ = Err ''dispatch''"

definition sample_decoder :: "sample_json response_decoder" where
  "sample_decoder =
     \<lparr>dec_value = \<lambda>raw. if raw = ''ok'' then Ok (JDispatch sample_acceptance)
                   else if raw = ''?'' then Ok (JStr raw)
                   else if raw = ''who'' then Ok (JDispatch (sample_acceptance\<lparr>ddr_worker_id := WorkerId 3\<rparr>))
                   else Err ''syntax'',
      val_get = sample_field, val_as_str = sample_str, val_is_null = \<lambda>_. False,
      dec_run_id = sample_run_id, dec_rejection = \<lambda>_. Err ''rejection'',
      dec_dispatch = sample_dispatch, dec_observation = \<lambda>_. Err ''observation'',
      dec_cancel = \<lambda>_. Err ''cancel'', dec_result = \<lambda>_. Err ''result''\<rparr>"

definition sample_target :: CommandTarget where
  "sample_target = \<lparr>ct_session_key = ''k'', ct_dispatcher_instance_id = None\<rparr>"

definition sample_command :: "sample_json TargetedCommand" where
  "sample_command =
     control_method (ManagedCommandId 7) sample_target METHOD_DELEGATE_DISPATCH (JStr ''d'')"

definition sample_entry :: RuntimeEntry where
  "sample_entry =
     \<lparr>ent_run = sample_run, ent_transport = OmegonControl [] sample_target,
      ent_dispatched_at_unix_ms = 5, ent_dispatched_at = 10, ent_deadline_at = 60000000010,
      ent_events = [DispatchRequested (ManagedRunId 1) (WorkerId 2)]\<rparr>"

definition sample_pending :: "sample_json PendingManagedCommand" where
  "sample_pending =
     \<lparr>pmc_command = sample_command, pmc_kind = ManagedCommandKind.Dispatch,
      pmc_run_id = ManagedRunId 1, pmc_worker_id = WorkerId 2, pmc_task_id = None,
      pmc_state = ManagedCommandDeliveryState.Pending, pmc_attempts = 1, pmc_last_sent_at = 20\<rparr>"

definition sample_dispatched :: "sample_json ManagedAgentSupervisorRuntime" where
  "sample_dispatched =
     \<lparr>sup_runs = [(ManagedRunId 1, sample_entry)],
      sup_commands = [(ManagedCommandId 7, sample_pending)],
      sup_command_runs = [(ManagedCommandId 7, ManagedRunId 1)], sup_max_result_bytes = 4096\<rparr>"

lemma sample_run_fields [simp]:
  "run_id sample_run = ManagedRunId 1" "run_worker_id sample_run = WorkerId 2"
  "run_request sample_run = sample_request" "run_omegon_task_id sample_run = None"
  "run_state sample_run = Dispatching" "run_parent_session_id sample_run = ''s''"
  "req_supervisor_deadline_seconds sample_request = 60"
  by (simp_all add: sample_run_def sample_request_def)

lemma sample_prepare_result:
  "prepare_run (ManagedRunId 1) 10 (WorkerId 2) ''s'' ''t'' sample_request
     (OmegonControl [] sample_target) 5 (new_runtime 4096) =
   (Ok (ManagedRunId 1), put_run (ManagedRunId 1) sample_entry (new_runtime 4096))"
  by (simp add: prepare_run_def new_sample_run get_run_def new_runtime_def bt.get_empty Let_def
      sample_entry_def from_secs_def instant_checked_add_def instant_limit_def)

lemma sample_dispatch_result:
  "dispatch sample_encoder (ManagedRunId 1) (ManagedCommandId 7) 10 20 (WorkerId 2) ''s'' ''t''
     sample_request sample_target 5 (new_runtime 4096) =
   (Ok (ManagedRunId 1, sample_command), sample_dispatched)"
  unfolding dispatch_def sample_prepare_result
  by (simp add: get_run_def put_run_def new_runtime_def bt_get_def bt_empty_def dispatch_request_command_def encode_command_def sample_encoder_def
      register_command_def sample_command_def sample_dispatched_def sample_entry_def
      sample_pending_def)

lemma sample_reached: "sup_step\<^sup>*\<^sup>* (new_runtime 4096) sample_dispatched"
proof -
  have "sup_step (new_runtime 4096) (snd (dispatch sample_encoder (ManagedRunId 1)
      (ManagedCommandId 7) 10 20 (WorkerId 2) ''s'' ''t'' sample_request sample_target 5
      (new_runtime 4096)))"
    by (rule step_dispatch) (simp add: new_runtime_def bt.get_empty)
  then show ?thesis by (simp add: sample_dispatch_result)
qed

lemma wf_sample_dispatched: "wf_runtime sample_dispatched"
  using sample_reached by (rule sup_steps_wf) (rule wf_new_runtime)

lemma sample_lookups [simp]:
  "get_run sample_dispatched rid = (if rid = ManagedRunId 1 then Some sample_entry else None)"
  "bt_get (sup_commands sample_dispatched) c =
     (if c = ManagedCommandId 7 then Some sample_pending else None)"
  by (simp_all add: sample_dispatched_def get_run_def bt_get_def)

section \<open>Consistency\<close>

text \<open>
  C4: Whatever sequence of operations the supervisor runtime has been through, its three tables are
  ordered maps, every run is filed under its own identity, is well formed, has a deadline no
  earlier than its dispatch and begins its event log with its dispatch request, every command is
  filed under the identity it carries and has been sent at least once, and the index from commands
  to runs holds exactly the commands of the command table with the run each belongs to.
\<close>

theorem runtime_stays_consistent:
  assumes "sup_step\<^sup>*\<^sup>* (new_runtime n) s"
  shows "wf_runtime s"
  using assms wf_new_runtime by (rule sup_steps_wf)

theorem runtime_stays_consistent_witness: "wf_runtime sample_dispatched"
  by (rule runtime_stays_consistent [OF sample_reached])

section \<open>Delivery of commands\<close>

lemma replayed_iff:
  assumes "wf_runtime s"
  shows "command \<in> set (fst (replay_due_commands now timeout s)) \<longleftrightarrow>
           (\<exists>c p. bt_get (sup_commands s) c = Some p \<and> command = pmc_command p \<and>
                  replay_due now timeout p)"
  using assms
  by (force simp: replay_due_commands_def wf_runtime_def simp flip: bt.entries_get)

lemma replayed_command_id:
  assumes "wf_runtime s" and "command \<in> set (fst (replay_due_commands now timeout s))"
  obtains c p where "bt_get (sup_commands s) c = Some p" and "command = pmc_command p"
    and "managed_command_id command = Some c" and "replay_due now timeout p"
  using assms wf_get_command by (fastforce simp: replayed_iff wf_command_def)

text \<open>
  C5: Once a command is settled (accepted, a duplicate, rejected for good, or proven by a result),
  no later sequence of operations of the runtime makes a replay send it again.
\<close>

theorem settled_command_is_never_resent:
  assumes "wf_runtime s" and "settled s c" and "sup_step\<^sup>*\<^sup>* s s'"
    and "command \<in> set (fst (replay_due_commands now timeout s'))"
  shows "managed_command_id command \<noteq> Some c"
proof -
  from assms have "wf_runtime s'" and "settled s' c"
    by (auto intro: sup_steps_wf sup_steps_settled)
  with assms(4) show ?thesis
    by (auto elim!: replayed_command_id simp: settled_def replay_due_def)
qed

definition sample_two :: "sample_json ManagedAgentSupervisorRuntime" where
  "sample_two =
     sample_dispatched\<lparr>sup_commands :=
       [(ManagedCommandId 7, sample_pending\<lparr>pmc_state := ManagedCommandDeliveryState.Duplicate\<rparr>),
        (ManagedCommandId 8, sample_pending\<lparr>pmc_command :=
           control_method (ManagedCommandId 8) sample_target METHOD_DELEGATE_DISPATCH (JStr ''d'')\<rparr>)],
      sup_command_runs := [(ManagedCommandId 7, ManagedRunId 1), (ManagedCommandId 8, ManagedRunId 1)]\<rparr>"

lemma wf_sample_two: "wf_runtime sample_two"
proof -
  have "wf_entry (ManagedRunId 1) sample_entry"
    by (rule wf_get_run [OF wf_sample_dispatched]) simp
  moreover have "ManagedCommandId 7 < ManagedCommandId 8"
    by (simp add: less_ManagedCommandId_def)
  ultimately show ?thesis
    by (simp add: wf_runtime_def sample_two_def sample_dispatched_def bt_ok_def bt.all_values_def
        bt_get_def wf_command_def sample_pending_def sample_command_def)
qed

theorem settled_command_is_never_resent_witness:
  "\<exists>command. command \<in> set (fst (replay_due_commands 100 50 sample_two)) \<and>
             managed_command_id command \<noteq> Some (ManagedCommandId 7)"
proof -
  let ?c = "control_method (ManagedCommandId 8) sample_target METHOD_DELEGATE_DISPATCH (JStr ''d'')"
  have sent: "?c \<in> set (fst (replay_due_commands 100 50 sample_two))"
    by (simp add: replay_due_commands_def sample_two_def replay_due_def sample_pending_def)
  have "settled sample_two (ManagedCommandId 7)"
    by (simp add: settled_def sample_two_def bt_get_def)
  from settled_command_is_never_resent [OF wf_sample_two this rtranclp.rtrancl_refl sent] sent
  show ?thesis by blast
qed


text \<open>
  C6: A replay sends exactly the commands that are unsettled and were last sent a full timeout
  ago, in the order of their identities; each is put back to pending with one more attempt (the
  counter saturates) and the current time, and is not sent again before another full timeout has
  passed.  Runs are not touched.
\<close>

theorem replay_sends_due_commands_once:
  assumes "wf_runtime s" and "replay_due_commands now timeout s = (sent, s')" and "0 < timeout"
  shows "map managed_command_id sent =
           map Some (bt.keys_where (\<lambda>_ p. replay_due now timeout p) (sup_commands s)) \<and>
         sup_runs s' = sup_runs s \<and>
         (\<forall>c p. bt_get (sup_commands s) c = Some p \<longrightarrow>
            bt_get (sup_commands s') c =
              Some (if replay_due now timeout p
                    then p\<lparr>pmc_last_sent_at := now,
                           pmc_attempts := saturating_add (pmc_attempts p) 1,
                           pmc_state := ManagedCommandDeliveryState.Pending\<rparr>
                    else p)) \<and>
         (\<forall>command \<in> set sent. \<forall>now' < now + timeout.
            command \<notin> set (fst (replay_due_commands now' timeout s')))"
proof (intro conjI allI ballI impI)
  from assms have sent: "sent = map (\<lambda>(_, p). pmc_command p)
      (filter (\<lambda>(_, p). replay_due now timeout p) (sup_commands s))"
    and s': "s' = snd (replay_due_commands now timeout s)"
    by (simp_all add: replay_due_commands_def)
  have "managed_command_id (pmc_command p) = Some c" if "(c, p) \<in> set (sup_commands s)" for c p
    using that assms(1) wf_get_command by (fastforce simp: wf_runtime_def bt.entries_get wf_command_def)
  then show "map managed_command_id sent =
      map Some (bt.keys_where (\<lambda>_ p. replay_due now timeout p) (sup_commands s))"
    by (auto simp: sent bt.keys_where_def)
  show "sup_runs s' = sup_runs s" by (simp add: s' replay_due_commands_def)
  have get': "bt_get (sup_commands s') c =
      map_option (\<lambda>p. if replay_due now timeout p
                    then p\<lparr>pmc_last_sent_at := now,
                           pmc_attempts := saturating_add (pmc_attempts p) 1,
                           pmc_state := ManagedCommandDeliveryState.Pending\<rparr>
                    else p) (bt_get (sup_commands s) c)" for c
    using assms(1) by (simp add: s' replay_due_commands_def wf_runtime_def bt.get_update_all)
  then show "bt_get (sup_commands s') c =
      Some (if replay_due now timeout p
            then p\<lparr>pmc_last_sent_at := now,
                   pmc_attempts := saturating_add (pmc_attempts p) 1,
                   pmc_state := ManagedCommandDeliveryState.Pending\<rparr>
            else p)" if "bt_get (sup_commands s) c = Some p" for c p
    using that by simp
  fix command now'
  assume "command \<in> set sent" and soon: "now' < now + timeout"
  then obtain c p where c: "bt_get (sup_commands s) c = Some p" "managed_command_id command = Some c"
    and due: "replay_due now timeout p"
    using assms(1,2) by (metis fst_conv replayed_command_id)
  have wf': "wf_runtime s'" using assms(1) s' by (simp add: wf_replay)
  show "command \<notin> set (fst (replay_due_commands now' timeout s'))"
  proof
    assume "command \<in> set (fst (replay_due_commands now' timeout s'))"
    with wf' obtain p' where "bt_get (sup_commands s') c = Some p'" "replay_due now' timeout p'"
      using c(2) by (metis option.inject replayed_command_id)
    with get' [of c] c due soon assms(3) show False by (auto simp: replay_due_def)
  qed
qed

theorem replay_sends_due_commands_once_witness:
  "\<exists>s'. replay_due_commands 100 50 sample_dispatched = ([sample_command], s') \<and>
        bt_get (sup_commands s') (ManagedCommandId 7) =
          Some (sample_pending\<lparr>pmc_last_sent_at := 100, pmc_attempts := 2\<rparr>) \<and>
        sample_command \<notin> set (fst (replay_due_commands 149 50 s'))"
proof -
  obtain sent s' where r: "replay_due_commands 100 50 sample_dispatched = (sent, s')" by fastforce
  then have sent: "sent = [sample_command]"
    by (simp add: replay_due_commands_def sample_dispatched_def replay_due_def sample_pending_def)
  have due: "replay_due 100 50 sample_pending" by (simp add: replay_due_def sample_pending_def)
  have two: "saturating_add 1 (1 :: u32) = 2" by (simp add: saturating_add_def)
  from replay_sends_due_commands_once [OF wf_sample_dispatched r]
  have get: "\<forall>c p. bt_get (sup_commands sample_dispatched) c = Some p \<longrightarrow>
      bt_get (sup_commands s') c = Some (if replay_due 100 50 p
        then p\<lparr>pmc_last_sent_at := 100, pmc_attempts := saturating_add (pmc_attempts p) 1,
               pmc_state := ManagedCommandDeliveryState.Pending\<rparr> else p)"
    and quiet: "\<forall>command \<in> set sent. \<forall>now' < 150.
      command \<notin> set (fst (replay_due_commands now' 50 s'))" by simp_all
  from get [rule_format, of "ManagedCommandId 7" sample_pending] due two
  have "bt_get (sup_commands s') (ManagedCommandId 7) =
      Some (sample_pending\<lparr>pmc_last_sent_at := 100, pmc_attempts := 2\<rparr>)"
    by (simp add: sample_pending_def)
  with quiet r show ?thesis by (simp add: sent)
qed


lemma ack_change:
  assumes "wf_runtime s" and "apply_command_ack_json from_str json s = (res, s')"
    and "bt_get (sup_commands s') c \<noteq> bt_get (sup_commands s) c"
  obtains ack p where "from_str json = Ok ack" and "validate_ack ack = Ok ()"
    and "ack_command_id ack = c" and "bt_get (sup_commands s) c = Some p"
    and "\<not> delivery_settled (pmc_state p)" and "ack_managed_run_id ack = pmc_run_id p"
    and "ack_worker_id ack = pmc_worker_id p" and "ack_task_id ack = pmc_task_id p"
    and "command_method (pmc_command p) = Some (ack_method ack)"
    and "bt_get (sup_commands s') c = Some (p\<lparr>pmc_state := acknowledged_state ack (pmc_state p)\<rparr>)"
proof -
  note [simp] = apply_command_ack_json_def
  obtain ack where ack: "from_str json = Ok ack" using assms by (cases "from_str json") auto
  with assms have valid: "validate_ack ack = Ok ()" by (cases "validate_ack ack") auto
  with assms ack obtain p where p: "bt_get (sup_commands s) (ack_command_id ack) = Some p"
    by (cases "bt_get (sup_commands s) (ack_command_id ack)") auto
  from assms(2,3) ack valid p have unsettled: "\<not> delivery_settled (pmc_state p)"
    and same: "ack_managed_run_id ack = pmc_run_id p" "ack_worker_id ack = pmc_worker_id p"
      "ack_task_id ack = pmc_task_id p" "command_method (pmc_command p) = Some (ack_method ack)"
    and s': "s' = put_command_state (ack_command_id ack) (acknowledged_state ack (pmc_state p)) s"
    by (simp_all split: if_splits)
  from assms(1) have get: "bt_get (sup_commands s') c =
      (if c = ack_command_id ack
       then Some (p\<lparr>pmc_state := acknowledged_state ack (pmc_state p)\<rparr>)
       else bt_get (sup_commands s) c)"
    by (simp add: s' put_command_state_def wf_runtime_def bt_get_adjust p)
  with assms(3) have c: "ack_command_id ack = c" by (simp split: if_splits)
  show ?thesis using ack valid c p [unfolded c] unsettled same get by (intro that) simp_all
qed

lemma ack_keeps_runs: "sup_runs (snd (apply_command_ack_json from_str json s)) = sup_runs s"
  by (simp add: apply_command_ack_json_def put_command_state_def split: sum.splits option.splits)

text \<open>What the state written by an acknowledgement says about its rejection.\<close>

definition ack_explains :: "ManagedAgentCommandAck \<Rightarrow> ManagedCommandDeliveryState \<Rightarrow> bool" where
  "ack_explains ack st \<longleftrightarrow>
     (case st of
        ManagedCommandDeliveryState.Accepted \<Rightarrow> ack_rejection ack = None
      | ManagedCommandDeliveryState.RetryPending code \<Rightarrow>
          map_option arej_code (ack_rejection ack) = Some code \<and>
          map_option arej_retryable (ack_rejection ack) = Some True \<and>
          code \<notin> set permanent_codes
      | ManagedCommandDeliveryState.Rejected code \<Rightarrow>
          map_option arej_code (ack_rejection ack) = Some code \<and>
          map_option arej_retryable (ack_rejection ack) = Some False \<and>
          code \<notin> set transient_codes
      | _ \<Rightarrow> False)"

lemma acknowledged_state_explained:
  "validate_ack ack = Ok () \<Longrightarrow> ack_explains ack (acknowledged_state ack st)"
  by (auto simp: validate_ack_Ok acknowledged_state_def ack_explains_def split: option.splits)

text \<open>
  An acknowledgement changes the delivery state of one command at most, and only when it is
  valid, names that command with the run, worker, task and method the command was sent for, and
  the command is not settled yet.  A rejection is retried exactly when it says so, never for a
  permanent code and always for a transient one.  No run is touched.
\<close>

theorem acknowledgement_settles_its_command:
  assumes "wf_runtime s" and "apply_command_ack_json from_str json s = (res, s')"
    and "bt_get (sup_commands s') c \<noteq> bt_get (sup_commands s) c"
  shows "\<exists>ack p st. from_str json = Ok ack \<and> ack_command_id ack = c \<and>
           bt_get (sup_commands s) c = Some p \<and> \<not> delivery_settled (pmc_state p) \<and>
           ack_managed_run_id ack = pmc_run_id p \<and> ack_worker_id ack = pmc_worker_id p \<and>
           ack_task_id ack = pmc_task_id p \<and>
           command_method (pmc_command p) = Some (ack_method ack) \<and>
           bt_get (sup_commands s') c = Some (p\<lparr>pmc_state := st\<rparr>) \<and> ack_explains ack st \<and>
           sup_runs s' = sup_runs s"
  using assms
proof (cases rule: ack_change)
  case (1 ack p)
  moreover from assms(2) ack_keeps_runs [of from_str json s] have "sup_runs s' = sup_runs s" by simp
  ultimately show ?thesis
    by (intro exI [of _ ack] exI [of _ p] exI [of _ "acknowledged_state ack (pmc_state p)"])
      (simp add: acknowledged_state_explained)
qed

definition sample_ack :: ManagedAgentCommandAck where
  "sample_ack =
     \<lparr>ack_schema_version = 1, ack_command_id = ManagedCommandId 7,
      ack_method = METHOD_DELEGATE_DISPATCH, ack_managed_run_id = ManagedRunId 1,
      ack_worker_id = WorkerId 2, ack_task_id = None,
      ack_status = ManagedAgentCommandAckStatus.Accepted, ack_rejection = None,
      ack_accepted_at_unix_ms = 30\<rparr>"

theorem acknowledgement_settles_its_command_example:
  "\<exists>s'. apply_command_ack_json (\<lambda>_. Ok sample_ack) [] sample_dispatched =
          (Ok (ManagedCommandId 7), s') \<and>
        (\<exists>p st. bt_get (sup_commands s') (ManagedCommandId 7) = Some (p\<lparr>pmc_state := st\<rparr>) \<and>
           bt_get (sup_commands sample_dispatched) (ManagedCommandId 7) = Some p)"
proof -
  let ?s' = "put_command_state (ManagedCommandId 7) ManagedCommandDeliveryState.Accepted sample_dispatched"
  have r: "apply_command_ack_json (\<lambda>_. Ok sample_ack) [] sample_dispatched = (Ok (ManagedCommandId 7), ?s')"
    by (simp add: apply_command_ack_json_def validate_ack_def sample_ack_def ack_method_known_def
        SUPERVISOR_SCHEMA_VERSION_def sample_pending_def sample_command_def acknowledged_state_def)
  have "bt_get (sup_commands ?s') (ManagedCommandId 7) \<noteq>
        bt_get (sup_commands sample_dispatched) (ManagedCommandId 7)"
    by (simp add: put_command_state_def sample_dispatched_def sample_pending_def bt_adjust_def
        bt_update_all_def bt_get_def)
  from acknowledgement_settles_its_command [OF wf_sample_dispatched r this] r
  show ?thesis by blast
qed


section \<open>Responses\<close>

text \<open>
  A response answers for a run when it names the run, the worker the run was given to and, past
  the dispatch, the task the worker accepted for it; a result is within the size bound and a
  confirmed termination is acknowledged.
\<close>

fun response_answers ::
  "'v response_decoder \<Rightarrow> nat \<Rightarrow> 'v \<Rightarrow> response_type \<Rightarrow> ManagedAgentRun \<Rightarrow> bool"
where
  "response_answers d n v DispatchResult r \<longleftrightarrow>
     (\<exists>resp. dec_dispatch d v = Ok resp \<and> ddr_managed_run_id resp = run_id r \<and>
        ddr_worker_id resp = run_worker_id r \<and> ddr_accepted resp \<and> ddr_task_id resp \<noteq> None \<and>
        run_state r = Dispatching)"
| "response_answers d n v GetResult r \<longleftrightarrow>
     (\<exists>resp. dec_observation d v = Ok resp \<and> dor_managed_run_id resp = run_id r \<and>
        dor_worker_id resp = run_worker_id r \<and>
        run_omegon_task_id r = Some (obs_task_id (dor_observation resp)))"
| "response_answers d n v ResultResult r \<longleftrightarrow>
     (\<exists>resp. dec_result d v = Ok resp \<and> drr_managed_run_id resp = run_id r \<and>
        drr_worker_id resp = run_worker_id r \<and> run_omegon_task_id r = Some (drr_task_id resp) \<and>
        length (drr_result resp) \<le> n)"
| "response_answers d n v CancelResult r \<longleftrightarrow>
     (\<exists>resp. dec_cancel d v = Ok resp \<and> dcr_managed_run_id resp = run_id r \<and>
        dcr_worker_id resp = run_worker_id r \<and> run_omegon_task_id r = Some (dcr_task_id resp) \<and>
        (dcr_termination_confirmed resp \<longrightarrow> dcr_acknowledged resp))"

lemma on_run_accept_Ok:
  "on_run (accept_dispatch t) e = (Ok u, e') \<Longrightarrow>
     run_state (ent_run e) = Dispatching \<and>
     e' = e\<lparr>ent_run := (ent_run e)\<lparr>run_omegon_task_id := Some t, run_state := ManagedRunState.Running\<rparr>\<rparr>"
  by (auto simp: on_run_def accept_dispatch_def split: ManagedRunState.splits)

lemma typed_dispatch_Ok:
  assumes "apply_typed_response d n rid v DispatchResult e = (Ok u, e')" and "run_id (ent_run e) = rid"
  shows "response_answers d n v DispatchResult (ent_run e) \<and> same_entry e e'"
proof -
  note [simp] = apply_typed_response_def Let_def
  obtain resp where resp: "dec_dispatch d v = Ok resp" using assms by (cases "dec_dispatch d v") auto
  with assms obtain t where t: "validate_dispatch_response rid (run_worker_id (ent_run e)) resp = Ok t"
    by (cases "validate_dispatch_response rid (run_worker_id (ent_run e)) resp") auto
  with assms resp obtain e1 where e1: "on_run (accept_dispatch t) e = (Ok (), e1)"
    and e': "e' = e1\<lparr>ent_events := ent_events e1 @ [DispatchAccepted rid t]\<rparr>"
    by (auto split: prod.splits sum.splits)
  from on_run_accept_Ok [OF e1] t resp assms(2) e' show ?thesis
    by (auto simp: validate_dispatch_response_Ok same_entry_def same_identity_def)
qed

lemma with_task_Ok:
  "with_task e f = (Ok u, e') \<longleftrightarrow> (\<exists>t. run_omegon_task_id (ent_run e) = Some t \<and> f t = (Ok u, e'))"
  by (auto simp: with_task_def split: option.splits)

lemma checked_on_run_Ok:
  "(case val of Inl e \<Rightarrow> (Err (Contract e), entry) | Inr _ \<Rightarrow> on_run f entry) = (Ok u, e') \<longleftrightarrow>
     val = Ok () \<and> on_run f entry = (Ok u, e')"
  by (cases val) auto

lemma decoded_Ok:
  "(case dec of Inl e \<Rightarrow> (Err (InvalidJson e), entry) | Inr resp \<Rightarrow> f resp) = (Ok u, e') \<longleftrightarrow>
     (\<exists>resp. dec = Ok resp \<and> f resp = (Ok u, e'))"
  by (cases dec) auto

lemmas typed_response_Ok_simps =
  apply_typed_response_def Let_def decoded_Ok with_task_Ok checked_on_run_Ok

lemma typed_response_Ok:
  assumes "apply_typed_response d n rid v ty e = (Ok u, e')" and "run_id (ent_run e) = rid"
  shows "response_answers d n v ty (ent_run e) \<and> same_entry e e'"
proof (cases ty)
  case DispatchResult
  with assms typed_dispatch_Ok [of d n rid v e u e'] show ?thesis by blast
next
  case GetResult
  with assms show ?thesis
    using observe_op.on_run_same [of e]
    by (auto simp: typed_response_Ok_simps validate_observation_response_Ok dest!: arg_cong [of _ _ snd])
next
  case ResultResult
  with assms show ?thesis
    using complete_op.on_run_same [of e]
    by (auto simp: typed_response_Ok_simps validate_result_response_Ok dest!: arg_cong [of _ _ snd])
next
  case CancelResult
  with assms show ?thesis
    using cancel_response_op.on_run_same [of e]
    by (auto simp: typed_response_Ok_simps validate_cancel_response_Ok dest!: arg_cong [of _ _ snd])
qed

text \<open>
  C7: A response the runtime accepts was sent by the worker the run was given to, about that run
  and, past the dispatch, about the task bound to it.  It leaves the identity, transport and
  deadline of the run and its earlier events as they were, and every other run alone.
\<close>

theorem accepted_response_answers_for_its_run:
  assumes "wf_runtime s" and "apply_response_json d raw s = (Ok rid, s')"
  shows "\<exists>v ty e e'. dec_value d raw = Ok v \<and> get_run s rid = Some e \<and> run_id (ent_run e) = rid \<and>
           response_answers d (sup_max_result_bytes s) v ty (ent_run e) \<and>
           get_run s' rid = Some e' \<and> same_entry e e' \<and>
           (\<forall>other. other \<noteq> rid \<longrightarrow> get_run s' other = get_run s other)"
  using assms(2)
proof (cases rule: apply_response_cases)
  case (applied v rid' e ty e')
  then have id: "run_id (ent_run e) = rid" and rid: "rid' = rid"
    using wf_get_run [OF assms(1)] by (auto simp: wf_entry_def)
  have get: "get_run s' other = (if other = rid then Some e' else get_run s other)" for other
    using applied rid get_put_run [OF assms(1), of rid e' other] by (simp add: get_run_def)
  from typed_response_Ok [OF applied(3)] applied id rid
  have "response_answers d (sup_max_result_bytes s) v ty (ent_run e) \<and> same_entry e e'" by simp
  with applied id rid get show ?thesis by (intro exI [of _ v] exI [of _ ty] exI [of _ e] exI [of _ e']) simp
qed auto

lemma sample_response:
  "\<exists>s'. apply_response_json sample_decoder ''ok'' sample_dispatched = (Ok (ManagedRunId 1), s')"
  by (simp add: apply_response_json_def sample_decoder_def sample_acceptance_def response_type_of_def
      apply_typed_response_def sample_entry_def validate_dispatch_response_def validate_envelope_def
      SUPERVISOR_SCHEMA_VERSION_def and_then_def on_run_def accept_dispatch_def Let_def)

theorem accepted_response_answers_for_its_run_witness:
  "\<exists>s' e'. apply_response_json sample_decoder ''ok'' sample_dispatched = (Ok (ManagedRunId 1), s') \<and>
           get_run s' (ManagedRunId 1) = Some e' \<and> same_entry sample_entry e'"
proof -
  obtain s' where r: "apply_response_json sample_decoder ''ok'' sample_dispatched = (Ok (ManagedRunId 1), s')"
    using sample_response by blast
  from accepted_response_answers_for_its_run [OF wf_sample_dispatched r] r show ?thesis by auto
qed


lemma on_run_error_frame:
  assumes "run_operation f" and "on_run f e = (Err x, e')"
  shows "ent_run e' = ent_run e"
  using assms run_operation.error_frame [OF assms(1), of "ent_run e"]
  by (cases "f (ent_run e)") (auto simp: on_run_def split: sum.splits)

lemma typed_response_error_frame:
  assumes "apply_typed_response d n rid v ty e = (Err x, e')"
  shows "ent_run e' = ent_run e"
proof (cases ty)
  case DispatchResult
  with assms show ?thesis
    by (auto simp: apply_typed_response_def Let_def split: sum.splits prod.splits
        dest: on_run_error_frame [OF accept_op.run_operation_axioms])
next
  case GetResult
  with assms show ?thesis
    by (auto simp: apply_typed_response_def with_task_def Let_def split: sum.splits option.splits
        dest: on_run_error_frame [OF observe_op.run_operation_axioms])
next
  case ResultResult
  with assms show ?thesis
    by (auto simp: apply_typed_response_def with_task_def Let_def split: sum.splits option.splits
        dest: on_run_error_frame [OF complete_op.run_operation_axioms])
next
  case CancelResult
  with assms show ?thesis
    by (auto simp: apply_typed_response_def with_task_def Let_def split: sum.splits option.splits
        dest: on_run_error_frame [OF cancel_response_op.run_operation_axioms])
qed

text \<open>
  A response the runtime refuses (malformed, rejected by the worker, of an unknown type, for
  an unknown run, with a foreign identity, oversized, or out of turn) changes no run and no
  command: at most an event is appended to the log of the run it names.
\<close>

theorem refused_response_changes_no_run:
  assumes "wf_runtime s" and "apply_response_json d raw s = (Err x, s')"
  shows "map_option ent_run (get_run s' rid) = map_option ent_run (get_run s rid) \<and>
         sup_commands s' = sup_commands s"
  using assms(2)
proof (cases rule: apply_response_cases)
  case (failed v r e ty err e')
  with typed_response_error_frame [OF failed(3)] assms(1) show ?thesis by (simp add: get_put_run)
qed (use assms(1) in \<open>auto simp: get_put_run\<close>)

theorem refused_response_changes_no_run_example:
  "\<exists>x s'. apply_response_json sample_decoder ''who'' sample_dispatched = (Err x, s') \<and>
          map_option ent_run (get_run s' (ManagedRunId 1)) = Some sample_run"
proof -
  have "\<exists>s'. apply_response_json sample_decoder ''who'' sample_dispatched =
          (Err (Contract IdentityMismatch), s')"
    by (simp add: apply_response_json_def sample_decoder_def sample_acceptance_def response_type_of_def
        apply_typed_response_def sample_entry_def validate_dispatch_response_def
        validate_envelope_def SUPERVISOR_SCHEMA_VERSION_def and_then_def Let_def)
  then obtain s' where r: "apply_response_json sample_decoder ''who'' sample_dispatched =
          (Err (Contract IdentityMismatch), s')" by blast
  from refused_response_changes_no_run [OF wf_sample_dispatched r, of "ManagedRunId 1"] r
  show ?thesis by (simp add: sample_entry_def)
qed


text \<open>The first command that satisfies the predicate is the only one: it is the one proven.\<close>

lemma prove_first_only:
  assumes "bt_get m c = Some q" and "p q" and "distinct (map fst m)"
    and "\<And>c' q'. bt_get m c' = Some q' \<Longrightarrow> p q' \<Longrightarrow> c' = c"
  shows "bt_get (prove_first p m) c =
           Some (q\<lparr>pmc_state := ManagedCommandDeliveryState.ProvenByResult\<rparr>)"
  using assms
proof (induction p m rule: prove_first.induct)
  case (2 p c' q' rest)
  show ?case
  proof (cases "p q'")
    case True
    with 2(5) [of c' q'] 2(2) show ?thesis by (simp add: bt_get_def split: if_splits)
  next
    case False
    with 2(2,3) have "c' \<noteq> c" by (auto simp: bt_get_def)
    have "bt_get (prove_first p rest) c =
        Some (q\<lparr>pmc_state := ManagedCommandDeliveryState.ProvenByResult\<rparr>)"
    proof (rule 2(1) [OF False])
      show "bt_get rest c = Some q" using 2(2) \<open>c' \<noteq> c\<close> by (simp add: bt_get_def)
      show "p q" by (rule 2(3))
      show "distinct (map fst rest)" using 2(4) by simp
      fix c'' q'' assume a: "bt_get rest c'' = Some q''" "p q''"
      then have "c'' \<in> fst ` set rest" by (force simp: bt_get_def dest: map_of_SomeD)
      with 2(4) have "c'' \<noteq> c'" by auto
      with a 2(5) [of c'' q''] show "c'' = c" by (simp add: bt_get_def)
    qed
    with False \<open>c' \<noteq> c\<close> show ?thesis by (simp add: bt_get_def)
  qed
qed (simp add: bt_get_def)

lemma prepare_run_Ok:
  assumes "prepare_run fresh now w ps pt q transport ms s = (Ok rid, s')"
  obtains run deadline where "new_run fresh w ps pt q = Ok run" and "rid = fresh"
    and "get_run s rid = None"
    and "deadline = unwrap_or (instant_checked_add now (from_secs (req_supervisor_deadline_seconds q))) now"
    and "s' = put_run rid
           \<lparr>ent_run = run, ent_transport = transport, ent_dispatched_at_unix_ms = ms,
            ent_dispatched_at = now, ent_deadline_at = deadline,
            ent_events = [DispatchRequested rid w]\<rparr> s"
proof (cases "new_run fresh w ps pt q")
  case (Inr run)
  from new_run_wf [OF Inr] have run: "run_id run = fresh" "run_request run = q" by simp_all
  with assms Inr show ?thesis
    by (intro that [of run]) (auto simp: prepare_run_def Let_def run split: if_splits)
qed (use assms in \<open>simp add: prepare_run_def\<close>)

lemma dispatch_Ok:
  assumes "wf_runtime s"
    and "dispatch enc fresh fc now now' w ps pt q target ms s = (Ok (rid, command), s1)"
  obtains run e p where "new_run fresh w ps pt q = Ok run" and "rid = fresh"
    and "get_run s1 rid = Some e" and "ent_run e = run" and "ent_events e = [DispatchRequested rid w]"
    and "sup_commands s1 = bt_insert fc p (sup_commands s)" and "pmc_command p = command"
    and "pmc_run_id p = rid" and "pmc_kind p = ManagedCommandKind.Dispatch"
    and "pmc_state p = ManagedCommandDeliveryState.Pending"
proof -
  obtain sp where sp: "prepare_run fresh now w ps pt q (OmegonControl [] target) ms s = (Ok rid, sp)"
    using assms(2)
    by (auto simp: dispatch_def split: prod.splits sum.splits option.splits)
  then obtain run deadline e where run: "new_run fresh w ps pt q = Ok run" "rid = fresh"
    and e: "e = \<lparr>ent_run = run, ent_transport = OmegonControl [] target,
            ent_dispatched_at_unix_ms = ms, ent_dispatched_at = now, ent_deadline_at = deadline,
            ent_events = [DispatchRequested rid w]\<rparr>" and put: "sp = put_run rid e s"
    by (elim prepare_run_Ok) blast
  then have get: "get_run sp rid = Some e" using assms(1) by (simp add: get_put_run)
  obtain v where v: "enc_dispatch enc (new_dispatch_request rid w (run_request run)) = Ok v"
    using assms(2) sp get e
    by (cases "enc_dispatch enc (new_dispatch_request rid w (run_request run))")
      (simp_all add: dispatch_def dispatch_request_command_def encode_command_def)
  from assms(2) have "command = control_method fc target METHOD_DELEGATE_DISPATCH v"
    and s1: "s1 = snd (register_command now' rid ManagedCommandKind.Dispatch command sp)"
    unfolding dispatch_def sp
    by (auto simp: get e v dispatch_request_command_def encode_command_def register_command_def)
  with get put e run show ?thesis
    by (intro that [of run e "\<lparr>pmc_command = command, pmc_kind = ManagedCommandKind.Dispatch,
          pmc_run_id = rid, pmc_worker_id = run_worker_id run, pmc_task_id = run_omegon_task_id run,
          pmc_state = ManagedCommandDeliveryState.Pending, pmc_attempts = 1, pmc_last_sent_at = now'\<rparr>"])
      (simp_all add: register_command_def get_run_def)
qed



end
