(* ===== verification/Supervisor_Views.thy ===== *)
theory Supervisor_Views
  imports Supervisor_Props
begin

text \<open>
  Projections of the runtime to a parent session, events of the A2A bearer, dispatch timeouts and
  deadlines, and the two situations in which an operation leaves something behind.
\<close>

section \<open>Projections\<close>

lemma project_run_Ok:
  "project_run_for_parent s rid parent = Ok p \<Longrightarrow>
     (\<exists>e. get_run s rid = Some e \<and> run_parent_session_id (ent_run e) = parent) \<and>
     prj_run_id p = rid \<and> prj_parent_session_id p = parent"
  by (auto simp: project_run_for_parent_def split: option.splits if_splits)

lemma project_run_defined:
  "is_ok (project_run_for_parent s rid parent) \<longleftrightarrow>
     (\<exists>e. get_run s rid = Some e \<and> run_parent_session_id (ent_run e) = parent)"
  by (auto simp: project_run_for_parent_def split: option.splits)

lemma projected_ids:
  "map prj_run_id (List.map_filter
       (\<lambda>rid. case project_run_for_parent s rid parent of Inl _ \<Rightarrow> None | Inr p \<Rightarrow> Some p) rids) =
   filter (\<lambda>rid. is_ok (project_run_for_parent s rid parent)) rids"
  by (induction rids) (auto simp: map_filter_simps dest: project_run_Ok split: sum.splits)

text \<open>
  C9: The projection of a parent session lists exactly the runs of that session, each once and in
  the order of their identities; every entry is the projection of its own run, so the commands it
  shows are commands of that run, and a run of another session is refused.
\<close>

theorem projection_is_scoped_to_its_parent:
  assumes "wf_runtime s"
  shows "map prj_run_id (project_runs_for_parent s parent) =
           bt.keys_where (\<lambda>_ e. run_parent_session_id (ent_run e) = parent) (sup_runs s) \<and>
         (\<forall>p \<in> set (project_runs_for_parent s parent).
            prj_parent_session_id p = parent \<and>
            project_run_for_parent s (prj_run_id p) parent = Ok p \<and>
            (\<forall>c \<in> set (prj_commands p).
               map_option pmc_run_id (bt_get (sup_commands s) (mcp_command_id c)) =
                 Some (prj_run_id p))) \<and>
         (\<forall>rid e. get_run s rid = Some e \<longrightarrow> run_parent_session_id (ent_run e) \<noteq> parent \<longrightarrow>
            project_run_for_parent s rid parent = Err ParentSessionMismatch)"
proof (intro conjI ballI allI impI)
  have get: "get_run s rid = Some e" if "(rid, e) \<in> set (sup_runs s)" for rid e
    using that assms by (simp add: wf_runtime_def get_run_def bt.entries_get)
  then have "filter (\<lambda>rid. is_ok (project_run_for_parent s rid parent)) (map fst (sup_runs s)) =
      map fst (filter (\<lambda>(_, e). run_parent_session_id (ent_run e) = parent) (sup_runs s))"
    unfolding filter_map comp_def project_run_defined
    by (intro arg_cong [of _ _ "map fst"] filter_cong) auto
  then show "map prj_run_id (project_runs_for_parent s parent) =
      bt.keys_where (\<lambda>_ e. run_parent_session_id (ent_run e) = parent) (sup_runs s)"
    by (simp add: project_runs_for_parent_def projected_ids bt.keys_where_def)
  fix p assume "p \<in> set (project_runs_for_parent s parent)"
  then obtain rid where rid: "project_run_for_parent s rid parent = Ok p"
    by (auto simp: project_runs_for_parent_def List.map_filter_def split: sum.splits)
  with project_run_Ok [OF rid] show "prj_parent_session_id p = parent"
    and "project_run_for_parent s (prj_run_id p) parent = Ok p" by simp_all
  fix c assume "c \<in> set (prj_commands p)"
  with rid have "\<exists>q. (mcp_command_id c, q) \<in> set (sup_commands s) \<and> pmc_run_id q = prj_run_id p"
    by (fastforce simp: project_run_for_parent_def project_command_def
        split: option.splits if_splits)
  with assms show "map_option pmc_run_id (bt_get (sup_commands s) (mcp_command_id c)) =
      Some (prj_run_id p)"
    by (auto simp: wf_runtime_def bt.entries_get)
qed (auto simp: project_run_for_parent_def)

theorem projection_is_scoped_to_its_parent_witness:
  "map prj_run_id (project_runs_for_parent sample_dispatched ''s'') = [ManagedRunId 1] \<and>
   project_run_for_parent sample_dispatched (ManagedRunId 1) ''other'' = Err ParentSessionMismatch"
  using projection_is_scoped_to_its_parent [OF wf_sample_dispatched, of "''s''"]
    projection_is_scoped_to_its_parent [OF wf_sample_dispatched, of "''other''"]
  by (simp add: bt.keys_where_def sample_entry_def) (simp add: sample_dispatched_def sample_entry_def)

section \<open>A2A events\<close>

lemma bt_insert_twice: "bt_insert k v (bt_insert k w m) = bt_insert k v m"
  by (induction m) auto

lemma put_run_twice: "put_run rid e (put_run rid e' s) = put_run rid e s"
  by (simp add: put_run_def bt_insert_twice)

text \<open>The outcome operations are idempotent on a run, and so is the guarded acceptance.\<close>

lemma outcome_op_twice:
  "snd (complete_from_result result (snd (complete_from_result result r))) =
     snd (complete_from_result result r)"
  "snd (fail code msg (snd (fail code msg r))) = snd (fail code msg r)"
  "snd (confirm_termination reason (snd (confirm_termination reason r))) =
     snd (confirm_termination reason r)"
  by (simp_all add: complete_from_result_def fail_def confirm_termination_def)

lemma cancellation_accepted_twice:
  "snd (mark_cancellation_accepted reason (snd (mark_cancellation_accepted reason r))) =
     snd (mark_cancellation_accepted reason r)"
  by (cases "run_state r") (simp_all add: mark_cancellation_accepted_def)

lemmas on_run_entries =
  accept_op.on_run_entry complete_op.on_run_entry fail_op.on_run_entry
  cancel_accepted_op.on_run_entry confirm_op.on_run_entry

definition accept_event :: "string \<Rightarrow> RuntimeEntry \<Rightarrow> RuntimeEntry" where
  "accept_event task_id e =
     (case (run_state (ent_run e), parse_task_id task_id) of
        (Dispatching, Inr t) \<Rightarrow> e\<lparr>ent_run := snd (accept_dispatch t (ent_run e))\<rparr>
      | _ \<Rightarrow> e)"

lemma apply_event_state:
  "snd (apply_event_to_run ev e) =
     (case ev of
        ManagedAgentA2aEvent.Accepted _ task_id _ \<Rightarrow> accept_event task_id e
      | ManagedAgentA2aEvent.Duplicate _ task_id _ \<Rightarrow> accept_event task_id e
      | ManagedAgentA2aEvent.Completed _ _ _ result \<Rightarrow>
          e\<lparr>ent_run := snd (complete_from_result result (ent_run e))\<rparr>
      | ManagedAgentA2aEvent.Failed _ _ _ code msg \<Rightarrow> e\<lparr>ent_run := snd (fail code msg (ent_run e))\<rparr>
      | ManagedAgentA2aEvent.CancellationAccepted _ _ _ reason \<Rightarrow>
          e\<lparr>ent_run := snd (mark_cancellation_accepted reason (ent_run e))\<rparr>
      | ManagedAgentA2aEvent.TerminationConfirmed _ _ _ reason \<Rightarrow>
          e\<lparr>ent_run := snd (confirm_termination reason (ent_run e))\<rparr>)"
  by (cases ev; cases "run_state (ent_run e)")
    (simp_all add: apply_event_to_run_def Let_def on_run_entries accept_event_def split: sum.splits)

lemma accept_event_twice: "accept_event task_id (accept_event task_id e) = accept_event task_id e"
  by (cases "run_state (ent_run e)"; cases "parse_task_id task_id")
    (simp_all add: accept_event_def accept_dispatch_def)

lemma apply_event_twice:
  "snd (apply_event_to_run ev (snd (apply_event_to_run ev e))) = snd (apply_event_to_run ev e)"
  by (cases ev) (simp_all add: apply_event_state outcome_op_twice cancellation_accepted_twice
      accept_event_twice)

lemma apply_event_terminal:
  assumes "is_terminal (run_state (ent_run e))"
  shows "terminal_kind_of (run_state (ent_run (snd (apply_event_to_run ev e)))) =
           terminal_kind_of (run_state (ent_run e))"
proof -
  from assms have "accept_event task_id e = e" for task_id
    by (cases "run_state (ent_run e)") (simp_all add: accept_event_def)
  with assms show ?thesis
    by (cases ev) (simp_all add: apply_event_state complete_op.terminal_kind_kept
        fail_op.terminal_fixed cancel_accepted_op.terminal_fixed confirm_op.terminal_fixed)
qed

lemma apply_a2a_event_state:
  "snd (apply_a2a_event ev s) =
     (case get_run s (event_managed_run_id ev) of
        None \<Rightarrow> s
      | Some e \<Rightarrow> put_run (event_managed_run_id ev) (snd (apply_event_to_run ev e)) s)"
  by (auto simp: apply_a2a_event_def Let_def split: option.splits prod.splits sum.splits)

text \<open>
  Delivery of A2A events may repeat: applying the same event a second time leaves the runtime
  as the first application left it.  An event changes the run it names only, and never the kind of
  outcome of a run that has ended.
\<close>

theorem a2a_event_is_idempotent:
  assumes "wf_runtime s"
  shows "snd (apply_a2a_event ev (snd (apply_a2a_event ev s))) = snd (apply_a2a_event ev s) \<and>
         (\<forall>rid e. get_run s rid = Some e \<longrightarrow>
            (\<exists>e'. get_run (snd (apply_a2a_event ev s)) rid = Some e' \<and>
                  (rid \<noteq> event_managed_run_id ev \<longrightarrow> e' = e) \<and>
                  (is_terminal (run_state (ent_run e)) \<longrightarrow>
                     terminal_kind_of (run_state (ent_run e')) =
                     terminal_kind_of (run_state (ent_run e)))))"
proof (cases "get_run s (event_managed_run_id ev)")
  case None
  then show ?thesis by (auto simp: apply_a2a_event_state)
next
  case (Some e)
  then show ?thesis
    by (auto simp: apply_a2a_event_state get_put_run [OF assms] put_run_twice apply_event_twice
        apply_event_terminal)
qed

theorem a2a_event_is_idempotent_example:
  "let ev = ManagedAgentA2aEvent.Completed (ManagedRunId 1) ''task'' [] ''done'';
       s1 = snd (apply_a2a_event ev sample_dispatched)
   in snd (apply_a2a_event ev s1) = s1 \<and>
      map_option (run_state \<circ> ent_run) (get_run s1 (ManagedRunId 1)) =
        Some (ManagedRunState.Completed (normalize_raw_result ''done''))"
  using a2a_event_is_idempotent [OF wf_sample_dispatched]
  by (simp add: Let_def apply_a2a_event_state get_put_run [OF wf_sample_dispatched]
      apply_event_to_run_def on_run_def complete_from_result_def sample_entry_def)


section \<open>Timeouts and deadlines\<close>

lemma time_out_entry_not_overdue: "\<not> dispatch_overdue now timeout (time_out_entry e)"
  by (simp add: dispatch_overdue_def time_out_entry_def mark_dispatch_timed_out_def
      split: ManagedRunState.splits)

lemma time_out_entry_state:
  "dispatch_overdue now timeout e \<Longrightarrow> run_state (ent_run (time_out_entry e)) = DispatchTimedOut"
  by (simp add: dispatch_overdue_def time_out_entry_def mark_dispatch_timed_out_def)

lemma expire_at_get:
  assumes "wf_runtime s"
  shows "get_run (snd (expire_dispatches_at now timeout s)) rid =
           map_option (\<lambda>e. if dispatch_overdue now timeout e then time_out_entry e else e)
             (get_run s rid)"
  using assms by (simp add: expire_dispatches_at_def get_run_def wf_runtime_def bt.get_update_all)

lemma expire_for_get:
  assumes "wf_runtime s"
  shows "get_run (snd (expire_dispatches_for now rids timeout s)) rid =
           (if rid \<in> set rids
            then map_option (\<lambda>e. if dispatch_overdue now timeout e then time_out_entry e else e)
                   (get_run s rid)
            else get_run s rid)"
  using assms
proof (induction rids arbitrary: s)
  case (Cons a rids)
  show ?case
  proof (cases "get_run s a")
    case None
    with Cons show ?thesis by auto
  next
    case (Some e)
    show ?thesis
    proof (cases "dispatch_overdue now timeout e")
      case True
      have wf: "wf_runtime (put_run a (time_out_entry e) s)"
        using Cons.prems Some by (blast intro: wf_put_run time_out_entry_wf wf_get_run)
      have "snd (expire_dispatches_for now (a # rids) timeout s) =
          snd (expire_dispatches_for now rids timeout (put_run a (time_out_entry e) s))"
        using Some True by (simp add: case_prod_beta)
      then show ?thesis
        using Cons.IH [OF wf] Some True Cons.prems
        by (auto simp: get_put_run time_out_entry_not_overdue)
    next
      case False
      with Cons Some show ?thesis by auto
    qed
  qed
qed simp

lemma expire_for_ids:
  assumes "wf_runtime s"
  shows "set (fst (expire_dispatches_for now rids timeout s)) =
           {rid \<in> set rids. \<exists>e. get_run s rid = Some e \<and> dispatch_overdue now timeout e}"
  using assms
proof (induction rids arbitrary: s)
  case (Cons a rids)
  show ?case
  proof (cases "\<exists>e. get_run s a = Some e \<and> dispatch_overdue now timeout e")
    case True
    then obtain e where e: "get_run s a = Some e" "dispatch_overdue now timeout e" by blast
    have wf: "wf_runtime (put_run a (time_out_entry e) s)"
      using Cons.prems e(1) by (blast intro: wf_put_run time_out_entry_wf wf_get_run)
    have "set (fst (expire_dispatches_for now (a # rids) timeout s)) =
        insert a (set (fst (expire_dispatches_for now rids timeout (put_run a (time_out_entry e) s))))"
      using e by (simp add: case_prod_beta)
    also have "\<dots> = insert a {rid \<in> set rids. rid \<noteq> a \<and>
        (\<exists>e. get_run s rid = Some e \<and> dispatch_overdue now timeout e)}"
      using Cons.IH [OF wf] Cons.prems
      by (auto simp: get_put_run time_out_entry_not_overdue split: if_splits)
    finally show ?thesis using True by auto
  next
    case False
    with Cons show ?thesis by (auto split: option.splits)
  qed
qed simp

lemma expire_at_ids:
  assumes "wf_runtime s"
  shows "set (fst (expire_dispatches_at now timeout s)) =
           {rid. \<exists>e. get_run s rid = Some e \<and> dispatch_overdue now timeout e}"
proof -
  have entry: "(rid, e) \<in> set (sup_runs s) \<longleftrightarrow> get_run s rid = Some e" for rid e
    using assms by (simp add: wf_runtime_def get_run_def bt.entries_get)
  have id: "run_id (ent_run e) = rid" if "get_run s rid = Some e" for rid e
    using wf_get_run [OF assms that] by (simp add: wf_entry_def)
  have "fst (expire_dispatches_at now timeout s) =
      map fst (filter (\<lambda>(_, e). dispatch_overdue now timeout e) (sup_runs s))"
    using id entry by (auto simp: expire_dispatches_at_def)
  then show ?thesis by (force simp: entry)
qed

lemma bt_extensional:
  assumes "bt_ok m" and "bt_ok m'" and "\<And>k. bt_get m k = bt_get m' k"
  shows "m = m'"
proof -
  have same: "set m = set m'"
    using assms by (metis bt.entries_get subrelI subset_antisym)
  from assms(1) have "inj_on fst (set m)" using bt_ok_distinct distinct_map by blast
  then show ?thesis
    using assms(1,2) same
    by (intro map_sorted_distinct_set_unique [of fst]) (auto simp: bt_ok_def strict_sorted_iff)
qed

lemma expire_for_others:
  "sup_commands (snd (expire_dispatches_for now rids timeout s)) = sup_commands s"
  "sup_command_runs (snd (expire_dispatches_for now rids timeout s)) = sup_command_runs s"
  "sup_max_result_bytes (snd (expire_dispatches_for now rids timeout s)) = sup_max_result_bytes s"
  by (induction rids arbitrary: s) (auto simp: case_prod_beta split: option.splits)

text \<open>
  Timing out dispatches for a set of runs that covers the table is the same as timing out the
  whole table, in the state and in the runs reported, whatever the order of the set.  Either way,
  exactly the runs that were still dispatching a full timeout after their dispatch end as
  timed out, and none that is overdue is left.
\<close>

theorem scoped_expiry_agrees_with_full_expiry:
  assumes "wf_runtime s" and "set rids = fst ` set (sup_runs s)"
  shows "snd (expire_dispatches_for now rids timeout s) = snd (expire_dispatches_at now timeout s) \<and>
         set (fst (expire_dispatches_for now rids timeout s)) =
           set (fst (expire_dispatches_at now timeout s)) \<and>
         (\<forall>rid e. get_run (snd (expire_dispatches_at now timeout s)) rid = Some e \<longrightarrow>
            \<not> dispatch_overdue now timeout e \<and>
            (rid \<in> set (fst (expire_dispatches_at now timeout s)) \<longrightarrow>
               run_state (ent_run e) = DispatchTimedOut))"
proof (intro conjI)
  have known: "rid \<in> set rids" if "get_run s rid = Some e" for rid e
    using that assms by (force simp: get_run_def wf_runtime_def simp flip: bt.entries_get)
  let ?s1 = "snd (expire_dispatches_for now rids timeout s)"
  let ?s2 = "snd (expire_dispatches_at now timeout s)"
  have get: "get_run ?s1 rid = get_run ?s2 rid" for rid
    using known [of rid] by (cases "get_run s rid") (auto simp: expire_for_get expire_at_get assms(1))
  have "wf_runtime ?s1" and "wf_runtime ?s2"
    using assms(1) by (auto intro: wf_expire_dispatches_for wf_expire_dispatches_at)
  then have "sup_runs ?s1 = sup_runs ?s2"
    using get by (intro bt_extensional) (auto simp: wf_runtime_def get_run_def)
  then show "?s1 = ?s2"
    by (intro ManagedAgentSupervisorRuntime.equality)
      (simp_all add: expire_for_others expire_dispatches_at_def)
  show "set (fst (expire_dispatches_for now rids timeout s)) =
      set (fst (expire_dispatches_at now timeout s))"
    using known by (auto simp: expire_for_ids expire_at_ids assms(1))
  show "\<forall>rid e. get_run ?s2 rid = Some e \<longrightarrow> \<not> dispatch_overdue now timeout e \<and>
      (rid \<in> set (fst (expire_dispatches_at now timeout s)) \<longrightarrow> run_state (ent_run e) = DispatchTimedOut)"
  proof (intro allI impI conjI)
    fix rid e assume "get_run ?s2 rid = Some e"
    then obtain e0 where e0: "get_run s rid = Some e0"
      "e = (if dispatch_overdue now timeout e0 then time_out_entry e0 else e0)"
      by (auto simp: expire_at_get assms(1))
    then show "\<not> dispatch_overdue now timeout e" by (simp add: time_out_entry_not_overdue)
    assume "rid \<in> set (fst (expire_dispatches_at now timeout s))"
    with e0 show "run_state (ent_run e) = DispatchTimedOut"
      by (auto simp: expire_at_ids assms(1) time_out_entry_state)
  qed
qed

theorem scoped_expiry_agrees_with_full_expiry_example:
  "snd (expire_dispatches_for 100 [ManagedRunId 1] 50 sample_dispatched) =
   snd (expire_dispatches_at 100 50 sample_dispatched)"
proof -
  have "set [ManagedRunId 1] = fst ` set (sup_runs sample_dispatched)"
    by (simp add: sample_dispatched_def)
  from scoped_expiry_agrees_with_full_expiry [OF wf_sample_dispatched this, of 100 50]
  show ?thesis by blast
qed

text \<open>
  A new run expires at the instant its supervisor deadline says, and no earlier; a deadline
  too far away for the clock to represent is taken as already passed, so such a run is expired
  from the start.
\<close>

theorem new_run_expires_at_its_deadline:
  assumes "wf_runtime s" and "prepare_run fresh now w ps pt q transport ms s = (Ok rid, s')"
  shows "rid \<in> set (expired_runs_at s' t) \<longleftrightarrow>
           (if now + unat (req_supervisor_deadline_seconds q) * 1000000000 < instant_limit
            then now + unat (req_supervisor_deadline_seconds q) * 1000000000 \<le> t
            else now \<le> t)"
  using assms(2)
proof (rule prepare_run_Ok)
  fix run deadline
  let ?e = "\<lparr>ent_run = run, ent_transport = transport, ent_dispatched_at_unix_ms = ms,
      ent_dispatched_at = now, ent_deadline_at = deadline, ent_events = [DispatchRequested rid w]\<rparr>"
  assume run: "new_run fresh w ps pt q = Ok run" and s': "s' = put_run rid ?e s"
    and deadline: "deadline = unwrap_or
      (instant_checked_add now (from_secs (req_supervisor_deadline_seconds q))) now"
  have ok: "bt_ok (sup_runs s')"
    using wf_prepare_result [OF assms(2,1)] by (simp add: wf_runtime_def)
  have "get_run s' rid = Some ?e" using assms(1) by (simp add: s' get_put_run)
  then have "rid \<in> set (expired_runs_at s' t) \<longleftrightarrow> \<not> is_terminal (run_state run) \<and> deadline \<le> t"
    using bt.keys_where_iff [OF ok, of rid
        "\<lambda>_ e. \<not> is_terminal (run_state (ent_run e)) \<and> ent_deadline_at e \<le> t"]
    by (simp add: expired_runs_at_def bt.keys_where_def get_run_def)
  with new_run_wf [OF run] deadline show ?thesis
    by (simp add: instant_checked_add_def from_secs_def)
qed

theorem new_run_expires_at_its_deadline_example:
  "\<exists>s'. prepare_run (ManagedRunId 1) 10 (WorkerId 2) ''s'' ''t'' sample_request
          (OmegonControl [] sample_target) 5 (new_runtime 4096) = (Ok (ManagedRunId 1), s') \<and>
        ManagedRunId 1 \<notin> set (expired_runs_at s' 60000000009) \<and>
        ManagedRunId 1 \<in> set (expired_runs_at s' 60000000010)"
proof -
  have "ManagedRunId 1 \<in> set (expired_runs_at
      (put_run (ManagedRunId 1) sample_entry (new_runtime 4096)) t) \<longleftrightarrow> 60000000010 \<le> t" for t
    using new_run_expires_at_its_deadline [OF wf_new_runtime sample_prepare_result, of t]
    by (simp add: instant_limit_def)
  from this [of 60000000009] this [of 60000000010] show ?thesis
    by (intro exI [of _ "put_run (ManagedRunId 1) sample_entry (new_runtime 4096)"])
      (simp add: sample_prepare_result)
qed

section \<open>What is left behind\<close>

text \<open>
  A cancellation whose reason is longer than 1024 bytes is refused after the run has been
  moved to cancelling: no command goes to the worker, the caller gets an error, and every further
  cancellation of the run, whatever its reason, is refused because the run is already cancelling.
\<close>

theorem oversized_cancel_reason_blocks_cancellation:
  assumes "wf_runtime s" and "get_run s rid = Some e"
    and "run_state (ent_run e) = ManagedRunState.Running"
    and "run_omegon_task_id (ent_run e) = Some task"
    and "ent_transport e = OmegonControl key target" and "length reason > 1024"
  shows "\<exists>s'. cancel_command enc fresh now rid (Some reason) s = (Err (Contract OversizedReason), s') \<and>
           map_option (run_state \<circ> ent_run) (get_run s' rid) = Some (Cancelling (Some reason)) \<and>
           sup_commands s' = sup_commands s \<and>
           fst (cancel_command enc fresh' now' rid reason' s') = Err (Domain InvalidState)"
proof -
  let ?r = "(ent_run e)\<lparr>run_state := Cancelling (Some reason)\<rparr>"
  let ?s' = "put_run rid (e\<lparr>ent_run := ?r,
      ent_events := ent_events e @ [CancellationRequested rid (Some reason)]\<rparr>) s"
  have "cancel_command enc fresh now rid (Some reason) s = (Err (Contract OversizedReason), ?s')"
    using assms
    by (simp add: cancel_command_def request_cancellation_def new_cancel_request_def Let_def)
  moreover have "fst (cancel_command enc fresh' now' rid reason' ?s') = Err (Domain InvalidState)"
    using assms by (simp add: cancel_command_def get_put_run request_cancellation_def)
  ultimately show ?thesis using assms(1) by (intro exI [of _ ?s']) (simp add: get_put_run)
qed

definition sample_running :: "sample_json ManagedAgentSupervisorRuntime" where
  "sample_running =
     put_run (ManagedRunId 1)
       (sample_entry\<lparr>ent_run := sample_run\<lparr>run_omegon_task_id := Some (OmegonTaskId ''task''),
                                          run_state := ManagedRunState.Running\<rparr>\<rparr>) sample_dispatched"

lemma wf_sample_running: "wf_runtime sample_running"
proof -
  have "wf_entry (ManagedRunId 1) sample_entry"
    by (rule wf_get_run [OF wf_sample_dispatched]) simp
  then show ?thesis unfolding sample_running_def
    by (intro wf_put_run [OF wf_sample_dispatched]) (auto simp: wf_entry_def wf_run_def sample_entry_def)
qed

theorem oversized_cancel_reason_blocks_cancellation_example:
  "\<exists>s'. cancel_command sample_encoder (ManagedCommandId 8) 50 (ManagedRunId 1)
          (Some (replicate 1025 CHR ''x'')) sample_running = (Err (Contract OversizedReason), s') \<and>
        fst (cancel_command sample_encoder (ManagedCommandId 9) 60 (ManagedRunId 1) None s') =
          Err (Domain InvalidState)"
proof -
  have "get_run sample_running (ManagedRunId 1) =
      Some (sample_entry\<lparr>ent_run := sample_run\<lparr>run_omegon_task_id := Some (OmegonTaskId ''task''),
                                             run_state := ManagedRunState.Running\<rparr>\<rparr>)"
    by (simp add: sample_running_def get_put_run [OF wf_sample_dispatched])
  from oversized_cancel_reason_blocks_cancellation [OF wf_sample_running this, where
      reason = "replicate 1025 CHR ''x''" and task = "OmegonTaskId ''task''" and key = "[]" and
      target = sample_target]
  show ?thesis by (simp add: sample_entry_def) blast
qed

text \<open>
  Removing a run leaves its commands in the command table: a command of the run that was not
  settled is still sent by later replays, although no response to it can be applied any more.
\<close>

lemma removed_run_is_still_replayed:
  assumes "wf_runtime s" and "bt_get (sup_commands s) c = Some p" and "pmc_run_id p = rid"
    and "\<not> delivery_settled (pmc_state p)" and "pmc_last_sent_at p + timeout \<le> now"
  shows "let s' = snd (remove_run rid s)
         in pmc_command p \<in> set (fst (replay_due_commands now timeout s')) \<and>
            (\<forall>d raw. fst (apply_response_json d raw s') \<noteq> Ok rid)"
proof -
  let ?s' = "snd (remove_run rid s)"
  have wf: "wf_runtime ?s'" using assms(1) by (rule wf_remove_run)
  have gone: "get_run ?s' rid = None"
    using assms(1) by (simp add: remove_run_def get_run_def wf_runtime_def bt.get_remove)
  have "fst (apply_response_json d raw ?s') \<noteq> Ok rid" for d raw
  proof
    assume "fst (apply_response_json d raw ?s') = Ok rid"
    then obtain t where "apply_response_json d raw ?s' = (Ok rid, t)" by (metis prod.collapse)
    then show False
      by (cases rule: apply_response_cases) (use gone in auto)
  qed
  moreover have "pmc_command p \<in> set (fst (replay_due_commands now timeout ?s'))"
    using assms(2,4,5) unfolding replayed_iff [OF wf] replay_due_def
    by (intro exI [of _ c] exI [of _ p]) auto
  ultimately show ?thesis by (simp add: Let_def)
qed

lemma removed_run_is_still_replayed_example:
  "sample_command \<in> set (fst (replay_due_commands 100 50
     (snd (remove_run (ManagedRunId 1) sample_dispatched))))"
  using removed_run_is_still_replayed [OF wf_sample_dispatched, of "ManagedCommandId 7" sample_pending
      "ManagedRunId 1" 50 100]
  by (simp add: sample_pending_def Let_def)

end
