(* ===== verification/Bridge_Protocol.thy ===== *)
theory Bridge_Protocol
  imports Supervisor_Views
begin

text \<open>
  The private bridge of the bundled managed-agent extension: the protocol of
  \<open>managed_agent_bridge.rs\<close>, the projection sources of \<open>managed_agent_feature.rs\<close> and the
  connection loop of \<open>managed_agent_bridge_server.rs\<close>.

  The Rust trait \<open>ManagedAgentProjectionSource\<close> is the locale \<open>projection_source\<close>, interpreted on
  its two implementations, the runtime and the snapshot.  JSON is a parameter, and so are the
  socket (lines that arrive, writes that may fail) and what the far end of the dispatch channel
  answers.
\<close>

section \<open>Messages\<close>

definition MANAGED_AGENT_BRIDGE_SCHEMA_VERSION :: u32 where
  "MANAGED_AGENT_BRIDGE_SCHEMA_VERSION = 1"
definition MANAGED_AGENT_BRIDGE_PROTOCOL :: string where
  "MANAGED_AGENT_BRIDGE_PROTOCOL = ''auspex.managed-agents.v1''"
definition MAX_MANAGED_AGENT_BRIDGE_FRAME_BYTES :: nat where
  "MAX_MANAGED_AGENT_BRIDGE_FRAME_BYTES = 64 * 1024"

datatype ManagedAgentBridgeOperation =
    AgentsStatus "ManagedRunId option"
  | AgentsDispatch string string WorkerProfile "string list" u64
  | AgentsCancel string ManagedRunId "string option"

record ManagedAgentBridgeRequest =
  brq_schema_version :: u32
  brq_protocol :: string
  brq_request_id :: string
  brq_capability :: string
  brq_operation :: ManagedAgentBridgeOperation

datatype ManagedAgentBridgeErrorCode =
  InvalidRequest | Unauthorized | UnsupportedProtocol | UnknownRun | ScopeDenied | Internal

datatype ManagedAgentBridgeResult =
    BridgeOk "ManagedAgentRunProjection list"
  | BridgeDispatched ManagedRunId bool
  | BridgeError ManagedAgentBridgeErrorCode string

record ManagedAgentBridgeResponse =
  brs_schema_version :: u32
  brs_protocol :: string
  brs_request_id :: string
  brs_result :: ManagedAgentBridgeResult

definition bridge_response :: "string \<Rightarrow> ManagedAgentBridgeResult \<Rightarrow> ManagedAgentBridgeResponse" where
  "bridge_response request_id result =
     \<lparr>brs_schema_version = MANAGED_AGENT_BRIDGE_SCHEMA_VERSION,
      brs_protocol = MANAGED_AGENT_BRIDGE_PROTOCOL,
      brs_request_id = request_id, brs_result = result\<rparr>"

definition response_ok :: "string \<Rightarrow> ManagedAgentRunProjection list \<Rightarrow> ManagedAgentBridgeResponse" where
  "response_ok request_id runs = bridge_response request_id (BridgeOk runs)"

definition response_dispatched :: "string \<Rightarrow> ManagedRunId \<Rightarrow> bool \<Rightarrow> ManagedAgentBridgeResponse" where
  "response_dispatched request_id rid duplicate =
     bridge_response request_id (BridgeDispatched rid duplicate)"

definition response_error ::
  "string \<Rightarrow> ManagedAgentBridgeErrorCode \<Rightarrow> string \<Rightarrow> ManagedAgentBridgeResponse"
where
  "response_error request_id code message = bridge_response request_id (BridgeError code message)"

section \<open>Decoding\<close>

definition invalid_dispatch :: "ManagedAgentBridgeOperation \<Rightarrow> bool" where
  "invalid_dispatch operation =
     (case operation of
        AgentsDispatch operation_id directive _ scope supervisor_deadline_seconds \<Rightarrow>
          trim operation_id = [] \<or> length operation_id > 128 \<or>
          trim directive = [] \<or> length directive > 16 * 1024 \<or>
          length scope > 128 \<or> (\<exists>path \<in> set scope. path = [] \<or> length path > 1024) \<or>
          \<not> (1 \<le> supervisor_deadline_seconds \<and> supervisor_deadline_seconds \<le> 86400)
      | _ \<Rightarrow> False)"

definition invalid_cancel :: "ManagedAgentBridgeOperation \<Rightarrow> bool" where
  "invalid_cancel operation =
     (case operation of
        AgentsCancel operation_id _ reason \<Rightarrow>
          trim operation_id = [] \<or> length operation_id > 128 \<or>
          (case reason of None \<Rightarrow> False | Some reason \<Rightarrow> length reason > 4096)
      | _ \<Rightarrow> False)"

text \<open>\<open>from_slice\<close> is \<open>serde_json::from_slice\<close>; the code drops its error.\<close>

definition decode_bridge_request ::
  "(string \<Rightarrow> ManagedAgentBridgeRequest option) \<Rightarrow> string \<Rightarrow>
     ManagedAgentBridgeErrorCode + ManagedAgentBridgeRequest"
where
  "decode_bridge_request from_slice frame =
     (if length frame > MAX_MANAGED_AGENT_BRIDGE_FRAME_BYTES then Err InvalidRequest
      else case from_slice frame of
             None \<Rightarrow> Err InvalidRequest
           | Some request \<Rightarrow>
               if brq_schema_version request \<noteq> MANAGED_AGENT_BRIDGE_SCHEMA_VERSION \<or>
                  brq_protocol request \<noteq> MANAGED_AGENT_BRIDGE_PROTOCOL
               then Err UnsupportedProtocol
               else if brq_request_id request = [] \<or> length (brq_capability request) < 43
               then Err InvalidRequest
               else if invalid_dispatch (brq_operation request) then Err InvalidRequest
               else if invalid_cancel (brq_operation request) then Err InvalidRequest
               else Ok request)"

unbundle bit_operations_syntax

definition as_bytes :: "string \<Rightarrow> 8 word list" where
  "as_bytes s = map (\<lambda>c. word_of_nat (of_char c)) s"

text \<open>The comparison that looks at every byte whatever it finds.\<close>

definition capability_matches :: "string \<Rightarrow> string \<Rightarrow> bool" where
  "capability_matches expected supplied \<longleftrightarrow>
     (if length expected \<noteq> length supplied then False
      else fold (\<lambda>(left, right) difference. difference OR (left XOR right))
             (zip (as_bytes expected) (as_bytes supplied)) 0 = 0)"

lemma xor_eq_zero_iff: "a XOR b = 0 \<longleftrightarrow> a = (b :: 'a::len word)"
  by (metis xor.assoc xor.left_neutral xor.right_neutral xor_self_eq)

lemma fold_difference_zero:
  "fold (\<lambda>(l, r) d. d OR (l XOR r)) ps (d0 :: 8 word) = 0 \<longleftrightarrow> d0 = 0 \<and> (\<forall>(l, r) \<in> set ps. l = r)"
  by (induction ps arbitrary: d0) (auto simp: or_eq_0_iff xor_eq_zero_iff)

lemma byte_inject: "(word_of_nat (of_char c) :: 8 word) = word_of_nat (of_char d) \<longleftrightarrow> c = d"
proof
  assume "(word_of_nat (of_char c) :: 8 word) = word_of_nat (of_char d)"
  then have "unat (word_of_nat (of_char c) :: 8 word) = unat (word_of_nat (of_char d) :: 8 word)"
    by simp
  then have "of_char c mod 256 = (of_char d mod 256 :: nat)"
    by (simp add: unat_of_nat)
  then show "c = d" by simp
qed simp

lemma as_bytes_inject: "as_bytes a = as_bytes b \<longleftrightarrow> a = b"
  unfolding as_bytes_def by (rule inj_map_eq_map) (simp add: inj_def byte_inject)

section \<open>Projection sources\<close>

locale projection_source =
  fixes status :: "'s \<Rightarrow> string \<Rightarrow> ManagedRunId option \<Rightarrow> string + ManagedAgentRunProjection list"
    and ok :: "'s \<Rightarrow> bool"
  assumes list_total: "\<exists>runs. status s parent None = Ok runs"
    and list_scoped: "ok s \<Longrightarrow> status s parent None = Ok runs \<Longrightarrow> p \<in> set runs \<Longrightarrow>
                        prj_parent_session_id p = parent"
    and single: "status s parent (Some rid) = Ok runs \<Longrightarrow>
                   \<exists>p all. runs = [p] \<and> prj_run_id p = rid \<and> status s parent None = Ok all \<and> p \<in> set all"
begin

lemma scoped: "ok s \<Longrightarrow> status s parent rid = Ok runs \<Longrightarrow> p \<in> set runs \<Longrightarrow> prj_parent_session_id p = parent"
  using single [of s parent] list_scoped [of s parent] by (cases rid) fastforce+

end

definition runtime_status ::
  "'v ManagedAgentSupervisorRuntime \<Rightarrow> string \<Rightarrow> ManagedRunId option \<Rightarrow>
     string + ManagedAgentRunProjection list"
where
  "runtime_status s parent_session_id wanted =
     (case wanted of
        Some rid \<Rightarrow>
          (case project_run_for_parent s rid parent_session_id of
             Inr projection \<Rightarrow> Ok [projection]
           | Inl error \<Rightarrow>
               Err (''managed-agent projection rejected: '' @
                    (case error of
                       ManagedAgentProjectionError.UnknownRun \<Rightarrow> ''UnknownRun''
                     | ParentSessionMismatch \<Rightarrow> ''ParentSessionMismatch'')))
      | None \<Rightarrow> Ok (project_runs_for_parent s parent_session_id))"

type_synonym ManagedAgentProjectionSnapshot =
  "(string, ManagedAgentRunProjection list) btree"

definition replace_parent ::
  "string \<Rightarrow> ManagedAgentRunProjection list \<Rightarrow> ManagedAgentProjectionSnapshot \<Rightarrow>
     ManagedAgentProjectionSnapshot"
where
  "replace_parent parent_session_id runs snapshot = bt_insert parent_session_id runs snapshot"

definition clear_snapshot :: "ManagedAgentProjectionSnapshot \<Rightarrow> ManagedAgentProjectionSnapshot" where
  "clear_snapshot snapshot = bt_empty"

definition remove_parent ::
  "string \<Rightarrow> ManagedAgentProjectionSnapshot \<Rightarrow> ManagedAgentProjectionSnapshot"
where
  "remove_parent parent_session_id snapshot = bt_remove parent_session_id snapshot"

definition snapshot_status ::
  "ManagedAgentProjectionSnapshot \<Rightarrow> string \<Rightarrow> ManagedRunId option \<Rightarrow>
     string + ManagedAgentRunProjection list"
where
  "snapshot_status snapshot parent_session_id wanted =
     (let runs = unwrap_or (bt_get snapshot parent_session_id) []
      in case wanted of
           Some rid \<Rightarrow>
             ok_or ''managed run is unknown or outside the parent session scope''
               (map_option (\<lambda>run. [run]) (find (\<lambda>run. prj_run_id run = rid) runs))
         | None \<Rightarrow> Ok runs)"

definition snapshot_ok :: "ManagedAgentProjectionSnapshot \<Rightarrow> bool" where
  "snapshot_ok snapshot \<longleftrightarrow>
     bt_ok snapshot \<and>
     bt.all_values (\<lambda>parent runs. \<forall>p \<in> set runs. prj_parent_session_id p = parent) snapshot"

lemma projected_iff:
  "p \<in> set (project_runs_for_parent s parent) \<longleftrightarrow>
     (\<exists>rid \<in> fst ` set (sup_runs s). project_run_for_parent s rid parent = Ok p)"
  unfolding project_runs_for_parent_def List.map_filter_def
  by (force split: sum.splits)

interpretation runtime_source: projection_source runtime_status "\<lambda>s. True"
proof (unfold_locales, goal_cases)
  case (1 s parent)
  show ?case by (simp add: runtime_status_def)
next
  case (2 s parent runs p)
  then show ?case by (auto simp: runtime_status_def projected_iff dest: project_run_Ok)
next
  case (3 s parent rid runs)
  then obtain p where p: "project_run_for_parent s rid parent = Ok p" "runs = [p]"
    by (auto simp: runtime_status_def split: sum.splits)
  moreover from project_run_Ok [OF p(1)] have "rid \<in> fst ` set (sup_runs s)"
    by (force simp: get_run_def bt_get_def dest: map_of_SomeD)
  ultimately show ?case
    using project_run_Ok [OF p(1)] by (auto simp: runtime_status_def projected_iff)
qed

interpretation snapshot_source: projection_source snapshot_status snapshot_ok
proof (unfold_locales, goal_cases)
  case (1 s parent)
  show ?case by (simp add: snapshot_status_def Let_def)
next
  case (2 s parent runs p)
  then show ?case
    by (cases "bt_get s parent") (auto simp: snapshot_status_def snapshot_ok_def Let_def dest: bt.all_valuesD)
next
  case (3 s parent rid runs)
  then obtain p where "find (\<lambda>run. prj_run_id run = rid) (unwrap_or (bt_get s parent) []) = Some p"
    and "runs = [p]"
    by (auto simp: snapshot_status_def Let_def split: option.splits)
  then show ?case by (auto simp: snapshot_status_def Let_def find_Some_iff)
qed

lemma snapshot_ok_empty: "snapshot_ok (clear_snapshot snapshot)"
  by (simp add: snapshot_ok_def clear_snapshot_def bt.ok_empty bt.all_values_empty)

lemma snapshot_ok_remove: "snapshot_ok snapshot \<Longrightarrow> snapshot_ok (remove_parent parent snapshot)"
  by (simp add: snapshot_ok_def remove_parent_def bt.ok_remove bt.all_values_remove)

lemma snapshot_ok_replace:
  "snapshot_ok snapshot \<Longrightarrow> (\<And>p. p \<in> set runs \<Longrightarrow> prj_parent_session_id p = parent) \<Longrightarrow>
     snapshot_ok (replace_parent parent runs snapshot)"
  by (simp add: snapshot_ok_def replace_parent_def bt.ok_insert bt.all_values_insert)

section \<open>The primary agent's status tool\<close>

text \<open>\<open>ManagedAgentFeature::execute\<close>; \<open>tool_details\<close> and
  \<open>tool_text\<close> are \<open>serde_json::to_value\<close> and \<open>to_string\<close>.\<close>

record 'v tool_api =
  tool_get :: "'v \<Rightarrow> string \<Rightarrow> 'v option"
  tool_as_str :: "'v \<Rightarrow> string option"
  tool_run_id :: "'v \<Rightarrow> ManagedRunId option"
  tool_details :: "ManagedAgentRunProjection list \<Rightarrow> string + 'v"
  tool_text :: "'v \<Rightarrow> string + string"

definition execute_status ::
  "'v tool_api \<Rightarrow> (string \<Rightarrow> ManagedRunId option \<Rightarrow> string + ManagedAgentRunProjection list) \<Rightarrow>
     string \<Rightarrow> 'v \<Rightarrow> string + (string \<times> 'v)"
where
  "execute_status api status tool_name args =
     (if tool_name \<noteq> ''agents_status''
      then Err (''unsupported managed-agent tool: '' @ tool_name)
      else case Option.bind (Option.bind (tool_get api args ''parent_session_id'') (tool_as_str api))
                  (\<lambda>value. if value = [] then None else Some value) of
             None \<Rightarrow> Err ''parent_session_id is required''
           | Some parent_session_id \<Rightarrow>
               and_then
                 (case tool_get api args ''run_id'' of
                    None \<Rightarrow> Ok None
                  | Some value \<Rightarrow>
                      (case tool_run_id api value of
                         None \<Rightarrow> Err ''run_id must be a UUID''
                       | Some rid \<Rightarrow> Ok (Some rid)))
                 (\<lambda>wanted. and_then (status parent_session_id wanted)
                    (\<lambda>projections. and_then (tool_details api projections)
                       (\<lambda>details. and_then (tool_text api details) (\<lambda>text. Ok (text, details))))))"


section \<open>Connections\<close>

datatype ManagedAgentMutation =
    MutationDispatch string WorkerProfile "string list" u64
  | MutationCancel ManagedRunId "string option"

text \<open>
  The command of the dispatch channel.  Its \<open>respond_to\<close> is a one-shot channel: the value that
  comes back is the reply of the far end, or nothing when the far end drops it.
\<close>

record ManagedAgentDispatchCommand =
  mdc_operation_id :: string
  mdc_parent_session_id :: string
  mdc_operation :: ManagedAgentMutation

datatype channel_reply = SendFailed | ReplyDropped | Replied "string + ManagedRunId \<times> bool"

type_synonym 's mutation_channel = "ManagedAgentDispatchCommand \<Rightarrow> 's \<Rightarrow> channel_reply \<times> 's"

record bridge_io =
  io_from_slice :: "string \<Rightarrow> ManagedAgentBridgeRequest option"
  io_to_vec :: "ManagedAgentBridgeResponse \<Rightarrow> string + string"
  io_write_all :: "string \<Rightarrow> string + unit"

definition bind_accepts :: "string \<Rightarrow> string \<Rightarrow> string + unit" where
  "bind_accepts capability parent_session_id =
     (if length capability < 43 \<or> parent_session_id = [] then Err ''invalid launch binding''
      else Ok ())"

definition submit_mutation ::
  "'s mutation_channel option \<Rightarrow> string \<Rightarrow> string \<Rightarrow> string \<Rightarrow> ManagedAgentDispatchCommand \<Rightarrow> 's \<Rightarrow>
     ManagedAgentBridgeResponse \<times> 's"
where
  "submit_mutation sender request_id failed unavailable command s =
     (case sender of
        None \<Rightarrow> (response_error request_id Internal unavailable, s)
      | Some send \<Rightarrow>
          (case send command s of
             (SendFailed, s1) \<Rightarrow> (response_error request_id Internal unavailable, s1)
           | (Replied (Inr (rid, duplicate)), s1) \<Rightarrow> (response_dispatched request_id rid duplicate, s1)
           | (_, s1) \<Rightarrow> (response_error request_id Internal failed, s1)))"

definition serve_operation ::
  "('s \<Rightarrow> string \<Rightarrow> ManagedRunId option \<Rightarrow> string + ManagedAgentRunProjection list) \<Rightarrow>
     's mutation_channel option \<Rightarrow> string \<Rightarrow> string \<Rightarrow> ManagedAgentBridgeOperation \<Rightarrow> 's \<Rightarrow>
     ManagedAgentBridgeResponse \<times> 's"
where
  "serve_operation status sender parent_session_id request_id operation s =
     (case operation of
        AgentsStatus wanted \<Rightarrow>
          (case status s parent_session_id wanted of
             Inr runs \<Rightarrow> (response_ok request_id runs, s)
           | Inl _ \<Rightarrow> (response_error request_id ScopeDenied ''managed run unavailable'', s))
      | AgentsDispatch operation_id directive worker_profile scope supervisor_deadline_seconds \<Rightarrow>
          submit_mutation sender request_id ''managed dispatch failed''
            ''managed dispatch unavailable''
            \<lparr>mdc_operation_id = operation_id, mdc_parent_session_id = parent_session_id,
             mdc_operation = MutationDispatch directive worker_profile scope
                               supervisor_deadline_seconds\<rparr> s
      | AgentsCancel operation_id rid reason \<Rightarrow>
          submit_mutation sender request_id ''managed cancellation failed''
            ''managed cancellation unavailable''
            \<lparr>mdc_operation_id = operation_id, mdc_parent_session_id = parent_session_id,
             mdc_operation = MutationCancel rid reason\<rparr> s)"

text \<open>One pass of the loop, up to the response it writes.\<close>

definition serve_line ::
  "bridge_io \<Rightarrow> string \<Rightarrow> string \<Rightarrow>
     ('s \<Rightarrow> string \<Rightarrow> ManagedRunId option \<Rightarrow> string + ManagedAgentRunProjection list) \<Rightarrow>
     's mutation_channel option \<Rightarrow> string \<Rightarrow> 's \<Rightarrow> ManagedAgentBridgeResponse \<times> 's"
where
  "serve_line io capability parent_session_id status sender line s =
     (case decode_bridge_request (io_from_slice io) line of
        Inl code \<Rightarrow> (response_error [] code ''request rejected'', s)
      | Inr request \<Rightarrow>
          if \<not> capability_matches capability (brq_capability request)
          then (response_error (brq_request_id request) Unauthorized ''request rejected'', s)
          else serve_operation status sender parent_session_id (brq_request_id request)
                 (brq_operation request) s)"

definition write_response :: "bridge_io \<Rightarrow> ManagedAgentBridgeResponse \<Rightarrow> string + unit" where
  "write_response io response =
     and_then (io_to_vec io response)
       (\<lambda>bytes. if length bytes > MAX_MANAGED_AGENT_BRIDGE_FRAME_BYTES
                then Err ''bridge response exceeds frame limit''
                else io_write_all io (bytes @ [CHR 0x0A]))"

text \<open>
  The loop over \<open>lines.next_line()\<close>: each element is a line or a read error, the end of the list
  is the end of the stream.  The responses written so far are returned with the result.
\<close>

fun serve_connection ::
  "bridge_io \<Rightarrow> string \<Rightarrow> string \<Rightarrow>
     ('s \<Rightarrow> string \<Rightarrow> ManagedRunId option \<Rightarrow> string + ManagedAgentRunProjection list) \<Rightarrow>
     's mutation_channel option \<Rightarrow> (string + string) list \<Rightarrow> 's \<Rightarrow>
     (string + unit) \<times> ManagedAgentBridgeResponse list \<times> 's"
where
  "serve_connection io capability parent status sender [] s = (Ok (), [], s)"
| "serve_connection io capability parent status sender (Inl error # lines) s = (Err error, [], s)"
| "serve_connection io capability parent status sender (Inr line # lines) s =
     (case serve_line io capability parent status sender line s of
        (response, s1) \<Rightarrow>
          (case write_response io response of
             Inl error \<Rightarrow> (Err error, [], s1)
           | Inr _ \<Rightarrow>
               (case serve_connection io capability parent status sender lines s1 of
                  (result, written, s2) \<Rightarrow> (result, response # written, s2))))"


section \<open>Properties\<close>

lemma capability_matches_iff: "capability_matches expected supplied \<longleftrightarrow> expected = supplied"
proof (cases "length expected = length supplied")
  case True
  then have len: "length (as_bytes expected) = length (as_bytes supplied)" by (simp add: as_bytes_def)
  have "(\<forall>(l, r) \<in> set (zip (as_bytes expected) (as_bytes supplied)). l = r) \<longleftrightarrow>
        as_bytes expected = as_bytes supplied"
    using len by (auto simp: list_eq_iff_nth_eq set_zip)
  with True show ?thesis by (simp add: capability_matches_def fold_difference_zero as_bytes_inject)
next
  case False
  then show ?thesis by (auto simp: capability_matches_def)
qed

text \<open>
  C10: The comparison of capabilities, which never leaves its loop early, accepts exactly the
  expected capability.
\<close>

theorem capability_comparison_is_equality:
  "capability_matches expected supplied \<longleftrightarrow> expected = supplied"
  by (rule capability_matches_iff)

lemma decode_bridge_request_Ok:
  "decode_bridge_request from_slice frame = Ok request \<longleftrightarrow>
     length frame \<le> 65536 \<and> from_slice frame = Some request \<and>
     brq_schema_version request = 1 \<and> brq_protocol request = ''auspex.managed-agents.v1'' \<and>
     brq_request_id request \<noteq> [] \<and> 43 \<le> length (brq_capability request) \<and>
     \<not> invalid_dispatch (brq_operation request) \<and> \<not> invalid_cancel (brq_operation request)"
  by (auto simp: decode_bridge_request_def MAX_MANAGED_AGENT_BRIDGE_FRAME_BYTES_def
      MANAGED_AGENT_BRIDGE_SCHEMA_VERSION_def MANAGED_AGENT_BRIDGE_PROTOCOL_def
      split: option.splits if_splits)

text \<open>
  C11: A dispatch that passes the decoder always passes the checks behind it: its directive is not
  blank and its deadline is between one second and a day, so the run request can be built and
  the run prepared under a session and an operation identity that are not blank.
\<close>

theorem decoded_dispatch_can_be_prepared:
  assumes "decode_bridge_request from_slice frame = Ok request"
    and "brq_operation request = AgentsDispatch operation_id directive profile scope seconds"
    and "trim parent \<noteq> []"
  shows "\<exists>q run. new_request directive profile scope seconds = Ok q \<and>
           new_run fresh worker parent operation_id q = Ok run \<and> wf_request q \<and>
           unat (req_supervisor_deadline_seconds q) \<le> 86400"
proof -
  from assms have valid: "trim operation_id \<noteq> []" "trim directive \<noteq> []" "1 \<le> seconds" "seconds \<le> 86400"
    by (auto simp: decode_bridge_request_Ok invalid_dispatch_def)
  have "seconds \<noteq> 0" using valid(3) by auto
  moreover have "unat seconds \<le> 86400" using valid(4) by (simp add: word_le_nat_alt)
  ultimately obtain q where q: "new_request directive profile scope seconds = Ok q"
    "req_supervisor_deadline_seconds q = seconds"
    using valid by (auto simp: new_request_def Let_def)
  from valid assms(3) obtain run where "new_run fresh worker parent operation_id q = Ok run"
    by (simp add: new_run_def)
  with q new_request_wf [OF q(1)] \<open>unat seconds \<le> 86400\<close> show ?thesis by auto
qed


definition sample_bridge_request :: ManagedAgentBridgeRequest where
  "sample_bridge_request =
     \<lparr>brq_schema_version = 1, brq_protocol = ''auspex.managed-agents.v1'', brq_request_id = ''r'',
      brq_capability = ''0123456789012345678901234567890123456789012'',
      brq_operation = AgentsDispatch ''t'' ''inspect'' Scout [''src''] 60\<rparr>"

lemma trim_inspect [simp]: "trim ''inspect'' = ''inspect''"
  by code_simp

lemma decode_sample:
  "decode_bridge_request (\<lambda>_. Some sample_bridge_request) ''{}'' = Ok sample_bridge_request"
  by (simp add: decode_bridge_request_Ok sample_bridge_request_def invalid_dispatch_def invalid_cancel_def)

theorem decoded_dispatch_can_be_prepared_witness:
  "\<exists>q run. new_request ''inspect'' Scout [''src''] 60 = Ok q \<and>
           new_run (ManagedRunId 1) (WorkerId 2) ''s'' ''t'' q = Ok run"
  using decoded_dispatch_can_be_prepared [OF decode_sample, of "''t''" "''inspect''" Scout "[''src'']" 60
      "''s''" "ManagedRunId 1" "WorkerId 2"]
  by (auto simp: sample_bridge_request_def)

lemma submit_mutation_result:
  "submit_mutation sender request_id failed unavailable command s = (response, s') \<Longrightarrow>
     brs_request_id response = request_id \<and> (\<nexists>runs. brs_result response = BridgeOk runs) \<and>
     (s' = s \<or> (\<exists>send. sender = Some send \<and> s' = snd (send command s)))"
  by (auto simp: submit_mutation_def response_error_def response_dispatched_def bridge_response_def
      split: option.splits prod.splits channel_reply.splits sum.splits)

text \<open>The far end of the channel keeps a predicate when it is given commands of this parent only.\<close>

definition channel_keeps :: "('s \<Rightarrow> bool) \<Rightarrow> string \<Rightarrow> 's mutation_channel option \<Rightarrow> bool" where
  "channel_keeps P parent sender \<longleftrightarrow>
     (\<forall>send c s. sender = Some send \<longrightarrow> P s \<longrightarrow> mdc_parent_session_id c = parent \<longrightarrow> P (snd (send c s)))"

context projection_source
begin

lemma serve_line_scoped:
  assumes "ok s" and "serve_line io capability parent status sender line s = (response, s')"
    and send: "channel_keeps ok parent sender"
  shows "ok s' \<and> (\<forall>runs. brs_result response = BridgeOk runs \<longrightarrow>
           (\<forall>p \<in> set runs. prj_parent_session_id p = parent))"
proof (cases "decode_bridge_request (io_from_slice io) line")
  case (Inl code)
  with assms show ?thesis by (auto simp: serve_line_def response_error_def bridge_response_def)
next
  case (Inr request)
  show ?thesis
  proof (cases "capability_matches capability (brq_capability request)")
    case False
    with Inr assms show ?thesis by (auto simp: serve_line_def response_error_def bridge_response_def)
  next
    case True
    with Inr assms have r: "serve_operation status sender parent (brq_request_id request)
        (brq_operation request) s = (response, s')" by (simp add: serve_line_def)
    show ?thesis
    proof (cases "brq_operation request")
      case (AgentsStatus wanted)
      with r assms(1) show ?thesis
        by (auto simp: serve_operation_def response_ok_def response_error_def bridge_response_def
            dest: scoped split: sum.splits)
    qed (use r send assms(1) in \<open>auto simp: serve_operation_def channel_keeps_def dest!: submit_mutation_result\<close>)
  qed
qed

lemma serve_connection_scoped:
  assumes "ok s"
    and "serve_connection io capability parent status sender lines s = (result, written, s')"
    and "channel_keeps ok parent sender"
  shows "ok s' \<and> (\<forall>response \<in> set written. \<forall>runs. brs_result response = BridgeOk runs \<longrightarrow>
           (\<forall>p \<in> set runs. prj_parent_session_id p = parent))"
  using assms(1,2)
proof (induction lines arbitrary: s result written s')
  case (Cons line lines)
  show ?case
  proof (cases line)
    case (Inr frame)
    obtain response s1 where line: "serve_line io capability parent status sender frame s = (response, s1)"
      by fastforce
    obtain result2 written2 s2 where rest: "serve_connection io capability parent status sender lines s1 =
        (result2, written2, s2)" by (metis prod_cases3)
    from serve_line_scoped [OF Cons.prems(1) line assms(3)] Cons.IH [OF _ rest] Cons.prems(2) line rest Inr
    show ?thesis by (auto split: sum.splits)
  qed (use Cons in auto)
qed (use assms in auto)

end


text \<open>
  C12: A connection serves its parent session only.  Every projection it returns belongs to the
  session the listener was bound to, whatever the client sends, as long as the far end of the
  dispatch channel keeps the snapshot scoped for commands of that session; those are the only
  commands the connection submits.
\<close>

theorem connection_serves_only_its_parent:
  assumes "snapshot_ok snapshot" and "channel_keeps snapshot_ok parent sender"
    and "serve_connection io capability parent snapshot_status sender lines snapshot =
           (result, written, snapshot')"
    and "response \<in> set written" and "brs_result response = BridgeOk runs" and "p \<in> set runs"
  shows "prj_parent_session_id p = parent"
  using snapshot_source.serve_connection_scoped [OF assms(1,3,2)] assms(4-6) by blast

definition sample_io :: bridge_io where
  "sample_io =
     \<lparr>io_from_slice = \<lambda>_. Some (sample_bridge_request\<lparr>brq_operation := AgentsStatus None\<rparr>),
      io_to_vec = \<lambda>_. Ok ''{}'', io_write_all = \<lambda>_. Ok ()\<rparr>"

definition sample_snapshot :: ManagedAgentProjectionSnapshot where
  "sample_snapshot =
     replace_parent ''s'' (project_runs_for_parent sample_dispatched ''s'')
       (replace_parent ''u'' (project_runs_for_parent sample_dispatched ''u'') bt_empty)"

lemma sample_snapshot_ok: "snapshot_ok sample_snapshot"
proof -
  have "snapshot_ok (clear_snapshot bt_empty)" by (rule snapshot_ok_empty)
  then show ?thesis
    unfolding sample_snapshot_def clear_snapshot_def
    by (auto intro!: snapshot_ok_replace simp: projected_iff dest: project_run_Ok)
qed

lemma sample_projection:
  "\<exists>p. project_runs_for_parent sample_dispatched ''s'' = [p]"
  by (simp add: project_runs_for_parent_def List.map_filter_def)
    (simp add: sample_dispatched_def project_run_for_parent_def get_run_def bt_get_def sample_entry_def)

theorem connection_serves_only_its_parent_witness:
  "\<exists>p written snapshot'.
     serve_connection sample_io ''0123456789012345678901234567890123456789012'' ''s'' snapshot_status
       None [Inr ''{}''] sample_snapshot = (Ok (), written, snapshot') \<and>
     (\<exists>response \<in> set written. brs_result response = BridgeOk [p] \<and> prj_parent_session_id p = ''s'')"
proof -
  obtain p where p: "project_runs_for_parent sample_dispatched ''s'' = [p]"
    using sample_projection by blast
  have get: "snapshot_status sample_snapshot ''s'' None = Ok [p]"
    by (simp add: snapshot_status_def Let_def sample_snapshot_def replace_parent_def bt_get_def
        bt_empty_def p less_list_code)
  have decode: "decode_bridge_request (io_from_slice sample_io) ''{}'' =
      Ok (sample_bridge_request\<lparr>brq_operation := AgentsStatus None\<rparr>)"
    by (simp add: decode_bridge_request_Ok sample_io_def sample_bridge_request_def
        invalid_dispatch_def invalid_cancel_def)
  let ?cap = "''0123456789012345678901234567890123456789012''"
  have matches: "capability_matches ?cap (brq_capability (sample_bridge_request\<lparr>brq_operation := AgentsStatus None\<rparr>))"
    by (simp add: sample_bridge_request_def capability_matches_iff)
  have line: "serve_line sample_io ?cap ''s'' snapshot_status None ''{}'' sample_snapshot =
      (response_ok ''r'' [p], sample_snapshot)"
    using matches unfolding serve_line_def decode
    by (simp add: serve_operation_def get sample_bridge_request_def)
  then have conn: "serve_connection sample_io ?cap ''s'' snapshot_status None [Inr ''{}''] sample_snapshot =
      (Ok (), [response_ok ''r'' [p]], sample_snapshot)"
    by (simp add: write_response_def sample_io_def and_then_def MAX_MANAGED_AGENT_BRIDGE_FRAME_BYTES_def)
  have keeps: "channel_keeps snapshot_ok ''s'' None" by (simp add: channel_keeps_def)
  have result: "brs_result (response_ok ''r'' [p]) = BridgeOk [p]"
    by (simp add: response_ok_def bridge_response_def)
  have "prj_parent_session_id p = ''s''"
    by (rule connection_serves_only_its_parent [OF sample_snapshot_ok keeps conn _ result]) simp_all
  with conn result show ?thesis
    by (intro exI [of _ p] exI [of _ "[response_ok ''r'' [p]]"] exI [of _ sample_snapshot]) simp
qed


text \<open>
  A line that does not decode, or does not carry the capability of the listener, has no
  effect: nothing is read for it and nothing is submitted, and the answer is an error with the
  fixed message, naming no run.
\<close>

lemma line_without_capability_has_no_effect:
  assumes "\<forall>request. decode_bridge_request (io_from_slice io) line = Ok request \<longrightarrow>
             brq_capability request \<noteq> capability"
  shows "\<exists>request_id code. serve_line io capability parent status sender line s =
           (response_error request_id code ''request rejected'', s)"
proof (cases "decode_bridge_request (io_from_slice io) line")
  case (Inr request)
  with assms have "\<not> capability_matches capability (brq_capability request)"
    by (auto simp: capability_matches_iff)
  with Inr show ?thesis by (auto simp: serve_line_def)
qed (auto simp: serve_line_def)

lemma line_without_capability_has_no_effect_example:
  "\<exists>request_id code. serve_line sample_io ''guess'' ''s'' snapshot_status None ''{}'' sample_snapshot =
     (response_error request_id code ''request rejected'', sample_snapshot)"
  by (rule line_without_capability_has_no_effect)
    (auto simp: decode_bridge_request_Ok sample_io_def sample_bridge_request_def)

text \<open>The answers to a sequence of lines, if every write succeeded.\<close>

fun answers ::
  "bridge_io \<Rightarrow> string \<Rightarrow> string \<Rightarrow>
     ('s \<Rightarrow> string \<Rightarrow> ManagedRunId option \<Rightarrow> string + ManagedAgentRunProjection list) \<Rightarrow>
     's mutation_channel option \<Rightarrow> string list \<Rightarrow> 's \<Rightarrow> ManagedAgentBridgeResponse list"
where
  "answers io capability parent status sender [] s = []"
| "answers io capability parent status sender (line # lines) s =
     (case serve_line io capability parent status sender line s of
        (response, s1) \<Rightarrow> response # answers io capability parent status sender lines s1)"

text \<open>
  A connection answers its lines in order, each once: what it writes is a prefix of the
  answers, and all of them unless a write fails.  The first answer that cannot be written (an
  encoding longer than a frame is one) ends the connection with an error, and the lines after it
  are not served.
\<close>

lemma connection_answers_lines_in_order:
  assumes "serve_connection io capability parent status sender (map Inr lines) s = (result, written, s')"
  shows "written = take (length written) (answers io capability parent status sender lines s) \<and>
         (if is_ok result then length written = length lines
          else length written < length lines \<and>
               result = write_response io
                 (answers io capability parent status sender lines s ! length written))"
  using assms
proof (induction lines arbitrary: s result written s')
  case (Cons line lines)
  obtain response s1 where line: "serve_line io capability parent status sender line s = (response, s1)"
    by fastforce
  obtain result2 written2 s2 where rest: "serve_connection io capability parent status sender
      (map Inr lines) s1 = (result2, written2, s2)" by (metis prod_cases3)
  show ?case
  proof (cases "write_response io response")
    case (Inl e)
    with Cons.prems line have "result = Err e" "written = []" by auto
    with line Inl show ?thesis by simp
  next
    case (Inr u)
    with Cons.prems line rest have "result = result2" "written = response # written2" by auto
    with Cons.IH [OF rest] line show ?thesis by auto
  qed
qed simp

lemma connection_answers_lines_in_order_example:
  "\<exists>s'. serve_connection (sample_io\<lparr>io_to_vec := \<lambda>_. Err ''json''\<rparr>) ''c'' ''s'' snapshot_status None
          (map Inr [''a'', ''b'']) sample_snapshot = (Err ''json'', [], s')"
proof -
  let ?io = "sample_io\<lparr>io_to_vec := \<lambda>_. Err ''json''\<rparr>"
  obtain result written s' where r: "serve_connection ?io ''c'' ''s'' snapshot_status None
      (map Inr [''a'', ''b'']) sample_snapshot = (result, written, s')" by (metis prod_cases3)
  have fails: "write_response ?io response = Err ''json''" for response
    by (simp add: write_response_def and_then_def)
  from r have "written = []" "\<not> is_ok result" by (auto simp: fails split: prod.splits)
  with connection_answers_lines_in_order [OF r] fails r show ?thesis by (cases result) auto
qed

end
