(* ===== verification/Managed_Control.thy ===== *)
theory Managed_Control
  imports Bridge_Protocol
begin

text \<open>
  The managed-agent part of \<open>AppController\<close> (\<open>controller.rs\<close>) and the coordinator of the bridge's
  mutations (\<open>managed_agent_mutation_coordinator.rs\<close>).

  The record holds the fields of the controller these operations read or write.  A session is
  kept as the commands sent to it: what the WebSocket task behind it does with them is outside.
  Errors are \<open>String\<close>s in the code, built from the values the constructors below carry.
\<close>

section \<open>State\<close>

datatype control_error =
    NoSession string
  | UnknownManagedRun
  | NoTargetInstance ManagedRunId
  | PreparationRejected SupervisorRuntimeError
  | DispatchRefused SupervisorRuntimeError
  | CancellationRefused SupervisorRuntimeError
  | A2aCancellationRefused SupervisorRuntimeError
  | ProjectionRejected ManagedAgentProjectionError
  | InvalidManagedDispatch ManagedAgentValidationError
  | DispatchAcceptanceTimedOut ManagedRunId
  | RunFailed ManagedRunId SupervisorRuntimeError
  | CommandHasNoTarget ManagedCommandId

record 'v ManagedControl =
  ctl_instance_sessions :: "(string, 'v TargetedCommand list) btree"
  ctl_managed_agents :: "'v ManagedAgentSupervisorRuntime"
  ctl_managed_agent_instances :: "(ManagedRunId, string) btree"
  ctl_focused_instance_id :: "string option"
  ctl_unread_counts :: "string \<rightharpoonup> u32"

datatype ManagedAgentTransportAction =
    StyreneA2aDispatch ManagedRunA2aRequest
  | StyreneA2aCancel ManagedRunA2aCancel string

definition new_control :: "'v ManagedControl" where
  "new_control =
     \<lparr>ctl_instance_sessions = bt_empty, ctl_managed_agents = new_runtime (1024 * 1024),
      ctl_managed_agent_instances = bt_empty, ctl_focused_instance_id = None,
      ctl_unread_counts = Map.empty\<rparr>"

section \<open>Projections\<close>

definition managed_agent_run_projection ::
  "ManagedRunId \<Rightarrow> string \<Rightarrow> 'v ManagedControl \<Rightarrow> control_error + ManagedAgentRunProjection"
where
  "managed_agent_run_projection rid parent_session_id ctl =
     map_err ProjectionRejected
       (project_run_for_parent (ctl_managed_agents ctl) rid parent_session_id)"

definition managed_agent_run_projections ::
  "string \<Rightarrow> 'v ManagedControl \<Rightarrow> ManagedAgentRunProjection list"
where
  "managed_agent_run_projections parent_session_id ctl =
     project_runs_for_parent (ctl_managed_agents ctl) parent_session_id"

text \<open>The \<open>BTreeSet\<close> of the parents of the active runs, in order and without repetition.\<close>

definition active_parents :: "'v ManagedAgentSupervisorRuntime \<Rightarrow> string list" where
  "active_parents s =
     sort (remdups (List.map_filter
       (\<lambda>rid. map_option (\<lambda>entry. run_parent_session_id (ent_run entry)) (get_run s rid))
       (active_run_ids s)))"

definition sync_managed_agent_projection_snapshot ::
  "'v ManagedControl \<Rightarrow> ManagedAgentProjectionSnapshot \<Rightarrow> ManagedAgentProjectionSnapshot"
where
  "sync_managed_agent_projection_snapshot ctl snapshot =
     fold (\<lambda>parent. replace_parent parent (project_runs_for_parent (ctl_managed_agents ctl) parent))
       (active_parents (ctl_managed_agents ctl)) snapshot"

definition refresh_managed_agent_projection_snapshot ::
  "string \<Rightarrow> 'v ManagedControl \<Rightarrow> ManagedAgentProjectionSnapshot \<Rightarrow> ManagedAgentProjectionSnapshot"
where
  "refresh_managed_agent_projection_snapshot parent_session_id ctl snapshot =
     replace_parent parent_session_id (managed_agent_run_projections parent_session_id ctl) snapshot"

section \<open>Dispatching and cancelling\<close>

definition is_connected :: "string \<Rightarrow> 'v ManagedControl \<Rightarrow> bool" where
  "is_connected instance_id ctl \<longleftrightarrow> bt_get (ctl_instance_sessions ctl) instance_id \<noteq> None"

definition dispatch_to_instance ::
  "string \<Rightarrow> 'v TargetedCommand \<Rightarrow> 'v ManagedControl \<Rightarrow> (control_error + unit) \<times> 'v ManagedControl"
where
  "dispatch_to_instance instance_id command ctl =
     (case bt_get (ctl_instance_sessions ctl) instance_id of
        None \<Rightarrow> (Err (NoSession instance_id), ctl)
      | Some sent \<Rightarrow>
          (Ok (), ctl\<lparr>ctl_instance_sessions :=
                    bt_insert instance_id (sent @ [command]) (ctl_instance_sessions ctl)\<rparr>))"

definition prepare_mqtt_managed_agent ::
  "ManagedRunId \<Rightarrow> Instant \<Rightarrow> WorkerId \<Rightarrow> string \<times> string \<Rightarrow> ManagedRunRequest \<Rightarrow> string \<Rightarrow> u64 \<Rightarrow>
     'v ManagedControl \<Rightarrow> (control_error + ManagedRunId) \<times> 'v ManagedControl"
where
  "prepare_mqtt_managed_agent fresh now worker_id parent request target_agent_id now_unix_ms ctl =
     (case prepare_run fresh now worker_id (fst parent) (snd parent) request
             (StyreneA2a target_agent_id) now_unix_ms (ctl_managed_agents ctl) of
        (result, agents) \<Rightarrow>
          (map_err PreparationRejected result, ctl\<lparr>ctl_managed_agents := agents\<rparr>))"

definition prepare_styrene_a2a_dispatch ::
  "ManagedRunId \<Rightarrow> Instant \<Rightarrow> WorkerId \<Rightarrow> string \<times> string \<Rightarrow> ManagedRunRequest \<Rightarrow> string \<Rightarrow> u64 \<Rightarrow>
     'v ManagedControl \<Rightarrow>
     (control_error + ManagedRunId \<times> ManagedAgentTransportAction) \<times> 'v ManagedControl"
where
  "prepare_styrene_a2a_dispatch fresh now worker_id parent request target_agent_id now_unix_ms ctl =
     (case prepare_mqtt_managed_agent fresh now worker_id parent request target_agent_id now_unix_ms ctl of
        (Inl e, ctl1) \<Rightarrow> (Err e, ctl1)
      | (Inr rid, ctl1) \<Rightarrow>
          (Ok (rid, StyreneA2aDispatch
             \<lparr>a2aq_managed_run_id = rid, a2aq_worker_id = worker_id,
              a2aq_parent_session_id = fst parent, a2aq_parent_turn_id = snd parent,
              a2aq_request = request\<rparr>), ctl1))"

definition prepare_styrene_a2a_cancel ::
  "ManagedRunId \<Rightarrow> string option \<Rightarrow> 'v ManagedControl \<Rightarrow>
     (control_error + ManagedAgentTransportAction) \<times> 'v ManagedControl"
where
  "prepare_styrene_a2a_cancel rid reason ctl =
     (case get_run (ctl_managed_agents ctl) rid of
        None \<Rightarrow> (Err UnknownManagedRun, ctl)
      | Some entry \<Rightarrow>
          (case request_a2a_cancellation rid reason (ctl_managed_agents ctl) of
             (Inl e, agents) \<Rightarrow>
               (Err (A2aCancellationRefused e), ctl\<lparr>ctl_managed_agents := agents\<rparr>)
           | (Inr cancellation, agents) \<Rightarrow>
               (Ok (StyreneA2aCancel cancellation (run_parent_session_id (ent_run entry))),
                ctl\<lparr>ctl_managed_agents := agents\<rparr>)))"

definition dispatch_managed_agent ::
  "'v supervisor_encoder \<Rightarrow> ManagedRunId \<Rightarrow> ManagedCommandId \<Rightarrow> Instant \<Rightarrow> Instant \<Rightarrow> string \<Rightarrow>
     WorkerId \<Rightarrow> string \<times> string \<Rightarrow> ManagedRunRequest \<Rightarrow> CommandTarget \<Rightarrow> u64 \<Rightarrow> 'v ManagedControl \<Rightarrow>
     (control_error + ManagedRunId) \<times> 'v ManagedControl"
where
  "dispatch_managed_agent enc fresh fresh_command now now_registered instance_id worker_id parent
     request target now_unix_ms ctl =
     (if \<not> is_connected instance_id ctl then (Err (NoSession instance_id), ctl)
      else case dispatch enc fresh fresh_command now now_registered worker_id (fst parent) (snd parent)
                  request target now_unix_ms (ctl_managed_agents ctl) of
        (Inl e, agents) \<Rightarrow> (Err (DispatchRefused e), ctl\<lparr>ctl_managed_agents := agents\<rparr>)
      | (Inr (rid, command), agents) \<Rightarrow>
          (let ctl1 = ctl\<lparr>ctl_managed_agents := agents\<rparr>
           in case dispatch_to_instance instance_id command ctl1 of
                (Inl e, ctl2) \<Rightarrow>
                  (Err e, ctl2\<lparr>ctl_managed_agents := snd (remove_run rid (ctl_managed_agents ctl2))\<rparr>)
              | (Inr _, ctl2) \<Rightarrow>
                  (Ok rid, ctl2\<lparr>ctl_managed_agent_instances :=
                     bt_insert rid instance_id (ctl_managed_agent_instances ctl2)\<rparr>)))"

definition cancel_managed_agent ::
  "'v supervisor_encoder \<Rightarrow> ManagedCommandId \<Rightarrow> Instant \<Rightarrow> ManagedRunId \<Rightarrow> string option \<Rightarrow>
     'v ManagedControl \<Rightarrow> (control_error + unit) \<times> 'v ManagedControl"
where
  "cancel_managed_agent enc fresh_command now rid reason ctl =
     (case bt_get (ctl_managed_agent_instances ctl) rid of
        None \<Rightarrow> (Err (NoTargetInstance rid), ctl)
      | Some instance_id \<Rightarrow>
          (case cancel_command enc fresh_command now rid reason (ctl_managed_agents ctl) of
             (Inl e, agents) \<Rightarrow> (Err (CancellationRefused e), ctl\<lparr>ctl_managed_agents := agents\<rparr>)
           | (Inr command, agents) \<Rightarrow>
               dispatch_to_instance instance_id command (ctl\<lparr>ctl_managed_agents := agents\<rparr>)))"

section \<open>The scheduler tick\<close>

text \<open>
  The identity of the command drawn for a run and the clock read for it are functions of the run:
  a run gets one command per tick at most.
\<close>

record tick_inputs =
  tick_draw :: "ManagedRunId \<Rightarrow> ManagedCommandId"
  tick_sent_at :: "ManagedRunId \<Rightarrow> Instant"
  tick_now_dispatch :: Instant
  tick_now_deadline :: Instant
  tick_now_replay :: Instant

definition waits_for_worker :: "ManagedRunState option \<Rightarrow> bool" where
  "waits_for_worker state =
     (case state of
        Some (ManagedRunState.Disconnected _) \<Rightarrow> True
      | Some (Cancelling _) \<Rightarrow> True
      | _ \<Rightarrow> False)"

text \<open>The \<open>match command\<close> of the loop: send the command, or report the error.\<close>

definition tick_command ::
  "ManagedRunId \<Rightarrow> string \<Rightarrow> ('v, 'v TargetedCommand) runtime_result \<Rightarrow> 'v ManagedControl \<Rightarrow>
     control_error list \<times> 'v ManagedControl"
where
  "tick_command rid instance_id outcome ctl =
     (let ctl1 = ctl\<lparr>ctl_managed_agents := snd outcome\<rparr>
      in case fst outcome of
           Inr command \<Rightarrow>
             (case dispatch_to_instance instance_id command ctl1 of
                (Inl e, ctl2) \<Rightarrow> ([e], ctl2)
              | (Inr _, ctl2) \<Rightarrow> ([], ctl2))
         | Inl e \<Rightarrow> (if e = Domain DispatchNotAccepted then [] else [RunFailed rid e], ctl1))"

definition tick_run ::
  "'v supervisor_encoder \<Rightarrow> tick_inputs \<Rightarrow> ManagedRunId list \<Rightarrow> ManagedRunId \<Rightarrow> 'v ManagedControl \<Rightarrow>
     control_error list \<times> 'v ManagedControl"
where
  "tick_run enc tin expired rid ctl =
     (let agents = ctl_managed_agents ctl
      in if \<not> is_omegon_control_run agents rid then ([], ctl)
         else if waits_for_worker (map_option (\<lambda>entry. run_state (ent_run entry)) (get_run agents rid))
         then ([], ctl)
         else case bt_get (ctl_managed_agent_instances ctl) rid of
                None \<Rightarrow> ([NoTargetInstance rid], ctl)
              | Some instance_id \<Rightarrow>
                  tick_command rid instance_id
                    (if rid \<in> set expired
                     then cancel_command enc (tick_draw tin rid) (tick_sent_at tin rid) rid
                            (Some ''supervisor deadline exceeded'') agents
                     else poll_command enc (tick_draw tin rid) (tick_sent_at tin rid) rid agents)
                    ctl)"

fun tick_runs ::
  "'v supervisor_encoder \<Rightarrow> tick_inputs \<Rightarrow> ManagedRunId list \<Rightarrow> ManagedRunId list \<Rightarrow>
     'v ManagedControl \<Rightarrow> control_error list \<times> 'v ManagedControl"
where
  "tick_runs enc tin expired [] ctl = ([], ctl)"
| "tick_runs enc tin expired (rid # rids) ctl =
     (case tick_run enc tin expired rid ctl of
        (errors, ctl1) \<Rightarrow>
          (case tick_runs enc tin expired rids ctl1 of
             (rest_errors, ctl2) \<Rightarrow> (errors @ rest_errors, ctl2)))"

definition tick_replay ::
  "'v TargetedCommand \<Rightarrow> 'v ManagedControl \<Rightarrow> control_error list \<times> 'v ManagedControl"
where
  "tick_replay command ctl =
     (case managed_command_id command of
        None \<Rightarrow> ([], ctl)
      | Some command_id \<Rightarrow>
          (case command_run_id (ctl_managed_agents ctl) command_id of
             None \<Rightarrow> ([], ctl)
           | Some rid \<Rightarrow>
               (case bt_get (ctl_managed_agent_instances ctl) rid of
                  None \<Rightarrow> ([CommandHasNoTarget command_id], ctl)
                | Some instance_id \<Rightarrow>
                    (case dispatch_to_instance instance_id command ctl of
                       (Inl e, ctl1) \<Rightarrow> ([e], ctl1)
                     | (Inr _, ctl1) \<Rightarrow> ([], ctl1)))))"

fun tick_replays ::
  "'v TargetedCommand list \<Rightarrow> 'v ManagedControl \<Rightarrow> control_error list \<times> 'v ManagedControl"
where
  "tick_replays [] ctl = ([], ctl)"
| "tick_replays (command # commands) ctl =
     (case tick_replay command ctl of
        (errors, ctl1) \<Rightarrow>
          (case tick_replays commands ctl1 of (rest_errors, ctl2) \<Rightarrow> (errors @ rest_errors, ctl2)))"

text \<open>
  The set of control runs is a \<open>HashSet\<close> in the code; its order decides nothing but the order of
  the error messages, and the order of the table is taken here.
\<close>

definition tick_managed_agents ::
  "'v supervisor_encoder \<Rightarrow> tick_inputs \<Rightarrow> 'v ManagedControl \<Rightarrow>
     control_error list \<times> 'v ManagedControl"
where
  "tick_managed_agents enc tin ctl =
     (let agents = ctl_managed_agents ctl;
          control_run_ids = filter (is_omegon_control_run agents) (active_run_ids agents);
          (timeouts, agents1) =
            expire_dispatches_for (tick_now_dispatch tin) control_run_ids (from_secs 15) agents;
          expired = expired_runs_at agents1 (tick_now_deadline tin);
          (run_errors, ctl2) =
            tick_runs enc tin expired (active_run_ids agents1) (ctl\<lparr>ctl_managed_agents := agents1\<rparr>);
          (replays, agents3) =
            replay_due_commands (tick_now_replay tin) (from_secs 3) (ctl_managed_agents ctl2);
          (replay_errors, ctl4) = tick_replays replays (ctl2\<lparr>ctl_managed_agents := agents3\<rparr>)
      in (map DispatchAcceptanceTimedOut timeouts @ run_errors @ replay_errors, ctl4))"

section \<open>Draining the instance sessions\<close>

datatype SessionTransportEvent = Connected | Disconnected

record InstanceDrainBatch =
  batch_active_instance_ids :: "string list"
  batch_control_responses :: "(string \<times> string) list"
  batch_transport_events :: "(string \<times> SessionTransportEvent) list"

definition EVENT_MANAGED_AGENT_COMMAND_ACK :: string where
  "EVENT_MANAGED_AGENT_COMMAND_ACK = ''managed_agent_command_ack''"

record 'v control_decoder =
  cd_response :: "'v response_decoder"
  cd_command_id :: "'v \<Rightarrow> ManagedCommandId option"
  cd_receipt :: "string \<Rightarrow> string + ControlCommandReceipt"
  cd_ack :: "string \<Rightarrow> string + ManagedAgentCommandAck"

definition workers_of_instance :: "string \<Rightarrow> 'v ManagedControl \<Rightarrow> WorkerId list" where
  "workers_of_instance instance_id ctl =
     List.map_filter
       (\<lambda>(rid, target). if target = instance_id
          then map_option (\<lambda>entry. run_worker_id (ent_run entry)) (get_run (ctl_managed_agents ctl) rid)
          else None)
       (ctl_managed_agent_instances ctl)"

definition apply_transport_event ::
  "string \<times> SessionTransportEvent \<Rightarrow> 'v ManagedControl \<Rightarrow> 'v ManagedControl"
where
  "apply_transport_event event ctl =
     ctl\<lparr>ctl_managed_agents :=
       fold (\<lambda>worker_id. case snd event of
               Connected \<Rightarrow> mark_worker_reconnected worker_id
             | SessionTransportEvent.Disconnected \<Rightarrow> mark_worker_disconnected worker_id)
         (workers_of_instance (fst event) ctl) (ctl_managed_agents ctl)\<rparr>"

definition apply_control_response ::
  "'v control_decoder \<Rightarrow> string \<times> string \<Rightarrow> 'v ManagedControl \<Rightarrow> 'v ManagedControl"
where
  "apply_control_response cd event ctl =
     (case event of (instance_id, response) \<Rightarrow>
        let d = cd_response cd;
            agents = ctl_managed_agents ctl;
            parsed = (case dec_value d response of Inl _ \<Rightarrow> None | Inr value \<Rightarrow> Some value);
            response_type =
              Option.bind (Option.bind parsed (\<lambda>value. val_get d value ''type'')) (val_as_str d)
        in if response_type = Some ''control_command_receipt'' \<or>
              response_type = Some EVENT_MANAGED_AGENT_COMMAND_ACK
           then
             let command_id = Option.bind (Option.bind parsed (\<lambda>value. val_get d value ''command_id''))
                                (cd_command_id cd);
                 routed_instance = Option.bind (Option.bind command_id (command_run_id agents))
                                     (bt_get (ctl_managed_agent_instances ctl))
             in if routed_instance \<noteq> Some instance_id then ctl
                else if response_type = Some EVENT_MANAGED_AGENT_COMMAND_ACK
                then ctl\<lparr>ctl_managed_agents := snd (apply_command_ack_json (cd_ack cd) response agents)\<rparr>
                else ctl\<lparr>ctl_managed_agents := snd (apply_receipt_json (cd_receipt cd) response agents)\<rparr>
           else
             let response_run_id = Option.bind (Option.bind parsed (\<lambda>value. val_get d value ''managed_run_id''))
                   (\<lambda>value. case dec_run_id d value of Inl _ \<Rightarrow> None | Inr rid \<Rightarrow> Some rid)
             in if Option.bind response_run_id (bt_get (ctl_managed_agent_instances ctl)) \<noteq> Some instance_id
                then ctl
                else ctl\<lparr>ctl_managed_agents := snd (apply_response_json d response agents)\<rparr>)"

text \<open>\<open>*entry.or_insert(0) += 1\<close>, which wraps in a release build.\<close>

definition count_unread :: "string \<Rightarrow> 'v ManagedControl \<Rightarrow> 'v ManagedControl" where
  "count_unread instance_id ctl =
     (if ctl_focused_instance_id ctl \<noteq> Some instance_id
      then ctl\<lparr>ctl_unread_counts :=
             (ctl_unread_counts ctl)(instance_id \<mapsto> unwrap_or (ctl_unread_counts ctl instance_id) 0 + 1)\<rparr>
      else ctl)"

definition drain_all_instance_sessions ::
  "'v control_decoder \<Rightarrow> InstanceDrainBatch \<Rightarrow> 'v ManagedControl \<Rightarrow> bool \<times> 'v ManagedControl"
where
  "drain_all_instance_sessions cd batch ctl =
     (let ctl1 = fold apply_transport_event (batch_transport_events batch) ctl;
          ctl2 = fold (apply_control_response cd) (batch_control_responses batch) ctl1;
          ctl3 = fold count_unread (batch_active_instance_ids batch) ctl2
      in (batch_active_instance_ids batch \<noteq> [], ctl3))"


section \<open>The mutation coordinator\<close>

record ManagedAgentMutationCoordinator =
  mco_completed_operations :: "(string \<times> string, ManagedRunId) btree"

text \<open>What is drawn for a command: the identities \<open>ManagedRunId::new()\<close> and \<open>WorkerId::new()\<close> and the clock.\<close>

record mutation_draw =
  md_run_id :: ManagedRunId
  md_worker_id :: WorkerId
  md_now :: Instant

record 'v coordination =
  co_coordinator :: ManagedAgentMutationCoordinator
  co_control :: "'v ManagedControl"
  co_actions :: "ManagedAgentTransportAction list"

definition mutate ::
  "mutation_draw \<Rightarrow> u64 \<Rightarrow> ManagedAgentDispatchCommand \<Rightarrow> 'v ManagedControl \<Rightarrow>
     (control_error + ManagedRunId \<times> ManagedAgentTransportAction) \<times> 'v ManagedControl"
where
  "mutate draw now_unix_ms command ctl =
     (case mdc_operation command of
        MutationDispatch directive worker_profile scope supervisor_deadline_seconds \<Rightarrow>
          (case new_request directive worker_profile scope supervisor_deadline_seconds of
             Inl e \<Rightarrow> (Err (InvalidManagedDispatch e), ctl)
           | Inr request \<Rightarrow>
               prepare_styrene_a2a_dispatch (md_run_id draw) (md_now draw) (md_worker_id draw)
                 (mdc_parent_session_id command, mdc_operation_id command) request
                 ''auspex-managed-worker'' now_unix_ms ctl)
      | MutationCancel rid reason \<Rightarrow>
          (case managed_agent_run_projection rid (mdc_parent_session_id command) ctl of
             Inl e \<Rightarrow> (Err e, ctl)
           | Inr _ \<Rightarrow>
               (case prepare_styrene_a2a_cancel rid reason ctl of
                  (Inl e, ctl1) \<Rightarrow> (Err e, ctl1)
                | (Inr action, ctl1) \<Rightarrow> (Ok (rid, action), ctl1))))"

definition apply_mutation ::
  "mutation_draw \<Rightarrow> u64 \<Rightarrow> ManagedAgentDispatchCommand \<Rightarrow> 'v coordination \<Rightarrow>
     (control_error + ManagedRunId \<times> bool) \<times> 'v coordination"
where
  "apply_mutation draw now_unix_ms command co =
     (let key = (mdc_parent_session_id command, mdc_operation_id command);
          completed = mco_completed_operations (co_coordinator co)
      in case bt_get completed key of
           Some rid \<Rightarrow> (Ok (rid, True), co)
         | None \<Rightarrow>
             (case mutate draw now_unix_ms command (co_control co) of
                (Inl e, ctl) \<Rightarrow> (Err e, co\<lparr>co_control := ctl\<rparr>)
              | (Inr (rid, action), ctl) \<Rightarrow>
                  (Ok (rid, False),
                   co\<lparr>co_coordinator := \<lparr>mco_completed_operations = bt_insert key rid completed\<rparr>,
                      co_control := ctl, co_actions := co_actions co @ [action]\<rparr>)))"

text \<open>\<open>process_pending\<close>: the queue as the receiver yields it, with the reply to each command.\<close>

fun process_pending ::
  "u64 \<Rightarrow> (mutation_draw \<times> ManagedAgentDispatchCommand) list \<Rightarrow> 'v coordination \<Rightarrow>
     nat \<times> (control_error + ManagedRunId \<times> bool) list \<times> 'v coordination"
where
  "process_pending now_unix_ms [] co = (0, [], co)"
| "process_pending now_unix_ms ((draw, command) # queue) co =
     (case apply_mutation draw now_unix_ms command co of
        (reply, co1) \<Rightarrow>
          (case process_pending now_unix_ms queue co1 of
             (processed, replies, co2) \<Rightarrow> (processed + 1, reply # replies, co2)))"

section \<open>What reaches the runtime\<close>

abbreviation agents_steps :: "'v ManagedControl \<Rightarrow> 'v ManagedControl \<Rightarrow> bool" where
  "agents_steps ctl ctl' \<equiv> sup_step\<^sup>*\<^sup>* (ctl_managed_agents ctl) (ctl_managed_agents ctl')"

lemma dispatch_to_instance_agents [simp]:
  "ctl_managed_agents (snd (dispatch_to_instance i command ctl)) = ctl_managed_agents ctl"
  "ctl_managed_agent_instances (snd (dispatch_to_instance i command ctl)) = ctl_managed_agent_instances ctl"
  by (simp_all add: dispatch_to_instance_def split: option.splits)

lemma sup_step_result:
  "prepare_run fresh now w ps pt q transport ms s = (r, s1) \<Longrightarrow> sup_step s s1"
  "request_a2a_cancellation rid reason s = (r2, s1) \<Longrightarrow> sup_step s s1"
  "bt_get (sup_commands s) fc = None \<Longrightarrow> cancel_command enc fc now rid reason s = (r3, s1) \<Longrightarrow> sup_step s s1"
  "bt_get (sup_commands s) fc = None \<Longrightarrow> poll_command enc fc now rid s = (r3, s1) \<Longrightarrow> sup_step s s1"
  "bt_get (sup_commands s) fc = None \<Longrightarrow>
     dispatch enc fresh fc now now' w ps pt q target ms s = (r4, s1) \<Longrightarrow> sup_step s s1"
  by (metis snd_conv step_prepare step_a2a_cancel step_cancel step_poll step_dispatch)+

lemma prepare_mqtt_steps:
  "agents_steps ctl (snd (prepare_mqtt_managed_agent fresh now w parent q target ms ctl))"
  by (auto simp: prepare_mqtt_managed_agent_def intro: sup_step_result split: prod.splits)

lemma prepare_dispatch_steps:
  "agents_steps ctl (snd (prepare_styrene_a2a_dispatch fresh now w parent q target ms ctl))"
  using prepare_mqtt_steps [of ctl fresh now w parent q target ms]
  by (auto simp: prepare_styrene_a2a_dispatch_def split: prod.splits sum.splits)

lemma prepare_cancel_steps: "agents_steps ctl (snd (prepare_styrene_a2a_cancel rid reason ctl))"
  by (auto simp: prepare_styrene_a2a_cancel_def intro: sup_step_result
      split: option.splits prod.splits sum.splits)

lemma mutate_steps: "agents_steps ctl (snd (mutate draw ms command ctl))"
proof (cases "mdc_operation command")
  case (MutationDispatch directive profile scope seconds)
  then show ?thesis by (auto simp: mutate_def prepare_dispatch_steps split: sum.splits)
next
  case (MutationCancel rid reason)
  then show ?thesis
    using prepare_cancel_steps [of ctl rid reason]
    by (auto simp: mutate_def split: sum.splits prod.splits)
qed


lemma dispatch_managed_agent_steps:
  assumes "bt_get (sup_commands (ctl_managed_agents ctl)) fc = None"
  shows "agents_steps ctl (snd (dispatch_managed_agent enc fresh fc now now' i w parent q target ms ctl))"
proof -
  obtain r s1 where d: "dispatch enc fresh fc now now' w (fst parent) (snd parent) q target ms
      (ctl_managed_agents ctl) = (r, s1)" by fastforce
  from sup_step_result(5) [OF assms d] have step: "sup_step (ctl_managed_agents ctl) s1" .
  show ?thesis
  proof (cases r)
    case (Inl e)
    with d step show ?thesis by (auto simp: dispatch_managed_agent_def)
  next
    case (Inr x)
    obtain rid command where x: "x = (rid, command)" by fastforce
    obtain r2 ctl2 where send: "dispatch_to_instance i command (ctl\<lparr>ctl_managed_agents := s1\<rparr>) = (r2, ctl2)"
      by fastforce
    with dispatch_to_instance_agents(1) [of i command "ctl\<lparr>ctl_managed_agents := s1\<rparr>"]
    have same: "ctl_managed_agents ctl2 = s1" by simp
    have removed: "sup_step\<^sup>*\<^sup>* (ctl_managed_agents ctl) (snd (remove_run rid s1))"
      using step step_remove [of s1 rid] by (meson converse_rtranclp_into_rtranclp r_into_rtranclp)
    from d r_into_rtranclp [of sup_step, OF step] removed show ?thesis
      by (simp add: dispatch_managed_agent_def Inr x send same Let_def split: sum.splits)
  qed
qed

lemma cancel_managed_agent_steps:
  assumes "bt_get (sup_commands (ctl_managed_agents ctl)) fc = None"
  shows "agents_steps ctl (snd (cancel_managed_agent enc fc now rid reason ctl))"
  using sup_step_result(3) [OF assms]
  by (auto simp: cancel_managed_agent_def split: option.splits prod.splits sum.splits)

text \<open>What the sessions were sent between two states, all of it satisfying a predicate.\<close>

definition outbox :: "'v ManagedControl \<Rightarrow> string \<Rightarrow> 'v TargetedCommand list" where
  "outbox ctl i = unwrap_or (bt_get (ctl_instance_sessions ctl) i) []"

definition sends :: "('v TargetedCommand \<Rightarrow> bool) \<Rightarrow> 'v ManagedControl \<Rightarrow> 'v ManagedControl \<Rightarrow> bool" where
  "sends P ctl ctl' \<longleftrightarrow>
     (bt_ok (ctl_instance_sessions ctl) \<longrightarrow> bt_ok (ctl_instance_sessions ctl') \<and>
        (\<forall>i. \<exists>extra. outbox ctl' i = outbox ctl i @ extra \<and> (\<forall>command \<in> set extra. P command)))"

lemma sends_same: "ctl_instance_sessions ctl' = ctl_instance_sessions ctl \<Longrightarrow> sends P ctl ctl'"
  by (simp add: sends_def outbox_def)

lemma sends_trans: "sends P a b \<Longrightarrow> sends P b c \<Longrightarrow> sends P a c"
  unfolding sends_def
proof (intro impI conjI allI, goal_cases)
  case (2 i)
  then obtain e1 e2 where "outbox b i = outbox a i @ e1" "\<forall>command \<in> set e1. P command"
    "outbox c i = outbox b i @ e2" "\<forall>command \<in> set e2. P command" by meson
  then show ?case by (intro exI [of _ "e1 @ e2"]) auto
qed simp

lemma dispatch_to_instance_sends:
  assumes "P command"
  shows "sends P ctl (snd (dispatch_to_instance i command ctl))"
  unfolding sends_def
proof (intro impI conjI allI)
  assume ok: "bt_ok (ctl_instance_sessions ctl)"
  then show "bt_ok (ctl_instance_sessions (snd (dispatch_to_instance i command ctl)))"
    by (auto simp: dispatch_to_instance_def bt.ok_insert split: option.splits)
  show "\<exists>extra. outbox (snd (dispatch_to_instance i command ctl)) j = outbox ctl j @ extra \<and>
      (\<forall>c \<in> set extra. P c)" for j
    using assms ok
    by (cases "bt_get (ctl_instance_sessions ctl) i"; cases "j = i")
      (auto simp: dispatch_to_instance_def outbox_def bt.get_insert)
qed

lemma tick_command_agents:
  "ctl_managed_agents (snd (tick_command rid i outcome ctl)) = snd outcome"
  "ctl_managed_agent_instances (snd (tick_command rid i outcome ctl)) = ctl_managed_agent_instances ctl"
proof -
  show "ctl_managed_agents (snd (tick_command rid i outcome ctl)) = snd outcome"
    using dispatch_to_instance_agents(1) [of i "projr (fst outcome)" "ctl\<lparr>ctl_managed_agents := snd outcome\<rparr>"]
    by (auto simp: tick_command_def Let_def case_prod_beta split: sum.splits)
  show "ctl_managed_agent_instances (snd (tick_command rid i outcome ctl)) = ctl_managed_agent_instances ctl"
    using dispatch_to_instance_agents(2) [of i "projr (fst outcome)" "ctl\<lparr>ctl_managed_agents := snd outcome\<rparr>"]
    by (auto simp: tick_command_def Let_def case_prod_beta split: sum.splits)
qed

lemma tick_command_sends:
  assumes "\<And>command. fst outcome = Ok command \<Longrightarrow> P command"
  shows "sends P ctl (snd (tick_command rid i outcome ctl))"
proof -
  have same: "sends P ctl (ctl\<lparr>ctl_managed_agents := snd outcome\<rparr>)" by (rule sends_same) simp
  show ?thesis
  proof (cases "fst outcome")
    case (Inr command)
    with assms have "P command" by simp
    from sends_trans [OF same dispatch_to_instance_sends [of P, OF this, of _ i]] Inr show ?thesis
      by (auto simp: tick_command_def Let_def case_prod_beta split: sum.splits)
  qed (use same in \<open>simp add: tick_command_def Let_def\<close>)
qed


lemma register_command_Ok:
  "fst (register_command now rid kind command s) = Ok c \<Longrightarrow> c = command"
  by (auto simp: register_command_def split: option.splits)

lemma sent_command_id:
  "fst (poll_command enc fc now rid s) = Ok command \<Longrightarrow> managed_command_id command = Some fc"
  "fst (cancel_command enc fc now rid reason s) = Ok command \<Longrightarrow> managed_command_id command = Some fc"
  by (auto simp: poll_command_def cancel_command_def get_command_def cancel_request_command_def Let_def
      dest!: register_command_Ok encode_command_Ok
      split: if_splits option.splits ManagedAgentTransportBinding.splits sum.splits prod.splits)

text \<open>What one pass over a run does: the runtime takes a step, and only the drawn command is new.\<close>

definition tick_effect ::
  "ManagedCommandId set \<Rightarrow> 'v ManagedControl \<Rightarrow> 'v ManagedControl \<Rightarrow> bool"
where
  "tick_effect drawn ctl ctl' \<longleftrightarrow>
     agents_steps ctl ctl' \<and> ctl_managed_agent_instances ctl' = ctl_managed_agent_instances ctl \<and>
     (\<forall>c. c \<notin> drawn \<longrightarrow> bt_get (sup_commands (ctl_managed_agents ctl')) c =
                           bt_get (sup_commands (ctl_managed_agents ctl)) c) \<and>
     sends (\<lambda>command. \<exists>c \<in> drawn. managed_command_id command = Some c) ctl ctl'"

lemma tick_effect_refl: "tick_effect drawn ctl ctl"
  by (simp add: tick_effect_def sends_same)

lemma sends_mono: "sends P ctl ctl' \<Longrightarrow> (\<And>c. P c \<Longrightarrow> Q c) \<Longrightarrow> sends Q ctl ctl'"
  unfolding sends_def by meson

lemma tick_effect_trans:
  assumes "tick_effect A a b" and "tick_effect B b c"
  shows "tick_effect (A \<union> B) a c"
proof -
  have "sends (\<lambda>command. \<exists>c \<in> A \<union> B. managed_command_id command = Some c) a c"
    using assms unfolding tick_effect_def
    by (auto intro: sends_trans [of _ a b c] elim!: sends_mono)
  with assms show ?thesis unfolding tick_effect_def by auto
qed

lemma tick_run_effect:
  assumes wf: "wf_runtime (ctl_managed_agents ctl)"
    and fresh: "bt_get (sup_commands (ctl_managed_agents ctl)) (tick_draw tin rid) = None"
  shows "tick_effect {tick_draw tin rid} ctl (snd (tick_run enc tin expired rid ctl))"
proof -
  have "tick_effect {tick_draw tin rid} ctl (snd (tick_command rid i outcome ctl))"
    if "outcome = cancel_command enc (tick_draw tin rid) now rid reason (ctl_managed_agents ctl) \<or>
        outcome = poll_command enc (tick_draw tin rid) now rid (ctl_managed_agents ctl)"
    for i outcome now reason
  proof -
    from that fresh have "sup_step (ctl_managed_agents ctl) (snd outcome)"
      by (auto intro: step_cancel step_poll)
    moreover from that have "managed_command_id command = Some (tick_draw tin rid)"
      if "fst outcome = Ok command" for command using that sent_command_id by blast
    moreover from that have "bt_get (sup_commands (snd outcome)) c =
        bt_get (sup_commands (ctl_managed_agents ctl)) c" if "c \<noteq> tick_draw tin rid" for c
      using send_keeps_commands(1,2) [OF wf that] by metis
    ultimately show ?thesis
      by (simp add: tick_effect_def tick_command_agents tick_command_sends r_into_rtranclp)
  qed
  note effect = this [OF disjI1, OF refl] this [OF disjI2, OF refl]
  show ?thesis
    by (simp add: tick_run_def Let_def tick_effect_refl effect split: option.splits)
qed

lemma tick_runs_effect:
  assumes "wf_runtime (ctl_managed_agents ctl)" and "distinct (map (tick_draw tin) rids)"
    and "\<forall>rid \<in> set rids. bt_get (sup_commands (ctl_managed_agents ctl)) (tick_draw tin rid) = None"
  shows "tick_effect (tick_draw tin ` set rids) ctl (snd (tick_runs enc tin expired rids ctl))"
  using assms
proof (induction rids arbitrary: ctl)
  case Nil
  then show ?case by (simp add: tick_effect_refl)
next
  case (Cons rid rids)
  let ?ctl1 = "snd (tick_run enc tin expired rid ctl)"
  have eff: "tick_effect {tick_draw tin rid} ctl ?ctl1"
    using Cons.prems by (intro tick_run_effect) auto
  then have "wf_runtime (ctl_managed_agents ?ctl1)"
    using Cons.prems(1) by (auto simp: tick_effect_def intro: sup_steps_wf)
  moreover have "\<forall>rid \<in> set rids. bt_get (sup_commands (ctl_managed_agents ?ctl1)) (tick_draw tin rid) = None"
  proof
    fix r assume "r \<in> set rids"
    then have "tick_draw tin r \<in> set (map (tick_draw tin) rids)" by simp
    with Cons.prems(2) have "tick_draw tin r \<noteq> tick_draw tin rid" by (metis distinct.simps(2) list.simps(9))
    moreover from Cons.prems(3) \<open>r \<in> set rids\<close>
    have "bt_get (sup_commands (ctl_managed_agents ctl)) (tick_draw tin r) = None" by simp
    ultimately show "bt_get (sup_commands (ctl_managed_agents ?ctl1)) (tick_draw tin r) = None"
      using eff by (simp add: tick_effect_def)
  qed
  ultimately have "tick_effect (tick_draw tin ` set rids) ?ctl1
      (snd (tick_runs enc tin expired rids ?ctl1))"
    using Cons.prems(2) by (intro Cons.IH) auto
  from tick_effect_trans [OF eff this] show ?case by (simp add: case_prod_beta)
qed

lemma tick_replay_frame:
  "ctl_managed_agents (snd (tick_replay command ctl)) = ctl_managed_agents ctl \<and>
   sends (\<lambda>c. c = command) ctl (snd (tick_replay command ctl))"
proof -
  have "ctl_managed_agents (snd (dispatch_to_instance i command ctl)) = ctl_managed_agents ctl \<and>
      sends (\<lambda>c. c = command) ctl (snd (dispatch_to_instance i command ctl))" for i
    by (simp add: dispatch_to_instance_sends)
  then show ?thesis
    by (simp add: tick_replay_def sends_same case_prod_beta split: option.splits sum.splits)
qed

lemma tick_replays_frame:
  "ctl_managed_agents (snd (tick_replays commands ctl)) = ctl_managed_agents ctl \<and>
   sends (\<lambda>c. c \<in> set commands) ctl (snd (tick_replays commands ctl))"
proof (induction commands arbitrary: ctl)
  case (Cons command commands)
  let ?ctl1 = "snd (tick_replay command ctl)"
  from tick_replay_frame [of command ctl] Cons [of ?ctl1] show ?case
    by (auto simp: case_prod_beta intro: sends_trans [of _ ctl ?ctl1] elim!: sends_mono)
qed (simp add: sends_same)

lemma tick_unfold:
  obtains agents1 ctl2 replays agents3 where
    "agents1 = snd (expire_dispatches_for (tick_now_dispatch tin)
       (filter (is_omegon_control_run (ctl_managed_agents ctl)) (active_run_ids (ctl_managed_agents ctl)))
       (from_secs 15) (ctl_managed_agents ctl))"
    and "ctl2 = snd (tick_runs enc tin (expired_runs_at agents1 (tick_now_deadline tin))
       (active_run_ids agents1) (ctl\<lparr>ctl_managed_agents := agents1\<rparr>))"
    and "replay_due_commands (tick_now_replay tin) (from_secs 3) (ctl_managed_agents ctl2) =
       (replays, agents3)"
    and "snd (tick_managed_agents enc tin ctl) =
       snd (tick_replays replays (ctl2\<lparr>ctl_managed_agents := agents3\<rparr>))"
  by (rule that [OF refl refl surjective_pairing]) (simp add: tick_managed_agents_def Let_def case_prod_beta)

lemma expire_for_keys:
  "wf_runtime s \<Longrightarrow> get_run (snd (expire_dispatches_for now rids timeout s)) rid = None \<longleftrightarrow>
     get_run s rid = None"
  by (simp add: expire_for_get)

lemma active_run_idsD: "wf_runtime s \<Longrightarrow> rid \<in> set (active_run_ids s) \<Longrightarrow> get_run s rid \<noteq> None"
  by (auto simp: active_run_ids_def wf_runtime_def get_run_def bt.entries_get)

lemma active_run_ids_distinct: "wf_runtime s \<Longrightarrow> distinct (active_run_ids s)"
  unfolding active_run_ids_def
  by (rule distinct_map_filter) (auto simp: wf_runtime_def dest: bt_ok_distinct)


text \<open>
  The identities a tick draws: distinct for distinct runs and not in use.  Identities are random
  UUIDs in the code.
\<close>

definition draws_ok :: "tick_inputs \<Rightarrow> 'v ManagedAgentSupervisorRuntime \<Rightarrow> bool" where
  "draws_ok tin s \<longleftrightarrow>
     inj_on (tick_draw tin) (fst ` set (sup_runs s)) \<and>
     (\<forall>rid \<in> fst ` set (sup_runs s). bt_get (sup_commands s) (tick_draw tin rid) = None)"

lemma known_run_iff: "wf_runtime s \<Longrightarrow> rid \<in> fst ` set (sup_runs s) \<longleftrightarrow> get_run s rid \<noteq> None"
  by (force simp: wf_runtime_def get_run_def simp flip: bt.entries_get)

lemma tick_effects:
  assumes wf: "wf_runtime (ctl_managed_agents ctl)" and draws: "draws_ok tin (ctl_managed_agents ctl)"
  obtains drawn ctl2 replays agents3 where
    "\<forall>c \<in> drawn. bt_get (sup_commands (ctl_managed_agents ctl)) c = None"
    and "agents_steps ctl ctl2"
    and "sends (\<lambda>command. \<exists>c \<in> drawn. managed_command_id command = Some c) ctl ctl2"
    and "replay_due_commands (tick_now_replay tin) (from_secs 3) (ctl_managed_agents ctl2) =
           (replays, agents3)"
    and "ctl_managed_agents (snd (tick_managed_agents enc tin ctl)) = agents3"
    and "sends (\<lambda>c. c \<in> set replays) ctl2 (snd (tick_managed_agents enc tin ctl))"
proof -
  let ?s = "ctl_managed_agents ctl"
  from tick_unfold [of tin ctl enc] obtain s1 ctl2 replays s3 where
    s1: "s1 = snd (expire_dispatches_for (tick_now_dispatch tin)
       (filter (is_omegon_control_run ?s) (active_run_ids ?s)) (from_secs 15) ?s)"
    and ctl2: "ctl2 = snd (tick_runs enc tin (expired_runs_at s1 (tick_now_deadline tin))
       (active_run_ids s1) (ctl\<lparr>ctl_managed_agents := s1\<rparr>))"
    and replay: "replay_due_commands (tick_now_replay tin) (from_secs 3) (ctl_managed_agents ctl2) =
       (replays, s3)"
    and final: "snd (tick_managed_agents enc tin ctl) =
       snd (tick_replays replays (ctl2\<lparr>ctl_managed_agents := s3\<rparr>))" by metis
  have wf1: "wf_runtime s1" and step1: "sup_step ?s s1" and same: "sup_commands s1 = sup_commands ?s"
    using wf by (simp_all add: s1 wf_expire_dispatches_for step_expire_for)
  have known: "rid \<in> fst ` set (sup_runs ?s)" if "rid \<in> set (active_run_ids s1)" for rid
    using active_run_idsD [OF wf1 that] expire_for_keys [OF wf] known_run_iff [OF wf] by (auto simp: s1)
  have fresh: "\<forall>rid \<in> set (active_run_ids s1). bt_get (sup_commands ?s) (tick_draw tin rid) = None"
    by (rule ballI) (rule bspec [OF draws [unfolded draws_ok_def, THEN conjunct2] known])
  have "tick_effect (tick_draw tin ` set (active_run_ids s1)) (ctl\<lparr>ctl_managed_agents := s1\<rparr>) ctl2"
    unfolding ctl2
  proof (rule tick_runs_effect)
    have "inj_on (tick_draw tin) (set (active_run_ids s1))"
      using draws known unfolding draws_ok_def by (meson inj_on_subset subsetI)
    then show "distinct (map (tick_draw tin) (active_run_ids s1))"
      using active_run_ids_distinct [OF wf1] by (simp add: distinct_map)
    show "\<forall>rid \<in> set (active_run_ids s1). bt_get (sup_commands (ctl_managed_agents
        (ctl\<lparr>ctl_managed_agents := s1\<rparr>))) (tick_draw tin rid) = None"
      using fresh by (simp add: same)
  qed (simp add: wf1)
  then have steps2: "sup_step\<^sup>*\<^sup>* s1 (ctl_managed_agents ctl2)"
    and sent2: "sends (\<lambda>command. \<exists>c \<in> tick_draw tin ` set (active_run_ids s1).
        managed_command_id command = Some c) (ctl\<lparr>ctl_managed_agents := s1\<rparr>) ctl2"
    by (simp_all add: tick_effect_def)
  show ?thesis
  proof (rule that [OF _ _ _ replay])
    show "\<forall>c \<in> tick_draw tin ` set (active_run_ids s1). bt_get (sup_commands ?s) c = None"
      using fresh by auto
    show "agents_steps ctl ctl2" using step1 steps2 by (rule converse_rtranclp_into_rtranclp)
    show "sends (\<lambda>command. \<exists>c \<in> tick_draw tin ` set (active_run_ids s1).
        managed_command_id command = Some c) ctl ctl2"
      by (rule sends_trans [OF sends_same sent2]) simp
    show "ctl_managed_agents (snd (tick_managed_agents enc tin ctl)) = s3"
      using tick_replays_frame [of replays "ctl2\<lparr>ctl_managed_agents := s3\<rparr>"] by (simp add: final)
    show "sends (\<lambda>c. c \<in> set replays) ctl2 (snd (tick_managed_agents enc tin ctl))"
      unfolding final
      by (rule sends_trans [OF sends_same tick_replays_frame [THEN conjunct2]]) simp
  qed
qed

lemma sup_step_replay: "replay_due_commands now timeout s = (sent, s') \<Longrightarrow> sup_step s s'"
  using step_replay [of s now timeout] by simp

lemma tick_steps:
  assumes "wf_runtime (ctl_managed_agents ctl)" and "draws_ok tin (ctl_managed_agents ctl)"
  shows "agents_steps ctl (snd (tick_managed_agents enc tin ctl))"
  using assms
proof (rule tick_effects [where enc = enc])
  fix ctl2 replays agents3
  assume "agents_steps ctl ctl2"
    and "replay_due_commands (tick_now_replay tin) (from_secs 3) (ctl_managed_agents ctl2) =
           (replays, agents3)"
    and "ctl_managed_agents (snd (tick_managed_agents enc tin ctl)) = agents3"
  then show ?thesis by (auto dest!: sup_step_replay intro: rtranclp.rtrancl_into_rtrancl)
qed


lemma fold_steps: "(\<And>x s. R s (f x s)) \<Longrightarrow> R\<^sup>*\<^sup>* s (fold f xs s)"
  by (induction xs arbitrary: s) (auto intro: converse_rtranclp_into_rtranclp)

lemma fold_steps_closure: "(\<And>x s. R\<^sup>*\<^sup>* (g s) (g (f x s))) \<Longrightarrow> R\<^sup>*\<^sup>* (g s) (g (fold f xs s))"
  by (induction xs arbitrary: s) (auto intro: rtranclp_trans)

lemma transport_event_steps: "agents_steps ctl (apply_transport_event event ctl)"
  unfolding apply_transport_event_def
  by (auto intro!: fold_steps intro: step_disconnected step_reconnected
      split: SessionTransportEvent.splits)

lemma control_response_steps: "agents_steps ctl (apply_control_response cd event ctl)"
  by (cases event)
    (auto simp: apply_control_response_def Let_def intro!: r_into_rtranclp
      intro: step_ack step_receipt step_response)

lemma count_unread_agents: "ctl_managed_agents (count_unread i ctl) = ctl_managed_agents ctl"
  by (simp add: count_unread_def)

lemma drain_steps: "agents_steps ctl (snd (drain_all_instance_sessions cd batch ctl))"
proof -
  let ?ctl1 = "fold apply_transport_event (batch_transport_events batch) ctl"
  let ?ctl2 = "fold (apply_control_response cd) (batch_control_responses batch) ?ctl1"
  have "agents_steps ctl ?ctl1"
    by (rule fold_steps_closure [where g = ctl_managed_agents]) (rule transport_event_steps)
  also have "agents_steps ?ctl1 ?ctl2"
    by (rule fold_steps_closure [where g = ctl_managed_agents]) (rule control_response_steps)
  also have "agents_steps ?ctl2 (fold count_unread (batch_active_instance_ids batch) ?ctl2)"
    by (rule fold_steps_closure [where g = ctl_managed_agents]) (simp add: count_unread_agents)
  finally show ?thesis by (simp add: drain_all_instance_sessions_def Let_def)
qed

section \<open>Controller steps\<close>

inductive ctl_step :: "'v ManagedControl \<Rightarrow> 'v ManagedControl \<Rightarrow> bool" where
  ctl_connect: "ctl_step ctl (ctl\<lparr>ctl_instance_sessions := sessions\<rparr>)"
| ctl_focus: "ctl_step ctl (ctl\<lparr>ctl_focused_instance_id := focus\<rparr>)"
| ctl_dispatch: "bt_get (sup_commands (ctl_managed_agents ctl)) fc = None \<Longrightarrow>
    ctl_step ctl (snd (dispatch_managed_agent enc fresh fc now now' i w parent q target ms ctl))"
| ctl_cancel: "bt_get (sup_commands (ctl_managed_agents ctl)) fc = None \<Longrightarrow>
    ctl_step ctl (snd (cancel_managed_agent enc fc now rid reason ctl))"
| ctl_mutate: "ctl_step ctl (snd (mutate draw ms command ctl))"
| ctl_tick: "draws_ok tin (ctl_managed_agents ctl) \<Longrightarrow>
    ctl_step ctl (snd (tick_managed_agents enc tin ctl))"
| ctl_drain: "ctl_step ctl (snd (drain_all_instance_sessions cd batch ctl))"

lemma ctl_step_agents:
  "ctl_step ctl ctl' \<Longrightarrow> wf_runtime (ctl_managed_agents ctl) \<Longrightarrow> agents_steps ctl ctl'"
  by (induction rule: ctl_step.induct)
    (simp_all add: dispatch_managed_agent_steps cancel_managed_agent_steps mutate_steps tick_steps
      drain_steps)

lemma ctl_steps_agents:
  "ctl_step\<^sup>*\<^sup>* ctl ctl' \<Longrightarrow> wf_runtime (ctl_managed_agents ctl) \<Longrightarrow> agents_steps ctl ctl'"
proof (induction rule: rtranclp_induct)
  case (step b c)
  then have "wf_runtime (ctl_managed_agents b)" by (auto intro: sup_steps_wf)
  with step ctl_step_agents show ?case by (blast intro: rtranclp_trans)
qed simp

text \<open>
  C13: The controller refines the supervisor runtime: whatever sequence of dispatches,
  cancellations, bridge mutations, scheduler ticks and drained events a fresh controller goes
  through, its runtime moves by operations of the runtime only, and so its tables stay consistent.
\<close>

theorem controller_refines_supervisor:
  assumes "ctl_step\<^sup>*\<^sup>* new_control ctl"
  shows "sup_step\<^sup>*\<^sup>* (new_runtime 1048576) (ctl_managed_agents ctl) \<and> wf_runtime (ctl_managed_agents ctl)"
proof -
  have "wf_runtime (ctl_managed_agents (new_control :: 'a ManagedControl))"
    by (simp add: new_control_def wf_new_runtime)
  from ctl_steps_agents [OF assms this]
  have "sup_step\<^sup>*\<^sup>* (new_runtime 1048576) (ctl_managed_agents ctl)" by (simp add: new_control_def)
  then show ?thesis by (auto intro: sup_steps_wf wf_new_runtime)
qed

definition sample_connected :: "sample_json ManagedControl" where
  "sample_connected = new_control\<lparr>ctl_instance_sessions := [(''i'', [])]\<rparr>"

definition sample_control :: "sample_json ManagedControl" where
  "sample_control =
     snd (dispatch_managed_agent sample_encoder (ManagedRunId 1) (ManagedCommandId 7) 10 20 ''i''
            (WorkerId 2) (''s'', ''t'') sample_request sample_target 5 sample_connected)"

lemma sample_control_reached: "ctl_step\<^sup>*\<^sup>* new_control sample_control"
proof -
  have "ctl_step new_control sample_connected"
    unfolding sample_connected_def by (rule ctl_connect)
  moreover have "ctl_step sample_connected sample_control"
    unfolding sample_control_def
    by (rule ctl_dispatch) (simp add: sample_connected_def new_control_def new_runtime_def bt.get_empty)
  ultimately show ?thesis by (meson converse_rtranclp_into_rtranclp r_into_rtranclp)
qed

theorem controller_refines_supervisor_witness: "wf_runtime (ctl_managed_agents sample_control)"
  using controller_refines_supervisor [OF sample_control_reached] by simp

end
