(* ===== verification/Managed_Control_Props.thy ===== *)
theory Managed_Control_Props
  imports Managed_Control
begin

text \<open>
  Properties of the managed-agent controller and of the mutation coordinator: what a tick sends,
  which instance may speak for which run, what the snapshot behind the bridge shows, and the
  idempotence of bridge operations.
\<close>

section \<open>The tick\<close>

text \<open>
  A scheduler tick never sends a settled command again: of everything it writes to the
  instance sessions, polls, cancellations and replays alike, no command carries the identity of a
  command that was settled before the tick, and the command is still settled after it.
\<close>

theorem tick_does_not_resend_settled_commands:
  assumes "wf_runtime (ctl_managed_agents ctl)" and "draws_ok tin (ctl_managed_agents ctl)"
    and "settled (ctl_managed_agents ctl) c"
  shows "sends (\<lambda>command. managed_command_id command \<noteq> Some c) ctl
           (snd (tick_managed_agents enc tin ctl)) \<and>
         settled (ctl_managed_agents (snd (tick_managed_agents enc tin ctl))) c"
  using assms(1,2)
proof (rule tick_effects [where enc = enc])
  fix drawn ctl2 replays agents3
  assume fresh: "\<forall>c \<in> drawn. bt_get (sup_commands (ctl_managed_agents ctl)) c = None"
    and steps: "agents_steps ctl ctl2"
    and sent: "sends (\<lambda>command. \<exists>c \<in> drawn. managed_command_id command = Some c) ctl ctl2"
    and replay: "replay_due_commands (tick_now_replay tin) (from_secs 3) (ctl_managed_agents ctl2) =
           (replays, agents3)"
    and final: "ctl_managed_agents (snd (tick_managed_agents enc tin ctl)) = agents3"
    and resent: "sends (\<lambda>c. c \<in> set replays) ctl2 (snd (tick_managed_agents enc tin ctl))"
  have wf2: "wf_runtime (ctl_managed_agents ctl2)" and settled2: "settled (ctl_managed_agents ctl2) c"
    using steps assms by (auto intro: sup_steps_wf sup_steps_settled)
  have "managed_command_id command \<noteq> Some c" if "command \<in> set replays" for command
  proof -
    from that replay have "command \<in> set (fst (replay_due_commands (tick_now_replay tin) (from_secs 3)
        (ctl_managed_agents ctl2)))" by simp
    then show ?thesis
      by (rule replayed_command_id [OF wf2]) (use settled2 in \<open>auto simp: settled_def replay_due_def\<close>)
  qed
  then have quiet2: "sends (\<lambda>command. managed_command_id command \<noteq> Some c) ctl2
      (snd (tick_managed_agents enc tin ctl))"
    by (intro sends_mono [OF resent])
  have "c \<notin> drawn" using assms(3) fresh by (auto simp: settled_def)
  then have "sends (\<lambda>command. managed_command_id command \<noteq> Some c) ctl ctl2"
    by (intro sends_mono [OF sent]) auto
  moreover have "settled agents3 c"
    using sup_step_settled [OF sup_step_replay [OF replay] wf2 settled2] .
  ultimately show ?thesis using quiet2 final by (auto intro: sends_trans)
qed

definition sample_settled :: "sample_json ManagedControl" where
  "sample_settled = sample_connected\<lparr>ctl_managed_agents := sample_two,
     ctl_managed_agent_instances := [(ManagedRunId 1, ''i'')]\<rparr>"

definition sample_tick :: tick_inputs where
  "sample_tick = \<lparr>tick_draw = \<lambda>_. ManagedCommandId 9, tick_sent_at = \<lambda>_. 30, tick_now_dispatch = 30,
     tick_now_deadline = 30, tick_now_replay = 5000000000\<rparr>"

theorem tick_does_not_resend_settled_commands_example:
  "settled (ctl_managed_agents sample_settled) (ManagedCommandId 7) \<and>
   sends (\<lambda>command. managed_command_id command \<noteq> Some (ManagedCommandId 7)) sample_settled
     (snd (tick_managed_agents sample_encoder sample_tick sample_settled))"
proof -
  have agents: "ctl_managed_agents sample_settled = sample_two" by (simp add: sample_settled_def)
  have settled: "settled sample_two (ManagedCommandId 7)"
    by (simp add: settled_def sample_two_def bt_get_def)
  have "draws_ok sample_tick sample_two"
    by (simp add: draws_ok_def sample_tick_def sample_two_def sample_dispatched_def bt_get_def)
  from tick_does_not_resend_settled_commands [of sample_settled sample_tick, unfolded agents,
      OF wf_sample_two this settled]
  show ?thesis using settled by (simp add: agents)
qed

section \<open>Instances\<close>

text \<open>
  What the controller relies on when it routes: the identity it reads in the JSON document is the
  one the typed decoder finds there.
\<close>

definition decoder_agrees :: "'v control_decoder \<Rightarrow> bool" where
  "decoder_agrees cd \<longleftrightarrow>
     (\<forall>raw value. dec_value (cd_response cd) raw = Ok value \<longrightarrow>
        (\<forall>ack. cd_ack cd raw = Ok ack \<longrightarrow>
           Option.bind (val_get (cd_response cd) value ''command_id'') (cd_command_id cd) =
             Some (ack_command_id ack)) \<and>
        (\<forall>receipt. cd_receipt cd raw = Ok receipt \<longrightarrow>
           Option.bind (val_get (cd_response cd) value ''command_id'') (cd_command_id cd) =
             Some (rcpt_command_id receipt)))"

lemma receipt_change:
  assumes "wf_runtime s"
    and "bt_get (sup_commands (snd (apply_receipt_json from_str json s))) c \<noteq> bt_get (sup_commands s) c"
  shows "\<exists>receipt. from_str json = Ok receipt \<and> rcpt_command_id receipt = c"
  using assms
  by (auto simp: apply_receipt_json_def put_command_state_def wf_runtime_def bt_get_adjust
      split: sum.splits if_splits option.splits)

lemma receipt_keeps_runs: "sup_runs (snd (apply_receipt_json from_str json s)) = sup_runs s"
  by (simp add: apply_receipt_json_def put_command_state_def split: sum.splits option.splits)

text \<open>A response reaches the run named in it and the commands of that run.\<close>

lemma response_names_unique: "response_names d raw rid \<Longrightarrow> response_names d raw rid' \<Longrightarrow> rid' = rid"
  by (auto simp: response_names_def)

lemma response_target:
  assumes "wf_runtime s" and "response_names d raw rid"
  shows "(other \<noteq> rid \<longrightarrow> get_run (snd (apply_response_json d raw s)) other = get_run s other) \<and>
         (bt_get (sup_commands (snd (apply_response_json d raw s))) c \<noteq> bt_get (sup_commands s) c \<longrightarrow>
            command_run_id s c = Some rid)"
proof -
  obtain res s' where r: "apply_response_json d raw s = (res, s')" by fastforce
  then have "(other \<noteq> rid \<longrightarrow> get_run s' other = get_run s other) \<and>
      (bt_get (sup_commands s') c \<noteq> bt_get (sup_commands s) c \<longrightarrow> command_run_id s c = Some rid)"
  proof (cases rule: apply_response_cases)
    case (rejected rid' e later)
    from response_names_unique [OF assms(2) rejected(4)] rejected(3) assms(1) show ?thesis
      by (simp add: get_put_run)
  next
    case (failed v rid' e ty err e')
    from response_names_unique [OF assms(2) failed(6)] failed(5) assms(1) show ?thesis
      by (simp add: get_put_run)
  next
    case (applied v rid' e ty e')
    from response_names_unique [OF assms(2) applied(6)] have rid: "rid' = rid" .
    have "get_run s' other = (if other = rid then Some e' else get_run s other)"
      using applied(5) rid get_put_run [OF assms(1), of rid e' other] by (simp add: get_run_def)
    moreover have "command_run_id s c = Some rid"
      if "bt_get (sup_commands s') c \<noteq> bt_get (sup_commands s) c"
    proof -
      from that applied(5) rid obtain q where "bt_get (sup_commands s) c = Some q" "pmc_run_id q = rid"
        using prove_first_get [of "proves_command rid (response_kind ty)" "sup_commands s" c]
        by (auto simp: proves_command_def)
      with assms(1) show ?thesis by (simp add: wf_runtime_def command_run_id_def)
    qed
    ultimately show ?thesis by simp
  qed simp
  with r show ?thesis by simp
qed

text \<open>What a control response from instance \<open>i\<close> may do: nothing, or hand the raw text to one of the
  three appliers, and then only when the command or the run it names belongs to \<open>i\<close>.\<close>

definition command_of_response :: "'v control_decoder \<Rightarrow> 'v \<Rightarrow> ManagedCommandId option" where
  "command_of_response cd val =
     Option.bind (val_get (cd_response cd) val ''command_id'') (cd_command_id cd)"

lemma apply_control_response_cases:
  fixes cd :: "'v control_decoder"
  assumes "apply_control_response cd (i, raw) ctl \<noteq> ctl"
  obtains (ack) val c where "dec_value (cd_response cd) raw = Ok val" "command_of_response cd val = Some c"
      "Option.bind (command_run_id (ctl_managed_agents ctl) c) (bt_get (ctl_managed_agent_instances ctl)) = Some i"
      "apply_control_response cd (i, raw) ctl =
         ctl\<lparr>ctl_managed_agents := snd (apply_command_ack_json (cd_ack cd) raw (ctl_managed_agents ctl))\<rparr>"
  | (receipt) val c where "dec_value (cd_response cd) raw = Ok val" "command_of_response cd val = Some c"
      "Option.bind (command_run_id (ctl_managed_agents ctl) c) (bt_get (ctl_managed_agent_instances ctl)) = Some i"
      "apply_control_response cd (i, raw) ctl =
         ctl\<lparr>ctl_managed_agents := snd (apply_receipt_json (cd_receipt cd) raw (ctl_managed_agents ctl))\<rparr>"
  | (response) rid' where "response_names (cd_response cd) raw rid'"
      "bt_get (ctl_managed_agent_instances ctl) rid' = Some i"
      "apply_control_response cd (i, raw) ctl =
         ctl\<lparr>ctl_managed_agents := snd (apply_response_json (cd_response cd) raw (ctl_managed_agents ctl))\<rparr>"
proof -
  let ?d = "cd_response cd" and ?s = "ctl_managed_agents ctl"
  from assms obtain val where val: "dec_value ?d raw = Ok val"
    by (cases "dec_value ?d raw") (auto simp: apply_control_response_def Let_def EVENT_MANAGED_AGENT_COMMAND_ACK_def)
  let ?type = "Option.bind (val_get ?d val ''type'') (val_as_str ?d)"
  show thesis
  proof (cases "?type = Some ''control_command_receipt'' \<or> ?type = Some EVENT_MANAGED_AGENT_COMMAND_ACK")
    case True
    with assms val have owner: "Option.bind (Option.bind (command_of_response cd val) (command_run_id ?s))
        (bt_get (ctl_managed_agent_instances ctl)) = Some i"
      and ctl': "apply_control_response cd (i, raw) ctl =
        (if ?type = Some EVENT_MANAGED_AGENT_COMMAND_ACK
         then ctl\<lparr>ctl_managed_agents := snd (apply_command_ack_json (cd_ack cd) raw ?s)\<rparr>
         else ctl\<lparr>ctl_managed_agents := snd (apply_receipt_json (cd_receipt cd) raw ?s)\<rparr>)"
      by (simp_all add: apply_control_response_def command_of_response_def Let_def split: if_splits)
    from owner obtain c where c: "command_of_response cd val = Some c"
      "Option.bind (command_run_id ?s c) (bt_get (ctl_managed_agent_instances ctl)) = Some i"
      by (cases "command_of_response cd val") auto
    from ctl' ack [OF val c] receipt [OF val c] show thesis by presburger
  next
    case other: False
    let ?rid = "Option.bind (val_get ?d val ''managed_run_id'')
        (\<lambda>x. case dec_run_id ?d x of Inl _ \<Rightarrow> None | Inr r \<Rightarrow> Some r)"
    from other assms val
    have i: "Option.bind ?rid (bt_get (ctl_managed_agent_instances ctl)) = Some i"
      and ctl': "apply_control_response cd (i, raw) ctl =
        ctl\<lparr>ctl_managed_agents := snd (apply_response_json ?d raw ?s)\<rparr>"
      by (simp_all add: apply_control_response_def Let_def split: if_splits)
    from i obtain rid' x where "bt_get (ctl_managed_agent_instances ctl) rid' = Some i"
      "val_get ?d val ''managed_run_id'' = Some x" "dec_run_id ?d x = Ok rid'"
      by (auto simp: bind_eq_Some_conv split: sum.splits) (metis sum.exhaust)
    with val ctl' response show thesis by (auto simp: response_names_def)
  qed
qed

lemma ack_concerns_named_command:
  assumes "wf_runtime s" and "decoder_agrees cd" and "dec_value (cd_response cd) raw = Ok val"
    and "command_of_response cd val = Some c" and "c' \<noteq> c"
  shows "bt_get (sup_commands (snd (apply_command_ack_json (cd_ack cd) raw s))) c' = bt_get (sup_commands s) c'"
proof (rule ccontr)
  assume "\<not> ?thesis"
  then obtain a where "cd_ack cd raw = Ok a" "ack_command_id a = c'"
    using ack_change [OF assms(1) surjective_pairing, of "cd_ack cd" raw c'] by auto
  with assms(2,3) have "command_of_response cd val = Some c'"
    unfolding decoder_agrees_def command_of_response_def by blast
  with assms(4,5) show False by simp
qed

lemma receipt_concerns_named_command:
  assumes "wf_runtime s" and "decoder_agrees cd" and "dec_value (cd_response cd) raw = Ok val"
    and "command_of_response cd val = Some c" and "c' \<noteq> c"
  shows "bt_get (sup_commands (snd (apply_receipt_json (cd_receipt cd) raw s))) c' = bt_get (sup_commands s) c'"
proof (rule ccontr)
  assume "\<not> ?thesis"
  then obtain a where "cd_receipt cd raw = Ok a" "rcpt_command_id a = c'"
    using receipt_change [OF assms(1), of "cd_receipt cd" raw c'] by auto
  with assms(2,3) have "command_of_response cd val = Some c'"
    unfolding decoder_agrees_def command_of_response_def by blast
  with assms(4,5) show False by simp
qed

text \<open>
  C14: An instance speaks for its own runs only.  Whatever an instance session delivers (a typed
  response, an acknowledgement, a receipt, or garbage), a run that is not assigned to that
  instance keeps its entry, and a command of such a run keeps its delivery state.
\<close>

theorem instance_speaks_for_its_own_runs:
  assumes "wf_runtime (ctl_managed_agents ctl)" and "decoder_agrees cd"
    and "ctl' = apply_control_response cd (i, raw) ctl"
    and "bt_get (ctl_managed_agent_instances ctl) rid \<noteq> Some i"
  shows "get_run (ctl_managed_agents ctl') rid = get_run (ctl_managed_agents ctl) rid \<and>
         (\<forall>c. command_run_id (ctl_managed_agents ctl) c = Some rid \<longrightarrow>
            bt_get (sup_commands (ctl_managed_agents ctl')) c =
            bt_get (sup_commands (ctl_managed_agents ctl)) c)"
proof (cases "ctl' = ctl")
  case False
  from assms(3) False have "apply_control_response cd (i, raw) ctl \<noteq> ctl" by simp
  then show ?thesis
  proof (cases rule: apply_control_response_cases)
    case (ack val c)
    then have "\<And>c'. command_run_id (ctl_managed_agents ctl) c' = Some rid \<Longrightarrow> c' \<noteq> c" using assms(4) by auto
    with ack_concerns_named_command [OF assms(1,2) ack(1,2)] ack(4) assms(3) show ?thesis
      by (simp add: get_run_def ack_keeps_runs)
  next
    case (receipt val c)
    then have "\<And>c'. command_run_id (ctl_managed_agents ctl) c' = Some rid \<Longrightarrow> c' \<noteq> c" using assms(4) by auto
    with receipt_concerns_named_command [OF assms(1,2) receipt(1,2)] receipt(4) assms(3) show ?thesis
      by (simp add: get_run_def receipt_keeps_runs)
  next
    case (response rid')
    then have "rid \<noteq> rid'" using assms(4) by auto
    with response_target [OF assms(1) response(1)] response(3) assms(3) show ?thesis by force
  qed
qed simp

definition sample_control_decoder :: "sample_json control_decoder" where
  "sample_control_decoder =
     \<lparr>cd_response = sample_decoder, cd_command_id = \<lambda>_. None,
      cd_receipt = \<lambda>_. Err ''receipt'', cd_ack = \<lambda>_. Err ''ack''\<rparr>"

theorem instance_speaks_for_its_own_runs_witness:
  "get_run (ctl_managed_agents (apply_control_response sample_control_decoder (''j'', ''ok'')
     sample_settled)) (ManagedRunId 1) = Some sample_entry"
proof -
  have "decoder_agrees sample_control_decoder"
    by (simp add: decoder_agrees_def sample_control_decoder_def)
  moreover have "wf_runtime (ctl_managed_agents sample_settled)"
    by (simp add: sample_settled_def wf_sample_two)
  moreover have "bt_get (ctl_managed_agent_instances sample_settled) (ManagedRunId 1) \<noteq> Some ''j''"
    by (simp add: sample_settled_def bt_get_def)
  moreover have "get_run (ctl_managed_agents sample_settled) (ManagedRunId 1) = Some sample_entry"
    by (simp add: sample_settled_def sample_two_def sample_dispatched_def get_run_def bt_get_def)
  ultimately show ?thesis
    using instance_speaks_for_its_own_runs [of sample_settled sample_control_decoder _ "''j''" "''ok''"]
    by simp
qed

section \<open>The snapshot behind the bridge\<close>

lemma active_parents_iff:
  assumes "wf_runtime s"
  shows "parent \<in> set (active_parents s) \<longleftrightarrow>
           (\<exists>rid e. get_run s rid = Some e \<and> \<not> is_terminal (run_state (ent_run e)) \<and>
                    run_parent_session_id (ent_run e) = parent)"
proof -
  have "rid \<in> set (active_run_ids s) \<longleftrightarrow> (\<exists>e. get_run s rid = Some e \<and> \<not> is_terminal (run_state (ent_run e)))"
    for rid
    using bt.keys_where_iff [of "sup_runs s" rid "\<lambda>_ e. \<not> is_terminal (run_state (ent_run e))"] assms
    by (simp add: active_run_ids_def bt.keys_where_def wf_runtime_def get_run_def)
  then show ?thesis by (force simp: active_parents_def List.map_filter_def)
qed

lemma fold_replace_get:
  assumes "bt_ok snapshot"
  shows "bt_ok (fold (\<lambda>p. replace_parent p (f p)) ps snapshot) \<and>
         bt_get (fold (\<lambda>p. replace_parent p (f p)) ps snapshot) q =
           (if q \<in> set ps then Some (f q) else bt_get snapshot q)"
  using assms
proof (induction ps arbitrary: snapshot)
  case (Cons p ps)
  have "bt_ok (replace_parent p (f p) snapshot)"
    using Cons.prems by (simp add: replace_parent_def bt.ok_insert)
  from Cons.IH [OF this] Cons.prems show ?case by (auto simp: replace_parent_def bt.get_insert)
qed simp

lemma projected_self:
  "p \<in> set (project_runs_for_parent s parent) \<Longrightarrow> project_run_for_parent s (prj_run_id p) parent = Ok p"
  by (metis project_run_Ok projected_iff)

lemma projected_find:
  assumes "project_run_for_parent s rid parent = Ok p"
  shows "find (\<lambda>run. prj_run_id run = rid) (project_runs_for_parent s parent) = Some p"
proof -
  have "q = p" if "q \<in> set (project_runs_for_parent s parent)" "prj_run_id q = rid" for q
    using projected_self [OF that(1)] that(2) assms by simp
  moreover have "p \<in> set (project_runs_for_parent s parent)" and "prj_run_id p = rid"
    using runtime_source.single [of s parent rid "[p]"] assms
    by (auto simp: runtime_status_def)
  ultimately have all: "\<exists>run \<in> set (project_runs_for_parent s parent). prj_run_id run = rid"
    and only: "\<And>q. q \<in> set (project_runs_for_parent s parent) \<Longrightarrow> prj_run_id q = rid \<Longrightarrow> q = p" by blast+
  show ?thesis
  proof (cases "find (\<lambda>run. prj_run_id run = rid) (project_runs_for_parent s parent)")
    case None
    with all show ?thesis by (auto simp: find_None_iff)
  next
    case (Some q)
    then have "q \<in> set (project_runs_for_parent s parent)" "prj_run_id q = rid"
      by (auto simp: find_Some_iff)
    with only Some show ?thesis by simp
  qed
qed

text \<open>
  Synchronising the snapshot keeps it scoped by parent.  For a parent with a run that has not
  ended, the snapshot then answers a status request as the runtime itself would (errors differ in
  their text only).  A parent without such a run is skipped: its entry stays what it was, so the
  last outcome of a parent's last run is not shown.
\<close>

theorem sync_shows_active_parents_only:
  assumes "wf_runtime (ctl_managed_agents ctl)" and "snapshot_ok snapshot"
    and "snapshot' = sync_managed_agent_projection_snapshot ctl snapshot"
  shows "snapshot_ok snapshot' \<and>
         (if \<exists>rid e. get_run (ctl_managed_agents ctl) rid = Some e \<and>
                    \<not> is_terminal (run_state (ent_run e)) \<and> run_parent_session_id (ent_run e) = parent
          then map_err (\<lambda>_. ()) (snapshot_status snapshot' parent wanted) =
               map_err (\<lambda>_. ()) (runtime_status (ctl_managed_agents ctl) parent wanted)
          else snapshot_status snapshot' parent wanted = snapshot_status snapshot parent wanted)"
proof -
  let ?s = "ctl_managed_agents ctl"
  have ok: "bt_ok snapshot" using assms(2) by (simp add: snapshot_ok_def)
  note get = fold_replace_get [OF ok, of "project_runs_for_parent ?s" "active_parents ?s"]
  have get': "bt_get snapshot' q = (if q \<in> set (active_parents ?s)
      then Some (project_runs_for_parent ?s q) else bt_get snapshot q)" for q
    using get [of q] by (simp add: assms(3) sync_managed_agent_projection_snapshot_def)
  have "prj_parent_session_id p = q" if "p \<in> set (project_runs_for_parent ?s q)" for p q
    using that by (auto simp: projected_iff dest: project_run_Ok)
  then have "snapshot_ok snapshot'"
    using assms(2) get get'
    by (auto simp: snapshot_ok_def assms(3) sync_managed_agent_projection_snapshot_def
        intro!: bt.all_valuesI dest: bt.all_valuesD split: if_splits)
  moreover have "map_err (\<lambda>_. ()) (snapshot_status snapshot' parent wanted) =
      map_err (\<lambda>_. ()) (runtime_status ?s parent wanted)" if "parent \<in> set (active_parents ?s)"
  proof (cases wanted)
    case (Some rid)
    show ?thesis
    proof (cases "project_run_for_parent ?s rid parent")
      case (Inl e)
      then have "find (\<lambda>run. prj_run_id run = rid) (project_runs_for_parent ?s parent) = None"
        by (auto simp: find_None_iff dest: projected_self)
      with Inl Some that show ?thesis by (simp add: snapshot_status_def runtime_status_def get')
    next
      case (Inr p)
      with Some that show ?thesis
        by (simp add: snapshot_status_def runtime_status_def get' projected_find)
    qed
  qed (use that in \<open>simp add: snapshot_status_def runtime_status_def get'\<close>)
  moreover have "snapshot_status snapshot' parent wanted = snapshot_status snapshot parent wanted"
    if "parent \<notin> set (active_parents ?s)"
    using that by (simp add: snapshot_status_def get')
  ultimately show ?thesis by (simp add: active_parents_iff [OF assms(1)])
qed


definition sample_ended :: "sample_json ManagedControl" where
  "sample_ended = sample_connected\<lparr>ctl_managed_agents := snd (apply_a2a_event
     (ManagedAgentA2aEvent.Completed (ManagedRunId 1) ''task'' [] ''done'') sample_dispatched)\<rparr>"

theorem sync_shows_active_parents_only_example:
  "snapshot_status (sync_managed_agent_projection_snapshot sample_ended sample_snapshot) ''s'' None =
   snapshot_status sample_snapshot ''s'' None"
proof -
  let ?s = "ctl_managed_agents sample_ended"
  have wf: "wf_runtime ?s"
    by (simp add: sample_ended_def wf_apply_a2a_event wf_sample_dispatched)
  have "\<nexists>rid e. get_run ?s rid = Some e \<and> \<not> is_terminal (run_state (ent_run e)) \<and>
      run_parent_session_id (ent_run e) = ''s''"
    by (simp add: sample_ended_def apply_a2a_event_state get_put_run [OF wf_sample_dispatched]
        apply_event_to_run_def on_run_def complete_from_result_def sample_entry_def)
  with sync_shows_active_parents_only [OF wf sample_snapshot_ok refl, of "''s''" None]
  show ?thesis by (simp only: if_False)
qed

section \<open>Bridge mutations\<close>

lemma mutate_cancel_scoped:
  assumes "mdc_operation command = MutationCancel rid reason"
    and "fst (mutate draw ms command ctl) = Ok (rid', action)"
  shows "rid' = rid \<and> (\<exists>e. get_run (ctl_managed_agents ctl) rid = Some e \<and>
           run_parent_session_id (ent_run e) = mdc_parent_session_id command)"
  using assms
  by (auto simp: mutate_def managed_agent_run_projection_def map_err_def dest: project_run_Ok
      split: sum.splits prod.splits)


definition sample_mutation :: ManagedAgentDispatchCommand where
  "sample_mutation =
     \<lparr>mdc_operation_id = ''t'', mdc_parent_session_id = ''s'',
      mdc_operation = MutationDispatch ''inspect'' Scout [''src''] 60\<rparr>"

definition sample_draw :: mutation_draw where
  "sample_draw = \<lparr>md_run_id = ManagedRunId 1, md_worker_id = WorkerId 2, md_now = 10\<rparr>"

definition sample_coordination :: "sample_json coordination" where
  "sample_coordination =
     \<lparr>co_coordinator = \<lparr>mco_completed_operations = bt_empty\<rparr>, co_control = new_control, co_actions = []\<rparr>"

lemma sample_mutation_result:
  "\<exists>co'. apply_mutation sample_draw 5 sample_mutation sample_coordination =
           (Ok (ManagedRunId 1, False), co')"
proof -
  have q: "new_request ''inspect'' Scout [''src''] 60 = Ok sample_request"
    by (simp add: new_request_def sample_request_def)
  have "\<exists>s'. prepare_run (ManagedRunId 1) 10 (WorkerId 2) ''s'' ''t'' sample_request
      (StyreneA2a ''auspex-managed-worker'') 5 (new_runtime (1024 * 1024) :: sample_json ManagedAgentSupervisorRuntime) =
      (Ok (ManagedRunId 1), s')"
    by (simp add: prepare_run_def new_sample_run get_run_def new_runtime_def bt.get_empty Let_def)
  then show ?thesis
    by (auto simp: apply_mutation_def sample_mutation_def sample_draw_def sample_coordination_def
        bt.get_empty mutate_def q prepare_styrene_a2a_dispatch_def prepare_mqtt_managed_agent_def
        new_control_def map_err_def)
qed


text \<open>
  A dispatch to a connected instance cannot fail on sending: either the runtime refuses it, or
  the run is in the table in its dispatching state, assigned to the instance, with exactly its
  dispatch command appended to what the instance was sent.  The branch of the code that removes
  the run again is never taken.
\<close>

theorem dispatch_reaches_its_instance:
  assumes "wf_runtime (ctl_managed_agents ctl)" and "bt_ok (ctl_instance_sessions ctl)"
    and "bt_ok (ctl_managed_agent_instances ctl)" and "is_connected i ctl"
    and "dispatch_managed_agent enc fresh fc now now' i w parent q target ms ctl = (result, ctl')"
  shows "(case result of
            Inl e \<Rightarrow> \<exists>err. e = DispatchRefused err
          | Inr rid \<Rightarrow>
              \<exists>command entry. rid = fresh \<and> managed_command_id command = Some fc \<and>
                get_run (ctl_managed_agents ctl') rid = Some entry \<and>
                run_state (ent_run entry) = Dispatching \<and>
                bt_get (ctl_managed_agent_instances ctl') rid = Some i \<and>
                outbox ctl' i = outbox ctl i @ [command])"
proof -
  obtain r s1 where d: "dispatch enc fresh fc now now' w (fst parent) (snd parent) q target ms
      (ctl_managed_agents ctl) = (r, s1)" by fastforce
  show ?thesis
  proof (cases r)
    case (Inl e)
    with assms(4,5) d show ?thesis by (auto simp: dispatch_managed_agent_def)
  next
    case (Inr x)
    obtain rid command where x: "x = (rid, command)" by fastforce
    obtain sent where sent: "bt_get (ctl_instance_sessions ctl) i = Some sent"
      using assms(4) by (auto simp: is_connected_def)
    from d Inr x have d': "dispatch enc fresh fc now now' w (fst parent) (snd parent) q target ms
      (ctl_managed_agents ctl) = (Ok (rid, command), s1)" by simp
    obtain run e p where run: "new_run fresh w (fst parent) (snd parent) q = Ok run" "rid = fresh"
      and e: "get_run s1 rid = Some e" "ent_run e = run"
      and cs: "sup_commands s1 = bt_insert fc p (sup_commands (ctl_managed_agents ctl))"
      and p: "pmc_command p = command"
      by (rule dispatch_Ok [OF assms(1) d']) blast
    have wf1: "wf_runtime s1"
      using wf_dispatch [OF assms(1), of enc fresh fc now now' w "fst parent" "snd parent" q target ms] d
      by simp
    have "bt_get (sup_commands s1) fc = Some p"
      using assms(1) by (simp add: cs wf_runtime_def bt.get_insert)
    from wf_get_command [OF wf1 this] p have id: "managed_command_id command = Some fc"
      by (simp add: wf_command_def)
    have "result = Ok rid" and ctl': "ctl' = ctl\<lparr>ctl_managed_agents := s1,
        ctl_instance_sessions := bt_insert i (sent @ [command]) (ctl_instance_sessions ctl),
        ctl_managed_agent_instances := bt_insert rid i (ctl_managed_agent_instances ctl)\<rparr>"
      using assms(4,5) d' sent
      by (auto simp: dispatch_managed_agent_def dispatch_to_instance_def Let_def)
    with id e run new_run_wf [OF run(1)] assms(2,3) sent show ?thesis
      by (auto simp: outbox_def bt.get_insert)
  qed
qed


theorem dispatch_reaches_its_instance_example:
  "\<exists>command. outbox sample_control ''i'' = [command] \<and>
             managed_command_id command = Some (ManagedCommandId 7)"
proof -
  have wf: "wf_runtime (ctl_managed_agents sample_connected)"
    by (simp add: sample_connected_def new_control_def wf_new_runtime)
  have ok: "bt_ok (ctl_instance_sessions sample_connected)" "bt_ok (ctl_managed_agent_instances sample_connected)"
    "is_connected ''i'' sample_connected" "outbox sample_connected ''i'' = []"
    by (simp_all add: sample_connected_def new_control_def bt_ok_def bt_empty_def is_connected_def
        bt_get_def outbox_def)
  have refused: "fst (dispatch sample_encoder (ManagedRunId 1) (ManagedCommandId 7) 10 20 (WorkerId 2) ''s'' ''t''
      sample_request sample_target 5 (new_runtime 1048576)) = Ok (ManagedRunId 1, sample_command)"
    by (simp add: dispatch_def prepare_run_def new_sample_run get_run_def put_run_def new_runtime_def
        bt_get_def bt_empty_def Let_def dispatch_request_command_def encode_command_def
        sample_encoder_def register_command_def sample_command_def)
  obtain result where r: "dispatch_managed_agent sample_encoder (ManagedRunId 1) (ManagedCommandId 7) 10 20
      ''i'' (WorkerId 2) (''s'', ''t'') sample_request sample_target 5 sample_connected = (result, sample_control)"
    unfolding sample_control_def by (metis surjective_pairing)
  from r refused have "\<nexists>e. result = Err (DispatchRefused e)"
    by (cases "dispatch sample_encoder (ManagedRunId 1) (ManagedCommandId 7) 10 20 (WorkerId 2) ''s'' ''t''
          sample_request sample_target 5 (new_runtime 1048576)")
      (auto simp: dispatch_managed_agent_def dispatch_to_instance_def ok(3) sample_connected_def
        new_control_def bt_get_def is_connected_def Let_def)
  with dispatch_reaches_its_instance [OF wf ok(1-3) r] ok(4) show ?thesis
    by (cases result) auto
qed

end
