(* ===== verification/Secret_Grants.thy ===== *)
theory Secret_Grants
  imports Ids
begin

text \<open>
  Secret grants and leases (\<open>auspex-core/src/secret_grants.rs\<close>): the contract types, the store, and
  the file-backed broker.  The Rust trait \<open>SecretGrantBroker\<close> is the locale
  \<open>secret_grant_broker\<close>, interpreted on the file-backed broker.

  The clock is an argument.  The file system and the JSON of the store are a parameter
  (\<open>store_io\<close>): what writing does to the file and whether it succeeds.  The mutex around the
  store serialises the operations, so each is one step; a poisoned lock is not modelled.
\<close>

section \<open>Contract types\<close>

definition SECRET_GRANT_SCHEMA_VERSION :: u32 where "SECRET_GRANT_SCHEMA_VERSION = 1"
definition SECRET_GRANT_STORE_SCHEMA_VERSION :: u32 where "SECRET_GRANT_STORE_SCHEMA_VERSION = 1"

datatype SecretPrincipalKind =
  Spiffe | StyreneIdentity | KubernetesServiceAccount | SshHost | OidcSubject | Opaque

record SecretGrantPrincipal =
  pr_kind :: SecretPrincipalKind
  pr_id :: string
  pr_display_name :: "string option"

definition spiffe :: "string \<Rightarrow> SecretGrantPrincipal" where
  "spiffe i = \<lparr>pr_kind = Spiffe, pr_id = i, pr_display_name = None\<rparr>"

definition styrene_identity :: "string \<Rightarrow> SecretGrantPrincipal" where
  "styrene_identity i = \<lparr>pr_kind = StyreneIdentity, pr_id = i, pr_display_name = None\<rparr>"

datatype SecretDeliveryMode =
    OpenBaoLease
  | VaultCompatibleLease
  | KubernetesExternalSecret
  | KubernetesSecretMount
  | SecretsStoreCsiMount
  | LocalStoreImport
  | SealedBootstrapBundle
  | PullAfterEnroll

fun debug_delivery_mode :: "SecretDeliveryMode \<Rightarrow> string" where
  "debug_delivery_mode OpenBaoLease = ''OpenBaoLease''"
| "debug_delivery_mode VaultCompatibleLease = ''VaultCompatibleLease''"
| "debug_delivery_mode KubernetesExternalSecret = ''KubernetesExternalSecret''"
| "debug_delivery_mode KubernetesSecretMount = ''KubernetesSecretMount''"
| "debug_delivery_mode SecretsStoreCsiMount = ''SecretsStoreCsiMount''"
| "debug_delivery_mode LocalStoreImport = ''LocalStoreImport''"
| "debug_delivery_mode SealedBootstrapBundle = ''SealedBootstrapBundle''"
| "debug_delivery_mode PullAfterEnroll = ''PullAfterEnroll''"

record SecretGrantConstraints =
  con_agent_instance_id :: "string option"
  con_role :: "string option"
  con_backend :: "string option"
  con_placement_id :: "string option"
  con_image_digest :: "string option"
  con_package_digest :: "string option"

definition default_constraints :: SecretGrantConstraints where
  "default_constraints =
     \<lparr>con_agent_instance_id = None, con_role = None, con_backend = None, con_placement_id = None,
      con_image_digest = None, con_package_digest = None\<rparr>"

record SecretLeasePolicy =
  lp_ttl_seconds :: u64
  lp_renewable :: bool
  lp_max_ttl_seconds :: "u64 option"
  lp_max_renewals :: "u32 option"

definition default_lease_policy :: SecretLeasePolicy where
  "default_lease_policy =
     \<lparr>lp_ttl_seconds = 900, lp_renewable = False, lp_max_ttl_seconds = None, lp_max_renewals = None\<rparr>"

record SecretGrantApproval =
  app_requested_by :: "string option"
  app_approved_by :: "string option"
  app_audit_correlation_id :: "string option"
  app_reason :: "string option"

definition default_approval :: SecretGrantApproval where
  "default_approval =
     \<lparr>app_requested_by = None, app_approved_by = None, app_audit_correlation_id = None,
      app_reason = None\<rparr>"

datatype SecretGrantStatus = Pending | Active | Redeemed | Expired | Revoked | Denied

record SecretGrant =
  gr_schema_version :: u32
  gr_grant_id :: string
  gr_principal :: SecretGrantPrincipal
  gr_secret_refs :: "string list"
  gr_allowed_delivery_modes :: "SecretDeliveryMode list"
  gr_constraints :: SecretGrantConstraints
  gr_lease_policy :: SecretLeasePolicy
  gr_approval :: SecretGrantApproval
  gr_status :: SecretGrantStatus

definition new_grant :: "string \<Rightarrow> SecretGrantPrincipal \<Rightarrow> SecretGrant" where
  "new_grant grant_id who =
     \<lparr>gr_schema_version = SECRET_GRANT_SCHEMA_VERSION, gr_grant_id = grant_id,
      gr_principal = who, gr_secret_refs = [], gr_allowed_delivery_modes = [],
      gr_constraints = default_constraints, gr_lease_policy = default_lease_policy,
      gr_approval = default_approval, gr_status = SecretGrantStatus.Pending\<rparr>"

definition allows_secret_ref :: "SecretGrant \<Rightarrow> string \<Rightarrow> bool" where
  "allows_secret_ref grant secret_ref_id \<longleftrightarrow>
     gr_status grant = SecretGrantStatus.Active \<and> secret_ref_id \<in> set (gr_secret_refs grant)"

definition allows_delivery_mode :: "SecretGrant \<Rightarrow> SecretDeliveryMode \<Rightarrow> bool" where
  "allows_delivery_mode grant mode \<longleftrightarrow>
     gr_status grant = SecretGrantStatus.Active \<and> mode \<in> set (gr_allowed_delivery_modes grant)"

record SealedBootstrapBundleDescriptor =
  sbb_bundle_id :: string
  sbb_agent_instance_id :: string
  sbb_enrollment_endpoint :: string
  sbb_ca_bundle_ref :: string
  sbb_expected_server_identity :: string
  sbb_package_digest :: "string option"
  sbb_image_digest :: "string option"
  sbb_one_time_token_ref :: string
  sbb_sealed_payload_ref :: "string option"
  sbb_expires_at :: string
  sbb_replay_guard :: string

record 'v SecretSeedPlan =
  plan_plan_id :: string
  plan_grant_id :: string
  plan_delivery_mode :: SecretDeliveryMode
  plan_secret_refs :: "string list"
  plan_bootstrap_bundle :: "SealedBootstrapBundleDescriptor option"
  plan_backend_manifest :: "'v option"

datatype SecretLeaseStatus = Active | Renewing | Expired | Revoked

record SecretLease =
  ls_lease_id :: string
  ls_grant_id :: string
  ls_principal :: SecretGrantPrincipal
  ls_secret_refs :: "string list"
  ls_status :: SecretLeaseStatus
  ls_issued_at :: string
  ls_expires_at :: string
  ls_renewable :: bool
  ls_renewal_count :: u32
  ls_backend_lease_ref :: "string option"
  ls_rotation_generation :: "u64 option"

record SecretRedeemObservation =
  ro_agent_instance_id :: "string option"
  ro_placement_id :: "string option"
  ro_package_digest :: "string option"
  ro_image_digest :: "string option"

record SecretRedeemRequest =
  rq_grant_id :: string
  rq_principal :: SecretGrantPrincipal
  rq_requested_delivery_mode :: SecretDeliveryMode
  rq_observed :: SecretRedeemObservation

record 'v SecretRedeemResponse =
  rr_lease :: SecretLease
  rr_seed_plan :: "'v SecretSeedPlan"

datatype SecretGrantError =
    NotFound string
  | Denied string
  | InvalidRequest string
  | Backend string

record SecretGrantStore =
  st_schema_version :: u32
  st_grants :: "SecretGrant list"
  st_leases :: "SecretLease list"

definition default_store :: SecretGrantStore where
  "default_store =
     \<lparr>st_schema_version = SECRET_GRANT_STORE_SCHEMA_VERSION, st_grants = [], st_leases = []\<rparr>"

definition find_grant :: "SecretGrantStore \<Rightarrow> string \<Rightarrow> SecretGrant option" where
  "find_grant store grant_id = find (\<lambda>grant. gr_grant_id grant = grant_id) (st_grants store)"

definition find_lease :: "SecretGrantStore \<Rightarrow> string \<Rightarrow> SecretLease option" where
  "find_lease store lease_id = find (\<lambda>lease. ls_lease_id lease = lease_id) (st_leases store)"

section \<open>Validation and identities\<close>

definition check_constraint ::
  "string \<Rightarrow> string option \<Rightarrow> string option \<Rightarrow> SecretGrantError + unit"
where
  "check_constraint label expected observed =
     (case (expected, observed) of
        (Some expected, Some observed) \<Rightarrow>
          if expected = observed then Ok ()
          else Err (SecretGrantError.Denied (label @ '' constraint mismatch: expected '' @ expected @
                      '', observed '' @ observed))
      | (Some expected, None) \<Rightarrow>
          Err (SecretGrantError.Denied (label @ '' constraint missing: expected '' @ expected))
      | (None, _) \<Rightarrow> Ok ())"

definition validate_redeem_request ::
  "SecretGrant \<Rightarrow> SecretRedeemRequest \<Rightarrow> SecretGrantError + unit"
where
  "validate_redeem_request grant request =
     (if gr_status grant \<noteq> SecretGrantStatus.Active
      then Err (SecretGrantError.Denied (''secret grant '' @ gr_grant_id grant @ '' is not active''))
      else if gr_principal grant \<noteq> rq_principal request
      then Err (SecretGrantError.Denied (''principal '' @ pr_id (rq_principal request) @
                  '' cannot redeem grant '' @ gr_grant_id grant))
      else if \<not> allows_delivery_mode grant (rq_requested_delivery_mode request)
      then Err (SecretGrantError.Denied (''delivery mode '' @
                  debug_delivery_mode (rq_requested_delivery_mode request) @
                  '' is not allowed for grant '' @ gr_grant_id grant))
      else and_then (check_constraint ''agent instance''
                       (con_agent_instance_id (gr_constraints grant))
                       (ro_agent_instance_id (rq_observed request)))
        (\<lambda>_. and_then (check_constraint ''placement''
                       (con_placement_id (gr_constraints grant))
                       (ro_placement_id (rq_observed request)))
        (\<lambda>_. and_then (check_constraint ''package digest''
                       (con_package_digest (gr_constraints grant))
                       (ro_package_digest (rq_observed request)))
        (\<lambda>_. check_constraint ''image digest''
                       (con_image_digest (gr_constraints grant))
                       (ro_image_digest (rq_observed request))))))"

definition next_lease_id :: "SecretGrantStore \<Rightarrow> string \<Rightarrow> string" where
  "next_lease_id store grant_id =
     ''lease_'' @ grant_id @ ''_'' @
     show_nat (length (filter (\<lambda>lease. ls_grant_id lease = grant_id) (st_leases store)) + 1)"

definition epoch_timestamp :: "u64 \<Rightarrow> string" where
  "epoch_timestamp seconds = ''unix:'' @ show_nat (unat seconds)"

section \<open>The file-backed broker\<close>

record store_io =
  sio_create_dir_all :: "string + unit"
  sio_to_json :: "SecretGrantStore \<Rightarrow> string + string"
  sio_from_json :: "string \<Rightarrow> string + SecretGrantStore"
  sio_write :: "string \<Rightarrow> string option \<Rightarrow> (string + unit) \<times> string option"

text \<open>The broker, with the contents of its file (\<open>None\<close>: there is none yet).\<close>

record FileSecretGrantBroker =
  fb_path :: string
  fb_store :: SecretGrantStore
  fb_file :: "string option"

text \<open>Reading the file gives its contents, nothing when there is no file, or another error.\<close>

definition load_store_or_default ::
  "store_io \<Rightarrow> string + string option \<Rightarrow> SecretGrantError + SecretGrantStore"
where
  "load_store_or_default io read =
     (case read of
        Inr (Some json) \<Rightarrow> map_err Backend (sio_from_json io json)
      | Inr None \<Rightarrow> Ok default_store
      | Inl error \<Rightarrow> Err (Backend (''could not read secret grant store: '' @ error)))"

definition open_broker ::
  "store_io \<Rightarrow> string \<Rightarrow> string + string option \<Rightarrow> SecretGrantError + FileSecretGrantBroker"
where
  "open_broker io path read =
     and_then (load_store_or_default io read)
       (\<lambda>store. Ok \<lparr>fb_path = path, fb_store = store,
                     fb_file = (case read of Inl _ \<Rightarrow> None | Inr contents \<Rightarrow> contents)\<rparr>)"

definition persist_locked ::
  "store_io \<Rightarrow> FileSecretGrantBroker \<Rightarrow> (SecretGrantError + unit) \<times> FileSecretGrantBroker"
where
  "persist_locked io b =
     (case sio_create_dir_all io of
        Inl error \<Rightarrow>
          (Err (Backend (''could not create secret grant store directory: '' @ error)), b)
      | Inr _ \<Rightarrow>
          (case sio_to_json io (fb_store b) of
             Inl error \<Rightarrow> (Err (Backend error), b)
           | Inr json \<Rightarrow>
               (case sio_write io json (fb_file b) of
                  (Inl error, contents) \<Rightarrow>
                    (Err (Backend (''could not write secret grant store: '' @ error)),
                     b\<lparr>fb_file := contents\<rparr>)
                | (Inr _, contents) \<Rightarrow> (Ok (), b\<lparr>fb_file := contents\<rparr>))))"

text \<open>
  The store is changed before it is written out, so a failed write returns an error with the
  change in place.
\<close>

definition commit ::
  "store_io \<Rightarrow> SecretGrantStore \<Rightarrow> 'a \<Rightarrow> FileSecretGrantBroker \<Rightarrow>
     (SecretGrantError + 'a) \<times> FileSecretGrantBroker"
where
  "commit io store result b =
     (case persist_locked io (b\<lparr>fb_store := store\<rparr>) of
        (Inl e, b1) \<Rightarrow> (Err e, b1)
      | (Inr _, b1) \<Rightarrow> (Ok result, b1))"

definition create_grant ::
  "store_io \<Rightarrow> SecretGrant \<Rightarrow> FileSecretGrantBroker \<Rightarrow>
     (SecretGrantError + SecretGrant) \<times> FileSecretGrantBroker"
where
  "create_grant io grant b =
     (if gr_schema_version grant \<noteq> SECRET_GRANT_SCHEMA_VERSION
      then (Err (InvalidRequest (''unsupported secret grant schema version '' @
                   show_nat (unat (gr_schema_version grant)))), b)
      else if trim (gr_grant_id grant) = []
      then (Err (InvalidRequest ''secret grant id must not be empty''), b)
      else if trim (pr_id (gr_principal grant)) = []
      then (Err (InvalidRequest ''secret grant principal id must not be empty''), b)
      else if find_grant (fb_store b) (gr_grant_id grant) \<noteq> None
      then (Err (InvalidRequest (''secret grant '' @ gr_grant_id grant @ '' already exists'')), b)
      else commit io ((fb_store b)\<lparr>st_grants := st_grants (fb_store b) @ [grant]\<rparr>) grant b)"

definition issue_lease ::
  "string \<Rightarrow> u64 \<Rightarrow> SecretGrantStore \<Rightarrow> SecretGrant \<Rightarrow> SecretLease"
where
  "issue_lease path now store grant =
     \<lparr>ls_lease_id = next_lease_id store (gr_grant_id grant),
      ls_grant_id = gr_grant_id grant,
      ls_principal = gr_principal grant,
      ls_secret_refs = gr_secret_refs grant,
      ls_status = SecretLeaseStatus.Active,
      ls_issued_at = epoch_timestamp now,
      ls_expires_at = epoch_timestamp (saturating_add now (lp_ttl_seconds (gr_lease_policy grant))),
      ls_renewable = lp_renewable (gr_lease_policy grant),
      ls_renewal_count = 0,
      ls_backend_lease_ref = Some (''file://'' @ path),
      ls_rotation_generation = None\<rparr>"

definition redeem_grant ::
  "store_io \<Rightarrow> u64 \<Rightarrow> SecretRedeemRequest \<Rightarrow> FileSecretGrantBroker \<Rightarrow>
     (SecretGrantError + 'v SecretRedeemResponse) \<times> FileSecretGrantBroker"
where
  "redeem_grant io now request b =
     (let store = fb_store b
      in case position (\<lambda>grant. gr_grant_id grant = rq_grant_id request) (st_grants store) of
           None \<Rightarrow> (Err (NotFound (rq_grant_id request)), b)
         | Some grant_index \<Rightarrow>
             let grant = st_grants store ! grant_index
             in case validate_redeem_request grant request of
                  Inl e \<Rightarrow> (Err e, b)
                | Inr _ \<Rightarrow>
                    let lease = issue_lease (fb_path b) now store grant;
                        seed_plan =
                          \<lparr>plan_plan_id = ''seed_plan_'' @ ls_lease_id lease,
                           plan_grant_id = gr_grant_id grant,
                           plan_delivery_mode = rq_requested_delivery_mode request,
                           plan_secret_refs = gr_secret_refs grant,
                           plan_bootstrap_bundle = None, plan_backend_manifest = None\<rparr>
                    in commit io
                         (store\<lparr>st_grants := (st_grants store)[grant_index :=
                                   (st_grants store ! grant_index)\<lparr>gr_status := SecretGrantStatus.Redeemed\<rparr>],
                                st_leases := st_leases store @ [lease]\<rparr>)
                         \<lparr>rr_lease = lease, rr_seed_plan = seed_plan\<rparr> b)"

definition renew_lease ::
  "store_io \<Rightarrow> u64 \<Rightarrow> string \<Rightarrow> FileSecretGrantBroker \<Rightarrow>
     (SecretGrantError + SecretLease) \<times> FileSecretGrantBroker"
where
  "renew_lease io now lease_id b =
     (let store = fb_store b
      in case position (\<lambda>lease. ls_lease_id lease = lease_id) (st_leases store) of
           None \<Rightarrow> (Err (NotFound lease_id), b)
         | Some lease_index \<Rightarrow>
             let lease = st_leases store ! lease_index
             in case find_grant store (ls_grant_id lease) of
                  None \<Rightarrow> (Err (NotFound (ls_grant_id lease)), b)
                | Some grant \<Rightarrow>
                    if ls_status lease \<noteq> SecretLeaseStatus.Active
                    then (Err (SecretGrantError.Denied (''lease '' @ lease_id @ '' is not active'')), b)
                    else if \<not> ls_renewable lease \<or> \<not> lp_renewable (gr_lease_policy grant)
                    then (Err (SecretGrantError.Denied (''lease '' @ lease_id @ '' is not renewable'')), b)
                    else if (case lp_max_renewals (gr_lease_policy grant) of
                               None \<Rightarrow> False
                             | Some max_renewals \<Rightarrow> max_renewals \<le> ls_renewal_count lease)
                    then (Err (SecretGrantError.Denied (''lease '' @ lease_id @ '' reached max renewals'')), b)
                    else
                      let renewed =
                            lease\<lparr>ls_renewal_count := saturating_add (ls_renewal_count lease) 1,
                                  ls_expires_at := epoch_timestamp
                                    (saturating_add now (lp_ttl_seconds (gr_lease_policy grant))),
                                  ls_status := SecretLeaseStatus.Active\<rparr>
                      in commit io (store\<lparr>st_leases := (st_leases store)[lease_index := renewed]\<rparr>)
                           renewed b)"

definition revoke_lease ::
  "store_io \<Rightarrow> string \<Rightarrow> FileSecretGrantBroker \<Rightarrow>
     (SecretGrantError + SecretLease) \<times> FileSecretGrantBroker"
where
  "revoke_lease io lease_id b =
     (let store = fb_store b
      in case position (\<lambda>lease. ls_lease_id lease = lease_id) (st_leases store) of
           None \<Rightarrow> (Err (NotFound lease_id), b)
         | Some lease_index \<Rightarrow>
             let revoked = (st_leases store ! lease_index)\<lparr>ls_status := SecretLeaseStatus.Revoked\<rparr>
             in commit io (store\<lparr>st_leases := (st_leases store)[lease_index := revoked]\<rparr>) revoked b)"


section \<open>The broker interface\<close>

text \<open>
  What a broker promises whoever calls it: a created grant is on file as given, a redemption is of
  an active grant by its own principal in an allowed mode and yields exactly the grant's secrets,
  and a grant that is not active is not redeemed.
\<close>

locale secret_grant_broker =
  fixes create :: "SecretGrant \<Rightarrow> 'b \<Rightarrow> (SecretGrantError + SecretGrant) \<times> 'b"
    and redeem :: "SecretRedeemRequest \<Rightarrow> 'b \<Rightarrow> (SecretGrantError + 'v SecretRedeemResponse) \<times> 'b"
    and on_file :: "'b \<Rightarrow> string \<Rightarrow> SecretGrant option"
  assumes create_Ok: "create g b = (Ok g', b') \<Longrightarrow>
      g' = g \<and> on_file b (gr_grant_id g) = None \<and> on_file b' (gr_grant_id g) = Some g"
    and create_taken: "on_file b (gr_grant_id g) \<noteq> None \<Longrightarrow> \<exists>e. create g b = (Err (InvalidRequest e), b)"
    and redeem_Ok: "redeem q b = (Ok r, b') \<Longrightarrow>
      (\<exists>g. on_file b (rq_grant_id q) = Some g \<and> gr_status g = SecretGrantStatus.Active \<and>
           gr_principal g = rq_principal q \<and>
           rq_requested_delivery_mode q \<in> set (gr_allowed_delivery_modes g) \<and>
           ls_grant_id (rr_lease r) = gr_grant_id g \<and> ls_principal (rr_lease r) = gr_principal g \<and>
           ls_secret_refs (rr_lease r) = gr_secret_refs g \<and>
           plan_secret_refs (rr_seed_plan r) = gr_secret_refs g \<and>
           plan_delivery_mode (rr_seed_plan r) = rq_requested_delivery_mode q \<and>
           on_file b' (rq_grant_id q) = Some (g\<lparr>gr_status := SecretGrantStatus.Redeemed\<rparr>))"
    and redeem_inactive: "on_file b (rq_grant_id q) = Some g \<Longrightarrow> gr_status g \<noteq> SecretGrantStatus.Active \<Longrightarrow>
      \<exists>e. redeem q b = (Err (SecretGrantError.Denied e), b)"
begin

lemma redeem_once:
  assumes "redeem q b = (Ok r, b')" and "rq_grant_id q' = rq_grant_id q"
  shows "\<exists>e. redeem q' b' = (Err (SecretGrantError.Denied e), b')"
proof -
  from redeem_Ok [OF assms(1)] assms(2)
  obtain g where "on_file b' (rq_grant_id q') = Some (g\<lparr>gr_status := SecretGrantStatus.Redeemed\<rparr>)" by auto
  then show ?thesis by (rule redeem_inactive) simp
qed

end

section \<open>The file-backed broker keeps it\<close>

lemma commit_store: "fb_store (snd (commit io store result b)) = store"
  by (auto simp: commit_def persist_locked_def split: sum.splits prod.splits)

lemma commit_Ok: "commit io store result b = (Ok x, b') \<Longrightarrow> x = result \<and> fb_store b' = store"
  using commit_store [of io store result b]
  by (auto simp: commit_def split: sum.splits prod.splits)

lemma commit_error: "commit io store result b = (Err e, b') \<Longrightarrow> \<exists>m. e = Backend m"
  by (auto simp: commit_def persist_locked_def split: sum.splits prod.splits)

lemma find_append: "find p (xs @ ys) = (case find p xs of None \<Rightarrow> find p ys | Some x \<Rightarrow> Some x)"
  by (induction xs) auto

lemma find_list_update:
  "position p xs = Some i \<Longrightarrow> p x \<Longrightarrow> find p (xs[i := x]) = Some x"
proof (induction xs arbitrary: i)
  case (Cons y ys)
  then show ?case by (cases i) (auto split: if_splits)
qed simp

lemma find_list_update_other:
  "position p xs = Some i \<Longrightarrow> \<not> q (xs ! i) \<Longrightarrow> \<not> q x \<Longrightarrow> find q (xs[i := x]) = find q xs"
proof (induction xs arbitrary: i)
  case (Cons y ys)
  then show ?case by (cases i) (auto split: if_splits)
qed simp

lemma find_of_position: "position p xs = Some i \<Longrightarrow> find p xs = Some (xs ! i)"
  by (simp add: find_position)

lemma check_constraint_Ok:
  "check_constraint label expected observed = Ok () \<longleftrightarrow> expected = None \<or> observed = expected"
  by (auto simp: check_constraint_def split: option.splits)

lemma validate_redeem_Ok:
  "validate_redeem_request g q = Ok () \<longleftrightarrow>
     gr_status g = SecretGrantStatus.Active \<and> gr_principal g = rq_principal q \<and>
     rq_requested_delivery_mode q \<in> set (gr_allowed_delivery_modes g) \<and>
     (con_agent_instance_id (gr_constraints g) = None \<or>
        ro_agent_instance_id (rq_observed q) = con_agent_instance_id (gr_constraints g)) \<and>
     (con_placement_id (gr_constraints g) = None \<or>
        ro_placement_id (rq_observed q) = con_placement_id (gr_constraints g)) \<and>
     (con_package_digest (gr_constraints g) = None \<or>
        ro_package_digest (rq_observed q) = con_package_digest (gr_constraints g)) \<and>
     (con_image_digest (gr_constraints g) = None \<or>
        ro_image_digest (rq_observed q) = con_image_digest (gr_constraints g))"
  by (auto simp: validate_redeem_request_def allows_delivery_mode_def and_then_eq_Ok check_constraint_Ok)

lemma check_constraint_error:
  "check_constraint label expected observed = Err e \<Longrightarrow> \<exists>m. e = SecretGrantError.Denied m"
  by (auto simp: check_constraint_def split: option.splits if_splits)

lemma and_then_error: "and_then r f = Err e \<Longrightarrow> r = Err e \<or> (\<exists>a. r = Ok a \<and> f a = Err e)"
  by (cases r) auto

lemma validate_redeem_error:
  "validate_redeem_request g q = Err e \<Longrightarrow> \<exists>m. e = SecretGrantError.Denied m"
  by (auto simp: validate_redeem_request_def dest!: and_then_error check_constraint_error split: if_splits)

text \<open>A redemption either leaves the broker alone or takes an active grant and issues its lease.\<close>

lemma redeem_cases:
  assumes "redeem_grant io now q b = (res, b')"
  obtains
    (refused) "b' = b" "\<not> is_ok res" "\<nexists>m. res = Err (Backend m)"
  | (taken) i g lease where
      "position (\<lambda>g. gr_grant_id g = rq_grant_id q) (st_grants (fb_store b)) = Some i"
      "g = st_grants (fb_store b) ! i" "gr_grant_id g = rq_grant_id q"
      "validate_redeem_request g q = Ok ()" "lease = issue_lease (fb_path b) now (fb_store b) g"
      "fb_store b' = (fb_store b)\<lparr>
         st_grants := (st_grants (fb_store b))[i := g\<lparr>gr_status := SecretGrantStatus.Redeemed\<rparr>],
         st_leases := st_leases (fb_store b) @ [lease]\<rparr>"
      "\<And>r. res = Ok r \<Longrightarrow> rr_lease r = lease \<and> plan_secret_refs (rr_seed_plan r) = gr_secret_refs g \<and>
         plan_delivery_mode (rr_seed_plan r) = rq_requested_delivery_mode q"
      "\<And>e. res = Err e \<Longrightarrow> \<exists>m. e = Backend m"
proof (cases "position (\<lambda>g. gr_grant_id g = rq_grant_id q) (st_grants (fb_store b))")
  case None
  with assms refused show ?thesis by (auto simp: redeem_grant_def)
next
  case (Some i)
  let ?g = "st_grants (fb_store b) ! i"
  show ?thesis
  proof (cases "validate_redeem_request ?g q")
    case (Inl e)
    with assms Some have "b' = b" "res = Err e" by (auto simp: redeem_grant_def Let_def)
    with refused validate_redeem_error [OF Inl] show ?thesis by auto
  next
    case (Inr u)
    let ?lease = "issue_lease (fb_path b) now (fb_store b) ?g"
    from assms Some Inr obtain result where c: "commit io ((fb_store b)\<lparr>
         st_grants := (st_grants (fb_store b))[i := ?g\<lparr>gr_status := SecretGrantStatus.Redeemed\<rparr>],
         st_leases := st_leases (fb_store b) @ [?lease]\<rparr>) result b = (res, b')"
      and result: "rr_lease result = ?lease" "plan_secret_refs (rr_seed_plan result) = gr_secret_refs ?g"
        "plan_delivery_mode (rr_seed_plan result) = rq_requested_delivery_mode q"
      by (simp add: redeem_grant_def Let_def)
    show ?thesis
    proof (rule taken [OF Some refl])
      show "gr_grant_id ?g = rq_grant_id q" using position_Some [OF Some] by simp
      show "validate_redeem_request ?g q = Ok ()" using Inr by simp
      show "rr_lease r = ?lease \<and> plan_secret_refs (rr_seed_plan r) = gr_secret_refs ?g \<and>
          plan_delivery_mode (rr_seed_plan r) = rq_requested_delivery_mode q" if "res = Ok r" for r
        using commit_Ok [of io _ result b r b'] c result that by auto
      show "\<exists>m. e = Backend m" if "res = Err e" for e
        using commit_error [of io _ result b e b'] c that by auto
    qed (use commit_store c in \<open>metis snd_conv\<close> | simp)+
  qed
qed


lemma create_cases:
  assumes "create_grant io g b = (res, b')"
  obtains
    (refused) m where "b' = b" "res = Err (InvalidRequest m)"
  | (added) "find_grant (fb_store b) (gr_grant_id g) = None" "trim (gr_grant_id g) \<noteq> []"
      "fb_store b' = (fb_store b)\<lparr>st_grants := st_grants (fb_store b) @ [g]\<rparr>"
      "\<And>g'. res = Ok g' \<Longrightarrow> g' = g" "\<And>e. res = Err e \<Longrightarrow> \<exists>m. e = Backend m"
proof (cases "\<exists>m. create_grant io g b = (Err (InvalidRequest m), b)")
  case True
  with assms refused show ?thesis by auto
next
  case False
  let ?store = "(fb_store b)\<lparr>st_grants := st_grants (fb_store b) @ [g]\<rparr>"
  from False have new: "find_grant (fb_store b) (gr_grant_id g) = None" "trim (gr_grant_id g) \<noteq> []"
    and c: "create_grant io g b = commit io ?store g b"
    by (auto simp: create_grant_def split: if_splits)
  show ?thesis
  proof (rule added [OF new])
    show "fb_store b' = ?store" using assms c commit_store [of io ?store g b] by simp
    show "g' = g" if "res = Ok g'" for g' using assms c that commit_Ok [of io ?store g b g' b'] by simp
    show "\<exists>m. e = Backend m" if "res = Err e" for e using assms c that commit_error [of io ?store g b e b'] by simp
  qed
qed

interpretation file_broker: secret_grant_broker
  "create_grant io" "redeem_grant io now" "\<lambda>b. find_grant (fb_store b)" for io now
proof (unfold_locales, goal_cases)
  case (1 g b g' b')
  then show ?case
    by (cases rule: create_cases) (auto simp: find_grant_def find_append)
next
  case (2 b g)
  then show ?case by (auto simp: create_grant_def)
next
  case (3 q b r b')
  then show ?case
  proof (cases rule: redeem_cases)
    case (taken i g lease)
    from taken(1,2) have "find_grant (fb_store b) (rq_grant_id q) = Some g"
      by (simp add: find_grant_def find_of_position)
    moreover have "find_grant (fb_store b') (rq_grant_id q) = Some (g\<lparr>gr_status := SecretGrantStatus.Redeemed\<rparr>)"
      using taken(1,3,6) by (simp add: find_grant_def find_list_update)
    ultimately show ?thesis
      using taken(4,5) taken(7) [OF refl] by (auto simp: validate_redeem_Ok issue_lease_def)
  qed simp
next
  case (4 b q g)
  then obtain i where i: "position (\<lambda>g. gr_grant_id g = rq_grant_id q) (st_grants (fb_store b)) = Some i"
    "g = st_grants (fb_store b) ! i"
    by (cases "position (\<lambda>g. gr_grant_id g = rq_grant_id q) (st_grants (fb_store b))")
      (auto simp: find_grant_def find_position)
  with 4(2) show ?case by (auto simp: redeem_grant_def validate_redeem_request_def Let_def)
qed

section \<open>The store invariant\<close>

text \<open>
  A lease belongs to one redeemed grant, carries exactly its secrets for its principal, is the only
  lease of that grant, is named after it and has not been renewed more often than allowed.
\<close>

definition lease_fits :: "SecretGrant \<Rightarrow> SecretLease \<Rightarrow> bool" where
  "lease_fits g l \<longleftrightarrow>
     gr_status g = SecretGrantStatus.Redeemed \<and> ls_grant_id l = gr_grant_id g \<and>
     ls_lease_id l = ''lease_'' @ gr_grant_id g @ ''_1'' \<and> ls_principal l = gr_principal g \<and>
     ls_secret_refs l = gr_secret_refs g \<and> ls_renewable l = lp_renewable (gr_lease_policy g) \<and>
     (\<not> ls_renewable l \<longrightarrow> ls_renewal_count l = 0) \<and>
     (\<forall>m. lp_max_renewals (gr_lease_policy g) = Some m \<longrightarrow> ls_renewal_count l \<le> m)"

definition wf_store :: "SecretGrantStore \<Rightarrow> bool" where
  "wf_store st \<longleftrightarrow>
     distinct (map gr_grant_id (st_grants st)) \<and> distinct (map ls_grant_id (st_leases st)) \<and>
     (\<forall>l \<in> set (st_leases st). \<exists>g \<in> set (st_grants st). lease_fits g l)"

lemma lease_fits_id: "lease_fits g l \<Longrightarrow> ls_lease_id l = ''lease_'' @ ls_grant_id l @ ''_1''"
  by (simp add: lease_fits_def)

lemma wf_default_store: "wf_store default_store"
  by (simp add: wf_store_def default_store_def)

lemma find_grant_mem:
  "find_grant st i = Some g \<Longrightarrow> g \<in> set (st_grants st) \<and> gr_grant_id g = i"
  by (auto simp: find_grant_def find_Some_iff)

lemma find_grant_iff:
  assumes "wf_store st"
  shows "find_grant st i = Some g \<longleftrightarrow> g \<in> set (st_grants st) \<and> gr_grant_id g = i"
proof
  assume g: "g \<in> set (st_grants st) \<and> gr_grant_id g = i"
  then obtain g' where g': "find_grant st i = Some g'"
    by (cases "find_grant st i") (auto simp: find_grant_def find_None_iff)
  with find_grant_mem [OF g'] g assms show "find_grant st i = Some g"
    by (auto simp: wf_store_def distinct_map dest: inj_onD)
qed (rule find_grant_mem)

lemma wf_create:
  assumes "wf_store (fb_store b)" and "create_grant io g b = (res, b')"
  shows "wf_store (fb_store b')"
  using assms(2)
proof (cases rule: create_cases)
  case added
  from added(1) have "gr_grant_id g \<notin> gr_grant_id ` set (st_grants (fb_store b))"
    by (auto simp: find_grant_def find_None_iff)
  with assms(1) added(3) show ?thesis by (auto simp: wf_store_def)
qed (use assms(1) in simp)

text \<open>A grant that has no lease yet gets the first one.\<close>

lemma active_grant_has_no_lease:
  assumes "wf_store st" and "g \<in> set (st_grants st)" and "gr_status g = SecretGrantStatus.Active"
    and "l \<in> set (st_leases st)"
  shows "ls_grant_id l \<noteq> gr_grant_id g"
proof
  assume same: "ls_grant_id l = gr_grant_id g"
  from assms(1,4) obtain g' where g': "g' \<in> set (st_grants st)" "lease_fits g' l"
    by (auto simp: wf_store_def)
  with same have "gr_grant_id g' = gr_grant_id g" by (simp add: lease_fits_def)
  with assms(1,2) g'(1) have "g' = g" by (auto simp: wf_store_def distinct_map dest: inj_onD)
  with g'(2) assms(3) show False by (simp add: lease_fits_def)
qed

lemma show_one: "show_nat (Suc 0) = ''1''"
  by code_simp

lemma wf_redeem:
  assumes "wf_store (fb_store b)" and "redeem_grant io now q b = (res, b')"
  shows "wf_store (fb_store b')"
  using assms(2)
proof (cases rule: redeem_cases)
  case (taken i g lease)
  let ?st = "fb_store b"
  let ?g = "g\<lparr>gr_status := SecretGrantStatus.Redeemed\<rparr>"
  have i: "i < length (st_grants ?st)" using position_Some [OF taken(1)] by simp
  then have g: "g \<in> set (st_grants ?st)" using taken(2) by simp
  have status: "gr_status g = SecretGrantStatus.Active" using taken(4) by (simp add: validate_redeem_Ok)
  note none = active_grant_has_no_lease [OF assms(1) g status]
  then have "filter (\<lambda>l. ls_grant_id l = gr_grant_id g) (st_leases ?st) = []"
    by (auto simp: filter_empty_conv)
  then have fits: "lease_fits ?g lease"
    by (simp add: taken(5) issue_lease_def lease_fits_def next_lease_id_def show_one)
  have "map gr_grant_id ((st_grants ?st)[i := ?g]) = map gr_grant_id (st_grants ?st)"
    using taken(2) by (intro map_list_update_same) simp
  moreover have "?g \<in> set ((st_grants ?st)[i := ?g])" using i by (simp add: set_update_memI)
  moreover have "\<exists>g' \<in> set ((st_grants ?st)[i := ?g]). lease_fits g' l" if l: "l \<in> set (st_leases ?st)" for l
  proof -
    from assms(1) l obtain g' where g': "g' \<in> set (st_grants ?st)" "lease_fits g' l"
      by (auto simp: wf_store_def)
    then obtain j where j: "j < length (st_grants ?st)" "g' = st_grants ?st ! j" by (auto simp: in_set_conv_nth)
    have "j \<noteq> i" using g'(2) j(2) status taken(2) by (auto simp: lease_fits_def)
    with j have "g' = ((st_grants ?st)[i := ?g]) ! j" "j < length ((st_grants ?st)[i := ?g])" by simp_all
    with g'(2) show ?thesis by (metis nth_mem)
  qed
  moreover have "ls_grant_id lease \<notin> ls_grant_id ` set (st_leases ?st)"
  proof
    assume "ls_grant_id lease \<in> ls_grant_id ` set (st_leases ?st)"
    then obtain l where "l \<in> set (st_leases ?st)" "ls_grant_id l = ls_grant_id lease" by auto
    with none [of l] show False by (simp add: taken(5) issue_lease_def)
  qed
  ultimately show ?thesis
    using assms(1) fits unfolding taken(6) wf_store_def by auto
qed (use assms(1) in simp)


lemma renew_cases:
  assumes "renew_lease io now lid b = (res, b')"
  obtains
    (refused) "b' = b" "\<not> is_ok res"
  | (renewed) i l g l' where
      "position (\<lambda>l. ls_lease_id l = lid) (st_leases (fb_store b)) = Some i"
      "l = st_leases (fb_store b) ! i" "find_grant (fb_store b) (ls_grant_id l) = Some g"
      "ls_status l = SecretLeaseStatus.Active" "ls_renewable l"
      "\<forall>m. lp_max_renewals (gr_lease_policy g) = Some m \<longrightarrow> ls_renewal_count l < m"
      "l' = l\<lparr>ls_renewal_count := saturating_add (ls_renewal_count l) 1,
              ls_expires_at := epoch_timestamp (saturating_add now (lp_ttl_seconds (gr_lease_policy g))),
              ls_status := SecretLeaseStatus.Active\<rparr>"
      "fb_store b' = (fb_store b)\<lparr>st_leases := (st_leases (fb_store b))[i := l']\<rparr>"
      "\<And>r. res = Ok r \<Longrightarrow> r = l'" "\<And>e. res = Err e \<Longrightarrow> \<exists>m. e = Backend m"
proof (cases "position (\<lambda>l. ls_lease_id l = lid) (st_leases (fb_store b))")
  case None
  with assms refused show ?thesis by (auto simp: renew_lease_def)
next
  case (Some i)
  let ?l = "st_leases (fb_store b) ! i"
  show ?thesis
  proof (cases "find_grant (fb_store b) (ls_grant_id ?l)")
    case None
    with assms Some refused show ?thesis by (auto simp: renew_lease_def Let_def)
  next
    case grant: (Some g)
    let ?blocked = "case lp_max_renewals (gr_lease_policy g) of None \<Rightarrow> False
                    | Some m \<Rightarrow> m \<le> ls_renewal_count ?l"
    show ?thesis
    proof (cases "ls_status ?l \<noteq> SecretLeaseStatus.Active \<or> \<not> ls_renewable ?l \<or>
        \<not> lp_renewable (gr_lease_policy g) \<or> ?blocked")
      case True
      with assms Some grant have "b' = b" "\<not> is_ok res"
        by (auto simp: renew_lease_def Let_def split: if_splits)
      then show ?thesis by (rule refused)
    next
      case False
      let ?l' = "?l\<lparr>ls_renewal_count := saturating_add (ls_renewal_count ?l) 1,
          ls_expires_at := epoch_timestamp (saturating_add now (lp_ttl_seconds (gr_lease_policy g))),
          ls_status := SecretLeaseStatus.Active\<rparr>"
      let ?st = "(fb_store b)\<lparr>st_leases := (st_leases (fb_store b))[i := ?l']\<rparr>"
      from assms Some grant False have c: "commit io ?st ?l' b = (res, b')"
        by (simp add: renew_lease_def Let_def)
      show ?thesis
      proof (rule renewed [OF Some refl grant])
        show "fb_store b' = ?st" using c commit_store [of io ?st ?l' b] by simp
        show "r = ?l'" if "res = Ok r" for r using c that commit_Ok [of io ?st ?l' b r b'] by simp
        show "\<exists>m. e = Backend m" if "res = Err e" for e using c that commit_error [of io ?st ?l' b e b'] by simp
        show "\<forall>m. lp_max_renewals (gr_lease_policy g) = Some m \<longrightarrow> ls_renewal_count ?l < m"
          using False by auto
      qed (use False in auto)
    qed
  qed
qed

lemma unat_saturating_succ_le: "a < m \<Longrightarrow> saturating_add a 1 \<le> (m :: u32)"
  using unat_saturating_add [of a 1]
  by (simp add: word_less_nat_alt word_le_nat_alt)

text \<open>Rewriting a lease in place keeps the invariant when the lease still fits its grant.\<close>

lemma wf_update_lease:
  assumes "wf_store st" and "i < length (st_leases st)" and "ls_grant_id l' = ls_grant_id (st_leases st ! i)"
    and "\<And>g. lease_fits g (st_leases st ! i) \<Longrightarrow> g \<in> set (st_grants st) \<Longrightarrow> lease_fits g l'"
  shows "wf_store (st\<lparr>st_leases := (st_leases st)[i := l']\<rparr>)"
proof -
  have "map ls_grant_id ((st_leases st)[i := l']) = map ls_grant_id (st_leases st)"
    using assms(3) by (intro map_list_update_same) simp
  moreover have "\<exists>g \<in> set (st_grants st). lease_fits g l" if "l \<in> set ((st_leases st)[i := l'])" for l
  proof -
    have fits: "\<forall>l \<in> set (st_leases st). \<exists>g \<in> set (st_grants st). lease_fits g l"
      using assms(1) by (simp add: wf_store_def)
    then have "\<exists>g \<in> set (st_grants st). lease_fits g l'" using assms(2,4) by (meson nth_mem)
    with fits that set_list_update_subset [of "st_leases st" i l'] show ?thesis by blast
  qed
  ultimately show ?thesis using assms(1) by (simp add: wf_store_def)
qed

lemma wf_renew:
  assumes "wf_store (fb_store b)" and "renew_lease io now lid b = (res, b')"
  shows "wf_store (fb_store b')"
  using assms(2)
proof (cases rule: renew_cases)
  case (renewed i l g l')
  have i: "i < length (st_leases (fb_store b))" using position_Some [OF renewed(1)] by simp
  have "lease_fits g' l'" if g': "lease_fits g' l" "g' \<in> set (st_grants (fb_store b))" for g'
  proof -
    have "find_grant (fb_store b) (ls_grant_id l) = Some g'"
      using g' find_grant_iff [OF assms(1)] by (simp add: lease_fits_def)
    with renewed(3) have "g' = g" by simp
    with g'(1) renewed(5,6,7) show ?thesis
      by (auto simp: lease_fits_def intro: unat_saturating_succ_le)
  qed
  with renewed i assms(1) show ?thesis by (simp add: wf_update_lease)
qed (use assms(1) in simp)

lemma revoke_cases:
  assumes "revoke_lease io lid b = (res, b')"
  obtains
    (refused) "b' = b" "\<not> is_ok res"
  | (revoked) i l' where
      "position (\<lambda>l. ls_lease_id l = lid) (st_leases (fb_store b)) = Some i"
      "l' = (st_leases (fb_store b) ! i)\<lparr>ls_status := SecretLeaseStatus.Revoked\<rparr>"
      "fb_store b' = (fb_store b)\<lparr>st_leases := (st_leases (fb_store b))[i := l']\<rparr>"
proof (cases "position (\<lambda>l. ls_lease_id l = lid) (st_leases (fb_store b))")
  case None
  with assms refused show ?thesis by (auto simp: revoke_lease_def)
next
  case (Some i)
  let ?l' = "(st_leases (fb_store b) ! i)\<lparr>ls_status := SecretLeaseStatus.Revoked\<rparr>"
  let ?st = "(fb_store b)\<lparr>st_leases := (st_leases (fb_store b))[i := ?l']\<rparr>"
  from assms Some have "commit io ?st ?l' b = (res, b')" by (simp add: revoke_lease_def Let_def)
  with commit_store [of io ?st ?l' b] have "fb_store b' = ?st" by simp
  with Some revoked show ?thesis by blast
qed

lemma wf_revoke:
  assumes "wf_store (fb_store b)" and "revoke_lease io lid b = (res, b')"
  shows "wf_store (fb_store b')"
  using assms(2)
proof (cases rule: revoke_cases)
  case (revoked i l')
  have i: "i < length (st_leases (fb_store b))" using position_Some [OF revoked(1)] by simp
  from assms(1) i show ?thesis
    unfolding revoked(3) by (rule wf_update_lease) (auto simp: revoked(2) lease_fits_def)
qed (use assms(1) in simp)


section \<open>Steps of the broker\<close>

inductive broker_step :: "FileSecretGrantBroker \<Rightarrow> FileSecretGrantBroker \<Rightarrow> bool" where
  step_create: "create_grant io g b = (res, b') \<Longrightarrow> broker_step b b'"
| step_redeem: "redeem_grant io now q b = ((r :: SecretGrantError + unit SecretRedeemResponse), b') \<Longrightarrow>
    broker_step b b'"
| step_renew: "renew_lease io now lid b = (res, b') \<Longrightarrow> broker_step b b'"
| step_revoke: "revoke_lease io lid b = (res, b') \<Longrightarrow> broker_step b b'"

lemma broker_step_wf: "broker_step b b' \<Longrightarrow> wf_store (fb_store b) \<Longrightarrow> wf_store (fb_store b')"
  by (induction rule: broker_step.induct) (auto intro: wf_create wf_redeem wf_renew wf_revoke)

lemma broker_steps_wf: "broker_step\<^sup>*\<^sup>* b b' \<Longrightarrow> wf_store (fb_store b) \<Longrightarrow> wf_store (fb_store b')"
  by (induction rule: rtranclp_induct) (auto intro: broker_step_wf)

text \<open>A grant that is redeemed stays on file as it is.\<close>

lemma redeemed_stays:
  assumes "broker_step b b'" and "find_grant (fb_store b) i = Some g"
    and "gr_status g = SecretGrantStatus.Redeemed"
  shows "find_grant (fb_store b') i = Some g"
  using assms
proof (induction rule: broker_step.induct)
  case (step_create io h b res b')
  from step_create(1) show ?case
    by (cases rule: create_cases) (use step_create in \<open>auto simp: find_grant_def find_append\<close>)
next
  case (step_redeem io now q b r b')
  from step_redeem(1) show ?case
  proof (cases rule: redeem_cases)
    case (taken k h lease)
    from taken(1,2) have h: "find_grant (fb_store b) (rq_grant_id q) = Some h"
      by (simp add: find_grant_def find_of_position)
    have active: "gr_status h = SecretGrantStatus.Active" using taken(4) by (simp add: validate_redeem_Ok)
    have "i \<noteq> rq_grant_id q" using h active step_redeem(2,3) by auto
    then have "find_grant (fb_store b') i = find_grant (fb_store b) i"
      using taken(1,2,3,6)
        find_list_update_other [OF taken(1), of "\<lambda>x. gr_grant_id x = i" "h\<lparr>gr_status := SecretGrantStatus.Redeemed\<rparr>"]
      by (simp add: find_grant_def)
    with step_redeem(2) show ?thesis by simp
  qed (use step_redeem in simp)
next
  case (step_renew io now lid b res b')
  from step_renew(1) show ?case
    by (cases rule: renew_cases) (use step_renew in \<open>auto simp: find_grant_def\<close>)
next
  case (step_revoke io lid b res b')
  from step_revoke(1) show ?case
    by (cases rule: revoke_cases) (use step_revoke in \<open>auto simp: find_grant_def\<close>)
qed

lemma redeemed_stays_steps:
  assumes "broker_step\<^sup>*\<^sup>* b b'" and "find_grant (fb_store b) i = Some g"
    and "gr_status g = SecretGrantStatus.Redeemed"
  shows "find_grant (fb_store b') i = Some g"
  using assms by (induction rule: rtranclp_induct) (auto intro: redeemed_stays)

section \<open>Properties\<close>

definition sample_grant :: SecretGrant where
  "sample_grant =
     (new_grant ''g'' (spiffe ''p''))\<lparr>gr_secret_refs := [''api-key''],
       gr_allowed_delivery_modes := [PullAfterEnroll],
       gr_lease_policy := \<lparr>lp_ttl_seconds = 900, lp_renewable = True, lp_max_ttl_seconds = Some 1800,
                           lp_max_renewals = Some 5\<rparr>,
       gr_status := SecretGrantStatus.Active\<rparr>"

definition sample_redeem :: SecretRedeemRequest where
  "sample_redeem =
     \<lparr>rq_grant_id = ''g'', rq_principal = spiffe ''p'', rq_requested_delivery_mode = PullAfterEnroll,
      rq_observed = \<lparr>ro_agent_instance_id = None, ro_placement_id = None, ro_package_digest = None,
                     ro_image_digest = None\<rparr>\<rparr>"

definition sample_store_io :: store_io where
  "sample_store_io =
     \<lparr>sio_create_dir_all = Ok (), sio_to_json = \<lambda>_. Ok ''{}'', sio_from_json = \<lambda>_. Err ''json'',
      sio_write = \<lambda>json _. (Ok (), Some json)\<rparr>"

definition full_disk :: store_io where
  "full_disk = sample_store_io\<lparr>sio_write := \<lambda>_ old. (Err ''no space left on device'', old)\<rparr>"

definition sample_broker :: FileSecretGrantBroker where
  "sample_broker = \<lparr>fb_path = ''f'', fb_store = default_store\<lparr>st_grants := [sample_grant]\<rparr>, fb_file = None\<rparr>"

definition sample_lease :: SecretLease where
  "sample_lease = issue_lease ''f'' 1000 (fb_store sample_broker) sample_grant"

definition sample_leased :: FileSecretGrantBroker where
  "sample_leased = \<lparr>fb_path = ''f'',
     fb_store = \<lparr>st_schema_version = 1,
                 st_grants = [sample_grant\<lparr>gr_status := SecretGrantStatus.Redeemed\<rparr>],
                 st_leases = [sample_lease]\<rparr>, fb_file = Some ''{}''\<rparr>"

lemma sample_redeemed:
  "\<exists>r :: unit SecretRedeemResponse.
     redeem_grant sample_store_io 1000 sample_redeem sample_broker = (Ok r, sample_leased)"
  by (simp add: redeem_grant_def sample_redeem_def sample_broker_def sample_grant_def new_grant_def
      validate_redeem_request_def allows_delivery_mode_def default_constraints_def check_constraint_def
      commit_def persist_locked_def sample_store_io_def Let_def sample_leased_def sample_lease_def
      default_store_def SECRET_GRANT_STORE_SCHEMA_VERSION_def and_then_def)

text \<open>
  C16: A grant is redeemed once.  When a redemption has issued a lease, or has failed while writing
  the store, no later redemption of that grant succeeds, whatever the broker does in between:
  each is denied and changes nothing.
\<close>

theorem grant_is_redeemed_once:
  assumes "redeem_grant io now q b = ((res :: SecretGrantError + unit SecretRedeemResponse), b1)"
    and "is_ok res \<or> (\<exists>m. res = Err (Backend m))" and "broker_step\<^sup>*\<^sup>* b1 b2"
    and "rq_grant_id q' = rq_grant_id q"
  shows "\<exists>e. redeem_grant io' now' q' b2 = (Err (SecretGrantError.Denied e), b2)"
  using assms(1)
proof (cases rule: redeem_cases)
  case refused
  with assms(2) show ?thesis by blast
next
  case (taken i g lease)
  have "find_grant (fb_store b1) (rq_grant_id q) = Some (g\<lparr>gr_status := SecretGrantStatus.Redeemed\<rparr>)"
    using taken(1,3,6) by (simp add: find_grant_def find_list_update)
  from redeemed_stays_steps [OF assms(3) this] assms(4)
  have "find_grant (fb_store b2) (rq_grant_id q') = Some (g\<lparr>gr_status := SecretGrantStatus.Redeemed\<rparr>)"
    by simp
  then show ?thesis by (rule file_broker.redeem_inactive) simp
qed

theorem grant_is_redeemed_once_witness:
  "\<exists>e. redeem_grant sample_store_io 2000 sample_redeem sample_leased =
         ((Err (SecretGrantError.Denied e) :: SecretGrantError + unit SecretRedeemResponse), sample_leased)"
proof -
  obtain r :: "unit SecretRedeemResponse" where
    r: "redeem_grant sample_store_io 1000 sample_redeem sample_broker = (Ok r, sample_leased)"
    using sample_redeemed by blast
  show ?thesis
    by (rule grant_is_redeemed_once [OF r _ rtranclp.rtrancl_refl refl]) simp
qed


text \<open>
  C17: Every lease of a broker that started from an empty store belongs to exactly one grant on
  file, which is redeemed; it carries exactly that grant's secrets, for that grant's principal, is
  the grant's only lease, has an identity no other lease has, and has been renewed at most as
  often as the grant allows, and never when the grant is not renewable.
\<close>

theorem leases_never_exceed_their_grant:
  assumes "fb_store b0 = default_store" and "broker_step\<^sup>*\<^sup>* b0 b"
    and "lease \<in> set (st_leases (fb_store b))"
  shows "(\<exists>g. find_grant (fb_store b) (ls_grant_id lease) = Some g \<and> lease_fits g lease) \<and>
         find_lease (fb_store b) (ls_lease_id lease) = Some lease \<and>
         (\<forall>other \<in> set (st_leases (fb_store b)). other \<noteq> lease \<longrightarrow>
            ls_lease_id other \<noteq> ls_lease_id lease \<and> ls_grant_id other \<noteq> ls_grant_id lease)"
proof -
  let ?st = "fb_store b"
  have wf: "wf_store ?st" using broker_steps_wf [OF assms(2)] assms(1) wf_default_store by simp
  have fits: "\<exists>g. find_grant ?st (ls_grant_id l) = Some g \<and> lease_fits g l" if "l \<in> set (st_leases ?st)" for l
  proof -
    from that wf obtain g where g: "g \<in> set (st_grants ?st)" "lease_fits g l" by (auto simp: wf_store_def)
    then have "find_grant ?st (ls_grant_id l) = Some g"
      by (simp add: find_grant_iff [OF wf] lease_fits_def)
    with g(2) show ?thesis by blast
  qed
  have one: "l = l'" if "l \<in> set (st_leases ?st)" "l' \<in> set (st_leases ?st)" "ls_grant_id l = ls_grant_id l'" for l l'
    using that wf inj_onD [of ls_grant_id "set (st_leases ?st)" l l'] by (simp add: wf_store_def distinct_map)
  have same_id: "l = l'" if l: "l \<in> set (st_leases ?st)" "l' \<in> set (st_leases ?st)"
    and "ls_lease_id l = ls_lease_id l'" for l l'
  proof -
    from fits [OF l(1)] fits [OF l(2)] have "ls_lease_id l = ''lease_'' @ ls_grant_id l @ ''_1''"
      and "ls_lease_id l' = ''lease_'' @ ls_grant_id l' @ ''_1''" by (blast dest: lease_fits_id)+
    with that(3) have "ls_grant_id l = ls_grant_id l'" by simp
    then show ?thesis by (rule one [OF l])
  qed
  from assms(3) obtain found where "find_lease ?st (ls_lease_id lease) = Some found"
    by (cases "find_lease ?st (ls_lease_id lease)") (auto simp: find_lease_def find_None_iff)
  moreover from this have "found \<in> set (st_leases ?st)" "ls_lease_id found = ls_lease_id lease"
    by (auto simp: find_lease_def find_Some_iff)
  ultimately have "find_lease ?st (ls_lease_id lease) = Some lease"
    using same_id [OF _ assms(3)] by simp
  moreover have "\<forall>other \<in> set (st_leases ?st). other \<noteq> lease \<longrightarrow>
      ls_lease_id other \<noteq> ls_lease_id lease \<and> ls_grant_id other \<noteq> ls_grant_id lease"
    using one [OF _ assms(3)] same_id [OF _ assms(3)] by blast
  ultimately show ?thesis using fits [OF assms(3)] by blast
qed

lemma sample_leased_reached:
  "broker_step\<^sup>*\<^sup>* \<lparr>fb_path = ''f'', fb_store = default_store, fb_file = None\<rparr>
     (sample_leased\<lparr>fb_file := Some ''{}''\<rparr>)"
proof -
  let ?b0 = "\<lparr>fb_path = ''f'', fb_store = default_store, fb_file = None\<rparr>"
  have trims: "trim ''g'' = ''g''" "trim ''p'' = ''p''" by code_simp+
  have "create_grant sample_store_io sample_grant ?b0 = (Ok sample_grant, sample_broker\<lparr>fb_file := Some ''{}''\<rparr>)"
    by (simp add: create_grant_def sample_grant_def new_grant_def spiffe_def trims find_grant_def
        default_store_def commit_def persist_locked_def sample_store_io_def sample_broker_def
        SECRET_GRANT_SCHEMA_VERSION_def)
  then have "broker_step ?b0 (sample_broker\<lparr>fb_file := Some ''{}''\<rparr>)" by (rule step_create)
  moreover have "\<exists>r :: unit SecretRedeemResponse. redeem_grant sample_store_io 1000 sample_redeem
      (sample_broker\<lparr>fb_file := Some ''{}''\<rparr>) = (Ok r, sample_leased\<lparr>fb_file := Some ''{}''\<rparr>)"
    using sample_redeemed
    by (simp add: redeem_grant_def sample_broker_def sample_redeem_def sample_grant_def new_grant_def
        validate_redeem_request_def allows_delivery_mode_def default_constraints_def check_constraint_def
        commit_def persist_locked_def sample_store_io_def Let_def sample_leased_def sample_lease_def
        default_store_def SECRET_GRANT_STORE_SCHEMA_VERSION_def and_then_def)
  then have "broker_step (sample_broker\<lparr>fb_file := Some ''{}''\<rparr>) (sample_leased\<lparr>fb_file := Some ''{}''\<rparr>)"
    by (auto intro: step_redeem)
  ultimately show ?thesis by (meson converse_rtranclp_into_rtranclp r_into_rtranclp)
qed

theorem leases_never_exceed_their_grant_witness:
  "\<exists>g. find_grant (fb_store sample_leased) (ls_grant_id sample_lease) = Some g \<and>
       ls_secret_refs sample_lease = gr_secret_refs g"
proof -
  have "sample_lease \<in> set (st_leases (fb_store (sample_leased\<lparr>fb_file := Some ''{}''\<rparr>)))"
    by (simp add: sample_leased_def)
  from leases_never_exceed_their_grant [OF _ sample_leased_reached this]
  show ?thesis by (auto simp: lease_fits_def)
qed

text \<open>
  Renewal looks at the status, the renewable flag and the number of renewals, and at nothing
  else: a lease is renewed for a full \<open>ttl_seconds\<close> from now, whether or not it had expired before,
  and whatever \<open>max_ttl_seconds\<close> the grant sets.
\<close>

theorem renewal_ignores_expiry_and_max_ttl:
  assumes "find_lease (fb_store b) lid = Some l" and "find_grant (fb_store b) (ls_grant_id l) = Some g"
    and "ls_status l = SecretLeaseStatus.Active" and "ls_renewable l" and "lp_renewable (gr_lease_policy g)"
    and "\<forall>m. lp_max_renewals (gr_lease_policy g) = Some m \<longrightarrow> ls_renewal_count l < m"
    and "\<forall>store. is_ok (fst (persist_locked io (b\<lparr>fb_store := store\<rparr>)))"
  shows "\<exists>l' b'. renew_lease io now lid b = (Ok l', b') \<and>
           ls_expires_at l' = epoch_timestamp (saturating_add now (lp_ttl_seconds (gr_lease_policy g))) \<and>
           ls_status l' = SecretLeaseStatus.Active"
proof -
  from assms(1) obtain i where i: "position (\<lambda>l. ls_lease_id l = lid) (st_leases (fb_store b)) = Some i"
    "l = st_leases (fb_store b) ! i"
    by (cases "position (\<lambda>l. ls_lease_id l = lid) (st_leases (fb_store b))")
      (auto simp: find_lease_def find_position)
  have commit: "\<exists>b'. commit io store result b = (Ok result, b')" for store and result :: SecretLease
    using assms(7) by (auto simp: commit_def split: prod.splits sum.splits) (metis fst_conv is_ok_simps(2))
  from assms(6) have "\<not> (case lp_max_renewals (gr_lease_policy g) of None \<Rightarrow> False
      | Some m \<Rightarrow> m \<le> ls_renewal_count l)" by (auto split: option.splits)
  with i assms(2-5) commit show ?thesis by (auto simp: renew_lease_def Let_def) fastforce
qed

theorem renewal_ignores_expiry_and_max_ttl_example:
  "\<exists>l' b'. renew_lease sample_store_io 1000000 ''lease_g_1'' sample_leased = (Ok l', b') \<and>
           ls_expires_at l' = epoch_timestamp 1000900 \<and>
           lp_max_ttl_seconds (gr_lease_policy sample_grant) = Some 1800 \<and>
           ls_issued_at sample_lease = epoch_timestamp 1000"
proof -
  let ?g = "sample_grant\<lparr>gr_status := SecretGrantStatus.Redeemed\<rparr>"
  have policy: "gr_lease_policy ?g = \<lparr>lp_ttl_seconds = 900, lp_renewable = True,
      lp_max_ttl_seconds = Some 1800, lp_max_renewals = Some 5\<rparr>"
    by (simp add: sample_grant_def)
  have lease: "ls_lease_id sample_lease = ''lease_g_1''" "ls_grant_id sample_lease = ''g''"
    "ls_status sample_lease = SecretLeaseStatus.Active" "ls_renewable sample_lease"
    "ls_renewal_count sample_lease = 0" "ls_issued_at sample_lease = epoch_timestamp 1000"
    by (simp_all add: sample_lease_def issue_lease_def next_lease_id_def sample_broker_def default_store_def
        sample_grant_def new_grant_def show_one)
  have found: "find_lease (fb_store sample_leased) ''lease_g_1'' = Some sample_lease"
    "find_grant (fb_store sample_leased) (ls_grant_id sample_lease) = Some ?g"
    by (simp_all add: sample_leased_def find_lease_def find_grant_def lease)
      (simp_all add: sample_grant_def new_grant_def)
  have "\<exists>l' b'. renew_lease sample_store_io 1000000 ''lease_g_1'' sample_leased = (Ok l', b') \<and>
      ls_expires_at l' = epoch_timestamp (saturating_add 1000000 (lp_ttl_seconds (gr_lease_policy ?g))) \<and>
      ls_status l' = SecretLeaseStatus.Active"
    by (rule renewal_ignores_expiry_and_max_ttl [OF found])
      (simp_all add: lease policy persist_locked_def sample_store_io_def)
  moreover have "saturating_add 1000000 (900 :: u64) = 1000900" by (simp add: saturating_add_def)
  ultimately show ?thesis using lease(6) by (auto simp: policy [simplified] sample_grant_def)
qed

text \<open>
  A grant whose creation fails because the store cannot be written is refused and created at
  the same time: the caller gets a backend error, yet the grant is on file and can be redeemed, and
  creating it again is refused because it already exists.
\<close>

theorem failed_creation_leaves_the_grant:
  assumes "create_grant io g b = (Err (Backend m), b')"
  shows "find_grant (fb_store b') (gr_grant_id g) = Some g \<and>
         (\<exists>e. create_grant io' g b' = (Err (InvalidRequest e), b'))"
  using assms
proof (cases rule: create_cases)
  case added
  then have "find_grant (fb_store b') (gr_grant_id g) = Some g"
    by (auto simp: find_grant_def find_append)
  with file_broker.create_taken [of b' g io'] show ?thesis by auto
qed simp

theorem failed_creation_leaves_the_grant_example:
  "\<exists>b' e. fst (create_grant full_disk sample_grant
             \<lparr>fb_path = ''f'', fb_store = default_store, fb_file = None\<rparr>) =
           Err (Backend ''could not write secret grant store: no space left on device'') \<and>
          create_grant sample_store_io sample_grant b' = (Err (InvalidRequest e), b')"
proof -
  let ?b0 = "\<lparr>fb_path = ''f'', fb_store = default_store, fb_file = None\<rparr>"
  have trims: "trim ''g'' = ''g''" "trim ''p'' = ''p''" by code_simp+
  have "\<exists>b'. create_grant full_disk sample_grant ?b0 =
      (Err (Backend ''could not write secret grant store: no space left on device''), b')"
    by (simp add: create_grant_def sample_grant_def new_grant_def spiffe_def trims find_grant_def
        default_store_def commit_def persist_locked_def full_disk_def sample_store_io_def
        SECRET_GRANT_SCHEMA_VERSION_def)
  then obtain b' where r: "create_grant full_disk sample_grant ?b0 =
      (Err (Backend ''could not write secret grant store: no space left on device''), b')" by blast
  with failed_creation_leaves_the_grant [OF r, of sample_store_io] show ?thesis by auto
qed

end
