(* ===== verification/Instance_Facts.thy ===== *)
theory Instance_Facts
  imports Ids
begin

text \<open>
  What Auspex knows about an Omegon instance beside its record: the observed control plane
  (\<open>runtime_types.rs\<close>) and the assessment of its version (\<open>compatibility.rs\<close>), the capability
  evidence (\<open>capability_registry.rs\<close>) and the operational profile an agent announces
  (\<open>operational_profile.rs\<close>).

  Two libraries are parameters.  \<open>semver\<close> is the crate of that name: parsing a version, and the
  order of versions.  \<open>json_api\<close> holds the accessors of \<open>serde_json::Value\<close> the code calls.
\<close>

section \<open>The observed control plane\<close>

record ObservedControlPlane =
  ocp_schema_version :: u32
  ocp_omegon_version :: string
  ocp_base_url :: string
  ocp_startup_url :: string
  ocp_health_url :: string
  ocp_ready_url :: string
  ocp_ws_url :: string
  ocp_acp_url :: "string option"
  ocp_auth_mode :: string
  ocp_token_ref :: "string option"
  ocp_transport_security :: "string option"
  ocp_mtls :: "bool option"
  ocp_tls_secret :: "string option"
  ocp_tls_profile :: "string option"
  ocp_tls_ca_epoch :: "string option"
  ocp_tls_leaf_epoch :: "string option"
  ocp_tls_leaf_validity :: "string option"
  ocp_ca_fingerprint_sha256 :: "string option"
  ocp_server_fingerprint_sha256 :: "string option"
  ocp_last_ready_at :: "string option"

definition default_control_plane :: ObservedControlPlane where
  "default_control_plane =
     \<lparr>ocp_schema_version = 0, ocp_omegon_version = [], ocp_base_url = [], ocp_startup_url = [],
      ocp_health_url = [], ocp_ready_url = [], ocp_ws_url = [], ocp_acp_url = None,
      ocp_auth_mode = [], ocp_token_ref = None, ocp_transport_security = None, ocp_mtls = None,
      ocp_tls_secret = None, ocp_tls_profile = None, ocp_tls_ca_epoch = None,
      ocp_tls_leaf_epoch = None, ocp_tls_leaf_validity = None, ocp_ca_fingerprint_sha256 = None,
      ocp_server_fingerprint_sha256 = None, ocp_last_ready_at = None\<rparr>"

section \<open>Compatibility\<close>

definition MINIMUM_OMEGON_VERSION :: string where
  "MINIMUM_OMEGON_VERSION = ''0.29.0-dev''"
definition MAXIMUM_TESTED_OMEGON_VERSION :: string where
  "MAXIMUM_TESTED_OMEGON_VERSION = ''0.29.0-dev''"
definition WEB_STARTUP_SCHEMA_VERSION :: u32 where "WEB_STARTUP_SCHEMA_VERSION = 2"
definition INSTANCE_DESCRIPTOR_SCHEMA_VERSION :: u32 where
  "INSTANCE_DESCRIPTOR_SCHEMA_VERSION = 1"
definition CONTROL_PLANE_PROTOCOL_VERSION :: u32 where "CONTROL_PLANE_PROTOCOL_VERSION = 1"

datatype CompatibilityStatus = Compatible | Unsupported | Unknown

record CompatibilityIssue =
  issue_code :: string
  issue_detail :: string

record CompatibilityAssessment =
  ca_status :: CompatibilityStatus
  ca_minimum_omegon_version :: string
  ca_maximum_tested_omegon_version :: string
  ca_expected_web_startup_schema :: u32
  ca_expected_instance_descriptor_schema :: u32
  ca_expected_control_plane_protocol :: u32
  ca_observed_omegon_version :: "string option"
  ca_observed_schema_version :: "u32 option"
  ca_issues :: "CompatibilityIssue list"

definition new_issue :: "string \<Rightarrow> string \<Rightarrow> CompatibilityIssue" where
  "new_issue code detail = \<lparr>issue_code = code, issue_detail = detail\<rparr>"

definition with_issues ::
  "CompatibilityStatus \<Rightarrow> string option \<Rightarrow> u32 option \<Rightarrow> CompatibilityIssue list \<Rightarrow>
     CompatibilityAssessment"
where
  "with_issues status observed_omegon_version observed_schema_version issues =
     \<lparr>ca_status = status, ca_minimum_omegon_version = MINIMUM_OMEGON_VERSION,
      ca_maximum_tested_omegon_version = MAXIMUM_TESTED_OMEGON_VERSION,
      ca_expected_web_startup_schema = WEB_STARTUP_SCHEMA_VERSION,
      ca_expected_instance_descriptor_schema = INSTANCE_DESCRIPTOR_SCHEMA_VERSION,
      ca_expected_control_plane_protocol = CONTROL_PLANE_PROTOCOL_VERSION,
      ca_observed_omegon_version = observed_omegon_version,
      ca_observed_schema_version = observed_schema_version, ca_issues = issues\<rparr>"

definition compatible :: "string \<Rightarrow> u32 \<Rightarrow> CompatibilityAssessment" where
  "compatible observed_omegon_version observed_schema_version =
     \<lparr>ca_status = Compatible, ca_minimum_omegon_version = MINIMUM_OMEGON_VERSION,
      ca_maximum_tested_omegon_version = MAXIMUM_TESTED_OMEGON_VERSION,
      ca_expected_web_startup_schema = WEB_STARTUP_SCHEMA_VERSION,
      ca_expected_instance_descriptor_schema = INSTANCE_DESCRIPTOR_SCHEMA_VERSION,
      ca_expected_control_plane_protocol = CONTROL_PLANE_PROTOCOL_VERSION,
      ca_observed_omegon_version = Some observed_omegon_version,
      ca_observed_schema_version = Some observed_schema_version, ca_issues = []\<rparr>"

definition is_compatible :: "CompatibilityAssessment \<Rightarrow> bool" where
  "is_compatible a \<longleftrightarrow> ca_status a = Compatible"

text \<open>
  The crate \<open>semver\<close>.  The code parses the pinned minimum at every call and unwraps it with
  \<open>expect\<close>; \<open>sv_minimum\<close> is the version that parse yields.
\<close>

record 'ver semver =
  sv_parse :: "string \<Rightarrow> 'ver option"
  sv_less :: "'ver \<Rightarrow> 'ver \<Rightarrow> bool"
  sv_minimum :: 'ver

definition parse_omegon_version :: "'ver semver \<Rightarrow> string \<Rightarrow> 'ver option" where
  "parse_omegon_version sv version = sv_parse sv (trim_start_char (CHR ''v'') (trim version))"

definition version_issues :: "'ver semver \<Rightarrow> string \<Rightarrow> CompatibilityIssue list" where
  "version_issues sv version_text =
     (case parse_omegon_version sv version_text of
        None \<Rightarrow> [new_issue ''invalid_omegon_version''
                  (''Omegon version '' @ [CHR 0x27] @ version_text @ [CHR 0x27] @
                   '' is not valid semver'')]
      | Some version \<Rightarrow>
          if sv_less sv version (sv_minimum sv)
          then [new_issue ''omegon_version_unsupported''
                  (''Omegon '' @ version_text @ '' is older than required '' @
                   MINIMUM_OMEGON_VERSION)]
          else [])"

definition known_version :: "ObservedControlPlane \<Rightarrow> string option" where
  "known_version cp =
     (if trim (ocp_omegon_version cp) = [] \<or> ocp_omegon_version cp = ''unknown'' then None
      else Some (ocp_omegon_version cp))"

definition assess_observed_control_plane ::
  "'ver semver \<Rightarrow> ObservedControlPlane \<Rightarrow> CompatibilityAssessment"
where
  "assess_observed_control_plane sv cp =
     (let observed_version = known_version cp;
          missing = (if observed_version = None
                     then [new_issue ''missing_omegon_version''
                             ''Omegon version is absent or unknown'']
                     else []);
          schema = (if ocp_schema_version cp \<noteq> WEB_STARTUP_SCHEMA_VERSION
                    then [new_issue ''web_startup_schema_mismatch''
                            (''expected web startup schema '' @
                             show_nat (unat WEB_STARTUP_SCHEMA_VERSION) @ '', observed '' @
                             show_nat (unat (ocp_schema_version cp)))]
                    else []);
          version = (case observed_version of
                       None \<Rightarrow> []
                     | Some version_text \<Rightarrow> version_issues sv version_text);
          issues = missing @ schema @ version
      in if issues = [] then compatible (ocp_omegon_version cp) (ocp_schema_version cp)
         else with_issues (if observed_version = None then Unknown else Unsupported)
                observed_version (Some (ocp_schema_version cp)) issues)"

text \<open>
  An instance is compatible exactly when it names a version that parses, is not older than the
  minimum, and speaks the expected startup schema; it is then without issues, and unknown exactly
  when it names no version.
\<close>

lemma assess_compatible_iff:
  "ca_status (assess_observed_control_plane sv cp) = Compatible \<longleftrightarrow>
     ocp_schema_version cp = WEB_STARTUP_SCHEMA_VERSION \<and>
     (\<exists>text version. known_version cp = Some text \<and> parse_omegon_version sv text = Some version \<and>
        \<not> sv_less sv version (sv_minimum sv))"
  by (cases "known_version cp"; cases "parse_omegon_version sv (the (known_version cp))")
    (auto simp: assess_observed_control_plane_def Let_def version_issues_def compatible_def
      with_issues_def)

lemma assess_issues_iff:
  "ca_issues (assess_observed_control_plane sv cp) = [] \<longleftrightarrow>
     ca_status (assess_observed_control_plane sv cp) = Compatible"
  by (auto simp: assess_observed_control_plane_def Let_def compatible_def with_issues_def)

lemma assess_unknown_iff:
  "ca_status (assess_observed_control_plane sv cp) = Unknown \<longleftrightarrow> known_version cp = None"
  by (auto simp: assess_observed_control_plane_def Let_def compatible_def with_issues_def)

section \<open>Capability evidence\<close>

datatype CapabilityKind = Binary | Extension | HostAction | Tool | Runtime | Service | Package

record CapabilityKey =
  key_kind :: CapabilityKind
  key_name :: string

datatype CapabilityStatus = Present | Missing | Installable | Unsupported | Unknown

datatype CapabilitySource =
    InstanceDescriptor
  | AcpInitializeMetadata string
  | NexResolver
  | ArmoryArtifact string
  | HostActionPolicy
  | OperatorDeclared

record CapabilityEvidence =
  ev_key :: CapabilityKey
  ev_status :: CapabilityStatus
  ev_source :: CapabilitySource
  ev_detail :: "string option"
  ev_observed_at :: "string option"

record InstanceCapabilitySnapshot =
  cap_instance_id :: string
  cap_evidence :: "CapabilityEvidence list"

definition tool_key :: "string \<Rightarrow> CapabilityKey" where
  "tool_key name = \<lparr>key_kind = Tool, key_name = name\<rparr>"

definition evidence_present :: "CapabilityKey \<Rightarrow> CapabilitySource \<Rightarrow> CapabilityEvidence" where
  "evidence_present key source =
     \<lparr>ev_key = key, ev_status = CapabilityStatus.Present, ev_source = source, ev_detail = None,
      ev_observed_at = None\<rparr>"

definition evidence_installable ::
  "CapabilityKey \<Rightarrow> CapabilitySource \<Rightarrow> string \<Rightarrow> CapabilityEvidence"
where
  "evidence_installable key source detail =
     \<lparr>ev_key = key, ev_status = Installable, ev_source = source, ev_detail = Some detail,
      ev_observed_at = None\<rparr>"

definition new_capabilities :: "string \<Rightarrow> InstanceCapabilitySnapshot" where
  "new_capabilities instance_id = \<lparr>cap_instance_id = instance_id, cap_evidence = []\<rparr>"

definition add_evidence ::
  "CapabilityEvidence \<Rightarrow> InstanceCapabilitySnapshot \<Rightarrow> InstanceCapabilitySnapshot"
where
  "add_evidence evidence snap = snap\<lparr>cap_evidence := cap_evidence snap @ [evidence]\<rparr>"

definition has_present :: "InstanceCapabilitySnapshot \<Rightarrow> CapabilityKey \<Rightarrow> bool" where
  "has_present snap key \<longleftrightarrow>
     (\<exists>e \<in> set (cap_evidence snap). ev_key e = key \<and> ev_status e = CapabilityStatus.Present)"

definition from_instance_descriptor_capabilities ::
  "string \<Rightarrow> string list \<Rightarrow> InstanceCapabilitySnapshot"
where
  "from_instance_descriptor_capabilities instance_id capabilities =
     fold (\<lambda>capability. add_evidence
             (evidence_present (tool_key capability) CapabilitySource.InstanceDescriptor))
       capabilities (new_capabilities instance_id)"

lemma descriptor_capabilities_evidence:
  "cap_evidence (from_instance_descriptor_capabilities i caps) =
     map (\<lambda>c. evidence_present (tool_key c) CapabilitySource.InstanceDescriptor) caps"
proof -
  have "cap_evidence (fold (\<lambda>c. add_evidence (evidence_present (tool_key c)
          CapabilitySource.InstanceDescriptor)) caps s) =
        cap_evidence s @ map (\<lambda>c. evidence_present (tool_key c) CapabilitySource.InstanceDescriptor) caps"
    for s
    by (induction caps arbitrary: s) (simp_all add: add_evidence_def)
  then show ?thesis
    by (simp add: from_instance_descriptor_capabilities_def new_capabilities_def)
qed

lemma has_present_descriptor:
  "has_present (from_instance_descriptor_capabilities i caps) key \<longleftrightarrow>
     key_kind key = Tool \<and> key_name key \<in> set caps"
  by (cases key) (auto simp: has_present_def descriptor_capabilities_evidence evidence_present_def
      tool_key_def)

end
