(* ===== verification/Descriptors.thy ===== *)
theory Descriptors
  imports Ids
begin

text \<open>
  The descriptors an Omegon instance sends (\<open>omegon_control.rs\<close>) and the copies of them in the
  session data of the shell (\<open>fixtures.rs\<close>): plain data with the accessors the code defines on
  it.  Of \<open>SessionData\<close> the fields are kept that the modelled components read; the others
  belong to the screens.
\<close>

section \<open>Omegon descriptors\<close>

record OmegonInstanceIdentity =
  oid_instance_id :: string
  oid_role :: string
  oid_profile :: string
  oid_status :: string

record OmegonWorkspaceDescriptor =
  owd_cwd :: "string option"
  owd_workspace_id :: "string option"
  owd_branch :: "string option"

record OmegonControlPlaneDescriptor =
  ocd_schema_version :: u32
  ocd_omegon_version :: "string option"
  ocd_base_url :: "string option"
  ocd_startup_url :: "string option"
  ocd_state_url :: "string option"
  ocd_health_url :: "string option"
  ocd_ready_url :: "string option"
  ocd_ws_url :: "string option"
  ocd_acp_url :: "string option"
  ocd_auth_mode :: "string option"
  ocd_token_ref :: "string option"
  ocd_transport_security :: "string option"
  ocd_mtls :: "bool option"
  ocd_tls_secret :: "string option"
  ocd_tls_profile :: "string option"
  ocd_tls_ca_epoch :: "string option"
  ocd_tls_leaf_epoch :: "string option"
  ocd_tls_leaf_validity :: "string option"
  ocd_ca_fingerprint_sha256 :: "string option"
  ocd_server_fingerprint_sha256 :: "string option"
  ocd_last_ready_at :: "string option"
  ocd_last_verified_at :: "string option"
  ocd_ipc_socket_path :: "string option"
  ocd_capabilities :: "string list"

text \<open>\<open>filter(|value| !value.is_empty())\<close> on an optional string.\<close>

definition non_empty :: "string option \<Rightarrow> string option" where
  "non_empty v = (case v of None \<Rightarrow> None | Some s \<Rightarrow> if s = [] then None else Some s)"

lemma non_empty_simps [simp]:
  "non_empty None = None" "non_empty (Some []) = None" "non_empty (Some (c # s)) = Some (c # s)"
  by (simp_all add: non_empty_def)

lemma non_empty_Some: "non_empty v = Some s \<longleftrightarrow> v = Some s \<and> s \<noteq> []"
  by (auto simp: non_empty_def split: option.splits)

definition trim_end_char :: "char \<Rightarrow> string \<Rightarrow> string" where
  "trim_end_char c s = rev (dropWhile (\<lambda>x. x = c) (rev s))"

definition assistant_list_url :: "OmegonControlPlaneDescriptor \<Rightarrow> string option" where
  "assistant_list_url d =
     map_option (\<lambda>base_url. trim_end_char (CHR ''/'') base_url @ ''/api/capabilities/assistants'')
       (non_empty (map_option trim (ocd_base_url d)))"

record OmegonContainerSubstrate =
  ocs_detected :: bool
  ocs_runtime :: "string option"
  ocs_image :: "string option"
  ocs_image_digest :: "string option"
  ocs_container_id :: "string option"
  ocs_orchestrator :: "string option"

record OmegonExecutionSubstratePaths =
  osp_workspace :: string
  osp_omegon_home :: string
  osp_home :: "string option"

record OmegonExecutionSubstrateCapabilities =
  osc_can_launch_sibling_containers :: bool
  osc_can_mount_host_paths :: bool
  osc_can_write_workspace :: bool
  osc_has_host_runtime :: bool
  osc_has_kubernetes_service_account :: bool

record OmegonExecutionSubstrate =
  oes_kind :: string
  oes_container :: "OmegonContainerSubstrate option"
  oes_paths :: OmegonExecutionSubstratePaths
  oes_capabilities :: OmegonExecutionSubstrateCapabilities

definition is_host_native :: "OmegonExecutionSubstrate \<Rightarrow> bool" where
  "is_host_native s \<longleftrightarrow> oes_kind s = ''host-native'' \<or> oes_kind s = ''HostNative''"

definition is_host_shim_oci :: "OmegonExecutionSubstrate \<Rightarrow> bool" where
  "is_host_shim_oci s \<longleftrightarrow> oes_kind s = ''host-shim-oci'' \<or> oes_kind s = ''HostShimOci''"

definition is_orchestrated_container :: "OmegonExecutionSubstrate \<Rightarrow> bool" where
  "is_orchestrated_container s \<longleftrightarrow>
     oes_kind s \<in> {''orchestrated-container'', ''OrchestratedContainer'', ''kubernetes'',
                   ''Kubernetes''}"

record OmegonRuntimeDescriptor =
  ord_backend :: "string option"
  ord_host :: "string option"
  ord_pid :: "u32 option"
  ord_placement_id :: "string option"
  ord_namespace :: "string option"
  ord_pod_name :: "string option"
  ord_container_name :: "string option"
  ord_health :: "string option"
  ord_provider_ok :: bool
  ord_memory_ok :: bool
  ord_cleave_available :: bool
  ord_context_class :: "string option"
  ord_thinking_level :: "string option"
  ord_capability_tier :: "string option"
  ord_runtime_profile :: "string option"
  ord_autonomy_mode :: "string option"
  ord_active_persona :: "string option"
  ord_extensions :: "string list"
  ord_execution_substrate :: "OmegonExecutionSubstrate option"

record OmegonSessionDescriptor =
  osd_session_id :: "string option"

record OmegonPolicyDescriptor =
  opd_model :: "string option"
  opd_thinking_level :: "string option"
  opd_capability_tier :: "string option"

record OmegonInstanceDescriptor =
  odesc_identity :: OmegonInstanceIdentity
  odesc_workspace :: "OmegonWorkspaceDescriptor option"
  odesc_control_plane :: "OmegonControlPlaneDescriptor option"
  odesc_runtime :: "OmegonRuntimeDescriptor option"
  odesc_session :: "OmegonSessionDescriptor option"
  odesc_policy :: "OmegonPolicyDescriptor option"

section \<open>Session data\<close>

record InstanceIdentityData =
  iid_instance_id :: string
  iid_role :: string
  iid_profile :: string
  iid_status :: string

record InstanceWorkspaceData =
  iwd_cwd :: "string option"
  iwd_workspace_id :: "string option"
  iwd_branch :: "string option"

record InstanceControlPlaneData =
  icp_schema_version :: u32
  icp_omegon_version :: "string option"
  icp_base_url :: "string option"
  icp_startup_url :: "string option"
  icp_state_url :: "string option"
  icp_health_url :: "string option"
  icp_ready_url :: "string option"
  icp_ws_url :: "string option"
  icp_acp_url :: "string option"
  icp_auth_mode :: "string option"
  icp_token_ref :: "string option"
  icp_transport_security :: "string option"
  icp_mtls :: "bool option"
  icp_tls_secret :: "string option"
  icp_tls_profile :: "string option"
  icp_tls_ca_epoch :: "string option"
  icp_tls_leaf_epoch :: "string option"
  icp_tls_leaf_validity :: "string option"
  icp_ca_fingerprint_sha256 :: "string option"
  icp_server_fingerprint_sha256 :: "string option"
  icp_last_ready_at :: "string option"
  icp_last_verified_at :: "string option"
  icp_capabilities :: "string list"

record InstanceRuntimeData =
  ird_backend :: "string option"
  ird_host :: "string option"
  ird_pid :: "u32 option"
  ird_placement_id :: "string option"
  ird_namespace :: "string option"
  ird_pod_name :: "string option"
  ird_container_name :: "string option"
  ird_execution_substrate :: "OmegonExecutionSubstrate option"

record InstanceSessionDescriptorData =
  isd_session_id :: "string option"

record InstancePolicyData =
  ipd_model :: "string option"
  ipd_thinking_level :: "string option"
  ipd_capability_tier :: "string option"

record InstanceDescriptorData =
  idd_identity :: InstanceIdentityData
  idd_workspace :: "InstanceWorkspaceData option"
  idd_control_plane :: "InstanceControlPlaneData option"
  idd_runtime :: "InstanceRuntimeData option"
  idd_session :: "InstanceSessionDescriptorData option"
  idd_policy :: "InstancePolicyData option"

record DispatcherOptionData =
  dod_profile :: string
  dod_label :: string
  dod_model :: "string option"

record DispatcherSwitchStateData =
  dss_request_id :: "string option"
  dss_requested_profile :: "string option"
  dss_requested_model :: "string option"
  dss_status :: string
  dss_failure_code :: "string option"
  dss_note :: "string option"

record DispatcherBindingData =
  dbd_session_id :: string
  dbd_dispatcher_instance_id :: string
  dbd_expected_role :: string
  dbd_expected_profile :: string
  dbd_expected_model :: "string option"
  dbd_control_plane_schema :: u32
  dbd_token_ref :: "string option"
  dbd_observed_base_url :: "string option"
  dbd_last_verified_at :: "string option"
  dbd_instance_descriptor :: "InstanceDescriptorData option"
  dbd_available_options :: "DispatcherOptionData list"
  dbd_switch_state :: "DispatcherSwitchStateData option"

record 'v SessionData =
  sd_instance_descriptor :: "InstanceDescriptorData option"
  sd_operational_profile_metadata :: "'v option"
  sd_dispatcher_binding :: "DispatcherBindingData option"

end
