(* ===== verification/Operational_Profile.thy ===== *)
theory Operational_Profile
  imports Descriptors
begin

text \<open>
  The operational profile of an agent (\<open>operational_profile.rs\<close>): its scope, the capabilities it
  offers and the policy it is held to, read from the metadata the agent announces when it is
  initialised, or derived from the state of an Omegon runtime.

  \<open>serde_json::Value\<close> is the parameter \<open>'v\<close>; \<open>json_api\<close> holds the accessors that are called
  and the constructor of a string value.
\<close>

record 'v json_api =
  js_get :: "'v \<Rightarrow> string \<Rightarrow> 'v option"
  js_pointer :: "'v \<Rightarrow> string \<Rightarrow> 'v option"
  js_as_str :: "'v \<Rightarrow> string option"
  js_as_bool :: "'v \<Rightarrow> bool option"
  js_as_u64 :: "'v \<Rightarrow> u64 option"
  js_string :: "string \<Rightarrow> 'v"

section \<open>Data\<close>

datatype OperationalScope = Project | Fleet | Host | Cluster

definition scope_from_str :: "string \<Rightarrow> OperationalScope option" where
  "scope_from_str value =
     (if value = ''project'' then Some Project
      else if value = ''fleet'' then Some Fleet
      else if value = ''host'' then Some Host
      else if value = ''cluster'' then Some Cluster
      else None)"

record OperationalCapabilities =
  opc_instance_registry :: bool
  opc_dispatch :: bool
  opc_supervision :: bool
  opc_host_actions :: bool
  opc_package_reconciliation :: bool
  opc_audit :: bool
  opc_fleet_projection :: bool
  opc_evidence_read_model :: bool
  opc_project_rules :: bool
  opc_nex_substrate :: bool
  opc_tdd_savepoint :: bool

datatype UnknownHostActionPolicy = Deny | Unsupported
datatype CapabilityDiscoveryPolicy = ReadOnly
datatype CrossProjectStatePolicy = ExplicitGrantOnly | Forbidden | Allowed

record OperationalPolicy =
  opp_host_action_mutation_requires_approval :: bool
  opp_unknown_host_actions :: UnknownHostActionPolicy
  opp_capability_discovery :: CapabilityDiscoveryPolicy
  opp_dispatch_requires_compatible_instance :: bool
  opp_cross_project_state :: CrossProjectStatePolicy

record 'v OperationalProfile =
  op_name :: string
  op_version :: string
  op_scope :: OperationalScope
  op_recommended_profile :: string
  op_required_profile :: string
  op_capability_contract_version :: u32
  op_capabilities :: OperationalCapabilities
  op_policy :: OperationalPolicy
  op_meta :: "(string, 'v) btree"

section \<open>Reading metadata\<close>

definition orchestrator_capabilities :: OperationalCapabilities where
  "orchestrator_capabilities =
     \<lparr>opc_instance_registry = True, opc_dispatch = True, opc_supervision = True,
      opc_host_actions = True, opc_package_reconciliation = True, opc_audit = True,
      opc_fleet_projection = True, opc_evidence_read_model = True, opc_project_rules = True,
      opc_nex_substrate = True, opc_tdd_savepoint = True\<rparr>"

definition default_capabilities :: OperationalCapabilities where
  "default_capabilities =
     \<lparr>opc_instance_registry = False, opc_dispatch = False, opc_supervision = False,
      opc_host_actions = False, opc_package_reconciliation = False, opc_audit = False,
      opc_fleet_projection = False, opc_evidence_read_model = False, opc_project_rules = False,
      opc_nex_substrate = False, opc_tdd_savepoint = False\<rparr>"

definition string_field :: "'v json_api \<Rightarrow> 'v \<Rightarrow> string \<Rightarrow> string option" where
  "string_field js value field = non_empty (Option.bind (js_get js value field) (js_as_str js))"

definition bool_field :: "'v json_api \<Rightarrow> 'v \<Rightarrow> string \<Rightarrow> bool" where
  "bool_field js value field =
     unwrap_or (Option.bind (js_get js value field) (js_as_bool js)) False"

definition capabilities_from_metadata :: "'v json_api \<Rightarrow> 'v option \<Rightarrow> OperationalCapabilities" where
  "capabilities_from_metadata js metadata =
     (case metadata of
        None \<Rightarrow> default_capabilities
      | Some value \<Rightarrow>
          \<lparr>opc_instance_registry = bool_field js value ''instance_registry'',
           opc_dispatch = bool_field js value ''dispatch'',
           opc_supervision = bool_field js value ''supervision'',
           opc_host_actions = bool_field js value ''host_actions'',
           opc_package_reconciliation = bool_field js value ''package_reconciliation'',
           opc_audit = bool_field js value ''audit'',
           opc_fleet_projection = bool_field js value ''fleet_projection'',
           opc_evidence_read_model = bool_field js value ''evidence_read_model'',
           opc_project_rules = bool_field js value ''project_rules'',
           opc_nex_substrate = bool_field js value ''nex_substrate'',
           opc_tdd_savepoint = bool_field js value ''tdd_savepoint''\<rparr>)"

definition unknown_host_actions_from_str :: "string \<Rightarrow> UnknownHostActionPolicy option" where
  "unknown_host_actions_from_str value =
     (if value = ''deny'' then Some Deny else if value = ''unsupported'' then Some Unsupported
      else None)"

definition capability_discovery_from_str :: "string \<Rightarrow> CapabilityDiscoveryPolicy option" where
  "capability_discovery_from_str value = (if value = ''read_only'' then Some ReadOnly else None)"

definition cross_project_state_from_str :: "string \<Rightarrow> CrossProjectStatePolicy option" where
  "cross_project_state_from_str value =
     (if value = ''explicit_grant_only'' then Some ExplicitGrantOnly
      else if value = ''forbidden'' then Some Forbidden
      else if value = ''allowed'' then Some Allowed else None)"

definition default_orchestrator :: OperationalPolicy where
  "default_orchestrator =
     \<lparr>opp_host_action_mutation_requires_approval = True, opp_unknown_host_actions = Deny,
      opp_capability_discovery = ReadOnly, opp_dispatch_requires_compatible_instance = True,
      opp_cross_project_state = ExplicitGrantOnly\<rparr>"

text \<open>\<open>get(field).and_then(as_str).and_then(from_str)\<close>.\<close>

definition enum_field :: "'v json_api \<Rightarrow> (string \<Rightarrow> 'a option) \<Rightarrow> 'v \<Rightarrow> string \<Rightarrow> 'a option" where
  "enum_field js from_str value field =
     Option.bind (Option.bind (js_get js value field) (js_as_str js)) from_str"

definition policy_from_metadata :: "'v json_api \<Rightarrow> 'v option \<Rightarrow> OperationalPolicy" where
  "policy_from_metadata js metadata =
     (case metadata of
        None \<Rightarrow> default_orchestrator
      | Some value \<Rightarrow>
          \<lparr>opp_host_action_mutation_requires_approval =
             bool_field js value ''host_action_mutation_requires_approval'',
           opp_unknown_host_actions =
             unwrap_or (enum_field js unknown_host_actions_from_str value ''unknown_host_actions'') Deny,
           opp_capability_discovery =
             unwrap_or (enum_field js capability_discovery_from_str value ''capability_discovery'')
               ReadOnly,
           opp_dispatch_requires_compatible_instance =
             bool_field js value ''dispatch_requires_compatible_instance'',
           opp_cross_project_state =
             unwrap_or (enum_field js cross_project_state_from_str value ''cross_project_state'')
               ExplicitGrantOnly\<rparr>)"

definition auspex_orchestrator :: "string \<Rightarrow> 'v OperationalProfile" where
  "auspex_orchestrator version =
     \<lparr>op_name = ''auspex-orchestrator'', op_version = version, op_scope = Fleet,
      op_recommended_profile = ''auspex-orchestrator'',
      op_required_profile = ''auspex-orchestrator'', op_capability_contract_version = 1,
      op_capabilities = orchestrator_capabilities, op_policy = default_orchestrator,
      op_meta = bt_empty\<rparr>"

text \<open>\<open>unwrap_or(1) as u32\<close> keeps the low 32 bits.\<close>

definition from_initialize_metadata :: "'v json_api \<Rightarrow> 'v \<Rightarrow> 'v OperationalProfile option" where
  "from_initialize_metadata js metadata =
     (let root = unwrap_or (or_else (js_pointer js metadata ''/_meta/auspex'')
                              (js_pointer js metadata ''/meta/auspex'')) metadata
      in case or_else (js_get js root ''runtime_info'') (js_get js root ''extension_info'') of
           None \<Rightarrow> None
         | Some info \<Rightarrow>
             (case string_field js info ''name'' of
                None \<Rightarrow> None
              | Some name \<Rightarrow>
                  let recommended_profile =
                        unwrap_or (string_field js info ''recommended_profile'') name
                  in Some
                       \<lparr>op_name = name, op_version = unwrap_or (string_field js info ''version'') [],
                        op_scope = unwrap_or
                          (Option.bind (string_field js info ''scope'') scope_from_str) Fleet,
                        op_recommended_profile = recommended_profile,
                        op_required_profile =
                          unwrap_or (string_field js info ''required_profile'') recommended_profile,
                        op_capability_contract_version =
                          ucast (unwrap_or
                            (Option.bind (js_get js info ''capability_contract_version'')
                               (js_as_u64 js)) 1),
                        op_capabilities = capabilities_from_metadata js (js_get js root ''capabilities''),
                        op_policy = policy_from_metadata js (js_get js root ''policy''),
                        op_meta = bt_empty\<rparr>))"

section \<open>Deriving a profile from the runtime\<close>

definition harness_keys :: "string list" where
  "harness_keys =
     [''operating_profile'', ''authorization'', ''principal_id'', ''identity_issuer'', ''posture'',
      ''session_kind'']"

definition insert_string ::
  "'v json_api \<Rightarrow> string \<Rightarrow> string option \<Rightarrow> (string, 'v) btree \<Rightarrow> (string, 'v) btree"
where
  "insert_string js key value meta =
     (case value of None \<Rightarrow> meta | Some v \<Rightarrow> bt_insert key (js_string js v) meta)"

definition runtime_meta ::
  "'v json_api \<Rightarrow> string \<Rightarrow> OmegonRuntimeDescriptor option \<Rightarrow> 'v option \<Rightarrow> (string, 'v) btree"
where
  "runtime_meta js runtime_profile runtime harness =
     (let base = insert_string js ''raw_runtime_profile'' (Some runtime_profile)
                   (insert_string js ''source'' (Some ''derived_from_omegon_state'') bt_empty);
          described =
            (case runtime of
               None \<Rightarrow> base
             | Some r \<Rightarrow>
                 insert_string js ''raw_capability_tier'' (ord_capability_tier r)
                   (insert_string js ''raw_context_class'' (ord_context_class r)
                     (insert_string js ''raw_autonomy_mode'' (ord_autonomy_mode r) base)))
      in case harness of
           None \<Rightarrow> described
         | Some h \<Rightarrow>
             fold (\<lambda>key. insert_string js (''harness_'' @ key)
                           (Option.bind (js_get js h key) (js_as_str js)))
               harness_keys described)"

definition any_prefix :: "string list \<Rightarrow> string list \<Rightarrow> bool" where
  "any_prefix prefixes capabilities \<longleftrightarrow>
     list_ex (\<lambda>c. list_ex (starts_with c) prefixes) capabilities"

definition evidence_capabilities :: "string list \<Rightarrow> OperationalCapabilities" where
  "evidence_capabilities capabilities =
     \<lparr>opc_instance_registry =
        List.member capabilities ''state.snapshot'' \<or> List.member capabilities ''session.list'',
      opc_dispatch = List.member capabilities ''prompt.submit'',
      opc_supervision =
        List.member capabilities ''dispatcher.switch'' \<or> List.member capabilities ''turn.cancel'',
      opc_host_actions =
        list_ex (\<lambda>c. List.member c (CHR 0x40)) capabilities \<or>
        any_prefix [''host_action.'', ''host-action.''] capabilities,
      opc_package_reconciliation = List.member capabilities ''package.install@1'',
      opc_audit = False,
      opc_fleet_projection = List.member capabilities ''state.snapshot'',
      opc_evidence_read_model =
        any_prefix [''evidence.'', ''evidence/''] capabilities \<or>
        List.member capabilities ''evidence.map.read'',
      opc_project_rules =
        any_prefix [''project-rules.'', ''project_rules.''] capabilities \<or>
        List.member capabilities ''project-rules.check'',
      opc_nex_substrate =
        any_prefix [''nex_substrate.'', ''nex-substrate.'', ''nex/substrate''] capabilities,
      opc_tdd_savepoint =
        any_prefix [''tdd_savepoint.'', ''tdd-savepoint.'', ''tdd.savepoint.''] capabilities\<rparr>"

definition from_omegon_runtime_evidence ::
  "'v json_api \<Rightarrow> OmegonInstanceDescriptor \<Rightarrow> 'v option \<Rightarrow> 'v OperationalProfile"
where
  "from_omegon_runtime_evidence js descriptor harness =
     (let runtime = odesc_runtime descriptor;
          control_plane = odesc_control_plane descriptor;
          runtime_profile =
            unwrap_or
              (or_else (Option.bind runtime ord_runtime_profile)
                 (Option.bind (Option.bind harness (\<lambda>h. js_get js h ''runtime_profile''))
                    (js_as_str js)))
              ''unknown''
      in \<lparr>op_name = ''omegon-runtime-derived'',
          op_version = unwrap_or (Option.bind control_plane ocd_omegon_version) [],
          op_scope = Host,
          op_recommended_profile = runtime_profile, op_required_profile = runtime_profile,
          op_capability_contract_version = 1,
          op_capabilities = evidence_capabilities
            (case control_plane of None \<Rightarrow> [] | Some cp \<Rightarrow> ocd_capabilities cp),
          op_policy = default_orchestrator,
          op_meta = runtime_meta js runtime_profile runtime harness\<rparr>)"

definition is_required_profile_satisfied_by :: "'v OperationalProfile \<Rightarrow> string \<Rightarrow> bool" where
  "is_required_profile_satisfied_by p profile \<longleftrightarrow> op_required_profile p = profile"

section \<open>Properties\<close>

lemma bool_field_absent: "js_get js value field = None \<Longrightarrow> \<not> bool_field js value field"
  by (simp add: bool_field_def)

lemma enum_field_absent: "js_get js value field = None \<Longrightarrow> enum_field js f value field = None"
  by (simp add: enum_field_def)

text \<open>Everything the derived metadata holds is a string value under a fixed or a harness key.\<close>

lemma bt_ok_insert_string: "bt_ok m \<Longrightarrow> bt_ok (insert_string js k v m)"
  by (cases v) (simp_all add: insert_string_def bt.ok_insert)

lemma bt_get_insert_string:
  "bt_ok m \<Longrightarrow> bt_get (insert_string js k v m) k' =
     (if k' = k \<and> v \<noteq> None then map_option (js_string js) v else bt_get m k')"
  by (cases v) (auto simp: insert_string_def bt.get_insert)

lemma insert_strings_ok:
  "bt_ok m \<Longrightarrow> bt_ok (fold (\<lambda>k. insert_string js (f k) (g k)) ks m)"
  by (induction ks arbitrary: m) (simp_all add: bt_ok_insert_string)

lemma runtime_meta_ok: "bt_ok (runtime_meta js p r h)"
  by (auto simp: runtime_meta_def Let_def insert_strings_ok bt_ok_insert_string bt.ok_empty
      split: option.splits)

text \<open>
  A policy object in the announced metadata replaces the default policy as a whole, and its
  two safety switches default to off.  An agent that announces a policy without naming the
  approval of host mutations or the compatibility of dispatch targets is held to neither, while
  an agent that announces no policy at all is held to both.
\<close>

theorem partial_policy_drops_safety_switches:
  assumes "js_get js value ''host_action_mutation_requires_approval'' = None"
    and "js_get js value ''dispatch_requires_compatible_instance'' = None"
  shows "\<not> opp_host_action_mutation_requires_approval (policy_from_metadata js (Some value)) \<and>
         \<not> opp_dispatch_requires_compatible_instance (policy_from_metadata js (Some value)) \<and>
         opp_host_action_mutation_requires_approval (policy_from_metadata js None) \<and>
         opp_dispatch_requires_compatible_instance (policy_from_metadata js None)"
  using assms by (simp add: policy_from_metadata_def bool_field_absent default_orchestrator_def)

text \<open>A finite JSON value for examples: strings, booleans and objects.\<close>

datatype demo_json = DStr string | DBool bool | DObj "(string \<times> demo_json) list"

definition demo_get :: "demo_json \<Rightarrow> string \<Rightarrow> demo_json option" where
  "demo_get v field = (case v of DObj members \<Rightarrow> map_of members field | _ \<Rightarrow> None)"

definition demo_api :: "demo_json json_api" where
  "demo_api =
     \<lparr>js_get = demo_get,
      js_pointer = (\<lambda>v path.
        if path = ''/_meta/auspex'' then Option.bind (demo_get v ''_meta'') (\<lambda>m. demo_get m ''auspex'')
        else if path = ''/meta/auspex'' then Option.bind (demo_get v ''meta'') (\<lambda>m. demo_get m ''auspex'')
        else None),
      js_as_str = (\<lambda>v. case v of DStr s \<Rightarrow> Some s | _ \<Rightarrow> None),
      js_as_bool = (\<lambda>v. case v of DBool b \<Rightarrow> Some b | _ \<Rightarrow> None),
      js_as_u64 = (\<lambda>v. None), js_string = DStr\<rparr>"

text \<open>The policy of the extension \<open>flynt\<close> in the tests of the module.\<close>

definition flynt_policy :: demo_json where
  "flynt_policy =
     DObj [(''unknown_host_actions'', DStr ''deny''), (''capability_discovery'', DStr ''read_only''),
           (''cross_project_state'', DStr ''forbidden'')]"

theorem partial_policy_drops_safety_switches_example:
  "\<not> opp_host_action_mutation_requires_approval (policy_from_metadata demo_api (Some flynt_policy)) \<and>
   opp_host_action_mutation_requires_approval (policy_from_metadata demo_api None) \<and>
   opp_cross_project_state (policy_from_metadata demo_api (Some flynt_policy)) = Forbidden"
proof -
  have "js_get demo_api flynt_policy ''host_action_mutation_requires_approval'' = None"
    and "js_get demo_api flynt_policy ''dispatch_requires_compatible_instance'' = None"
    by (simp_all add: demo_api_def demo_get_def flynt_policy_def)
  from partial_policy_drops_safety_switches [OF this] show ?thesis
    by (simp add: policy_from_metadata_def enum_field_def demo_api_def demo_get_def flynt_policy_def
        cross_project_state_from_str_def)
qed

end
