(* ===== verification/Worker_Types.thy ===== *)
theory Worker_Types
  imports Secret_Grants Instance_Facts Operational_Profile
begin

text \<open>
  The worker and instance types of \<open>runtime_types.rs\<close>: what a worker is asked to be
  (\<open>InstantiateRequest\<close>, \<open>DesiredWorkerState\<close>) and what has been observed of it
  (\<open>InstanceRecord\<close>, \<open>ObservedWorkerState\<close>).  Costs are IEEE doubles that no modelled
  operation reads: a cost is kept as its bit pattern.  The parameter \<open>'v\<close> is the JSON value
  that operational profiles carry.
\<close>

type_synonym f64 = "64 word"
type_synonym i32 = "32 word"

section \<open>Enumerations\<close>

datatype WorkerRole = PrimaryDriver | SupervisedChild | DetachedService
datatype OwnerKind = AuspexSession | DaemonOwned | External
datatype WorkerLifecycleState =
  Requested | Allocating | Starting | Ready | Busy | Degraded | Lost | Abandoned | Stopping
  | Exited | Reaped
datatype InstanceFreshness = Fresh | Stale | Lost | Abandoned | Reaped
datatype BackendKind = LocalProcess | LocalDetached | OciContainer | Kubernetes
datatype ThinkingLevel = Minimal | Low | Medium | High
datatype ToolPolicy = Full | Restricted | Bounded
datatype MemoryMode = Full | Minimal | ProjectOnly | ReferenceBased
datatype SecretMode = Reference | Mounted | InheritedEnv

definition from_descriptor_role :: "string \<Rightarrow> WorkerRole" where
  "from_descriptor_role role =
     (let r = to_ascii_lowercase (replace_char (CHR ''_'') (CHR ''-'') role)
      in if r \<in> {''primary-driver'', ''primary'', ''driver''} then PrimaryDriver
         else if r \<in> {''supervised-child'', ''delegate'', ''worker'', ''embedded-backend''}
           then SupervisedChild
         else if r \<in> {''detached-service'', ''remote-agent'', ''service'', ''host'', ''control-plane''}
           then DetachedService
         else PrimaryDriver)"

fun role_label :: "WorkerRole \<Rightarrow> string" where
  "role_label PrimaryDriver = ''primary-driver''"
| "role_label SupervisedChild = ''supervised-child''"
| "role_label DetachedService = ''detached-service''"

lemma from_descriptor_role_label [simp]: "from_descriptor_role (role_label r) = r"
  by (cases r) (simp_all add: from_descriptor_role_def replace_char_def to_ascii_lowercase_def
      ascii_lower_def Let_def)

text \<open>\<open>format!("{:?}", ..)\<close> of the role and of the backend: the derived \<open>Debug\<close> text.\<close>

fun debug_role :: "WorkerRole \<Rightarrow> string" where
  "debug_role PrimaryDriver = ''PrimaryDriver''"
| "debug_role SupervisedChild = ''SupervisedChild''"
| "debug_role DetachedService = ''DetachedService''"

fun debug_backend :: "BackendKind \<Rightarrow> string" where
  "debug_backend LocalProcess = ''LocalProcess''"
| "debug_backend LocalDetached = ''LocalDetached''"
| "debug_backend OciContainer = ''OciContainer''"
| "debug_backend Kubernetes = ''Kubernetes''"

section \<open>Requests\<close>

record WorkspaceBinding =
  wb_cwd :: string
  wb_workspace_id :: string
  wb_branch :: "string option"

record TaskBinding =
  tb_task_id :: string
  tb_purpose :: string
  tb_spec_binding :: "string option"

record ResourceRequirements =
  rr_cpu :: "string option"
  rr_memory :: "string option"

record InstantiateOverrides =
  io_provider :: "string option"
  io_model :: "string option"
  io_thinking_level :: "ThinkingLevel option"
  io_max_runtime_seconds :: "u64 option"
  io_max_cost_usd :: "f64 option"
  io_image :: "string option"
  io_namespace :: "string option"
  io_resources :: "ResourceRequirements option"
  io_tool_policy :: "ToolPolicy option"
  io_memory_mode :: "MemoryMode option"

record WorkerSecurityBinding =
  wsb_principal :: "SecretGrantPrincipal option"
  wsb_secret_refs :: "string list"
  wsb_grant_ids :: "string list"
  wsb_seed_plan_ids :: "string list"

definition default_security :: WorkerSecurityBinding where
  "default_security =
     \<lparr>wsb_principal = None, wsb_secret_refs = [], wsb_grant_ids = [], wsb_seed_plan_ids = []\<rparr>"

record PropagatedTaskContext =
  ptc_task_id :: string
  ptc_prompt :: string
  ptc_design_refs :: "string list"
  ptc_spec_refs :: "string list"
  ptc_memory_refs :: "string list"

record PropagatedAuth =
  pa_provider_refs :: "string list"
  pa_secret_mode :: SecretMode

record ResolvedPolicy =
  rp_base_profile :: string
  rp_resolved_model :: "string option"
  rp_thinking_level :: ThinkingLevel
  rp_tool_policy :: ToolPolicy
  rp_memory_mode :: MemoryMode
  rp_max_runtime_seconds :: "u64 option"
  rp_max_cost_usd :: "f64 option"

record WorkerPropagation =
  wp_workspace :: WorkspaceBinding
  wp_task_context :: "PropagatedTaskContext option"
  wp_auth :: PropagatedAuth
  wp_policy :: ResolvedPolicy

record InstantiateRequest =
  ir_schema_version :: u32
  ir_role :: WorkerRole
  ir_profile :: string
  ir_backend :: BackendKind
  ir_workspace :: WorkspaceBinding
  ir_parent_instance_id :: "string option"
  ir_task :: "TaskBinding option"
  ir_overrides :: InstantiateOverrides
  ir_security :: WorkerSecurityBinding
  ir_propagation :: "WorkerPropagation option"

section \<open>Instance records\<close>

record WorkerIdentity =
  wi_instance_id :: string
  wi_role :: WorkerRole
  wi_profile :: string
  wi_raw_role :: "string option"
  wi_raw_profile :: "string option"
  wi_raw_runtime_profile :: "string option"
  wi_status :: WorkerLifecycleState
  wi_created_at :: string
  wi_updated_at :: string

record WorkerOwnership =
  wo_owner_kind :: OwnerKind
  wo_owner_id :: string
  wo_parent_instance_id :: "string option"

record BackendConfig =
  bc_kind :: BackendKind
  bc_image :: "string option"
  bc_namespace :: "string option"
  bc_resources :: "ResourceRequirements option"

record PolicyOverrides =
  po_provider :: "string option"
  po_model :: "string option"
  po_thinking_level :: "ThinkingLevel option"
  po_context_class :: "string option"
  po_tool_policy :: "ToolPolicy option"
  po_memory_mode :: "MemoryMode option"
  po_max_runtime_seconds :: "u64 option"
  po_max_cost_usd :: "f64 option"

definition default_policy_overrides :: PolicyOverrides where
  "default_policy_overrides =
     \<lparr>po_provider = None, po_model = None, po_thinking_level = None, po_context_class = None,
      po_tool_policy = None, po_memory_mode = None, po_max_runtime_seconds = None,
      po_max_cost_usd = None\<rparr>"

record DesiredWorkerState =
  dw_backend :: BackendConfig
  dw_workspace :: WorkspaceBinding
  dw_task :: "TaskBinding option"
  dw_policy :: PolicyOverrides
  dw_security :: WorkerSecurityBinding

record ObservedPlacement =
  opl_placement_id :: string
  opl_host :: string
  opl_pid :: "u32 option"
  opl_namespace :: "string option"
  opl_pod_name :: "string option"
  opl_container_name :: "string option"

record ObservedHealth =
  oh_ready :: bool
  oh_degraded_reason :: "string option"
  oh_last_heartbeat_at :: "string option"
  oh_last_seen_at :: "string option"
  oh_freshness :: "InstanceFreshness option"

record ObservedExit =
  oe_exited :: bool
  oe_exit_code :: "i32 option"
  oe_exit_reason :: "string option"
  oe_exited_at :: "string option"

record 'v ObservedWorkerState =
  ow_placement :: ObservedPlacement
  ow_control_plane :: ObservedControlPlane
  ow_health :: ObservedHealth
  ow_exit :: ObservedExit
  ow_compatibility :: "CompatibilityAssessment option"
  ow_operational_profile :: "'v OperationalProfile option"
  ow_capabilities :: "InstanceCapabilitySnapshot option"

record 'v InstanceRecord =
  rec_schema_version :: u32
  rec_identity :: WorkerIdentity
  rec_ownership :: WorkerOwnership
  rec_desired :: DesiredWorkerState
  rec_observed :: "'v ObservedWorkerState"

text \<open>Paths through the record that the components read and write.\<close>

abbreviation instance_id_of :: "'v InstanceRecord \<Rightarrow> string" where
  "instance_id_of r \<equiv> wi_instance_id (rec_identity r)"

abbreviation status_of :: "'v InstanceRecord \<Rightarrow> WorkerLifecycleState" where
  "status_of r \<equiv> wi_status (rec_identity r)"

abbreviation health_of :: "'v InstanceRecord \<Rightarrow> ObservedHealth" where
  "health_of r \<equiv> ow_health (rec_observed r)"

definition set_status :: "WorkerLifecycleState \<Rightarrow> 'v InstanceRecord \<Rightarrow> 'v InstanceRecord" where
  "set_status st r = r\<lparr>rec_identity := (rec_identity r)\<lparr>wi_status := st\<rparr>\<rparr>"

definition set_health :: "ObservedHealth \<Rightarrow> 'v InstanceRecord \<Rightarrow> 'v InstanceRecord" where
  "set_health h r = r\<lparr>rec_observed := (rec_observed r)\<lparr>ow_health := h\<rparr>\<rparr>"

lemma set_status_sel [simp]:
  "instance_id_of (set_status st r) = instance_id_of r" "status_of (set_status st r) = st"
  "health_of (set_status st r) = health_of r" "rec_ownership (set_status st r) = rec_ownership r"
  "rec_desired (set_status st r) = rec_desired r" "rec_observed (set_status st r) = rec_observed r"
  "wi_role (rec_identity (set_status st r)) = wi_role (rec_identity r)"
  "rec_schema_version (set_status st r) = rec_schema_version r"
  by (simp_all add: set_status_def)

lemma set_health_sel [simp]:
  "rec_identity (set_health h r) = rec_identity r" "health_of (set_health h r) = h"
  "rec_ownership (set_health h r) = rec_ownership r" "rec_desired (set_health h r) = rec_desired r"
  "rec_schema_version (set_health h r) = rec_schema_version r"
  by (simp_all add: set_health_def)

lemma set_twice [simp]:
  "set_status a (set_status b r) = set_status a r" "set_health h (set_health g r) = set_health h r"
  "set_health h (set_status a r) = set_status a (set_health h r)"
  by (simp_all add: set_status_def set_health_def)

lemma set_same [simp]: "set_status (status_of r) r = r" "set_health (health_of r) r = r"
  by (simp_all add: set_status_def set_health_def)

end
