(* ===== verification/Secret_Orchestration.thy ===== *)
theory Secret_Orchestration
  imports Worker_Types
begin

text \<open>
  The preparation of a worker's secrets (\<open>secret_orchestration.rs\<close>): from the secret references of
  a launch request a grant is created and redeemed at once, and the request goes on with the
  identifiers of the grant and of the seed plan instead of secret material.  The function works
  on any broker; what it guarantees is proved from the interface \<open>secret_grant_broker\<close> and holds
  for the file broker by its interpretation.
\<close>

section \<open>Naming\<close>

definition is_ascii_alphanumeric :: "char \<Rightarrow> bool" where
  "is_ascii_alphanumeric c \<longleftrightarrow>
     (let n = of_char c :: nat
      in 48 \<le> n \<and> n \<le> 57 \<or> 65 \<le> n \<and> n \<le> 90 \<or> 97 \<le> n \<and> n \<le> 122)"

text \<open>A continuation byte of UTF-8 is part of the character its first byte stands for.\<close>

definition is_continuation :: "char \<Rightarrow> bool" where
  "is_continuation c \<longleftrightarrow> (let n = of_char c :: nat in 128 \<le> n \<and> n < 192)"

definition sanitize_char :: "char \<Rightarrow> string" where
  "sanitize_char c =
     (if is_ascii_alphanumeric c then [ascii_lower c]
      else if is_continuation c then [] else ''_'')"

definition trim_matches :: "char \<Rightarrow> string \<Rightarrow> string" where
  "trim_matches c s = trim_end_char c (trim_start_char c s)"

definition sanitize_principal_component :: "string \<Rightarrow> string" where
  "sanitize_principal_component value =
     (let trimmed = trim_matches (CHR ''_'') (concat (map sanitize_char value))
      in if trimmed = [] then ''unknown'' else trimmed)"

definition default_principal_for_request :: "InstantiateRequest \<Rightarrow> SecretGrantPrincipal" where
  "default_principal_for_request q =
     styrene_identity
       (''styrene://auspex/'' @ to_ascii_lowercase (debug_role (ir_role q)) @ ''/'' @
        sanitize_principal_component (wb_workspace_id (ir_workspace q)))"

definition default_grant_id :: "InstantiateRequest \<Rightarrow> string" where
  "default_grant_id q =
     ''grant_'' @ to_ascii_lowercase (debug_role (ir_role q)) @ ''_'' @
     sanitize_principal_component (ir_profile q) @ ''_'' @
     sanitize_principal_component (wb_workspace_id (ir_workspace q))"

fun default_delivery_mode_for_backend :: "BackendKind \<Rightarrow> SecretDeliveryMode" where
  "default_delivery_mode_for_backend Kubernetes = KubernetesExternalSecret"
| "default_delivery_mode_for_backend OciContainer = LocalStoreImport"
| "default_delivery_mode_for_backend LocalProcess = PullAfterEnroll"
| "default_delivery_mode_for_backend LocalDetached = PullAfterEnroll"

section \<open>Preparation\<close>

record PrepareWorkerSecurityOptions =
  pso_delivery_mode :: SecretDeliveryMode
  pso_lease_policy :: SecretLeasePolicy
  pso_grant_id :: "string option"
  pso_principal :: "SecretGrantPrincipal option"
  pso_package_digest :: "string option"
  pso_image_digest :: "string option"
  pso_placement_id :: "string option"
  pso_audit_correlation_id :: "string option"
  pso_requested_by :: "string option"
  pso_approved_by :: "string option"
  pso_reason :: "string option"

definition default_options :: PrepareWorkerSecurityOptions where
  "default_options =
     \<lparr>pso_delivery_mode = PullAfterEnroll, pso_lease_policy = default_lease_policy,
      pso_grant_id = None, pso_principal = None, pso_package_digest = None, pso_image_digest = None,
      pso_placement_id = None, pso_audit_correlation_id = None, pso_requested_by = None,
      pso_approved_by = None, pso_reason = None\<rparr>"

record 'v PreparedWorkerSecurity =
  pws_request :: InstantiateRequest
  pws_grant :: SecretGrant
  pws_seed_plan :: "'v SecretSeedPlan"
  pws_lease :: SecretLease

definition prepared_principal ::
  "InstantiateRequest \<Rightarrow> PrepareWorkerSecurityOptions \<Rightarrow> SecretGrantPrincipal"
where
  "prepared_principal q opts =
     unwrap_or (or_else (pso_principal opts) (wsb_principal (ir_security q)))
       (default_principal_for_request q)"

definition prepared_grant :: "InstantiateRequest \<Rightarrow> PrepareWorkerSecurityOptions \<Rightarrow> SecretGrant" where
  "prepared_grant q opts =
     (new_grant (unwrap_or (pso_grant_id opts) (default_grant_id q)) (prepared_principal q opts))
       \<lparr>gr_secret_refs := wsb_secret_refs (ir_security q),
        gr_allowed_delivery_modes := [pso_delivery_mode opts],
        gr_constraints :=
          \<lparr>con_agent_instance_id = None,
           con_role = Some (to_ascii_lowercase (debug_role (ir_role q))),
           con_backend = Some (to_ascii_lowercase (debug_backend (ir_backend q))),
           con_placement_id = pso_placement_id opts, con_image_digest = pso_image_digest opts,
           con_package_digest = pso_package_digest opts\<rparr>,
        gr_lease_policy := pso_lease_policy opts,
        gr_approval :=
          \<lparr>app_requested_by = pso_requested_by opts, app_approved_by = pso_approved_by opts,
           app_audit_correlation_id = pso_audit_correlation_id opts, app_reason = pso_reason opts\<rparr>,
        gr_status := SecretGrantStatus.Active\<rparr>"

definition prepared_redemption ::
  "SecretGrant \<Rightarrow> InstantiateRequest \<Rightarrow> PrepareWorkerSecurityOptions \<Rightarrow> SecretRedeemRequest"
where
  "prepared_redemption grant q opts =
     \<lparr>rq_grant_id = gr_grant_id grant, rq_principal = prepared_principal q opts,
      rq_requested_delivery_mode = pso_delivery_mode opts,
      rq_observed = \<lparr>ro_agent_instance_id = None, ro_placement_id = pso_placement_id opts,
                     ro_package_digest = pso_package_digest opts,
                     ro_image_digest = pso_image_digest opts\<rparr>\<rparr>"

definition secured_request ::
  "InstantiateRequest \<Rightarrow> SecretGrantPrincipal \<Rightarrow> string \<Rightarrow> string \<Rightarrow> InstantiateRequest"
where
  "secured_request q owner grant_id plan_id =
     q\<lparr>ir_security := (ir_security q)\<lparr>wsb_principal := Some owner,
          wsb_grant_ids := wsb_grant_ids (ir_security q) @ [grant_id],
          wsb_seed_plan_ids := wsb_seed_plan_ids (ir_security q) @ [plan_id]\<rparr>\<rparr>"

definition prepare_worker_security ::
  "(SecretGrant \<Rightarrow> 'b \<Rightarrow> (SecretGrantError + SecretGrant) \<times> 'b) \<Rightarrow>
   (SecretRedeemRequest \<Rightarrow> 'b \<Rightarrow> (SecretGrantError + 'v SecretRedeemResponse) \<times> 'b) \<Rightarrow>
     InstantiateRequest \<Rightarrow> PrepareWorkerSecurityOptions \<Rightarrow> 'b \<Rightarrow>
     (SecretGrantError + 'v PreparedWorkerSecurity) \<times> 'b"
where
  "prepare_worker_security create redeem q opts b =
     (if wsb_secret_refs (ir_security q) = []
      then (Err (InvalidRequest ''worker request has no secret refs to grant''), b)
      else case create (prepared_grant q opts) b of
             (Inl e, b1) \<Rightarrow> (Err e, b1)
           | (Inr grant, b1) \<Rightarrow>
               (case redeem (prepared_redemption grant q opts) b1 of
                  (Inl e, b2) \<Rightarrow> (Err e, b2)
                | (Inr r, b2) \<Rightarrow>
                    (Ok \<lparr>pws_request = secured_request q (prepared_principal q opts)
                            (gr_grant_id grant) (plan_plan_id (rr_seed_plan r)),
                         pws_grant = grant, pws_seed_plan = rr_seed_plan r,
                         pws_lease = rr_lease r\<rparr>, b2)))"

section \<open>What the preparation promises\<close>

lemma prepared_grant_simps [simp]:
  "gr_grant_id (prepared_grant q opts) = unwrap_or (pso_grant_id opts) (default_grant_id q)"
  "gr_principal (prepared_grant q opts) = prepared_principal q opts"
  "gr_secret_refs (prepared_grant q opts) = wsb_secret_refs (ir_security q)"
  "gr_allowed_delivery_modes (prepared_grant q opts) = [pso_delivery_mode opts]"
  "gr_status (prepared_grant q opts) = SecretGrantStatus.Active"
  by (simp_all add: prepared_grant_def new_grant_def)

context secret_grant_broker
begin

lemma prepare_cases:
  assumes "prepare_worker_security create redeem q opts b = (Ok p, b')"
  obtains b1 r where "create (prepared_grant q opts) b = (Ok (prepared_grant q opts), b1)"
    "redeem (prepared_redemption (prepared_grant q opts) q opts) b1 = (Ok r, b')"
    "p = \<lparr>pws_request = secured_request q (prepared_principal q opts)
            (gr_grant_id (prepared_grant q opts)) (plan_plan_id (rr_seed_plan r)),
          pws_grant = prepared_grant q opts, pws_seed_plan = rr_seed_plan r, pws_lease = rr_lease r\<rparr>"
proof -
  from assms obtain g b1 where c: "create (prepared_grant q opts) b = (Ok g, b1)"
    by (auto simp: prepare_worker_security_def split: if_splits prod.splits sum.splits)
  then have g: "g = prepared_grant q opts" using create_Ok by blast
  from assms c obtain r where "redeem (prepared_redemption g q opts) b1 = (Ok r, b')"
    and "p = \<lparr>pws_request = secured_request q (prepared_principal q opts)
            (gr_grant_id g) (plan_plan_id (rr_seed_plan r)),
          pws_grant = g, pws_seed_plan = rr_seed_plan r, pws_lease = rr_lease r\<rparr>"
    by (auto simp: prepare_worker_security_def split: if_splits prod.splits sum.splits)
  with c g that show ?thesis by blast
qed

lemma prepare_Ok:
  assumes "prepare_worker_security create redeem q opts b = (Ok p, b')"
  shows "on_file b (gr_grant_id (pws_grant p)) = None \<and>
         on_file b' (gr_grant_id (pws_grant p)) =
           Some ((prepared_grant q opts)\<lparr>gr_status := SecretGrantStatus.Redeemed\<rparr>) \<and>
         gr_grant_id (pws_grant p) = unwrap_or (pso_grant_id opts) (default_grant_id q) \<and>
         ls_secret_refs (pws_lease p) = wsb_secret_refs (ir_security q) \<and>
         plan_secret_refs (pws_seed_plan p) = wsb_secret_refs (ir_security q) \<and>
         ls_principal (pws_lease p) = prepared_principal q opts \<and>
         plan_delivery_mode (pws_seed_plan p) = pso_delivery_mode opts \<and>
         pws_request p = secured_request q (prepared_principal q opts)
           (gr_grant_id (pws_grant p)) (plan_plan_id (pws_seed_plan p))"
  using assms
proof (cases rule: prepare_cases)
  case (1 b1 r)
  from create_Ok [OF 1(1)] have new: "on_file b (gr_grant_id (prepared_grant q opts)) = None"
    and filed: "on_file b1 (gr_grant_id (prepared_grant q opts)) = Some (prepared_grant q opts)" by auto
  from redeem_Ok [OF 1(2)] filed show ?thesis
    using new 1(3) by (auto simp: prepared_redemption_def)
qed

lemma prepare_taken:
  assumes "on_file b (unwrap_or (pso_grant_id opts) (default_grant_id q)) \<noteq> None"
  shows "\<exists>e. prepare_worker_security create redeem q opts b = (Err (InvalidRequest e), b)"
proof -
  from assms have "on_file b (gr_grant_id (prepared_grant q opts)) \<noteq> None" by simp
  from create_taken [OF this] obtain e
    where "create (prepared_grant q opts) b = (Err (InvalidRequest e), b)" by blast
  then show ?thesis by (simp add: prepare_worker_security_def)
qed

end

section \<open>Properties\<close>

definition sample_instantiate :: InstantiateRequest where
  "sample_instantiate =
     \<lparr>ir_schema_version = 1, ir_role = SupervisedChild, ir_profile = ''p'', ir_backend = LocalProcess,
      ir_workspace = \<lparr>wb_cwd = ''/w'', wb_workspace_id = ''W'', wb_branch = None\<rparr>,
      ir_parent_instance_id = None, ir_task = None,
      ir_overrides = \<lparr>io_provider = None, io_model = None, io_thinking_level = None,
        io_max_runtime_seconds = None, io_max_cost_usd = None, io_image = None, io_namespace = None,
        io_resources = None, io_tool_policy = None, io_memory_mode = None\<rparr>,
      ir_security = default_security\<lparr>wsb_secret_refs := [''api-key'']\<rparr>, ir_propagation = None\<rparr>"

definition empty_broker :: FileSecretGrantBroker where
  "empty_broker = \<lparr>fb_path = ''f'', fb_store = default_store, fb_file = None\<rparr>"

lemma sample_grant_id: "default_grant_id sample_instantiate = ''grant_supervisedchild_p_w''"
  by code_simp

lemma sample_principal:
  "prepared_principal sample_instantiate default_options =
     styrene_identity ''styrene://auspex/supervisedchild/w''"
  by code_simp

lemma sample_names_trimmed:
  "trim ''grant_supervisedchild_p_w'' = ''grant_supervisedchild_p_w''"
  "trim ''styrene://auspex/supervisedchild/w'' = ''styrene://auspex/supervisedchild/w''"
  by code_simp+

lemma sample_preparation:
  "\<exists>(p :: unit PreparedWorkerSecurity) b'.
     prepare_worker_security (create_grant sample_store_io) (redeem_grant sample_store_io 1000)
       sample_instantiate default_options empty_broker = (Ok p, b')"
proof -
  let ?g = "prepared_grant sample_instantiate default_options"
  let ?b1 = "\<lparr>fb_path = ''f'', fb_store = default_store\<lparr>st_grants := [?g]\<rparr>, fb_file = Some ''{}''\<rparr>"
  have id: "gr_grant_id ?g = ''grant_supervisedchild_p_w''"
    by (simp add: default_options_def sample_grant_id)
  have c: "create_grant sample_store_io ?g empty_broker = (Ok ?g, ?b1)"
    by (simp add: create_grant_def id sample_principal sample_names_trimmed styrene_identity_def
        empty_broker_def find_grant_def default_store_def commit_def persist_locked_def
        sample_store_io_def del: prepared_grant_simps(1))
      (simp add: prepared_grant_def new_grant_def)
  have "\<exists>(r :: unit SecretRedeemResponse) b'. redeem_grant sample_store_io 1000
      (prepared_redemption ?g sample_instantiate default_options) ?b1 = (Ok r, b')"
    by (simp add: redeem_grant_def prepared_redemption_def id validate_redeem_request_def
        allows_delivery_mode_def check_constraint_def commit_def persist_locked_def
        sample_store_io_def Let_def default_store_def and_then_def)
      (simp add: prepared_grant_def default_options_def Let_def commit_def persist_locked_def
        sample_store_io_def)
  with c show ?thesis
    by (auto simp: prepare_worker_security_def sample_instantiate_def)
qed

text \<open>
  A prepared worker gets exactly the secrets it asked for: the lease and the seed plan carry
  the references of the request and nothing else, the lease is for the principal that the request
  now names, the request has gained the identifiers of one grant and one seed plan and is
  otherwise unchanged, and the grant was new and is used up.
\<close>

theorem prepared_worker_gets_its_secrets:
  assumes "prepare_worker_security (create_grant io) (redeem_grant io now) q opts b = (Ok p, b')"
  shows "ls_secret_refs (pws_lease p) = wsb_secret_refs (ir_security q) \<and>
         plan_secret_refs (pws_seed_plan p) = wsb_secret_refs (ir_security q) \<and>
         wsb_principal (ir_security (pws_request p)) = Some (ls_principal (pws_lease p)) \<and>
         pws_request p = secured_request q (ls_principal (pws_lease p))
           (gr_grant_id (pws_grant p)) (plan_plan_id (pws_seed_plan p)) \<and>
         find_grant (fb_store b) (gr_grant_id (pws_grant p)) = None \<and>
         map_option gr_status (find_grant (fb_store b') (gr_grant_id (pws_grant p))) =
           Some SecretGrantStatus.Redeemed"
proof -
  note prep = file_broker.prepare_Ok [OF assms]
  then have owner: "ls_principal (pws_lease p) = prepared_principal q opts" by blast
  from prep have req: "pws_request p = secured_request q (ls_principal (pws_lease p))
      (gr_grant_id (pws_grant p)) (plan_plan_id (pws_seed_plan p))" by (simp only: owner)
  then have "wsb_principal (ir_security (pws_request p)) = Some (ls_principal (pws_lease p))"
    by (simp add: secured_request_def)
  with prep req show ?thesis by force
qed

theorem prepared_worker_gets_its_secrets_example:
  "\<exists>(p :: unit PreparedWorkerSecurity) b'.
     prepare_worker_security (create_grant sample_store_io) (redeem_grant sample_store_io 1000)
       sample_instantiate default_options empty_broker = (Ok p, b') \<and>
     ls_secret_refs (pws_lease p) = [''api-key'']"
proof -
  obtain p :: "unit PreparedWorkerSecurity" and b'
    where p: "prepare_worker_security (create_grant sample_store_io) (redeem_grant sample_store_io 1000)
      sample_instantiate default_options empty_broker = (Ok p, b')"
    using sample_preparation by blast
  from prepared_worker_gets_its_secrets [OF p] have "ls_secret_refs (pws_lease p) = [''api-key'']"
    by (simp add: sample_instantiate_def)
  with p show ?thesis by blast
qed

text \<open>
  The default grant identifier depends on the role, the profile and the workspace only, and a
  grant is never taken off file: once a worker has been prepared, every later worker of the same
  role, profile and workspace is refused as long as the caller names no grant identifier, whatever
  the broker does in between.
\<close>

theorem second_worker_of_a_kind_is_refused:
  assumes "prepare_worker_security (create_grant io) (redeem_grant io now) q opts b =
      (Ok (p :: 'v PreparedWorkerSecurity), b1)"
    and "broker_step\<^sup>*\<^sup>* b1 b2" and "pso_grant_id opts = None" and "pso_grant_id opts' = None"
    and "ir_role q' = ir_role q" and "ir_profile q' = ir_profile q"
    and "wb_workspace_id (ir_workspace q') = wb_workspace_id (ir_workspace q)"
  shows "\<exists>e. prepare_worker_security (create_grant io')
           (redeem_grant io' now' :: _ \<Rightarrow> _ \<Rightarrow> (_ + 'v SecretRedeemResponse) \<times> _) q' opts' b2 =
           (Err (InvalidRequest e), b2)"
proof -
  have same: "unwrap_or (pso_grant_id opts') (default_grant_id q') = default_grant_id q"
    using assms(4-7) by (simp add: default_grant_id_def)
  from file_broker.prepare_Ok [OF assms(1)] assms(3)
  have "find_grant (fb_store b1) (default_grant_id q) =
      Some ((prepared_grant q opts)\<lparr>gr_status := SecretGrantStatus.Redeemed\<rparr>)" by force
  from redeemed_stays_steps [OF assms(2) this] same
  have "find_grant (fb_store b2) (unwrap_or (pso_grant_id opts') (default_grant_id q')) \<noteq> None" by simp
  then show ?thesis by (rule file_broker.prepare_taken)
qed

theorem second_worker_of_a_kind_is_refused_example:
  "\<exists>(p :: unit PreparedWorkerSecurity) b1 e.
     prepare_worker_security (create_grant sample_store_io) (redeem_grant sample_store_io 1000)
       sample_instantiate default_options empty_broker = (Ok p, b1) \<and>
     prepare_worker_security (create_grant sample_store_io)
       (redeem_grant sample_store_io 5000 :: _ \<Rightarrow> _ \<Rightarrow> (_ + unit SecretRedeemResponse) \<times> _)
       sample_instantiate default_options b1 = (Err (InvalidRequest e), b1)"
proof -
  obtain p :: "unit PreparedWorkerSecurity" and b1
    where p: "prepare_worker_security (create_grant sample_store_io) (redeem_grant sample_store_io 1000)
      sample_instantiate default_options empty_broker = (Ok p, b1)"
    using sample_preparation by blast
  have none: "pso_grant_id default_options = None" by (simp add: default_options_def)
  from second_worker_of_a_kind_is_refused [OF p rtranclp.rtrancl_refl none none refl refl refl]
  show ?thesis using p by blast
qed

end
