(* ===== verification/Instance_Registry.thy ===== *)
theory Instance_Registry
  imports Worker_Types
begin

text \<open>
  The persisted registry of instances (\<open>instance_registry.rs\<close>).  The locale \<open>instance_store\<close> is
  what the state engine and the controller rely on: lookup after an upsert and after a removal,
  under the invariant that no two records share an identity.  The interpretation \<open>registry\<close>
  discharges it for the vector the code keeps.

  Reading and writing the registry file go through \<open>registry_io\<close>: the file system and the JSON
  encoding of the store.
\<close>

section \<open>The store\<close>

definition INSTANCE_REGISTRY_SCHEMA_VERSION :: u32 where "INSTANCE_REGISTRY_SCHEMA_VERSION = 1"

record 'v InstanceRegistryStore =
  reg_schema_version :: u32
  reg_instances :: "'v InstanceRecord list"

definition default_registry :: "'v InstanceRegistryStore" where
  "default_registry =
     \<lparr>reg_schema_version = INSTANCE_REGISTRY_SCHEMA_VERSION, reg_instances = []\<rparr>"

text \<open>
  Replace the first record with the identity of the new one, or append it; the state engine does
  the same with \<open>position\<close> and an indexed write.
\<close>

definition upsert_record :: "('r \<Rightarrow> 'k) \<Rightarrow> 'r \<Rightarrow> 'r list \<Rightarrow> 'r list" where
  "upsert_record key r rs =
     (case position (\<lambda>x. key x = key r) rs of
        Some i \<Rightarrow> rs[i := r]
      | None \<Rightarrow> rs @ [r])"

definition upsert :: "'v InstanceRecord \<Rightarrow> 'v InstanceRegistryStore \<Rightarrow> 'v InstanceRegistryStore" where
  "upsert r s = s\<lparr>reg_instances := upsert_record instance_id_of r (reg_instances s)\<rparr>"

definition remove_instance ::
  "string \<Rightarrow> 'v InstanceRegistryStore \<Rightarrow> bool \<times> 'v InstanceRegistryStore"
where
  "remove_instance instance_id s =
     (let kept = filter (\<lambda>r. instance_id_of r \<noteq> instance_id) (reg_instances s)
      in (length kept < length (reg_instances s), s\<lparr>reg_instances := kept\<rparr>))"

definition find_instance :: "'v InstanceRegistryStore \<Rightarrow> string \<Rightarrow> 'v InstanceRecord option" where
  "find_instance s instance_id = List.find (\<lambda>r. instance_id_of r = instance_id) (reg_instances s)"

text \<open>Startup: the health of external local processes is last-known evidence only.\<close>

definition stale_record :: "'v InstanceRecord \<Rightarrow> 'v InstanceRecord" where
  "stale_record r =
     (if wo_owner_kind (rec_ownership r) = External \<and> bc_kind (dw_backend (rec_desired r)) = LocalProcess
      then (if status_of r = WorkerLifecycleState.Ready \<or> status_of r = WorkerLifecycleState.Busy
            then set_status WorkerLifecycleState.Degraded else (\<lambda>x. x))
             (set_health ((health_of r)\<lparr>oh_ready := False,
                                         oh_freshness := Some InstanceFreshness.Stale\<rparr>) r)
      else r)"

definition stale_rehydrated :: "'v InstanceRegistryStore \<Rightarrow> 'v InstanceRegistryStore" where
  "stale_rehydrated s = s\<lparr>reg_instances := map stale_record (reg_instances s)\<rparr>"

record 'v registry_io =
  rio_read :: "string \<Rightarrow> string option"
  rio_from_json :: "string \<Rightarrow> string + 'v InstanceRegistryStore"
  rio_to_json :: "'v InstanceRegistryStore \<Rightarrow> string + string"
  rio_create_dirs :: "string \<Rightarrow> string + unit"
  rio_write :: "string \<Rightarrow> string \<Rightarrow> string + unit"

definition load_or_default :: "'v registry_io \<Rightarrow> string \<Rightarrow> 'v InstanceRegistryStore" where
  "load_or_default io path =
     (case rio_read io path of
        None \<Rightarrow> default_registry
      | Some json \<Rightarrow>
          (case rio_from_json io json of Inl _ \<Rightarrow> default_registry | Inr s \<Rightarrow> s))"

text \<open>The parent directory is \<open>None\<close> for a path without one.\<close>

definition persist ::
  "'v registry_io \<Rightarrow> string option \<Rightarrow> string \<Rightarrow> 'v InstanceRegistryStore \<Rightarrow> string + unit"
where
  "persist io parent path store =
     and_then (case parent of None \<Rightarrow> Ok () | Some dir \<Rightarrow> rio_create_dirs io dir)
       (\<lambda>_. and_then (rio_to_json io store) (rio_write io path))"

section \<open>Laws of the vector\<close>

lemma find_append_none:
  "List.find P (xs @ ys) = (case List.find P xs of None \<Rightarrow> List.find P ys | Some x \<Rightarrow> Some x)"
  by (induction xs) auto

lemma find_update_other:
  "\<not> P (xs ! i) \<Longrightarrow> \<not> P y \<Longrightarrow> List.find P (xs[i := y]) = List.find P xs"
proof (induction xs arbitrary: i)
  case Nil
  then show ?case by simp
next
  case (Cons x xs)
  then show ?case by (cases i) auto
qed

lemma find_update_first:
  "position (\<lambda>x. key x = key r) xs = Some i \<Longrightarrow>
     List.find (\<lambda>x. key x = key r) (xs[i := r]) = Some r"
proof (induction xs arbitrary: i)
  case Nil
  then show ?case by simp
next
  case (Cons x xs)
  then show ?case by (cases "key x = key r") auto
qed

lemma find_upsert_record:
  "List.find (\<lambda>x. key x = k) (upsert_record key r rs) =
     (if k = key r then Some r else List.find (\<lambda>x. key x = k) rs)"
proof (cases "position (\<lambda>x. key x = key r) rs")
  case None
  then have "List.find (\<lambda>x. key x = key r) rs = None"
    by (simp add: find_position)
  with None show ?thesis
    by (auto simp: upsert_record_def find_append_none split: option.splits)
next
  case (Some i)
  then have "key (rs ! i) = key r" using position_Some by fastforce
  with Some show ?thesis
    by (auto simp: upsert_record_def find_update_first intro: find_update_other)
qed

lemma keys_upsert_record:
  "map key (upsert_record key r rs) =
     (if key r \<in> set (map key rs) then map key rs else map key rs @ [key r])"
proof (cases "position (\<lambda>x. key x = key r) rs")
  case None
  then have "key r \<notin> set (map key rs)" by (auto simp: position_None)
  with None show ?thesis by (simp add: upsert_record_def)
next
  case (Some i)
  then have "i < length rs" and same: "key (rs ! i) = key r" using position_Some by fastforce+
  then have "key r \<in> set (map key rs)" by (metis length_map nth_map nth_mem)
  with Some show ?thesis
    by (simp add: upsert_record_def map_list_update_same same)
qed

lemma find_filter_key:
  "List.find (\<lambda>x. key x = k) (filter (\<lambda>x. key x \<noteq> k') xs) =
     (if k = k' then None else List.find (\<lambda>x. key x = k) xs)"
  by (induction xs) auto

lemma find_map_key:
  "(\<And>x. key (f x) = key x) \<Longrightarrow>
     List.find (\<lambda>x. key x = k) (map f xs) = map_option f (List.find (\<lambda>x. key x = k) xs)"
  by (induction xs) auto

lemma find_SomeD: "List.find P xs = Some x \<Longrightarrow> x \<in> set xs \<and> P x"
  by (auto simp: find_Some_iff)

lemma find_key_mem: "(\<exists>x. List.find (\<lambda>x. key x = k) xs = Some x) \<longleftrightarrow> k \<in> key ` set xs"
  by (induction xs) auto

lemma find_distinct:
  "distinct (map key xs) \<Longrightarrow> x \<in> set xs \<Longrightarrow> List.find (\<lambda>y. key y = key x) xs = Some x"
  by (induction xs) auto

section \<open>The interface\<close>

locale instance_store =
  fixes find :: "'s \<Rightarrow> string \<Rightarrow> 'r option"
    and insert :: "'r \<Rightarrow> 's \<Rightarrow> 's"
    and remove :: "string \<Rightarrow> 's \<Rightarrow> bool \<times> 's"
    and key :: "'r \<Rightarrow> string"
    and ok :: "'s \<Rightarrow> bool"
  assumes find_insert: "find (insert r s) k = (if k = key r then Some r else find s k)"
    and find_remove: "find (snd (remove k' s)) k = (if k = k' then None else find s k)"
    and remove_reports: "fst (remove k s) \<longleftrightarrow> find s k \<noteq> None"
    and find_key: "find s k = Some r \<Longrightarrow> key r = k"
    and ok_insert: "ok s \<Longrightarrow> ok (insert r s)"
    and ok_remove: "ok s \<Longrightarrow> ok (snd (remove k s))"
begin

lemma insert_insert_find: "find (insert r (insert r s)) k = find (insert r s) k"
  by (simp add: find_insert)

lemma find_remove_insert: "find (snd (remove (key r) (insert r s))) k = find (snd (remove (key r) s)) k"
  by (simp add: find_remove find_insert)

text \<open>After a batch of upserts a lookup finds the last record of the batch with that identity.\<close>

lemma find_insert_all:
  "find (fold insert rs s) k =
     (case List.find (\<lambda>r. key r = k) (rev rs) of Some r \<Rightarrow> Some r | None \<Rightarrow> find s k)"
proof (induction rs rule: rev_induct)
  case Nil
  then show ?case by simp
next
  case (snoc r rs)
  then show ?case by (simp add: find_insert)
qed

lemma ok_insert_all: "ok s \<Longrightarrow> ok (fold insert rs s)"
  by (induction rs arbitrary: s) (simp_all add: ok_insert)

lemma find_insert_all_mem:
  assumes "r \<in> set rs"
  shows "\<exists>r' \<in> set rs. find (fold insert rs s) (key r) = Some r' \<and> key r' = key r"
proof (cases "List.find (\<lambda>x. key x = key r) (rev rs)")
  case None
  with assms show ?thesis by (auto simp: find_None_iff)
next
  case (Some r')
  then have "r' \<in> set rs" "key r' = key r"
    by (auto simp: find_Some_iff rev_nth)
  with Some show ?thesis by (auto simp: find_insert_all)
qed

lemma find_insert_all_other: "k \<notin> key ` set rs \<Longrightarrow> find (fold insert rs s) k = find s k"
  by (auto simp: find_insert_all find_Some_iff rev_nth split: option.splits)

end

definition wf_registry :: "'v InstanceRegistryStore \<Rightarrow> bool" where
  "wf_registry s \<longleftrightarrow> distinct (map instance_id_of (reg_instances s))"

interpretation registry: instance_store find_instance upsert remove_instance instance_id_of wf_registry
proof
  fix s :: "'v InstanceRegistryStore" and r k k'
  show "find_instance (upsert r s) k = (if k = instance_id_of r then Some r else find_instance s k)"
    by (simp add: find_instance_def upsert_def find_upsert_record)
  show "find_instance (snd (remove_instance k' s)) k = (if k = k' then None else find_instance s k)"
    by (simp add: find_instance_def remove_instance_def Let_def find_filter_key)
  show "fst (remove_instance k s) \<longleftrightarrow> find_instance s k \<noteq> None"
    by (auto simp: remove_instance_def Let_def find_instance_def find_None_iff length_filter_less
        simp del: length_filter_le)
      (metis (mono_tags, lifting) filter_True less_irrefl)
  show "find_instance s k = Some r \<Longrightarrow> instance_id_of r = k"
    by (auto simp: find_instance_def dest: find_SomeD)
  show "wf_registry s \<Longrightarrow> wf_registry (upsert r s)"
    by (auto simp: wf_registry_def upsert_def keys_upsert_record)
  show "wf_registry s \<Longrightarrow> wf_registry (snd (remove_instance k s))"
    by (simp add: wf_registry_def remove_instance_def Let_def distinct_map_filter)
qed

lemma wf_registry_map:
  "(\<And>r. instance_id_of (f r) = instance_id_of r) \<Longrightarrow> wf_registry s \<Longrightarrow>
     wf_registry (s\<lparr>reg_instances := map f (reg_instances s)\<rparr>)"
  by (simp add: wf_registry_def comp_def)

lemma find_instance_map:
  "(\<And>r. instance_id_of (f r) = instance_id_of r) \<Longrightarrow>
     find_instance (s\<lparr>reg_instances := map f (reg_instances s)\<rparr>) k = map_option f (find_instance s k)"
  by (simp add: find_instance_def find_map_key)

lemma wf_registry_filter: "wf_registry s \<Longrightarrow> wf_registry (s\<lparr>reg_instances := filter P (reg_instances s)\<rparr>)"
  by (simp add: wf_registry_def distinct_map_filter)

lemma wf_default_registry [simp]: "wf_registry default_registry"
  by (simp add: wf_registry_def default_registry_def)

lemma stale_record_id [simp]: "instance_id_of (stale_record r) = instance_id_of r"
  by (simp add: stale_record_def)

lemma stale_record_twice: "stale_record (stale_record r) = stale_record r"
  by (simp add: stale_record_def)

text \<open>
  After a restart no external local process is taken for alive: its record is not ready, is
  marked stale and is in no serving state; all other records are as they were stored.
\<close>

lemma stale_rehydrated_sound:
  assumes "r \<in> set (reg_instances (stale_rehydrated s))"
    and "wo_owner_kind (rec_ownership r) = External"
    and "bc_kind (dw_backend (rec_desired r)) = LocalProcess"
  shows "\<not> oh_ready (health_of r) \<and> oh_freshness (health_of r) = Some InstanceFreshness.Stale \<and>
         status_of r \<notin> {WorkerLifecycleState.Ready, WorkerLifecycleState.Busy}"
  using assms by (auto simp: stale_rehydrated_def stale_record_def split: if_splits)

end
