(* ===== verification/State_Engine.thy ===== *)
theory State_Engine
  imports Instance_Registry Supervisor_Contract
begin

text \<open>
  The attached-instance state engine (\<open>state_engine.rs\<close>): which instances a session is attached
  to, the command routes they offer and the one that is selected, and the registry records that
  are synthesised for them.  A lifecycle policy ages the records by the time they were last seen.
\<close>

section \<open>Data\<close>

definition HOST_CONTROL_PLANE_ROUTE_ID :: string where
  "HOST_CONTROL_PLANE_ROUTE_ID = ''host-control-plane''"
definition SESSION_DISPATCHER_ROUTE_ID :: string where
  "SESSION_DISPATCHER_ROUTE_ID = ''session-dispatcher''"
definition LOCAL_SHELL_ROUTE_ID :: string where "LOCAL_SHELL_ROUTE_ID = ''local-shell''"
definition STALE_AFTER_SECONDS :: u64 where "STALE_AFTER_SECONDS = 300"
definition ABANDON_AFTER_SECONDS :: u64 where "ABANDON_AFTER_SECONDS = 1800"

record 'v AttachedInstanceRecord =
  att_instance_id :: string
  att_route_id :: string
  att_role :: string
  att_profile :: string
  att_session_key :: string
  att_base_url :: "string option"
  att_model :: "string option"
  att_dispatcher_instance_id :: "string option"
  att_registry_record :: "'v InstanceRecord option"

record CommandRouteProjection =
  crp_route_id :: string
  crp_label :: string
  crp_detail :: string
  crp_target :: CommandTarget

record 'v AttachedInstanceStateEngine =
  eng_session_key :: string
  eng_attached_instances :: "'v AttachedInstanceRecord list"
  eng_selected_command_route_id :: "string option"
  eng_registry_store :: "'v InstanceRegistryStore"

text \<open>\<open>trim_start_matches("remote:")\<close> removes the prefix as often as it occurs.\<close>

definition trim_remote :: "string \<Rightarrow> string" where
  "trim_remote key = strip_seqs [''remote:''] key"

section \<open>Records of attached instances\<close>

definition infer_worker_role :: "'v AttachedInstanceRecord \<Rightarrow> WorkerRole" where
  "infer_worker_role a =
     (case att_registry_record a of
        Some r \<Rightarrow> wi_role (rec_identity r)
      | None \<Rightarrow>
          if att_dispatcher_instance_id a \<noteq> None then PrimaryDriver
          else if att_role a = [] then DetachedService
          else from_descriptor_role (att_role a))"

text \<open>The record of an instance the registry does not know.\<close>

definition blank_record :: "'v AttachedInstanceRecord \<Rightarrow> 'v InstanceRecord" where
  "blank_record a =
     \<lparr>rec_schema_version = 1,
      rec_identity =
        \<lparr>wi_instance_id = att_instance_id a, wi_role = infer_worker_role a, wi_profile = att_profile a,
         wi_raw_role = None, wi_raw_profile = None, wi_raw_runtime_profile = None,
         wi_status = WorkerLifecycleState.Ready, wi_created_at = [], wi_updated_at = []\<rparr>,
      rec_ownership =
        \<lparr>wo_owner_kind = AuspexSession, wo_owner_id = trim_remote (att_session_key a),
         wo_parent_instance_id = None\<rparr>,
      rec_desired =
        \<lparr>dw_backend = \<lparr>bc_kind = LocalProcess, bc_image = None, bc_namespace = None,
                       bc_resources = None\<rparr>,
         dw_workspace = \<lparr>wb_cwd = [], wb_workspace_id = [], wb_branch = None\<rparr>,
         dw_task = None, dw_policy = default_policy_overrides, dw_security = default_security\<rparr>,
      rec_observed =
        \<lparr>ow_placement = \<lparr>opl_placement_id = [], opl_host = [], opl_pid = None, opl_namespace = None,
                         opl_pod_name = None, opl_container_name = None\<rparr>,
         ow_control_plane = default_control_plane,
         ow_health = \<lparr>oh_ready = True, oh_degraded_reason = None, oh_last_heartbeat_at = None,
                      oh_last_seen_at = None, oh_freshness = Some InstanceFreshness.Fresh\<rparr>,
         ow_exit = \<lparr>oe_exited = False, oe_exit_code = None, oe_exit_reason = None,
                    oe_exited_at = None\<rparr>,
         ow_compatibility = None, ow_operational_profile = None, ow_capabilities = None\<rparr>\<rparr>"

definition refreshed_health :: "ObservedHealth \<Rightarrow> ObservedHealth" where
  "refreshed_health h =
     h\<lparr>oh_freshness := Some InstanceFreshness.Fresh,
       oh_last_seen_at := (if oh_last_seen_at h = None then oh_last_heartbeat_at h
                           else oh_last_seen_at h)\<rparr>"

definition synthesize_instance_record :: "'v AttachedInstanceRecord \<Rightarrow> 'v InstanceRecord" where
  "synthesize_instance_record a =
     (let r = unwrap_or (att_registry_record a) (blank_record a);
          obs = rec_observed r
      in r\<lparr>rec_identity := (rec_identity r)\<lparr>wi_instance_id := att_instance_id a,
                                            wi_role := infer_worker_role a,
                                            wi_profile := att_profile a,
                                            wi_status := WorkerLifecycleState.Ready\<rparr>,
           rec_ownership := (rec_ownership r)\<lparr>wo_owner_kind := AuspexSession,
                                              wo_owner_id := trim_remote (att_session_key a)\<rparr>,
           rec_desired := (rec_desired r)\<lparr>dw_policy :=
                              (dw_policy (rec_desired r))\<lparr>po_model := att_model a\<rparr>\<rparr>,
           rec_observed := obs\<lparr>
             ow_health := (refreshed_health (ow_health obs))\<lparr>oh_ready := True\<rparr>,
             ow_control_plane :=
               (case att_base_url a of
                  None \<Rightarrow> ow_control_plane obs
                | Some url \<Rightarrow> (ow_control_plane obs)\<lparr>ocp_base_url := url\<rparr>)\<rparr>\<rparr>)"

definition refresh_record :: "'v InstanceRecord \<Rightarrow> 'v InstanceRecord" where
  "refresh_record r = set_health (refreshed_health (health_of r)) r"

definition merge_attached_instances_into_registry ::
  "'v InstanceRegistryStore \<Rightarrow> 'v AttachedInstanceRecord list \<Rightarrow> 'v InstanceRegistryStore"
where
  "merge_attached_instances_into_registry store attached =
     (let active_ids = map att_instance_id attached;
          merged = fold (\<lambda>a. upsert (synthesize_instance_record a)) attached store
      in merged\<lparr>reg_instances :=
           map (\<lambda>r. if List.member active_ids (instance_id_of r) then refresh_record r else r)
             (reg_instances merged)\<rparr>)"

section \<open>Attached instances of a session\<close>

definition or_default :: "string \<Rightarrow> string \<Rightarrow> string" where
  "or_default s d = (if s = [] then d else s)"

text \<open>The host of a session whose descriptor is known.\<close>

definition described_host ::
  "'v InstanceRegistryStore \<Rightarrow> string \<Rightarrow> InstanceDescriptorData \<Rightarrow> 'v AttachedInstanceRecord"
where
  "described_host store session_key d =
     (let instance_id = or_default (iid_instance_id (idd_identity d)) HOST_CONTROL_PLANE_ROUTE_ID;
          known = find_instance store instance_id
      in \<lparr>att_instance_id = instance_id, att_route_id = HOST_CONTROL_PLANE_ROUTE_ID,
          att_role = or_default (iid_role (idd_identity d)) ''host'',
          att_profile =
            (if iid_profile (idd_identity d) = []
             then unwrap_or (map_option (\<lambda>r. wi_profile (rec_identity r)) known) []
             else iid_profile (idd_identity d)),
          att_session_key = session_key,
          att_base_url =
            or_else (Option.bind (idd_control_plane d) icp_base_url)
              (map_option (\<lambda>r. ocp_base_url (ow_control_plane (rec_observed r))) known),
          att_model =
            or_else (Option.bind (idd_policy d) ipd_model)
              (Option.bind known (\<lambda>r. po_model (dw_policy (rec_desired r)))),
          att_dispatcher_instance_id = None, att_registry_record = known\<rparr>)"

text \<open>Without a descriptor: the first record of the session that is not its dispatcher.\<close>

definition owned_by_session :: "string \<Rightarrow> 'v InstanceRecord \<Rightarrow> bool" where
  "owned_by_session session_key r \<longleftrightarrow>
     wo_owner_kind (rec_ownership r) = AuspexSession \<and>
     wo_owner_id (rec_ownership r) = trim_remote session_key"

definition recorded_host :: "string \<Rightarrow> 'v InstanceRecord \<Rightarrow> 'v AttachedInstanceRecord" where
  "recorded_host session_key r =
     \<lparr>att_instance_id = instance_id_of r, att_route_id = HOST_CONTROL_PLANE_ROUTE_ID,
      att_role = role_label (wi_role (rec_identity r)), att_profile = wi_profile (rec_identity r),
      att_session_key = session_key,
      att_base_url = Some (ocp_base_url (ow_control_plane (rec_observed r))),
      att_model = po_model (dw_policy (rec_desired r)),
      att_dispatcher_instance_id = None, att_registry_record = Some r\<rparr>"

definition session_dispatcher ::
  "'v InstanceRegistryStore \<Rightarrow> string \<Rightarrow> DispatcherBindingData \<Rightarrow> 'v AttachedInstanceRecord"
where
  "session_dispatcher store session_key b =
     (let instance_id = or_default (dbd_dispatcher_instance_id b) SESSION_DISPATCHER_ROUTE_ID;
          known = find_instance store instance_id
      in \<lparr>att_instance_id = instance_id, att_route_id = SESSION_DISPATCHER_ROUTE_ID,
          att_role =
            (if dbd_expected_role b = []
             then unwrap_or (map_option (\<lambda>r. role_label (wi_role (rec_identity r))) known) ''dispatcher''
             else dbd_expected_role b),
          att_profile =
            (if dbd_expected_profile b = []
             then unwrap_or (map_option (\<lambda>r. wi_profile (rec_identity r)) known) []
             else dbd_expected_profile b),
          att_session_key = session_key,
          att_base_url =
            or_else (dbd_observed_base_url b)
              (map_option (\<lambda>r. ocp_base_url (ow_control_plane (rec_observed r))) known),
          att_model =
            or_else (dbd_expected_model b)
              (Option.bind known (\<lambda>r. po_model (dw_policy (rec_desired r)))),
          att_dispatcher_instance_id = Some (dbd_dispatcher_instance_id b),
          att_registry_record = known\<rparr>)"

definition reconcile_attached_instances ::
  "'v InstanceRegistryStore \<Rightarrow> string \<Rightarrow> 'v SessionData \<Rightarrow> 'v AttachedInstanceRecord list"
where
  "reconcile_attached_instances store session_key session =
     (case sd_instance_descriptor session of
        Some d \<Rightarrow> [described_host store session_key d]
      | None \<Rightarrow>
          (case List.find
                  (\<lambda>r. owned_by_session session_key r \<and>
                       instance_id_of r \<noteq>
                         (case sd_dispatcher_binding session of
                            None \<Rightarrow> [] | Some b \<Rightarrow> dbd_dispatcher_instance_id b))
                  (reg_instances store) of
             None \<Rightarrow> []
           | Some r \<Rightarrow> [recorded_host session_key r])) @
     (case sd_dispatcher_binding session of
        None \<Rightarrow> []
      | Some b \<Rightarrow> [session_dispatcher store session_key b])"

section \<open>Command routes\<close>

definition project_command_route :: "'v AttachedInstanceRecord \<Rightarrow> CommandRouteProjection" where
  "project_command_route a =
     \<lparr>crp_route_id = att_route_id a,
      crp_label =
        (if att_role a = [] then att_instance_id a
         else att_role a @ [CHR 0x20, CHR 0xC2, CHR 0xB7, CHR 0x20] @ att_instance_id a),
      crp_detail = unwrap_or (or_else (att_model a) (att_base_url a)) (att_profile a),
      crp_target = \<lparr>ct_session_key = att_session_key a,
                    ct_dispatcher_instance_id = att_dispatcher_instance_id a\<rparr>\<rparr>"

definition available_command_routes ::
  "'v AttachedInstanceStateEngine \<Rightarrow> CommandRouteProjection list"
where
  "available_command_routes e =
     (let routes = map project_command_route (eng_attached_instances e)
      in if routes = []
         then [\<lparr>crp_route_id = LOCAL_SHELL_ROUTE_ID,
                crp_label = (if starts_with (eng_session_key e) ''remote:''
                             then ''Detached host session'' else ''Local shell''),
                crp_detail = ''No attached host instance reported'',
                crp_target = \<lparr>ct_session_key = eng_session_key e, ct_dispatcher_instance_id = None\<rparr>\<rparr>]
         else routes)"

definition selected_command_route_id :: "'v AttachedInstanceStateEngine \<Rightarrow> string" where
  "selected_command_route_id e =
     (let routes = available_command_routes e;
          fallback = (if list_ex (\<lambda>r. crp_route_id r = SESSION_DISPATCHER_ROUTE_ID) routes
                      then SESSION_DISPATCHER_ROUTE_ID
                      else case routes of [] \<Rightarrow> LOCAL_SHELL_ROUTE_ID | r # _ \<Rightarrow> crp_route_id r)
      in case eng_selected_command_route_id e of
           Some selected \<Rightarrow>
             if list_ex (\<lambda>r. crp_route_id r = selected) routes then selected else fallback
         | None \<Rightarrow> fallback)"

definition current_command_target :: "'v AttachedInstanceStateEngine \<Rightarrow> CommandTarget" where
  "current_command_target e =
     (let selected = selected_command_route_id e
      in case List.find (\<lambda>r. crp_route_id r = selected) (available_command_routes e) of
           Some r \<Rightarrow> crp_target r
         | None \<Rightarrow> \<lparr>ct_session_key = eng_session_key e, ct_dispatcher_instance_id = None\<rparr>)"

section \<open>Operations\<close>

definition from_registry_and_session ::
  "'v InstanceRegistryStore \<Rightarrow> string \<Rightarrow> 'v SessionData \<Rightarrow> 'v AttachedInstanceStateEngine"
where
  "from_registry_and_session store session_key session =
     (let attached = reconcile_attached_instances store session_key session
      in \<lparr>eng_session_key = session_key, eng_attached_instances = attached,
          eng_selected_command_route_id = None,
          eng_registry_store = merge_attached_instances_into_registry store attached\<rparr>)"

definition from_session_snapshot :: "string \<Rightarrow> 'v SessionData \<Rightarrow> 'v AttachedInstanceStateEngine" where
  "from_session_snapshot session_key session =
     from_registry_and_session default_registry session_key session"

definition reconcile_session_snapshot ::
  "string \<Rightarrow> 'v SessionData \<Rightarrow> 'v AttachedInstanceStateEngine \<Rightarrow> 'v AttachedInstanceStateEngine"
where
  "reconcile_session_snapshot session_key session e =
     (let selected_route = selected_command_route_id e;
          attached = reconcile_attached_instances (eng_registry_store e) session_key session
      in \<lparr>eng_session_key = session_key, eng_attached_instances = attached,
          eng_selected_command_route_id = Some selected_route,
          eng_registry_store =
            merge_attached_instances_into_registry (eng_registry_store e) attached\<rparr>)"

definition replace_registry_store ::
  "'v InstanceRegistryStore \<Rightarrow> 'v SessionData \<Rightarrow> 'v AttachedInstanceStateEngine \<Rightarrow>
     'v AttachedInstanceStateEngine"
where
  "replace_registry_store store session e =
     (let selected_route = selected_command_route_id e;
          attached = reconcile_attached_instances store (eng_session_key e) session
      in e\<lparr>eng_registry_store := merge_attached_instances_into_registry store attached,
           eng_attached_instances := attached,
           eng_selected_command_route_id := Some selected_route\<rparr>)"

definition select_command_route ::
  "string \<Rightarrow> 'v AttachedInstanceStateEngine \<Rightarrow> 'v AttachedInstanceStateEngine"
where
  "select_command_route route_id e = e\<lparr>eng_selected_command_route_id := Some route_id\<rparr>"

definition attach_instance ::
  "'v AttachedInstanceRecord \<Rightarrow> 'v AttachedInstanceStateEngine \<Rightarrow> 'v AttachedInstanceStateEngine"
where
  "attach_instance a e =
     (let next_record = synthesize_instance_record a
      in e\<lparr>eng_registry_store := upsert next_record (eng_registry_store e),
           eng_attached_instances :=
             upsert_record att_instance_id (a\<lparr>att_registry_record := Some next_record\<rparr>)
               (eng_attached_instances e)\<rparr>)"

definition detach_instance ::
  "string \<Rightarrow> 'v AttachedInstanceStateEngine \<Rightarrow> 'v AttachedInstanceStateEngine"
where
  "detach_instance instance_id e =
     e\<lparr>eng_attached_instances :=
         filter (\<lambda>a. att_instance_id a \<noteq> instance_id) (eng_attached_instances e),
       eng_registry_store := (eng_registry_store e)\<lparr>reg_instances :=
         filter (\<lambda>r. \<not> (instance_id_of r = instance_id \<and> owned_by_session (eng_session_key e) r))
           (reg_instances (eng_registry_store e))\<rparr>\<rparr>"

definition lose_record :: "string \<Rightarrow> string list \<Rightarrow> 'v InstanceRecord \<Rightarrow> 'v InstanceRecord" where
  "lose_record session_key active r =
     (if owned_by_session session_key r \<and> \<not> List.member active (instance_id_of r) \<and>
         wi_role (rec_identity r) = DetachedService
      then set_status WorkerLifecycleState.Lost
             (set_health ((health_of r)\<lparr>oh_ready := False,
                                         oh_freshness := Some InstanceFreshness.Stale\<rparr>) r)
      else r)"

definition purge_stale_instances ::
  "string list \<Rightarrow> 'v AttachedInstanceStateEngine \<Rightarrow> 'v AttachedInstanceStateEngine"
where
  "purge_stale_instances active e =
     e\<lparr>eng_attached_instances :=
         filter (\<lambda>a. List.member active (att_instance_id a)) (eng_attached_instances e),
       eng_registry_store := (eng_registry_store e)\<lparr>reg_instances :=
         filter (\<lambda>r. \<not> owned_by_session (eng_session_key e) r \<or>
                     List.member active (instance_id_of r) \<or>
                     wi_role (rec_identity r) = DetachedService)
           (map (lose_record (eng_session_key e) active)
              (reg_instances (eng_registry_store e)))\<rparr>\<rparr>"

definition saturating_sub :: "'a::len word \<Rightarrow> 'a word \<Rightarrow> 'a word" where
  "saturating_sub a b = (if b \<le> a then a - b else 0)"

definition age_record :: "u64 \<Rightarrow> 'v InstanceRecord \<Rightarrow> 'v InstanceRecord" where
  "age_record age r =
     (if ABANDON_AFTER_SECONDS \<le> age
      then set_status WorkerLifecycleState.Abandoned
             (set_health ((health_of r)\<lparr>oh_ready := False,
                                         oh_freshness := Some InstanceFreshness.Abandoned\<rparr>) r)
      else if STALE_AFTER_SECONDS \<le> age
      then (if status_of r = WorkerLifecycleState.Ready then set_status WorkerLifecycleState.Lost
            else (\<lambda>x. x))
             (set_health ((health_of r)\<lparr>oh_ready := False,
                                         oh_freshness := Some InstanceFreshness.Stale\<rparr>) r)
      else set_health ((health_of r)\<lparr>oh_freshness := Some InstanceFreshness.Fresh\<rparr>) r)"

definition last_seen_epoch :: "'v InstanceRecord \<Rightarrow> u64 option" where
  "last_seen_epoch r = Option.bind (oh_last_seen_at (health_of r)) parse_u64"

definition evaluate_record :: "u64 \<Rightarrow> 'v InstanceRecord \<Rightarrow> 'v InstanceRecord" where
  "evaluate_record now r =
     (case last_seen_epoch r of
        None \<Rightarrow> r
      | Some seen \<Rightarrow> age_record (saturating_sub now seen) r)"

definition evaluate_lifecycle_policy ::
  "u64 \<Rightarrow> 'v AttachedInstanceStateEngine \<Rightarrow> 'v AttachedInstanceStateEngine"
where
  "evaluate_lifecycle_policy now e =
     e\<lparr>eng_registry_store := (eng_registry_store e)\<lparr>reg_instances :=
         map (evaluate_record now) (reg_instances (eng_registry_store e))\<rparr>\<rparr>"

end
