(* ===== verification/State_Engine_Props.thy ===== *)
theory State_Engine_Props
  imports State_Engine
begin

text \<open>
  Properties of the attached-instance state engine: the selected route always exists, the
  registry keeps one record per identity and one for every attached instance, the lifecycle
  policy depends on the latest evaluation only, and cleaning up after a session leaves the
  records of others alone.
\<close>

section \<open>Routes\<close>

lemma available_command_routes_not_Nil: "available_command_routes e \<noteq> []"
  by (simp add: available_command_routes_def Let_def)

lemma list_ex_route: "list_ex (\<lambda>r. crp_route_id r = k) rs \<longleftrightarrow> k \<in> crp_route_id ` set rs"
  by (auto simp: list_ex_iff)

lemma selected_route_mem: "selected_command_route_id e \<in> crp_route_id ` set (available_command_routes e)"
proof (cases "available_command_routes e")
  case Nil
  then show ?thesis by (simp add: available_command_routes_not_Nil)
next
  case (Cons r rs)
  then show ?thesis
    by (auto simp: selected_command_route_id_def Let_def list_ex_route split: option.splits)
qed

text \<open>
  Commands are never sent to a route that is gone: whatever was selected before, the selected
  route is one of the routes offered now, the target of a command is the target of the first
  offered route with that identifier, and a selection that is still offered is kept.
\<close>

theorem selected_route_is_offered:
  "\<exists>r \<in> set (available_command_routes e).
     crp_route_id r = selected_command_route_id e \<and> current_command_target e = crp_target r \<and>
     (eng_selected_command_route_id e \<noteq> Some (crp_route_id r) \<longrightarrow>
        eng_selected_command_route_id e \<notin> Some ` crp_route_id ` set (available_command_routes e))"
proof -
  let ?routes = "available_command_routes e" and ?sel = "selected_command_route_id e"
  from selected_route_mem obtain r where r: "List.find (\<lambda>r. crp_route_id r = ?sel) ?routes = Some r"
    using find_key_mem [of crp_route_id ?sel ?routes] by blast
  then have "r \<in> set ?routes" and id: "crp_route_id r = ?sel" by (auto dest: find_SomeD)
  moreover have "current_command_target e = crp_target r"
    using r by (simp add: current_command_target_def)
  moreover have "eng_selected_command_route_id e \<in> Some ` crp_route_id ` set ?routes \<Longrightarrow>
      eng_selected_command_route_id e = Some ?sel"
    by (auto simp: selected_command_route_id_def Let_def list_ex_route)
  ultimately show ?thesis by metis
qed

section \<open>The registry of the engine\<close>

lemma synthesize_simps [simp]:
  "instance_id_of (synthesize_instance_record a) = att_instance_id a"
  "status_of (synthesize_instance_record a) = WorkerLifecycleState.Ready"
  "wo_owner_kind (rec_ownership (synthesize_instance_record a)) = AuspexSession"
  "wo_owner_id (rec_ownership (synthesize_instance_record a)) = trim_remote (att_session_key a)"
  "oh_ready (health_of (synthesize_instance_record a))"
  by (simp_all add: synthesize_instance_record_def Let_def)

lemma refresh_record_simps [simp]:
  "rec_identity (refresh_record r) = rec_identity r"
  "rec_ownership (refresh_record r) = rec_ownership r"
  "rec_desired (refresh_record r) = rec_desired r"
  by (simp_all add: refresh_record_def)

lemma fold_upsert_synthesized:
  "fold (\<lambda>a. upsert (synthesize_instance_record a)) as s =
     fold upsert (map synthesize_instance_record as) s"
  by (simp add: fold_map comp_def)

lemma find_merge:
  "find_instance (merge_attached_instances_into_registry s as) k =
     map_option (\<lambda>r. if k \<in> att_instance_id ` set as then refresh_record r else r)
       (find_instance (fold upsert (map synthesize_instance_record as) s) k)"
proof -
  let ?m = "fold upsert (map synthesize_instance_record as) s"
  let ?f = "\<lambda>r. if List.member (map att_instance_id as) (instance_id_of r) then refresh_record r else r"
  have "find_instance (merge_attached_instances_into_registry s as) k =
        map_option ?f (find_instance ?m k)"
    unfolding merge_attached_instances_into_registry_def Let_def fold_upsert_synthesized
    by (rule find_instance_map) simp
  then show ?thesis
    by (cases "find_instance ?m k") (auto dest: registry.find_key)
qed

lemma wf_merge: "wf_registry s \<Longrightarrow> wf_registry (merge_attached_instances_into_registry s as)"
  unfolding merge_attached_instances_into_registry_def Let_def fold_upsert_synthesized
  by (rule wf_registry_map) (simp_all add: registry.ok_insert_all)

lemma find_merge_attached:
  assumes "a \<in> set as"
  shows "\<exists>r. find_instance (merge_attached_instances_into_registry s as) (att_instance_id a) = Some r \<and>
             wo_owner_kind (rec_ownership r) = AuspexSession \<and> status_of r = WorkerLifecycleState.Ready"
proof -
  from assms have "synthesize_instance_record a \<in> set (map synthesize_instance_record as)" by simp
  from registry.find_insert_all_mem [OF this, of s] assms show ?thesis
    by (auto simp: find_merge)
qed

lemma find_merge_other:
  assumes "k \<notin> att_instance_id ` set as"
  shows "find_instance (merge_attached_instances_into_registry s as) k = find_instance s k"
proof -
  from assms have "k \<notin> instance_id_of ` set (map synthesize_instance_record as)" by auto
  then have "find_instance (fold upsert (map synthesize_instance_record as) s) k = find_instance s k"
    by (rule registry.find_insert_all_other)
  with assms show ?thesis by (simp add: find_merge option.map_id0 [unfolded id_def])
qed

definition wf_engine :: "'v AttachedInstanceStateEngine \<Rightarrow> bool" where
  "wf_engine e \<longleftrightarrow>
     wf_registry (eng_registry_store e) \<and>
     (\<forall>a \<in> set (eng_attached_instances e). \<exists>r.
        find_instance (eng_registry_store e) (att_instance_id a) = Some r \<and>
        wo_owner_kind (rec_ownership r) = AuspexSession)"

lemma wf_engine_merged:
  assumes "wf_registry s"
  shows "wf_engine \<lparr>eng_session_key = k, eng_attached_instances = as,
           eng_selected_command_route_id = sel,
           eng_registry_store = merge_attached_instances_into_registry s as\<rparr>"
  using assms find_merge_attached [of _ as s] by (fastforce simp: wf_engine_def wf_merge)

lemma age_record_simps [simp]:
  "instance_id_of (age_record n r) = instance_id_of r"
  "rec_ownership (age_record n r) = rec_ownership r"
  "oh_last_seen_at (health_of (age_record n r)) = oh_last_seen_at (health_of r)"
  by (simp_all add: age_record_def)

lemma evaluate_record_simps [simp]:
  "instance_id_of (evaluate_record now r) = instance_id_of r"
  "rec_ownership (evaluate_record now r) = rec_ownership r"
  "last_seen_epoch (evaluate_record now r) = last_seen_epoch r"
  by (simp_all add: evaluate_record_def last_seen_epoch_def split: option.splits)

lemma lose_record_simps [simp]:
  "instance_id_of (lose_record key act r) = instance_id_of r"
  "rec_ownership (lose_record key act r) = rec_ownership r"
  "wi_role (rec_identity (lose_record key act r)) = wi_role (rec_identity r)"
  by (simp_all add: lose_record_def)

lemma find_filter_kept:
  "(\<And>x. key x = k \<Longrightarrow> P x) \<Longrightarrow> List.find (\<lambda>x. key x = k) (filter P xs) = List.find (\<lambda>x. key x = k) xs"
  by (induction xs) auto

lemma find_instance_filter_kept:
  "(\<And>r. instance_id_of r = k \<Longrightarrow> P r) \<Longrightarrow>
     find_instance (s\<lparr>reg_instances := filter P rs\<rparr>) k = find_instance (s\<lparr>reg_instances := rs\<rparr>) k"
  by (simp add: find_instance_def find_filter_kept)

section \<open>Steps of the engine\<close>

inductive eng_step ::
  "'v AttachedInstanceStateEngine \<Rightarrow> 'v AttachedInstanceStateEngine \<Rightarrow> bool"
where
  reconcile: "eng_step e (reconcile_session_snapshot key session e)"
| replace: "wf_registry store \<Longrightarrow> eng_step e (replace_registry_store store session e)"
| select: "eng_step e (select_command_route route e)"
| attach: "eng_step e (attach_instance a e)"
| detach: "eng_step e (detach_instance i e)"
| purge: "eng_step e (purge_stale_instances active e)"
| evaluate: "eng_step e (evaluate_lifecycle_policy now e)"

lemma wf_replace:
  "wf_registry store \<Longrightarrow> wf_engine (replace_registry_store store session e)"
  using wf_engine_merged [of store] by (simp add: replace_registry_store_def Let_def wf_engine_def)

lemma wf_attach:
  assumes "wf_engine e"
  shows "wf_engine (attach_instance a e)"
proof -
  let ?r = "synthesize_instance_record a" and ?e = "attach_instance a e"
  let ?a = "a\<lparr>att_registry_record := Some ?r\<rparr>"
  have ids: "att_instance_id ` set (eng_attached_instances ?e) \<subseteq>
      insert (att_instance_id a) (att_instance_id ` set (eng_attached_instances e))"
  proof -
    have "set (map att_instance_id (upsert_record att_instance_id ?a (eng_attached_instances e))) \<subseteq>
        insert (att_instance_id a) (att_instance_id ` set (eng_attached_instances e))"
      by (subst keys_upsert_record) auto
    then show ?thesis by (simp add: attach_instance_def Let_def)
  qed
  have "\<exists>r. find_instance (upsert ?r (eng_registry_store e)) (att_instance_id b) = Some r \<and>
            wo_owner_kind (rec_ownership r) = AuspexSession"
    if "b \<in> set (eng_attached_instances ?e)" for b
  proof (cases "att_instance_id b = att_instance_id a")
    case True
    then show ?thesis by (simp add: registry.find_insert)
  next
    case False
    from imageI [OF that, of att_instance_id] ids
    have "att_instance_id b \<in> insert (att_instance_id a) (att_instance_id ` set (eng_attached_instances e))"
      by (rule rev_subsetD)
    with False have "att_instance_id b \<in> att_instance_id ` set (eng_attached_instances e)" by simp
    with assms False show ?thesis by (auto simp: wf_engine_def registry.find_insert)
  qed
  moreover have "wf_registry (upsert ?r (eng_registry_store e))"
    using assms by (simp add: wf_engine_def registry.ok_insert)
  moreover have "eng_registry_store ?e = upsert ?r (eng_registry_store e)"
    by (simp add: attach_instance_def Let_def)
  ultimately show ?thesis by (simp add: wf_engine_def)
qed

lemma wf_detach: "wf_engine e \<Longrightarrow> wf_engine (detach_instance i e)"
  by (auto simp: wf_engine_def detach_instance_def wf_registry_filter find_instance_filter_kept)

lemma wf_purge:
  assumes "wf_engine e"
  shows "wf_engine (purge_stale_instances active e)"
proof -
  let ?s = "eng_registry_store e" and ?f = "lose_record (eng_session_key e) active"
  let ?m = "?s\<lparr>reg_instances := map ?f (reg_instances ?s)\<rparr>"
  have found: "find_instance (eng_registry_store (purge_stale_instances active e)) k =
      map_option ?f (find_instance ?s k)" if "List.member active k" for k
    using that find_instance_map [of ?f ?s k]
    by (simp add: purge_stale_instances_def find_instance_filter_kept)
  have "wf_registry ?m" using assms by (simp add: wf_engine_def wf_registry_map)
  then have "wf_registry (eng_registry_store (purge_stale_instances active e))"
    using wf_registry_filter [of ?m] by (simp add: purge_stale_instances_def)
  moreover have "\<exists>r. find_instance (eng_registry_store (purge_stale_instances active e))
        (att_instance_id a) = Some r \<and> wo_owner_kind (rec_ownership r) = AuspexSession"
    if "a \<in> set (eng_attached_instances (purge_stale_instances active e))" for a
  proof -
    from that have "List.member active (att_instance_id a)" and "a \<in> set (eng_attached_instances e)"
      by (simp_all add: purge_stale_instances_def)
    then show ?thesis using assms by (fastforce simp: wf_engine_def found)
  qed
  ultimately show ?thesis by (simp add: wf_engine_def)
qed

lemma wf_evaluate: "wf_engine e \<Longrightarrow> wf_engine (evaluate_lifecycle_policy now e)"
  by (auto simp: wf_engine_def evaluate_lifecycle_policy_def wf_registry_map find_instance_map)

lemma eng_step_wf: "eng_step e e' \<Longrightarrow> wf_engine e \<Longrightarrow> wf_engine e'"
proof (induction rule: eng_step.induct)
  case (reconcile e key session)
  then show ?case
    by (simp add: reconcile_session_snapshot_def Let_def wf_engine_merged wf_engine_def [of e])
next
  case (select e route)
  then show ?case by (simp add: wf_engine_def select_command_route_def)
qed (simp_all add: wf_replace wf_attach wf_detach wf_purge wf_evaluate)

lemma eng_steps_wf: "eng_step\<^sup>*\<^sup>* e e' \<Longrightarrow> wf_engine e \<Longrightarrow> wf_engine e'"
  by (induction rule: rtranclp_induct) (auto intro: eng_step_wf)

lemma wf_from_registry: "wf_registry s \<Longrightarrow> wf_engine (from_registry_and_session s key session)"
  by (simp add: from_registry_and_session_def Let_def wf_engine_merged)

text \<open>
  Whatever sequence of operations the engine goes through from a registry with one record per
  instance, no two registry records share an identity, and every attached instance has its record
  there, owned by an Auspex session.
\<close>

theorem attached_instances_stay_registered:
  assumes "wf_registry s" and "eng_step\<^sup>*\<^sup>* (from_registry_and_session s key session) e"
  shows "distinct (map instance_id_of (reg_instances (eng_registry_store e))) \<and>
         (\<forall>a \<in> set (eng_attached_instances e). \<exists>r.
            find_instance (eng_registry_store e) (att_instance_id a) = Some r \<and>
            instance_id_of r = att_instance_id a \<and>
            wo_owner_kind (rec_ownership r) = AuspexSession)"
proof -
  from eng_steps_wf [OF assms(2) wf_from_registry [OF assms(1)]] have "wf_engine e" .
  then show ?thesis
    using registry.find_key by (fastforce simp: wf_engine_def wf_registry_def)
qed

text \<open>A session with a described host and a dispatcher, on an empty registry.\<close>

definition sample_host :: InstanceDescriptorData where
  "sample_host =
     \<lparr>idd_identity = \<lparr>iid_instance_id = ''omg_host'', iid_role = ''primary_driver'',
                      iid_profile = ''primary'', iid_status = ''ready''\<rparr>,
      idd_workspace = None, idd_control_plane = None, idd_runtime = None, idd_session = None,
      idd_policy = None\<rparr>"

definition sample_binding :: DispatcherBindingData where
  "sample_binding =
     \<lparr>dbd_session_id = ''s1'', dbd_dispatcher_instance_id = ''omg_dispatcher'',
      dbd_expected_role = [], dbd_expected_profile = ''dispatch'', dbd_expected_model = None,
      dbd_control_plane_schema = 2, dbd_token_ref = None, dbd_observed_base_url = None,
      dbd_last_verified_at = None, dbd_instance_descriptor = None, dbd_available_options = [],
      dbd_switch_state = None\<rparr>"

definition sample_session :: "demo_json SessionData" where
  "sample_session =
     \<lparr>sd_instance_descriptor = Some sample_host, sd_operational_profile_metadata = None,
      sd_dispatcher_binding = Some sample_binding\<rparr>"

definition sample_engine :: "demo_json AttachedInstanceStateEngine" where
  "sample_engine = from_registry_and_session default_registry ''remote:s1'' sample_session"

lemma sample_engine_attached:
  "map att_instance_id (eng_attached_instances sample_engine) = [''omg_host'', ''omg_dispatcher'']"
  by (simp add: sample_engine_def from_registry_and_session_def Let_def
      reconcile_attached_instances_def sample_session_def described_host_def session_dispatcher_def
      sample_host_def sample_binding_def or_default_def)

theorem selected_route_is_offered_example:
  "\<exists>r \<in> set (available_command_routes sample_engine).
     crp_route_id r = selected_command_route_id sample_engine \<and>
     current_command_target sample_engine = crp_target r \<and>
     crp_route_id r = SESSION_DISPATCHER_ROUTE_ID"
proof -
  have "selected_command_route_id sample_engine = SESSION_DISPATCHER_ROUTE_ID"
    by (simp add: selected_command_route_id_def available_command_routes_def Let_def sample_engine_def
        from_registry_and_session_def reconcile_attached_instances_def sample_session_def
        described_host_def session_dispatcher_def sample_host_def sample_binding_def or_default_def
        project_command_route_def)
  then show ?thesis using selected_route_is_offered [of sample_engine] by auto
qed

theorem attached_instances_stay_registered_example:
  "let e = detach_instance ''omg_host'' (evaluate_lifecycle_policy 10 sample_engine)
   in map att_instance_id (eng_attached_instances e) = [''omg_dispatcher''] \<and>
      distinct (map instance_id_of (reg_instances (eng_registry_store e))) \<and>
      find_instance (eng_registry_store e) ''omg_dispatcher'' \<noteq> None"
proof -
  let ?e1 = "evaluate_lifecycle_policy 10 sample_engine"
  let ?e = "detach_instance ''omg_host'' ?e1"
  have steps: "eng_step\<^sup>*\<^sup>* (from_registry_and_session default_registry ''remote:s1'' sample_session) ?e"
    unfolding sample_engine_def [symmetric]
    by (rule converse_rtranclp_into_rtranclp [of _ _ ?e1]) (auto intro: eng_step.intros)
  have ids: "map att_instance_id (eng_attached_instances ?e) = [''omg_dispatcher'']"
    using sample_engine_attached
    by (auto simp: detach_instance_def evaluate_lifecycle_policy_def split: if_splits)
  then obtain a where "a \<in> set (eng_attached_instances ?e)" "att_instance_id a = ''omg_dispatcher''"
    by auto
  with attached_instances_stay_registered [OF wf_default_registry steps] ids show ?thesis
    unfolding Let_def by fastforce
qed

section \<open>Ageing\<close>

lemma saturating_sub_mono:
  assumes "a \<le> b"
  shows "saturating_sub a s \<le> saturating_sub b s"
  using assms by (auto simp: saturating_sub_def word_le_nat_alt unat_sub)

lemma unat_saturating_sub: "unat (saturating_sub a b) = unat a - unat b"
  by (auto simp: saturating_sub_def word_le_nat_alt unat_sub)

lemma age_record_again: "m \<le> n \<Longrightarrow> age_record n (age_record m r) = age_record n r"
  by (auto simp: age_record_def)

lemma evaluate_record_again:
  assumes "t1 \<le> t2"
  shows "evaluate_record t2 (evaluate_record t1 r) = evaluate_record t2 r"
proof (cases "last_seen_epoch r")
  case None
  then show ?thesis by (simp add: evaluate_record_def)
next
  case (Some seen)
  moreover from this have "last_seen_epoch (evaluate_record t1 r) = Some seen" by simp
  ultimately show ?thesis
    by (simp add: evaluate_record_def age_record_again saturating_sub_mono [OF assms])
qed

definition freshness_at :: "nat \<Rightarrow> InstanceFreshness" where
  "freshness_at age =
     (if 1800 \<le> age then InstanceFreshness.Abandoned
      else if 300 \<le> age then InstanceFreshness.Stale else InstanceFreshness.Fresh)"

lemma age_record_freshness:
  "oh_freshness (health_of (age_record n r)) = Some (freshness_at (unat n))"
  by (simp add: age_record_def freshness_at_def ABANDON_AFTER_SECONDS_def STALE_AFTER_SECONDS_def
      word_le_nat_alt)

lemma age_record_ready:
  "oh_ready (health_of (age_record n r)) \<longleftrightarrow> oh_ready (health_of r) \<and> unat n < 300"
  by (auto simp: age_record_def ABANDON_AFTER_SECONDS_def STALE_AFTER_SECONDS_def word_le_nat_alt)

text \<open>
  The policy runs on every tick, and how often it has run does not matter: evaluating at one
  time and then at a later one leaves the engine as evaluating at the later time alone.  A record
  with a readable time of last sight is fresh for 300 seconds, stale until 1800 seconds and
  abandoned from then on, is not ready once it is stale, and a clock that runs behind counts as
  no time passed.
\<close>

theorem lifecycle_policy_is_cumulative:
  assumes "t1 \<le> t2"
  shows "evaluate_lifecycle_policy t2 (evaluate_lifecycle_policy t1 e) =
           evaluate_lifecycle_policy t2 e \<and>
         (\<forall>r seen. last_seen_epoch r = Some seen \<longrightarrow>
            oh_freshness (health_of (evaluate_record t2 r)) =
              Some (freshness_at (unat t2 - unat seen)) \<and>
            (oh_ready (health_of (evaluate_record t2 r)) \<longleftrightarrow>
               oh_ready (health_of r) \<and> unat t2 - unat seen < 300))"
proof
  show "evaluate_lifecycle_policy t2 (evaluate_lifecycle_policy t1 e) = evaluate_lifecycle_policy t2 e"
    by (simp add: evaluate_lifecycle_policy_def evaluate_record_again [OF assms])
  show "\<forall>r seen. last_seen_epoch r = Some seen \<longrightarrow>
      oh_freshness (health_of (evaluate_record t2 r)) = Some (freshness_at (unat t2 - unat seen)) \<and>
      (oh_ready (health_of (evaluate_record t2 r)) \<longleftrightarrow>
         oh_ready (health_of r) \<and> unat t2 - unat seen < 300)"
    by (simp add: evaluate_record_def age_record_freshness age_record_ready unat_saturating_sub)
qed

definition seen_record :: "string \<Rightarrow> demo_json InstanceRecord" where
  "seen_record at =
     (let r = blank_record \<lparr>att_instance_id = ''remote:r1'', att_route_id = ''remote:r1'',
                att_role = ''remote-agent'', att_profile = ''p'', att_session_key = ''remote:r1'',
                att_base_url = None, att_model = None, att_dispatcher_instance_id = None,
                att_registry_record = None\<rparr>
      in set_health ((health_of r)\<lparr>oh_last_seen_at := Some at\<rparr>) r)"

lemma parse_u64_100: "parse_u64 ''100'' = Some 100"
  by (simp add: parse_u64_def is_digit_def read_nat_def)

lemma seen_record_epoch: "last_seen_epoch (seen_record ''100'') = Some 100"
  by (simp add: last_seen_epoch_def seen_record_def Let_def parse_u64_100)

theorem lifecycle_policy_is_cumulative_example:
  "evaluate_lifecycle_policy 500 (evaluate_lifecycle_policy 200 sample_engine) =
     evaluate_lifecycle_policy 500 sample_engine \<and>
   last_seen_epoch (seen_record ''100'') = Some 100 \<and>
   oh_freshness (health_of (evaluate_record 500 (seen_record ''100''))) =
     Some InstanceFreshness.Stale"
  using lifecycle_policy_is_cumulative [of 200 500 sample_engine] seen_record_epoch
  by (fastforce simp: freshness_at_def)

section \<open>Cleaning up\<close>

text \<open>
  Detaching an instance and purging the instances that are gone are limited to the session of
  the engine: a record that the session does not own stays in the registry unchanged, whatever
  instances are detached or purged.
\<close>

lemma foreign_records_survive_cleanup:
  assumes "r \<in> set (reg_instances (eng_registry_store e))"
    and "\<not> owned_by_session (eng_session_key e) r"
  shows "r \<in> set (reg_instances (eng_registry_store (detach_instance i e))) \<and>
         r \<in> set (reg_instances (eng_registry_store (purge_stale_instances active e)))"
proof -
  have "lose_record (eng_session_key e) active r = r"
    using assms(2) by (simp add: lose_record_def)
  with assms(1) have "r \<in> lose_record (eng_session_key e) active ` set (reg_instances (eng_registry_store e))"
    by (metis imageI)
  with assms show ?thesis
    by (auto simp: detach_instance_def purge_stale_instances_def)
qed

end
