(* ===== verification/Fleet_Control.thy ===== *)
theory Fleet_Control
  imports State_Engine_Props
begin

text \<open>
  The part of \<open>controller.rs\<close> that keeps the instance registry: attaching and detaching
  instances, the periodic lifecycle evaluation, the reconciliation of container agents and the
  probing of remote instances, with the entries of \<open>remote-instances\<close> (\<open>config.rs\<close>) that are
  registered at startup.

  The controller keeps its own copy of the registry beside the one inside the state engine.
  Probing over HTTP and the discovery of containers are arguments of the operations (their
  results), as are the clock readings.  Persisting the registry and refreshing the telemetry
  snapshot read the state only.
\<close>

section \<open>Configured remote instances\<close>

record RemoteInstanceEntry =
  rie_label :: string
  rie_base_url :: string
  rie_role :: WorkerRole
  rie_profile :: string
  rie_token :: "string option"
  rie_extensions :: "string list"
  rie_tags :: "string list"
  rie_auth_mode :: string
  rie_auto_attach :: bool

definition rie_base :: "RemoteInstanceEntry \<Rightarrow> string" where
  "rie_base e = trim_end_char (CHR ''/'') (rie_base_url e)"

definition startup_url :: "RemoteInstanceEntry \<Rightarrow> string" where
  "startup_url e = rie_base e @ ''/api/startup''"

definition health_url :: "RemoteInstanceEntry \<Rightarrow> string" where
  "health_url e = rie_base e @ ''/api/healthz''"

definition ready_url :: "RemoteInstanceEntry \<Rightarrow> string" where
  "ready_url e = rie_base e @ ''/api/readyz''"

definition ws_url :: "RemoteInstanceEntry \<Rightarrow> string" where
  "ws_url e =
     (let ws_base = replace_all ''http://'' ''ws://'' (replace_all ''https://'' ''wss://'' (rie_base e))
      in case non_empty (rie_token e) of
           Some token \<Rightarrow> ws_base @ ''/ws?token='' @ token
         | None \<Rightarrow> ws_base @ ''/ws'')"

definition remote_control_plane :: "RemoteInstanceEntry \<Rightarrow> ObservedControlPlane" where
  "remote_control_plane e =
     default_control_plane\<lparr>ocp_schema_version := 2, ocp_base_url := rie_base e,
       ocp_startup_url := startup_url e, ocp_health_url := health_url e, ocp_ready_url := ready_url e,
       ocp_ws_url := ws_url e, ocp_auth_mode := rie_auth_mode e, ocp_token_ref := rie_token e,
       ocp_transport_security :=
         Some (if starts_with (rie_base e) ''https://'' then ''tls'' else ''plaintext''),
       ocp_mtls := Some (rie_auth_mode e = ''mtls'')\<rparr>"

definition to_instance_record ::
  "'ver semver \<Rightarrow> string \<Rightarrow> string \<Rightarrow> RemoteInstanceEntry \<Rightarrow> 'v InstanceRecord"
where
  "to_instance_record sv now name e =
     (let remote_name = ''remote:'' @ name
      in \<lparr>rec_schema_version = 1,
          rec_identity =
            \<lparr>wi_instance_id = remote_name, wi_role = rie_role e, wi_profile = rie_profile e,
             wi_raw_role = None, wi_raw_profile = None, wi_raw_runtime_profile = None,
             wi_status = Requested, wi_created_at = now, wi_updated_at = now\<rparr>,
          rec_ownership =
            \<lparr>wo_owner_kind = External, wo_owner_id = ''config:remote-instances/'' @ name,
             wo_parent_instance_id = None\<rparr>,
          rec_desired =
            \<lparr>dw_backend = \<lparr>bc_kind = LocalDetached, bc_image = None, bc_namespace = None,
                           bc_resources = None\<rparr>,
             dw_workspace = \<lparr>wb_cwd = ''/remote'', wb_workspace_id = remote_name, wb_branch = None\<rparr>,
             dw_task = None, dw_policy = default_policy_overrides, dw_security = default_security\<rparr>,
          rec_observed =
            \<lparr>ow_placement = \<lparr>opl_placement_id = remote_name, opl_host = rie_base e, opl_pid = None,
                             opl_namespace = None, opl_pod_name = None, opl_container_name = None\<rparr>,
             ow_control_plane = remote_control_plane e,
             ow_health = \<lparr>oh_ready = False, oh_degraded_reason = None, oh_last_heartbeat_at = None,
                          oh_last_seen_at = None, oh_freshness = None\<rparr>,
             ow_exit = \<lparr>oe_exited = False, oe_exit_code = None, oe_exit_reason = None,
                        oe_exited_at = None\<rparr>,
             ow_compatibility = Some (assess_observed_control_plane sv (remote_control_plane e)),
             ow_operational_profile = None,
             ow_capabilities = Some (new_capabilities remote_name)\<rparr>\<rparr>)"

section \<open>State\<close>

record 'v FleetControl =
  fl_instance_registry :: "'v InstanceRegistryStore"
  fl_engine :: "'v AttachedInstanceStateEngine"
  fl_sessions :: "string list"
  fl_focused_instance_id :: "string option"

definition adopt_engine_registry :: "'v FleetControl \<Rightarrow> 'v FleetControl" where
  "adopt_engine_registry c = c\<lparr>fl_instance_registry := eng_registry_store (fl_engine c)\<rparr>"

abbreviation attached_ids :: "'v FleetControl \<Rightarrow> string list" where
  "attached_ids c \<equiv> map att_instance_id (eng_attached_instances (fl_engine c))"

section \<open>Sessions\<close>

definition connect_instance_session :: "bool \<Rightarrow> string \<Rightarrow> 'v FleetControl \<Rightarrow> 'v FleetControl" where
  "connect_instance_session in_runtime instance_id c =
     (if List.member (fl_sessions c) instance_id \<or> \<not> in_runtime then c
      else c\<lparr>fl_sessions := fl_sessions c @ [instance_id]\<rparr>)"

definition disconnect_instance_session :: "string \<Rightarrow> 'v FleetControl \<Rightarrow> 'v FleetControl" where
  "disconnect_instance_session instance_id c =
     c\<lparr>fl_sessions := filter (\<lambda>i. i \<noteq> instance_id) (fl_sessions c),
       fl_focused_instance_id :=
         (if fl_focused_instance_id c = Some instance_id then None else fl_focused_instance_id c)\<rparr>"

section \<open>Registry operations\<close>

definition evaluate_instance_lifecycle :: "u64 \<Rightarrow> 'v FleetControl \<Rightarrow> 'v FleetControl" where
  "evaluate_instance_lifecycle now c =
     (let c1 = adopt_engine_registry (c\<lparr>fl_engine := evaluate_lifecycle_policy now (fl_engine c)\<rparr>);
          stale_session_ids = filter (\<lambda>i. \<not> List.member (attached_ids c1) i) (fl_sessions c1)
      in fold disconnect_instance_session stale_session_ids c1)"

definition attach_instance_record :: "'v AttachedInstanceRecord \<Rightarrow> 'v FleetControl \<Rightarrow> 'v FleetControl" where
  "attach_instance_record a c =
     adopt_engine_registry (c\<lparr>fl_engine := attach_instance a (fl_engine c)\<rparr>)"

definition detach_instance_record :: "string \<Rightarrow> 'v FleetControl \<Rightarrow> 'v FleetControl" where
  "detach_instance_record instance_id c =
     adopt_engine_registry (c\<lparr>fl_engine := detach_instance instance_id (fl_engine c)\<rparr>)"

definition purge_stale_instance_records :: "string list \<Rightarrow> 'v FleetControl \<Rightarrow> 'v FleetControl" where
  "purge_stale_instance_records active c =
     adopt_engine_registry (c\<lparr>fl_engine := purge_stale_instances active (fl_engine c)\<rparr>)"

definition record_base_url :: "'v InstanceRecord \<Rightarrow> string" where
  "record_base_url r = ocp_base_url (ow_control_plane (rec_observed r))"

definition container_attachment :: "'v InstanceRecord \<Rightarrow> 'v AttachedInstanceRecord" where
  "container_attachment r =
     (let name = ''container:'' @ instance_id_of r
      in \<lparr>att_instance_id = instance_id_of r, att_route_id = name,
          att_role = role_label (wi_role (rec_identity r)), att_profile = wi_profile (rec_identity r),
          att_session_key = name, att_base_url = non_empty (Some (record_base_url r)),
          att_model = po_model (dw_policy (rec_desired r)), att_dispatcher_instance_id = None,
          att_registry_record = Some r\<rparr>)"

definition register_container_agent :: "'v InstanceRecord \<Rightarrow> 'v FleetControl \<Rightarrow> 'v FleetControl" where
  "register_container_agent r c =
     adopt_engine_registry (c\<lparr>fl_engine := attach_instance (container_attachment r) (fl_engine c)\<rparr>)"

definition configured_attachment ::
  "'v InstanceRecord \<Rightarrow> RemoteInstanceEntry \<Rightarrow> 'v AttachedInstanceRecord"
where
  "configured_attachment r e =
     \<lparr>att_instance_id = instance_id_of r, att_route_id = ''remote:'' @ instance_id_of r,
      att_role = debug_role (rie_role e), att_profile = rie_profile e,
      att_session_key = ''remote:'' @ instance_id_of r,
      att_base_url = non_empty (Some (record_base_url r)), att_model = None,
      att_dispatcher_instance_id = None, att_registry_record = Some r\<rparr>"

definition register_remote_instances ::
  "'ver semver \<Rightarrow> (string \<times> string \<times> RemoteInstanceEntry) list \<Rightarrow> 'v FleetControl \<Rightarrow> 'v FleetControl"
where
  "register_remote_instances sv entries c =
     adopt_engine_registry
       (fold (\<lambda>(now, name, e) c.
                let r = to_instance_record sv now name e
                in c\<lparr>fl_instance_registry := upsert r (fl_instance_registry c),
                     fl_engine := attach_instance (configured_attachment r e) (fl_engine c)\<rparr>)
          entries c)"

definition is_remote_record :: "'v InstanceRecord \<Rightarrow> bool" where
  "is_remote_record r \<longleftrightarrow> starts_with (instance_id_of r) ''remote:''"

definition remote_base_urls :: "'v FleetControl \<Rightarrow> string list" where
  "remote_base_urls c =
     map record_base_url (filter is_remote_record (reg_instances (fl_instance_registry c)))"

definition reattach_container_agents :: "'v FleetControl \<Rightarrow> 'v FleetControl" where
  "reattach_container_agents c =
     (let urls = remote_base_urls c;
          records = filter (\<lambda>r. bc_kind (dw_backend (rec_desired r)) = OciContainer \<and>
                                oh_ready (health_of r) \<and> record_base_url r \<noteq> [] \<and>
                                \<not> List.member urls (record_base_url r))
                      (reg_instances (fl_instance_registry c))
      in fold register_container_agent records c)"

definition remote_instances_needing_probe :: "'v FleetControl \<Rightarrow> (string \<times> string \<times> string) list" where
  "remote_instances_needing_probe c =
     map (\<lambda>r. (instance_id_of r, ocp_ready_url (ow_control_plane (rec_observed r)),
               ocp_startup_url (ow_control_plane (rec_observed r))))
       (filter (\<lambda>r. is_remote_record r \<and>
                    ocp_ready_url (ow_control_plane (rec_observed r)) \<noteq> [] \<and>
                    (\<not> oh_ready (health_of r) \<or>
                     ocp_omegon_version (ow_control_plane (rec_observed r)) = []))
          (reg_instances (fl_instance_registry c)))"

section \<open>Probe results\<close>

record ProbeResult =
  pr_instance_id :: string
  pr_ready :: bool
  pr_omegon_version :: string
  pr_capabilities :: "string list"

text \<open>\<open>iter_mut().find(..)\<close> and a write to what it finds.\<close>

definition update_instance ::
  "string \<Rightarrow> ('v InstanceRecord \<Rightarrow> 'v InstanceRecord) \<Rightarrow> 'v InstanceRegistryStore \<Rightarrow>
     'v InstanceRegistryStore"
where
  "update_instance instance_id f s =
     (case position (\<lambda>r. instance_id_of r = instance_id) (reg_instances s) of
        None \<Rightarrow> s
      | Some i \<Rightarrow> s\<lparr>reg_instances := (reg_instances s)[i := f (reg_instances s ! i)]\<rparr>)"

definition observe_version :: "'ver semver \<Rightarrow> string \<Rightarrow> 'v InstanceRecord \<Rightarrow> 'v InstanceRecord" where
  "observe_version sv version r =
     (if version = [] then r
      else let cp = (ow_control_plane (rec_observed r))\<lparr>ocp_omegon_version := version\<rparr>
           in r\<lparr>rec_observed := (rec_observed r)\<lparr>ow_control_plane := cp,
                  ow_compatibility := Some (assess_observed_control_plane sv cp)\<rparr>\<rparr>)"

definition observe_capabilities :: "string \<Rightarrow> string list \<Rightarrow> 'v InstanceRecord \<Rightarrow> 'v InstanceRecord" where
  "observe_capabilities instance_id capabilities r =
     (if capabilities = [] then r
      else r\<lparr>rec_observed := (rec_observed r)\<lparr>ow_capabilities :=
               Some (from_instance_descriptor_capabilities instance_id capabilities)\<rparr>\<rparr>)"

definition probe_health :: "string \<Rightarrow> bool \<Rightarrow> 'v InstanceRecord \<Rightarrow> 'v InstanceRecord" where
  "probe_health now ready r =
     (let h = (health_of r)\<lparr>oh_ready := ready\<rparr>; obs = rec_observed r
      in if ready
         then set_status WorkerLifecycleState.Ready
                (r\<lparr>rec_observed := obs\<lparr>
                     ow_health := h\<lparr>oh_last_heartbeat_at := Some now, oh_last_seen_at := Some now,
                                    oh_freshness := Some InstanceFreshness.Fresh\<rparr>,
                     ow_control_plane := (ow_control_plane obs)\<lparr>ocp_last_ready_at := Some now\<rparr>\<rparr>\<rparr>)
         else if oh_ready (health_of r)
         then set_status WorkerLifecycleState.Lost
                (set_health (h\<lparr>oh_freshness := Some InstanceFreshness.Stale\<rparr>) r)
         else set_health h r)"

definition probe_record ::
  "'ver semver \<Rightarrow> string \<Rightarrow> string \<Rightarrow> ProbeResult \<Rightarrow> 'v InstanceRecord \<Rightarrow> 'v InstanceRecord"
where
  "probe_record sv now updated p r =
     (let r1 = observe_capabilities (pr_instance_id p) (pr_capabilities p)
                 (observe_version sv (pr_omegon_version p) (probe_health now (pr_ready p) r))
      in r1\<lparr>rec_identity := (rec_identity r1)\<lparr>wi_updated_at := updated\<rparr>\<rparr>)"

definition remerge_record :: "'ver semver \<Rightarrow> ProbeResult \<Rightarrow> 'v InstanceRecord \<Rightarrow> 'v InstanceRecord" where
  "remerge_record sv p r =
     observe_capabilities (pr_instance_id p) (pr_capabilities p)
       (observe_version sv (pr_omegon_version p)
          (set_health ((health_of r)\<lparr>oh_ready := pr_ready p\<rparr>) r))"

definition remote_attachment :: "'v InstanceRecord \<Rightarrow> 'v AttachedInstanceRecord" where
  "remote_attachment r =
     \<lparr>att_instance_id = instance_id_of r, att_route_id = ''remote:'' @ instance_id_of r,
      att_role = role_label (wi_role (rec_identity r)), att_profile = wi_profile (rec_identity r),
      att_session_key = ''remote:'' @ instance_id_of r,
      att_base_url = non_empty (Some (record_base_url r)), att_model = None,
      att_dispatcher_instance_id = None, att_registry_record = Some r\<rparr>"

definition register_remote_agent :: "'v InstanceRecord \<Rightarrow> 'v FleetControl \<Rightarrow> 'v FleetControl" where
  "register_remote_agent r c = c\<lparr>fl_engine := attach_instance (remote_attachment r) (fl_engine c)\<rparr>"

definition connect_probed :: "bool \<Rightarrow> ProbeResult \<Rightarrow> 'v FleetControl \<Rightarrow> 'v FleetControl" where
  "connect_probed in_runtime p c =
     (if \<not> pr_ready p then c
      else case find_instance (fl_instance_registry c) (pr_instance_id p) of
             None \<Rightarrow> c
           | Some r \<Rightarrow>
               let c1 = (if List.member (attached_ids c) (pr_instance_id p) then c
                         else register_remote_agent r c)
               in if ocp_ws_url (ow_control_plane (rec_observed r)) = [] then c1
                  else connect_instance_session in_runtime (pr_instance_id p) c1)"

text \<open>A result comes with the two clock readings its record is stamped with.\<close>

definition apply_remote_probe_results ::
  "'ver semver \<Rightarrow> bool \<Rightarrow> (ProbeResult \<times> string \<times> string) list \<Rightarrow> 'v FleetControl \<Rightarrow> 'v FleetControl"
where
  "apply_remote_probe_results sv in_runtime results c =
     (let changed = list_ex (\<lambda>(p, _). find_instance (fl_instance_registry c) (pr_instance_id p) \<noteq> None)
                      results;
          c1 = c\<lparr>fl_instance_registry :=
                   fold (\<lambda>(p, now, updated).
                           update_instance (pr_instance_id p) (probe_record sv now updated p))
                     results (fl_instance_registry c)\<rparr>;
          c2 = fold (\<lambda>(p, _). connect_probed in_runtime p) results c1
      in if changed
         then c2\<lparr>fl_instance_registry :=
                fold (\<lambda>(p, _). update_instance (pr_instance_id p) (remerge_record sv p))
                  results (eng_registry_store (fl_engine c2))\<rparr>
         else c2)"

section \<open>Container reconciliation\<close>

definition mark_exited :: "'v InstanceRecord \<Rightarrow> 'v InstanceRecord" where
  "mark_exited r = set_status Exited (set_health ((health_of r)\<lparr>oh_ready := False\<rparr>) r)"

definition reconcile_container_agents ::
  "'v InstanceRecord list \<Rightarrow> 'v FleetControl \<Rightarrow> nat \<times> 'v FleetControl"
where
  "reconcile_container_agents discovered c =
     (let live_ids = map instance_id_of discovered;
          urls = remote_base_urls c;
          c1 = fold (\<lambda>r c. let c' = c\<lparr>fl_instance_registry := upsert r (fl_instance_registry c)\<rparr>
                           in if oh_ready (health_of r) \<and> \<not> List.member urls (record_base_url r)
                              then register_container_agent r c' else c')
                 discovered c;
          stale_ids = map instance_id_of
            (filter (\<lambda>r. bc_kind (dw_backend (rec_desired r)) = OciContainer \<and>
                         \<not> List.member live_ids (instance_id_of r) \<and> status_of r \<noteq> Exited)
               (reg_instances (fl_instance_registry c1)));
          c2 = fold (\<lambda>i c. c\<lparr>fl_instance_registry := update_instance i mark_exited (fl_instance_registry c),
                              fl_engine := detach_instance i (fl_engine c)\<rparr>)
                 stale_ids c1
      in (length discovered,
          if discovered \<noteq> [] \<or> stale_ids \<noteq> []
          then c2\<lparr>fl_instance_registry := fold upsert discovered (eng_registry_store (fl_engine c2))\<rparr>
          else c2))"

end
