(* ===== verification/Fleet_Control_Props.thy ===== *)
theory Fleet_Control_Props
  imports Fleet_Control
begin

text \<open>
  What the controller's two copies of the registry mean for the fleet: the copy inside the state
  engine wins at every tick, so what is written to the controller's copy alone does not last.
\<close>

section \<open>The engine's copy\<close>

lemma disconnect_sel [simp]:
  "fl_instance_registry (disconnect_instance_session i c) = fl_instance_registry c"
  "fl_engine (disconnect_instance_session i c) = fl_engine c"
  by (simp_all add: disconnect_instance_session_def)

lemma disconnect_all_sel [simp]:
  "fl_instance_registry (fold disconnect_instance_session is c) = fl_instance_registry c"
  "fl_engine (fold disconnect_instance_session is c) = fl_engine c"
  by (induction "is" arbitrary: c) simp_all

lemma evaluate_instance_lifecycle_sel:
  "fl_engine (evaluate_instance_lifecycle t c) = evaluate_lifecycle_policy t (fl_engine c)"
  "fl_instance_registry (evaluate_instance_lifecycle t c) =
     eng_registry_store (evaluate_lifecycle_policy t (fl_engine c))"
  by (simp_all add: evaluate_instance_lifecycle_def Let_def adopt_engine_registry_def)

lemma disconnect_all_sessions:
  "fl_sessions (fold disconnect_instance_session is c) = filter (\<lambda>i. i \<notin> set is) (fl_sessions c)"
  by (induction "is" arbitrary: c) (auto simp: disconnect_instance_session_def intro: filter_cong)

text \<open>After a tick every open session belongs to an attached instance.\<close>

lemma evaluate_closes_stale_sessions:
  "set (fl_sessions (evaluate_instance_lifecycle t c)) =
     set (fl_sessions c) \<inter> set (attached_ids c)"
  by (auto simp: evaluate_instance_lifecycle_def Let_def disconnect_all_sessions
      adopt_engine_registry_def evaluate_lifecycle_policy_def)

lemma find_evaluated:
  "find_instance (eng_registry_store (evaluate_lifecycle_policy t e)) i =
     map_option (evaluate_record t) (find_instance (eng_registry_store e) i)"
  by (simp add: evaluate_lifecycle_policy_def find_instance_map)

lemma evaluate_record_abandons:
  assumes "last_seen_epoch r = Some seen" and "unat seen + 1800 \<le> unat t"
  shows "status_of (evaluate_record t r) = WorkerLifecycleState.Abandoned \<and>
         \<not> oh_ready (health_of (evaluate_record t r))"
proof -
  have "ABANDON_AFTER_SECONDS \<le> saturating_sub t seen"
    using assms(2) by (simp add: word_le_nat_alt unat_saturating_sub ABANDON_AFTER_SECONDS_def)
  then show ?thesis using assms(1) by (simp add: evaluate_record_def age_record_def)
qed

section \<open>Probing\<close>

lemma connect_probed_engine:
  "(pr_ready p \<Longrightarrow> pr_instance_id p \<in> set (attached_ids c)) \<Longrightarrow>
     fl_engine (connect_probed rt p c) = fl_engine c"
  by (auto simp: connect_probed_def Let_def connect_instance_session_def split: option.splits)

lemma connect_all_engine:
  assumes "\<forall>x \<in> set results. pr_ready (fst x) \<longrightarrow> pr_instance_id (fst x) \<in> set (attached_ids c)"
  shows "fl_engine (fold (\<lambda>(p, _). connect_probed rt p) results c) = fl_engine c"
  using assms
proof (induction results arbitrary: c)
  case Nil
  then show ?case by simp
next
  case (Cons x results)
  obtain p y where x: "x = (p, y)" by fastforce
  let ?c = "connect_probed rt p c"
  have same: "fl_engine ?c = fl_engine c"
    using Cons.prems by (intro connect_probed_engine) (simp add: x)
  have "fl_engine (fold (\<lambda>(p, _). connect_probed rt p) results ?c) = fl_engine ?c"
    using Cons.prems by (intro Cons.IH) (simp add: same)
  with same show ?case by (simp add: x)
qed

lemma probe_results_engine:
  assumes "\<forall>x \<in> set results. pr_ready (fst x) \<longrightarrow> pr_instance_id (fst x) \<in> set (attached_ids c)"
  shows "fl_engine (apply_remote_probe_results sv rt results c) = fl_engine c"
proof -
  let ?c1 = "c\<lparr>fl_instance_registry :=
      fold (\<lambda>(p, now, updated). update_instance (pr_instance_id p) (probe_record sv now updated p))
        results (fl_instance_registry c)\<rparr>"
  have "fl_engine (fold (\<lambda>(p, _). connect_probed rt p) results ?c1) = fl_engine ?c1"
    using assms by (intro connect_all_engine) simp
  then show ?thesis by (simp add: apply_remote_probe_results_def Let_def)
qed

text \<open>
  The results of probing instances that are attached already do not outlive the next tick: the
  registry is then what it would have been without the probe.  In particular an attached instance
  whose last sighting is 1800 seconds old is recorded as abandoned and not ready, although the
  probe has just found it ready.
\<close>

theorem probe_results_do_not_last:
  assumes "\<forall>x \<in> set results. pr_ready (fst x) \<longrightarrow> pr_instance_id (fst x) \<in> set (attached_ids c)"
  shows "fl_instance_registry
           (evaluate_instance_lifecycle t (apply_remote_probe_results sv rt results c)) =
         fl_instance_registry (evaluate_instance_lifecycle t c) \<and>
         (\<forall>i r seen. find_instance (eng_registry_store (fl_engine c)) i = Some r \<and>
            last_seen_epoch r = Some seen \<and> unat seen + 1800 \<le> unat t \<longrightarrow>
            (\<exists>r'. find_instance (fl_instance_registry (evaluate_instance_lifecycle t
                      (apply_remote_probe_results sv rt results c))) i = Some r' \<and>
                  status_of r' = WorkerLifecycleState.Abandoned \<and> \<not> oh_ready (health_of r')))"
  using evaluate_record_abandons
  by (fastforce simp: evaluate_instance_lifecycle_sel probe_results_engine [OF assms] find_evaluated)

definition empty_fleet :: "demo_json FleetControl" where
  "empty_fleet =
     \<lparr>fl_instance_registry = eng_registry_store sample_engine, fl_engine = sample_engine,
      fl_sessions = [], fl_focused_instance_id = None\<rparr>"

definition probed_fleet :: "demo_json FleetControl" where
  "probed_fleet = attach_instance_record (remote_attachment (seen_record ''100'')) empty_fleet"

definition sample_probe :: ProbeResult where
  "sample_probe = \<lparr>pr_instance_id = ''remote:r1'', pr_ready = True, pr_omegon_version = [],
                   pr_capabilities = []\<rparr>"

definition any_version :: "unit semver" where
  "any_version = \<lparr>sv_parse = (\<lambda>_. Some ()), sv_less = (\<lambda>_ _. False), sv_minimum = ()\<rparr>"

lemma seen_record_id: "instance_id_of (seen_record s) = ''remote:r1''"
  by (simp add: seen_record_def Let_def blank_record_def)

lemma attached_ids_attach_record:
  "att_instance_id a \<in> set (attached_ids (attach_instance_record a c))"
proof -
  let ?a = "a\<lparr>att_registry_record := Some (synthesize_instance_record a)\<rparr>"
  have "att_instance_id ?a \<in>
      set (map att_instance_id (upsert_record att_instance_id ?a (eng_attached_instances (fl_engine c))))"
    by (subst keys_upsert_record) auto
  then show ?thesis
    by (simp add: attach_instance_record_def adopt_engine_registry_def attach_instance_def Let_def)
qed

lemma find_attach_record:
  "find_instance (eng_registry_store (fl_engine (attach_instance_record a c))) (att_instance_id a) =
     Some (synthesize_instance_record a)"
  by (simp add: attach_instance_record_def adopt_engine_registry_def attach_instance_def Let_def
      registry.find_insert)

lemma last_seen_synthesized:
  "att_registry_record a = Some r \<Longrightarrow> oh_last_seen_at (health_of r) \<noteq> None \<Longrightarrow>
     last_seen_epoch (synthesize_instance_record a) = last_seen_epoch r"
  by (auto simp: last_seen_epoch_def synthesize_instance_record_def Let_def refreshed_health_def)

theorem probe_results_do_not_last_example:
  "let c = evaluate_instance_lifecycle 2000
             (apply_remote_probe_results any_version True [(sample_probe, ''1999'', ''1999'')] probed_fleet)
   in \<exists>r. find_instance (fl_instance_registry c) ''remote:r1'' = Some r \<and>
          status_of r = WorkerLifecycleState.Abandoned \<and> \<not> oh_ready (health_of r)"
proof -
  let ?a = "remote_attachment (seen_record ''100'')"
  have id: "att_instance_id ?a = ''remote:r1''"
    by (simp add: remote_attachment_def seen_record_id)
  have "\<forall>x \<in> set [(sample_probe, ''1999'', ''1999'')]. pr_ready (fst x) \<longrightarrow>
      pr_instance_id (fst x) \<in> set (attached_ids probed_fleet)"
    using attached_ids_attach_record [of ?a empty_fleet]
    by (simp add: probed_fleet_def sample_probe_def id)
  from probe_results_do_not_last [OF this, of 2000 any_version True]
  have "\<exists>r'. find_instance (fl_instance_registry (evaluate_instance_lifecycle 2000
      (apply_remote_probe_results any_version True [(sample_probe, ''1999'', ''1999'')] probed_fleet)))
        ''remote:r1'' = Some r' \<and> status_of r' = WorkerLifecycleState.Abandoned \<and>
      \<not> oh_ready (health_of r')"
    if "find_instance (eng_registry_store (fl_engine probed_fleet)) ''remote:r1'' = Some r"
      and "last_seen_epoch r = Some 100" for r
    using that by (auto simp: Let_def)
  moreover have "find_instance (eng_registry_store (fl_engine probed_fleet)) ''remote:r1'' =
      Some (synthesize_instance_record ?a)"
    using find_attach_record [of ?a empty_fleet] by (simp add: probed_fleet_def id)
  moreover have "last_seen_epoch (synthesize_instance_record ?a) = Some 100"
    using last_seen_synthesized [of ?a "seen_record ''100''"] seen_record_epoch
    by (simp add: remote_attachment_def seen_record_def Let_def)
  ultimately show ?thesis by (simp add: Let_def)
qed

section \<open>Containers\<close>

lemma find_filter_found:
  "List.find P xs = Some x \<Longrightarrow> Q x \<Longrightarrow> List.find P (filter Q xs) = Some x"
  by (induction xs) (auto split: if_splits)

lemma detach_keeps_foreign:
  assumes "find_instance (eng_registry_store e) i = Some r"
    and "\<not> owned_by_session (eng_session_key e) r"
  shows "find_instance (eng_registry_store (detach_instance j e)) i = Some r \<and>
         eng_session_key (detach_instance j e) = eng_session_key e"
  using assms by (simp add: detach_instance_def find_instance_def find_filter_found)

lemma detach_all_keeps_foreign:
  assumes "find_instance (eng_registry_store e) i = Some r"
    and "\<not> owned_by_session (eng_session_key e) r"
  shows "find_instance (eng_registry_store (fold detach_instance js e)) i = Some r"
  using assms
proof (induction js arbitrary: e)
  case Nil
  then show ?case by simp
next
  case (Cons j js)
  then show ?case using detach_keeps_foreign [OF Cons.prems, of j] by simp
qed

lemma exit_all_engine:
  "fl_engine (fold (\<lambda>i c. c\<lparr>fl_instance_registry := update_instance i mark_exited (fl_instance_registry c),
                            fl_engine := detach_instance i (fl_engine c)\<rparr>) js c) =
     fold detach_instance js (fl_engine c)"
  by (induction js arbitrary: c) simp_all

lemma fold_detach_attached:
  "eng_attached_instances (fold detach_instance js e) =
     filter (\<lambda>a. att_instance_id a \<notin> set js) (eng_attached_instances e)"
  by (induction js arbitrary: e) (auto simp: detach_instance_def intro: filter_cong)

text \<open>
  A container agent that has disappeared is detached, but it is not recorded as exited: when
  its record is owned by anything but the session itself, the reconciliation leaves the record as
  it was, still ready, because the engine's copy of the registry replaces the one in which the
  exit was noted.
\<close>

theorem vanished_container_keeps_its_record:
  assumes "fl_instance_registry c = eng_registry_store (fl_engine c)"
    and "find_instance (fl_instance_registry c) i = Some r"
    and "bc_kind (dw_backend (rec_desired r)) = OciContainer" and "status_of r \<noteq> Exited"
    and "\<not> owned_by_session (eng_session_key (fl_engine c)) r"
  shows "\<exists>c'. reconcile_container_agents [] c = (0, c') \<and>
           find_instance (fl_instance_registry c') i = Some r \<and> i \<notin> set (attached_ids c')"
proof -
  let ?stale = "filter (\<lambda>r. bc_kind (dw_backend (rec_desired r)) = OciContainer \<and> status_of r \<noteq> Exited)
      (reg_instances (fl_instance_registry c))"
  let ?ids = "map instance_id_of ?stale"
  let ?c2 = "fold (\<lambda>i c. c\<lparr>fl_instance_registry := update_instance i mark_exited (fl_instance_registry c),
      fl_engine := detach_instance i (fl_engine c)\<rparr>) ?ids c"
  have mem: "r \<in> set ?stale" and id: "instance_id_of r = i"
    using assms(2-4) by (auto simp: find_instance_def dest: find_SomeD)
  from imageI [OF mem, of instance_id_of] have stale: "i \<in> set ?ids" unfolding id by simp
  from mem have "?ids \<noteq> []" by (cases ?stale) simp_all
  then have "reconcile_container_agents [] c =
      (0, ?c2\<lparr>fl_instance_registry := eng_registry_store (fl_engine ?c2)\<rparr>)"
    by (simp add: reconcile_container_agents_def Let_def)
  moreover have "find_instance (eng_registry_store (fl_engine ?c2)) i = Some r"
    unfolding exit_all_engine using assms(1,2,5) by (simp add: detach_all_keeps_foreign)
  moreover have "i \<notin> att_instance_id ` set (eng_attached_instances (fl_engine ?c2))"
    unfolding exit_all_engine fold_detach_attached using stale by (auto simp del: set_map)
  ultimately show ?thesis by simp
qed

definition container_record :: "demo_json InstanceRecord" where
  "container_record =
     (let r = blank_record \<lparr>att_instance_id = ''c1'', att_route_id = [], att_role = ''worker'',
                att_profile = ''p'', att_session_key = [], att_base_url = None, att_model = None,
                att_dispatcher_instance_id = None, att_registry_record = None\<rparr>
      in r\<lparr>rec_desired := (rec_desired r)\<lparr>dw_backend :=
            (dw_backend (rec_desired r))\<lparr>bc_kind := OciContainer\<rparr>\<rparr>\<rparr>)"

definition container_fleet :: "demo_json FleetControl" where
  "container_fleet = register_container_agent container_record empty_fleet"

theorem vanished_container_keeps_its_record_example:
  "\<exists>c' r. reconcile_container_agents [] container_fleet = (0, c') \<and>
     find_instance (fl_instance_registry c') ''c1'' = Some r \<and>
     status_of r = WorkerLifecycleState.Ready \<and> oh_ready (health_of r)"
proof -
  let ?a = "container_attachment container_record"
  let ?r = "synthesize_instance_record ?a"
  have c: "container_fleet = attach_instance_record ?a empty_fleet"
    by (simp add: container_fleet_def register_container_agent_def attach_instance_record_def)
  have sync: "fl_instance_registry container_fleet = eng_registry_store (fl_engine container_fleet)"
    by (simp add: c attach_instance_record_def adopt_engine_registry_def)
  have id: "att_instance_id ?a = ''c1''"
    by (simp add: container_attachment_def container_record_def blank_record_def Let_def)
  have found: "find_instance (fl_instance_registry container_fleet) ''c1'' = Some ?r"
    unfolding sync using find_attach_record [of ?a empty_fleet] by (simp add: c id)
  have kind: "bc_kind (dw_backend (rec_desired ?r)) = OciContainer"
    by (simp add: synthesize_instance_record_def container_attachment_def container_record_def Let_def)
  have key: "eng_session_key (fl_engine container_fleet) = ''remote:s1''"
    by (simp add: c attach_instance_record_def adopt_engine_registry_def attach_instance_def Let_def
        empty_fleet_def sample_engine_def from_registry_and_session_def)
  have "trim_remote ''remote:s1'' = ''s1''" and "trim_remote ''container:c1'' = ''container:c1''"
    by (simp_all add: trim_remote_def strip_seqs.simps starts_with_def)
  then have foreign: "\<not> owned_by_session (eng_session_key (fl_engine container_fleet)) ?r"
    by (simp add: key owned_by_session_def container_attachment_def container_record_def
        blank_record_def Let_def)
  from vanished_container_keeps_its_record [OF sync found kind _ foreign] show ?thesis by auto
qed

section \<open>Startup\<close>

text \<open>
  Instances from the configuration are recorded as requested and not ready, yet attaching them
  marks the record ready at once, before any probe.
\<close>

lemma configured_instance_is_ready:
  "status_of (synthesize_instance_record (configured_attachment (to_instance_record sv now name e) e)) =
     WorkerLifecycleState.Ready \<and>
   oh_ready (health_of (synthesize_instance_record
     (configured_attachment (to_instance_record sv now name e) e))) \<and>
   status_of (to_instance_record sv now name e) = Requested \<and>
   \<not> oh_ready (health_of (to_instance_record sv now name e))"
  by (simp add: to_instance_record_def Let_def)

end
