(* ===== verification/Runtime_Inventory.thy ===== *)
theory Runtime_Inventory
  imports Operational_Profile Supervisor_Contract
begin

text \<open>
  The read-only inventory of what a runtime offers (\<open>runtime_inventory.rs\<close>): ten requests, each
  answered by a control result that is filed per instance and request.  Decoding and building
  JSON values are the parameters \<open>inventory_api\<close>; the laws a property needs of them are stated
  with it.
\<close>

section \<open>Requests\<close>

definition OMEGON_CLIENT_API_VERSION :: u32 where "OMEGON_CLIENT_API_VERSION = 1"

datatype RuntimeInventoryRequest =
    RuntimeInventoryStatus
  | ProfileView
  | WorkspaceStatusView
  | WorkspaceListView
  | SkillsView
  | ExtensionView
  | ArmoryBrowse
  | CatalogView
  | PluginView
  | PermissionsView

definition ALL_REQUESTS :: "RuntimeInventoryRequest list" where
  "ALL_REQUESTS =
     [RuntimeInventoryStatus, ProfileView, WorkspaceStatusView, WorkspaceListView, SkillsView,
      ExtensionView, ArmoryBrowse, CatalogView, PluginView, PermissionsView]"

text \<open>The derived order is the order of declaration.\<close>

fun request_rank :: "RuntimeInventoryRequest \<Rightarrow> nat" where
  "request_rank RuntimeInventoryStatus = 0"
| "request_rank ProfileView = 1"
| "request_rank WorkspaceStatusView = 2"
| "request_rank WorkspaceListView = 3"
| "request_rank SkillsView = 4"
| "request_rank ExtensionView = 5"
| "request_rank ArmoryBrowse = 6"
| "request_rank CatalogView = 7"
| "request_rank PluginView = 8"
| "request_rank PermissionsView = 9"

lemma request_rank_inject: "request_rank a = request_rank b \<Longrightarrow> a = b"
  by (cases a; cases b) simp_all

instantiation RuntimeInventoryRequest :: linorder
begin

definition less_eq_RuntimeInventoryRequest ::
  "RuntimeInventoryRequest \<Rightarrow> RuntimeInventoryRequest \<Rightarrow> bool"
where
  "less_eq_RuntimeInventoryRequest a b \<longleftrightarrow> request_rank a \<le> request_rank b"

definition less_RuntimeInventoryRequest ::
  "RuntimeInventoryRequest \<Rightarrow> RuntimeInventoryRequest \<Rightarrow> bool"
where
  "less_RuntimeInventoryRequest a b \<longleftrightarrow> request_rank a < request_rank b"

instance
  by standard
    (auto simp: less_eq_RuntimeInventoryRequest_def less_RuntimeInventoryRequest_def
      intro: request_rank_inject)

end

fun request_method :: "RuntimeInventoryRequest \<Rightarrow> string" where
  "request_method RuntimeInventoryStatus = ''runtime-inventory-status''"
| "request_method ProfileView = ''profile-view''"
| "request_method WorkspaceStatusView = ''workspace-status-view''"
| "request_method WorkspaceListView = ''workspace-list-view''"
| "request_method SkillsView = ''skills-view''"
| "request_method ExtensionView = ''extension-view''"
| "request_method ArmoryBrowse = ''armory-browse''"
| "request_method CatalogView = ''catalog-view''"
| "request_method PluginView = ''plugin-view''"
| "request_method PermissionsView = ''permissions-view''"

definition request_for_method :: "string \<Rightarrow> RuntimeInventoryRequest option" where
  "request_for_method name = List.find (\<lambda>r. request_method r = name) ALL_REQUESTS"

lemma request_for_method_method [simp]: "request_for_method (request_method r) = Some r"
  by (cases r) (simp_all add: request_for_method_def ALL_REQUESTS_def)

lemma request_for_method_Some: "request_for_method name = Some r \<Longrightarrow> request_method r = name"
  by (auto simp: request_for_method_def find_Some_iff)

definition targeted_command ::
  "(u32 \<Rightarrow> 'v) \<Rightarrow> ManagedCommandId \<Rightarrow> RuntimeInventoryRequest \<Rightarrow> CommandTarget \<Rightarrow> 'v TargetedCommand"
where
  "targeted_command version_payload fresh request target =
     control_method fresh target (request_method request) (version_payload OMEGON_CLIENT_API_VERSION)"

section \<open>Responses\<close>

record 'v RuntimeInventoryResponse =
  resp_method :: string
  resp_accepted :: bool
  resp_output :: "string option"
  resp_details :: "(string, 'v) btree"

record 'v inventory_api =
  inv_json :: "'v json_api"
  inv_from_str :: "string \<Rightarrow> string + 'v"
  inv_from_value :: "'v \<Rightarrow> string + 'v RuntimeInventoryResponse"
  inv_response_value :: "string \<Rightarrow> bool \<Rightarrow> string option \<Rightarrow> 'v"

definition decode_response ::
  "'v inventory_api \<Rightarrow> RuntimeInventoryRequest \<Rightarrow> 'v \<Rightarrow> string + 'v RuntimeInventoryResponse"
where
  "decode_response api expected value =
     (case inv_from_value api value of
        Inl error \<Rightarrow> Err (''invalid Omegon inventory response: '' @ error)
      | Inr response \<Rightarrow>
          if resp_method response \<noteq> request_method expected
          then Err (''mismatched Omegon inventory response: expected '' @ request_method expected @
                    '', received '' @ resp_method response)
          else Ok response)"

section \<open>The store\<close>

datatype 'v RuntimeInventoryResourceState =
    Loading
  | Ready "'v RuntimeInventoryResponse"
  | Stale "'v RuntimeInventoryResponse"
  | Error string

record 'v RuntimeInventoryResource =
  res_instance_id :: string
  res_request :: RuntimeInventoryRequest
  res_state :: "'v RuntimeInventoryResourceState"
  res_observed_at_unix_ms :: "u64 option"

type_synonym 'v RuntimeInventoryStore =
  "(string \<times> RuntimeInventoryRequest, 'v RuntimeInventoryResource) btree"

definition file_resource ::
  "string \<Rightarrow> RuntimeInventoryRequest \<Rightarrow> 'v RuntimeInventoryResourceState \<Rightarrow> u64 option \<Rightarrow>
     'v RuntimeInventoryStore \<Rightarrow> 'v RuntimeInventoryStore"
where
  "file_resource i request state at s =
     bt_insert (i, request)
       \<lparr>res_instance_id = i, res_request = request, res_state = state, res_observed_at_unix_ms = at\<rparr> s"

definition mark_loading ::
  "string \<Rightarrow> RuntimeInventoryRequest \<Rightarrow> 'v RuntimeInventoryStore \<Rightarrow> 'v RuntimeInventoryStore"
where
  "mark_loading i request s = file_resource i request Loading None s"

definition apply_response ::
  "'v inventory_api \<Rightarrow> string \<Rightarrow> RuntimeInventoryRequest \<Rightarrow> 'v \<Rightarrow> u64 \<Rightarrow> 'v RuntimeInventoryStore \<Rightarrow>
     (string + unit) \<times> 'v RuntimeInventoryStore"
where
  "apply_response api i request value at s =
     (case decode_response api request value of
        Inl e \<Rightarrow> (Err e, s)
      | Inr response \<Rightarrow>
          (Ok (), file_resource i request
             (if resp_accepted response then Ready response
              else Error (unwrap_or (resp_output response) ''Omegon rejected the inventory request''))
             (Some at) s))"

definition apply_control_result_json ::
  "'v inventory_api \<Rightarrow> string \<Rightarrow> string \<Rightarrow> u64 \<Rightarrow> 'v RuntimeInventoryStore \<Rightarrow>
     (string + bool) \<times> 'v RuntimeInventoryStore"
where
  "apply_control_result_json api i event_json at s =
     (let js = inv_json api
      in case inv_from_str api event_json of
           Inl error \<Rightarrow> (Err (''invalid control result JSON: '' @ error), s)
         | Inr value \<Rightarrow>
             if Option.bind (js_get js value ''type'') (js_as_str js) \<noteq> Some ''control_result''
             then (Ok False, s)
             else
               (case Option.bind (js_get js value ''name'') (js_as_str js) of
                  None \<Rightarrow> (Ok False, s)
                | Some name \<Rightarrow>
                    (case request_for_method name of
                       None \<Rightarrow> (Ok False, s)
                     | Some request \<Rightarrow>
                         (case apply_response api i request
                                 (inv_response_value api name
                                    (unwrap_or (Option.bind (js_get js value ''accepted'') (js_as_bool js))
                                       False)
                                    (Option.bind (js_get js value ''output'') (js_as_str js)))
                                 at s of
                            (Inl e, s') \<Rightarrow> (Err e, s')
                          | (Inr _, s') \<Rightarrow> (Ok True, s')))))"

definition mark_error ::
  "string \<Rightarrow> RuntimeInventoryRequest \<Rightarrow> string \<Rightarrow> u64 \<Rightarrow> 'v RuntimeInventoryStore \<Rightarrow>
     'v RuntimeInventoryStore"
where
  "mark_error i request message at s = file_resource i request (Error message) (Some at) s"

definition stale_resource :: "'v RuntimeInventoryResource \<Rightarrow> 'v RuntimeInventoryResource" where
  "stale_resource r =
     (case res_state r of Ready response \<Rightarrow> r\<lparr>res_state := Stale response\<rparr> | _ \<Rightarrow> r)"

definition mark_instance_stale :: "string \<Rightarrow> 'v RuntimeInventoryStore \<Rightarrow> 'v RuntimeInventoryStore" where
  "mark_instance_stale i s =
     bt_update_all (\<lambda>k r. if fst k \<noteq> i then r else stale_resource r) s"

definition inventory_resource ::
  "'v RuntimeInventoryStore \<Rightarrow> string \<Rightarrow> RuntimeInventoryRequest \<Rightarrow> 'v RuntimeInventoryResource option"
where
  "inventory_resource s i request = bt_get s (i, request)"

definition resources_for :: "'v RuntimeInventoryStore \<Rightarrow> string \<Rightarrow> 'v RuntimeInventoryResource list" where
  "resources_for s i = map snd (filter (\<lambda>e. fst (fst e) = i) s)"

definition remove_instance_resources ::
  "string \<Rightarrow> 'v RuntimeInventoryStore \<Rightarrow> 'v RuntimeInventoryStore"
where
  "remove_instance_resources i s = filter (\<lambda>e. fst (fst e) \<noteq> i) s"

section \<open>Lookups\<close>

lemma map_of_filter_pred: "map_of (filter (\<lambda>e. P (fst e)) m) k = (if P k then map_of m k else None)"
  by (induction m) auto

lemma resource_after_file:
  "bt_ok s \<Longrightarrow> inventory_resource (file_resource i q st at s) j q' =
     (if j = i \<and> q' = q
      then Some \<lparr>res_instance_id = i, res_request = q, res_state = st, res_observed_at_unix_ms = at\<rparr>
      else inventory_resource s j q')"
  by (auto simp: inventory_resource_def file_resource_def bt.get_insert)

lemma resource_after_stale:
  "bt_ok s \<Longrightarrow> inventory_resource (mark_instance_stale i s) j q' =
     (if j = i then map_option stale_resource (inventory_resource s j q')
      else inventory_resource s j q')"
  by (auto simp: inventory_resource_def mark_instance_stale_def bt.get_update_all option.map_ident)

lemma resource_after_remove:
  "inventory_resource (remove_instance_resources i s) j q' =
     (if j = i then None else inventory_resource s j q')"
  using map_of_filter_pred [of "\<lambda>k. fst k \<noteq> i" s "(j, q')"]
  by (simp add: inventory_resource_def remove_instance_resources_def bt_get_def)

lemmas resource_after = resource_after_file resource_after_stale resource_after_remove

lemma store_ok:
  "bt_ok s \<Longrightarrow> bt_ok (file_resource i q st at s)" "bt_ok s \<Longrightarrow> bt_ok (mark_instance_stale i s)"
  "bt_ok s \<Longrightarrow> bt_ok (remove_instance_resources i s)"
  by (simp_all add: file_resource_def bt.ok_insert mark_instance_stale_def bt.ok_update_all)
    (simp add: remove_instance_resources_def bt_ok_def sorted_wrt_map sorted_wrt_filter)

text \<open>
  A control result with an accepted answer to a known request is shown as ready with the output it
  carries, provided decoding a built response gives back what it was built from; a result that is
  not about the inventory is left to others and changes nothing.
\<close>

lemma control_result_is_filed:
  assumes "inv_from_str api json = Ok v"
    and "Option.bind (js_get (inv_json api) v ''type'') (js_as_str (inv_json api)) = Some ''control_result''"
    and "Option.bind (js_get (inv_json api) v ''name'') (js_as_str (inv_json api)) = Some (request_method q)"
    and "Option.bind (js_get (inv_json api) v ''accepted'') (js_as_bool (inv_json api)) = Some True"
    and "\<And>m a out. \<exists>d. inv_from_value api (inv_response_value api m a out) =
           Ok \<lparr>resp_method = m, resp_accepted = a, resp_output = out, resp_details = d\<rparr>"
    and "bt_ok s"
  shows "\<exists>s' r. apply_control_result_json api i json at s = (Ok True, s') \<and>
           map_option res_state (inventory_resource s' i q) = Some (Ready r) \<and>
           resp_output r = Option.bind (js_get (inv_json api) v ''output'') (js_as_str (inv_json api))"
proof -
  let ?out = "Option.bind (js_get (inv_json api) v ''output'') (js_as_str (inv_json api))"
  from assms(5) obtain d where "inv_from_value api (inv_response_value api (request_method q) True ?out) =
      Ok \<lparr>resp_method = request_method q, resp_accepted = True, resp_output = ?out, resp_details = d\<rparr>"
    by blast
  then show ?thesis using assms(1-4,6)
    by (simp add: apply_control_result_json_def Let_def apply_response_def decode_response_def
        resource_after)
qed

end
