(* ===== verification/Fleet_Inventory.thy ===== *)
theory Fleet_Inventory
  imports State_Engine_Props Runtime_Inventory
begin

text \<open>
  The controller's use of the runtime inventory (\<open>controller.rs\<close>): a refresh asks the selected
  command target for all ten views and marks them as loading, and an answer is filed under the
  target that is selected when it arrives.
\<close>

definition inventory_key :: "CommandTarget \<Rightarrow> string" where
  "inventory_key target = unwrap_or (ct_dispatcher_instance_id target) (ct_session_key target)"

definition runtime_inventory_refresh_commands ::
  "(u32 \<Rightarrow> 'v) \<Rightarrow> ManagedCommandId list \<Rightarrow> 'v AttachedInstanceStateEngine \<Rightarrow> 'v RuntimeInventoryStore \<Rightarrow>
     'v TargetedCommand list \<times> 'v RuntimeInventoryStore"
where
  "runtime_inventory_refresh_commands version_payload fresh e s =
     (let target = current_command_target e
      in (map (\<lambda>(command_id, request). targeted_command version_payload command_id request target)
            (zip fresh ALL_REQUESTS),
          fold (mark_loading (inventory_key target)) ALL_REQUESTS s))"

definition apply_runtime_inventory_event ::
  "'v inventory_api \<Rightarrow> 'v AttachedInstanceStateEngine \<Rightarrow> string \<Rightarrow> u64 \<Rightarrow> 'v RuntimeInventoryStore \<Rightarrow>
     (string + bool) \<times> 'v RuntimeInventoryStore"
where
  "apply_runtime_inventory_event api e event_json at s =
     apply_control_result_json api (inventory_key (current_command_target e)) event_json at s"

lemma ok_mark_all: "bt_ok s \<Longrightarrow> bt_ok (fold (mark_loading i) qs s)"
  by (induction qs arbitrary: s) (simp_all add: mark_loading_def store_ok)

lemma resource_mark_all:
  assumes "bt_ok s"
  shows "map_option res_state (inventory_resource (fold (mark_loading i) qs s) j q) =
           (if j = i \<and> q \<in> set qs then Some Loading
            else map_option res_state (inventory_resource s j q))"
  using assms
proof (induction qs arbitrary: s)
  case Nil
  then show ?case by simp
next
  case (Cons q' qs)
  then have "bt_ok (mark_loading i q' s)" by (simp add: mark_loading_def store_ok)
  from Cons.IH [OF this] Cons.prems show ?case
    by (auto simp: mark_loading_def resource_after)
qed

lemma all_requests: "q \<in> set ALL_REQUESTS"
  by (cases q) (simp_all add: ALL_REQUESTS_def)

lemma control_result_other_instance:
  assumes "bt_ok s" and "j \<noteq> i"
  shows "inventory_resource (snd (apply_control_result_json api i json at s)) j q = inventory_resource s j q"
  using assms
  by (auto simp: apply_control_result_json_def Let_def apply_response_def resource_after
      split: sum.splits option.splits prod.splits)

lemma control_result_ok: "bt_ok s \<Longrightarrow> bt_ok (snd (apply_control_result_json api i json at s))"
  by (auto simp: apply_control_result_json_def Let_def apply_response_def store_ok
      split: sum.splits option.splits prod.splits)

lemma control_results_other_instance:
  assumes "bt_ok s" and "j \<noteq> i"
  shows "inventory_resource (fold (\<lambda>(json, at) s. snd (apply_control_result_json api i json at s)) events s) j q =
           inventory_resource s j q"
  using assms
proof (induction events arbitrary: s)
  case Nil
  then show ?case by simp
next
  case (Cons x events)
  obtain json at where x: "x = (json, at)" by fastforce
  from Cons.IH [OF control_result_ok [OF Cons.prems(1)] Cons.prems(2)]
    control_result_other_instance [OF Cons.prems] show ?case by (simp add: x)
qed

text \<open>
  Answers are filed under the target that is selected when they arrive, not under the one that
  was asked.  When the operator selects a target of another instance between a refresh and its
  answers, no answer that arrives from then on reaches the instance that was asked: all ten of its
  views stay loading.
\<close>

theorem inventory_answers_follow_the_selection:
  assumes "bt_ok s"
    and "runtime_inventory_refresh_commands payload fresh e s = (commands, asked)"
    and "inventory_key (current_command_target e') \<noteq> inventory_key (current_command_target e)"
    and "after = fold (\<lambda>(json, at) s. snd (apply_runtime_inventory_event api e' json at s)) events asked"
  shows "map_option res_state (inventory_resource after (inventory_key (current_command_target e)) q) =
           Some Loading"
proof -
  let ?i = "inventory_key (current_command_target e)"
  have asked: "asked = fold (mark_loading ?i) ALL_REQUESTS s"
    using assms(2) by (simp add: runtime_inventory_refresh_commands_def Let_def)
  then have "bt_ok asked" using assms(1) by (simp add: ok_mark_all)
  from control_results_other_instance [OF this, of ?i "inventory_key (current_command_target e')" api events q]
  have "inventory_resource after ?i q = inventory_resource asked ?i q"
    using assms(3,4) by (simp add: apply_runtime_inventory_event_def)
  then show ?thesis using assms(1) by (simp add: asked resource_mark_all all_requests)
qed

lemma sample_targets:
  "inventory_key (current_command_target sample_engine) = ''omg_dispatcher''"
  "inventory_key (current_command_target (select_command_route HOST_CONTROL_PLANE_ROUTE_ID sample_engine)) =
     ''remote:s1''"
  by (simp_all add: inventory_key_def current_command_target_def selected_command_route_id_def
      available_command_routes_def Let_def sample_engine_def from_registry_and_session_def
      reconcile_attached_instances_def sample_session_def described_host_def session_dispatcher_def
      sample_host_def sample_binding_def or_default_def project_command_route_def
      select_command_route_def SESSION_DISPATCHER_ROUTE_ID_def HOST_CONTROL_PLANE_ROUTE_ID_def)

definition sample_inventory_api :: "demo_json inventory_api" where
  "sample_inventory_api =
     \<lparr>inv_json = demo_api,
      inv_from_str = (\<lambda>_. Ok (DObj [(''type'', DStr ''control_result''), (''name'', DStr ''skills-view''),
                                     (''accepted'', DBool True), (''output'', DStr ''skills'')])),
      inv_from_value = (\<lambda>v. Ok \<lparr>resp_method = ''skills-view'', resp_accepted = True,
                                 resp_output = Some ''skills'', resp_details = bt_empty\<rparr>),
      inv_response_value = (\<lambda>m a out. DStr m)\<rparr>"

theorem inventory_answers_follow_the_selection_example:
  "let s1 = snd (runtime_inventory_refresh_commands (\<lambda>_. DObj []) [] sample_engine bt_empty);
       e' = select_command_route HOST_CONTROL_PLANE_ROUTE_ID sample_engine;
       (res, s2) = apply_runtime_inventory_event sample_inventory_api e' ''answer'' 7 s1
   in res = Ok True \<and>
      map_option res_state (inventory_resource s2 ''omg_dispatcher'' SkillsView) = Some Loading"
proof -
  let ?s1 = "snd (runtime_inventory_refresh_commands (\<lambda>_. DObj []) [] sample_engine bt_empty)"
  let ?e' = "select_command_route HOST_CONTROL_PLANE_ROUTE_ID sample_engine"
  let ?r = "apply_runtime_inventory_event sample_inventory_api ?e' ''answer'' 7 ?s1"
  have "map_option res_state (inventory_resource (snd ?r)
      (inventory_key (current_command_target sample_engine)) SkillsView) = Some Loading"
    by (rule inventory_answers_follow_the_selection
        [where s = bt_empty and asked = ?s1 and e' = ?e' and events = "[(''answer'', 7)]"
           and api = sample_inventory_api and payload = "\<lambda>_. DObj []" and fresh = "[]"
           and commands = "fst (runtime_inventory_refresh_commands (\<lambda>_. DObj []) [] sample_engine bt_empty)"])
      (simp_all add: bt.ok_empty sample_targets)
  moreover have "fst ?r = Ok True"
    by (simp add: apply_runtime_inventory_event_def apply_control_result_json_def
        sample_inventory_api_def demo_api_def demo_get_def request_for_method_def ALL_REQUESTS_def
        apply_response_def decode_response_def Let_def)
  ultimately show ?thesis by (simp add: Let_def case_prod_beta sample_targets)
qed

end
