(* ===== verification/Policy_Gates.thy ===== *)
theory Policy_Gates
  imports Prelude
begin

text \<open>
  The two policy seams: the classification of host actions that agents propose
  (\<open>host_action_policy.rs\<close>) and the authorisation of actions on local Omegon instances
  (\<open>authorization.rs\<close>).  The crate \<open>styrene_policy\<close> is a parameter: \<open>policy_api\<close> holds the
  methods of principals, decisions and the native engine that are called.
\<close>

section \<open>Host actions\<close>

datatype HostActionPolicyClass = ReadOnlyDiscovery | MutatingRequiresApproval | Unsupported | Deny

record HostActionPolicyDecision =
  had_action_type :: string
  had_class :: HostActionPolicyClass
  had_requires_approval :: bool
  had_audit_required :: bool
  had_reason :: string

definition new_decision ::
  "string \<Rightarrow> HostActionPolicyClass \<Rightarrow> bool \<Rightarrow> bool \<Rightarrow> string \<Rightarrow> HostActionPolicyDecision"
where
  "new_decision action_type cls requires_approval audit_required reason =
     \<lparr>had_action_type = action_type, had_class = cls, had_requires_approval = requires_approval,
      had_audit_required = audit_required, had_reason = reason\<rparr>"

definition discovery_actions :: "string list" where
  "discovery_actions = [''nex_capability'', ''nex.capability.check'', ''nex.capability.resolve'']"

definition classify_host_action :: "string \<Rightarrow> HostActionPolicyDecision" where
  "classify_host_action action_type =
     (if List.member discovery_actions action_type
      then new_decision action_type ReadOnlyDiscovery False False
             ''Nex capability resolution is read-only discovery evidence''
      else if action_type = ''package.install@1''
      then new_decision action_type MutatingRequiresApproval True True
             ''package.install@1 mutates host package state and requires approval''
      else if action_type = ''terminal.create@1''
      then new_decision action_type MutatingRequiresApproval True True
             ''terminal.create@1 can execute host commands and requires approval''
      else if starts_with action_type ''package.'' \<or> starts_with action_type ''terminal.''
      then new_decision action_type Unsupported True True
             ''known HostAction domain is not supported by this Auspex policy version''
      else new_decision action_type Deny False True
             ''unknown HostAction types are denied by default'')"

text \<open>
  Classification fails closed: everything but the three discovery requests is audited, everything
  that is neither discovery nor denied needs an approval, and the actions that may run at all are
  a fixed list of five.
\<close>

lemma classify_fails_closed:
  "(had_audit_required (classify_host_action a) \<longleftrightarrow> a \<notin> set discovery_actions) \<and>
   (had_requires_approval (classify_host_action a) \<longleftrightarrow>
      had_class (classify_host_action a) \<in> {MutatingRequiresApproval, Unsupported}) \<and>
   (had_class (classify_host_action a) \<in> {ReadOnlyDiscovery, MutatingRequiresApproval} \<longleftrightarrow>
      a \<in> set (discovery_actions @ [''package.install@1'', ''terminal.create@1'']))"
  by (auto simp: classify_host_action_def new_decision_def discovery_actions_def)

section \<open>Local actions\<close>

datatype LocalOmegonAction =
    Discover
  | Probe
  | Attach
  | Command
  | Launch
  | StopOwned
  | RestartOwned
  | StopExternal
  | InstallPackage
  | InvokeHostAction

fun capability :: "LocalOmegonAction \<Rightarrow> string" where
  "capability Discover = ''auspex.discovery.local.read''"
| "capability Probe = ''auspex.instance.probe''"
| "capability Attach = ''auspex.instance.attach''"
| "capability Command = ''auspex.instance.command''"
| "capability Launch = ''auspex.instance.launch''"
| "capability StopOwned = ''auspex.instance.stop_owned''"
| "capability RestartOwned = ''auspex.instance.restart_owned''"
| "capability StopExternal = ''auspex.instance.stop_external''"
| "capability InstallPackage = ''auspex.package.install''"
| "capability InvokeHostAction = ''auspex.host_action.invoke_mutating''"

lemma capability_inject: "capability a = capability b \<longleftrightarrow> a = b"
  by (cases a; cases b) simp_all

definition requires_identity :: "LocalOmegonAction \<Rightarrow> bool" where
  "requires_identity a \<longleftrightarrow> a \<notin> {Discover, Probe}"

definition requires_approval :: "LocalOmegonAction \<Rightarrow> bool" where
  "requires_approval a \<longleftrightarrow>
     a \<in> {Launch, StopOwned, RestartOwned, StopExternal, InstallPackage, InvokeHostAction}"

definition audit_required :: "LocalOmegonAction \<Rightarrow> bool" where
  "audit_required a \<longleftrightarrow> a \<noteq> Discover"

definition signature_required :: "LocalOmegonAction \<Rightarrow> bool" where
  "signature_required a \<longleftrightarrow> a \<in> {StopOwned, RestartOwned, StopExternal, InstallPackage, InvokeHostAction}"

record PrincipalRef =
  prin_identity_hash :: "string option"
  prin_role :: "string option"
  prin_capabilities :: "string list"
  prin_can_sign :: bool

datatype PolicyFollowup = Approval | Audit | Signature

record 'res PolicyRequest =
  preq_principal :: PrincipalRef
  preq_action_namespace :: string
  preq_action_name :: string
  preq_resource :: 'res
  preq_context :: "(string \<times> string) list"

record ('dec, 'res) policy_api =
  pol_has_capability :: "PrincipalRef \<Rightarrow> string \<Rightarrow> bool"
  pol_has_identity :: "PrincipalRef \<Rightarrow> bool"
  pol_allow :: 'dec
  pol_with_obligation :: "PolicyFollowup \<Rightarrow> 'dec \<Rightarrow> 'dec"
  pol_normalized :: "'dec \<Rightarrow> 'dec"
  pol_engine :: "'res PolicyRequest \<Rightarrow> 'dec"

definition bool_text :: "bool \<Rightarrow> string" where
  "bool_text b = (if b then ''true'' else ''false'')"

definition local_omegon_policy_request ::
  "PrincipalRef \<Rightarrow> LocalOmegonAction \<Rightarrow> 'res \<Rightarrow> 'res PolicyRequest"
where
  "local_omegon_policy_request who action resource =
     \<lparr>preq_principal = who, preq_action_namespace = [], preq_action_name = capability action,
      preq_resource = resource,
      preq_context = [(''requires_identity'', bool_text (requires_identity action)),
                      (''approval_required'', bool_text (requires_approval action)),
                      (''audit_required'', bool_text (audit_required action)),
                      (''signature_required'', bool_text (signature_required action))]\<rparr>"

definition obligations :: "LocalOmegonAction \<Rightarrow> PolicyFollowup list" where
  "obligations action =
     (if requires_approval action then [Approval] else []) @
     (if audit_required action then [Audit] else []) @
     (if signature_required action then [Signature] else [])"

definition authorize_local_omegon_action ::
  "('dec, 'res) policy_api \<Rightarrow> PrincipalRef \<Rightarrow> LocalOmegonAction \<Rightarrow> 'res \<Rightarrow> 'dec"
where
  "authorize_local_omegon_action api who action resource =
     (if \<not> requires_identity action \<and> pol_has_capability api who (capability action)
      then pol_normalized api (pol_allow api)
      else if requires_identity action \<and> pol_has_identity api who \<and>
              pol_has_capability api who (capability action)
      then pol_normalized api (fold (pol_with_obligation api) (obligations action) (pol_allow api))
      else pol_engine api (local_omegon_policy_request who action resource))"

definition discovery_principal :: PrincipalRef where
  "discovery_principal =
     \<lparr>prin_identity_hash = None, prin_role = Some ''local-observer'',
      prin_capabilities = [capability Discover], prin_can_sign = False\<rparr>"

definition attach_probe_principal :: PrincipalRef where
  "attach_probe_principal =
     \<lparr>prin_identity_hash = Some ''local-operator-dev-principal'', prin_role = Some ''operator'',
      prin_capabilities = [capability Attach], prin_can_sign = False\<rparr>"

text \<open>
  Auspex itself allows an action only to a principal that has its capability, and, beyond
  discovery and probing, an identity; everything else is the decision of the engine.  Whatever
  stops, restarts, installs or mutates is allowed only under approval, audit and signature, and a
  launch under approval and audit.
\<close>

lemma authorize_cases:
  "authorize_local_omegon_action api who action resource =
     (if pol_has_capability api who (capability action) \<and>
         (requires_identity action \<longrightarrow> pol_has_identity api who)
      then pol_normalized api
             (fold (pol_with_obligation api) (if requires_identity action then obligations action else [])
                (pol_allow api))
      else pol_engine api (local_omegon_policy_request who action resource))"
  by (auto simp: authorize_local_omegon_action_def)

lemma obligations_ordered:
  "(signature_required a \<longrightarrow> obligations a = [Approval, Audit, Signature]) \<and>
   (requires_approval a \<longrightarrow> {Approval, Audit} \<subseteq> set (obligations a)) \<and>
   (requires_identity a \<longrightarrow> Audit \<in> set (obligations a))"
  by (cases a) (simp_all add: obligations_def signature_required_def requires_approval_def
      audit_required_def requires_identity_def)

end
