(* ===== verification/Fleet_View.thy ===== *)
theory Fleet_View
  imports Worker_Types Policy_Gates
begin

text \<open>
  From descriptors to the fleet view: taking over what an instance reports of itself
  (\<open>descriptor_ingest.rs\<close>) and the projection of the registry that the fleet screen shows
  (\<open>fleet_projection.rs\<close>).
\<close>

section \<open>Descriptor ingest\<close>

definition keep_or :: "string option \<Rightarrow> string \<Rightarrow> string" where
  "keep_or reported current = unwrap_or (non_empty reported) current"

definition apply_control_plane_descriptor ::
  "OmegonControlPlaneDescriptor \<Rightarrow> ObservedControlPlane \<Rightarrow> ObservedControlPlane"
where
  "apply_control_plane_descriptor d cp =
     cp\<lparr>ocp_schema_version :=
         (if ocd_schema_version d \<noteq> 0 then ocd_schema_version d else ocp_schema_version cp),
       ocp_omegon_version := keep_or (ocd_omegon_version d) (ocp_omegon_version cp),
       ocp_base_url := keep_or (ocd_base_url d) (ocp_base_url cp),
       ocp_startup_url := keep_or (ocd_startup_url d) (ocp_startup_url cp),
       ocp_health_url := keep_or (ocd_health_url d) (ocp_health_url cp),
       ocp_ready_url := keep_or (ocd_ready_url d) (ocp_ready_url cp),
       ocp_ws_url := keep_or (ocd_ws_url d) (ocp_ws_url cp),
       ocp_acp_url := or_else (ocd_acp_url d) (ocp_acp_url cp),
       ocp_auth_mode := keep_or (ocd_auth_mode d) (ocp_auth_mode cp),
       ocp_token_ref := or_else (ocd_token_ref d) (ocp_token_ref cp),
       ocp_transport_security := or_else (ocd_transport_security d) (ocp_transport_security cp),
       ocp_mtls := or_else (ocd_mtls d) (ocp_mtls cp),
       ocp_last_ready_at := or_else (ocd_last_ready_at d) (ocp_last_ready_at cp)\<rparr>"

definition ingest_control_plane ::
  "'ver semver \<Rightarrow> string \<Rightarrow> string list \<Rightarrow> ObservedControlPlane \<Rightarrow> 'v ObservedWorkerState \<Rightarrow>
     'v ObservedWorkerState"
where
  "ingest_control_plane sv i capabilities cp obs =
     obs\<lparr>ow_control_plane := cp, ow_compatibility := Some (assess_observed_control_plane sv cp),
         ow_capabilities := Some (from_instance_descriptor_capabilities i capabilities)\<rparr>"

definition ingest_metadata ::
  "'v json_api \<Rightarrow> 'v option \<Rightarrow> 'v ObservedWorkerState \<Rightarrow> 'v ObservedWorkerState"
where
  "ingest_metadata js metadata obs =
     (case metadata of
        None \<Rightarrow> obs
      | Some m \<Rightarrow> obs\<lparr>ow_operational_profile := from_initialize_metadata js m\<rparr>)"

definition apply_descriptor_and_metadata_to_observed_state ::
  "'ver semver \<Rightarrow> 'v json_api \<Rightarrow> string \<Rightarrow> OmegonInstanceDescriptor \<Rightarrow> 'v option \<Rightarrow>
     'v ObservedWorkerState \<Rightarrow> 'v ObservedWorkerState"
where
  "apply_descriptor_and_metadata_to_observed_state sv js i d metadata obs =
     ingest_metadata js metadata
       (case odesc_control_plane d of
          None \<Rightarrow> obs
        | Some cp \<Rightarrow>
            ingest_control_plane sv i (ocd_capabilities cp)
              (apply_control_plane_descriptor cp (ow_control_plane obs)) obs)"

definition apply_descriptor_to_observed_state ::
  "'ver semver \<Rightarrow> 'v json_api \<Rightarrow> string \<Rightarrow> OmegonInstanceDescriptor \<Rightarrow> 'v ObservedWorkerState \<Rightarrow>
     'v ObservedWorkerState"
where
  "apply_descriptor_to_observed_state sv js i d obs =
     apply_descriptor_and_metadata_to_observed_state sv js i d None obs"

definition apply_fixture_descriptor_and_metadata_to_observed_state ::
  "'ver semver \<Rightarrow> 'v json_api \<Rightarrow> string \<Rightarrow> InstanceDescriptorData \<Rightarrow> 'v option \<Rightarrow>
     'v ObservedWorkerState \<Rightarrow> 'v ObservedWorkerState"
where
  "apply_fixture_descriptor_and_metadata_to_observed_state sv js i d metadata obs =
     ingest_metadata js metadata
       (case idd_control_plane d of
          None \<Rightarrow> obs
        | Some cp \<Rightarrow>
            ingest_control_plane sv i (icp_capabilities cp)
              ((ow_control_plane obs)\<lparr>ocp_schema_version := icp_schema_version cp,
                 ocp_omegon_version :=
                   keep_or (icp_omegon_version cp) (ocp_omegon_version (ow_control_plane obs)),
                 ocp_base_url := keep_or (icp_base_url cp) (ocp_base_url (ow_control_plane obs))\<rparr>)
              obs)"

text \<open>Reporting the same descriptor twice changes nothing more.\<close>

lemma keep_or_twice: "keep_or a (keep_or a b) = keep_or a b"
  by (simp add: keep_or_def unwrap_or_def split: option.splits)

lemma or_else_twice: "or_else a (or_else a b) = or_else a b"
  by (cases a) simp_all

lemma control_plane_descriptor_twice:
  "apply_control_plane_descriptor d (apply_control_plane_descriptor d cp) =
     apply_control_plane_descriptor d cp"
  by (simp add: apply_control_plane_descriptor_def keep_or_twice or_else_twice)

lemma ingest_twice:
  "apply_descriptor_and_metadata_to_observed_state sv js i d m
     (apply_descriptor_and_metadata_to_observed_state sv js i d m obs) =
   apply_descriptor_and_metadata_to_observed_state sv js i d m obs"
  by (auto simp: apply_descriptor_and_metadata_to_observed_state_def ingest_metadata_def
      ingest_control_plane_def control_plane_descriptor_twice split: option.splits)

text \<open>
  After an ingest the compatibility shown is that of the control plane shown, and the tools
  recorded as present are exactly the reported capabilities.
\<close>

lemma ingest_is_consistent:
  assumes "odesc_control_plane d = Some cp"
    and "obs' = apply_descriptor_and_metadata_to_observed_state sv js i d m obs"
  shows "ow_compatibility obs' = Some (assess_observed_control_plane sv (ow_control_plane obs')) \<and>
         (\<exists>caps. ow_capabilities obs' = Some caps \<and>
            (\<forall>key. has_present caps key \<longleftrightarrow> key_kind key = Tool \<and> key_name key \<in> set (ocd_capabilities cp)))"
  using assms
  by (auto simp: apply_descriptor_and_metadata_to_observed_state_def ingest_metadata_def
      ingest_control_plane_def has_present_descriptor split: option.splits)

text \<open>The certificate identity an instance reports is not taken over.\<close>

lemma ingest_drops_tls_identity:
  "ocp_tls_secret (apply_control_plane_descriptor d cp) = ocp_tls_secret cp \<and>
   ocp_tls_profile (apply_control_plane_descriptor d cp) = ocp_tls_profile cp \<and>
   ocp_tls_ca_epoch (apply_control_plane_descriptor d cp) = ocp_tls_ca_epoch cp \<and>
   ocp_tls_leaf_epoch (apply_control_plane_descriptor d cp) = ocp_tls_leaf_epoch cp \<and>
   ocp_tls_leaf_validity (apply_control_plane_descriptor d cp) = ocp_tls_leaf_validity cp \<and>
   ocp_ca_fingerprint_sha256 (apply_control_plane_descriptor d cp) = ocp_ca_fingerprint_sha256 cp \<and>
   ocp_server_fingerprint_sha256 (apply_control_plane_descriptor d cp) = ocp_server_fingerprint_sha256 cp"
  by (simp add: apply_control_plane_descriptor_def)

section \<open>Fleet projection\<close>

record 'v FleetInstanceProjection =
  fip_instance_id :: string
  fip_role :: string
  fip_profile :: string
  fip_raw_role :: "string option"
  fip_raw_profile :: "string option"
  fip_raw_runtime_profile :: "string option"
  fip_lifecycle :: WorkerLifecycleState
  fip_ready :: bool
  fip_base_url :: string
  fip_acp_url :: "string option"
  fip_compatibility :: "CompatibilityAssessment option"
  fip_compatibility_status :: CompatibilityStatus
  fip_operational_profile :: "'v OperationalProfile option"
  fip_capabilities :: "InstanceCapabilitySnapshot option"

record HostActionQueueProjection =
  haq_request_id :: string
  haq_instance_id :: string
  haq_action_type :: string
  haq_decision :: HostActionPolicyDecision

record FleetRuntimeSummary =
  frs_total_instances :: nat
  frs_ready_instances :: nat
  frs_compatible_instances :: nat
  frs_unsupported_instances :: nat
  frs_pending_host_actions :: nat

record 'v FleetRuntimeProjection =
  frp_schema_version :: u32
  frp_instances :: "'v FleetInstanceProjection list"
  frp_host_action_queue :: "HostActionQueueProjection list"
  frp_summary :: FleetRuntimeSummary

definition from_instance_record :: "'v InstanceRecord \<Rightarrow> 'v FleetInstanceProjection" where
  "from_instance_record r =
     (let who = rec_identity r; obs = rec_observed r
      in \<lparr>fip_instance_id = wi_instance_id who, fip_role = role_label (wi_role who),
          fip_profile = wi_profile who, fip_raw_role = wi_raw_role who,
          fip_raw_profile = wi_raw_profile who,
          fip_raw_runtime_profile = wi_raw_runtime_profile who, fip_lifecycle = wi_status who,
          fip_ready = oh_ready (ow_health obs), fip_base_url = ocp_base_url (ow_control_plane obs),
          fip_acp_url = ocp_acp_url (ow_control_plane obs),
          fip_compatibility = ow_compatibility obs,
          fip_compatibility_status =
            unwrap_or (map_option ca_status (ow_compatibility obs)) CompatibilityStatus.Unknown,
          fip_operational_profile = ow_operational_profile obs,
          fip_capabilities = ow_capabilities obs\<rparr>)"

definition has_status :: "CompatibilityStatus \<Rightarrow> 'v FleetInstanceProjection \<Rightarrow> bool" where
  "has_status st p \<longleftrightarrow> (case fip_compatibility p of None \<Rightarrow> False | Some a \<Rightarrow> ca_status a = st)"

definition summarize :: "'v FleetInstanceProjection list \<Rightarrow> FleetRuntimeSummary" where
  "summarize ps =
     \<lparr>frs_total_instances = length ps, frs_ready_instances = length (filter fip_ready ps),
      frs_compatible_instances = length (filter (has_status Compatible) ps),
      frs_unsupported_instances = length (filter (has_status CompatibilityStatus.Unsupported) ps),
      frs_pending_host_actions = 0\<rparr>"

definition from_instances :: "'v InstanceRecord list \<Rightarrow> 'v FleetRuntimeProjection" where
  "from_instances records =
     (let projected = map from_instance_record records
      in \<lparr>frp_schema_version = 1, frp_instances = projected, frp_host_action_queue = [],
          frp_summary = summarize projected\<rparr>)"

lemma filters_disjoint:
  "(\<And>x. \<not> (P x \<and> Q x)) \<Longrightarrow>
     length (filter P xs) + length (filter Q xs) + length (filter (\<lambda>x. \<not> P x \<and> \<not> Q x) xs) = length xs"
  by (induction xs) auto

text \<open>
  The summary adds up: every instance is compatible, unsupported or of unknown compatibility, and
  the shown status of an instance agrees with the count it is in.
\<close>

lemma summary_adds_up:
  "let p = from_instances records; s = frp_summary p
   in frs_total_instances s = length records \<and>
      frs_compatible_instances s + frs_unsupported_instances s +
        length (filter (\<lambda>i. fip_compatibility_status i = CompatibilityStatus.Unknown) (frp_instances p)) =
        frs_total_instances s \<and>
      frs_ready_instances s \<le> frs_total_instances s"
proof -
  let ?ps = "map from_instance_record records"
  have "\<not> has_status Compatible i \<and> \<not> has_status CompatibilityStatus.Unsupported i \<longleftrightarrow>
      fip_compatibility_status i = CompatibilityStatus.Unknown" if "i \<in> set ?ps" for i
    using that
    by (auto simp: has_status_def from_instance_record_def Let_def split: option.splits)
      (metis CompatibilityStatus.exhaust)+
  then have "filter (\<lambda>i. fip_compatibility_status i = CompatibilityStatus.Unknown) ?ps =
      filter (\<lambda>i. \<not> has_status Compatible i \<and> \<not> has_status CompatibilityStatus.Unsupported i) ?ps"
    by (intro filter_cong) auto
  moreover have "length (filter (has_status Compatible) ?ps) +
      length (filter (has_status CompatibilityStatus.Unsupported) ?ps) +
      length (filter (\<lambda>i. \<not> has_status Compatible i \<and> \<not> has_status CompatibilityStatus.Unsupported i) ?ps) =
      length ?ps"
    by (rule filters_disjoint) (auto simp: has_status_def split: option.splits)
  ultimately show ?thesis
    by (simp add: from_instances_def summarize_def Let_def del: filter_map)
qed

end
