(* ===== verification/Session_Types.thy ===== *)
theory Session_Types
  imports Descriptors
begin

text \<open>
  The data of a host session: the transcript, chat and summary types of \<open>fixtures.rs\<close>, the state
  snapshots and WebSocket events of \<open>omegon_control.rs\<close>, the transport-neutral events of
  \<open>session_event.rs\<close> and the two conversions into them.

  The types of the crate \<open>omegon_traits\<close> (\<open>IpcStateSnapshot\<close>, \<open>IpcEventPayload\<close>) are not part of
  the repository.  They appear here with exactly the variants and fields that the code names;
  every \<open>match\<close> on their enumerations in the source is exhaustive.  JSON values are the parameter
  \<open>'v\<close>.  \<open>usize\<close> counts are natural numbers, an \<open>f32\<close> is its bit pattern, and a \<open>HashMap\<close> that
  the code only iterates over is the list of its entries in iteration order.
\<close>

type_synonym u16 = "16 word"
type_synonym f32 = "32 word"

section \<open>Transcript and chat\<close>

record TurnBlockText =
  tbt_text :: string
  tbt_collapsed :: bool

datatype OriginKind = Dispatcher | Child | System

record BlockOrigin =
  bo_kind :: OriginKind
  bo_label :: string

record ToolCard =
  tc_id :: string
  tc_name :: string
  tc_args :: string
  tc_partial_output :: string
  tc_result :: "string option"
  tc_is_error :: bool
  tc_origin :: "BlockOrigin option"

record PlanSnapshotData =
  psd_summary :: string
  psd_raw_json :: string

datatype SystemNoticeKind =
  Generic | DispatcherSwitch | CleaveStart | CleaveComplete | ChildStatus | Failure

record AttributedText =
  at_text :: string
  at_origin :: "BlockOrigin option"
  at_notice_kind :: "SystemNoticeKind option"

datatype TurnBlock =
  Thinking TurnBlockText | Text AttributedText | Tool ToolCard | System AttributedText
| Aborted string

record Turn =
  turn_number :: u32
  turn_user_prompt :: "string option"
  turn_blocks :: "TurnBlock list"

record TranscriptData =
  td_turns :: "Turn list"
  td_active_turn :: "u32 option"
  td_context_tokens :: "u64 option"

datatype MessageRole = User | Assistant | System

record ChatMessage =
  cm_role :: MessageRole
  cm_text :: string

datatype ShellState = StartingOmegon | CompatibilityChecking | Ready | Degraded | Failed

datatype DevScenario =
  Ready | Booting | Degraded | StartupFailure | CompatibilityFailure | Reconnecting
| LocalDevQuiet | LocalDevBusy | HomelabFleet | EnterpriseIncident

datatype ActivityKind = Idle | Running | Waiting | Degraded | Completed | Failure

record HostSessionSummary =
  hss_connection :: string
  hss_activity :: string
  hss_activity_kind :: ActivityKind
  hss_work :: string

record ComposerState =
  cst_draft :: string

definition set_draft :: "string \<Rightarrow> ComposerState \<Rightarrow> ComposerState" where
  "set_draft value c = c\<lparr>cst_draft := value\<rparr>"

definition clear_draft :: "ComposerState \<Rightarrow> ComposerState" where
  "clear_draft c = c\<lparr>cst_draft := []\<rparr>"

record IpcSessionAuthorityData =
  isa_server_instance_id :: string
  isa_protocol_version :: u16
  isa_capabilities :: "string list"
  isa_session_id :: "string option"
  isa_session_generation :: "u64 option"
  isa_stream_id :: "string option"
  isa_projection_status :: "string option"
  isa_projection_frontier :: "u64 option"
  isa_context_revision :: "u64 option"
  isa_queue_depth :: nat
  isa_active_turn :: "string option"
  isa_busy :: bool

section \<open>State snapshots\<close>

record FocusedNode =
  fn_id :: string
  fn_title :: string
  fn_status :: string
  fn_open_questions :: "string list"
  fn_decisions :: nat
  fn_children :: nat

record NodeBrief =
  nb_id :: string
  nb_title :: string
  nb_status :: string

record DesignSnapshot =
  ds_focused :: "FocusedNode option"
  ds_implementing :: "NodeBrief list"
  ds_actionable :: "NodeBrief list"
  ds_all_nodes :: "NodeBrief list"
  ds_counts :: "(string \<times> nat) list"

record OpenSpecSnapshot =
  os_total_tasks :: nat
  os_done_tasks :: nat

record CleaveSnapshot =
  cl_active :: bool
  cl_total_children :: nat
  cl_completed :: nat
  cl_failed :: nat

record SessionSnapshot =
  ss_turns :: u32
  ss_tool_calls :: u32
  ss_compactions :: u32

record ProviderStatusSnapshot =
  prs_name :: string
  prs_authenticated :: bool
  prs_auth_method :: "string option"
  prs_model :: "string option"

record DelegateSummarySnapshot =
  dls_task_id :: string
  dls_agent_name :: string
  dls_status :: string
  dls_elapsed_ms :: u64

record HarnessStatusSnapshot =
  hs_git_branch :: "string option"
  hs_git_detached :: bool
  hs_thinking_level :: string
  hs_capability_tier :: string
  hs_providers :: "ProviderStatusSnapshot list"
  hs_memory_available :: bool
  hs_cleave_available :: bool
  hs_memory_warning :: "string option"
  hs_active_delegates :: "DelegateSummarySnapshot list"
  hs_reported_active_delegate_count :: "nat option"

definition default_harness :: HarnessStatusSnapshot where
  "default_harness =
     \<lparr>hs_git_branch = None, hs_git_detached = False, hs_thinking_level = [], hs_capability_tier = [],
      hs_providers = [], hs_memory_available = False, hs_cleave_available = False,
      hs_memory_warning = None, hs_active_delegates = [], hs_reported_active_delegate_count = None\<rparr>"

record DispatcherOptionSnapshot =
  dos_profile :: string
  dos_label :: string
  dos_model :: "string option"

record DispatcherSwitchStateSnapshot =
  sw_request_id :: "string option"
  sw_requested_profile :: "string option"
  sw_requested_model :: "string option"
  sw_status :: string
  sw_failure_code :: "string option"
  sw_note :: "string option"

record DispatcherBindingSnapshot =
  db_session_id :: string
  db_dispatcher_instance_id :: string
  db_expected_role :: string
  db_expected_profile :: string
  db_expected_model :: "string option"
  db_control_plane_schema :: u32
  db_token_ref :: "string option"
  db_observed_base_url :: "string option"
  db_last_verified_at :: "string option"
  db_instance_descriptor :: "OmegonInstanceDescriptor option"
  db_available_options :: "DispatcherOptionSnapshot list"
  db_switch_state :: "DispatcherSwitchStateSnapshot option"

text \<open>\<open>daemon_sessions\<close> is read by no modelled code and left out.\<close>

record 'v OmegonStateSnapshot =
  snap_design :: DesignSnapshot
  snap_openspec :: OpenSpecSnapshot
  snap_cleave :: CleaveSnapshot
  snap_session :: SessionSnapshot
  snap_harness :: "HarnessStatusSnapshot option"
  snap_dispatcher :: "DispatcherBindingSnapshot option"
  snap_instance_descriptor :: "OmegonInstanceDescriptor option"
  snap_initialize_metadata :: "'v option"
  snap_extension_metadata :: "'v option"
  snap_operational_profile :: "'v option"

record ProviderTelemetrySnapshot =
  pts_provider :: string
  pts_source :: string
  pts_unified_5h_utilization_pct :: "f32 option"
  pts_unified_7d_utilization_pct :: "f32 option"
  pts_requests_remaining :: "u64 option"
  pts_tokens_remaining :: "u64 option"
  pts_retry_after_secs :: "u64 option"
  pts_request_id :: "string option"
  pts_codex_active_limit :: "string option"
  pts_codex_primary_used_pct :: "f32 option"
  pts_codex_secondary_used_pct :: "f32 option"
  pts_codex_primary_reset_secs :: "u64 option"
  pts_codex_secondary_reset_secs :: "u64 option"
  pts_codex_credits_unlimited :: "bool option"
  pts_codex_limit_name :: "string option"

section \<open>The IPC state snapshot\<close>

datatype OmegonRole =
  PrimaryDriver | EmbeddedBackend | Delegate | Worker | RemoteAgent | Unknown
datatype IpcHealthState = Ready | Degraded | Starting | Failed
datatype OmegonRuntimeHealth = Ready | Degraded | Starting | Failed
datatype OmegonDeploymentKind =
  InteractiveTui | EmbeddedBackend | HomelabService | KubernetesWorker | CleaveChild | RemoteAgent
| Unknown

record IpcIdentity =
  ipi_instance_id :: string
  ipi_workspace_id :: string
  ipi_session_id :: string
  ipi_role :: OmegonRole
  ipi_profile :: string

record IpcPlacement =
  ipp_cwd :: string
  ipp_host :: "string option"
  ipp_pid :: "u32 option"
  ipp_namespace :: "string option"
  ipp_pod_name :: "string option"
  ipp_container_name :: "string option"

text \<open>The source casts \<open>schema_version\<close> to \<open>u32\<close>, which keeps its low 32 bits.\<close>

record IpcControlPlane =
  ipc_schema_version :: u64
  ipc_protocol_version :: u16
  ipc_capabilities :: "string list"
  ipc_server_instance_id :: string
  ipc_omegon_version :: string
  ipc_http_base :: "string option"
  ipc_startup_url :: "string option"
  ipc_state_url :: "string option"
  ipc_ws_url :: "string option"
  ipc_auth_mode :: "string option"
  ipc_ipc_socket_path :: "string option"

text \<open>
  \<open>ipr_runtime_profile\<close> is the value of \<open>runtime_profile.as_str()\<close>, and \<open>ipr_autonomy_mode\<close> the
  string its serde encoding is, if it is one.
\<close>

record IpcRuntime =
  ipr_deployment_kind :: OmegonDeploymentKind
  ipr_health :: OmegonRuntimeHealth
  ipr_provider_ok :: bool
  ipr_memory_ok :: bool
  ipr_cleave_available :: bool
  ipr_context_class :: "string option"
  ipr_thinking_level :: "string option"
  ipr_capability_tier :: "string option"
  ipr_runtime_profile :: string
  ipr_autonomy_mode :: "string option"

record IpcSession =
  ips_git_branch :: "string option"
  ips_git_detached :: bool
  ips_turns :: u32
  ips_tool_calls :: u32
  ips_compactions :: u32
  ips_session_id :: "string option"
  ips_session_generation :: "u64 option"
  ips_stream_id :: "string option"
  ips_projection_status :: "string option"
  ips_projection_frontier :: "u64 option"
  ips_context_revision :: "u64 option"
  ips_queue_depth :: nat
  ips_active_turn :: "string option"
  ips_busy :: bool

record IpcProvider =
  ipv_name :: string
  ipv_authenticated :: bool
  ipv_model :: "string option"

record IpcHarness =
  iph_thinking_level :: string
  iph_capability_tier :: string
  iph_providers :: "IpcProvider list"
  iph_memory_available :: bool
  iph_cleave_available :: bool
  iph_memory_warning :: "string option"
  iph_active_delegate_count :: nat
  iph_active_persona :: "string option"

record IpcDesignCounts =
  idc_total :: nat
  idc_seed :: nat
  idc_exploring :: nat
  idc_resolved :: nat
  idc_decided :: nat
  idc_implementing :: nat
  idc_implemented :: nat
  idc_blocked :: nat
  idc_deferred :: nat
  idc_open_questions :: nat

record IpcDesignTree =
  idt_focused :: "FocusedNode option"
  idt_implementing :: "NodeBrief list"
  idt_actionable :: "NodeBrief list"
  idt_nodes :: "NodeBrief list"
  idt_counts :: IpcDesignCounts

record IpcStateSnapshot =
  iss_identity :: IpcIdentity
  iss_placement :: IpcPlacement
  iss_control_plane :: IpcControlPlane
  iss_runtime :: IpcRuntime
  iss_session :: IpcSession
  iss_harness :: IpcHarness
  iss_health :: IpcHealthState
  iss_design_tree :: IpcDesignTree
  iss_openspec :: OpenSpecSnapshot
  iss_cleave :: CleaveSnapshot

section \<open>Session events\<close>

record TurnUsage =
  tu_estimated_tokens :: "u64 option"
  tu_actual_input_tokens :: "u64 option"
  tu_actual_output_tokens :: "u64 option"
  tu_cache_read_tokens :: "u64 option"
  tu_provider_telemetry :: "ProviderTelemetrySnapshot option"

text \<open>
  \<open>TurnEnded\<close> carries its turn number and the five usage fields.  \<open>ContextUpdated\<close> carries the
  tokens, the window, the context class and the thinking level.
\<close>

datatype 'v SessionEvent =
  StateSnapshot "'v OmegonStateSnapshot"
| MessageStart string
| MessageDelta string
| ThinkingDelta string
| MessageCompleted
| MessageAbort
| SystemNotification string
| HarnessChanged
| HarnessStatusChanged HarnessStatusSnapshot
| PlanUpdated 'v
| StateChanged "string list"
| StateReconciled IpcStateSnapshot
| SessionReset
| TurnStarted u32
| TurnEnded u32 TurnUsage
| ToolStarted string string "'v option"
| ToolUpdated string "string option"
| ToolEnded string "string option" bool "string option"
| AgentCompleted
| PhaseChanged string
| ContextUpdated u64 "u64 option" "string option" "string option"
| DecompositionStarted "string list"
| DecompositionChildCompleted string bool
| DecompositionCompleted bool

text \<open>The WebSocket events; the payload of \<open>FamilyVitalSigns\<close> is dropped by the conversion.\<close>

datatype 'v OmegonEvent =
  StateSnapshot "'v OmegonStateSnapshot"
| MessageStart string
| MessageChunk string
| ThinkingChunk string
| MessageEnd
| MessageAbort
| SystemNotification string
| HarnessStatusChanged HarnessStatusSnapshot
| PlanUpdated 'v
| SessionReset
| TurnStart u32
| TurnEnd u32 TurnUsage
| ToolStart string string "'v option"
| ToolUpdate string string
| ToolEnd string bool "string option"
| AgentEnd
| PhaseChanged string
| ContextUpdated u64 "u64 option" "string option" "string option"
| DecompositionStarted "string list"
| DecompositionChildCompleted string bool
| DecompositionCompleted bool
| FamilyVitalSigns

fun session_event_of_omegon :: "'v OmegonEvent \<Rightarrow> 'v SessionEvent" where
  "session_event_of_omegon (OmegonEvent.StateSnapshot data) = SessionEvent.StateSnapshot data"
| "session_event_of_omegon (OmegonEvent.MessageStart role) = SessionEvent.MessageStart role"
| "session_event_of_omegon (MessageChunk txt) = MessageDelta txt"
| "session_event_of_omegon (ThinkingChunk txt) = ThinkingDelta txt"
| "session_event_of_omegon MessageEnd = MessageCompleted"
| "session_event_of_omegon OmegonEvent.MessageAbort = SessionEvent.MessageAbort"
| "session_event_of_omegon (OmegonEvent.SystemNotification message) =
     SessionEvent.SystemNotification message"
| "session_event_of_omegon (OmegonEvent.HarnessStatusChanged status) =
     SessionEvent.HarnessStatusChanged status"
| "session_event_of_omegon (OmegonEvent.PlanUpdated snapshot) = SessionEvent.PlanUpdated snapshot"
| "session_event_of_omegon OmegonEvent.SessionReset = SessionEvent.SessionReset"
| "session_event_of_omegon (TurnStart turn) = TurnStarted turn"
| "session_event_of_omegon (TurnEnd turn usage) = TurnEnded turn usage"
| "session_event_of_omegon (ToolStart tid name args) = ToolStarted tid name args"
| "session_event_of_omegon (ToolUpdate tid partial) = ToolUpdated tid (Some partial)"
| "session_event_of_omegon (ToolEnd tid is_error result) = ToolEnded tid None is_error result"
| "session_event_of_omegon AgentEnd = AgentCompleted"
| "session_event_of_omegon (OmegonEvent.PhaseChanged phase) = SessionEvent.PhaseChanged phase"
| "session_event_of_omegon (OmegonEvent.ContextUpdated tokens window class level) =
     SessionEvent.ContextUpdated tokens window class level"
| "session_event_of_omegon (OmegonEvent.DecompositionStarted children) =
     SessionEvent.DecompositionStarted children"
| "session_event_of_omegon (OmegonEvent.DecompositionChildCompleted label success) =
     SessionEvent.DecompositionChildCompleted label success"
| "session_event_of_omegon (OmegonEvent.DecompositionCompleted merged) =
     SessionEvent.DecompositionCompleted merged"
| "session_event_of_omegon FamilyVitalSigns =
     SessionEvent.SystemNotification ''Family vital signs updated''"

text \<open>
  The IPC events, with the fields the conversion keeps.  \<open>estimated_tokens\<close> is cast to \<open>u64\<close>.
\<close>

record IpcTurnUsage =
  itu_estimated_tokens :: nat
  itu_actual_input_tokens :: u64
  itu_actual_output_tokens :: u64
  itu_cache_read_tokens :: u64
  itu_provider_telemetry :: "ProviderTelemetrySnapshot option"

datatype 'v IpcEventPayload =
  TurnStarted u32
| TurnEnded u32 IpcTurnUsage
| MessageDelta string
| ThinkingDelta string
| MessageCompleted
| ToolStarted string string 'v
| ToolUpdated string
| ToolEnded string string bool "string option"
| AgentCompleted
| PhaseChanged string
| DecompositionStarted "string list"
| DecompositionChildCompleted string bool
| DecompositionCompleted bool
| FamilyVitalSignsUpdated
| HarnessChanged
| PlanUpdated 'v
| StreamIdle string
| ProviderRouteChanged string
| RuntimeQueueUpdated
| StateChanged "string list"
| StateReconciled IpcStateSnapshot
| RuntimeLifecycleUpdated
| SystemNotification string
| SessionReset

definition usage_of_ipc :: "IpcTurnUsage \<Rightarrow> TurnUsage" where
  "usage_of_ipc u =
     \<lparr>tu_estimated_tokens = Some (word_of_nat (itu_estimated_tokens u)),
      tu_actual_input_tokens = Some (itu_actual_input_tokens u),
      tu_actual_output_tokens = Some (itu_actual_output_tokens u),
      tu_cache_read_tokens = Some (itu_cache_read_tokens u),
      tu_provider_telemetry = itu_provider_telemetry u\<rparr>"

fun session_event_of_ipc :: "'v IpcEventPayload \<Rightarrow> 'v SessionEvent" where
  "session_event_of_ipc (IpcEventPayload.TurnStarted turn) = SessionEvent.TurnStarted turn"
| "session_event_of_ipc (IpcEventPayload.TurnEnded turn usage) =
     SessionEvent.TurnEnded turn (usage_of_ipc usage)"
| "session_event_of_ipc (IpcEventPayload.MessageDelta txt) = SessionEvent.MessageDelta txt"
| "session_event_of_ipc (IpcEventPayload.ThinkingDelta txt) = SessionEvent.ThinkingDelta txt"
| "session_event_of_ipc IpcEventPayload.MessageCompleted = SessionEvent.MessageCompleted"
| "session_event_of_ipc (IpcEventPayload.ToolStarted tid name args) =
     SessionEvent.ToolStarted tid name (Some args)"
| "session_event_of_ipc (IpcEventPayload.ToolUpdated tid) = SessionEvent.ToolUpdated tid None"
| "session_event_of_ipc (IpcEventPayload.ToolEnded tid name is_error summary) =
     SessionEvent.ToolEnded tid (Some name) is_error summary"
| "session_event_of_ipc IpcEventPayload.AgentCompleted = SessionEvent.AgentCompleted"
| "session_event_of_ipc (IpcEventPayload.PhaseChanged phase) = SessionEvent.PhaseChanged phase"
| "session_event_of_ipc (IpcEventPayload.DecompositionStarted children) =
     SessionEvent.DecompositionStarted children"
| "session_event_of_ipc (IpcEventPayload.DecompositionChildCompleted label success) =
     SessionEvent.DecompositionChildCompleted label success"
| "session_event_of_ipc (IpcEventPayload.DecompositionCompleted merged) =
     SessionEvent.DecompositionCompleted merged"
| "session_event_of_ipc FamilyVitalSignsUpdated =
     SessionEvent.SystemNotification ''Family vital signs updated''"
| "session_event_of_ipc IpcEventPayload.HarnessChanged = SessionEvent.HarnessChanged"
| "session_event_of_ipc (IpcEventPayload.PlanUpdated snapshot) = SessionEvent.PlanUpdated snapshot"
| "session_event_of_ipc (StreamIdle message) = SessionEvent.SystemNotification message"
| "session_event_of_ipc (ProviderRouteChanged message) = SessionEvent.SystemNotification message"
| "session_event_of_ipc RuntimeQueueUpdated = SessionEvent.StateChanged [''session'']"
| "session_event_of_ipc (IpcEventPayload.StateChanged sections) = SessionEvent.StateChanged sections"
| "session_event_of_ipc (IpcEventPayload.StateReconciled snapshot) =
     SessionEvent.StateReconciled snapshot"
| "session_event_of_ipc RuntimeLifecycleUpdated = SessionEvent.StateChanged [''runtime_lifecycle'']"
| "session_event_of_ipc (IpcEventPayload.SystemNotification message) =
     SessionEvent.SystemNotification message"
| "session_event_of_ipc IpcEventPayload.SessionReset = SessionEvent.SessionReset"

end
