(* ===== verification/Telemetry.thy ===== *)
theory Telemetry
  imports Session_Types State_Engine
begin

text \<open>
  The telemetry of a session and of the attached fleet (\<open>telemetry.rs\<close>, with its data from
  \<open>fixtures.rs\<close>): what one session reports, the provider and control-plane roll-ups over the
  attached instances, and the counts of instances by freshness.

  Printing an \<open>f32\<close> with a number of decimals (\<open>{value:.1}\<close>) is the parameter \<open>fmt\<close>: it only
  produces text for the screens.
\<close>

section \<open>Data\<close>

record ProviderInfo =
  pin_name :: string
  pin_authenticated :: bool
  pin_auth_method :: "string option"
  pin_model :: "string option"

record ProviderTelemetryData =
  ptd_provider :: string
  ptd_source :: string
  ptd_route_id :: "string option"
  ptd_instance_id :: "string option"
  ptd_role :: "string option"
  ptd_profile :: "string option"
  ptd_model :: "string option"
  ptd_requests_remaining :: "u64 option"
  ptd_tokens_remaining :: "u64 option"
  ptd_retry_after_secs :: "u64 option"
  ptd_request_id :: "string option"
  ptd_unified_5h_utilization_pct :: "string option"
  ptd_unified_7d_utilization_pct :: "string option"
  ptd_codex_primary_used_pct :: "string option"
  ptd_codex_secondary_used_pct :: "string option"

record ControlPlaneTelemetryData =
  cpt_route_id :: "string option"
  cpt_instance_id :: "string option"
  cpt_role :: "string option"
  cpt_profile :: "string option"
  cpt_startup_url :: "string option"
  cpt_health_url :: "string option"
  cpt_ready_url :: "string option"
  cpt_auth_mode :: "string option"
  cpt_base_url :: "string option"

record LifecycleInstanceTelemetryData =
  lit_instance_id :: string
  lit_route_id :: string
  lit_role :: string
  lit_profile :: string
  lit_base_url :: "string option"
  lit_status :: "string option"
  lit_freshness :: "string option"
  lit_last_seen_at :: "string option"
  lit_secret_refs :: "string list"
  lit_grant_ids :: "string list"
  lit_seed_plan_ids :: "string list"

record LifecycleRollupCountsData =
  lrc_total_attached :: nat
  lrc_fresh :: nat
  lrc_stale :: nat
  lrc_lost :: nat
  lrc_abandoned :: nat
  lrc_reaped :: nat
  lrc_unknown :: nat

record LifecycleTelemetryData =
  ltd_summary :: string
  ltd_attached_count :: nat
  ltd_selected_route_id :: "string option"
  ltd_selected_instance :: "LifecycleInstanceTelemetryData option"
  ltd_counts :: LifecycleRollupCountsData
  ltd_instances :: "LifecycleInstanceTelemetryData list"

definition default_counts :: LifecycleRollupCountsData where
  "default_counts =
     \<lparr>lrc_total_attached = 0, lrc_fresh = 0, lrc_stale = 0, lrc_lost = 0, lrc_abandoned = 0,
      lrc_reaped = 0, lrc_unknown = 0\<rparr>"

definition default_lifecycle :: LifecycleTelemetryData where
  "default_lifecycle =
     \<lparr>ltd_summary = [], ltd_attached_count = 0, ltd_selected_route_id = None,
      ltd_selected_instance = None, ltd_counts = default_counts, ltd_instances = []\<rparr>"

datatype TransportAdapterData = Pending | NativeIpc | WebSocketCompatibility

datatype ReconciliationStatusData =
  Unknown | Authoritative | Required | Refreshing | Reconnecting | Degraded

record TransportTelemetryData =
  ttd_negotiated_protocol :: "u16 option"
  ttd_server_instance_id :: "string option"
  ttd_server_name :: "string option"
  ttd_omegon_version :: "string option"
  ttd_capabilities :: "string list"
  ttd_active_adapter :: TransportAdapterData
  ttd_fallback_reason :: "string option"
  ttd_reconciliation_status :: ReconciliationStatusData
  ttd_reconciliation_detail :: "string option"
  ttd_projection_frontier :: "u64 option"

definition default_transport :: TransportTelemetryData where
  "default_transport =
     \<lparr>ttd_negotiated_protocol = None, ttd_server_instance_id = None, ttd_server_name = None,
      ttd_omegon_version = None, ttd_capabilities = [], ttd_active_adapter = Pending,
      ttd_fallback_reason = None, ttd_reconciliation_status = ReconciliationStatusData.Unknown,
      ttd_reconciliation_detail = None, ttd_projection_frontier = None\<rparr>"

record SessionTelemetryData =
  std_provider_summary :: string
  std_lifecycle_summary :: string
  std_lifecycle :: LifecycleTelemetryData
  std_route_summary :: string
  std_latest_turn_summary :: string
  std_latest_provider_telemetry :: "ProviderTelemetryData option"
  std_provider_rollups :: "ProviderTelemetryData list"
  std_latest_estimated_tokens :: "u64 option"
  std_latest_actual_input_tokens :: "u64 option"
  std_latest_actual_output_tokens :: "u64 option"
  std_latest_cache_read_tokens :: "u64 option"
  std_control_plane :: "ControlPlaneTelemetryData option"
  std_control_plane_rollups :: "ControlPlaneTelemetryData list"
  std_transport :: TransportTelemetryData

record LatestTurnTelemetry =
  ltt_provider_telemetry :: "ProviderTelemetrySnapshot option"
  ltt_estimated_tokens :: "u64 option"
  ltt_actual_input_tokens :: "u64 option"
  ltt_actual_output_tokens :: "u64 option"
  ltt_cache_read_tokens :: "u64 option"

definition default_turn_telemetry :: LatestTurnTelemetry where
  "default_turn_telemetry =
     \<lparr>ltt_provider_telemetry = None, ltt_estimated_tokens = None, ltt_actual_input_tokens = None,
      ltt_actual_output_tokens = None, ltt_cache_read_tokens = None\<rparr>"

text \<open>A space, a middle dot in UTF-8 and a space: the separator of the summaries.\<close>

definition dot_sep :: string where
  "dot_sep = [CHR 0x20, CHR 0xC2, CHR 0xB7, CHR 0x20]"

section \<open>One session\<close>

definition project_provider_telemetry ::
  "(nat \<Rightarrow> f32 \<Rightarrow> string) \<Rightarrow> ProviderTelemetrySnapshot \<Rightarrow> ProviderTelemetryData"
where
  "project_provider_telemetry fmt s =
     \<lparr>ptd_provider = pts_provider s, ptd_source = pts_source s, ptd_route_id = None,
      ptd_instance_id = None, ptd_role = None, ptd_profile = None, ptd_model = None,
      ptd_requests_remaining = pts_requests_remaining s,
      ptd_tokens_remaining = pts_tokens_remaining s,
      ptd_retry_after_secs = pts_retry_after_secs s, ptd_request_id = pts_request_id s,
      ptd_unified_5h_utilization_pct = map_option (fmt 1) (pts_unified_5h_utilization_pct s),
      ptd_unified_7d_utilization_pct = map_option (fmt 1) (pts_unified_7d_utilization_pct s),
      ptd_codex_primary_used_pct = map_option (fmt 0) (pts_codex_primary_used_pct s),
      ptd_codex_secondary_used_pct = map_option (fmt 0) (pts_codex_secondary_used_pct s)\<rparr>"

definition project_control_plane_telemetry ::
  "OmegonControlPlaneDescriptor \<Rightarrow> ControlPlaneTelemetryData"
where
  "project_control_plane_telemetry c =
     \<lparr>cpt_route_id = None, cpt_instance_id = None, cpt_role = None, cpt_profile = None,
      cpt_startup_url = ocd_startup_url c, cpt_health_url = ocd_health_url c,
      cpt_ready_url = ocd_ready_url c, cpt_auth_mode = ocd_auth_mode c,
      cpt_base_url = ocd_base_url c\<rparr>"

definition dispatcher_control_plane :: "DispatcherBindingSnapshot \<Rightarrow> ControlPlaneTelemetryData" where
  "dispatcher_control_plane b =
     \<lparr>cpt_route_id = Some ''session-dispatcher'',
      cpt_instance_id = non_empty (Some (db_dispatcher_instance_id b)),
      cpt_role = non_empty (Some (db_expected_role b)),
      cpt_profile = non_empty (Some (db_expected_profile b)),
      cpt_startup_url = None, cpt_health_url = None, cpt_ready_url = None, cpt_auth_mode = None,
      cpt_base_url = db_observed_base_url b\<rparr>"

definition authenticated_of_total :: "nat \<Rightarrow> nat \<Rightarrow> string" where
  "authenticated_of_total authenticated n =
     (if n = 0 then ''providers unavailable''
      else show_nat authenticated @ '' / '' @ show_nat n @ '' authenticated'')"

definition route_summary ::
  "DispatcherBindingSnapshot option \<Rightarrow> OmegonInstanceDescriptor option \<Rightarrow> string"
where
  "route_summary dispatcher instance =
     (case dispatcher of
        Some b \<Rightarrow>
          ''dispatcher '' @ unwrap_or (non_empty (Some (db_dispatcher_instance_id b))) ''unreported''
            @ dot_sep @ unwrap_or (db_expected_model b) ''model unreported''
      | None \<Rightarrow>
          (case instance of
             Some d \<Rightarrow>
               ''host '' @ unwrap_or (non_empty (Some (oid_instance_id (odesc_identity d)))) ''unreported''
           | None \<Rightarrow> ''route unavailable''))"

definition lifecycle_summary :: "HarnessStatusSnapshot option \<Rightarrow> string" where
  "lifecycle_summary harness =
     (case harness of
        None \<Rightarrow> ''lifecycle unavailable''
      | Some h \<Rightarrow>
          if hs_active_delegates h = [] then ''no active delegates''
          else show_nat (length (hs_active_delegates h)) @ '' active delegate(s)'')"

definition build_session_telemetry ::
  "(nat \<Rightarrow> f32 \<Rightarrow> string) \<Rightarrow> HarnessStatusSnapshot option \<Rightarrow> u32 \<Rightarrow> u32 \<Rightarrow>
   DispatcherBindingSnapshot option \<Rightarrow> OmegonInstanceDescriptor option \<Rightarrow> LatestTurnTelemetry \<Rightarrow>
   SessionTelemetryData"
where
  "build_session_telemetry fmt harness turns tool_calls dispatcher instance latest =
     (let providers = (case harness of None \<Rightarrow> [] | Some h \<Rightarrow> hs_providers h)
      in \<lparr>std_provider_summary =
            authenticated_of_total (length (filter prs_authenticated providers)) (length providers),
          std_lifecycle_summary = lifecycle_summary harness,
          std_lifecycle = default_lifecycle,
          std_route_summary = route_summary dispatcher instance,
          std_latest_turn_summary =
            ''turns '' @ show_nat (unat turns) @ dot_sep @ ''tool calls '' @ show_nat (unat tool_calls),
          std_latest_provider_telemetry =
            map_option (project_provider_telemetry fmt) (ltt_provider_telemetry latest),
          std_provider_rollups = [],
          std_latest_estimated_tokens = ltt_estimated_tokens latest,
          std_latest_actual_input_tokens = ltt_actual_input_tokens latest,
          std_latest_actual_output_tokens = ltt_actual_output_tokens latest,
          std_latest_cache_read_tokens = ltt_cache_read_tokens latest,
          std_control_plane =
            or_else (map_option project_control_plane_telemetry (Option.bind instance odesc_control_plane))
              (map_option dispatcher_control_plane dispatcher),
          std_control_plane_rollups = [],
          std_transport = default_transport\<rparr>)"

definition summarize_provider_inventory :: "ProviderInfo list \<Rightarrow> string" where
  "summarize_provider_inventory providers =
     (if providers = [] then ''providers unavailable''
      else show_nat (length (filter pin_authenticated providers)) @ '' / ''
             @ show_nat (length providers) @ '' authenticated'')"

section \<open>Roll-ups over the attached instances\<close>

fun summarize_instance_provider_label :: "ProviderInfo list \<Rightarrow> string" where
  "summarize_instance_provider_label [] = ''unreported''"
| "summarize_instance_provider_label [provider] = pin_name provider"
| "summarize_instance_provider_label providers = show_nat (length providers) @ '' providers''"

text \<open>\<open>if instance.route_id == selected { latest.and_then(f) } else { None }\<close>.\<close>

definition if_selected :: "bool \<Rightarrow> 't option \<Rightarrow> ('t \<Rightarrow> 'a option) \<Rightarrow> 'a option" where
  "if_selected selected latest f = (if selected then Option.bind latest f else None)"

definition aggregate_provider_rollups ::
  "'v AttachedInstanceRecord list \<Rightarrow> ProviderInfo list \<Rightarrow> string \<Rightarrow> ProviderTelemetryData option \<Rightarrow>
   ProviderTelemetryData list"
where
  "aggregate_provider_rollups attached providers selected_route_id latest =
     map (\<lambda>a. let sel = (att_route_id a = selected_route_id)
              in \<lparr>ptd_provider =
                    (case latest of Some t \<Rightarrow> ptd_provider t
                     | None \<Rightarrow> summarize_instance_provider_label providers),
                  ptd_source =
                    (if sel then unwrap_or (map_option ptd_source latest) ''inventory'' else ''inventory''),
                  ptd_route_id = Some (att_route_id a), ptd_instance_id = Some (att_instance_id a),
                  ptd_role = Some (att_role a), ptd_profile = Some (att_profile a),
                  ptd_model = att_model a,
                  ptd_requests_remaining = if_selected sel latest ptd_requests_remaining,
                  ptd_tokens_remaining = if_selected sel latest ptd_tokens_remaining,
                  ptd_retry_after_secs = if_selected sel latest ptd_retry_after_secs,
                  ptd_request_id = if_selected sel latest ptd_request_id,
                  ptd_unified_5h_utilization_pct = if_selected sel latest ptd_unified_5h_utilization_pct,
                  ptd_unified_7d_utilization_pct = if_selected sel latest ptd_unified_7d_utilization_pct,
                  ptd_codex_primary_used_pct = if_selected sel latest ptd_codex_primary_used_pct,
                  ptd_codex_secondary_used_pct = if_selected sel latest ptd_codex_secondary_used_pct\<rparr>)
       attached"

definition aggregate_control_plane_rollups ::
  "'v AttachedInstanceRecord list \<Rightarrow> string \<Rightarrow> ControlPlaneTelemetryData option \<Rightarrow>
   ControlPlaneTelemetryData list"
where
  "aggregate_control_plane_rollups attached selected_route_id selected =
     map (\<lambda>a. let sel = (att_route_id a = selected_route_id)
              in \<lparr>cpt_route_id = Some (att_route_id a), cpt_instance_id = Some (att_instance_id a),
                  cpt_role = Some (att_role a), cpt_profile = Some (att_profile a),
                  cpt_startup_url = if_selected sel selected cpt_startup_url,
                  cpt_health_url = if_selected sel selected cpt_health_url,
                  cpt_ready_url = if_selected sel selected cpt_ready_url,
                  cpt_auth_mode = if_selected sel selected cpt_auth_mode,
                  cpt_base_url = or_else (att_base_url a) (if_selected sel selected cpt_base_url)\<rparr>)
       attached"

text \<open>\<open>format!("{:?}", ..)\<close> of the lifecycle state and of the freshness.\<close>

fun debug_lifecycle :: "WorkerLifecycleState \<Rightarrow> string" where
  "debug_lifecycle Requested = ''Requested''"
| "debug_lifecycle Allocating = ''Allocating''"
| "debug_lifecycle WorkerLifecycleState.Starting = ''Starting''"
| "debug_lifecycle WorkerLifecycleState.Ready = ''Ready''"
| "debug_lifecycle Busy = ''Busy''"
| "debug_lifecycle WorkerLifecycleState.Degraded = ''Degraded''"
| "debug_lifecycle WorkerLifecycleState.Lost = ''Lost''"
| "debug_lifecycle WorkerLifecycleState.Abandoned = ''Abandoned''"
| "debug_lifecycle Stopping = ''Stopping''"
| "debug_lifecycle Exited = ''Exited''"
| "debug_lifecycle WorkerLifecycleState.Reaped = ''Reaped''"

fun debug_freshness :: "InstanceFreshness \<Rightarrow> string" where
  "debug_freshness Fresh = ''Fresh''"
| "debug_freshness Stale = ''Stale''"
| "debug_freshness InstanceFreshness.Lost = ''Lost''"
| "debug_freshness InstanceFreshness.Abandoned = ''Abandoned''"
| "debug_freshness InstanceFreshness.Reaped = ''Reaped''"

definition lifecycle_record ::
  "'v InstanceRegistryStore \<Rightarrow> 'v AttachedInstanceRecord \<Rightarrow> 'v InstanceRecord option"
where
  "lifecycle_record store a =
     or_else (att_registry_record a) (find_instance store (att_instance_id a))"

definition project_lifecycle_instance ::
  "'v InstanceRegistryStore \<Rightarrow> 'v AttachedInstanceRecord \<Rightarrow> LifecycleInstanceTelemetryData"
where
  "project_lifecycle_instance store a =
     (let r = lifecycle_record store a
      in \<lparr>lit_instance_id = att_instance_id a, lit_route_id = att_route_id a, lit_role = att_role a,
          lit_profile = att_profile a, lit_base_url = att_base_url a,
          lit_status = map_option (\<lambda>r. to_ascii_lowercase (debug_lifecycle (status_of r))) r,
          lit_freshness =
            Option.bind r (\<lambda>r. map_option (\<lambda>f. to_ascii_lowercase (debug_freshness f))
                                 (oh_freshness (health_of r))),
          lit_last_seen_at = Option.bind r (\<lambda>r. oh_last_seen_at (health_of r)),
          lit_secret_refs =
            (case r of None \<Rightarrow> [] | Some r \<Rightarrow> wsb_secret_refs (dw_security (rec_desired r))),
          lit_grant_ids =
            (case r of None \<Rightarrow> [] | Some r \<Rightarrow> wsb_grant_ids (dw_security (rec_desired r))),
          lit_seed_plan_ids =
            (case r of None \<Rightarrow> [] | Some r \<Rightarrow> wsb_seed_plan_ids (dw_security (rec_desired r)))\<rparr>)"

definition count_freshness ::
  "LifecycleInstanceTelemetryData \<Rightarrow> LifecycleRollupCountsData \<Rightarrow> LifecycleRollupCountsData"
where
  "count_freshness i c =
     (let f = unwrap_or (lit_freshness i) ''unknown''
      in if f = ''fresh'' then c\<lparr>lrc_fresh := lrc_fresh c + 1\<rparr>
         else if f = ''stale'' then c\<lparr>lrc_stale := lrc_stale c + 1\<rparr>
         else if f = ''lost'' then c\<lparr>lrc_lost := lrc_lost c + 1\<rparr>
         else if f = ''abandoned'' then c\<lparr>lrc_abandoned := lrc_abandoned c + 1\<rparr>
         else if f = ''reaped'' then c\<lparr>lrc_reaped := lrc_reaped c + 1\<rparr>
         else c\<lparr>lrc_unknown := lrc_unknown c + 1\<rparr>)"

definition summarize_lifecycle_counts ::
  "LifecycleInstanceTelemetryData list \<Rightarrow> LifecycleRollupCountsData"
where
  "summarize_lifecycle_counts instances =
     fold count_freshness instances (default_counts\<lparr>lrc_total_attached := length instances\<rparr>)"

definition aggregate_lifecycle_telemetry ::
  "'v AttachedInstanceRecord list \<Rightarrow> 'v InstanceRegistryStore \<Rightarrow> string \<Rightarrow> LifecycleTelemetryData"
where
  "aggregate_lifecycle_telemetry attached store selected_route_id =
     (let instances = map (project_lifecycle_instance store) attached;
          selected = List.find (\<lambda>i. lit_route_id i = selected_route_id) instances;
          n = show_nat (length attached) @ '' attached instance(s)'' @ dot_sep
      in \<lparr>ltd_summary =
            (if attached = [] then ''no attached instances''
             else case selected of
                    None \<Rightarrow> n @ ''route unavailable''
                  | Some i \<Rightarrow>
                      n @ unwrap_or (lit_status i) ''unknown'' @
                        (case lit_freshness i of None \<Rightarrow> [] | Some f \<Rightarrow> dot_sep @ ''freshness '' @ f)),
          ltd_attached_count = length attached,
          ltd_selected_route_id = non_empty (Some selected_route_id),
          ltd_selected_instance = selected,
          ltd_counts = summarize_lifecycle_counts instances,
          ltd_instances = instances\<rparr>)"

section \<open>Facts\<close>

text \<open>The freshness classes partition the attached instances.\<close>

definition counted :: "LifecycleRollupCountsData \<Rightarrow> nat" where
  "counted c = lrc_fresh c + lrc_stale c + lrc_lost c + lrc_abandoned c + lrc_reaped c + lrc_unknown c"

lemma count_freshness_step:
  "counted (count_freshness i c) = Suc (counted c)"
  "lrc_total_attached (count_freshness i c) = lrc_total_attached c"
  by (simp_all add: count_freshness_def counted_def Let_def)

lemma fold_count_freshness:
  "counted (fold count_freshness is c) = counted c + length is"
  "lrc_total_attached (fold count_freshness is c) = lrc_total_attached c"
  by (induction "is" arbitrary: c) (simp_all add: count_freshness_step)

lemma lifecycle_counts_partition:
  "counted (summarize_lifecycle_counts is) = lrc_total_attached (summarize_lifecycle_counts is)"
proof -
  have "counted (default_counts\<lparr>lrc_total_attached := n\<rparr>) = 0" for n
    by (simp add: counted_def default_counts_def)
  then show ?thesis by (simp add: summarize_lifecycle_counts_def fold_count_freshness)
qed

lemma count_freshness_fresh:
  "lrc_fresh (count_freshness i c) = lrc_fresh c + (if lit_freshness i = Some ''fresh'' then 1 else 0)"
  by (cases "lit_freshness i") (simp_all add: count_freshness_def Let_def)

lemma lrc_fresh_fold:
  "lrc_fresh (fold count_freshness is c) =
     lrc_fresh c + length (filter (\<lambda>i. lit_freshness i = Some ''fresh'') is)"
  by (induction "is" arbitrary: c) (simp_all add: count_freshness_fresh)

lemma lowercase_fresh_iff [simp]:
  "to_ascii_lowercase (debug_freshness f) = ''fresh'' \<longleftrightarrow> f = Fresh"
  by (cases f; hypsubst; code_simp)

text \<open>
  A fleet total counts an instance as fresh exactly when its registry record says so: the record
  the instance carries, or else the one the registry holds for it.
\<close>

lemma fresh_total:
  "lrc_fresh (ltd_counts (aggregate_lifecycle_telemetry attached store route)) =
     length (filter (\<lambda>a. Option.bind (lifecycle_record store a) (\<lambda>r. oh_freshness (health_of r)) = Some Fresh)
       attached)"
proof -
  have "lit_freshness (project_lifecycle_instance store a) = Some ''fresh'' \<longleftrightarrow>
      Option.bind (lifecycle_record store a) (\<lambda>r. oh_freshness (health_of r)) = Some Fresh" for a
    by (cases "lifecycle_record store a") (auto simp: project_lifecycle_instance_def Let_def)
  then show ?thesis
    by (simp add: aggregate_lifecycle_telemetry_def Let_def summarize_lifecycle_counts_def lrc_fresh_fold
        default_counts_def comp_def filter_map)
qed

text \<open>
  Quota figures belong to the account behind the selected route: the roll-up of every other
  instance leaves them empty.
\<close>

lemma rollup_keeps_quota_to_selected_route:
  assumes "t \<in> set (aggregate_provider_rollups attached providers route latest)"
    and "ptd_route_id t \<noteq> Some route"
  shows "ptd_requests_remaining t = None \<and> ptd_tokens_remaining t = None \<and> ptd_request_id t = None \<and>
         ptd_source t = ''inventory''"
  using assms by (auto simp: aggregate_provider_rollups_def if_selected_def Let_def)

end
