(* ===== verification/Remote_Session.thy ===== *)
theory Remote_Session
  imports Telemetry
begin

text \<open>
  The remote host session (\<open>remote_session.rs\<close>): the state the shell keeps for one attached Omegon
  instance, reduced from its events.  \<open>apply_session_event\<close> is the whole reducer;
  \<open>refresh_from_ipc_state\<close> folds in an authoritative IPC snapshot, \<open>apply_ipc_command_outcome\<close> the
  acknowledgement of a prompt or a cancellation, \<open>submit\<close> and \<open>request_dispatcher_switch\<close> are the
  operator's side.  A method with \<open>&mut self\<close> returns its result and the session after it.

  \<open>plan_json\<close> holds the functions of \<open>serde_json\<close> that the reducer calls on a value.
\<close>

record 'v plan_json =
  pj_get :: "'v \<Rightarrow> string \<Rightarrow> 'v option"
  pj_as_str :: "'v \<Rightarrow> string option"
  pj_as_array :: "'v \<Rightarrow> 'v list option"
  pj_to_string :: "'v \<Rightarrow> string"
  pj_to_string_pretty :: "'v \<Rightarrow> string option"

section \<open>State\<close>

datatype DispatcherSwitchCommandOutcome = Issued string | Noop

record 'v RemoteHostSession =
  rs_shell_state :: ShellState
  rs_scenario :: DevScenario
  rs_summary :: HostSessionSummary
  rs_messages :: "ChatMessage list"
  rs_composer :: ComposerState
  rs_pending_role :: "MessageRole option"
  rs_pending_text :: string
  rs_pending_user_prompt :: "string option"
  rs_prompt_ingress_acknowledged :: bool
  rs_cancellation_ingress_acknowledged :: bool
  rs_run_active :: bool
  rs_next_dispatcher_request_id :: u64
  rs_latest_turn_telemetry :: LatestTurnTelemetry
  rs_design :: DesignSnapshot
  rs_openspec :: OpenSpecSnapshot
  rs_cleave :: CleaveSnapshot
  rs_session_stats :: SessionSnapshot
  rs_harness_snapshot :: "HarnessStatusSnapshot option"
  rs_instance_descriptor :: "OmegonInstanceDescriptor option"
  rs_operational_profile_metadata :: "'v option"
  rs_context_tokens :: "u64 option"
  rs_context_window :: "u64 option"
  rs_dispatcher_binding :: "DispatcherBindingSnapshot option"
  rs_latest_plan :: "PlanSnapshotData option"
  rs_ipc_authority :: "IpcSessionAuthorityData option"
  rs_transcript :: TranscriptData

section \<open>Messages and notices\<close>

text \<open>\<open>last_mut()\<close>: the last element, if there is one, is rewritten.\<close>

definition map_last :: "('a \<Rightarrow> 'a) \<Rightarrow> 'a list \<Rightarrow> 'a list" where
  "map_last f xs = (if xs = [] then [] else butlast xs @ [f (last xs)])"

lemma map_last_simps [simp]: "map_last f [] = []" "map_last f (xs @ [x]) = xs @ [f x]"
  by (simp_all add: map_last_def)

lemma map_last_eq_Nil [simp]: "map_last f xs = [] \<longleftrightarrow> xs = []"
  by (simp add: map_last_def)

lemma last_map_last: "xs \<noteq> [] \<Longrightarrow> last (map_last f xs) = f (last xs)"
  by (cases xs rule: rev_cases) simp_all

lemma map_map_last: "(\<And>x. g (f x) = g x) \<Longrightarrow> map g (map_last f xs) = map g xs"
  by (cases xs rule: rev_cases) simp_all

lemma map_last_comp: "map_last f (map_last g xs) = map_last (f \<circ> g) xs"
  by (cases xs rule: rev_cases) simp_all

definition on_blocks :: "(TurnBlock list \<Rightarrow> TurnBlock list) \<Rightarrow> TranscriptData \<Rightarrow> TranscriptData" where
  "on_blocks f t = t\<lparr>td_turns := map_last (\<lambda>turn. turn\<lparr>turn_blocks := f (turn_blocks turn)\<rparr>) (td_turns t)\<rparr>"

definition push_system_notice_to_buffers ::
  "string \<Rightarrow> BlockOrigin option \<Rightarrow> SystemNoticeKind \<Rightarrow> ChatMessage list \<times> TranscriptData \<Rightarrow>
   ChatMessage list \<times> TranscriptData"
where
  "push_system_notice_to_buffers txt origin notice_kind buffers =
     (fst buffers @ [\<lparr>cm_role = MessageRole.System, cm_text = txt\<rparr>],
      on_blocks (\<lambda>bs. bs @ [TurnBlock.System \<lparr>at_text = txt, at_origin = origin,
                                              at_notice_kind = Some notice_kind\<rparr>]) (snd buffers))"

definition push_chat_message ::
  "MessageRole \<Rightarrow> string \<Rightarrow> 'v RemoteHostSession \<Rightarrow> 'v RemoteHostSession"
where
  "push_chat_message role txt s =
     s\<lparr>rs_messages := rs_messages s @ [\<lparr>cm_role = role, cm_text = txt\<rparr>]\<rparr>"

definition push_system_notice ::
  "string \<Rightarrow> BlockOrigin option \<Rightarrow> SystemNoticeKind \<Rightarrow> 'v RemoteHostSession \<Rightarrow> 'v RemoteHostSession"
where
  "push_system_notice txt origin notice_kind s =
     (push_chat_message MessageRole.System txt s)
       \<lparr>rs_transcript :=
          on_blocks (\<lambda>bs. bs @ [TurnBlock.System \<lparr>at_text = txt, at_origin = origin,
                                                  at_notice_kind = Some notice_kind\<rparr>])
            (rs_transcript s)\<rparr>"

definition dispatcher_origin :: "DispatcherBindingSnapshot option \<Rightarrow> BlockOrigin" where
  "dispatcher_origin dispatcher =
     (let descriptor = Option.bind dispatcher db_instance_descriptor
      in \<lparr>bo_kind = OriginKind.Dispatcher,
          bo_label =
            unwrap_or
              (or_else (Option.bind (Option.bind descriptor odesc_policy) opd_model)
                (or_else (non_empty (map_option (\<lambda>d. oid_instance_id (odesc_identity d)) descriptor))
                  (or_else (Option.bind dispatcher db_expected_model)
                    (map_option db_dispatcher_instance_id dispatcher))))
              ''Dispatcher''\<rparr>)"

definition push_dispatcher_notice ::
  "string \<Rightarrow> SystemNoticeKind \<Rightarrow> 'v RemoteHostSession \<Rightarrow> 'v RemoteHostSession"
where
  "push_dispatcher_notice txt notice_kind s =
     push_system_notice txt (Some (dispatcher_origin (rs_dispatcher_binding s))) notice_kind s"

definition push_text_block ::
  "string \<Rightarrow> BlockOrigin option \<Rightarrow> 'v RemoteHostSession \<Rightarrow> 'v RemoteHostSession"
where
  "push_text_block txt origin s =
     s\<lparr>rs_transcript :=
         on_blocks (\<lambda>bs. bs @ [Text \<lparr>at_text = txt, at_origin = origin, at_notice_kind = None\<rparr>])
           (rs_transcript s)\<rparr>"

definition system_origin :: BlockOrigin where
  "system_origin = \<lparr>bo_kind = OriginKind.System, bo_label = ''System''\<rparr>"

definition set_activity ::
  "string \<Rightarrow> ActivityKind \<Rightarrow> 'v RemoteHostSession \<Rightarrow> 'v RemoteHostSession"
where
  "set_activity txt kind s =
     s\<lparr>rs_summary := (rs_summary s)\<lparr>hss_activity := txt, hss_activity_kind := kind\<rparr>\<rparr>"

section \<open>Status and summary of a snapshot\<close>

definition harness_can_execute_prompts ::
  "HarnessStatusSnapshot option \<Rightarrow> OmegonInstanceDescriptor option \<Rightarrow> bool"
where
  "harness_can_execute_prompts harness descriptor =
     (case harness of
        Some h \<Rightarrow> list_ex prs_authenticated (hs_providers h)
      | None \<Rightarrow>
          (case Option.bind descriptor odesc_runtime of
             Some r \<Rightarrow> ord_provider_ok r
           | None \<Rightarrow> True))"

definition status_from_harness :: "HarnessStatusSnapshot option \<Rightarrow> ShellState \<times> DevScenario" where
  "status_from_harness harness =
     (case harness of
        None \<Rightarrow> (ShellState.Ready, DevScenario.Ready)
      | Some h \<Rightarrow>
          if hs_memory_warning h \<noteq> None then (ShellState.Degraded, DevScenario.Degraded)
          else if \<not> hs_memory_available h \<and> \<not> hs_cleave_available h
            then (ShellState.Degraded, DevScenario.Degraded)
          else if \<not> harness_can_execute_prompts (Some h) None
            then (ShellState.Degraded, DevScenario.Degraded)
          else (ShellState.Ready, DevScenario.Ready))"

definition status_from_runtime_or_harness ::
  "OmegonInstanceDescriptor option \<Rightarrow> HarnessStatusSnapshot option \<Rightarrow> ShellState \<times> DevScenario"
where
  "status_from_runtime_or_harness descriptor harness =
     (case harness of
        Some h \<Rightarrow> status_from_harness (Some h)
      | None \<Rightarrow>
          (case Option.bind descriptor odesc_runtime of
             Some r \<Rightarrow>
               if ord_provider_ok r \<and> ord_memory_ok r then (ShellState.Ready, DevScenario.Ready)
               else (ShellState.Degraded, DevScenario.Degraded)
           | None \<Rightarrow> (ShellState.Ready, DevScenario.Ready)))"

text \<open>\<open>find_map\<close> over the providers.\<close>

fun find_map :: "('a \<Rightarrow> 'b option) \<Rightarrow> 'a list \<Rightarrow> 'b option" where
  "find_map f [] = None"
| "find_map f (x # xs) = (case f x of Some y \<Rightarrow> Some y | None \<Rightarrow> find_map f xs)"

definition snapshot_connection :: "'v OmegonStateSnapshot \<Rightarrow> string" where
  "snapshot_connection snap =
     (case snap_instance_descriptor snap of
        Some d \<Rightarrow>
          (let branch = unwrap_or (or_else (Option.bind (odesc_workspace d) owd_branch)
                                     (Option.bind (snap_harness snap) hs_git_branch)) ''detached'';
               identity = unwrap_or (non_empty (Some (oid_instance_id (odesc_identity d)))) ''instance unknown'';
               model = unwrap_or (or_else (Option.bind (odesc_policy d) opd_model)
                                    (Option.bind (snap_harness snap)
                                       (\<lambda>h. find_map prs_model (hs_providers h)))) ''provider unknown''
           in ''Attached to Omegon instance '' @ identity @ '' on branch '' @ branch @ '' ('' @ model @ '')'')
      | None \<Rightarrow>
          (case snap_harness snap of
             Some h \<Rightarrow>
               ''Attached to Omegon host on branch '' @ unwrap_or (hs_git_branch h) ''detached'' @ '' ('' @
               unwrap_or (find_map (\<lambda>p. map_option (\<lambda>model. prs_name p @ '' '' @ model) (prs_model p))
                            (hs_providers h)) ''provider unknown'' @ '')''
           | None \<Rightarrow> ''Attached to Omegon host session''))"

definition snapshot_activity :: "'v OmegonStateSnapshot \<Rightarrow> string" where
  "snapshot_activity snap =
     (if cl_active (snap_cleave snap)
      then ''Parallel work running: '' @ show_nat (cl_completed (snap_cleave snap)) @ ''/'' @
             show_nat (cl_total_children (snap_cleave snap)) @ '' children complete''
      else case ds_focused (snap_design snap) of
             Some f \<Rightarrow> ''Focused on '' @ fn_title f @ '' ('' @ fn_status f @ '')''
           | None \<Rightarrow>
               ''Session stats: '' @ show_nat (unat (ss_turns (snap_session snap))) @ '' turns, '' @
               show_nat (unat (ss_tool_calls (snap_session snap))) @ '' tool calls, '' @
               show_nat (unat (ss_compactions (snap_session snap))) @ '' compactions'')"

definition snapshot_work :: "'v OmegonStateSnapshot \<Rightarrow> string" where
  "snapshot_work snap =
     (case ds_focused (snap_design snap) of
        Some f \<Rightarrow> ''Focused node: '' @ fn_title f
      | None \<Rightarrow>
          (case snap_instance_descriptor snap of
             Some d \<Rightarrow>
               unwrap_or (non_empty (Some (oid_role (odesc_identity d)))) ''role unknown'' @
               '' attached to '' @
               unwrap_or (Option.bind (odesc_workspace d) owd_workspace_id) ''workspace unknown''
           | None \<Rightarrow>
               if ds_implementing (snap_design snap) \<noteq> []
               then show_nat (length (ds_implementing (snap_design snap))) @ '' implementation item(s) active''
               else if 0 < os_total_tasks (snap_openspec snap)
               then ''OpenSpec progress: '' @ show_nat (os_done_tasks (snap_openspec snap)) @ ''/'' @
                      show_nat (os_total_tasks (snap_openspec snap)) @ '' tasks done''
               else ''No focused work item''))"

definition summary_from_snapshot :: "'v OmegonStateSnapshot \<Rightarrow> HostSessionSummary" where
  "summary_from_snapshot snap =
     \<lparr>hss_connection = snapshot_connection snap,
      hss_activity = snapshot_activity snap,
      hss_activity_kind =
        (if cl_active (snap_cleave snap) then ActivityKind.Running
         else if Option.bind (snap_harness snap) hs_memory_warning \<noteq> None then ActivityKind.Degraded
         else if ds_focused (snap_design snap) \<noteq> None then ActivityKind.Running
         else ActivityKind.Idle),
      hss_work = snapshot_work snap\<rparr>"

definition apply_harness_summary ::
  "HarnessStatusSnapshot \<Rightarrow> HostSessionSummary \<Rightarrow> HostSessionSummary"
where
  "apply_harness_summary h summary =
     (let summary = (case hs_git_branch h of
                       Some branch \<Rightarrow> summary\<lparr>hss_connection := ''Attached to Omegon host on branch '' @ branch\<rparr>
                     | None \<Rightarrow> summary)
      in case hs_memory_warning h of
           Some warning \<Rightarrow> summary\<lparr>hss_activity := warning, hss_activity_kind := ActivityKind.Degraded\<rparr>
         | None \<Rightarrow>
             if \<not> harness_can_execute_prompts (Some h) None
             then summary\<lparr>hss_activity := ''No authenticated providers reported by Omegon'',
                          hss_activity_kind := ActivityKind.Degraded\<rparr>
             else if hs_active_delegates h \<noteq> []
             then summary\<lparr>hss_activity := show_nat (length (hs_active_delegates h)) @ '' delegate task(s) active'',
                          hss_activity_kind := ActivityKind.Running\<rparr>
             else summary)"

definition role_from_wire :: "string \<Rightarrow> MessageRole" where
  "role_from_wire role =
     (if role = ''user'' then User else if role = ''system'' then MessageRole.System else Assistant)"

definition empty_transcript :: TranscriptData where
  "empty_transcript = \<lparr>td_turns = [], td_active_turn = None, td_context_tokens = None\<rparr>"

definition snapshot_metadata :: "'v OmegonStateSnapshot \<Rightarrow> 'v option" where
  "snapshot_metadata snap =
     or_else (or_else (snap_operational_profile snap) (snap_initialize_metadata snap))
       (snap_extension_metadata snap)"

definition from_snapshot :: "'v OmegonStateSnapshot \<Rightarrow> 'v RemoteHostSession" where
  "from_snapshot snap =
     (let status = status_from_runtime_or_harness (snap_instance_descriptor snap) (snap_harness snap)
      in \<lparr>rs_shell_state = fst status, rs_scenario = snd status,
          rs_summary = summary_from_snapshot snap,
          rs_messages = [\<lparr>cm_role = MessageRole.System,
            cm_text = ''Attached to Omegon host control plane. Live transcript will appear here as WebSocket events arrive.''\<rparr>],
          rs_composer = \<lparr>cst_draft = []\<rparr>, rs_pending_role = None, rs_pending_text = [],
          rs_pending_user_prompt = None, rs_prompt_ingress_acknowledged = False,
          rs_cancellation_ingress_acknowledged = False, rs_run_active = False,
          rs_next_dispatcher_request_id = 1, rs_latest_turn_telemetry = default_turn_telemetry,
          rs_design = snap_design snap, rs_openspec = snap_openspec snap, rs_cleave = snap_cleave snap,
          rs_session_stats = snap_session snap, rs_harness_snapshot = snap_harness snap,
          rs_instance_descriptor = snap_instance_descriptor snap,
          rs_operational_profile_metadata = snapshot_metadata snap,
          rs_context_tokens = None, rs_context_window = None,
          rs_dispatcher_binding = snap_dispatcher snap, rs_latest_plan = None,
          rs_ipc_authority = None, rs_transcript = empty_transcript\<rparr>)"

section \<open>Dispatcher switches\<close>

definition switch_target_label :: "string option \<Rightarrow> string option \<Rightarrow> string" where
  "switch_target_label profile model =
     (case (profile, model) of
        (Some p, Some m) \<Rightarrow> p @ dot_sep @ m
      | (Some p, None) \<Rightarrow> p
      | (None, Some m) \<Rightarrow> m
      | (None, None) \<Rightarrow> ''unknown target'')"

definition allocate_dispatcher_request_id :: "'v RemoteHostSession \<Rightarrow> string \<times> 'v RemoteHostSession" where
  "allocate_dispatcher_request_id s =
     (''dispatcher-switch-'' @ show_nat (unat (rs_next_dispatcher_request_id s)),
      s\<lparr>rs_next_dispatcher_request_id := rs_next_dispatcher_request_id s + 1\<rparr>)"

definition already_active :: "DispatcherBindingSnapshot \<Rightarrow> string \<Rightarrow> string option \<Rightarrow> bool" where
  "already_active dispatcher profile model \<longleftrightarrow>
     db_expected_profile dispatcher = profile \<and> (model = None \<or> db_expected_model dispatcher = model)"

definition noop_switch ::
  "DispatcherBindingSnapshot \<Rightarrow> string \<Rightarrow> string option \<Rightarrow> 'v RemoteHostSession \<Rightarrow> 'v RemoteHostSession"
where
  "noop_switch dispatcher profile model s =
     (let note = ''Dispatcher already active: '' @ profile
      in push_system_notice note (Some (dispatcher_origin (Some dispatcher))) SystemNoticeKind.DispatcherSwitch
           (set_activity note ActivityKind.Completed
             (s\<lparr>rs_dispatcher_binding :=
                 Some (dispatcher\<lparr>db_switch_state :=
                   Some \<lparr>sw_request_id = None, sw_requested_profile = Some profile,
                         sw_requested_model = model, sw_status = ''active'', sw_failure_code = None,
                         sw_note = Some note\<rparr>\<rparr>)\<rparr>)))"

definition superseded_notice :: "DispatcherBindingSnapshot \<Rightarrow> 'v RemoteHostSession \<Rightarrow> 'v RemoteHostSession" where
  "superseded_notice dispatcher s =
     (case db_switch_state dispatcher of
        Some previous \<Rightarrow>
          if sw_status previous = ''pending''
          then push_system_notice
                 (''Dispatcher switch superseded: '' @
                  switch_target_label (sw_requested_profile previous) (sw_requested_model previous))
                 (Some (dispatcher_origin (Some dispatcher))) SystemNoticeKind.DispatcherSwitch s
          else s
      | None \<Rightarrow> s)"

definition issue_switch ::
  "DispatcherBindingSnapshot \<Rightarrow> string \<Rightarrow> string option \<Rightarrow> 'v RemoteHostSession \<Rightarrow>
   string \<times> 'v RemoteHostSession"
where
  "issue_switch dispatcher profile model s =
     (let (request_id, s) = allocate_dispatcher_request_id s;
          s = s\<lparr>rs_dispatcher_binding :=
                Some (dispatcher\<lparr>db_switch_state :=
                  Some \<lparr>sw_request_id = Some request_id, sw_requested_profile = Some profile,
                        sw_requested_model = model, sw_status = ''pending'', sw_failure_code = None,
                        sw_note = Some ''Awaiting backend dispatcher switch confirmation''\<rparr>\<rparr>)\<rparr>;
          s = superseded_notice dispatcher s;
          s = set_activity (''Requesting dispatcher switch to '' @ profile) Waiting s
      in (request_id,
          push_system_notice
            (''Dispatcher switch requested: '' @ switch_target_label (Some profile) model)
            (Some (dispatcher_origin (Some dispatcher))) SystemNoticeKind.DispatcherSwitch s))"

definition request_dispatcher_switch ::
  "string \<Rightarrow> string option \<Rightarrow> 'v RemoteHostSession \<Rightarrow>
   DispatcherSwitchCommandOutcome option \<times> 'v RemoteHostSession"
where
  "request_dispatcher_switch profile model s =
     (case rs_dispatcher_binding s of
        None \<Rightarrow> (None, s)
      | Some dispatcher \<Rightarrow>
          if already_active dispatcher profile model
          then (Some Noop, noop_switch dispatcher profile model s)
          else (let (request_id, s) = issue_switch dispatcher profile model s
                in (Some (Issued request_id), s)))"

definition report_dispatch_failure :: "string \<Rightarrow> 'v RemoteHostSession \<Rightarrow> 'v RemoteHostSession" where
  "report_dispatch_failure txt s = push_dispatcher_notice txt SystemNoticeKind.Failure s"

definition pending_switch :: "DispatcherBindingSnapshot option \<Rightarrow> DispatcherSwitchStateSnapshot option" where
  "pending_switch binding =
     (case Option.bind binding db_switch_state of
        Some sw \<Rightarrow> if sw_status sw = ''pending'' then Some sw else None
      | None \<Rightarrow> None)"

definition confirm_or_keep ::
  "DispatcherBindingSnapshot \<Rightarrow> DispatcherSwitchStateSnapshot \<Rightarrow> DispatcherSwitchStateSnapshot"
where
  "confirm_or_keep nxt previous =
     (if sw_requested_profile previous = Some (db_expected_profile nxt) \<and>
         (case sw_requested_model previous of
            Some m \<Rightarrow> db_expected_model nxt = Some m
          | None \<Rightarrow> True)
      then \<lparr>sw_request_id = sw_request_id previous, sw_requested_profile = sw_requested_profile previous,
            sw_requested_model = sw_requested_model previous, sw_status = ''active'',
            sw_failure_code = None, sw_note = Some ''Dispatcher switch confirmed by snapshot''\<rparr>
      else previous)"

definition reconcile_dispatcher_binding ::
  "DispatcherBindingSnapshot option \<Rightarrow> DispatcherBindingSnapshot option \<Rightarrow>
   DispatcherBindingSnapshot option"
where
  "reconcile_dispatcher_binding previous nxt =
     (case nxt of
        None \<Rightarrow> None
      | Some nxt \<Rightarrow>
          (case db_switch_state nxt of
             Some explicit \<Rightarrow>
               if sw_status explicit = ''failed'' \<or> sw_status explicit = ''superseded'' then Some nxt
               else if (case pending_switch previous of
                          Some p \<Rightarrow> sw_status explicit = ''active'' \<and> sw_request_id explicit \<noteq> None \<and>
                                    sw_request_id explicit \<noteq> sw_request_id p
                        | None \<Rightarrow> False) then Some nxt
               else Some nxt
           | None \<Rightarrow>
               (case pending_switch previous of
                  Some sw \<Rightarrow> Some (nxt\<lparr>db_switch_state := Some (confirm_or_keep nxt sw)\<rparr>)
                | None \<Rightarrow> Some nxt)))"

text \<open>The early returns of the source make no difference: an explicit switch state is kept.\<close>

lemma reconcile_explicit:
  "db_switch_state nxt = Some sw \<Longrightarrow> reconcile_dispatcher_binding previous (Some nxt) = Some nxt"
  by (simp add: reconcile_dispatcher_binding_def)

lemma reconcile_silent:
  "db_switch_state nxt = None \<Longrightarrow>
     reconcile_dispatcher_binding previous (Some nxt) =
       Some (nxt\<lparr>db_switch_state := map_option (confirm_or_keep nxt) (pending_switch previous)\<rparr>)"
  by (cases "pending_switch previous") (simp_all add: reconcile_dispatcher_binding_def)

definition switch_transition_message ::
  "DispatcherSwitchStateSnapshot option \<Rightarrow> DispatcherSwitchStateSnapshot \<Rightarrow> string option"
where
  "switch_transition_message previous nxt =
     (let suffix = (case sw_request_id nxt of Some rid \<Rightarrow> '' ('' @ rid @ '')'' | None \<Rightarrow> []);
          target = switch_target_label (sw_requested_profile nxt) (sw_requested_model nxt);
          was_pending = (\<lambda>same. case previous of
                           Some p \<Rightarrow> sw_status p = ''pending'' \<and> (sw_request_id p = sw_request_id nxt) = same
                         | None \<Rightarrow> False)
      in if sw_status nxt = ''active'' \<and> was_pending True
           then Some (''Dispatcher switch confirmed'' @ suffix @ '': '' @ target)
         else if sw_status nxt = ''active'' \<and> was_pending False
           then Some (''Dispatcher reports a different active request'' @ suffix @ '': '' @ target)
         else if sw_status nxt = ''failed''
           then Some (case sw_failure_code nxt of
                        Some code \<Rightarrow> ''Dispatcher switch failed'' @ suffix @ '': '' @ target @ '' ['' @ code @ '']''
                      | None \<Rightarrow> ''Dispatcher switch failed'' @ suffix @ '': '' @ target)
         else if sw_status nxt = ''superseded''
           then Some (''Dispatcher switch superseded'' @ suffix @ '': '' @ target)
         else None)"

definition append_dispatcher_switch_transition_notice ::
  "DispatcherBindingSnapshot option \<Rightarrow> DispatcherBindingSnapshot option \<Rightarrow>
   ChatMessage list \<times> TranscriptData \<Rightarrow> ChatMessage list \<times> TranscriptData"
where
  "append_dispatcher_switch_transition_notice previous nxt buffers =
     (let previous_state = Option.bind previous db_switch_state;
          next_state = Option.bind nxt db_switch_state
      in if previous_state = next_state then buffers
         else case next_state of
                None \<Rightarrow> buffers
              | Some st \<Rightarrow>
                  (case switch_transition_message previous_state st of
                     None \<Rightarrow> buffers
                   | Some message \<Rightarrow>
                       push_system_notice_to_buffers message (Some (dispatcher_origin nxt))
                         (if sw_status st = ''failed'' then SystemNoticeKind.Failure else SystemNoticeKind.DispatcherSwitch)
                         buffers))"

section \<open>Plans\<close>

definition entry_status :: "'v plan_json \<Rightarrow> 'v \<Rightarrow> string option" where
  "entry_status js entry =
     map_option to_ascii_lowercase
       (Option.bind (or_else (pj_get js entry ''status'') (pj_get js entry ''state'')) (pj_as_str js))"

definition plan_entries :: "'v plan_json \<Rightarrow> 'v \<Rightarrow> 'v list option" where
  "plan_entries js snapshot =
     (let field = (\<lambda>k. Option.bind (pj_get js snapshot k) (pj_as_array js))
      in or_else (pj_as_array js snapshot)
           (or_else (field ''entries'') (or_else (field ''items'') (or_else (field ''steps'') (field ''tasks'')))))"

definition plan_progress :: "'v plan_json \<Rightarrow> 'v list \<Rightarrow> string" where
  "plan_progress js entries =
     (let among = (\<lambda>names. length (filter (\<lambda>e. case entry_status js e of
                                               Some st \<Rightarrow> List.member names st | None \<Rightarrow> False) entries));
          active = among [''active'', ''running'', ''in_progress'', ''in-progress''];
          finished = among [''done'', ''complete'', ''completed''];
          n = length entries
      in if n = 0 then ''empty''
         else if active = 0 \<and> finished = 0 then show_nat n @ '' entries''
         else if active = 0 then show_nat finished @ ''/'' @ show_nat n @ '' complete''
         else show_nat active @ '' active'' @ dot_sep @ show_nat finished @ ''/'' @ show_nat n @ '' complete'')"

definition plan_snapshot_summary :: "'v plan_json \<Rightarrow> 'v \<Rightarrow> string" where
  "plan_snapshot_summary js snapshot =
     (case non_empty (map_option trim (Option.bind (pj_get js snapshot ''summary'') (pj_as_str js))) of
        Some summary \<Rightarrow> summary
      | None \<Rightarrow>
          (case plan_entries js snapshot of
             Some entries \<Rightarrow> plan_progress js entries
           | None \<Rightarrow> ''snapshot received''))"

definition plan_snapshot_data :: "'v plan_json \<Rightarrow> 'v \<Rightarrow> PlanSnapshotData" where
  "plan_snapshot_data js snapshot =
     \<lparr>psd_summary = plan_snapshot_summary js snapshot,
      psd_raw_json = unwrap_or (pj_to_string_pretty js snapshot) (pj_to_string js snapshot)\<rparr>"

end
