(* ===== verification/Session_Reducer.thy ===== *)
theory Session_Reducer
  imports Remote_Session
begin

text \<open>
  The reducer of the remote session (\<open>remote_session.rs\<close>): the projection of an IPC snapshot, the
  staleness rule for it, and one function per event of \<open>apply_session_event\<close>, which is their
  composition.
\<close>

section \<open>Projection of an IPC snapshot\<close>

definition project_ipc_session_authority :: "IpcStateSnapshot \<Rightarrow> IpcSessionAuthorityData" where
  "project_ipc_session_authority snap =
     (let c = iss_control_plane snap; ses = iss_session snap
      in \<lparr>isa_server_instance_id = ipc_server_instance_id c,
          isa_protocol_version = ipc_protocol_version c, isa_capabilities = ipc_capabilities c,
          isa_session_id = ips_session_id ses, isa_session_generation = ips_session_generation ses,
          isa_stream_id = ips_stream_id ses, isa_projection_status = ips_projection_status ses,
          isa_projection_frontier = ips_projection_frontier ses,
          isa_context_revision = ips_context_revision ses, isa_queue_depth = ips_queue_depth ses,
          isa_active_turn = ips_active_turn ses, isa_busy = ips_busy ses\<rparr>)"

definition optional_counter_regresses :: "u64 option \<Rightarrow> u64 option \<Rightarrow> bool" where
  "optional_counter_regresses current incoming =
     (case (current, incoming) of
        (Some _, None) \<Rightarrow> True
      | (Some c, Some i) \<Rightarrow> i < c
      | _ \<Rightarrow> False)"

definition ipc_snapshot_is_stale ::
  "IpcSessionAuthorityData option \<Rightarrow> IpcSessionAuthorityData \<Rightarrow> bool"
where
  "ipc_snapshot_is_stale current incoming =
     (case current of
        None \<Rightarrow> False
      | Some current \<Rightarrow>
          if isa_server_instance_id current \<noteq> isa_server_instance_id incoming then False
          else if (case (isa_session_generation current, isa_session_generation incoming) of
                     (Some _, None) \<Rightarrow> True
                   | (Some c, Some i) \<Rightarrow> i < c
                   | _ \<Rightarrow> False) then True
          else if isa_session_generation current \<noteq> isa_session_generation incoming then False
          else optional_counter_regresses (isa_projection_frontier current) (isa_projection_frontier incoming)
             \<or> optional_counter_regresses (isa_context_revision current) (isa_context_revision incoming))"

fun format_ipc_role :: "OmegonRole \<Rightarrow> string" where
  "format_ipc_role OmegonRole.PrimaryDriver = ''primary-driver''"
| "format_ipc_role OmegonRole.EmbeddedBackend = ''embedded-backend''"
| "format_ipc_role Delegate = ''delegate''"
| "format_ipc_role Worker = ''worker''"
| "format_ipc_role OmegonRole.RemoteAgent = ''remote-agent''"
| "format_ipc_role OmegonRole.Unknown = ''unknown''"

fun format_ipc_health :: "IpcHealthState \<Rightarrow> string" where
  "format_ipc_health IpcHealthState.Ready = ''ready''"
| "format_ipc_health IpcHealthState.Degraded = ''degraded''"
| "format_ipc_health IpcHealthState.Starting = ''starting''"
| "format_ipc_health IpcHealthState.Failed = ''failed''"

fun format_ipc_runtime_health :: "OmegonRuntimeHealth \<Rightarrow> string" where
  "format_ipc_runtime_health OmegonRuntimeHealth.Ready = ''ready''"
| "format_ipc_runtime_health OmegonRuntimeHealth.Degraded = ''degraded''"
| "format_ipc_runtime_health OmegonRuntimeHealth.Starting = ''starting''"
| "format_ipc_runtime_health OmegonRuntimeHealth.Failed = ''failed''"

fun format_ipc_deployment_kind :: "OmegonDeploymentKind \<Rightarrow> string" where
  "format_ipc_deployment_kind InteractiveTui = ''interactive-tui''"
| "format_ipc_deployment_kind OmegonDeploymentKind.EmbeddedBackend = ''embedded-backend''"
| "format_ipc_deployment_kind HomelabService = ''homelab-service''"
| "format_ipc_deployment_kind KubernetesWorker = ''kubernetes-worker''"
| "format_ipc_deployment_kind CleaveChild = ''cleave-child''"
| "format_ipc_deployment_kind OmegonDeploymentKind.RemoteAgent = ''remote-agent''"
| "format_ipc_deployment_kind OmegonDeploymentKind.Unknown = ''unknown''"

definition project_ipc_harness_snapshot :: "IpcStateSnapshot \<Rightarrow> HarnessStatusSnapshot" where
  "project_ipc_harness_snapshot snap =
     (let h = iss_harness snap
      in \<lparr>hs_git_branch = ips_git_branch (iss_session snap),
          hs_git_detached = ips_git_detached (iss_session snap),
          hs_thinking_level = iph_thinking_level h, hs_capability_tier = iph_capability_tier h,
          hs_providers =
            map (\<lambda>p. \<lparr>prs_name = ipv_name p, prs_authenticated = ipv_authenticated p,
                      prs_auth_method = None, prs_model = ipv_model p\<rparr>) (iph_providers h),
          hs_memory_available = iph_memory_available h, hs_cleave_available = iph_cleave_available h,
          hs_memory_warning = iph_memory_warning h, hs_active_delegates = [],
          hs_reported_active_delegate_count = Some (iph_active_delegate_count h)\<rparr>)"

definition ipc_control_plane_descriptor :: "IpcControlPlane \<Rightarrow> OmegonControlPlaneDescriptor" where
  "ipc_control_plane_descriptor c =
     \<lparr>ocd_schema_version = ucast (ipc_schema_version c),
      ocd_omegon_version = Some (ipc_omegon_version c), ocd_base_url = ipc_http_base c,
      ocd_startup_url = ipc_startup_url c, ocd_state_url = ipc_state_url c, ocd_health_url = None,
      ocd_ready_url = None, ocd_ws_url = ipc_ws_url c, ocd_acp_url = None,
      ocd_auth_mode = ipc_auth_mode c, ocd_token_ref = None, ocd_transport_security = None,
      ocd_mtls = None, ocd_tls_secret = None, ocd_tls_profile = None, ocd_tls_ca_epoch = None,
      ocd_tls_leaf_epoch = None, ocd_tls_leaf_validity = None, ocd_ca_fingerprint_sha256 = None,
      ocd_server_fingerprint_sha256 = None, ocd_last_ready_at = None, ocd_last_verified_at = None,
      ocd_ipc_socket_path = ipc_ipc_socket_path c, ocd_capabilities = ipc_capabilities c\<rparr>"

definition ipc_runtime_descriptor :: "IpcStateSnapshot \<Rightarrow> OmegonRuntimeDescriptor" where
  "ipc_runtime_descriptor snap =
     (let p = iss_placement snap; r = iss_runtime snap
      in \<lparr>ord_backend = Some (format_ipc_deployment_kind (ipr_deployment_kind r)),
          ord_host = ipp_host p, ord_pid = ipp_pid p, ord_placement_id = None,
          ord_namespace = ipp_namespace p, ord_pod_name = ipp_pod_name p,
          ord_container_name = ipp_container_name p,
          ord_health = Some (format_ipc_runtime_health (ipr_health r)),
          ord_provider_ok = ipr_provider_ok r, ord_memory_ok = ipr_memory_ok r,
          ord_cleave_available = ipr_cleave_available r, ord_context_class = ipr_context_class r,
          ord_thinking_level = ipr_thinking_level r, ord_capability_tier = ipr_capability_tier r,
          ord_runtime_profile = Some (ipr_runtime_profile r), ord_autonomy_mode = ipr_autonomy_mode r,
          ord_active_persona = iph_active_persona (iss_harness snap), ord_extensions = [],
          ord_execution_substrate = None\<rparr>)"

definition project_ipc_instance_descriptor :: "IpcStateSnapshot \<Rightarrow> OmegonInstanceDescriptor" where
  "project_ipc_instance_descriptor snap =
     (let i = iss_identity snap
      in \<lparr>odesc_identity =
            \<lparr>oid_instance_id = ipi_instance_id i, oid_role = format_ipc_role (ipi_role i),
             oid_profile = ipi_profile i, oid_status = format_ipc_health (iss_health snap)\<rparr>,
          odesc_workspace =
            Some \<lparr>owd_cwd = Some (ipp_cwd (iss_placement snap)),
                  owd_workspace_id = non_empty (Some (ipi_workspace_id i)),
                  owd_branch = ips_git_branch (iss_session snap)\<rparr>,
          odesc_control_plane = Some (ipc_control_plane_descriptor (iss_control_plane snap)),
          odesc_runtime = Some (ipc_runtime_descriptor snap),
          odesc_session = Some \<lparr>osd_session_id = non_empty (Some (ipi_session_id i))\<rparr>,
          odesc_policy =
            Some \<lparr>opd_model = None, opd_thinking_level = ipr_thinking_level (iss_runtime snap),
                  opd_capability_tier = ipr_capability_tier (iss_runtime snap)\<rparr>\<rparr>)"

definition ipc_design_counts :: "IpcDesignCounts \<Rightarrow> (string \<times> nat) list" where
  "ipc_design_counts c =
     [(''total'', idc_total c), (''seed'', idc_seed c), (''exploring'', idc_exploring c),
      (''resolved'', idc_resolved c), (''decided'', idc_decided c),
      (''implementing'', idc_implementing c), (''implemented'', idc_implemented c),
      (''blocked'', idc_blocked c), (''deferred'', idc_deferred c),
      (''open_questions'', idc_open_questions c)]"

definition project_ipc_state_snapshot ::
  "IpcStateSnapshot \<Rightarrow> DispatcherBindingSnapshot option \<Rightarrow> 'v OmegonStateSnapshot"
where
  "project_ipc_state_snapshot snap dispatcher =
     (let d = iss_design_tree snap; ses = iss_session snap
      in \<lparr>snap_design =
            \<lparr>ds_focused = idt_focused d, ds_implementing = idt_implementing d,
             ds_actionable = idt_actionable d, ds_all_nodes = idt_nodes d,
             ds_counts = ipc_design_counts (idt_counts d)\<rparr>,
          snap_openspec = iss_openspec snap, snap_cleave = iss_cleave snap,
          snap_session = \<lparr>ss_turns = ips_turns ses, ss_tool_calls = ips_tool_calls ses,
                          ss_compactions = ips_compactions ses\<rparr>,
          snap_harness = Some (project_ipc_harness_snapshot snap),
          snap_dispatcher = dispatcher,
          snap_instance_descriptor = Some (project_ipc_instance_descriptor snap),
          snap_initialize_metadata = None, snap_extension_metadata = None,
          snap_operational_profile = None\<rparr>)"

section \<open>Snapshots\<close>

definition on_state_snapshot :: "'v OmegonStateSnapshot \<Rightarrow> 'v RemoteHostSession \<Rightarrow> 'v RemoteHostSession" where
  "on_state_snapshot data s =
     (let status = status_from_runtime_or_harness (snap_instance_descriptor data) (snap_harness data);
          previous = rs_dispatcher_binding s;
          binding = reconcile_dispatcher_binding previous (snap_dispatcher data);
          buffers = append_dispatcher_switch_transition_notice previous binding
                      (rs_messages s, rs_transcript s)
      in s\<lparr>rs_shell_state := fst status, rs_scenario := snd status,
           rs_summary := summary_from_snapshot data, rs_design := snap_design data,
           rs_openspec := snap_openspec data, rs_cleave := snap_cleave data,
           rs_session_stats := snap_session data, rs_harness_snapshot := snap_harness data,
           rs_instance_descriptor := snap_instance_descriptor data,
           rs_operational_profile_metadata := snapshot_metadata data,
           rs_dispatcher_binding := binding, rs_messages := fst buffers,
           rs_transcript := (snd buffers)\<lparr>td_context_tokens := rs_context_tokens s\<rparr>\<rparr>)"

definition forget_session :: "'v RemoteHostSession \<Rightarrow> 'v RemoteHostSession" where
  "forget_session s =
     s\<lparr>rs_pending_role := None, rs_pending_text := [], rs_pending_user_prompt := None,
       rs_prompt_ingress_acknowledged := False, rs_cancellation_ingress_acknowledged := False,
       rs_transcript := (rs_transcript s)\<lparr>td_turns := [], td_active_turn := None\<rparr>\<rparr>"

definition generation_changed ::
  "IpcSessionAuthorityData option \<Rightarrow> IpcSessionAuthorityData \<Rightarrow> bool"
where
  "generation_changed current authority =
     (case current of
        None \<Rightarrow> False
      | Some c \<Rightarrow> isa_server_instance_id c \<noteq> isa_server_instance_id authority
                \<or> isa_session_generation c \<noteq> isa_session_generation authority
                \<or> isa_session_id c \<noteq> isa_session_id authority)"

definition ingress_activity :: "IpcSessionAuthorityData \<Rightarrow> 'v RemoteHostSession \<Rightarrow> 'v RemoteHostSession" where
  "ingress_activity authority s =
     (let in_turn = isa_busy authority \<or> isa_active_turn authority \<noteq> None
      in if rs_cancellation_ingress_acknowledged s then
           (if in_turn
            then set_activity ''Cancellation acknowledged; awaiting authoritative turn termination'' Waiting s
            else set_activity ''Cancellation confirmed by Omegon state'' ActivityKind.Completed
                   (s\<lparr>rs_cancellation_ingress_acknowledged := False\<rparr>))
         else if rs_pending_user_prompt s \<noteq> None then
           (if in_turn then set_activity ''Prompt admitted; Omegon turn is active'' ActivityKind.Running s
            else if 0 < isa_queue_depth authority
            then set_activity (''Prompt admitted to Omegon queue (depth '' @
                                 show_nat (isa_queue_depth authority) @ '')'') Waiting s
            else if rs_prompt_ingress_acknowledged s
            then set_activity ''Prompt ingress acknowledged; awaiting authoritative queue state'' Waiting s
            else s)
         else s)"

definition refresh_from_ipc_state :: "IpcStateSnapshot \<Rightarrow> 'v RemoteHostSession \<Rightarrow> bool \<times> 'v RemoteHostSession" where
  "refresh_from_ipc_state snap s =
     (let authority = project_ipc_session_authority snap
      in if ipc_snapshot_is_stale (rs_ipc_authority s) authority then (False, s)
         else (let s = (if generation_changed (rs_ipc_authority s) authority then forget_session s else s);
                   s = on_state_snapshot (project_ipc_state_snapshot snap (rs_dispatcher_binding s)) s;
                   s = s\<lparr>rs_run_active := isa_busy authority \<or> isa_active_turn authority \<noteq> None \<or>
                                           0 < isa_queue_depth authority\<rparr>;
                   s = ingress_activity authority s
               in (True, s\<lparr>rs_ipc_authority := Some authority\<rparr>)))"

section \<open>Messages\<close>

definition on_message_start :: "string \<Rightarrow> 'v RemoteHostSession \<Rightarrow> 'v RemoteHostSession" where
  "on_message_start role s = s\<lparr>rs_pending_role := Some (role_from_wire role), rs_pending_text := []\<rparr>"

text \<open>The block a delta rewrites: a text block with no notice kind and no origin but the dispatcher.\<close>

fun streaming_block :: "TurnBlock \<Rightarrow> bool" where
  "streaming_block (Text b) \<longleftrightarrow>
     at_notice_kind b = None \<and>
     (case at_origin b of None \<Rightarrow> True | Some origin \<Rightarrow> bo_kind origin = OriginKind.Dispatcher)"
| "streaming_block _ \<longleftrightarrow> False"

fun set_block_text :: "string \<Rightarrow> TurnBlock \<Rightarrow> TurnBlock" where
  "set_block_text txt (Text b) = Text (b\<lparr>at_text := txt\<rparr>)"
| "set_block_text txt b = b"

definition stream_text :: "string \<Rightarrow> TurnBlock list \<Rightarrow> TurnBlock list" where
  "stream_text txt blocks =
     (if blocks \<noteq> [] \<and> streaming_block (last blocks) then map_last (set_block_text txt) blocks
      else blocks @ [Text \<lparr>at_text = txt, at_origin = None, at_notice_kind = None\<rparr>])"

definition on_message_delta :: "string \<Rightarrow> 'v RemoteHostSession \<Rightarrow> 'v RemoteHostSession" where
  "on_message_delta txt s =
     (let pending = rs_pending_text s @ txt
      in s\<lparr>rs_pending_role := or_else (rs_pending_role s) (Some Assistant),
           rs_pending_text := pending,
           rs_transcript := on_blocks (stream_text (trim pending)) (rs_transcript s)\<rparr>)"

definition think :: "string \<Rightarrow> TurnBlock list \<Rightarrow> TurnBlock list" where
  "think txt blocks =
     (let fresh = blocks @ [Thinking \<lparr>tbt_text = txt, tbt_collapsed = True\<rparr>]
      in if blocks = [] then fresh
         else case last blocks of
                Thinking t \<Rightarrow> butlast blocks @ [Thinking (t\<lparr>tbt_text := tbt_text t @ txt\<rparr>)]
              | _ \<Rightarrow> fresh)"

definition on_thinking_delta :: "string \<Rightarrow> 'v RemoteHostSession \<Rightarrow> bool \<times> 'v RemoteHostSession" where
  "on_thinking_delta txt s =
     (td_turns (rs_transcript s) \<noteq> [],
      s\<lparr>rs_transcript := on_blocks (think txt) (rs_transcript s)\<rparr>)"

text \<open>The last block of the open turn, if there is one.\<close>

definition last_block :: "TranscriptData \<Rightarrow> TurnBlock option" where
  "last_block t =
     (if td_turns t = [] \<or> turn_blocks (last (td_turns t)) = [] then None
      else Some (last (turn_blocks (last (td_turns t)))))"

definition on_message_completed :: "'v RemoteHostSession \<Rightarrow> bool \<times> 'v RemoteHostSession" where
  "on_message_completed s =
     (case rs_pending_role s of
        None \<Rightarrow> (False, s)
      | Some role \<Rightarrow>
          (let txt = trim (rs_pending_text s);
               origin = dispatcher_origin (rs_dispatcher_binding s);
               s = push_chat_message role txt (s\<lparr>rs_pending_role := None\<rparr>);
               s = (case last_block (rs_transcript s) of
                      Some (Text b) \<Rightarrow>
                        s\<lparr>rs_transcript :=
                            on_blocks (\<lambda>bs. butlast bs @ [Text (b\<lparr>at_text := txt, at_origin := Some origin\<rparr>)])
                              (rs_transcript s)\<rparr>
                    | _ \<Rightarrow> push_text_block txt (Some origin) s)
           in (True, s\<lparr>rs_pending_text := []\<rparr>)))"

fun unattributed_text :: "TurnBlock \<Rightarrow> bool" where
  "unattributed_text (Text b) \<longleftrightarrow> at_origin b = None"
| "unattributed_text _ \<longleftrightarrow> False"

definition abort_block :: "string \<Rightarrow> TurnBlock list \<Rightarrow> TurnBlock list" where
  "abort_block aborted blocks =
     (if blocks \<noteq> [] \<and> unattributed_text (last blocks) then butlast blocks else blocks) @ [Aborted aborted]"

definition on_message_abort :: "'v RemoteHostSession \<Rightarrow> 'v RemoteHostSession" where
  "on_message_abort s =
     (let aborted = trim (rs_pending_text s);
          s = (if rs_pending_role s = Some Assistant
               then push_chat_message MessageRole.System (''Assistant message aborted: '' @ aborted) s
               else s)
      in set_activity ''Message aborted'' ActivityKind.Failure
           (s\<lparr>rs_pending_role := None,
              rs_transcript := on_blocks (abort_block aborted) (rs_transcript s),
              rs_pending_text := [], rs_run_active := False,
              rs_cancellation_ingress_acknowledged := False\<rparr>))"

section \<open>Session and turns\<close>

definition on_harness_status_changed ::
  "HarnessStatusSnapshot \<Rightarrow> 'v RemoteHostSession \<Rightarrow> 'v RemoteHostSession"
where
  "on_harness_status_changed status s =
     s\<lparr>rs_shell_state := fst (status_from_harness (Some status)),
       rs_scenario := snd (status_from_harness (Some status)),
       rs_summary := apply_harness_summary status (rs_summary s),
       rs_harness_snapshot := Some status\<rparr>"

definition on_plan_updated :: "'v plan_json \<Rightarrow> 'v \<Rightarrow> 'v RemoteHostSession \<Rightarrow> 'v RemoteHostSession" where
  "on_plan_updated js snapshot s =
     (let plan = plan_snapshot_data js snapshot; message = ''Plan updated: '' @ psd_summary plan
      in push_dispatcher_notice message Generic
           ((set_activity message ActivityKind.Running s)\<lparr>rs_latest_plan := Some plan\<rparr>))"

definition fail_pending_switch :: "DispatcherBindingSnapshot \<Rightarrow> DispatcherBindingSnapshot" where
  "fail_pending_switch b =
     b\<lparr>db_switch_state :=
         map_option (\<lambda>sw. if sw_status sw = ''pending''
                          then sw\<lparr>sw_status := ''failed'', sw_failure_code := Some ''conflict'',
                                  sw_note := Some ''Session reset during dispatcher switch''\<rparr>
                          else sw) (db_switch_state b)\<rparr>"

definition on_session_reset :: "'v RemoteHostSession \<Rightarrow> 'v RemoteHostSession" where
  "on_session_reset s =
     (let s = s\<lparr>rs_dispatcher_binding := map_option fail_pending_switch (rs_dispatcher_binding s),
                rs_messages := []\<rparr>;
          s = push_chat_message MessageRole.System
                ''Omegon reported a session reset. Auspex cleared the cached transcript and is waiting for fresh host events.'' s
      in (forget_session s)\<lparr>rs_run_active := False\<rparr>)"

definition on_turn_started :: "u32 \<Rightarrow> 'v RemoteHostSession \<Rightarrow> 'v RemoteHostSession" where
  "on_turn_started turn s =
     (set_activity (''Turn '' @ show_nat (unat turn) @ '' in progress'') ActivityKind.Running s)
       \<lparr>rs_transcript :=
          (rs_transcript s)\<lparr>td_active_turn := Some turn,
            td_turns := td_turns (rs_transcript s) @
              [\<lparr>turn_number = turn, turn_user_prompt = rs_pending_user_prompt s, turn_blocks = []\<rparr>]\<rparr>,
        rs_run_active := True, rs_prompt_ingress_acknowledged := False,
        rs_pending_user_prompt := None\<rparr>"

definition flush_pending :: "'v RemoteHostSession \<Rightarrow> 'v RemoteHostSession" where
  "flush_pending s =
     (if rs_pending_role s = None then s
      else (let aborted = trim (rs_pending_text s)
            in s\<lparr>rs_transcript := (if aborted = [] then rs_transcript s
                                   else on_blocks (abort_block aborted) (rs_transcript s)),
                 rs_pending_text := [], rs_pending_role := None\<rparr>))"

definition on_turn_ended :: "u32 \<Rightarrow> TurnUsage \<Rightarrow> 'v RemoteHostSession \<Rightarrow> 'v RemoteHostSession" where
  "on_turn_ended turn usage s =
     (let s = flush_pending s
      in (set_activity (''Turn '' @ show_nat (unat turn) @ '' completed'') ActivityKind.Completed s)
           \<lparr>rs_transcript := (rs_transcript s)\<lparr>td_active_turn := None\<rparr>,
            rs_run_active := False, rs_cancellation_ingress_acknowledged := False,
            rs_latest_turn_telemetry :=
              \<lparr>ltt_provider_telemetry = tu_provider_telemetry usage,
               ltt_estimated_tokens = tu_estimated_tokens usage,
               ltt_actual_input_tokens = tu_actual_input_tokens usage,
               ltt_actual_output_tokens = tu_actual_output_tokens usage,
               ltt_cache_read_tokens = tu_cache_read_tokens usage\<rparr>\<rparr>)"

section \<open>Tools\<close>

definition on_tool_started ::
  "'v plan_json \<Rightarrow> string \<Rightarrow> string \<Rightarrow> 'v option \<Rightarrow> 'v RemoteHostSession \<Rightarrow> 'v RemoteHostSession"
where
  "on_tool_started js tid name args s =
     (set_activity (''Running tool '' @ name) ActivityKind.Running s)
       \<lparr>rs_transcript :=
          on_blocks (\<lambda>bs. bs @ [TurnBlock.Tool
            \<lparr>tc_id = tid, tc_name = name, tc_args = unwrap_or (map_option (pj_to_string js) args) [],
             tc_partial_output = [], tc_result = None, tc_is_error = False,
             tc_origin = Some (dispatcher_origin (rs_dispatcher_binding s))\<rparr>]) (rs_transcript s)\<rparr>"

text \<open>Only a tool card that is the last block of the open turn is found by its id.\<close>

definition on_last_tool :: "string \<Rightarrow> (ToolCard \<Rightarrow> ToolCard) \<Rightarrow> TurnBlock list \<Rightarrow> TurnBlock list" where
  "on_last_tool tid f blocks =
     (if blocks = [] then blocks
      else case last blocks of
             TurnBlock.Tool tool \<Rightarrow>
               if tc_id tool = tid then butlast blocks @ [TurnBlock.Tool (f tool)] else blocks
           | _ \<Rightarrow> blocks)"

definition on_tool_updated :: "string \<Rightarrow> string option \<Rightarrow> 'v RemoteHostSession \<Rightarrow> 'v RemoteHostSession" where
  "on_tool_updated tid partial s =
     (case partial of
        None \<Rightarrow> s
      | Some partial \<Rightarrow>
          s\<lparr>rs_transcript :=
              on_blocks (on_last_tool tid (\<lambda>tool. tool\<lparr>tc_partial_output :=
                  (if tc_partial_output tool = [] then [] else tc_partial_output tool @ [CHR 0x0A]) @ partial\<rparr>))
                (rs_transcript s)\<rparr>)"

definition on_tool_ended ::
  "string \<Rightarrow> bool \<Rightarrow> string option \<Rightarrow> 'v RemoteHostSession \<Rightarrow> 'v RemoteHostSession"
where
  "on_tool_ended tid is_error result s =
     (set_activity (if is_error then ''Tool run completed with an error'' else ''Tool run completed'')
        (if is_error then ActivityKind.Failure else ActivityKind.Completed) s)
       \<lparr>rs_transcript :=
          on_blocks (on_last_tool tid (\<lambda>tool. tool\<lparr>tc_is_error := is_error, tc_result := result\<rparr>))
            (rs_transcript s)\<rparr>"

definition on_context_updated :: "u64 \<Rightarrow> u64 option \<Rightarrow> 'v RemoteHostSession \<Rightarrow> 'v RemoteHostSession" where
  "on_context_updated tokens window s =
     s\<lparr>rs_transcript := (rs_transcript s)\<lparr>td_context_tokens := Some tokens\<rparr>,
       rs_context_tokens := Some tokens,
       rs_context_window := or_else window (rs_context_window s)\<rparr>"

section \<open>Decomposition\<close>

definition on_decomposition_started :: "string list \<Rightarrow> 'v RemoteHostSession \<Rightarrow> 'v RemoteHostSession" where
  "on_decomposition_started children s =
     push_dispatcher_notice
       (''Dispatcher requested decomposition into '' @ show_nat (length children) @ '' child task(s)'')
       CleaveStart
       (set_activity (''Cleave started with '' @ show_nat (length children) @ '' child task(s)'')
          ActivityKind.Running s)"

definition on_child_completed :: "string \<Rightarrow> bool \<Rightarrow> 'v RemoteHostSession \<Rightarrow> 'v RemoteHostSession" where
  "on_child_completed label success s =
     push_system_notice
       (''Cleave child '' @ label @ (if success then '' completed successfully'' else '' failed''))
       (Some \<lparr>bo_kind = Child, bo_label = ''Child '' @ label\<rparr>)
       (if success then ChildStatus else SystemNoticeKind.Failure) s"

definition on_decomposition_completed :: "bool \<Rightarrow> 'v RemoteHostSession \<Rightarrow> 'v RemoteHostSession" where
  "on_decomposition_completed merged s =
     push_dispatcher_notice
       (if merged then ''Dispatcher completed decomposition and merged child results''
        else ''Dispatcher completed decomposition without merge'')
       CleaveComplete
       (set_activity (if merged then ''Cleave completed and merged'' else ''Cleave completed without merge'')
          ActivityKind.Completed s)"

section \<open>The reducer\<close>

fun apply_session_event ::
  "'v plan_json \<Rightarrow> 'v SessionEvent \<Rightarrow> 'v RemoteHostSession \<Rightarrow> bool \<times> 'v RemoteHostSession"
where
  "apply_session_event js (SessionEvent.StateSnapshot data) s = (True, on_state_snapshot data s)"
| "apply_session_event js (SessionEvent.MessageStart role) s = (True, on_message_start role s)"
| "apply_session_event js (SessionEvent.MessageDelta txt) s = (True, on_message_delta txt s)"
| "apply_session_event js (SessionEvent.ThinkingDelta txt) s = on_thinking_delta txt s"
| "apply_session_event js SessionEvent.MessageCompleted s = on_message_completed s"
| "apply_session_event js SessionEvent.MessageAbort s = (True, on_message_abort s)"
| "apply_session_event js (SessionEvent.SystemNotification message) s =
     (True, push_system_notice message (Some system_origin) Generic s)"
| "apply_session_event js (SessionEvent.HarnessStatusChanged status) s =
     (True, on_harness_status_changed status s)"
| "apply_session_event js (SessionEvent.PlanUpdated snapshot) s = (True, on_plan_updated js snapshot s)"
| "apply_session_event js SessionEvent.SessionReset s = (True, on_session_reset s)"
| "apply_session_event js (SessionEvent.TurnStarted turn) s = (True, on_turn_started turn s)"
| "apply_session_event js (SessionEvent.TurnEnded turn usage) s = (True, on_turn_ended turn usage s)"
| "apply_session_event js (SessionEvent.ToolStarted tid name args) s =
     (True, on_tool_started js tid name args s)"
| "apply_session_event js (SessionEvent.ToolUpdated tid partial) s = (True, on_tool_updated tid partial s)"
| "apply_session_event js (SessionEvent.ToolEnded tid name is_error result) s =
     (True, on_tool_ended tid is_error result s)"
| "apply_session_event js (SessionEvent.ContextUpdated tokens window class level) s =
     (True, on_context_updated tokens window s)"
| "apply_session_event js SessionEvent.AgentCompleted s =
     (True, set_activity ''Agent turn finished'' ActivityKind.Completed
        (s\<lparr>rs_run_active := False, rs_cancellation_ingress_acknowledged := False\<rparr>))"
| "apply_session_event js (SessionEvent.PhaseChanged phase) s =
     (True, set_activity (''Lifecycle phase: '' @ phase) ActivityKind.Running s)"
| "apply_session_event js (SessionEvent.DecompositionStarted children) s =
     (True, on_decomposition_started children s)"
| "apply_session_event js (SessionEvent.DecompositionChildCompleted label success) s =
     (True, on_child_completed label success s)"
| "apply_session_event js (SessionEvent.DecompositionCompleted merged) s =
     (True, on_decomposition_completed merged s)"
| "apply_session_event js SessionEvent.HarnessChanged s = (False, s)"
| "apply_session_event js (SessionEvent.StateChanged sections) s = (False, s)"
| "apply_session_event js (SessionEvent.StateReconciled snapshot) s = refresh_from_ipc_state snapshot s"

definition apply_event ::
  "'v plan_json \<Rightarrow> 'v OmegonEvent \<Rightarrow> 'v RemoteHostSession \<Rightarrow> bool \<times> 'v RemoteHostSession"
where
  "apply_event js event s = apply_session_event js (session_event_of_omegon event) s"

definition apply_snapshot ::
  "'v plan_json \<Rightarrow> 'v OmegonStateSnapshot \<Rightarrow> 'v RemoteHostSession \<Rightarrow> bool \<times> 'v RemoteHostSession"
where
  "apply_snapshot js snapshot s = apply_session_event js (SessionEvent.StateSnapshot snapshot) s"

definition apply_event_json ::
  "'v plan_json \<Rightarrow> (string \<Rightarrow> string + 'v OmegonEvent) \<Rightarrow> string \<Rightarrow> 'v RemoteHostSession \<Rightarrow>
   (string + bool) \<times> 'v RemoteHostSession"
where
  "apply_event_json js from_str json s =
     (case from_str json of
        Inl e \<Rightarrow> (Err e, s)
      | Inr event \<Rightarrow> (let (applied, s) = apply_event js event s in (Ok applied, s)))"

section \<open>The operator's side\<close>

datatype IpcCommandKind = PromptSubmit | TurnCancel
datatype IpcCommandOutcomeStatus = Accepted | Rejected | Failed string

definition report_ingress_failure ::
  "string \<Rightarrow> IpcCommandOutcomeStatus \<Rightarrow> 'v RemoteHostSession \<Rightarrow> 'v RemoteHostSession"
where
  "report_ingress_failure label status s =
     (let report = (\<lambda>detail.
            (let message = label @ '' ingress '' @ detail
             in push_system_notice message (Some system_origin) SystemNoticeKind.Failure
                  (set_activity message ActivityKind.Failure s)))
      in case status of
           Accepted \<Rightarrow> s
         | Rejected \<Rightarrow> report ''rejected by Omegon''
         | IpcCommandOutcomeStatus.Failed error \<Rightarrow> report (''failed: '' @ error))"

definition apply_ipc_command_outcome ::
  "IpcCommandKind \<Rightarrow> IpcCommandOutcomeStatus \<Rightarrow> 'v RemoteHostSession \<Rightarrow> bool \<times> 'v RemoteHostSession"
where
  "apply_ipc_command_outcome command status s =
     (case command of
        PromptSubmit \<Rightarrow>
          (case rs_pending_user_prompt s of
             None \<Rightarrow> (False, s)
           | Some prompt \<Rightarrow>
               (True,
                if status = Accepted
                then set_activity ''Prompt ingress acknowledged; awaiting authoritative queue state'' Waiting
                       (s\<lparr>rs_prompt_ingress_acknowledged := True\<rparr>)
                else report_ingress_failure ''Prompt'' status
                       (s\<lparr>rs_pending_user_prompt := None, rs_prompt_ingress_acknowledged := False,
                          rs_composer := (if cst_draft (rs_composer s) = []
                                          then set_draft prompt (rs_composer s) else rs_composer s)\<rparr>)))
      | TurnCancel \<Rightarrow>
          (True,
           if status = Accepted
           then (if rs_run_active s
                 then set_activity ''Cancellation acknowledged; awaiting authoritative turn termination'' Waiting
                        (s\<lparr>rs_cancellation_ingress_acknowledged := True\<rparr>)
                 else set_activity ''Cancellation acknowledged after authoritative turn termination''
                        ActivityKind.Completed (s\<lparr>rs_cancellation_ingress_acknowledged := False\<rparr>))
           else report_ingress_failure ''Cancellation'' status
                  (s\<lparr>rs_cancellation_ingress_acknowledged := False\<rparr>)))"

definition mark_ipc_disconnected :: "string \<Rightarrow> 'v RemoteHostSession \<Rightarrow> bool \<times> 'v RemoteHostSession" where
  "mark_ipc_disconnected error s =
     (True,
      push_system_notice (''Omegon IPC disconnected; work state is unchanged: '' @ error)
        (Some system_origin) SystemNoticeKind.Failure
        (s\<lparr>rs_summary := (rs_summary s)\<lparr>hss_connection := ''IPC disconnected; reconnecting''\<rparr>\<rparr>))"

definition refresh_provider_auth ::
  "ProviderStatusSnapshot list \<Rightarrow> 'v RemoteHostSession \<Rightarrow> 'v RemoteHostSession"
where
  "refresh_provider_auth providers s =
     on_harness_status_changed
       ((unwrap_or (rs_harness_snapshot s) default_harness)\<lparr>hs_providers := providers\<rparr>) s"

definition set_scenario :: "DevScenario \<Rightarrow> 'v RemoteHostSession \<Rightarrow> 'v RemoteHostSession" where
  "set_scenario scenario s =
     s\<lparr>rs_scenario := scenario,
       rs_shell_state :=
         (case scenario of
            DevScenario.Ready \<Rightarrow> ShellState.Ready
          | LocalDevQuiet \<Rightarrow> ShellState.Ready
          | HomelabFleet \<Rightarrow> ShellState.Ready
          | Booting \<Rightarrow> StartingOmegon
          | DevScenario.Degraded \<Rightarrow> ShellState.Degraded
          | LocalDevBusy \<Rightarrow> ShellState.Degraded
          | EnterpriseIncident \<Rightarrow> ShellState.Degraded
          | StartupFailure \<Rightarrow> ShellState.Failed
          | CompatibilityFailure \<Rightarrow> ShellState.Failed
          | DevScenario.Reconnecting \<Rightarrow> CompatibilityChecking)\<rparr>"

definition can_submit :: "'v RemoteHostSession \<Rightarrow> bool" where
  "can_submit s \<longleftrightarrow>
     \<not> rs_run_active s \<and> rs_pending_user_prompt s = None \<and>
     (rs_shell_state s = ShellState.Ready \<or> rs_shell_state s = ShellState.Degraded) \<and>
     harness_can_execute_prompts (rs_harness_snapshot s) (rs_instance_descriptor s)"

definition submit :: "'v RemoteHostSession \<Rightarrow> bool \<times> 'v RemoteHostSession" where
  "submit s =
     (if \<not> can_submit s then (False, s)
      else (let txt = trim (cst_draft (rs_composer s))
            in if txt = [] then (False, s)
               else (let s = push_chat_message User txt s;
                         s = s\<lparr>rs_pending_user_prompt := Some txt, rs_prompt_ingress_acknowledged := False\<rparr>;
                         s = set_activity ''Submitting prompt to Omegon remote session'' Waiting s
                     in (True, s\<lparr>rs_composer := clear_draft (rs_composer s)\<rparr>))))"

end
