(* ===== verification/Session_Props.thy ===== *)
theory Session_Props
  imports Session_Reducer
begin

text \<open>
  What the remote session guarantees over whole runs: its invariant, the order of the authoritative
  snapshots it accepts, how a streamed message becomes one block of the transcript, how a prompt
  travels from the composer to its turn or back, and how a dispatcher switch is confirmed.
\<close>

section \<open>Runs\<close>

text \<open>Everything that can happen to a session: an event, or a call of the shell.\<close>

datatype 'v session_input =
  Event "'v SessionEvent"
| Outcome IpcCommandKind IpcCommandOutcomeStatus
| Submit
| EditDraft string
| Switch string "string option"
| DispatchFailure string
| Disconnected string
| ProviderAuth "ProviderStatusSnapshot list"
| Scenario DevScenario

fun session_step :: "'v plan_json \<Rightarrow> 'v session_input \<Rightarrow> 'v RemoteHostSession \<Rightarrow> 'v RemoteHostSession" where
  "session_step js (Event e) s = snd (apply_session_event js e s)"
| "session_step js (Outcome command status) s = snd (apply_ipc_command_outcome command status s)"
| "session_step js Submit s = snd (submit s)"
| "session_step js (EditDraft txt) s = s\<lparr>rs_composer := set_draft txt (rs_composer s)\<rparr>"
| "session_step js (Switch profile model) s = snd (request_dispatcher_switch profile model s)"
| "session_step js (DispatchFailure txt) s = report_dispatch_failure txt s"
| "session_step js (Disconnected error) s = snd (mark_ipc_disconnected error s)"
| "session_step js (ProviderAuth providers) s = refresh_provider_auth providers s"
| "session_step js (Scenario scenario) s = set_scenario scenario s"

definition session_run :: "'v plan_json \<Rightarrow> 'v session_input list \<Rightarrow> 'v RemoteHostSession \<Rightarrow> 'v RemoteHostSession" where
  "session_run js inputs = fold (session_step js) inputs"

lemma session_run_simps [simp]:
  "session_run js [] s = s"
  "session_run js (i # is) s = session_run js is (session_step js i s)"
  by (simp_all add: session_run_def)

lemma session_run_append [simp]:
  "session_run js (is @ js') s = session_run js js' (session_run js is s)"
  by (simp add: session_run_def)

inductive session_reachable :: "'v plan_json \<Rightarrow> 'v RemoteHostSession \<Rightarrow> bool" for js where
  attached: "session_reachable js (from_snapshot snap)"
| moved: "session_reachable js s \<Longrightarrow> session_reachable js (session_step js i s)"

section \<open>Frames\<close>

lemma on_blocks_frame [simp]:
  "td_active_turn (on_blocks f t) = td_active_turn t"
  "td_context_tokens (on_blocks f t) = td_context_tokens t"
  "td_turns (on_blocks f t) = [] \<longleftrightarrow> td_turns t = []"
  "map turn_number (td_turns (on_blocks f t)) = map turn_number (td_turns t)"
  "map turn_user_prompt (td_turns (on_blocks f t)) = map turn_user_prompt (td_turns t)"
  by (simp_all add: on_blocks_def map_map_last)

lemma on_blocks_last_number [simp]:
  "turn_number (last (td_turns (on_blocks f t))) = turn_number (last (td_turns t))"
  by (cases "td_turns t = []") (simp_all add: on_blocks_def last_map_last)

lemma on_blocks_comp: "on_blocks f (on_blocks g t) = on_blocks (f \<circ> g) t"
  by (simp add: on_blocks_def map_last_comp comp_def)

lemma on_blocks_cong:
  "td_turns t = [] \<or> f (turn_blocks (last (td_turns t))) = g (turn_blocks (last (td_turns t))) \<Longrightarrow>
     on_blocks f t = on_blocks g t"
  by (auto simp: on_blocks_def map_last_def)

lemma switch_notice_frame [simp]:
  assumes "append_dispatcher_switch_transition_notice p n (ms, t) = (ms', t')"
  shows "td_active_turn t' = td_active_turn t" "td_context_tokens t' = td_context_tokens t"
    "td_turns t' = [] \<longleftrightarrow> td_turns t = []"
    "turn_number (last (td_turns t')) = turn_number (last (td_turns t))"
    "ms \<noteq> [] \<Longrightarrow> ms' \<noteq> []"
  using assms
  by (auto simp: append_dispatcher_switch_transition_notice_def push_system_notice_to_buffers_def Let_def
      split: if_splits option.splits)

lemma switch_notice_last [simp]:
  "turn_number (last (td_turns (snd (append_dispatcher_switch_transition_notice p n b)))) =
     turn_number (last (td_turns (snd b)))"
  "td_turns (snd (append_dispatcher_switch_transition_notice p n b)) = [] \<longleftrightarrow> td_turns (snd b) = []"
  "td_active_turn (snd (append_dispatcher_switch_transition_notice p n b)) = td_active_turn (snd b)"
  "fst b \<noteq> [] \<Longrightarrow> fst (append_dispatcher_switch_transition_notice p n b) \<noteq> []"
  using switch_notice_frame [of p n "fst b" "snd b"]
  by (metis prod.collapse)+

section \<open>The invariant\<close>

text \<open>
  No text is pending without a role; the active turn is the last turn; the transcript shows the
  context size of the session; a prompt is acknowledged only while it is pending and a cancellation
  only while a run is active; the chat is never empty.
\<close>

definition session_inv :: "'v RemoteHostSession \<Rightarrow> bool" where
  "session_inv s \<longleftrightarrow>
     (rs_pending_role s = None \<longrightarrow> rs_pending_text s = []) \<and>
     (\<forall>n. td_active_turn (rs_transcript s) = Some n \<longrightarrow>
        td_turns (rs_transcript s) \<noteq> [] \<and> turn_number (last (td_turns (rs_transcript s))) = n) \<and>
     td_context_tokens (rs_transcript s) = rs_context_tokens s \<and>
     (rs_prompt_ingress_acknowledged s \<longrightarrow> rs_pending_user_prompt s \<noteq> None) \<and>
     (rs_cancellation_ingress_acknowledged s \<longrightarrow> rs_run_active s) \<and>
     rs_messages s \<noteq> []"

lemma inv_from_snapshot: "session_inv (from_snapshot snap)"
  by (simp add: session_inv_def from_snapshot_def empty_transcript_def Let_def)

text \<open>Fields the invariant does not mention.\<close>

lemma inv_frame [simp]:
  "session_inv (s\<lparr>rs_summary := a\<rparr>) \<longleftrightarrow> session_inv s"
  "session_inv (s\<lparr>rs_shell_state := b\<rparr>) \<longleftrightarrow> session_inv s"
  "session_inv (s\<lparr>rs_scenario := c\<rparr>) \<longleftrightarrow> session_inv s"
  "session_inv (s\<lparr>rs_composer := d\<rparr>) \<longleftrightarrow> session_inv s"
  "session_inv (s\<lparr>rs_dispatcher_binding := e\<rparr>) \<longleftrightarrow> session_inv s"
  "session_inv (s\<lparr>rs_next_dispatcher_request_id := n\<rparr>) \<longleftrightarrow> session_inv s"
  "session_inv (s\<lparr>rs_harness_snapshot := h\<rparr>) \<longleftrightarrow> session_inv s"
  "session_inv (s\<lparr>rs_latest_plan := p\<rparr>) \<longleftrightarrow> session_inv s"
  by (simp_all add: session_inv_def)

lemma inv_set_activity [simp]: "session_inv (set_activity txt kind s) \<longleftrightarrow> session_inv s"
  by (simp add: set_activity_def)

lemma inv_notice: "session_inv s \<Longrightarrow> session_inv (push_system_notice txt origin kind s)"
  by (simp add: session_inv_def push_system_notice_def push_chat_message_def)

lemma inv_dispatcher_notice: "session_inv s \<Longrightarrow> session_inv (push_dispatcher_notice txt kind s)"
  by (simp add: push_dispatcher_notice_def inv_notice)

lemma inv_blocks: "session_inv s \<Longrightarrow> session_inv (s\<lparr>rs_transcript := on_blocks f (rs_transcript s)\<rparr>)"
  by (simp add: session_inv_def)

lemma inv_snapshot: "session_inv s \<Longrightarrow> session_inv (on_state_snapshot data s)"
  by (simp add: session_inv_def on_state_snapshot_def Let_def)

lemma inv_refresh:
  assumes "session_inv s"
  shows "session_inv (snd (refresh_from_ipc_state snap s))"
proof -
  have forget: "session_inv (forget_session s)" if "session_inv s" for s :: "'a RemoteHostSession"
    using that by (simp add: session_inv_def forget_session_def)
  have ingress: "session_inv ((ingress_activity a (s\<lparr>rs_run_active := b\<rparr>))\<lparr>rs_ipc_authority := Some a\<rparr>)"
    if "session_inv s" "isa_busy a \<or> isa_active_turn a \<noteq> None \<Longrightarrow> b" for a b and s :: "'a RemoteHostSession"
    using that by (auto simp: session_inv_def ingress_activity_def set_activity_def Let_def)
  show ?thesis
    using assms by (auto simp: refresh_from_ipc_state_def Let_def intro!: ingress inv_snapshot forget)
qed

lemma inv_event:
  assumes "session_inv s"
  shows "session_inv (snd (apply_session_event js e s))"
proof (cases e)
  case (StateSnapshot data)
  with assms show ?thesis by (simp add: inv_snapshot)
next
  case (StateReconciled snap)
  with assms show ?thesis by (simp add: inv_refresh)
next
  case MessageCompleted
  with assms show ?thesis
    by (auto simp: session_inv_def on_message_completed_def push_chat_message_def push_text_block_def Let_def
        split: option.splits TurnBlock.splits)
next
  case (MessageDelta d)
  with assms show ?thesis
    by (cases "rs_pending_role s") (auto simp: session_inv_def on_message_delta_def Let_def)
next
  case MessageAbort
  with assms show ?thesis
    by (simp add: on_message_abort_def Let_def) (auto simp: session_inv_def push_chat_message_def)
next
  case (PlanUpdated p)
  with assms show ?thesis
    by (simp add: on_plan_updated_def Let_def inv_dispatcher_notice)
next
  case (TurnEnded n u)
  with assms show ?thesis
    by (simp add: on_turn_ended_def flush_pending_def set_activity_def Let_def) (simp add: session_inv_def)
next
  case (ToolStarted tid name args)
  then show ?thesis using inv_blocks [OF iffD2 [OF inv_set_activity assms]]
    by (simp add: on_tool_started_def set_activity_def)
next
  case (ToolUpdated tid p)
  then show ?thesis using assms by (cases p) (simp_all add: on_tool_updated_def inv_blocks)
next
  case (ToolEnded tid name err res)
  with assms show ?thesis by (simp add: on_tool_ended_def set_activity_def session_inv_def)
next
  case (MessageStart role)
  with assms show ?thesis by (simp add: on_message_start_def session_inv_def)
next
  case SessionReset
  with assms show ?thesis
    by (simp add: on_session_reset_def forget_session_def push_chat_message_def session_inv_def Let_def)
next
  case (TurnStarted n)
  with assms show ?thesis by (simp add: on_turn_started_def set_activity_def session_inv_def)
next
  case (ContextUpdated n w c l)
  with assms show ?thesis by (simp add: on_context_updated_def session_inv_def)
next
  case AgentCompleted
  with assms show ?thesis by (simp add: set_activity_def session_inv_def)
qed (use assms in \<open>simp_all add: on_thinking_delta_def inv_blocks inv_notice inv_dispatcher_notice
      on_harness_status_changed_def on_decomposition_started_def on_child_completed_def
      on_decomposition_completed_def\<close>)

lemma inv_outcome: "session_inv s \<Longrightarrow> session_inv (snd (apply_ipc_command_outcome command status s))"
  by (cases status; cases command)
    (auto simp: apply_ipc_command_outcome_def report_ingress_failure_def session_inv_def set_activity_def
      push_system_notice_def push_chat_message_def Let_def split: option.split)

lemma inv_submit: "session_inv s \<Longrightarrow> session_inv (snd (submit s))"
  by (simp add: submit_def session_inv_def set_activity_def push_chat_message_def Let_def)

lemma inv_switch:
  assumes "session_inv s"
  shows "session_inv (snd (request_dispatcher_switch profile model s))"
proof (cases "rs_dispatcher_binding s")
  case None
  with assms show ?thesis by (simp add: request_dispatcher_switch_def)
next
  case (Some d)
  have "session_inv (noop_switch d profile model s)"
    using assms by (simp add: noop_switch_def Let_def inv_notice)
  moreover have "session_inv (superseded_notice d s)" if "session_inv s" for s :: "'a RemoteHostSession"
    using that by (simp add: superseded_notice_def inv_notice split: option.split)
  then have "session_inv (snd (issue_switch d profile model s))"
    using assms
    by (simp add: issue_switch_def allocate_dispatcher_request_id_def Let_def inv_notice)
  ultimately show ?thesis
    by (simp add: Some request_dispatcher_switch_def split: prod.split) (metis snd_conv)
qed

lemma inv_step: "session_inv s \<Longrightarrow> session_inv (session_step js i s)"
  by (cases i) (simp_all add: inv_event inv_outcome inv_submit inv_switch report_dispatch_failure_def
      inv_dispatcher_notice refresh_provider_auth_def on_harness_status_changed_def set_scenario_def
      mark_ipc_disconnected_def inv_notice)

lemma session_run_reachable: "session_reachable js s \<Longrightarrow> session_reachable js (session_run js is s)"
  by (induction "is" arbitrary: s) (auto intro: session_reachable.moved)

text \<open>C18: In every state a remote session can reach, from any first snapshot through any
  interleaving of events, command outcomes and operator actions: text is pending only for a started
  message, the active turn is the last turn of the transcript, the transcript shows the context size
  of the session, a prompt counts as acknowledged only while it is pending, a cancellation only while
  a run is active, and the chat is never empty.\<close>

theorem reachable_session_is_consistent:
  assumes "session_reachable js s"
  shows "session_inv s"
  using assms
proof induction
  case (attached snap)
  show ?case by (rule inv_from_snapshot)
next
  case (moved s i)
  from moved.IH show ?case by (rule inv_step)
qed

section \<open>The order of authoritative snapshots\<close>

text \<open>
  The progress an authority record carries: the session generation first, and within one generation
  the projection frontier and the context revision.  \<open>None\<close> is below every number.
\<close>

definition counter_le :: "u64 option \<Rightarrow> u64 option \<Rightarrow> bool" where
  "counter_le a b = (case a of None \<Rightarrow> True | Some x \<Rightarrow> (case b of None \<Rightarrow> False | Some y \<Rightarrow> x \<le> y))"

definition progress_le :: "IpcSessionAuthorityData \<Rightarrow> IpcSessionAuthorityData \<Rightarrow> bool" where
  "progress_le a b \<longleftrightarrow>
     counter_le (isa_session_generation a) (isa_session_generation b) \<and>
     (isa_session_generation a = isa_session_generation b \<longrightarrow>
        counter_le (isa_projection_frontier a) (isa_projection_frontier b) \<and>
        counter_le (isa_context_revision a) (isa_context_revision b))"

lemma counter_le_refl: "counter_le a a"
  by (cases a) (simp_all add: counter_le_def)

lemma counter_le_trans: "counter_le a b \<Longrightarrow> counter_le b c \<Longrightarrow> counter_le a c"
  by (auto simp: counter_le_def split: option.splits)

lemma counter_le_antisym: "counter_le a b \<Longrightarrow> counter_le b a \<Longrightarrow> a = b"
  by (auto simp: counter_le_def split: option.splits)

lemma progress_le_refl: "progress_le a a"
  by (simp add: progress_le_def counter_le_refl)

lemma progress_le_trans:
  assumes "progress_le a b" and "progress_le b c"
  shows "progress_le a c"
proof -
  have "isa_session_generation b = isa_session_generation a" if "isa_session_generation a = isa_session_generation c"
    using assms that counter_le_antisym by (auto simp: progress_le_def)
  with assms show ?thesis by (auto simp: progress_le_def intro: counter_le_trans)
qed

lemma regresses_iff: "optional_counter_regresses a b \<longleftrightarrow> \<not> counter_le a b"
  by (auto simp: optional_counter_regresses_def counter_le_def not_le split: option.splits)

lemma not_stale_iff:
  assumes "isa_server_instance_id a = isa_server_instance_id b"
  shows "\<not> ipc_snapshot_is_stale (Some a) b \<longleftrightarrow> progress_le a b"
proof -
  have "(case (isa_session_generation a, isa_session_generation b) of
           (Some _, None) \<Rightarrow> True | (Some c, Some i) \<Rightarrow> i < c | _ \<Rightarrow> False) \<longleftrightarrow>
        \<not> counter_le (isa_session_generation a) (isa_session_generation b)"
    by (auto simp: counter_le_def not_le split: option.splits)
  with assms show ?thesis
    by (auto simp: ipc_snapshot_is_stale_def regresses_iff progress_le_def)
qed

text \<open>Only an IPC snapshot moves the authority of a session.\<close>

lemma authority_frame [simp]:
  "rs_ipc_authority (set_activity txt kind s) = rs_ipc_authority s"
  "rs_ipc_authority (push_chat_message role txt s) = rs_ipc_authority s"
  "rs_ipc_authority (push_system_notice txt origin notice s) = rs_ipc_authority s"
  "rs_ipc_authority (push_dispatcher_notice txt notice s) = rs_ipc_authority s"
  "rs_ipc_authority (push_text_block txt origin s) = rs_ipc_authority s"
  "rs_ipc_authority (on_state_snapshot data s) = rs_ipc_authority s"
  "rs_ipc_authority (flush_pending s) = rs_ipc_authority s"
  "rs_ipc_authority (superseded_notice d s) = rs_ipc_authority s"
  by (simp_all add: set_activity_def push_chat_message_def push_system_notice_def push_dispatcher_notice_def
      push_text_block_def on_state_snapshot_def flush_pending_def superseded_notice_def Let_def
      split: option.split)

lemma authority_event:
  assumes "\<And>snap. e \<noteq> SessionEvent.StateReconciled snap"
  shows "rs_ipc_authority (snd (apply_session_event js e s)) = rs_ipc_authority s"
proof (cases e)
  case (StateReconciled snap)
  with assms show ?thesis by blast
qed (simp_all add: on_message_start_def on_message_delta_def on_thinking_delta_def
      on_message_completed_def on_message_abort_def on_harness_status_changed_def on_plan_updated_def
      on_session_reset_def forget_session_def on_turn_started_def on_turn_ended_def on_tool_started_def
      on_tool_updated_def on_tool_ended_def on_context_updated_def on_decomposition_started_def
      on_child_completed_def on_decomposition_completed_def Let_def
      split: option.split TurnBlock.split)

lemma authority_step:
  assumes "\<And>snap. i \<noteq> Event (SessionEvent.StateReconciled snap)"
  shows "rs_ipc_authority (session_step js i s) = rs_ipc_authority s"
proof (cases i)
  case (Event e)
  with assms show ?thesis by (simp add: authority_event)
qed (simp_all add: apply_ipc_command_outcome_def report_ingress_failure_def submit_def
      request_dispatcher_switch_def noop_switch_def issue_switch_def allocate_dispatcher_request_id_def
      report_dispatch_failure_def mark_ipc_disconnected_def refresh_provider_auth_def
      on_harness_status_changed_def set_scenario_def Let_def
      split: IpcCommandKind.split option.split IpcCommandOutcomeStatus.split)

lemma authority_server [simp]:
  "isa_server_instance_id (project_ipc_session_authority snap) = ipc_server_instance_id (iss_control_plane snap)"
  by (simp add: project_ipc_session_authority_def Let_def)

lemma refresh_progress:
  assumes "rs_ipc_authority s = Some a" and "isa_server_instance_id a = server"
    and "ipc_server_instance_id (iss_control_plane snap) = server"
  shows "\<exists>b. rs_ipc_authority (snd (refresh_from_ipc_state snap s)) = Some b \<and>
             isa_server_instance_id b = server \<and> progress_le a b"
proof (cases "ipc_snapshot_is_stale (Some a) (project_ipc_session_authority snap)")
  case True
  with assms show ?thesis by (simp add: refresh_from_ipc_state_def Let_def progress_le_refl)
next
  case False
  let ?b = "project_ipc_session_authority snap"
  from False assms(2,3) have "progress_le a ?b" by (simp add: not_stale_iff)
  moreover have "rs_ipc_authority (snd (refresh_from_ipc_state snap s)) = Some ?b"
    using False assms(1) by (simp add: refresh_from_ipc_state_def Let_def)
  ultimately show ?thesis using assms(3) by auto
qed

text \<open>The server instance behind a reconciliation, if the input is one.\<close>

fun reconciles_with :: "'v session_input \<Rightarrow> string option" where
  "reconciles_with (Event (SessionEvent.StateReconciled snap)) =
     Some (ipc_server_instance_id (iss_control_plane snap))"
| "reconciles_with _ = None"

lemma run_progress:
  assumes "rs_ipc_authority s = Some a"
    and "\<forall>i \<in> set inputs. reconciles_with i \<in> {None, Some (isa_server_instance_id a)}"
  shows "\<exists>b. rs_ipc_authority (session_run js inputs s) = Some b \<and>
             isa_server_instance_id b = isa_server_instance_id a \<and> progress_le a b"
  using assms
proof (induction inputs arbitrary: s a)
  case Nil
  then show ?case by (simp add: progress_le_refl)
next
  case (Cons i "is")
  obtain b where b: "rs_ipc_authority (session_step js i s) = Some b"
    "isa_server_instance_id b = isa_server_instance_id a" "progress_le a b"
  proof (cases "reconciles_with i")
    case None
    then have "i \<noteq> Event (SessionEvent.StateReconciled snap)" for snap by auto
    with Cons.prems(1) that progress_le_refl show thesis by (simp add: authority_step)
  next
    case (Some server)
    then obtain snap where "i = Event (SessionEvent.StateReconciled snap)"
      "ipc_server_instance_id (iss_control_plane snap) = server"
      by (cases i rule: reconciles_with.cases) auto
    with refresh_progress [OF Cons.prems(1) refl, of snap] Cons.prems(2) Some that show thesis by auto
  qed
  with Cons.IH [of "session_step js i s" b] Cons.prems(2) progress_le_trans [OF b(3)]
  show ?case by force
qed

text \<open>C19: While a session talks to one Omegon server, its authoritative state never goes back:
  whatever happens, the generation, and within a generation the projection frontier and the context
  revision, of the authority it holds only grow; and an IPC snapshot that would take one of them back
  is refused and changes nothing.\<close>

theorem authority_never_goes_back:
  assumes "rs_ipc_authority s = Some a"
    and "\<forall>i \<in> set inputs. reconciles_with i \<in> {None, Some (isa_server_instance_id a)}"
  shows "(\<exists>b. rs_ipc_authority (session_run js inputs s) = Some b \<and>
              isa_server_instance_id b = isa_server_instance_id a \<and> progress_le a b) \<and>
         (\<forall>snap. ipc_server_instance_id (iss_control_plane snap) = isa_server_instance_id a \<and>
                 \<not> progress_le a (project_ipc_session_authority snap) \<longrightarrow>
            refresh_from_ipc_state snap s = (False, s))"
proof -
  have "refresh_from_ipc_state snap s = (False, s)"
    if "ipc_server_instance_id (iss_control_plane snap) = isa_server_instance_id a"
      "\<not> progress_le a (project_ipc_session_authority snap)" for snap
    using that not_stale_iff [of a "project_ipc_session_authority snap"] assms(1)
    by (simp add: refresh_from_ipc_state_def Let_def)
  with run_progress [OF assms] show ?thesis by blast
qed

section \<open>Sample data\<close>

definition demo_plan_json :: "nat plan_json" where
  "demo_plan_json =
     \<lparr>pj_get = \<lambda>_ _. None, pj_as_str = \<lambda>_. None, pj_as_array = \<lambda>_. None,
      pj_to_string = show_nat, pj_to_string_pretty = \<lambda>v. Some (show_nat v)\<rparr>"

definition demo_binding :: DispatcherBindingSnapshot where
  "demo_binding =
     \<lparr>db_session_id = ''s1'', db_dispatcher_instance_id = ''omg-1'', db_expected_role = [],
      db_expected_profile = ''primary'', db_expected_model = Some ''m1'', db_control_plane_schema = 2,
      db_token_ref = None, db_observed_base_url = None, db_last_verified_at = None,
      db_instance_descriptor = None, db_available_options = [], db_switch_state = None\<rparr>"

definition demo_snapshot :: "nat OmegonStateSnapshot" where
  "demo_snapshot =
     \<lparr>snap_design = \<lparr>ds_focused = None, ds_implementing = [], ds_actionable = [], ds_all_nodes = [],
                     ds_counts = []\<rparr>,
      snap_openspec = \<lparr>os_total_tasks = 0, os_done_tasks = 0\<rparr>,
      snap_cleave = \<lparr>cl_active = False, cl_total_children = 0, cl_completed = 0, cl_failed = 0\<rparr>,
      snap_session = \<lparr>ss_turns = 0, ss_tool_calls = 0, ss_compactions = 0\<rparr>,
      snap_harness = None, snap_dispatcher = Some demo_binding, snap_instance_descriptor = None,
      snap_initialize_metadata = None, snap_extension_metadata = None, snap_operational_profile = None\<rparr>"

definition demo_session :: "nat RemoteHostSession" where
  "demo_session = from_snapshot demo_snapshot"

definition demo_ipc :: "u64 \<Rightarrow> IpcStateSnapshot" where
  "demo_ipc frontier =
     \<lparr>iss_identity = \<lparr>ipi_instance_id = ''omg-1'', ipi_workspace_id = [], ipi_session_id = [],
                      ipi_role = OmegonRole.PrimaryDriver, ipi_profile = ''primary''\<rparr>,
      iss_placement = \<lparr>ipp_cwd = ''/repo'', ipp_host = None, ipp_pid = None, ipp_namespace = None,
                       ipp_pod_name = None, ipp_container_name = None\<rparr>,
      iss_control_plane = \<lparr>ipc_schema_version = 2, ipc_protocol_version = 1, ipc_capabilities = [],
                           ipc_server_instance_id = ''srv'', ipc_omegon_version = ''0.16.0'',
                           ipc_http_base = None, ipc_startup_url = None, ipc_state_url = None,
                           ipc_ws_url = None, ipc_auth_mode = None, ipc_ipc_socket_path = None\<rparr>,
      iss_runtime = \<lparr>ipr_deployment_kind = InteractiveTui, ipr_health = OmegonRuntimeHealth.Ready,
                     ipr_provider_ok = True, ipr_memory_ok = True, ipr_cleave_available = True,
                     ipr_context_class = None, ipr_thinking_level = None, ipr_capability_tier = None,
                     ipr_runtime_profile = ''primary-interactive'', ipr_autonomy_mode = None\<rparr>,
      iss_session = \<lparr>ips_git_branch = None, ips_git_detached = False, ips_turns = 0, ips_tool_calls = 0,
                     ips_compactions = 0, ips_session_id = None, ips_session_generation = Some 1,
                     ips_stream_id = None, ips_projection_status = None,
                     ips_projection_frontier = Some frontier, ips_context_revision = None,
                     ips_queue_depth = 0, ips_active_turn = None, ips_busy = False\<rparr>,
      iss_harness = \<lparr>iph_thinking_level = [], iph_capability_tier = [], iph_providers = [],
                     iph_memory_available = True, iph_cleave_available = True, iph_memory_warning = None,
                     iph_active_delegate_count = 0, iph_active_persona = None\<rparr>,
      iss_health = IpcHealthState.Ready,
      iss_design_tree = \<lparr>idt_focused = None, idt_implementing = [], idt_actionable = [], idt_nodes = [],
                         idt_counts = \<lparr>idc_total = 0, idc_seed = 0, idc_exploring = 0, idc_resolved = 0,
                                       idc_decided = 0, idc_implementing = 0, idc_implemented = 0,
                                       idc_blocked = 0, idc_deferred = 0, idc_open_questions = 0\<rparr>\<rparr>,
      iss_openspec = \<lparr>os_total_tasks = 0, os_done_tasks = 0\<rparr>,
      iss_cleave = \<lparr>cl_active = False, cl_total_children = 0, cl_completed = 0, cl_failed = 0\<rparr>\<rparr>"

theorem reachable_session_is_consistent_witness:
  "session_inv (session_run demo_plan_json
     [Event (SessionEvent.TurnStarted 1), Event (SessionEvent.MessageDelta ''hi''),
      Outcome TurnCancel Accepted, Event (SessionEvent.StateReconciled (demo_ipc 4))] demo_session)"
proof (rule reachable_session_is_consistent)
  show "session_reachable demo_plan_json (session_run demo_plan_json
     [Event (SessionEvent.TurnStarted 1), Event (SessionEvent.MessageDelta ''hi''),
      Outcome TurnCancel Accepted, Event (SessionEvent.StateReconciled (demo_ipc 4))] demo_session)"
    by (rule session_run_reachable) (simp add: demo_session_def session_reachable.attached)
qed

theorem authority_never_goes_back_witness:
  "\<exists>b. rs_ipc_authority (session_run demo_plan_json [Event (SessionEvent.StateReconciled (demo_ipc 7))]
          (demo_session\<lparr>rs_ipc_authority := Some (project_ipc_session_authority (demo_ipc 4))\<rparr>)) = Some b \<and>
       progress_le (project_ipc_session_authority (demo_ipc 4)) b"
proof -
  let ?a = "project_ipc_session_authority (demo_ipc 4)"
  let ?s = "demo_session\<lparr>rs_ipc_authority := Some ?a\<rparr>"
  let ?is = "[Event (SessionEvent.StateReconciled (demo_ipc 7))]"
  have "rs_ipc_authority ?s = Some ?a" by simp
  moreover have "\<forall>i \<in> set ?is. reconciles_with i \<in> {None, Some (isa_server_instance_id ?a)}"
    by (simp add: demo_ipc_def)
  ultimately show ?thesis
    using authority_never_goes_back [of ?s ?a ?is demo_plan_json] by blast
qed

end
