(* ===== verification/Session_Flows.thy ===== *)
theory Session_Flows
  imports Session_Props
begin

text \<open>
  Sequences of events a session sees in practice: a streamed message, tools that run one after the
  other or interleaved, a prompt on its way to Omegon, and a dispatcher switch.
\<close>

section \<open>Streamed messages\<close>

text \<open>The events of one message: its start, its deltas and its completion.\<close>

definition message_events :: "string \<Rightarrow> string list \<Rightarrow> 'v session_input list" where
  "message_events role ds =
     Event (SessionEvent.MessageStart role) # map (\<lambda>d. Event (SessionEvent.MessageDelta d)) ds @
     [Event SessionEvent.MessageCompleted]"

definition open_blocks :: "'v RemoteHostSession \<Rightarrow> TurnBlock list" where
  "open_blocks s = turn_blocks (last (td_turns (rs_transcript s)))"

lemma open_blocks_on_blocks [simp]:
  "td_turns (rs_transcript s) \<noteq> [] \<Longrightarrow>
     turn_blocks (last (td_turns (on_blocks f (rs_transcript s)))) = f (open_blocks s)"
  by (simp add: open_blocks_def on_blocks_def last_map_last)

lemma stream_text_last: "streaming_block (last (stream_text txt bs)) \<and> stream_text txt bs \<noteq> []"
proof (cases "bs \<noteq> [] \<and> streaming_block (last bs)")
  case True
  then obtain b where "last bs = Text b" by (cases "last bs") auto
  with True show ?thesis by (simp add: stream_text_def last_map_last)
qed (auto simp: stream_text_def)

text \<open>Each delta rewrites the block of the message, so only the last text stays.\<close>

lemma stream_text_twice [simp]: "stream_text t2 (stream_text t1 bs) = stream_text t2 bs"
proof (cases "bs \<noteq> [] \<and> streaming_block (last bs)")
  case True
  then obtain b where b: "last bs = Text b" "streaming_block (Text b)" by (cases "last bs") auto
  then have "stream_text t1 bs = butlast bs @ [Text (b\<lparr>at_text := t1\<rparr>)]"
    "stream_text t2 bs = butlast bs @ [Text (b\<lparr>at_text := t2\<rparr>)]"
    using True by (simp_all add: stream_text_def map_last_def)
  with b show ?thesis by (simp add: stream_text_def)
qed (auto simp: stream_text_def)

lemma on_message_delta_twice:
  "on_message_delta d2 (on_message_delta d1 s) = on_message_delta (d1 @ d2) s"
  by (cases "rs_pending_role s") (simp_all add: on_message_delta_def Let_def on_blocks_comp comp_def)

lemma deltas_run:
  "session_run js (map (\<lambda>d. Event (SessionEvent.MessageDelta d)) (d # ds)) s = on_message_delta (concat (d # ds)) s"
  by (induction ds arbitrary: d s) (simp_all add: on_message_delta_twice)

lemma stream_text_fresh: "bs = [] \<or> \<not> streaming_block (last bs) \<Longrightarrow> butlast (stream_text txt bs) = bs"
  by (auto simp: stream_text_def)

definition attributed :: "'v RemoteHostSession \<Rightarrow> string \<Rightarrow> TurnBlock" where
  "attributed s txt =
     Text \<lparr>at_text = txt, at_origin = Some (dispatcher_origin (rs_dispatcher_binding s)), at_notice_kind = None\<rparr>"

lemma message_run:
  assumes "td_turns (rs_transcript s) \<noteq> []" and "ds \<noteq> []"
  shows "rs_messages (session_run js (message_events role ds) s) =
           rs_messages s @ [\<lparr>cm_role = role_from_wire role, cm_text = trim (concat ds)\<rparr>]"
    and "open_blocks (session_run js (message_events role ds) s) =
           butlast (stream_text (trim (concat ds)) (open_blocks s)) @ [attributed s (trim (concat ds))]"
    and "rs_pending_role (session_run js (message_events role ds) s) = None"
proof -
  let ?s = "on_message_delta (concat ds) (on_message_start role s)"
  have run: "session_run js (message_events role ds) s = snd (on_message_completed ?s)"
    using assms(2) deltas_run [of js "hd ds" "tl ds"] by (simp add: message_events_def)
  let ?bs = "stream_text (trim (concat ds)) (open_blocks s)"
  have turns: "td_turns (rs_transcript ?s) \<noteq> []"
    and blocks: "turn_blocks (last (td_turns (rs_transcript ?s))) = ?bs"
    using assms(1) by (simp_all add: on_message_delta_def on_message_start_def Let_def)
  from stream_text_last [of "trim (concat ds)" "open_blocks s"] obtain b
    where b: "last ?bs = Text b" "at_notice_kind b = None" and "?bs \<noteq> []"
    by (cases "last ?bs") auto
  with turns blocks have last: "last_block (rs_transcript ?s) = Some (Text b)"
    by (simp add: last_block_def)
  have "rs_pending_role ?s = Some (role_from_wire role)" "rs_pending_text ?s = concat ds"
    "rs_messages ?s = rs_messages s" "rs_dispatcher_binding ?s = rs_dispatcher_binding s"
    by (simp_all add: on_message_delta_def on_message_start_def Let_def)
  with run last turns blocks b(2)
  show "rs_messages (session_run js (message_events role ds) s) =
           rs_messages s @ [\<lparr>cm_role = role_from_wire role, cm_text = trim (concat ds)\<rparr>]"
    and "open_blocks (session_run js (message_events role ds) s) =
           butlast ?bs @ [attributed s (trim (concat ds))]"
    and "rs_pending_role (session_run js (message_events role ds) s) = None"
    by (simp_all add: on_message_completed_def push_chat_message_def attributed_def Let_def open_blocks_def
        on_blocks_def last_map_last)
qed

text \<open>A message that arrives in an open turn as a start, any number of deltas and a completion
  becomes exactly one chat message and exactly one block of the turn, both with the trimmed text of
  all deltas together, the block attributed to the dispatcher, provided the block before it is not
  itself a dispatcher text.\<close>

theorem streamed_message_becomes_one_block:
  assumes "td_turns (rs_transcript s) \<noteq> []" and "ds \<noteq> []"
    and "open_blocks s = [] \<or> \<not> streaming_block (last (open_blocks s))"
  shows "rs_messages (session_run js (message_events role ds) s) =
           rs_messages s @ [\<lparr>cm_role = role_from_wire role, cm_text = trim (concat ds)\<rparr>] \<and>
         open_blocks (session_run js (message_events role ds) s) =
           open_blocks s @ [attributed s (trim (concat ds))] \<and>
         rs_pending_role (session_run js (message_events role ds) s) = None"
  using message_run [OF assms(1,2)] assms(3) by (simp add: stream_text_fresh)

definition demo_turn :: "nat RemoteHostSession" where
  "demo_turn = session_step demo_plan_json (Event (SessionEvent.TurnStarted 1)) demo_session"

lemma demo_turn_open [simp]: "td_turns (rs_transcript demo_turn) \<noteq> []" "open_blocks demo_turn = []"
  by (simp_all add: demo_turn_def demo_session_def on_turn_started_def open_blocks_def)

theorem streamed_message_becomes_one_block_example:
  "open_blocks (session_run demo_plan_json (message_events ''assistant'' [''Hi '', ''there'']) demo_turn) =
     [attributed demo_turn (trim ''Hi there'')]"
  using streamed_message_becomes_one_block
    [of demo_turn "[''Hi '', ''there'']" demo_plan_json "''assistant''"] by simp

text \<open>Two messages in a row in one turn leave one block: the deltas of the second message rewrite
  the finished block of the first, whose text is then only in the chat and no longer in the transcript.\<close>

theorem second_message_replaces_the_first:
  assumes "td_turns (rs_transcript s) \<noteq> []" and "ds \<noteq> []" and "ds' \<noteq> []"
    and "open_blocks s = [] \<or> \<not> streaming_block (last (open_blocks s))"
  shows "open_blocks (session_run js (message_events role ds @ message_events role' ds') s) =
           open_blocks s @ [attributed s (trim (concat ds'))]"
proof -
  let ?s = "session_run js (message_events role ds) s"
  have first: "open_blocks ?s = open_blocks s @ [attributed s (trim (concat ds))]"
    using message_run(2) [OF assms(1,2)] assms(4) by (simp add: stream_text_fresh)
  have "rs_dispatcher_binding ?s = rs_dispatcher_binding s \<and> td_turns (rs_transcript ?s) \<noteq> []"
    using assms(1,2) deltas_run [of js "hd ds" "tl ds"]
    by (simp add: message_events_def on_message_completed_def on_message_delta_def on_message_start_def
        push_chat_message_def push_text_block_def Let_def split: option.split TurnBlock.split)
  with message_run(2) [of ?s ds' js role'] first assms(3) show ?thesis
    by (simp add: stream_text_def attributed_def dispatcher_origin_def Let_def)
qed

theorem second_message_replaces_the_first_example:
  "open_blocks (session_run demo_plan_json
     (message_events ''assistant'' [''First''] @ message_events ''assistant'' [''Second'']) demo_turn) =
     [attributed demo_turn (trim ''Second'')]"
  using second_message_replaces_the_first
    [of demo_turn "[''First'']" "[''Second'']" demo_plan_json "''assistant''" "''assistant''"] by simp

section \<open>Tools\<close>

text \<open>The result of a tool is kept only while its card is the last block of the turn.\<close>

lemma tool_result_on_last_card:
  assumes "open_blocks s = bs @ [TurnBlock.Tool tool]" and "td_turns (rs_transcript s) \<noteq> []"
  shows "open_blocks (session_step js (Event (SessionEvent.ToolEnded tid name err res)) s) =
           bs @ [TurnBlock.Tool (if tc_id tool = tid then tool\<lparr>tc_is_error := err, tc_result := res\<rparr> else tool)]"
  using assms by (simp add: on_tool_ended_def set_activity_def open_blocks_def on_blocks_def last_map_last on_last_tool_def)

lemma interleaved_tool_result_is_dropped:
  fixes js :: "'v plan_json" and name name' :: string and args args' :: "'v option"
  assumes "td_turns (rs_transcript s) \<noteq> []" and "tid \<noteq> tid'"
  defines "started \<equiv> session_run js [Event (SessionEvent.ToolStarted tid name args),
                                     Event (SessionEvent.ToolStarted tid' name' args')] s"
  shows "open_blocks (session_step js (Event (SessionEvent.ToolEnded tid n err res)) started) = open_blocks started"
proof -
  have "\<exists>bs tool. open_blocks started = bs @ [TurnBlock.Tool tool] \<and> tc_id tool = tid'"
    using assms(1)
    by (simp add: started_def on_tool_started_def set_activity_def open_blocks_def on_blocks_def last_map_last map_last_comp)
  then obtain bs tool where last: "open_blocks started = bs @ [TurnBlock.Tool tool]" and "tc_id tool = tid'"
    by blast
  moreover have "td_turns (rs_transcript started) \<noteq> []"
    using assms(1) by (simp add: started_def on_tool_started_def)
  ultimately show ?thesis
    using tool_result_on_last_card [OF last, of js tid n err res] assms(2) by simp
qed

section \<open>Prompts\<close>

text \<open>The inputs that end the wait of a submitted prompt.\<close>

fun settles_prompt :: "'v session_input \<Rightarrow> bool" where
  "settles_prompt (Event (SessionEvent.TurnStarted _)) = True"
| "settles_prompt (Event SessionEvent.SessionReset) = True"
| "settles_prompt (Event (SessionEvent.StateReconciled _)) = True"
| "settles_prompt (Outcome PromptSubmit status) = (status \<noteq> Accepted)"
| "settles_prompt _ = False"

lemma prompt_frame [simp]:
  "rs_pending_user_prompt (set_activity txt kind s) = rs_pending_user_prompt s"
  "rs_pending_user_prompt (push_chat_message role txt s) = rs_pending_user_prompt s"
  "rs_pending_user_prompt (push_system_notice txt origin notice s) = rs_pending_user_prompt s"
  "rs_pending_user_prompt (push_dispatcher_notice txt notice s) = rs_pending_user_prompt s"
  "rs_pending_user_prompt (push_text_block txt origin s) = rs_pending_user_prompt s"
  "rs_pending_user_prompt (on_state_snapshot data s) = rs_pending_user_prompt s"
  "rs_pending_user_prompt (flush_pending s) = rs_pending_user_prompt s"
  "rs_pending_user_prompt (superseded_notice d s) = rs_pending_user_prompt s"
  by (simp_all add: set_activity_def push_chat_message_def push_system_notice_def push_dispatcher_notice_def
      push_text_block_def on_state_snapshot_def flush_pending_def superseded_notice_def Let_def
      split: option.split)

lemma composer_frame [simp]:
  "rs_composer (set_activity txt kind s) = rs_composer s"
  "rs_composer (push_chat_message role txt s) = rs_composer s"
  "rs_composer (push_system_notice txt origin notice s) = rs_composer s"
  "rs_composer (push_dispatcher_notice txt notice s) = rs_composer s"
  "rs_composer (push_text_block txt origin s) = rs_composer s"
  "rs_composer (on_state_snapshot data s) = rs_composer s"
  "rs_composer (flush_pending s) = rs_composer s"
  "rs_composer (superseded_notice d s) = rs_composer s"
  by (simp_all add: set_activity_def push_chat_message_def push_system_notice_def push_dispatcher_notice_def
      push_text_block_def on_state_snapshot_def flush_pending_def superseded_notice_def Let_def
      split: option.split)

lemma waiting_event:
  assumes "\<not> settles_prompt (Event e)"
  shows "rs_pending_user_prompt (snd (apply_session_event js e s)) = rs_pending_user_prompt s \<and>
         rs_composer (snd (apply_session_event js e s)) = rs_composer s"
  using assms
  by (cases e) (simp_all add: on_message_start_def on_message_delta_def on_thinking_delta_def
      on_message_completed_def on_message_abort_def on_harness_status_changed_def on_plan_updated_def
      on_turn_ended_def on_tool_started_def on_tool_updated_def on_tool_ended_def on_context_updated_def
      on_decomposition_started_def on_child_completed_def on_decomposition_completed_def Let_def
      split: option.split TurnBlock.split)

lemma waiting_step:
  assumes "\<not> settles_prompt i" and "rs_pending_user_prompt s = Some prompt"
  shows "rs_pending_user_prompt (session_step js i s) = Some prompt"
    and "(\<And>d. i \<noteq> EditDraft d) \<Longrightarrow> rs_composer (session_step js i s) = rs_composer s"
proof -
  have "rs_pending_user_prompt (session_step js i s) = Some prompt \<and>
      ((\<forall>d. i \<noteq> EditDraft d) \<longrightarrow> rs_composer (session_step js i s) = rs_composer s)"
  proof (cases i)
    case (Event e)
    with assms waiting_event [of e js s] show ?thesis by simp
  next
    case (Outcome command status)
    with assms show ?thesis
      by (cases command) (simp_all add: apply_ipc_command_outcome_def report_ingress_failure_def Let_def
          split: IpcCommandOutcomeStatus.split)
  qed (use assms in \<open>simp_all add: submit_def can_submit_def request_dispatcher_switch_def noop_switch_def
      issue_switch_def allocate_dispatcher_request_id_def report_dispatch_failure_def
      mark_ipc_disconnected_def refresh_provider_auth_def on_harness_status_changed_def set_scenario_def
      Let_def split: option.split\<close>)
  then show "rs_pending_user_prompt (session_step js i s) = Some prompt"
    and "(\<And>d. i \<noteq> EditDraft d) \<Longrightarrow> rs_composer (session_step js i s) = rs_composer s"
    by simp_all
qed

lemma waiting_run:
  assumes "\<forall>i \<in> set inputs. \<not> settles_prompt i" and "rs_pending_user_prompt s = Some prompt"
  shows "rs_pending_user_prompt (session_run js inputs s) = Some prompt"
    and "\<forall>i \<in> set inputs. \<forall>d. i \<noteq> EditDraft d \<Longrightarrow> rs_composer (session_run js inputs s) = rs_composer s"
  using assms by (induction inputs arbitrary: s) (simp_all add: waiting_step)

lemma submit_accepted:
  assumes "submit s = (True, s')"
  shows "rs_pending_user_prompt s' = Some (trim (cst_draft (rs_composer s)))"
    and "rs_composer s' = clear_draft (rs_composer s)" and "trim (cst_draft (rs_composer s)) \<noteq> []"
  using assms by (auto simp: submit_def Let_def split: if_splits)

definition demo_draft :: "nat RemoteHostSession" where
  "demo_draft = demo_session\<lparr>rs_composer := \<lparr>cst_draft = ''Go ''\<rparr>\<rparr>"

lemma demo_draft_submits: "submit demo_draft = (True, snd (submit demo_draft))"
proof -
  have "trim ''Go '' = ''Go''" by code_simp
  then show ?thesis
    by (simp add: submit_def can_submit_def demo_draft_def demo_session_def from_snapshot_def demo_snapshot_def
        status_from_runtime_or_harness_def harness_can_execute_prompts_def Let_def)
qed



text \<open>A prompt that Omegon rejects, or whose submission fails, comes back: with the composer
  untouched since the submission, the draft is the trimmed text that was submitted, and no prompt is
  pending any more.\<close>

theorem rejected_prompt_returns_to_the_composer:
  fixes js :: "'v plan_json"
  assumes "submit s = (True, s')" and "status \<noteq> Accepted"
    and "\<forall>i \<in> set inputs. \<not> settles_prompt i \<and> (\<forall>d. i \<noteq> EditDraft d)"
  defines "back \<equiv> session_step js (Outcome PromptSubmit status) (session_run js inputs s')"
  shows "cst_draft (rs_composer back) = trim (cst_draft (rs_composer s)) \<and>
         rs_pending_user_prompt back = None \<and> \<not> rs_prompt_ingress_acknowledged back"
proof -
  let ?s = "session_run js inputs s'"
  have "rs_pending_user_prompt ?s = Some (trim (cst_draft (rs_composer s)))"
    and "rs_composer ?s = clear_draft (rs_composer s)"
    using waiting_run [OF _ submit_accepted(1) [OF assms(1)], of inputs js] submit_accepted(2) [OF assms(1)] assms(3)
    by auto
  with assms(2) show ?thesis
    by (cases status) (simp_all add: back_def apply_ipc_command_outcome_def report_ingress_failure_def
        set_draft_def clear_draft_def set_activity_def push_system_notice_def push_chat_message_def Let_def)
qed

theorem rejected_prompt_returns_to_the_composer_example:
  "cst_draft (rs_composer (session_step demo_plan_json (Outcome PromptSubmit Rejected)
     (session_run demo_plan_json [Event (SessionEvent.PhaseChanged ''plan'')] (snd (submit demo_draft))))) = trim ''Go ''"
  using rejected_prompt_returns_to_the_composer
    [OF demo_draft_submits, of Rejected "[Event (SessionEvent.PhaseChanged ''plan'')]" demo_plan_json]
  by (simp add: demo_draft_def)

section \<open>Dispatcher switches\<close>

lemma switch_frame [simp]:
  "rs_dispatcher_binding (set_activity txt kind s) = rs_dispatcher_binding s"
  "rs_dispatcher_binding (push_system_notice txt origin notice s) = rs_dispatcher_binding s"
  "rs_dispatcher_binding (superseded_notice d s) = rs_dispatcher_binding s"
  by (simp_all add: set_activity_def push_system_notice_def push_chat_message_def superseded_notice_def
      split: option.split)

definition requested_switch :: "string \<Rightarrow> string \<Rightarrow> string option \<Rightarrow> DispatcherSwitchStateSnapshot" where
  "requested_switch rid profile model =
     \<lparr>sw_request_id = Some rid, sw_requested_profile = Some profile, sw_requested_model = model,
      sw_status = ''pending'', sw_failure_code = None,
      sw_note = Some ''Awaiting backend dispatcher switch confirmation''\<rparr>"

lemma issued_switch:
  assumes "request_dispatcher_switch profile model s = (Some (Issued rid), s')"
  shows "\<exists>d. rs_dispatcher_binding s' = Some (d\<lparr>db_switch_state := Some (requested_switch rid profile model)\<rparr>)"
proof -
  from assms obtain d where "issue_switch d profile model s = (rid, s')"
    by (auto simp: request_dispatcher_switch_def split: option.splits if_splits prod.splits)
  then have "rs_dispatcher_binding s' = Some (d\<lparr>db_switch_state := Some (requested_switch rid profile model)\<rparr>)"
    by (simp add: issue_switch_def allocate_dispatcher_request_id_def requested_switch_def Let_def)
      (erule conjE, hypsubst, simp)
  then show ?thesis ..
qed

definition confirmed_switch :: "string \<Rightarrow> string \<Rightarrow> string option \<Rightarrow> DispatcherSwitchStateSnapshot" where
  "confirmed_switch rid profile model =
     (requested_switch rid profile model)\<lparr>sw_status := ''active'',
        sw_note := Some ''Dispatcher switch confirmed by snapshot''\<rparr>"

lemma confirm_requested:
  assumes "db_expected_profile b = profile" and "model = None \<or> db_expected_model b = model"
  shows "confirm_or_keep b (requested_switch rid profile model) = confirmed_switch rid profile model"
  using assms by (cases model) (simp_all add: confirm_or_keep_def requested_switch_def confirmed_switch_def)

lemma confirmation_message:
  "switch_transition_message (Some (requested_switch rid profile model)) (confirmed_switch rid profile model) =
     Some (''Dispatcher switch confirmed ('' @ rid @ ''): '' @ switch_target_label (Some profile) model)"
  by (simp add: switch_transition_message_def requested_switch_def confirmed_switch_def)

text \<open>A dispatcher switch that was issued is confirmed by the first snapshot that names no switch
  of its own and reports the requested profile and, if one was requested, the requested model: the
  switch becomes active under the id it was issued with, and the chat says so.\<close>

theorem matching_snapshot_confirms_the_switch:
  fixes js :: "'v plan_json"
  assumes "request_dispatcher_switch profile model s = (Some (Issued rid), s')"
    and "snap_dispatcher data = Some b" and "db_switch_state b = None"
    and "db_expected_profile b = profile" and "model = None \<or> db_expected_model b = model"
  defines "confirmed \<equiv> session_step js (Event (SessionEvent.StateSnapshot data)) s'"
  shows "map_option (\<lambda>sw. (sw_status sw, sw_request_id sw))
             (Option.bind (rs_dispatcher_binding confirmed) db_switch_state) = Some (''active'', Some rid) \<and>
         last (rs_messages confirmed) =
           \<lparr>cm_role = MessageRole.System,
            cm_text = ''Dispatcher switch confirmed ('' @ rid @ ''): '' @ switch_target_label (Some profile) model\<rparr>"
proof -
  let ?req = "requested_switch rid profile model" and ?act = "confirmed_switch rid profile model"
  from issued_switch [OF assms(1)] obtain d where d: "rs_dispatcher_binding s' = Some (d\<lparr>db_switch_state := Some ?req\<rparr>)"
    by blast
  then have "pending_switch (rs_dispatcher_binding s') = Some ?req"
    by (simp add: pending_switch_def requested_switch_def)
  then have rec: "reconcile_dispatcher_binding (rs_dispatcher_binding s') (snap_dispatcher data) =
      Some (b\<lparr>db_switch_state := Some ?act\<rparr>)"
    using assms(2-5) by (simp add: reconcile_silent confirm_requested)
  have "?req \<noteq> ?act" "sw_status ?act = ''active''" "sw_request_id ?act = Some rid"
    by (simp_all add: confirmed_switch_def requested_switch_def)
  with d rec show ?thesis
    by (simp add: confirmed_def on_state_snapshot_def Let_def append_dispatcher_switch_transition_notice_def
        confirmation_message push_system_notice_to_buffers_def)
qed

theorem matching_snapshot_confirms_the_switch_example:
  "last (rs_messages (session_step demo_plan_json
      (Event (SessionEvent.StateSnapshot (demo_snapshot\<lparr>snap_dispatcher :=
         Some (demo_binding\<lparr>db_expected_profile := ''fast''\<rparr>)\<rparr>)))
      (snd (request_dispatcher_switch ''fast'' None demo_session)))) =
     \<lparr>cm_role = MessageRole.System,
      cm_text = ''Dispatcher switch confirmed (dispatcher-switch-1): '' @ switch_target_label (Some ''fast'') None\<rparr>"
proof -
  have "show_nat 1 = ''1''" by code_simp
  then have "request_dispatcher_switch ''fast'' None demo_session =
      (Some (Issued ''dispatcher-switch-1''), snd (request_dispatcher_switch ''fast'' None demo_session))"
    by (simp add: request_dispatcher_switch_def issue_switch_def allocate_dispatcher_request_id_def
        already_active_def demo_session_def from_snapshot_def demo_snapshot_def demo_binding_def Let_def)
  from matching_snapshot_confirms_the_switch [OF this, of "demo_snapshot\<lparr>snap_dispatcher :=
         Some (demo_binding\<lparr>db_expected_profile := ''fast''\<rparr>)\<rparr>"
         "demo_binding\<lparr>db_expected_profile := ''fast''\<rparr>" demo_plan_json]
  show ?thesis by (simp add: demo_binding_def)
qed

text \<open>An IPC snapshot is projected with the binding the session already holds, so it never settles
  a switch.\<close>

lemma ipc_snapshot_keeps_the_binding:
  "rs_dispatcher_binding (snd (refresh_from_ipc_state snap s)) = rs_dispatcher_binding s"
proof -
  have "reconcile_dispatcher_binding b b = b" for b
    by (cases b) (auto simp: reconcile_dispatcher_binding_def pending_switch_def split: option.splits)
  then have snapshot: "rs_dispatcher_binding (on_state_snapshot (project_ipc_state_snapshot snap (rs_dispatcher_binding s)) s) =
      rs_dispatcher_binding s" for s :: "'a RemoteHostSession"
    by (simp add: on_state_snapshot_def project_ipc_state_snapshot_def Let_def)
  have "rs_dispatcher_binding (ingress_activity a s) = rs_dispatcher_binding s" for a and s :: "'a RemoteHostSession"
    by (simp add: ingress_activity_def Let_def)
  moreover have "rs_dispatcher_binding (forget_session s) = rs_dispatcher_binding s"
    by (simp add: forget_session_def)
  ultimately show ?thesis
    using snapshot [of "forget_session s"] snapshot [of s]
    by (simp add: refresh_from_ipc_state_def Let_def)
qed

end
