(* ===== verification/Audit_Timeline.thy ===== *)
theory Audit_Timeline
  imports Session_Props
begin

text \<open>
  The audit timeline (\<open>audit_timeline.rs\<close>): the append-only store of transcript blocks and
  telemetry entries, keyed by block id, with its queries and its file format.  The JSON encoding
  of the file and the file system are parameters; \<open>seen_ids\<close>, which the code keeps in a
  \<open>BTreeSet\<close> that it only inserts into and asks for membership, is the set it stands for.
\<close>

section \<open>Data\<close>

datatype AuditEntryKind = Thinking | Text | Tool | System | Telemetry | Aborted

text \<open>The derived order: the order of declaration.\<close>

fun kind_rank :: "AuditEntryKind \<Rightarrow> nat" where
  "kind_rank AuditEntryKind.Thinking = 0"
| "kind_rank AuditEntryKind.Text = 1"
| "kind_rank AuditEntryKind.Tool = 2"
| "kind_rank AuditEntryKind.System = 3"
| "kind_rank AuditEntryKind.Telemetry = 4"
| "kind_rank AuditEntryKind.Aborted = 5"

lemma kind_rank_inject: "kind_rank a = kind_rank b \<Longrightarrow> a = b"
  by (cases a; cases b) simp_all

instantiation AuditEntryKind :: linorder
begin

definition less_eq_AuditEntryKind :: "AuditEntryKind \<Rightarrow> AuditEntryKind \<Rightarrow> bool" where
  "less_eq_AuditEntryKind a b \<longleftrightarrow> kind_rank a \<le> kind_rank b"

definition less_AuditEntryKind :: "AuditEntryKind \<Rightarrow> AuditEntryKind \<Rightarrow> bool" where
  "less_AuditEntryKind a b \<longleftrightarrow> kind_rank a < kind_rank b"

instance
  by standard (auto simp: less_eq_AuditEntryKind_def less_AuditEntryKind_def intro: kind_rank_inject)

end

record AuditEntry =
  ae_session_key :: string
  ae_turn_number :: u32
  ae_block_index :: nat
  ae_block_id :: string
  ae_kind :: AuditEntryKind
  ae_label :: string
  ae_content :: string

record AuditTimelineStore =
  ats_schema_version :: u32
  ats_entries :: "AuditEntry list"
  ats_seen_ids :: "string set"

definition AUDIT_SCHEMA_VERSION :: u32 where
  "AUDIT_SCHEMA_VERSION = 1"

definition default_audit :: AuditTimelineStore where
  "default_audit = \<lparr>ats_schema_version = AUDIT_SCHEMA_VERSION, ats_entries = [], ats_seen_ids = {}\<rparr>"

section \<open>Entries\<close>

definition attributed_label :: "AttributedText \<Rightarrow> string \<Rightarrow> string" where
  "attributed_label t fallback = (case at_origin t of Some origin \<Rightarrow> bo_label origin | None \<Rightarrow> fallback)"

definition tool_content :: "ToolCard \<Rightarrow> string" where
  "tool_content tool =
     (let parts = (if tc_args tool = [] then [] else [''args:'' @ newline @ tc_args tool]) @
                  (if tc_partial_output tool = [] then []
                   else [''partial_output:'' @ newline @ tc_partial_output tool]) @
                  (case tc_result tool of None \<Rightarrow> [] | Some result \<Rightarrow> [''result:'' @ newline @ result])
      in if parts = [] then tc_name tool else join (newline @ newline) parts)"

fun block_parts :: "TurnBlock \<Rightarrow> AuditEntryKind \<times> string \<times> string" where
  "block_parts (TurnBlock.Thinking t) = (AuditEntryKind.Thinking, ''Thinking'', tbt_text t)"
| "block_parts (TurnBlock.Text t) = (AuditEntryKind.Text, attributed_label t ''Message'', at_text t)"
| "block_parts (TurnBlock.Tool tool) =
     (AuditEntryKind.Tool, ''Tool'' @ dot_sep @ tc_name tool, tool_content tool)"
| "block_parts (TurnBlock.System t) = (AuditEntryKind.System, attributed_label t ''System'', at_text t)"
| "block_parts (TurnBlock.Aborted txt) = (AuditEntryKind.Aborted, ''Aborted'', txt)"

definition block_id :: "string \<Rightarrow> u32 \<Rightarrow> nat \<Rightarrow> string" where
  "block_id session_key n block_index =
     session_key @ '':turn-'' @ show_nat (unat n) @ ''-block-'' @ show_nat block_index"

definition from_block :: "string \<Rightarrow> u32 \<Rightarrow> nat \<Rightarrow> TurnBlock \<Rightarrow> AuditEntry" where
  "from_block session_key n block_index block =
     (let (kind, label, content) = block_parts block
      in \<lparr>ae_session_key = session_key, ae_turn_number = n, ae_block_index = block_index,
          ae_block_id = block_id session_key n block_index, ae_kind = kind, ae_label = label,
          ae_content = content\<rparr>)"

definition telemetry_entry :: "string \<Rightarrow> string \<Rightarrow> string \<Rightarrow> string \<Rightarrow> AuditEntry" where
  "telemetry_entry session_key telemetry_key label content =
     \<lparr>ae_session_key = session_key, ae_turn_number = 0, ae_block_index = 0,
      ae_block_id = session_key @ '':telemetry:'' @ telemetry_key, ae_kind = AuditEntryKind.Telemetry,
      ae_label = label, ae_content = content\<rparr>"

section \<open>Appending\<close>

definition append_entry :: "AuditEntry \<Rightarrow> AuditTimelineStore \<Rightarrow> bool \<times> AuditTimelineStore" where
  "append_entry entry store =
     (if ae_block_id entry \<in> ats_seen_ids store then (False, store)
      else (True, store\<lparr>ats_seen_ids := insert (ae_block_id entry) (ats_seen_ids store),
                        ats_entries := ats_entries store @ [entry]\<rparr>))"

text \<open>The entries of a transcript in the order of its two nested loops.\<close>

definition turn_entries :: "string \<Rightarrow> Turn \<Rightarrow> AuditEntry list" where
  "turn_entries session_key turn =
     map (\<lambda>(i, block). from_block session_key (turn_number turn) i block)
       (zip [0 ..< length (turn_blocks turn)] (turn_blocks turn))"

definition transcript_entries :: "string \<Rightarrow> TranscriptData \<Rightarrow> AuditEntry list" where
  "transcript_entries session_key transcript = concat (map (turn_entries session_key) (td_turns transcript))"

fun append_entries :: "AuditEntry list \<Rightarrow> AuditTimelineStore \<Rightarrow> nat \<times> AuditTimelineStore" where
  "append_entries [] store = (0, store)"
| "append_entries (entry # entries) store =
     (let (new, store) = append_entry entry store;
          (n, store) = append_entries entries store
      in (if new then Suc n else n, store))"

definition append_transcript_snapshot ::
  "string \<Rightarrow> TranscriptData \<Rightarrow> AuditTimelineStore \<Rightarrow> nat \<times> AuditTimelineStore"
where
  "append_transcript_snapshot session_key transcript store =
     append_entries (transcript_entries session_key transcript) store"

section \<open>The file\<close>

record audit_codec =
  ac_to_string_pretty :: "u32 \<times> AuditEntry list \<Rightarrow> string + string"
  ac_from_str :: "string \<Rightarrow> string + u32 \<times> AuditEntry list"

text \<open>\<open>seen_ids\<close> is skipped by serde: it is written as nothing and read back empty.\<close>

definition rebuild_seen_ids :: "AuditTimelineStore \<Rightarrow> AuditTimelineStore" where
  "rebuild_seen_ids store = store\<lparr>ats_seen_ids := set (map ae_block_id (ats_entries store))\<rparr>"

definition audit_from_json :: "audit_codec \<Rightarrow> string \<Rightarrow> string + AuditTimelineStore" where
  "audit_from_json c json =
     and_then (ac_from_str c json)
       (\<lambda>(version, entries). Ok (rebuild_seen_ids
          \<lparr>ats_schema_version = version, ats_entries = entries, ats_seen_ids = {}\<rparr>))"

definition audit_to_json_pretty :: "audit_codec \<Rightarrow> AuditTimelineStore \<Rightarrow> string + string" where
  "audit_to_json_pretty c store = ac_to_string_pretty c (ats_schema_version store, ats_entries store)"

text \<open>\<open>load_or_default\<close> over what reading the file gives.\<close>

definition audit_load_or_default :: "audit_codec \<Rightarrow> string option \<Rightarrow> AuditTimelineStore" where
  "audit_load_or_default c file =
     (case file of
        None \<Rightarrow> default_audit
      | Some json \<Rightarrow> (case audit_from_json c json of Inl _ \<Rightarrow> default_audit | Inr store \<Rightarrow> store))"

section \<open>Queries\<close>

record AuditTimelineQuery =
  atq_session_key :: "string option"
  atq_turn_number :: "u32 option"
  atq_kind :: "AuditEntryKind option"
  atq_text :: string

definition is_none_or :: "'a option \<Rightarrow> ('a \<Rightarrow> bool) \<Rightarrow> bool" where
  "is_none_or x p = (case x of None \<Rightarrow> True | Some a \<Rightarrow> p a)"

definition matches_session :: "AuditTimelineQuery \<Rightarrow> AuditEntry \<Rightarrow> bool" where
  "matches_session q e = is_none_or (atq_session_key q) (\<lambda>k. ae_session_key e = k)"

definition matches_turn :: "AuditTimelineQuery \<Rightarrow> AuditEntry \<Rightarrow> bool" where
  "matches_turn q e = is_none_or (atq_turn_number q) (\<lambda>n. ae_turn_number e = n)"

definition matches_kind :: "AuditTimelineQuery \<Rightarrow> AuditEntry \<Rightarrow> bool" where
  "matches_kind q e = is_none_or (atq_kind q) (\<lambda>k. ae_kind e = k)"

definition matches_text :: "AuditTimelineQuery \<Rightarrow> AuditEntry \<Rightarrow> bool" where
  "matches_text q e =
     (let needle = trim (atq_text q)
      in if needle = [] then True
         else contains_str (to_ascii_lowercase needle)
                (to_ascii_lowercase (ae_label e @ '' '' @ ae_content e)))"

definition query_matches :: "AuditTimelineQuery \<Rightarrow> AuditEntry \<Rightarrow> bool" where
  "query_matches q e \<longleftrightarrow> matches_session q e \<and> matches_turn q e \<and> matches_kind q e \<and> matches_text q e"

record AuditTimelineView =
  atv_sessions :: "string list"
  atv_turns :: "u32 list"
  atv_kinds :: "AuditEntryKind list"
  atv_entries :: "AuditEntry list"

text \<open>\<open>collect::<BTreeSet<_>>().into_iter()\<close>: the distinct values in increasing order.\<close>

definition sorted_distinct :: "'a::linorder list \<Rightarrow> 'a list" where
  "sorted_distinct xs = sort (remdups xs)"

lemma sorted_distinct_simps [simp]:
  "set (sorted_distinct xs) = set xs" "sorted (sorted_distinct xs)" "distinct (sorted_distinct xs)"
  by (simp_all add: sorted_distinct_def)

definition audit_query :: "AuditTimelineQuery \<Rightarrow> AuditTimelineStore \<Rightarrow> AuditTimelineView" where
  "audit_query q store =
     (let es = ats_entries store
      in \<lparr>atv_sessions = sorted_distinct (map ae_session_key es),
          atv_turns = sorted_distinct (map ae_turn_number (filter (matches_session q) es)),
          atv_kinds = sorted_distinct (map ae_kind (filter (\<lambda>e. matches_session q e \<and> matches_turn q e) es)),
          atv_entries = filter (query_matches q) es\<rparr>)"

section \<open>The store under appends\<close>

definition audit_ok :: "AuditTimelineStore \<Rightarrow> bool" where
  "audit_ok store \<longleftrightarrow>
     ats_seen_ids store = set (map ae_block_id (ats_entries store)) \<and>
     distinct (map ae_block_id (ats_entries store))"

lemma audit_ok_default: "audit_ok default_audit"
  by (simp add: audit_ok_def default_audit_def)

lemma audit_ok_append_entry: "audit_ok store \<Longrightarrow> audit_ok (snd (append_entry e store))"
  by (simp add: audit_ok_def append_entry_def)

lemma audit_ok_append_entries: "audit_ok store \<Longrightarrow> audit_ok (snd (append_entries es store))"
  by (induction es arbitrary: store) (simp_all add: Let_def split_beta audit_ok_append_entry)

text \<open>What is appended: the entries whose id is new, the first of each id.\<close>

fun fresh_entries :: "string set \<Rightarrow> AuditEntry list \<Rightarrow> AuditEntry list" where
  "fresh_entries seen [] = []"
| "fresh_entries seen (e # es) =
     (if ae_block_id e \<in> seen then fresh_entries seen es
      else e # fresh_entries (insert (ae_block_id e) seen) es)"

lemma append_entries_fresh:
  "append_entries es store =
     (length (fresh_entries (ats_seen_ids store) es),
      store\<lparr>ats_entries := ats_entries store @ fresh_entries (ats_seen_ids store) es,
            ats_seen_ids := ats_seen_ids store \<union> set (map ae_block_id es)\<rparr>)"
  by (induction es arbitrary: store) (simp_all add: append_entry_def Let_def insert_absorb)

lemma fresh_entries_seen: "set (map ae_block_id es) \<subseteq> seen \<Longrightarrow> fresh_entries seen es = []"
  by (induction es) auto

lemma append_entries_grow:
  "take (length (ats_entries store)) (ats_entries (snd (append_entries es store))) = ats_entries store"
  by (simp add: append_entries_fresh)

lemma append_entries_again:
  assumes "set (map ae_block_id es) \<subseteq> ats_seen_ids store"
  shows "append_entries es store = (0, store)"
  using assms by (simp add: append_entries_fresh fresh_entries_seen sup_absorb1)

lemma filter_distinct_key:
  "distinct (map f xs) \<Longrightarrow> x \<in> set xs \<Longrightarrow> filter (\<lambda>y. f y = f x) xs = [x]"
  by (induction xs) (auto simp: filter_empty_conv image_iff)

text \<open>An id that is in the store is never given a second entry.\<close>

lemma known_entry_is_kept:
  assumes "audit_ok store" and "e \<in> set (ats_entries store)"
  shows "filter (\<lambda>x. ae_block_id x = ae_block_id e) (ats_entries (snd (append_entries es store))) = [e]"
proof -
  have "distinct (map ae_block_id (ats_entries (snd (append_entries es store))))"
    using audit_ok_append_entries [OF assms(1)] by (simp add: audit_ok_def)
  moreover have "e \<in> set (ats_entries (snd (append_entries es store)))"
    using assms(2) by (simp add: append_entries_fresh)
  ultimately show ?thesis by (rule filter_distinct_key)
qed

section \<open>Block ids\<close>

lemma takeWhile_digits:
  assumes "\<not> is_digit c"
  shows "takeWhile is_digit (rev (show_nat n) @ c # s) = rev (show_nat n)"
    and "dropWhile is_digit (rev (show_nat n) @ c # s) = c # s"
proof -
  have "takeWhile is_digit (xs @ c # s) = xs \<and> dropWhile is_digit (xs @ c # s) = c # s"
    if "\<forall>x \<in> set xs. is_digit x" for xs
    using that assms by (induction xs) auto
  moreover have "\<forall>x \<in> set (rev (show_nat n)). is_digit x"
    using show_nat_digits by (auto simp: is_digit_def)
  ultimately show "takeWhile is_digit (rev (show_nat n) @ c # s) = rev (show_nat n)"
    and "dropWhile is_digit (rev (show_nat n) @ c # s) = c # s"
    by blast+
qed

lemma digits_then_inject:
  assumes "\<not> is_digit c" and "rev (show_nat m) @ c # s = rev (show_nat n) @ c # t"
  shows "m = n \<and> s = t"
proof -
  have "rev (show_nat m) = rev (show_nat n)" "c # s = c # t"
    using takeWhile_digits [OF assms(1), of m s] takeWhile_digits [OF assms(1), of n t] assms(2) by simp_all
  then show ?thesis by simp
qed

text \<open>Read from its end, a block id determines the index, the turn and the session it was made of.\<close>

lemma block_id_inject [simp]:
  "block_id k n i = block_id k' n' i' \<longleftrightarrow> k = k' \<and> n = n' \<and> i = i'"
proof
  have dash: "\<not> is_digit (CHR ''-'')" by (simp add: is_digit_def)
  have rev_id: "rev (block_id k n i) = rev (show_nat i) @ CHR ''-'' # (''kcolb-'' @
      (rev (show_nat (unat n)) @ CHR ''-'' # (''nrut:'' @ rev k)))" for k n i
    by (simp add: block_id_def)
  assume "block_id k n i = block_id k' n' i'"
  then have "rev (block_id k n i) = rev (block_id k' n' i')" by (rule arg_cong)
  from digits_then_inject [OF dash this [unfolded rev_id]]
  have i: "i = i'" and rest: "rev (show_nat (unat n)) @ CHR ''-'' # (''nrut:'' @ rev k) =
      rev (show_nat (unat n')) @ CHR ''-'' # (''nrut:'' @ rev k')"
    by (simp_all only: same_append_eq)
  from digits_then_inject [OF dash rest] i show "k = k' \<and> n = n' \<and> i = i'"
    by (simp add: word_unat_eq_iff)
qed simp

text \<open>The audit timeline only grows: appending a transcript keeps every earlier entry in its
  place, never holds two entries of one block, and records every block of the transcript once; the
  same transcript appended again adds nothing.\<close>

theorem audit_timeline_only_grows:
  assumes "audit_ok store" and "append_transcript_snapshot key transcript store = (n, store')"
  shows "audit_ok store' \<and>
         take (length (ats_entries store)) (ats_entries store') = ats_entries store \<and>
         length (ats_entries store') = length (ats_entries store) + n \<and>
         (\<forall>e \<in> set (transcript_entries key transcript). ae_block_id e \<in> ats_seen_ids store') \<and>
         append_transcript_snapshot key transcript store' = (0, store')"
proof -
  let ?es = "transcript_entries key transcript"
  have run: "append_entries ?es store = (n, store')"
    using assms(2) by (simp add: append_transcript_snapshot_def)
  then have "set (map ae_block_id ?es) \<subseteq> ats_seen_ids store'"
    by (auto simp: append_entries_fresh)
  with append_entries_again have "append_transcript_snapshot key transcript store' = (0, store')"
    by (simp add: append_transcript_snapshot_def)
  moreover have "audit_ok store'" using audit_ok_append_entries [OF assms(1)] run by (metis snd_conv)
  moreover have "take (length (ats_entries store)) (ats_entries store') = ats_entries store"
    using append_entries_grow run by (metis snd_conv)
  moreover have "length (ats_entries store') = length (ats_entries store) + n"
    using run by (auto simp: append_entries_fresh)
  ultimately show ?thesis using \<open>set (map ae_block_id ?es) \<subseteq> ats_seen_ids store'\<close> by auto
qed

theorem audit_timeline_only_grows_example:
  "append_transcript_snapshot ''k'' (rs_transcript demo_session)
     (snd (append_transcript_snapshot ''k'' (rs_transcript demo_session) default_audit)) =
   (0, snd (append_transcript_snapshot ''k'' (rs_transcript demo_session) default_audit))"
  using audit_timeline_only_grows [OF audit_ok_default surjective_pairing, of "''k''" "rs_transcript demo_session"]
  by blast


definition demo_entry :: AuditEntry where
  "demo_entry = telemetry_entry ''s'' ''k'' ''Label'' ''content''"

definition demo_codec :: audit_codec where
  "demo_codec = \<lparr>ac_to_string_pretty = \<lambda>x. if x = (1, [demo_entry]) then Ok ''one'' else Err ''other'',
                 ac_from_str = \<lambda>s. if s = ''one'' then Ok (1, [demo_entry]) else Err ''parse''\<rparr>"


end
