(* ===== verification/Json.thy ===== *)
theory Json
  imports Ids
begin

text \<open>
  \<open>serde_json::Value\<close> as the operator uses it: it builds manifests with the macro \<open>json!\<close>, reads
  request bodies with \<open>get\<close>, \<open>pointer\<close> and \<open>as_str\<close>, and writes single fields by indexing.  A map
  is a \<open>BTreeMap\<close> (the crate is built without \<open>preserve_order\<close>), so an object is the ordered map
  of \<open>OrdMap\<close>; numbers are integers, the only ones the operator writes.
\<close>

datatype json =
    JNull
  | JBool bool
  | JNum int
  | JStr string
  | JArr "json list"
  | JObj "(string, json) btree"

text \<open>\<open>json!({k: v, ...})\<close> inserts its fields in order, so that a later field of the same name wins.\<close>

definition jfields :: "(string \<times> json) list \<Rightarrow> (string, json) btree" where
  "jfields kvs = fold (\<lambda>(k, v). bt_insert k v) kvs bt_empty"

definition jobj :: "(string \<times> json) list \<Rightarrow> json" where
  "jobj kvs = JObj (jfields kvs)"

text \<open>\<open>json!\<close> of an \<open>Option\<close>: \<open>None\<close> is \<open>null\<close>.\<close>

definition jopt :: "('a \<Rightarrow> json) \<Rightarrow> 'a option \<Rightarrow> json" where
  "jopt f x = (case x of None \<Rightarrow> JNull | Some a \<Rightarrow> f a)"

abbreviation jopt_str :: "string option \<Rightarrow> json" where
  "jopt_str \<equiv> jopt JStr"

fun as_object :: "json \<Rightarrow> (string, json) btree option" where
  "as_object (JObj m) = Some m"
| "as_object _ = None"

fun as_str :: "json \<Rightarrow> string option" where
  "as_str (JStr s) = Some s"
| "as_str _ = None"

fun as_array :: "json \<Rightarrow> json list option" where
  "as_array (JArr xs) = Some xs"
| "as_array _ = None"

definition jget :: "json \<Rightarrow> string \<Rightarrow> json option" where
  "jget v k = (case as_object v of None \<Rightarrow> None | Some m \<Rightarrow> bt_get m k)"

text \<open>\<open>Value::pointer\<close> along names that are no array indices.\<close>

fun pointer :: "json \<Rightarrow> string list \<Rightarrow> json option" where
  "pointer v [] = Some v"
| "pointer v (k # ks) = (case jget v k of None \<Rightarrow> None | Some w \<Rightarrow> pointer w ks)"

text \<open>
  \<open>v[k] = x\<close>: \<open>null\<close> becomes an object, and a value that is neither \<open>null\<close> nor an object panics
  (\<open>None\<close>).  \<open>v[k][l] = x\<close> goes through the field \<open>k\<close>, which is created as \<open>null\<close>.
\<close>

fun as_object_mut :: "json \<Rightarrow> (string, json) btree option" where
  "as_object_mut JNull = Some bt_empty"
| "as_object_mut (JObj m) = Some m"
| "as_object_mut _ = None"

definition jset :: "string \<Rightarrow> json \<Rightarrow> json \<Rightarrow> json option" where
  "jset k x v = map_option (\<lambda>m. JObj (bt_insert k x m)) (as_object_mut v)"

definition jset2 :: "string \<Rightarrow> string \<Rightarrow> json \<Rightarrow> json \<Rightarrow> json option" where
  "jset2 k l x v =
     (case as_object_mut v of
        None \<Rightarrow> None
      | Some m \<Rightarrow>
          (case jset l x (unwrap_or (bt_get m k) JNull) of
             None \<Rightarrow> None
           | Some w \<Rightarrow> Some (JObj (bt_insert k w m))))"

text \<open>\<open>as_object_mut().unwrap().insert\<close> on a value the code has just built as an object.\<close>

fun jinsert :: "string \<Rightarrow> json \<Rightarrow> json \<Rightarrow> json" where
  "jinsert k x (JObj m) = JObj (bt_insert k x m)"
| "jinsert k x v = v"

definition jinsert_opt :: "string \<Rightarrow> json option \<Rightarrow> json \<Rightarrow> json" where
  "jinsert_opt k x v = (case x of None \<Rightarrow> v | Some w \<Rightarrow> jinsert k w v)"

section \<open>Reading what was written\<close>

lemma fold_bt_insert:
  fixes m :: "('k::linorder, 'v) btree"
  assumes "bt_ok m"
  shows "bt_ok (fold (\<lambda>(k, v). bt_insert k v) kvs m) \<and>
         map_of (fold (\<lambda>(k, v). bt_insert k v) kvs m) = map_of m ++ map_of (rev kvs)"
  using assms
proof (induction kvs arbitrary: m)
  case Nil
  then show ?case by simp
next
  case (Cons e kvs)
  obtain k v where e: "e = (k, v)" by (cases e)
  have ok: "bt_ok (bt_insert k v m)"
    using Cons.prems by (simp add: bt_ok_def bt_insert_sorted)
  have get: "map_of (bt_insert k v m) = (map_of m)(k \<mapsto> v)"
    using Cons.prems by (simp add: bt_ok_def map_of_bt_insert)
  from Cons.IH [OF ok] show ?case by (simp add: e get del: fun_upd_apply)
qed

lemma bt_ok_jfields [simp]: "bt_ok (jfields kvs)"
  using fold_bt_insert [of "[] :: (string, json) btree" kvs]
  by (simp add: jfields_def bt_empty_def bt_ok_def)

lemma get_jfields: "bt_get (jfields kvs) k = map_of (rev kvs) k"
  using fold_bt_insert [of "[] :: (string, json) btree" kvs]
  by (simp add: jfields_def bt_empty_def bt_ok_def bt_get_def)

lemma jget_jobj [simp]: "jget (jobj kvs) k = map_of (rev kvs) k"
  by (simp add: jget_def jobj_def get_jfields)

lemma jget_jinsert_jfields:
  "bt_ok m \<Longrightarrow> jget (jinsert k x (JObj m)) l = (if l = k then Some x else jget (JObj m) l)"
  by (simp add: jget_def bt_ok_def bt_get_def map_of_bt_insert)

text \<open>The objects of which the fields are ordered, as those of every decoder and of \<open>json!\<close> are.\<close>

fun jok :: "json \<Rightarrow> bool" where
  "jok (JObj m) \<longleftrightarrow> bt_ok m"
| "jok _ \<longleftrightarrow> True"

lemma jok_jobj [simp]: "jok (jobj kvs)"
  by (simp add: jobj_def)

fun is_object :: "json \<Rightarrow> bool" where
  "is_object (JObj m) \<longleftrightarrow> True"
| "is_object _ \<longleftrightarrow> False"

lemma is_object_jobj [simp]: "is_object (jobj kvs)"
  by (simp add: jobj_def)

lemma is_object_jinsert [simp]: "is_object (jinsert k x v) \<longleftrightarrow> is_object v"
  by (cases v) simp_all

lemma jok_jinsert [simp]: "jok v \<Longrightarrow> jok (jinsert k x v)"
  by (cases v) (simp_all add: bt_ok_def bt_insert_sorted)

lemma jget_jinsert [simp]:
  "jok v \<Longrightarrow> is_object v \<Longrightarrow> jget (jinsert k x v) l = (if l = k then Some x else jget v l)"
  by (cases v) (simp_all add: jget_jinsert_jfields del: jinsert.simps)

lemma jinsert_opt_simps [simp]:
  "jok v \<Longrightarrow> jok (jinsert_opt k x v)"
  "is_object (jinsert_opt k x v) \<longleftrightarrow> is_object v"
  by (simp_all add: jinsert_opt_def split: option.split)

lemma jget_jinsert_opt [simp]:
  "jok v \<Longrightarrow> is_object v \<Longrightarrow>
   jget (jinsert_opt k x v) l = (if l = k \<and> x \<noteq> None then x else jget v l)"
  by (simp add: jinsert_opt_def split: option.split)

lemma jset_Some:
  "jset k x v = Some w \<Longrightarrow> jok v \<Longrightarrow>
   jok w \<and> is_object w \<and> jget w l = (if l = k then Some x else jget v l)"
  by (cases v) (auto simp: jset_def jget_def bt_ok_def bt_get_def bt_empty_def map_of_bt_insert bt_insert_sorted)

end
