(* ===== verification/Operator_Crd.thy ===== *)
theory Operator_Crd
  imports Json Worker_Types
begin

text \<open>
  The custom resources of the operator (\<open>auspex-operator/src/crd.rs\<close>): the specification and
  status of \<open>OmegonAgent\<close> and \<open>ExternalAgent\<close>.  The metadata of a resource is read through the
  accessors of the crate \<open>kube\<close> (\<open>name_any\<close>, \<open>namespace\<close>, \<open>labels\<close>, \<open>annotations\<close>), of which the
  records hold the values.  A signed integer is a word read by \<open>sint\<close>.
\<close>

section \<open>The agent specification\<close>

datatype AgentMode = Daemon | Cronjob | Job

record DiscordSpec =
  ds_guild_id :: "string option"
  ds_require_mention :: bool
  ds_operators :: "string list"

record SlackSpec =
  ss_workspace :: "string option"
  ss_operators :: "string list"
  ss_default_channel :: "string option"
  ss_require_mention :: bool

record VoxSpec =
  vx_connectors :: "string list"
  vx_discord :: "DiscordSpec option"
  vx_slack :: "SlackSpec option"

record VaultSecretMapping =
  vsm_path :: string
  vsm_destination :: string
  vsm_template :: "string option"

record VaultSpec =
  vs_address :: "string option"
  vs_auth_method :: string
  vs_role :: "string option"
  vs_secrets :: "VaultSecretMapping list"
  vs_agent_inject :: bool

record SecretsSpec =
  sec_secret_name :: "string option"
  sec_auth_json_secret :: "string option"
  sec_vault :: "VaultSpec option"

record ResourcesSpec =
  res_cpu :: "string option"
  res_memory :: "string option"

record IdentitySpec =
  ids_provision :: bool
  ids_security_tier :: string
  ids_mesh_role :: string
  ids_derivation_label :: "string option"
  ids_operator_secret :: string
  ids_operator_secret_key :: string
  ids_vault_path :: "string option"
  ids_vault_agent_prefix :: "string option"
  ids_hsm_slot :: "string option"
  ids_rotate :: bool
  ids_mesh_peers :: "string list"
  ids_mtls :: bool

record ControlPlaneTlsValiditySpec =
  val_ca_not_before_year :: i32
  val_ca_not_after_year :: i32
  val_leaf_not_before_year :: i32
  val_leaf_not_after_year :: i32

record ControlPlaneTlsSpec =
  tls_enabled :: bool
  tls_secret_name :: "string option"
  tls_cert_key :: string
  tls_key_key :: string
  tls_client_ca_key :: "string option"
  tls_profile :: string
  tls_ca_epoch :: string
  tls_leaf_epoch :: string
  tls_validity :: ControlPlaneTlsValiditySpec

definition default_tls_validity :: ControlPlaneTlsValiditySpec where
  "default_tls_validity =
     \<lparr>val_ca_not_before_year = 2026, val_ca_not_after_year = 2036,
      val_leaf_not_before_year = 2026, val_leaf_not_after_year = 2031\<rparr>"

definition default_tls :: ControlPlaneTlsSpec where
  "default_tls =
     \<lparr>tls_enabled = False, tls_secret_name = None, tls_cert_key = ''tls.crt'',
      tls_key_key = ''tls.key'', tls_client_ca_key = Some ''ca.crt'', tls_profile = ''default'',
      tls_ca_epoch = ''0'', tls_leaf_epoch = ''0'', tls_validity = default_tls_validity\<rparr>"

record ControlPlaneSpec =
  cp_tls :: ControlPlaneTlsSpec

record BoundsSpec =
  bnd_max_turns :: "u32 option"
  bnd_timeout :: "u32 option"
  bnd_token_budget :: "u64 option"
  bnd_context_class :: "string option"
  bnd_active_deadline_seconds :: "i64 option"

record PromptSpec =
  pr_inline :: "string option"
  pr_config_map :: "string option"
  pr_secret :: "string option"
  pr_mount_path :: string
  pr_output_path :: string

record SbomSpec =
  sbom_enabled :: bool
  sbom_format :: string
  sbom_artifact_ref :: "string option"
  sbom_vulnerability_scan :: bool

record OmegonAgentSpec =
  oas_agent :: string
  oas_model :: string
  oas_posture :: string
  oas_role :: string
  oas_mode :: AgentMode
  oas_schedule :: "string option"
  oas_image :: string
  oas_profile :: "string option"
  oas_vox :: VoxSpec
  oas_secrets :: SecretsSpec
  oas_resources :: "ResourcesSpec option"
  oas_identity :: "IdentitySpec option"
  oas_control_plane :: ControlPlaneSpec
  oas_terminal_tool :: bool
  oas_bounds :: "BoundsSpec option"
  oas_prompt :: "PromptSpec option"
  oas_sbom :: "SbomSpec option"

section \<open>The agent status\<close>

record SbomStatus =
  sbs_available :: bool
  sbs_artifact_ref :: "string option"
  sbs_format :: "string option"
  sbs_image_digest :: "string option"
  sbs_generated_at :: "string option"
  sbs_component_count :: "u32 option"
  sbs_vulnerability_count :: "u32 option"
  sbs_signature_verified :: "bool option"

record IdentityStatus =
  idst_provisioned :: bool
  idst_secret_name :: "string option"
  idst_rns_destination_hash :: "string option"
  idst_wireguard_pubkey :: "string option"
  idst_mesh_role :: "string option"
  idst_mesh_admitted :: bool
  idst_provisioned_at :: "string option"

record OmegonAgentStatus =
  ost_phase :: string
  ost_last_reconciled :: "string option"
  ost_last_run :: "string option"
  ost_health :: "string option"
  ost_message :: "string option"
  ost_observed_generation :: "i64 option"
  ost_sbom :: "SbomStatus option"
  ost_identity :: "IdentityStatus option"

text \<open>A resource as the API server returns it.\<close>

record OmegonAgent =
  oa_metadata_name :: "string option"
  oa_name_any :: string
  oa_namespace :: "string option"
  oa_uid :: "string option"
  oa_generation :: "i64 option"
  oa_labels :: "(string, string) btree"
  oa_annotations :: "(string, string) btree"
  oa_spec :: OmegonAgentSpec
  oa_status :: "OmegonAgentStatus option"

section \<open>External agents\<close>

record ExternalAgentSpec =
  eas_display_name :: string
  eas_endpoint :: string
  eas_token_secret :: "string option"
  eas_probe_interval_seconds :: u32
  eas_labels :: "(string, string) btree"

record ExternalAgentStatus =
  est_reachability :: string
  est_omegon_version :: "string option"
  est_agent_id :: "string option"
  est_model :: "string option"
  est_last_seen :: "string option"
  est_last_error :: "string option"
  est_ws_url :: "string option"
  est_sbom :: "SbomStatus option"

record ExternalAgent =
  ea_metadata_name :: "string option"
  ea_name_any :: string
  ea_namespace :: "string option"
  ea_spec :: ExternalAgentSpec
  ea_status :: "ExternalAgentStatus option"

end
