(* ===== verification/Operator_Pod.thy ===== *)
theory Operator_Pod
  imports Operator_Crd
begin

text \<open>
  The pod template of a managed agent (\<open>pod_spec\<close> in \<open>auspex-operator/src/reconciler.rs\<close>): its
  volumes, the agent container with its environment, arguments, mounts and probes, the sidecar and
  init containers of the mesh and chat connectors, and the annotations.  The process environment
  (\<open>std::env::var\<close>) is the argument \<open>env\<close>.  The vectors the code pushes to are the concatenation
  of what each branch pushes, in its order.
\<close>

type_synonym process_env = "string \<Rightarrow> string option"

definition CONTROL_TLS_MOUNT_PATH :: string where
  "CONTROL_TLS_MOUNT_PATH = ''/run/omegon/control-tls''"

definition styrened_image :: "process_env \<Rightarrow> string" where
  "styrened_image env =
     unwrap_or (env ''AUSPEX_STYRENED_IMAGE'') ''ghcr.io/styrene-lab/styrened:0.5''"

definition aether_image :: "process_env \<Rightarrow> string" where
  "aether_image env = unwrap_or (env ''AUSPEX_AETHER_IMAGE'') ''ghcr.io/styrene-lab/aether:0.3''"

definition omegon_runtime_flag_enabled :: "process_env \<Rightarrow> string \<Rightarrow> bool" where
  "omegon_runtime_flag_enabled env name =
     (case env name of
        None \<Rightarrow> False
      | Some v \<Rightarrow> v \<in> {''1'', ''true'', ''TRUE'', ''yes''})"

section \<open>Control-plane TLS\<close>

record ResolvedControlTls =
  rct_secret_name :: string
  rct_cert_key :: string
  rct_key_key :: string
  rct_client_ca_key :: "string option"
  rct_profile :: string
  rct_ca_epoch :: string
  rct_leaf_epoch :: string
  rct_validity :: ControlPlaneTlsValiditySpec

definition agent_tls :: "OmegonAgent \<Rightarrow> ControlPlaneTlsSpec" where
  "agent_tls a = cp_tls (oas_control_plane (oa_spec a))"

definition control_plane_tls_enabled :: "OmegonAgent \<Rightarrow> bool" where
  "control_plane_tls_enabled a \<longleftrightarrow>
     tls_enabled (agent_tls a) \<or>
     (case oas_identity (oa_spec a) of None \<Rightarrow> False | Some i \<Rightarrow> ids_mtls i)"

definition resolved_control_tls :: "OmegonAgent \<Rightarrow> string \<Rightarrow> ResolvedControlTls option" where
  "resolved_control_tls a name =
     (if \<not> control_plane_tls_enabled a then None
      else let tls = agent_tls a
           in Some \<lparr>rct_secret_name = unwrap_or (tls_secret_name tls) (name @ ''-control-tls''),
                    rct_cert_key = tls_cert_key tls, rct_key_key = tls_key_key tls,
                    rct_client_ca_key = tls_client_ca_key tls, rct_profile = tls_profile tls,
                    rct_ca_epoch = tls_ca_epoch tls, rct_leaf_epoch = tls_leaf_epoch tls,
                    rct_validity = tls_validity tls\<rparr>)"

section \<open>What the agent asks for\<close>

definition is_bounded :: "OmegonAgent \<Rightarrow> bool" where
  "is_bounded a \<longleftrightarrow> oas_mode (oa_spec a) \<in> {Job, Cronjob}"

definition connectors :: "OmegonAgent \<Rightarrow> string list" where
  "connectors a = vx_connectors (oas_vox (oa_spec a))"

definition has_aether :: "OmegonAgent \<Rightarrow> bool" where
  "has_aether a \<longleftrightarrow> (\<exists>c \<in> set (connectors a). c = ''aether'')"

definition has_public_vox :: "OmegonAgent \<Rightarrow> bool" where
  "has_public_vox a \<longleftrightarrow> (\<exists>c \<in> set (connectors a). c \<in> {''discord'', ''slack''})"

definition provisions_identity :: "OmegonAgent \<Rightarrow> bool" where
  "provisions_identity a \<longleftrightarrow>
     (case oas_identity (oa_spec a) of None \<Rightarrow> False | Some i \<Rightarrow> ids_provision i)"

definition push_if :: "bool \<Rightarrow> 'a list \<Rightarrow> 'a list" where
  "push_if b xs = (if b then xs else [])"

definition push_some :: "'b option \<Rightarrow> ('b \<Rightarrow> 'a list) \<Rightarrow> 'a list" where
  "push_some x f = (case x of None \<Rightarrow> [] | Some b \<Rightarrow> f b)"

section \<open>Environment, volumes and mounts\<close>

definition env_entry :: "string \<Rightarrow> string \<Rightarrow> json" where
  "env_entry k v = jobj [(''name'', JStr k), (''value'', JStr v)]"

definition pod_env :: "OmegonAgent \<Rightarrow> json list" where
  "pod_env a =
     (let spec = oa_spec a in
      [env_entry ''VOX_CONFIG_PATH'' ''/config/vox'',
       env_entry ''VOX_CONFIG'' ''/config/vox/vox.toml'',
       env_entry ''AETHER_WORKER_ROLE'' (oas_role spec),
       env_entry ''OMEGON_TERMINAL_TOOL'' (if oas_terminal_tool spec then ''1'' else ''0'')] @
      push_some (vx_discord (oas_vox spec)) (\<lambda>discord.
        push_some (ds_guild_id discord) (\<lambda>gid. [env_entry ''VOX_DISCORD_GUILD_ID'' gid])) @
      push_if (has_aether a)
        [env_entry ''STYRENED_SOCKET'' ''/shared/styrened.sock'',
         env_entry ''OMEGON_EXTENSIONS_PATH'' ''/extensions''] @
      push_some (oas_profile spec) (\<lambda>profile. [env_entry ''OMEGON_PROFILE'' profile]) @
      push_if (provisions_identity a)
        [env_entry ''STYRENE_IDENTITY_PATH'' ''/run/styrene/identity/root-secret'',
         env_entry ''STYRENE_MESH_ROLE''
           (unwrap_or (map_option ids_mesh_role (oas_identity spec)) ''operator'')] @
      push_some (sec_auth_json_secret (oas_secrets spec)) (\<lambda>_.
        [env_entry ''OMEGON_AUTH_JSON_PATH'' ''/config/omegon/auth.json'']))"

definition volume :: "string \<Rightarrow> string \<Rightarrow> (string \<times> json) list \<Rightarrow> json" where
  "volume name kind source = jobj [(''name'', JStr name), (kind, jobj source)]"

definition mount :: "string \<Rightarrow> string \<Rightarrow> json" where
  "mount name path = jobj [(''name'', JStr name), (''mountPath'', JStr path)]"

definition mount_ro :: "string \<Rightarrow> string \<Rightarrow> json" where
  "mount_ro name path =
     jobj [(''name'', JStr name), (''mountPath'', JStr path), (''readOnly'', JBool True)]"

definition key_item :: "string \<Rightarrow> string \<Rightarrow> json" where
  "key_item key path = jobj [(''key'', JStr key), (''path'', JStr path)]"

text \<open>\<open>rsplit_once('/')\<close>: what stands before the last slash.\<close>

definition before_last_slash :: "string \<Rightarrow> string option" where
  "before_last_slash s =
     (if CHR ''/'' \<in> set s then Some (rev (tl (dropWhile (\<lambda>c. c \<noteq> CHR ''/'') (rev s)))) else None)"

definition prompt_dir :: "OmegonAgent \<Rightarrow> string" where
  "prompt_dir a =
     (let path = unwrap_or (map_option pr_mount_path (oas_prompt (oa_spec a))) ''/input/prompt.txt''
      in unwrap_or (before_last_slash path) ''/input'')"

text \<open>The prompt comes from a secret, else from the inline text, else from a config map.\<close>

definition prompt_volume :: "OmegonAgent \<Rightarrow> string \<Rightarrow> json option" where
  "prompt_volume a name =
     (case oas_prompt (oa_spec a) of
        None \<Rightarrow> None
      | Some p \<Rightarrow>
          (case pr_secret p of
             Some secret \<Rightarrow>
               Some (volume ''prompt'' ''secret''
                       [(''secretName'', JStr secret),
                        (''items'', JArr [key_item ''prompt.txt'' ''prompt.txt''])])
           | None \<Rightarrow>
               if pr_inline p \<noteq> None
               then Some (volume ''prompt'' ''configMap'' [(''name'', JStr (name @ ''-prompt''))])
               else map_option (\<lambda>cm. volume ''prompt'' ''configMap'' [(''name'', JStr cm)])
                      (pr_config_map p)))"

definition tls_items :: "ResolvedControlTls \<Rightarrow> json list" where
  "tls_items tls =
     [key_item (rct_cert_key tls) ''tls.crt'', key_item (rct_key_key tls) ''tls.key''] @
     push_some (rct_client_ca_key tls) (\<lambda>k. [key_item k ''ca.crt''])"

definition pod_volumes :: "OmegonAgent \<Rightarrow> string \<Rightarrow> json list" where
  "pod_volumes a name =
     [volume ''vox-config'' ''configMap'' [(''name'', JStr (name @ ''-vox''))],
      volume ''agent-catalog'' ''configMap''
        [(''name'', JStr (name @ ''-catalog'')), (''optional'', JBool True)]] @
     push_if (has_public_vox a) [volume ''omegon-extensions'' ''emptyDir'' []] @
     push_if (has_aether a)
       [volume ''shared'' ''emptyDir'' [(''medium'', JStr ''Memory''), (''sizeLimit'', JStr ''10Mi'')],
        volume ''extensions'' ''emptyDir'' [],
        volume ''styrened-config'' ''configMap''
          [(''name'', JStr (name @ ''-styrened'')), (''optional'', JBool True)]] @
     push_some (sec_auth_json_secret (oas_secrets (oa_spec a))) (\<lambda>secret.
       [volume ''auth-json'' ''secret''
          [(''secretName'', JStr secret), (''items'', JArr [key_item ''auth.json'' ''auth.json''])]]) @
     push_if (provisions_identity a)
       [volume ''styrene-id'' ''secret''
          [(''secretName'', JStr (name @ ''-styrene-id'')),
           (''items'', JArr [key_item ''root-secret'' ''root-secret''])]] @
     push_some (resolved_control_tls a name) (\<lambda>tls.
       [volume ''control-tls'' ''secret''
          [(''secretName'', JStr (rct_secret_name tls)), (''items'', JArr (tls_items tls))]]) @
     push_some (sec_secret_name (oas_secrets (oa_spec a))) (\<lambda>secret.
       [volume ''runtime-secrets'' ''secret'' [(''secretName'', JStr secret)]]) @
     push_if (is_bounded a)
       (push_some (prompt_volume a name) (\<lambda>v. [v]) @ [volume ''output'' ''emptyDir'' []])"

definition pod_mounts :: "OmegonAgent \<Rightarrow> string \<Rightarrow> json list" where
  "pod_mounts a name =
     [mount ''vox-config'' ''/config/vox'',
      mount_ro ''agent-catalog'' (''/data/omegon/catalog/'' @ oas_agent (oa_spec a))] @
     push_if (has_public_vox a) [mount ''omegon-extensions'' ''/data/omegon/extensions''] @
     push_if (has_aether a) [mount ''shared'' ''/shared'', mount_ro ''extensions'' ''/extensions''] @
     push_some (sec_auth_json_secret (oas_secrets (oa_spec a))) (\<lambda>_.
       [mount_ro ''auth-json'' ''/config/omegon'']) @
     push_if (provisions_identity a) [mount_ro ''styrene-id'' ''/run/styrene/identity''] @
     push_some (resolved_control_tls a name) (\<lambda>_. [mount_ro ''control-tls'' CONTROL_TLS_MOUNT_PATH]) @
     push_some (sec_secret_name (oas_secrets (oa_spec a))) (\<lambda>_.
       [mount_ro ''runtime-secrets'' ''/run/omegon/secrets'']) @
     push_if (is_bounded a)
       (push_some (prompt_volume a name) (\<lambda>_. [mount_ro ''prompt'' (prompt_dir a)]) @
        [mount ''output'' ''/output''])"

section \<open>Arguments\<close>

definition tls_args_enabled :: "process_env \<Rightarrow> bool" where
  "tls_args_enabled env = omegon_runtime_flag_enabled env ''AUSPEX_ENABLE_OMEGON_CONTROL_TLS_ARGS''"

definition tls_args :: "ResolvedControlTls \<Rightarrow> string list" where
  "tls_args tls =
     [''--control-tls-cert'', CONTROL_TLS_MOUNT_PATH @ ''/tls.crt'',
      ''--control-tls-key'', CONTROL_TLS_MOUNT_PATH @ ''/tls.key''] @
     push_if (rct_client_ca_key tls \<noteq> None)
       [''--control-tls-client-ca'', CONTROL_TLS_MOUNT_PATH @ ''/ca.crt'']"

definition bounds_args :: "BoundsSpec \<Rightarrow> string list" where
  "bounds_args b =
     push_some (bnd_max_turns b) (\<lambda>turns. [''--max-turns'', show_nat (unat turns)]) @
     push_some (bnd_timeout b) (\<lambda>timeout. [''--timeout'', show_nat (unat timeout)]) @
     push_some (bnd_token_budget b) (\<lambda>budget. [''--token-budget'', show_nat (unat budget)]) @
     push_some (bnd_context_class b) (\<lambda>c. [''--context-class'', c])"

definition pod_args :: "process_env \<Rightarrow> OmegonAgent \<Rightarrow> string \<Rightarrow> string list" where
  "pod_args env a name =
     (if is_bounded a then [''run'']
      else [''serve'', ''--control-port'', ''7842'', ''--strict-port'']) @
     push_if (\<not> is_bounded a \<and> tls_args_enabled env)
       (push_some (resolved_control_tls a name) tls_args) @
     [''--agent'', oas_agent (oa_spec a), ''--model'', oas_model (oa_spec a)] @
     push_if (omegon_runtime_flag_enabled env ''AUSPEX_ENABLE_OMEGON_POSTURE_ARG'')
       [''--posture'', oas_posture (oa_spec a)] @
     push_some (oas_bounds (oa_spec a)) bounds_args @
     push_if (is_bounded a)
       (push_some (oas_prompt (oa_spec a)) (\<lambda>p.
          [''--prompt-file'', pr_mount_path p, ''--output'', pr_output_path p]))"

section \<open>Containers\<close>

definition probe_curl_args :: "bool \<Rightarrow> string \<Rightarrow> string list" where
  "probe_curl_args https path =
     (let url = (if https then ''https'' else ''http'') @ ''://127.0.0.1:7842'' @ path
      in if https then [''curl'', ''-kfsS'', url] else [''curl'', ''-fsS'', url])"

definition probe :: "string list \<Rightarrow> int \<Rightarrow> int \<Rightarrow> json" where
  "probe command delay period =
     jobj [(''exec'', jobj [(''command'', JArr (map JStr command))]),
           (''initialDelaySeconds'', JNum delay), (''periodSeconds'', JNum period)]"

definition daemon_fields :: "bool \<Rightarrow> json \<Rightarrow> json" where
  "daemon_fields https c =
     jinsert ''readinessProbe'' (probe (probe_curl_args https ''/api/readyz'') 10 10)
       (jinsert ''livenessProbe'' (probe (probe_curl_args https ''/api/healthz'') 15 30)
         (jinsert ''ports'' (JArr [jobj [(''containerPort'', JNum 7842)]]) c))"

text \<open>Requests and limits are the same map of what is set, and are left out when nothing is.\<close>

definition resource_map :: "ResourcesSpec \<Rightarrow> (string \<times> json) list" where
  "resource_map res =
     push_some (res_cpu res) (\<lambda>cpu. [(''cpu'', JStr cpu)]) @
     push_some (res_memory res) (\<lambda>mem. [(''memory'', JStr mem)])"

definition pod_resources :: "OmegonAgent \<Rightarrow> json option" where
  "pod_resources a =
     (case oas_resources (oa_spec a) of
        None \<Rightarrow> None
      | Some res \<Rightarrow>
          if resource_map res = [] then None
          else Some (jobj [(''requests'', jobj (resource_map res)),
                           (''limits'', jobj (resource_map res))]))"

definition agent_container :: "process_env \<Rightarrow> OmegonAgent \<Rightarrow> string \<Rightarrow> json" where
  "agent_container env a name =
     (let c = jobj [(''name'', JStr ''agent''), (''image'', JStr (oas_image (oa_spec a))),
                    (''command'', JArr [JStr ''omegon'']),
                    (''args'', JArr (map JStr (pod_args env a name))),
                    (''env'', JArr (pod_env a)), (''envFrom'', JArr []),
                    (''volumeMounts'', JArr (pod_mounts a name))];
          https = resolved_control_tls a name \<noteq> None \<and> tls_args_enabled env;
          c = (if is_bounded a then c else daemon_fields https c)
      in jinsert_opt ''resources'' (pod_resources a) c)"

definition styrened_container :: "process_env \<Rightarrow> OmegonAgent \<Rightarrow> json" where
  "styrened_container env a =
     jobj [(''name'', JStr ''styrened''), (''image'', JStr (styrened_image env)),
           (''env'', JArr ([env_entry ''STYRENED_SOCKET'' ''/shared/styrened.sock''] @
              push_if (provisions_identity a)
                [env_entry ''STYRENE_IDENTITY_PATH'' ''/run/styrene/identity/root-secret''])),
           (''ports'', JArr [jobj [(''containerPort'', JNum 9101), (''name'', JStr ''metrics''),
                                   (''protocol'', JStr ''TCP'')]]),
           (''volumeMounts'', JArr ([mount ''shared'' ''/shared'',
                                     mount_ro ''styrened-config'' ''/etc/styrene''] @
              push_if (provisions_identity a) [mount_ro ''styrene-id'' ''/run/styrene/identity''])),
           (''resources'',
              jobj [(''requests'', jobj [(''cpu'', JStr ''50m''), (''memory'', JStr ''64Mi'')]),
                    (''limits'', jobj [(''cpu'', JStr ''200m''), (''memory'', JStr ''128Mi'')])])]"

definition nl :: string where
  "nl = [CHR 0x0A]"

definition install_vox_script :: string where
  "install_vox_script =
     ''set -euo pipefail'' @ nl @
     ''apk add --no-cache ca-certificates curl tar'' @ nl @
     ''mkdir -p /work /extensions/vox'' @ nl @
     ''curl -fsSL https://github.com/styrene-lab/vox/releases/download/v0.1.5/'' @
     ''vox-0.1.5-x86_64-unknown-linux-musl.tar.gz -o /work/vox.tar.gz'' @ nl @
     ''tar -xzf /work/vox.tar.gz -C /work'' @ nl @
     ''root=$(find /work -mindepth 1 -maxdepth 1 -type d -name '' @ [CHR 0x27] @ ''vox-*'' @
     [CHR 0x27] @ '' | head -n1)'' @ nl @
     ''cp -a '' @ [CHR 0x22] @ ''$root'' @ [CHR 0x22] @ ''/* /extensions/vox/'' @ nl @
     ''chmod +x /extensions/vox/vox'' @ nl @
     ''/extensions/vox/vox --help >/dev/null''"

definition install_aether_script :: string where
  "install_aether_script =
     ''mkdir -p /extensions/aether && '' @
     ''cp /usr/local/bin/aether /extensions/aether/aether && '' @
     ''cp /usr/local/lib/omegon/extensions/aether/manifest.toml '' @
     ''/extensions/aether/manifest.toml''"

definition init_container :: "string \<Rightarrow> string \<Rightarrow> string \<Rightarrow> string \<Rightarrow> json" where
  "init_container name img script vol =
     jobj [(''name'', JStr name), (''image'', JStr img),
           (''command'', JArr [JStr ''/bin/sh'', JStr ''-c'', JStr script]),
           (''volumeMounts'', JArr [mount vol ''/extensions''])]"

definition pod_init_containers :: "process_env \<Rightarrow> OmegonAgent \<Rightarrow> json list" where
  "pod_init_containers env a =
     push_if (has_public_vox a)
       [init_container ''install-vox'' ''alpine:3.20'' install_vox_script ''omegon-extensions''] @
     push_if (has_aether a)
       [init_container ''install-aether'' (aether_image env) install_aether_script ''extensions'']"

definition pod_containers :: "process_env \<Rightarrow> OmegonAgent \<Rightarrow> string \<Rightarrow> json list" where
  "pod_containers env a name =
     agent_container env a name # push_if (has_aether a) [styrened_container env a]"

section \<open>Annotations\<close>

definition vault_suffix :: "string \<Rightarrow> string" where
  "vault_suffix destination =
     replace_char (CHR ''/'') (CHR ''-'') (trim_start_char (CHR ''/'') destination)"

definition vault_secret_annotations :: "VaultSecretMapping \<Rightarrow> (string \<times> json) list" where
  "vault_secret_annotations mapping =
     (let suffix = vault_suffix (vsm_destination mapping) in
      [(''vault.hashicorp.com/agent-inject-secret-'' @ suffix, JStr (vsm_path mapping))] @
      push_some (vsm_template mapping) (\<lambda>template.
        [(''vault.hashicorp.com/agent-inject-template-'' @ suffix, JStr template)]))"

definition vault_annotations :: "VaultSpec \<Rightarrow> (string \<times> json) list" where
  "vault_annotations vault =
     [(''vault.hashicorp.com/agent-inject'', JStr ''true'')] @
     push_some (vs_role vault) (\<lambda>role. [(''vault.hashicorp.com/role'', JStr role)]) @
     push_some (vs_address vault) (\<lambda>addr.
       [(''vault.hashicorp.com/agent-inject-status'', JStr ''update''),
        (''vault.hashicorp.com/agent-address'', JStr addr)]) @
     concat (map vault_secret_annotations (vs_secrets vault))"

definition annotation_inserts :: "OmegonAgent \<Rightarrow> (string \<times> json) list" where
  "annotation_inserts a =
     push_some (oas_profile (oa_spec a)) (\<lambda>profile. [(''styrene.sh/profile'', JStr profile)]) @
     push_some (oas_sbom (oa_spec a)) (\<lambda>sbom.
       push_if (sbom_enabled sbom)
         ([(''styrene.sh/sbom-format'', JStr (sbom_format sbom))] @
          push_some (sbom_artifact_ref sbom) (\<lambda>artifact. [(''styrene.sh/sbom-ref'', JStr artifact)]))) @
     push_some (sec_vault (oas_secrets (oa_spec a))) (\<lambda>vault.
       push_if (vs_agent_inject vault) (vault_annotations vault))"

record PodTemplate =
  pt_spec :: json
  pt_annotations :: "json option"

definition pod_spec :: "process_env \<Rightarrow> OmegonAgent \<Rightarrow> string \<Rightarrow> PodTemplate" where
  "pod_spec env a name =
     \<lparr>pt_spec = jobj [(''initContainers'', JArr (pod_init_containers env a)),
                      (''containers'', JArr (pod_containers env a name)),
                      (''volumes'', JArr (pod_volumes a name)),
                      (''terminationGracePeriodSeconds'', JNum (if is_bounded a then 30 else 60))],
      pt_annotations = (if annotation_inserts a = [] then None else Some (jobj (annotation_inserts a)))\<rparr>"

end
