(* ===== verification/Operator_Identity.thy ===== *)
theory Operator_Identity
  imports Operator_Pod
begin

text \<open>
  Identity provisioning (\<open>auspex-operator/src/identity.rs\<close>): the operator reads its root secret
  from the cluster, derives the root of the agent and the public keys from it, and writes the agent
  secret and, when control-plane TLS is on, the certificate secret.  Reading a secret and applying
  an object are the cluster (\<open>read\<close>, \<open>api\<close>); the derivations of \<open>styrene_identity\<close> and the digest of
  \<open>sha2\<close> are the parameter \<open>crypto\<close>.  What was sent to the cluster comes back with the result.
\<close>

unbundle bit_operations_syntax

type_synonym byte = "8 word"

section \<open>Encodings\<close>

definition utf8_bytes :: "string \<Rightarrow> byte list" where
  "utf8_bytes s = map of_char s"

definition BASE64_CHARS :: string where
  "BASE64_CHARS = ''ABCDEFGHIJKLMNOPQRSTUVWXYZabcdefghijklmnopqrstuvwxyz0123456789+/''"

text \<open>\<open>slice::chunks\<close>.\<close>

fun chunks :: "nat \<Rightarrow> 'a list \<Rightarrow> 'a list list" where
  "chunks n [] = []"
| "chunks n (x # xs) = take n (x # xs) # chunks n (drop (n - 1) xs)"

definition get_or :: "'a \<Rightarrow> nat \<Rightarrow> 'a list \<Rightarrow> 'a" where
  "get_or d i xs = (if i < length xs then xs ! i else d)"

definition sextet :: "u32 \<Rightarrow> nat \<Rightarrow> char" where
  "sextet n k = BASE64_CHARS ! unat (drop_bit k n AND 63)"

definition encode_chunk :: "byte list \<Rightarrow> string" where
  "encode_chunk chunk =
     (let b0 = ucast (get_or 0 0 chunk) :: u32;
          b1 = ucast (get_or 0 1 chunk);
          b2 = ucast (get_or 0 2 chunk);
          n = push_bit 16 b0 OR push_bit 8 b1 OR b2
      in [sextet n 18, sextet n 12,
          if 1 < length chunk then sextet n 6 else CHR ''='',
          if 2 < length chunk then sextet n 0 else CHR ''=''])"

definition base64_encode :: "byte list \<Rightarrow> string" where
  "base64_encode bytes = concat (map encode_chunk (chunks 3 bytes))"

definition hex_digit :: "nat \<Rightarrow> char" where
  "hex_digit d = ''0123456789abcdef'' ! d"

definition hex_encode :: "byte list \<Rightarrow> string" where
  "hex_encode bytes = concat (map (\<lambda>b. [hex_digit (unat b div 16), hex_digit (unat b mod 16)]) bytes)"

section \<open>The cluster and the derivations\<close>

datatype ObjectKind = ConfigMap | Deployment | CronJob | Job | Service | Secret | Agent

text \<open>One \<open>Patch::Apply\<close>: the kind, namespace and name it is sent for, the manager, the object.\<close>

record ApiPatch =
  ap_kind :: ObjectKind
  ap_namespace :: string
  ap_name :: string
  ap_manager :: string
  ap_object :: json

type_synonym cluster = "ApiPatch \<Rightarrow> string option"

text \<open>A \<open>Secret\<close> as read from the cluster: its labels and its data.\<close>

record KubeSecret =
  ks_labels :: "(string, string) btree option"
  ks_data :: "(string, byte list) btree option"

type_synonym secret_reader = "string \<Rightarrow> string \<Rightarrow> string + KubeSecret"

datatype KeyPurpose = Signing | RnsEncryption | WireGuard

record StyreneCertificateProfile =
  scp_profile :: string
  scp_ca_epoch :: string
  scp_leaf_epoch :: string
  scp_validity :: ControlPlaneTlsValiditySpec

record StyreneCertificateChain =
  scc_cert_chain_pem :: string
  scc_private_key_pem :: string
  scc_ca_bundle_pem :: string
  scc_ca_fingerprint_sha256 :: string
  scc_leaf_fingerprint_sha256 :: string
  scc_uri_san :: string
  scc_profile :: StyreneCertificateProfile

record crypto =
  cr_agent_key :: "byte list \<Rightarrow> string \<Rightarrow> string + byte list"
  cr_derive :: "byte list \<Rightarrow> KeyPurpose \<Rightarrow> byte list"
  cr_ed25519_public :: "byte list \<Rightarrow> byte list"
  cr_x25519_public :: "byte list \<Rightarrow> byte list"
  cr_sha256 :: "byte list \<Rightarrow> byte list"
  cr_server_chain :: "byte list \<Rightarrow> string \<Rightarrow> string \<Rightarrow> string list \<Rightarrow>
                        StyreneCertificateProfile \<Rightarrow> string + StyreneCertificateChain"

datatype IdentityError =
    NotConfigured
  | OperatorSecretMissing string
  | DerivationFailed string
  | SecretCreationFailed string
  | ControlTlsSecretCreationFailed string

record ProvisionedControlTls =
  pct_secret_name :: string
  pct_ca_fingerprint_sha256 :: string
  pct_server_fingerprint_sha256 :: string

record ProvisionedIdentity =
  pid_secret_name :: string
  pid_rns_destination_hash :: string
  pid_wireguard_pubkey :: string
  pid_mesh_role :: string
  pid_control_tls :: "ProvisionedControlTls option"

section \<open>Manifests\<close>

definition owner_ref :: "OmegonAgent \<Rightarrow> json" where
  "owner_ref a =
     jobj [(''apiVersion'', JStr ''styrene.sh/v1alpha1''), (''kind'', JStr ''OmegonAgent''),
           (''name'', JStr (oa_name_any a)), (''uid'', JStr (unwrap_or (oa_uid a) '''')),
           (''controller'', JBool True), (''blockOwnerDeletion'', JBool True)]"

text \<open>The metadata every generated object has, and the further fields of some.\<close>

definition owned_metadata :: "OmegonAgent \<Rightarrow> string \<Rightarrow> string \<Rightarrow> (string \<times> json) list \<Rightarrow> json" where
  "owned_metadata a ns name extra =
     jobj ([(''name'', JStr name), (''namespace'', JStr ns),
            (''ownerReferences'', JArr [owner_ref a])] @ extra)"

definition operator_patch :: "ObjectKind \<Rightarrow> string \<Rightarrow> string \<Rightarrow> json \<Rightarrow> ApiPatch" where
  "operator_patch kind ns name obj =
     \<lparr>ap_kind = kind, ap_namespace = ns, ap_name = name, ap_manager = ''auspex-operator'',
      ap_object = obj\<rparr>"

definition agent_secret_patch ::
  "OmegonAgent \<Rightarrow> string \<Rightarrow> string \<Rightarrow> byte list \<Rightarrow> string \<Rightarrow> ApiPatch"
where
  "agent_secret_patch a ns name agent_root label =
     operator_patch Secret ns (name @ ''-styrene-id'')
       (jobj [(''apiVersion'', JStr ''v1''), (''kind'', JStr ''Secret''),
              (''metadata'', owned_metadata a ns (name @ ''-styrene-id'')
                 [(''labels'', jobj [(''styrene.sh/identity'', JStr ''agent''),
                                     (''styrene.sh/agent'', JStr name)])]),
              (''type'', JStr ''Opaque''),
              (''data'', jobj [(''root-secret'', JStr (base64_encode agent_root)),
                               (''derivation-label'', JStr (base64_encode (utf8_bytes label)))])])"

definition control_tls_ca_scope :: "string \<Rightarrow> string" where
  "control_tls_ca_scope ns = ''auspex-control/'' @ ns"

definition control_tls_subject_alt_names :: "string \<Rightarrow> string \<Rightarrow> string list" where
  "control_tls_subject_alt_names ns name =
     [name, name @ ''.'' @ ns, name @ ''.'' @ ns @ ''.svc'', name @ ''.'' @ ns @ ''.svc.cluster.local'']"

definition show_int :: "int \<Rightarrow> string" where
  "show_int i = (if i < 0 then CHR ''-'' # show_nat (nat (- i)) else show_nat (nat i))"

definition years :: "i32 \<Rightarrow> i32 \<Rightarrow> string" where
  "years a b = show_int (sint a) @ ''-'' @ show_int (sint b)"

definition tls_data :: "ResolvedControlTls \<Rightarrow> StyreneCertificateChain \<Rightarrow> (string \<times> json) list" where
  "tls_data tls chain =
     [(rct_cert_key tls, JStr (base64_encode (utf8_bytes (scc_cert_chain_pem chain)))),
      (rct_key_key tls, JStr (base64_encode (utf8_bytes (scc_private_key_pem chain))))] @
     push_some (rct_client_ca_key tls) (\<lambda>k.
       [(k, JStr (base64_encode (utf8_bytes (scc_ca_bundle_pem chain))))])"

definition control_tls_secret_manifest ::
  "OmegonAgent \<Rightarrow> string \<Rightarrow> ResolvedControlTls \<Rightarrow> StyreneCertificateChain \<Rightarrow> json"
where
  "control_tls_secret_manifest a ns tls chain =
     (let profile = scc_profile chain; validity = scp_validity profile in
      jobj [(''apiVersion'', JStr ''v1''), (''kind'', JStr ''Secret''),
            (''metadata'', owned_metadata a ns (rct_secret_name tls)
               [(''labels'', jobj [(''styrene.sh/control-plane-tls'', JStr ''true''),
                   (''styrene.sh/agent'', JStr (unwrap_or (oa_metadata_name a) ''''))]),
                (''annotations'', jobj
                  [(''styrene.sh/ca-fingerprint-sha256'', JStr (scc_ca_fingerprint_sha256 chain)),
                   (''styrene.sh/server-fingerprint-sha256'', JStr (scc_leaf_fingerprint_sha256 chain)),
                   (''styrene.sh/certificate-uri'', JStr (scc_uri_san chain)),
                   (''styrene.sh/tls-profile'', JStr (scp_profile profile)),
                   (''styrene.sh/tls-ca-epoch'', JStr (scp_ca_epoch profile)),
                   (''styrene.sh/tls-leaf-epoch'', JStr (scp_leaf_epoch profile)),
                   (''styrene.sh/tls-ca-validity'',
                      JStr (years (val_ca_not_before_year validity) (val_ca_not_after_year validity))),
                   (''styrene.sh/tls-leaf-validity'',
                      JStr (years (val_leaf_not_before_year validity) (val_leaf_not_after_year validity)))])]),
            (''type'', JStr ''kubernetes.io/tls''), (''data'', jobj (tls_data tls chain))])"

section \<open>Provisioning\<close>

definition carries_operator_label :: "KubeSecret \<Rightarrow> bool" where
  "carries_operator_label secret \<longleftrightarrow>
     (case ks_labels secret of
        None \<Rightarrow> False
      | Some labels \<Rightarrow> bt_get labels ''styrene.sh/identity'' = Some ''operator'')"

definition quoted :: "string \<Rightarrow> string" where
  "quoted s = [CHR 0x27] @ s @ [CHR 0x27]"

text \<open>The root secret, after all checks on the specification and on the secret.\<close>

definition operator_root ::
  "secret_reader \<Rightarrow> IdentitySpec \<Rightarrow> string \<Rightarrow> IdentityError + byte list"
where
  "operator_root read spec ns =
     (if ids_operator_secret spec = [] then
        Err (OperatorSecretMissing ''operator_secret must not be empty'')
      else if ids_operator_secret_key spec = [] then
        Err (OperatorSecretMissing ''operator_secret_key must not be empty'')
      else case read ns (ids_operator_secret spec) of
        Inl e \<Rightarrow> Err (OperatorSecretMissing (''could not read operator secret '' @
                        quoted (ids_operator_secret spec) @ '': '' @ e))
      | Inr secret \<Rightarrow>
          if \<not> carries_operator_label secret then
            Err (OperatorSecretMissing (''secret '' @ quoted (ids_operator_secret spec) @
                   '' is missing label styrene.sh/identity=operator '' @
                   [CHR 0xE2, CHR 0x80, CHR 0x94] @ '' refusing to read''))
          else case Option.bind (ks_data secret) (\<lambda>d. bt_get d (ids_operator_secret_key spec)) of
            None \<Rightarrow> Err (OperatorSecretMissing (''key '' @ quoted (ids_operator_secret_key spec) @
                            '' not found in operator secret''))
          | Some root \<Rightarrow>
              if length root \<noteq> 32
              then Err (OperatorSecretMissing ''root secret must be exactly 32 bytes'')
              else Ok root)"

definition rns_destination_hash :: "crypto \<Rightarrow> byte list \<Rightarrow> byte list \<Rightarrow> byte list" where
  "rns_destination_hash c signing encryption = take 16 (cr_sha256 c (signing @ encryption))"

definition tls_certificate_profile :: "ResolvedControlTls \<Rightarrow> StyreneCertificateProfile" where
  "tls_certificate_profile tls =
     \<lparr>scp_profile = rct_profile tls, scp_ca_epoch = rct_ca_epoch tls,
      scp_leaf_epoch = rct_leaf_epoch tls, scp_validity = rct_validity tls\<rparr>"

definition provision_control_tls_secret ::
  "crypto \<Rightarrow> cluster \<Rightarrow> OmegonAgent \<Rightarrow> string \<Rightarrow> string \<Rightarrow> byte list \<Rightarrow>
   ApiPatch list \<times> (string + ProvisionedControlTls)"
where
  "provision_control_tls_secret c api a ns name root =
     (case resolved_control_tls a name of
        None \<Rightarrow> ([], Err ''control-plane TLS is not configured'')
      | Some tls \<Rightarrow>
          (case cr_server_chain c root (control_tls_ca_scope ns) (ns @ ''/'' @ name)
                  (control_tls_subject_alt_names ns name) (tls_certificate_profile tls) of
             Inl e \<Rightarrow> ([], Err (''certificate derivation failed: '' @ e))
           | Inr chain \<Rightarrow>
               (let p = operator_patch Secret ns (rct_secret_name tls)
                          (control_tls_secret_manifest a ns tls chain)
                in ([p], case api p of
                           Some e \<Rightarrow> Err (''kubernetes secret patch failed: '' @ e)
                         | None \<Rightarrow>
                             Ok \<lparr>pct_secret_name = rct_secret_name tls,
                                 pct_ca_fingerprint_sha256 = scc_ca_fingerprint_sha256 chain,
                                 pct_server_fingerprint_sha256 = scc_leaf_fingerprint_sha256 chain\<rparr>))))"

definition provision_identity ::
  "crypto \<Rightarrow> secret_reader \<Rightarrow> cluster \<Rightarrow> OmegonAgent \<Rightarrow> string \<Rightarrow> string \<Rightarrow>
   ApiPatch list \<times> (IdentityError + ProvisionedIdentity)"
where
  "provision_identity c read api a ns name =
     (case oas_identity (oa_spec a) of
        None \<Rightarrow> ([], Err NotConfigured)
      | Some spec \<Rightarrow>
          if \<not> ids_provision spec then ([], Err NotConfigured)
          else case operator_root read spec ns of
            Inl e \<Rightarrow> ([], Err e)
          | Inr root \<Rightarrow>
              (let label = unwrap_or (ids_derivation_label spec) (ns @ ''/'' @ name) in
               case cr_agent_key c root label of
                 Inl e \<Rightarrow> ([], Err (DerivationFailed e))
               | Inr agent_root \<Rightarrow>
                   (let signing = cr_ed25519_public c (cr_derive c agent_root Signing);
                        encryption = cr_x25519_public c (cr_derive c agent_root RnsEncryption);
                        wireguard = cr_x25519_public c (cr_derive c agent_root WireGuard);
                        p = agent_secret_patch a ns name agent_root label;
                        finish = (\<lambda>control_tls.
                          Ok \<lparr>pid_secret_name = name @ ''-styrene-id'',
                              pid_rns_destination_hash = hex_encode (rns_destination_hash c signing encryption),
                              pid_wireguard_pubkey = base64_encode wireguard,
                              pid_mesh_role = ids_mesh_role spec, pid_control_tls = control_tls\<rparr>)
                    in case api p of
                         Some e \<Rightarrow> ([p], Err (SecretCreationFailed e))
                       | None \<Rightarrow>
                           if \<not> control_plane_tls_enabled a then ([p], finish None)
                           else (case provision_control_tls_secret c api a ns name root of
                                   (sent, Inl e) \<Rightarrow> (p # sent, Err (ControlTlsSecretCreationFailed e))
                                 | (sent, Inr tls) \<Rightarrow> (p # sent, finish (Some tls))))))"

end
