(* ===== verification/Operator_Pod_Props.thy ===== *)
theory Operator_Pod_Props
  imports Operator_Pod "HOL-Library.Sublist"
begin

text \<open>
  The pod templates are well-typed Kubernetes objects: the volumes have distinct names and one
  source each, the containers have distinct names, and every mount names a volume of the pod.  The
  mount paths of the agent container are distinct as long as the prompt directory is none of them.
\<close>

section \<open>Reading a template\<close>

definition elements :: "json \<Rightarrow> string \<Rightarrow> json list" where
  "elements v k = (case Option.bind (jget v k) as_array of None \<Rightarrow> [] | Some xs \<Rightarrow> xs)"

definition strings_at :: "string \<Rightarrow> json list \<Rightarrow> string list" where
  "strings_at k vs = List.map_filter (\<lambda>v. Option.bind (jget v k) as_str) vs"

abbreviation names :: "json list \<Rightarrow> string list" where
  "names \<equiv> strings_at ''name''"

definition mount_names :: "json \<Rightarrow> string list" where
  "mount_names container = names (elements container ''volumeMounts'')"

definition volume_kinds :: "string set" where
  "volume_kinds = {''configMap'', ''secret'', ''emptyDir''}"

text \<open>A volume has its name and exactly one source, which is an object.\<close>

definition volume_ok :: "json \<Rightarrow> bool" where
  "volume_ok v \<longleftrightarrow>
     (\<exists>name kind source. v = jobj [(''name'', JStr name), (kind, jobj source)] \<and> kind \<in> volume_kinds)"

lemma strings_at_simps [simp]:
  "strings_at k [] = []"
  "strings_at k (xs @ ys) = strings_at k xs @ strings_at k ys"
  by (simp_all add: strings_at_def map_filter_simps map_filter_def)

lemma strings_at_Cons:
  "strings_at k (v # vs) =
     (case Option.bind (jget v k) as_str of None \<Rightarrow> strings_at k vs | Some s \<Rightarrow> s # strings_at k vs)"
  by (simp add: strings_at_def map_filter_simps split: option.split)

lemma as_str_jobj [simp]: "as_str (jobj kvs) = None"
  by (simp add: jobj_def)

lemma names_Cons [simp]:
  "names (volume name kind source # vs) = (if kind = ''name'' then [] else [name]) @ names vs"
  "names (mount name path # vs) = name # names vs"
  "names (mount_ro name path # vs) = name # names vs"
  "names (init_container name img script vol # vs) = name # names vs"
  "names (styrened_container env a # vs) = ''styrened'' # names vs"
  by (simp_all add: strings_at_Cons volume_def mount_def mount_ro_def init_container_def styrened_container_def)

lemma daemon_fields_simps [simp]:
  "jok c \<Longrightarrow> jok (daemon_fields https c)"
  "is_object (daemon_fields https c) \<longleftrightarrow> is_object c"
  by (simp_all add: daemon_fields_def)

lemma jget_daemon_fields:
  assumes "jok c" "is_object c" "k \<noteq> ''ports''" "k \<noteq> ''livenessProbe''" "k \<noteq> ''readinessProbe''"
  shows "jget (daemon_fields https c) k = jget c k"
  using assms by (simp add: daemon_fields_def)

text \<open>The fields of the agent container that no later step overwrites.\<close>

lemma agent_container_get:
  assumes "k \<noteq> ''ports''" "k \<noteq> ''livenessProbe''" "k \<noteq> ''readinessProbe''" "k \<noteq> ''resources''"
  shows "jget (agent_container env a name) k =
    map_of (rev [(''name'', JStr ''agent''), (''image'', JStr (oas_image (oa_spec a))),
      (''command'', JArr [JStr ''omegon'']), (''args'', JArr (map JStr (pod_args env a name))),
      (''env'', JArr (pod_env a)), (''envFrom'', JArr []),
      (''volumeMounts'', JArr (pod_mounts a name))]) k"
  using assms by (cases "is_bounded a") (simp_all only: agent_container_def Let_def if_True if_False
      jget_jinsert_opt jget_daemon_fields daemon_fields_simps jok_jobj is_object_jobj jget_jobj simp_thms)

lemma agent_container_field:
  "jget (agent_container env a name) ''name'' = Some (JStr ''agent'')"
  "jget (agent_container env a name) ''args'' = Some (JArr (map JStr (pod_args env a name)))"
  "jget (agent_container env a name) ''volumeMounts'' = Some (JArr (pod_mounts a name))"
  by (simp_all add: agent_container_get)

lemma names_agent [simp]: "names (agent_container env a name # vs) = ''agent'' # names vs"
  by (simp add: strings_at_Cons agent_container_field)

lemma names_push_if [simp]: "names (push_if b xs) = push_if b (names xs)"
  by (simp add: push_if_def)

lemma names_push_some [simp]: "names (push_some x f) = push_some x (\<lambda>b. names (f b))"
  by (simp add: push_some_def split: option.split)

lemma push_some_simps [simp]: "push_some None f = []" "push_some (Some b) f = f b"
  by (simp_all add: push_some_def)

lemma set_push [simp]:
  "set (push_if b xs) = (if b then set xs else {})"
  "set (push_some x f) = (case x of None \<Rightarrow> {} | Some b \<Rightarrow> set (f b))"
  by (simp_all add: push_if_def push_some_def split: option.split)

lemma prompt_volume_shape:
  "prompt_volume a name = Some v \<Longrightarrow>
     \<exists>kind source. v = volume ''prompt'' kind source \<and> kind \<in> {''secret'', ''configMap''}"
  by (auto simp: prompt_volume_def split: option.splits if_splits)

lemma names_prompt [simp]:
  "prompt_volume a name = Some v \<Longrightarrow> names (v # vs) = ''prompt'' # names vs"
  by (drule prompt_volume_shape) auto

section \<open>Volumes and mounts\<close>

definition volume_names :: "OmegonAgent \<Rightarrow> string \<Rightarrow> string list" where
  "volume_names a name =
     [''vox-config'', ''agent-catalog''] @ push_if (has_public_vox a) [''omegon-extensions''] @
     push_if (has_aether a) [''shared'', ''extensions'', ''styrened-config''] @
     push_some (sec_auth_json_secret (oas_secrets (oa_spec a))) (\<lambda>_. [''auth-json'']) @
     push_if (provisions_identity a) [''styrene-id''] @
     push_some (resolved_control_tls a name) (\<lambda>_. [''control-tls'']) @
     push_some (sec_secret_name (oas_secrets (oa_spec a))) (\<lambda>_. [''runtime-secrets'']) @
     push_if (is_bounded a) (push_some (prompt_volume a name) (\<lambda>_. [''prompt'']) @ [''output''])"

lemma names_pod_volumes: "names (pod_volumes a name) = volume_names a name"
  by (cases "prompt_volume a name") (simp_all add: pod_volumes_def volume_names_def)

text \<open>The names of all volumes a pod can have, in their order; every pod has some of them.\<close>

definition possible_volumes :: "string list" where
  "possible_volumes =
     [''vox-config'', ''agent-catalog''] @ [''omegon-extensions''] @
     [''shared'', ''extensions'', ''styrened-config''] @ [''auth-json''] @ [''styrene-id''] @
     [''control-tls''] @ [''runtime-secrets''] @ [''prompt''] @ [''output'']"

lemma subseq_push:
  "subseq (push_if b xs) xs"
  "subseq (push_some x (\<lambda>_. xs)) xs"
  by (simp_all add: push_if_def push_some_def split: option.split)

lemma subseq_push_if: "subseq xs ys \<Longrightarrow> subseq (push_if b xs) ys"
  by (simp add: push_if_def)

lemma volume_names_possible: "subseq (volume_names a name) possible_volumes"
  unfolding volume_names_def possible_volumes_def
  by (intro list_emb_append_mono subseq_push subseq_push_if subseq_order.order_refl)

lemma distinct_volume_names: "distinct (volume_names a name)"
proof -
  have "distinct possible_volumes" by (simp add: possible_volumes_def)
  with volume_names_possible show ?thesis
    by (metis distinct_nthsI subseq_conv_nths)
qed

lemma names_pod_mounts: "set (names (pod_mounts a name)) \<subseteq> set (volume_names a name)"
  by (auto simp: pod_mounts_def volume_names_def split: option.splits)

lemma elements_simps [simp]:
  "elements (jobj kvs) k = (case Option.bind (map_of (rev kvs) k) as_array of None \<Rightarrow> [] | Some xs \<Rightarrow> xs)"
  by (simp add: elements_def)

lemma mount_names_simps:
  "mount_names (agent_container env a name) = names (pod_mounts a name)"
  "mount_names (styrened_container env a) =
     [''shared'', ''styrened-config''] @ push_if (provisions_identity a) [''styrene-id'']"
  "mount_names (init_container n img script vol) = [vol]"
  by (simp_all add: mount_names_def elements_def agent_container_field styrened_container_def
      init_container_def)

lemma volumes_ok: "list_all volume_ok (pod_volumes a name)"
proof -
  have ok: "volume_ok (volume n k source)" if "k \<in> volume_kinds" for n k source
    using that by (auto simp: volume_ok_def volume_def)
  have "prompt_volume a name = Some v \<Longrightarrow> volume_ok v" for v
    by (drule prompt_volume_shape) (auto intro: ok simp: volume_kinds_def)
  then show ?thesis
    by (auto simp: pod_volumes_def list_all_iff ok volume_kinds_def split: option.splits)
qed

text \<open>
  C22: Every pod template the operator generates is a well-typed Kubernetes object, whatever the
  agent asks for: its volumes have pairwise distinct names and exactly one source each, its
  containers and init containers have pairwise distinct names, and every mount of every container
  names a volume the pod declares.
\<close>

theorem pod_template_is_well_typed:
  fixes env a name
  defines "spec \<equiv> pt_spec (pod_spec env a name)"
  defines "containers \<equiv> elements spec ''initContainers'' @ elements spec ''containers''"
  defines "volumes \<equiv> elements spec ''volumes''"
  shows "distinct (names volumes) \<and> list_all volume_ok volumes \<and> distinct (names containers) \<and>
         set (concat (map mount_names containers)) \<subseteq> set (names volumes)"
proof -
  have vols: "volumes = pod_volumes a name"
    and conts: "containers = pod_init_containers env a @ pod_containers env a name"
    by (simp_all add: volumes_def containers_def spec_def pod_spec_def)
  have "set (concat (map mount_names containers)) \<subseteq> set (volume_names a name)"
    using names_pod_mounts [of a name]
    by (auto simp: conts pod_init_containers_def pod_containers_def mount_names_simps
        volume_names_def push_if_def split: if_splits)
  moreover have "distinct (names containers)"
    by (simp add: conts pod_init_containers_def pod_containers_def push_if_def)
  ultimately show ?thesis
    by (simp add: vols names_pod_volumes distinct_volume_names volumes_ok)
qed

section \<open>Mount paths\<close>

abbreviation paths :: "json list \<Rightarrow> string list" where
  "paths \<equiv> strings_at ''mountPath''"

lemma paths_simps [simp]:
  "paths (mount name path # vs) = path # paths vs"
  "paths (mount_ro name path # vs) = path # paths vs"
  "paths (push_if b xs) = push_if b (paths xs)"
  "paths (push_some x f) = push_some x (\<lambda>b. paths (f b))"
  by (simp_all add: strings_at_Cons mount_def mount_ro_def push_if_def push_some_def split: option.split)

text \<open>The mount paths the agent container can have apart from the prompt directory and \<open>/output\<close>.\<close>

definition fixed_paths :: "OmegonAgent \<Rightarrow> string \<Rightarrow> string list" where
  "fixed_paths a name =
     [''/config/vox'', ''/data/omegon/catalog/'' @ oas_agent (oa_spec a)] @
     push_if (has_public_vox a) [''/data/omegon/extensions''] @
     push_if (has_aether a) [''/shared'', ''/extensions''] @
     push_some (sec_auth_json_secret (oas_secrets (oa_spec a))) (\<lambda>_. [''/config/omegon'']) @
     push_if (provisions_identity a) [''/run/styrene/identity''] @
     push_some (resolved_control_tls a name) (\<lambda>_. [''/run/omegon/control-tls'']) @
     push_some (sec_secret_name (oas_secrets (oa_spec a))) (\<lambda>_. [''/run/omegon/secrets''])"

lemma paths_pod_mounts:
  "paths (pod_mounts a name) =
     fixed_paths a name @ push_if (is_bounded a)
       (push_some (prompt_volume a name) (\<lambda>_. [prompt_dir a]) @ [''/output''])"
  by (cases "prompt_volume a name")
    (simp_all add: pod_mounts_def fixed_paths_def CONTROL_TLS_MOUNT_PATH_def)

lemma distinct_fixed_paths: "distinct (fixed_paths a name @ [''/output''])"
proof -
  let ?possible = "[''/config/vox'', ''/data/omegon/catalog/'' @ oas_agent (oa_spec a)] @
     [''/data/omegon/extensions''] @ [''/shared'', ''/extensions''] @ [''/config/omegon''] @
     [''/run/styrene/identity''] @ [''/run/omegon/control-tls''] @ [''/run/omegon/secrets'']"
  have "subseq (fixed_paths a name) ?possible"
    unfolding fixed_paths_def
    by (intro list_emb_append_mono subseq_push subseq_push_if subseq_order.order_refl)
  then have "subseq (fixed_paths a name @ [''/output'']) (?possible @ [''/output''])"
    by (intro list_emb_append_mono subseq_order.order_refl)
  moreover have "distinct (?possible @ [''/output''])" by simp
  ultimately show ?thesis by (metis distinct_nthsI subseq_conv_nths)
qed

lemma distinct_push: "distinct (xs @ ys) \<Longrightarrow> distinct (xs @ push_if b ys)"
  by (simp add: push_if_def)

lemma distinct_with_prompt:
  "distinct (ps @ [out]) \<Longrightarrow> distinct (ps @ [p, out]) \<longleftrightarrow> p \<notin> insert out (set ps)"
  by auto

text \<open>
  Kubernetes refuses a container that mounts two volumes at one path.  The agent container of a
  generated pod is refused for that reason exactly when it has a prompt volume and the directory of
  the prompt path is one of the paths the operator uses itself, such as \<open>/output\<close>.
\<close>

theorem mount_paths_clash_on_prompt_only:
  "\<not> distinct (paths (pod_mounts a name)) \<longleftrightarrow>
     is_bounded a \<and> prompt_volume a name \<noteq> None \<and>
     prompt_dir a \<in> insert ''/output'' (set (fixed_paths a name))"
proof (cases "is_bounded a \<and> prompt_volume a name \<noteq> None")
  case True
  then have "paths (pod_mounts a name) = fixed_paths a name @ [prompt_dir a, ''/output'']"
    by (auto simp: paths_pod_mounts push_if_def)
  with True show ?thesis
    by (simp only: distinct_with_prompt [OF distinct_fixed_paths] simp_thms)
next
  case False
  then have "paths (pod_mounts a name) = fixed_paths a name @ push_if (is_bounded a) [''/output'']"
    by (auto simp: paths_pod_mounts push_if_def)
  then have "distinct (paths (pod_mounts a name))"
    by (simp only: distinct_push [OF distinct_fixed_paths])
  with False show ?thesis by blast
qed

section \<open>The prompt file\<close>

lemma before_last_slash_append: "before_last_slash (d @ ''/prompt.txt'') = Some d"
  by (simp add: before_last_slash_def)

text \<open>
  A prompt from a secret or from the inline text is mounted as the file \<open>prompt.txt\<close> in the
  directory of the mount path, whatever the path calls the file: the agent is started with a path
  that exists only when the file is called so.
\<close>

definition prompt_file :: "OmegonAgent \<Rightarrow> string" where
  "prompt_file a = prompt_dir a @ ''/prompt.txt''"

lemma prompt_argument_exists:
  assumes "oas_prompt (oa_spec a) = Some p" and "CHR ''/'' \<in> set (pr_mount_path p)"
  shows "pr_mount_path p = prompt_file a \<longleftrightarrow> (\<exists>d. pr_mount_path p = d @ ''/prompt.txt'')"
proof
  assume "pr_mount_path p = prompt_file a"
  then show "\<exists>d. pr_mount_path p = d @ ''/prompt.txt''" by (auto simp: prompt_file_def)
next
  assume "\<exists>d. pr_mount_path p = d @ ''/prompt.txt''"
  then obtain d where "pr_mount_path p = d @ ''/prompt.txt''" by blast
  then show "pr_mount_path p = prompt_file a"
    by (simp add: prompt_file_def prompt_dir_def assms(1) before_last_slash_append)
qed

section \<open>Annotations\<close>

lemma vault_destinations_collide:
  "vault_suffix ''/db/password'' = vault_suffix ''db-password''"
  by (simp add: vault_suffix_def replace_char_def trim_start_char_def)

section \<open>Samples\<close>

definition sample_spec :: OmegonAgentSpec where
  "sample_spec =
     \<lparr>oas_agent = ''a'', oas_model = ''m'', oas_posture = ''fabricator'',
      oas_role = ''supervised-child'', oas_mode = Job, oas_schedule = None, oas_image = ''i'',
      oas_profile = None,
      oas_vox = \<lparr>vx_connectors = [], vx_discord = None, vx_slack = None\<rparr>,
      oas_secrets = \<lparr>sec_secret_name = None, sec_auth_json_secret = None, sec_vault = None\<rparr>,
      oas_resources = None, oas_identity = None, oas_control_plane = \<lparr>cp_tls = default_tls\<rparr>,
      oas_terminal_tool = False, oas_bounds = None, oas_prompt = None, oas_sbom = None\<rparr>"

definition sample_agent :: OmegonAgent where
  "sample_agent =
     \<lparr>oa_metadata_name = Some ''n'', oa_name_any = ''n'', oa_namespace = Some ''ns'',
      oa_uid = Some ''u'', oa_generation = None, oa_labels = bt_empty, oa_annotations = bt_empty,
      oa_spec = sample_spec, oa_status = None\<rparr>"

end
