(* ===== verification/Operator_Identity_Props.thy ===== *)
theory Operator_Identity_Props
  imports Operator_Identity Operator_Pod_Props
begin

text \<open>
  Properties of identity provisioning: the base64 coding can be decoded, a secret without the
  operator label is never used, and the certificate secret has the keys the pod mounts.
\<close>

unbundle bit_operations_syntax

section \<open>Decoding base64\<close>

text \<open>The decoder of RFC 4648, by which Kubernetes reads the data of a secret.\<close>

definition sextet_value :: "char \<Rightarrow> u32 option" where
  "sextet_value c = map_option word_of_nat (position (\<lambda>x. x = c) BASE64_CHARS)"

definition decode_chunk :: "char \<Rightarrow> char \<Rightarrow> char \<Rightarrow> char \<Rightarrow> byte list option" where
  "decode_chunk c0 c1 c2 c3 =
     (let value = (\<lambda>c. if c = CHR ''='' then Some 0 else sextet_value c)
      in case (sextet_value c0, sextet_value c1, value c2, value c3) of
           (Some v0, Some v1, Some v2, Some v3) \<Rightarrow>
             (let n = push_bit 18 v0 OR push_bit 12 v1 OR push_bit 6 v2 OR v3
              in Some (take (if c2 = CHR ''='' then 1 else if c3 = CHR ''='' then 2 else 3)
                   [ucast (drop_bit 16 n), ucast (drop_bit 8 n), ucast n]))
         | _ \<Rightarrow> None)"

fun base64_decode :: "string \<Rightarrow> byte list option" where
  "base64_decode [] = Some []"
| "base64_decode (c0 # c1 # c2 # c3 # cs) =
     (case (decode_chunk c0 c1 c2 c3, base64_decode cs) of
        (Some chunk, Some rest) \<Rightarrow> Some (chunk @ rest)
      | _ \<Rightarrow> None)"
| "base64_decode _ = None"

lemma alphabet_value:
  "\<forall>i \<in> set [0..<64]. position (\<lambda>x. x = BASE64_CHARS ! i) BASE64_CHARS = Some i \<and>
     BASE64_CHARS ! i \<noteq> CHR ''=''"
  by code_simp

lemma and_63: "w AND 63 = (take_bit 6 w :: u32)"
  by (simp add: take_bit_eq_mask mask_eq_exp_minus_1)

lemma unat_and_63: "unat (w AND 63 :: u32) < 64"
  using word_and_le1 [of w 63] by (simp add: word_le_nat_alt)

lemma sextet_value_sextet:
  "sextet_value (sextet n k) = Some (drop_bit k n AND 63)" "sextet n k \<noteq> CHR ''=''"
proof -
  let ?i = "unat (drop_bit k n AND 63)"
  have "?i \<in> set [0..<64]" using unat_and_63 by simp
  with alphabet_value have
    "position (\<lambda>x. x = BASE64_CHARS ! ?i) BASE64_CHARS = Some ?i" "BASE64_CHARS ! ?i \<noteq> CHR ''=''"
    by blast+
  then show "sextet_value (sextet n k) = Some (drop_bit k n AND 63)" "sextet n k \<noteq> CHR ''=''"
    by (simp_all add: sextet_value_def sextet_def)
qed

lemma sextets_rejoin:
  fixes n :: u32
  assumes "take_bit 24 n = n"
  shows "push_bit 18 (drop_bit 18 n AND 63) OR push_bit 12 (drop_bit 12 n AND 63) OR
           push_bit 6 (drop_bit 6 n AND 63) OR (drop_bit 0 n AND 63) = n"
proof (rule bit_word_eqI)
  fix k
  have "bit n k \<longleftrightarrow> k < 24 \<and> bit n k"
    by (metis assms bit_take_bit_iff)
  moreover have "k < 24 \<longleftrightarrow> k < 6 \<or> 6 \<le> k \<and> k - 6 < 6 \<or> 12 \<le> k \<and> k - 12 < 6 \<or> 18 \<le> k \<and> k - 18 < 6"
    by arith
  ultimately show "bit (push_bit 18 (drop_bit 18 n AND 63) OR push_bit 12 (drop_bit 12 n AND 63) OR
       push_bit 6 (drop_bit 6 n AND 63) OR (drop_bit 0 n AND 63)) k = bit n k" if "k < LENGTH(32)"
    using that unfolding and_63 by (auto simp: bit_simps)
qed

lemma bytes_rejoin:
  fixes a b c :: byte
  defines "n \<equiv> push_bit 16 (ucast a) OR push_bit 8 (ucast b) OR (ucast c :: u32)"
  shows "take_bit 24 n = n" "ucast (drop_bit 16 n) = a" "ucast (drop_bit 8 n) = b" "ucast n = c"
  unfolding n_def
  by (rule bit_word_eqI; auto simp: bit_simps dest: bit_imp_le_length)+

text \<open>The 24 bits of a chunk, with zero for the bytes it does not have.\<close>

definition join_bytes :: "byte \<Rightarrow> byte \<Rightarrow> byte \<Rightarrow> u32" where
  "join_bytes a b c = push_bit 16 (ucast a) OR push_bit 8 (ucast b) OR ucast c"

lemma decode_sextets:
  "c2 = (if b2 then sextet n 6 else CHR ''='') \<Longrightarrow> c3 = (if b3 then sextet n 0 else CHR ''='') \<Longrightarrow>
   n = join_bytes a b c \<Longrightarrow> (\<not> b2 \<Longrightarrow> b = 0 \<and> c = 0) \<Longrightarrow> (\<not> b3 \<Longrightarrow> c = 0) \<Longrightarrow>
   decode_chunk (sextet n 18) (sextet n 12) c2 c3 =
     Some (take (if \<not> b2 then 1 else if \<not> b3 then 2 else 3) [a, b, c])"
proof -
  assume c2: "c2 = (if b2 then sextet n 6 else CHR ''='')"
    and c3: "c3 = (if b3 then sextet n 0 else CHR ''='')"
    and n: "n = join_bytes a b c"
    and zero: "\<not> b2 \<Longrightarrow> b = 0 \<and> c = 0" "\<not> b3 \<Longrightarrow> c = 0"
  have low: "c = 0 \<Longrightarrow> drop_bit 0 n AND 63 = 0" "b = 0 \<Longrightarrow> c = 0 \<Longrightarrow> drop_bit 6 n AND 63 = 0"
    unfolding and_63 n join_bytes_def
    by (rule bit_word_eqI; auto simp: bit_simps dest: bit_imp_le_length)+
  have vals: "(if c2 = CHR ''='' then Some 0 else sextet_value c2) = Some (drop_bit 6 n AND 63)"
    "(if c3 = CHR ''='' then Some 0 else sextet_value c3) = Some (drop_bit 0 n AND 63)"
    using low zero by (cases b2; cases b3; simp add: c2 c3 sextet_value_sextet del: drop_bit_0)+
  have ends: "c2 = CHR ''='' \<longleftrightarrow> \<not> b2" "c3 = CHR ''='' \<longleftrightarrow> \<not> b3"
    by (simp_all add: c2 c3 sextet_value_sextet)
  note join = bytes_rejoin [of a b c, folded join_bytes_def, folded n]
  show ?thesis
    unfolding decode_chunk_def Let_def
    by (simp only: vals [unfolded ends] ends sextet_value_sextet sextets_rejoin [OF join(1)] join
        prod.case option.case)
qed

lemma decode_encode_chunk:
  assumes "chunk \<noteq> []" "length chunk \<le> 3"
  shows "base64_decode (encode_chunk chunk @ rest) = map_option ((@) chunk) (base64_decode rest)"
proof -
  let ?a = "get_or 0 0 chunk" and ?b = "get_or 0 1 chunk" and ?c = "get_or 0 2 chunk"
  have "take (if \<not> 1 < length chunk then 1 else if \<not> 2 < length chunk then 2 else 3) [?a, ?b, ?c] = chunk"
    using assms by (cases chunk rule: remdups_adj.cases; cases "tl (tl chunk)") (auto simp: get_or_def)
  then have "decode_chunk (sextet n 18) (sextet n 12) (if 1 < length chunk then sextet n 6 else CHR ''='')
      (if 2 < length chunk then sextet n 0 else CHR ''='') = Some chunk"
    if "n = join_bytes ?a ?b ?c" for n
    using decode_sextets [OF refl refl that, of "1 < length chunk" "2 < length chunk"]
    by (simp add: get_or_def)
  then show ?thesis
    by (simp add: encode_chunk_def Let_def join_bytes_def split: option.split)
qed

lemma chunks_sound:
  "0 < n \<Longrightarrow> concat (chunks n xs) = xs \<and> (\<forall>c \<in> set (chunks n xs). c \<noteq> [] \<and> length c \<le> n)"
  by (induction n xs rule: chunks.induct) (auto simp: take_Cons' drop_Cons' split: if_splits)

lemma base64_round_trip: "base64_decode (base64_encode bytes) = Some bytes"
proof -
  have "base64_decode (concat (map encode_chunk cs)) = Some (concat cs)"
    if "\<forall>c \<in> set cs. c \<noteq> [] \<and> length c \<le> 3" for cs
    using that by (induction cs) (simp_all add: decode_encode_chunk)
  then show ?thesis
    using chunks_sound [of 3 bytes] by (simp add: base64_encode_def)
qed

section \<open>The certificates in the pod\<close>

text \<open>
  What a secret volume shows of a secret: for each item, the file at its path has the decoded value
  of its key.
\<close>

definition item_file :: "json \<Rightarrow> json \<Rightarrow> (string \<times> byte list) option" where
  "item_file data item =
     (case (Option.bind (jget item ''key'') as_str, Option.bind (jget item ''path'') as_str) of
        (Some key, Some path) \<Rightarrow>
          (case Option.bind (jget data key) as_str of
             None \<Rightarrow> None
           | Some value \<Rightarrow> map_option (\<lambda>bytes. (path, bytes)) (base64_decode value))
      | _ \<Rightarrow> None)"

definition mounted_files :: "json \<Rightarrow> json list \<Rightarrow> (string \<times> byte list) option list" where
  "mounted_files secret items =
     (case jget secret ''data'' of None \<Rightarrow> [] | Some data \<Rightarrow> map (item_file data) items)"

definition tls_keys :: "ResolvedControlTls \<Rightarrow> string list" where
  "tls_keys tls = [rct_cert_key tls, rct_key_key tls] @ push_some (rct_client_ca_key tls) (\<lambda>k. [k])"

lemma item_file_key_item [simp]:
  "item_file (jobj kvs) (key_item key path) =
     (case Option.bind (map_of (rev kvs) key) as_str of
        None \<Rightarrow> None
      | Some value \<Rightarrow> map_option (\<lambda>bytes. (path, bytes)) (base64_decode value))"
  by (simp add: item_file_def key_item_def split: option.split)

lemma manifest_data [simp]:
  "jget (control_tls_secret_manifest a ns tls chain) ''data'' = Some (jobj (tls_data tls chain))"
  by (simp add: control_tls_secret_manifest_def Let_def)

text \<open>
  C24: The certificates derived for an agent reach its pod: in the secret the operator writes and
  the volume of the pod it generates, the files at the mount point are the certificate chain, the
  private key and, when there is one, the bundle of the certificate authority, byte for byte,
  provided that the agent names different keys for them.
\<close>

theorem derived_certificates_reach_the_pod:
  assumes "distinct (tls_keys tls)"
  shows "mounted_files (control_tls_secret_manifest a ns tls chain) (tls_items tls) =
    [Some (''tls.crt'', utf8_bytes (scc_cert_chain_pem chain)),
     Some (''tls.key'', utf8_bytes (scc_private_key_pem chain))] @
    push_some (rct_client_ca_key tls) (\<lambda>_. [Some (''ca.crt'', utf8_bytes (scc_ca_bundle_pem chain))])"
  using assms
  by (cases "rct_client_ca_key tls")
    (simp_all add: mounted_files_def tls_items_def tls_keys_def tls_data_def base64_round_trip)

text \<open>With one key for both, the private key is mounted as the certificate.\<close>

lemma equal_keys_expose_the_private_key:
  assumes "rct_cert_key tls = rct_key_key tls" "rct_client_ca_key tls = None"
  shows "mounted_files (control_tls_secret_manifest a ns tls chain) (tls_items tls) =
    [Some (''tls.crt'', utf8_bytes (scc_private_key_pem chain)),
     Some (''tls.key'', utf8_bytes (scc_private_key_pem chain))]"
  using assms by (simp add: mounted_files_def tls_items_def tls_data_def base64_round_trip)

section \<open>Secrets the operator may use\<close>

text \<open>What a reader shows of a namespace once the data of secrets without the label is blanked out.\<close>

definition labelled_view :: "secret_reader \<Rightarrow> string \<Rightarrow> string \<Rightarrow> string + KubeSecret option" where
  "labelled_view read ns name =
     (case read ns name of
        Inl e \<Rightarrow> Inl e
      | Inr secret \<Rightarrow> Inr (if carries_operator_label secret then Some secret else None))"

lemma operator_root_view:
  assumes "labelled_view read ns = labelled_view read' ns"
  shows "operator_root read spec ns = operator_root read' spec ns"
  using fun_cong [OF assms, of "ids_operator_secret spec"]
  by (cases "read ns (ids_operator_secret spec)"; cases "read' ns (ids_operator_secret spec)")
    (auto simp: labelled_view_def operator_root_def split: if_splits)

text \<open>
  A resource cannot make the operator read a foreign secret by naming it as the operator
  secret: what provisioning sends to the cluster and what it reports depend only on the secrets of
  the agent's namespace that carry the operator label.  On clusters that differ in anything else,
  be it the data of unlabelled secrets or of other namespaces, it behaves alike.
\<close>

theorem provisioning_uses_labelled_secrets_only:
  assumes "labelled_view read ns = labelled_view read' ns"
  shows "provision_identity c read api a ns name = provision_identity c read' api a ns name"
  unfolding provision_identity_def operator_root_view [OF assms] ..

section \<open>Witnesses\<close>

definition sample_tls :: ResolvedControlTls where
  "sample_tls =
     \<lparr>rct_secret_name = ''s'', rct_cert_key = ''c'', rct_key_key = ''k'', rct_client_ca_key = Some ''a'',
      rct_profile = ''p'', rct_ca_epoch = ''0'', rct_leaf_epoch = ''0'', rct_validity = default_tls_validity\<rparr>"

definition sample_chain :: StyreneCertificateChain where
  "sample_chain =
     \<lparr>scc_cert_chain_pem = ''cert'', scc_private_key_pem = ''key'', scc_ca_bundle_pem = ''ca'',
      scc_ca_fingerprint_sha256 = ''f'', scc_leaf_fingerprint_sha256 = ''g'', scc_uri_san = ''u'',
      scc_profile = tls_certificate_profile sample_tls\<rparr>"

definition sample_reader :: "byte list \<Rightarrow> secret_reader" where
  "sample_reader root ns name =
     Inr \<lparr>ks_labels = Some (if name = ''root'' then [(''styrene.sh/identity'', ''operator'')] else []),
          ks_data = Some [(''root-secret'', if name = ''root'' then replicate 32 7 else root)]\<rparr>"

text \<open>An agent that asks for an identity from the secret of the given name.\<close>

definition identity_agent :: "string \<Rightarrow> OmegonAgent" where
  "identity_agent operator_secret =
     sample_agent\<lparr>oa_spec := sample_spec\<lparr>oas_identity := Some
       \<lparr>ids_provision = True, ids_security_tier = ''file'', ids_mesh_role = ''operator'',
        ids_derivation_label = None, ids_operator_secret = operator_secret,
        ids_operator_secret_key = ''root-secret'', ids_vault_path = None,
        ids_vault_agent_prefix = None, ids_hsm_slot = None, ids_rotate = False,
        ids_mesh_peers = [], ids_mtls = True\<rparr>\<rparr>\<rparr>"

theorem derived_certificates_reach_the_pod_witness:
  "item_file (jobj (tls_data sample_tls sample_chain)) (key_item ''k'' ''tls.key'') =
     Some (''tls.key'', utf8_bytes ''key'')"
proof -
  have "distinct (tls_keys sample_tls)" by (simp add: tls_keys_def sample_tls_def)
  from derived_certificates_reach_the_pod [OF this, of sample_agent "''ns''" sample_chain]
  show ?thesis
    by (simp add: mounted_files_def tls_items_def sample_tls_def sample_chain_def)
qed

theorem provisioning_uses_labelled_secrets_only_example:
  "sample_reader [1] \<noteq> sample_reader [2] \<and>
   (\<forall>c api. provision_identity c (sample_reader [1]) api (identity_agent ''x'') ''ns'' ''n'' =
            provision_identity c (sample_reader [2]) api (identity_agent ''x'') ''ns'' ''n'')"
proof
  have "sample_reader [1] ns ''x'' \<noteq> sample_reader [2] ns ''x''" for ns
    by (simp add: sample_reader_def)
  then show "sample_reader [1] \<noteq> sample_reader [2]" by metis
  have view: "labelled_view (sample_reader [1]) ''ns'' = labelled_view (sample_reader [2]) ''ns''"
    by (auto simp: fun_eq_iff labelled_view_def sample_reader_def carries_operator_label_def bt_get_def)
  show "\<forall>c api. provision_identity c (sample_reader [1]) api (identity_agent ''x'') ''ns'' ''n'' =
      provision_identity c (sample_reader [2]) api (identity_agent ''x'') ''ns'' ''n''"
    by (intro allI provisioning_uses_labelled_secrets_only view)
qed

end
