(* ===== verification/Operator_Reconcile.thy ===== *)
theory Operator_Reconcile
  imports Operator_Identity_Props
begin

text \<open>
  Reconciliation of an \<open>OmegonAgent\<close> (\<open>auspex-operator/src/reconciler.rs\<close>): identity provisioning,
  the config maps, the workload of the mode and its service, each sent as one server-side apply.
  The first object the cluster refuses ends the reconciliation.
\<close>

definition AUSPEX_PRIMARY_AGENT_ID :: string where
  "AUSPEX_PRIMARY_AGENT_ID = ''styrene.auspex-primary''"

section \<open>Config maps\<close>

definition api_object :: "string \<Rightarrow> string \<Rightarrow> json \<Rightarrow> (string \<times> json) list \<Rightarrow> json" where
  "api_object version kind metadata extra =
     jobj ([(''apiVersion'', JStr version), (''kind'', JStr kind), (''metadata'', metadata)] @ extra)"

definition config_map_patch ::
  "OmegonAgent \<Rightarrow> string \<Rightarrow> string \<Rightarrow> (string \<times> json) list \<Rightarrow> ApiPatch"
where
  "config_map_patch a ns cm_name data =
     operator_patch ConfigMap ns cm_name
       (api_object ''v1'' ''ConfigMap'' (owned_metadata a ns cm_name []) [(''data'', jobj data)])"

definition show_bool :: "bool \<Rightarrow> string" where
  "show_bool b = (if b then ''true'' else ''false'')"

definition toml_string :: "string \<Rightarrow> string \<Rightarrow> string" where
  "toml_string key v = key @ '' = '' @ [CHR 0x22] @ v @ [CHR 0x22] @ nl"

definition toml_bool :: "string \<Rightarrow> bool \<Rightarrow> string" where
  "toml_bool key b = key @ '' = '' @ show_bool b @ nl"

definition discord_toml :: "bool \<Rightarrow> DiscordSpec \<Rightarrow> string" where
  "discord_toml has_runtime_secret discord =
     nl @ ''[discord]'' @ nl @ toml_bool ''require_mention'' (ds_require_mention discord) @
     push_if has_runtime_secret (toml_string ''bot_token_file'' ''/run/omegon/secrets/discord_bot_token'') @
     push_some (ds_guild_id discord) (toml_string ''guild_id'')"

definition slack_toml :: "bool \<Rightarrow> SlackSpec \<Rightarrow> string" where
  "slack_toml has_runtime_secret slack =
     nl @ ''[slack]'' @ nl @
     push_if has_runtime_secret
       (toml_string ''oauth_token_file'' ''/run/omegon/secrets/slack_oauth_token'' @
        toml_string ''socket_token_file'' ''/run/omegon/secrets/slack_socket_token'') @
     push_some (ss_workspace slack) (toml_string ''workspace'') @
     push_some (ss_default_channel slack) (toml_string ''default_channel'') @
     toml_bool ''require_mention'' (ss_require_mention slack)"

definition vox_toml :: "OmegonAgent \<Rightarrow> string" where
  "vox_toml a =
     (let vox = oas_vox (oa_spec a); has_secret = sec_secret_name (oas_secrets (oa_spec a)) \<noteq> None
      in ''# Generated by auspex-operator'' @ nl @
         push_some (vx_discord vox) (discord_toml has_secret) @
         push_some (vx_slack vox) (slack_toml has_secret))"

definition configmap_patch :: "OmegonAgent \<Rightarrow> string \<Rightarrow> string \<Rightarrow> ApiPatch" where
  "configmap_patch a ns name =
     config_map_patch a ns (name @ ''-vox'') [(''vox.toml'', JStr (vox_toml a))]"

text \<open>The texts of the built-in bundle, \<open>AUSPEX_PRIMARY_AGENT_TOML\<close> and \<open>..._PERSONA_MD\<close>, are inputs.\<close>

definition primary_catalog_patch ::
  "string \<times> string \<Rightarrow> OmegonAgent \<Rightarrow> string \<Rightarrow> string \<Rightarrow> ApiPatch"
where
  "primary_catalog_patch bundle a ns name =
     config_map_patch a ns (name @ ''-catalog'')
       [(''agent.toml'', JStr (fst bundle)), (''PERSONA.md'', JStr (snd bundle))]"

definition prompt_configmap_patches :: "OmegonAgent \<Rightarrow> string \<Rightarrow> string \<Rightarrow> ApiPatch list" where
  "prompt_configmap_patches a ns name =
     push_some (Option.bind (oas_prompt (oa_spec a)) pr_inline) (\<lambda>txt.
       [config_map_patch a ns (name @ ''-prompt'') [(''prompt.txt'', JStr txt)]])"

section \<open>Workloads\<close>

definition agent_label :: "string \<Rightarrow> json" where
  "agent_label name = jobj [(''styrene.sh/agent'', JStr name)]"

definition template_metadata :: "PodTemplate \<Rightarrow> string \<Rightarrow> json" where
  "template_metadata tpl name =
     jinsert_opt ''annotations'' (pt_annotations tpl) (jobj [(''labels'', agent_label name)])"

definition pod_template_json :: "PodTemplate \<Rightarrow> json \<Rightarrow> string \<Rightarrow> json" where
  "pod_template_json tpl spec name = jobj [(''metadata'', template_metadata tpl name), (''spec'', spec)]"

definition never_restarted :: "json \<Rightarrow> json" where
  "never_restarted spec = jinsert ''restartPolicy'' (JStr ''Never'') spec"

definition deployment_patch :: "process_env \<Rightarrow> OmegonAgent \<Rightarrow> string \<Rightarrow> string \<Rightarrow> ApiPatch" where
  "deployment_patch env a ns name =
     (let tpl = pod_spec env a name in
      operator_patch Deployment ns name
        (api_object ''apps/v1'' ''Deployment'' (owned_metadata a ns name [])
          [(''spec'', jobj [(''replicas'', JNum 1),
              (''selector'', jobj [(''matchLabels'', agent_label name)]),
              (''template'', pod_template_json tpl (pt_spec tpl) name)])]))"

definition cronjob_patch :: "process_env \<Rightarrow> OmegonAgent \<Rightarrow> string \<Rightarrow> string \<Rightarrow> ApiPatch" where
  "cronjob_patch env a ns name =
     (let tpl = pod_spec env a name;
          schedule = unwrap_or (oas_schedule (oa_spec a)) ''0 * * * *'' in
      operator_patch CronJob ns name
        (api_object ''batch/v1'' ''CronJob'' (owned_metadata a ns name [])
          [(''spec'', jobj [(''schedule'', JStr schedule), (''concurrencyPolicy'', JStr ''Forbid''),
              (''successfulJobsHistoryLimit'', JNum 3), (''failedJobsHistoryLimit'', JNum 3),
              (''jobTemplate'', jobj [(''spec'', jobj
                [(''backoffLimit'', JNum 1),
                 (''template'', pod_template_json tpl (never_restarted (pt_spec tpl)) name)])])])]))"

definition active_deadline :: "OmegonAgent \<Rightarrow> json option" where
  "active_deadline a =
     map_option (\<lambda>d. JNum (sint d))
       (Option.bind (oas_bounds (oa_spec a)) bnd_active_deadline_seconds)"

definition job_patch :: "process_env \<Rightarrow> OmegonAgent \<Rightarrow> string \<Rightarrow> string \<Rightarrow> ApiPatch" where
  "job_patch env a ns name =
     (let tpl = pod_spec env a name;
          job_spec = jinsert_opt ''activeDeadlineSeconds'' (active_deadline a)
            (jobj [(''backoffLimit'', JNum 0),
                   (''template'', pod_template_json tpl (never_restarted (pt_spec tpl)) name)]) in
      operator_patch ObjectKind.Job ns name
        (api_object ''batch/v1'' ''Job'' (owned_metadata a ns name []) [(''spec'', job_spec)]))"

definition service_patch :: "OmegonAgent \<Rightarrow> string \<Rightarrow> string \<Rightarrow> ApiPatch" where
  "service_patch a ns name =
     operator_patch Service ns name
       (api_object ''v1'' ''Service'' (owned_metadata a ns name [])
         [(''spec'', jobj [(''selector'', agent_label name),
             (''ports'', JArr [jobj [(''port'', JNum 7842), (''targetPort'', JNum 7842),
                (''protocol'', JStr ''TCP''), (''name'', JStr ''control'')]])])])"

section \<open>The reconciliation\<close>

text \<open>The objects in the order in which they are applied.\<close>

definition workload_patches :: "process_env \<Rightarrow> OmegonAgent \<Rightarrow> string \<Rightarrow> string \<Rightarrow> ApiPatch list" where
  "workload_patches env a ns name =
     (case oas_mode (oa_spec a) of
        Daemon \<Rightarrow> [deployment_patch env a ns name, service_patch a ns name]
      | Cronjob \<Rightarrow> [cronjob_patch env a ns name]
      | AgentMode.Job \<Rightarrow> [job_patch env a ns name])"

definition reconcile_patches ::
  "string \<times> string \<Rightarrow> process_env \<Rightarrow> OmegonAgent \<Rightarrow> string \<Rightarrow> string \<Rightarrow> ApiPatch list"
where
  "reconcile_patches bundle env a ns name =
     [configmap_patch a ns name] @
     push_if (oas_agent (oa_spec a) = AUSPEX_PRIMARY_AGENT_ID) [primary_catalog_patch bundle a ns name] @
     workload_patches env a ns name @
     push_if (is_bounded a) (prompt_configmap_patches a ns name)"

text \<open>\<open>api.patch(...).await?\<close> in a row: what was sent, and the error of the first refusal.\<close>

fun apply_patches :: "cluster \<Rightarrow> ApiPatch list \<Rightarrow> ApiPatch list \<times> (string + unit)" where
  "apply_patches api [] = ([], Ok ())"
| "apply_patches api (p # ps) =
     (case api p of
        Some e \<Rightarrow> ([p], Err e)
      | None \<Rightarrow> (case apply_patches api ps of (sent, r) \<Rightarrow> (p # sent, r)))"

text \<open>\<open>Action::requeue\<close> with its seconds; the error policy requeues after 30.\<close>

definition reconcile ::
  "crypto \<Rightarrow> secret_reader \<Rightarrow> string \<times> string \<Rightarrow> process_env \<Rightarrow> cluster \<Rightarrow> OmegonAgent \<Rightarrow>
   ApiPatch list \<times> (string + nat)"
where
  "reconcile c read bundle env api a =
     (let ns = unwrap_or (oa_namespace a) ''default''; name = oa_name_any a;
          provisioned = (if provisions_identity a then fst (provision_identity c read api a ns name) else []);
          applied = apply_patches api (reconcile_patches bundle env a ns name)
      in (provisioned @ fst applied, map_sum id (\<lambda>_. 300) (snd applied)))"

definition error_policy :: nat where
  "error_policy = 30"

end
