(* ===== verification/Operator_Reconcile_Props.thy ===== *)
theory Operator_Reconcile_Props
  imports Operator_Reconcile
begin

text \<open>
  Properties of reconciliation: everything the operator sends for an agent is owned by the agent
  and lies in its namespace, a refusal ends the round, and after a round without refusals the pod
  finds every config map and secret it mounts.
\<close>

section \<open>What is sent\<close>

text \<open>The object is filed under its own name and namespace and is owned by the agent.\<close>

definition owned_patch :: "OmegonAgent \<Rightarrow> string \<Rightarrow> ApiPatch \<Rightarrow> bool" where
  "owned_patch a ns p \<longleftrightarrow>
     ap_namespace p = ns \<and> ap_manager p = ''auspex-operator'' \<and>
     pointer (ap_object p) [''metadata'', ''namespace''] = Some (JStr ns) \<and>
     pointer (ap_object p) [''metadata'', ''name''] = Some (JStr (ap_name p)) \<and>
     pointer (ap_object p) [''metadata'', ''ownerReferences''] = Some (JArr [owner_ref a])"

lemma owned_operator_patch:
  assumes "jget obj ''metadata'' = Some (owned_metadata a ns nm extra)"
    and "set (map fst extra) \<subseteq> {''labels'', ''annotations''}"
  shows "owned_patch a ns (operator_patch kind ns nm obj)"
proof -
  have "map_of (rev extra) k = None" if "k \<in> {''name'', ''namespace'', ''ownerReferences''}" for k
    using assms(2) that by (auto simp: map_of_eq_None_iff)
  then show ?thesis
    using assms(1) by (auto simp: owned_patch_def operator_patch_def owned_metadata_def map_add_def)
qed

lemma api_object_metadata:
  "''metadata'' \<notin> fst ` set extra \<Longrightarrow> jget (api_object v k md extra) ''metadata'' = Some md"
proof -
  assume "''metadata'' \<notin> fst ` set extra"
  then have "map_of (rev extra) ''metadata'' = None" by (simp add: map_of_eq_None_iff)
  then show ?thesis by (simp add: api_object_def map_add_def)
qed

lemma owned_config_map: "owned_patch a ns (config_map_patch a ns nm data)"
  unfolding config_map_patch_def by (rule owned_operator_patch [where extra = "[]"]) (simp_all add: api_object_metadata)

lemma owned_reconcile_patches: "list_all (owned_patch a ns) (reconcile_patches texts env a ns nm)"
proof -
  have obj: "owned_patch a ns (operator_patch kind ns nm
      (api_object v k (owned_metadata a ns nm []) [(''spec'', spec)]))" for kind v k spec
    by (rule owned_operator_patch [where extra = "[]"]) (simp_all add: api_object_metadata)
  show ?thesis
    by (auto simp: reconcile_patches_def workload_patches_def configmap_patch_def list_all_iff
        primary_catalog_patch_def prompt_configmap_patches_def owned_config_map obj Let_def
        deployment_patch_def cronjob_patch_def job_patch_def service_patch_def
        split: AgentMode.splits option.splits if_splits)
qed

lemma owned_agent_secret: "owned_patch a ns (agent_secret_patch a ns nm root label)"
  unfolding agent_secret_patch_def by (rule owned_operator_patch, simp) simp

lemma owned_tls_secret:
  "owned_patch a ns (operator_patch Secret ns (rct_secret_name tls) (control_tls_secret_manifest a ns tls chain))"
  by (rule owned_operator_patch, simp add: control_tls_secret_manifest_def Let_def) simp

lemma owned_tls_patches:
  "list_all (owned_patch a ns) (fst (provision_control_tls_secret c api a ns nm root))"
  by (simp add: provision_control_tls_secret_def owned_tls_secret Let_def split: option.split sum.split)

lemma owned_identity_patches:
  "list_all (owned_patch a ns) (fst (provision_identity c read api a ns nm))"
  using owned_tls_patches [of a ns c api nm]
  by (auto simp: provision_identity_def owned_agent_secret Let_def
      split: option.split sum.split prod.split)
    (metis fst_conv)+

lemma apply_patches_prefix: "\<exists>rest. ps = fst (apply_patches api ps) @ rest"
  by (induction ps) (auto split: option.split prod.split)

lemma apply_patches_Ok: "snd (apply_patches api ps) = Ok () \<Longrightarrow> fst (apply_patches api ps) = ps"
  by (induction ps) (auto split: option.splits prod.splits)

lemma list_all_sent: "list_all P ps \<Longrightarrow> list_all P (fst (apply_patches api ps))"
  using apply_patches_prefix [of ps api] by (metis list_all_append)

text \<open>
  C23: The operator acts for an agent in the agent's namespace only, and leaves nothing behind that
  Kubernetes would not collect: whatever the agent asks for and whatever the cluster refuses, each
  object sent in a reconciliation is filed under its own name in the agent's namespace and has the
  agent as its owner.
\<close>

theorem reconciliation_stays_in_its_namespace:
  "list_all (owned_patch a (unwrap_or (oa_namespace a) ''default''))
     (fst (reconcile c read texts env api a))"
  by (simp add: reconcile_def Let_def owned_identity_patches list_all_sent owned_reconcile_patches)

text \<open>
  A reconciliation ends with the first object the cluster refuses: what was sent past identity
  provisioning is an initial part of the objects of the agent, in their order; when the outcome is
  an error it is the answer to the last of them and the cluster took all before it, and otherwise
  it took every one.
\<close>

theorem refusal_ends_the_reconciliation:
  fixes c read texts env api a
  defines "ns \<equiv> unwrap_or (oa_namespace a) ''default''"
  defines "patches \<equiv> reconcile_patches texts env a ns (oa_name_any a)"
  defines "provisioned \<equiv>
    (if provisions_identity a then fst (provision_identity c read api a ns (oa_name_any a)) else [])"
  shows "\<exists>sent rest. fst (reconcile c read texts env api a) = provisioned @ sent \<and>
    patches = sent @ rest \<and>
    (case snd (reconcile c read texts env api a) of
       Inr secs \<Rightarrow> secs = 300 \<and> rest = [] \<and> list_all (\<lambda>p. api p = None) sent
     | Inl e \<Rightarrow> sent \<noteq> [] \<and> api (last sent) = Some e \<and> list_all (\<lambda>p. api p = None) (butlast sent))"
proof -
  define outcome where "outcome = apply_patches api patches"
  have "\<exists>rest. ps = fst (apply_patches api ps) @ rest \<and>
      (case snd (apply_patches api ps) of
         Inr _ \<Rightarrow> rest = [] \<and> list_all (\<lambda>p. api p = None) (fst (apply_patches api ps))
       | Inl e \<Rightarrow> fst (apply_patches api ps) \<noteq> [] \<and> api (last (fst (apply_patches api ps))) = Some e \<and>
                list_all (\<lambda>p. api p = None) (butlast (fst (apply_patches api ps))))" for ps
    by (induction ps) (auto split: option.splits prod.splits sum.splits)
  from this [of patches] obtain rest where rest: "patches = fst outcome @ rest"
    "case snd outcome of
       Inr _ \<Rightarrow> rest = [] \<and> list_all (\<lambda>p. api p = None) (fst outcome)
     | Inl e \<Rightarrow> fst outcome \<noteq> [] \<and> api (last (fst outcome)) = Some e \<and>
              list_all (\<lambda>p. api p = None) (butlast (fst outcome))"
    unfolding outcome_def by blast
  have "reconcile c read texts env api a =
      (provisioned @ fst outcome, map_sum id (\<lambda>_. 300) (snd outcome))"
    by (simp add: reconcile_def Let_def outcome_def provisioned_def patches_def ns_def)
  with rest show ?thesis
    by (intro exI [of _ "fst outcome"] exI [of _ rest]) (simp split: sum.splits)
qed

section \<open>What the pod mounts\<close>

text \<open>The config maps and secrets without which a volume keeps its pod from starting.\<close>

definition named_ref :: "ObjectKind \<Rightarrow> json option \<Rightarrow> (ObjectKind \<times> string) list" where
  "named_ref kind v = push_some (Option.bind v as_str) (\<lambda>n. [(kind, n)])"

definition volume_refs :: "json \<Rightarrow> (ObjectKind \<times> string) list" where
  "volume_refs v =
     push_some (jget v ''configMap'') (\<lambda>s.
       push_if (jget s ''optional'' \<noteq> Some (JBool True)) (named_ref ConfigMap (jget s ''name''))) @
     push_some (jget v ''secret'') (\<lambda>s. named_ref Secret (jget s ''secretName''))"

text \<open>The objects the specification names, which are the user's to provide.\<close>

definition user_refs :: "OmegonAgent \<Rightarrow> (ObjectKind \<times> string) set" where
  "user_refs a =
     (Pair Secret) ` (set_option (sec_auth_json_secret (oas_secrets (oa_spec a))) \<union>
                      set_option (sec_secret_name (oas_secrets (oa_spec a))) \<union>
                      set_option (Option.bind (oas_prompt (oa_spec a)) pr_secret)) \<union>
     (Pair ConfigMap) ` set_option (Option.bind (oas_prompt (oa_spec a)) pr_config_map)"

definition patch_ref :: "ApiPatch \<Rightarrow> ObjectKind \<times> string" where
  "patch_ref p = (ap_kind p, ap_name p)"

lemma volume_refs_volume [simp]:
  "volume_refs (volume n ''configMap'' source) =
     push_if (map_of (rev source) ''optional'' \<noteq> Some (JBool True))
       (named_ref ConfigMap (map_of (rev source) ''name''))"
  "volume_refs (volume n ''secret'' source) = named_ref Secret (map_of (rev source) ''secretName'')"
  "volume_refs (volume n ''emptyDir'' source) = []"
  by (simp_all add: volume_refs_def volume_def)

lemma patch_ref_simps [simp]:
  "patch_ref (operator_patch kind ns n obj) = (kind, n)"
  "patch_ref (config_map_patch a ns n data) = (ConfigMap, n)"
  "patch_ref (agent_secret_patch a ns n root label) = (Secret, n @ ''-styrene-id'')"
  by (simp_all add: patch_ref_def operator_patch_def config_map_patch_def agent_secret_patch_def)

lemma prompt_refs:
  assumes "prompt_volume a nm = Some v"
  shows "set (volume_refs v) \<subseteq>
    user_refs a \<union> patch_ref ` set (prompt_configmap_patches a ns nm)"
  using assms
  by (auto simp: prompt_volume_def named_ref_def user_refs_def prompt_configmap_patches_def
      split: option.splits if_splits)

lemma fixed_volume_refs:
  "set (concat (map volume_refs (pod_volumes a nm))) \<subseteq>
     user_refs a \<union> {(ConfigMap, nm @ ''-vox'')} \<union>
     (if provisions_identity a then {(Secret, nm @ ''-styrene-id'')} else {}) \<union>
     (Pair Secret \<circ> rct_secret_name) ` set_option (resolved_control_tls a nm) \<union>
     (if is_bounded a then \<Union> ((set \<circ> volume_refs) ` set_option (prompt_volume a nm)) else {})"
  by (auto simp: pod_volumes_def named_ref_def user_refs_def push_if_def push_some_def
      split: option.splits if_splits)

lemma identity_refs:
  assumes "is_ok (snd (provision_identity c read api a ns nm))"
  shows "(Secret, nm @ ''-styrene-id'') \<in> patch_ref ` set (fst (provision_identity c read api a ns nm)) \<and>
    (Pair Secret \<circ> rct_secret_name) ` set_option (resolved_control_tls a nm) \<subseteq>
      patch_ref ` set (fst (provision_identity c read api a ns nm))"
proof -
  have tls: "(Pair Secret \<circ> rct_secret_name) ` set_option (resolved_control_tls a nm) \<subseteq>
      patch_ref ` set (fst (provision_control_tls_secret c api a ns nm root))"
    if "is_ok (snd (provision_control_tls_secret c api a ns nm root))" for root
    using that by (auto simp: provision_control_tls_secret_def Let_def split: option.splits sum.splits)
  have off: "resolved_control_tls a nm = None" if "\<not> control_plane_tls_enabled a"
    using that by (simp add: resolved_control_tls_def)
  from assms obtain spec root agent_root where
    spec: "oas_identity (oa_spec a) = Some spec" "ids_provision spec"
    and root: "operator_root read spec ns = Ok root"
    and key: "cr_agent_key c root (unwrap_or (ids_derivation_label spec) (ns @ ''/'' @ nm)) = Ok agent_root"
    by (auto simp: provision_identity_def Let_def split: option.splits sum.splits if_splits)
  show ?thesis
    using assms off tls [of root]
    by (auto simp: provision_identity_def Let_def spec root key
        split: option.splits sum.splits prod.splits if_splits)
qed

text \<open>
  After a reconciliation without refusals the pod finds what it mounts.  When the identity the
  agent asks for was provisioned, and the agent asks for one if it uses control-plane TLS, then
  every config map and every secret a volume of the pod requires was either named by the user in
  the specification or applied in this reconciliation.
\<close>

theorem reconciled_pod_finds_its_volumes:
  fixes c read texts env api a
  defines "ns \<equiv> unwrap_or (oa_namespace a) ''default''"
  defines "nm \<equiv> oa_name_any a"
  assumes ok: "is_ok (snd (reconcile c read texts env api a))"
    and identity: "provisions_identity a \<Longrightarrow> is_ok (snd (provision_identity c read api a ns nm))"
    and tls: "control_plane_tls_enabled a \<Longrightarrow> provisions_identity a"
  shows "set (concat (map volume_refs (pod_volumes a nm))) \<subseteq>
    user_refs a \<union> patch_ref ` set (fst (reconcile c read texts env api a))"
proof -
  let ?patches = "reconcile_patches texts env a ns nm"
  have "snd (apply_patches api ?patches) = Ok ()"
    using ok by (cases "snd (apply_patches api ?patches)") (auto simp: reconcile_def Let_def ns_def nm_def)
  then have sent: "set (fst (reconcile c read texts env api a)) =
      (if provisions_identity a then set (fst (provision_identity c read api a ns nm)) else {}) \<union>
      set ?patches"
    by (simp add: reconcile_def Let_def apply_patches_Ok ns_def nm_def)
  have vox: "(ConfigMap, nm @ ''-vox'') \<in> patch_ref ` set ?patches"
    by (simp add: reconcile_patches_def configmap_patch_def)
  have prompt: "set (volume_refs v) \<subseteq> user_refs a \<union> patch_ref ` set ?patches"
    if "is_bounded a" "prompt_volume a nm = Some v" for v
    using prompt_refs [OF that(2), of ns] that(1) by (auto simp: reconcile_patches_def)
  have none: "resolved_control_tls a nm = None" if "\<not> provisions_identity a"
    using that tls by (auto simp: resolved_control_tls_def)
  let ?T = "user_refs a \<union> patch_ref ` set (fst (reconcile c read texts env api a))"
  have patches: "patch_ref ` set ?patches \<subseteq> ?T" unfolding sent by auto
  have secrets: "patch_ref ` set (fst (provision_identity c read api a ns nm)) \<subseteq> ?T" if "provisions_identity a"
    using that unfolding sent by auto
  have A: "{(ConfigMap, nm @ ''-vox'')} \<subseteq> ?T"
    using vox patches by blast
  have B: "(if provisions_identity a then {(Secret, nm @ ''-styrene-id'')} else {}) \<subseteq> ?T"
    using identity_refs [OF identity] secrets by auto
  have C: "(Pair Secret \<circ> rct_secret_name) ` set_option (resolved_control_tls a nm) \<subseteq> ?T"
  proof (cases "provisions_identity a")
    case True
    then show ?thesis using identity_refs [OF identity [OF True]] secrets by blast
  next
    case False
    then show ?thesis by (simp add: none)
  qed
  have D: "(if is_bounded a then \<Union> ((set \<circ> volume_refs) ` set_option (prompt_volume a nm)) else {}) \<subseteq> ?T"
  proof (cases "is_bounded a")
    case True
    have "set (volume_refs v) \<subseteq> ?T" if "prompt_volume a nm = Some v" for v
      using prompt [OF True that] patches by blast
    then show ?thesis by (cases "prompt_volume a nm") simp_all
  qed simp
  show ?thesis
    by (rule order_trans [OF fixed_volume_refs]) (intro Un_least Un_upper1 A B C D)
qed

text \<open>
  Control-plane TLS without a provisioned identity: the pod requires the certificate secret, and no
  reconciliation ever writes a secret.
\<close>

lemma tls_without_identity_mounts_a_missing_secret:
  assumes "control_plane_tls_enabled a" "\<not> provisions_identity a"
    and "tls_secret_name (agent_tls a) = None"
  shows "(Secret, oa_name_any a @ ''-control-tls'') \<in>
      set (concat (map volume_refs (pod_volumes a (oa_name_any a)))) \<and>
    Secret \<notin> ap_kind ` set (fst (reconcile c read texts env api a))"
proof
  show "(Secret, oa_name_any a @ ''-control-tls'') \<in>
      set (concat (map volume_refs (pod_volumes a (oa_name_any a))))"
    using assms by (simp add: pod_volumes_def resolved_control_tls_def named_ref_def Let_def)
  have "list_all (\<lambda>p. ap_kind p \<noteq> Secret) (reconcile_patches texts env a ns nm)" for ns nm
    by (auto simp: reconcile_patches_def workload_patches_def configmap_patch_def list_all_iff
        primary_catalog_patch_def prompt_configmap_patches_def config_map_patch_def operator_patch_def
        deployment_patch_def cronjob_patch_def job_patch_def service_patch_def Let_def
        split: AgentMode.splits option.splits if_splits)
  then have "list_all (\<lambda>p. ap_kind p \<noteq> Secret) (fst (reconcile c read texts env api a))"
    using assms(2) by (simp add: reconcile_def Let_def list_all_sent)
  then show "Secret \<notin> ap_kind ` set (fst (reconcile c read texts env api a))"
    by (auto simp: list_all_iff)
qed

section \<open>Witness\<close>

definition sample_crypto :: crypto where
  "sample_crypto =
     \<lparr>cr_agent_key = \<lambda>_ _. Ok [1], cr_derive = \<lambda>_ _. [2], cr_ed25519_public = \<lambda>_. [3],
      cr_x25519_public = \<lambda>_. [4], cr_sha256 = \<lambda>_. [5],
      cr_server_chain = \<lambda>_ _ _ _ _. Ok sample_chain\<rparr>"

definition willing_cluster :: cluster where
  "willing_cluster p = None"

lemma willing_cluster_takes_all: "apply_patches willing_cluster ps = (ps, Ok ())"
  by (induction ps) (simp_all add: willing_cluster_def)

theorem reconciled_pod_finds_its_volumes_example:
  "(Secret, ''n-control-tls'') \<in> patch_ref `
     set (fst (reconcile sample_crypto (sample_reader []) ([], []) (\<lambda>_. None) willing_cluster
                (identity_agent ''root'')))"
proof -
  let ?a = "identity_agent ''root''"
  let ?r = "reconcile sample_crypto (sample_reader []) ([], []) (\<lambda>_. None) willing_cluster ?a"
  have "operator_root (sample_reader []) (the (oas_identity (oa_spec ?a))) ''ns'' = Ok (replicate 32 7)"
    by code_simp
  then have "is_ok (snd (provision_identity sample_crypto (sample_reader []) willing_cluster ?a ''ns'' ''n''))"
    by (simp add: provision_identity_def identity_agent_def sample_crypto_def willing_cluster_def
        provision_control_tls_secret_def resolved_control_tls_def is_ok_def Let_def
        split: option.split if_split)
  moreover have "oa_name_any ?a = ''n''" "oa_namespace ?a = Some ''ns''"
    by (simp_all add: identity_agent_def sample_agent_def)
  moreover have "is_ok (snd ?r)"
    by (simp add: reconcile_def willing_cluster_takes_all is_ok_def Let_def)
  moreover have "provisions_identity ?a" by code_simp
  ultimately have "set (concat (map volume_refs (pod_volumes ?a ''n''))) \<subseteq>
      user_refs ?a \<union> patch_ref ` set (fst ?r)"
    using reconciled_pod_finds_its_volumes [of sample_crypto "sample_reader []" "([], [])" "\<lambda>_. None"
        willing_cluster ?a] by simp
  moreover have "(Secret, ''n-control-tls'') \<in> set (concat (map volume_refs (pod_volumes ?a ''n'')))"
    by code_simp
  moreover have "user_refs ?a = {}"
    by (simp add: user_refs_def identity_agent_def sample_agent_def sample_spec_def)
  ultimately show ?thesis by blast
qed

end
