(* ===== verification/Operator_External.thy ===== *)
theory Operator_External
  imports Operator_Crd
begin

text \<open>
  External agents (\<open>auspex-operator/src/external.rs\<close>): the operator probes an endpoint it did not
  create and writes what it learns into the status.  Before it connects it refuses endpoints inside
  the cluster.  URL parsing is the crate \<open>url\<close> and a parameter; parsing an address is
  \<open>std::net\<close>, and is modelled after its parser.
\<close>

section \<open>Addresses\<close>

datatype IpAddr = V4 "nat list" | V6 "nat list"

definition hex_value :: "char \<Rightarrow> nat option" where
  "hex_value c =
     (let n = of_char c :: nat in
      if 48 \<le> n \<and> n \<le> 57 then Some (n - 48)
      else if 97 \<le> n \<and> n \<le> 102 then Some (n - 87)
      else if 65 \<le> n \<and> n \<le> 70 then Some (n - 55)
      else None)"

text \<open>\<open>char::to_digit\<close>.\<close>

definition to_digit :: "nat \<Rightarrow> char \<Rightarrow> nat option" where
  "to_digit radix c = (case hex_value c of Some d \<Rightarrow> if d < radix then Some d else None | None \<Rightarrow> None)"

definition digits_value :: "nat \<Rightarrow> string \<Rightarrow> nat" where
  "digits_value radix ds = foldl (\<lambda>v c. v * radix + unwrap_or (to_digit radix c) 0) 0 ds"

definition read_number :: "nat \<Rightarrow> nat \<Rightarrow> nat \<Rightarrow> bool \<Rightarrow> string \<Rightarrow> (nat \<times> string) option" where
  "read_number radix max_digits bound allow_zero_prefix s =
     (let ds = takeWhile (\<lambda>c. to_digit radix c \<noteq> None) s
      in if ds = [] \<or> max_digits < length ds \<or>
            (\<not> allow_zero_prefix \<and> hd ds = CHR ''0'' \<and> 1 < length ds) \<or>
            bound < digits_value radix ds
         then None
         else Some (digits_value radix ds, dropWhile (\<lambda>c. to_digit radix c \<noteq> None) s))"

definition read_separator ::
  "char \<Rightarrow> nat \<Rightarrow> (string \<Rightarrow> ('a \<times> string) option) \<Rightarrow> string \<Rightarrow> ('a \<times> string) option"
where
  "read_separator sep index inner s =
     (if index = 0 then inner s
      else case s of [] \<Rightarrow> None | c # r \<Rightarrow> if c = sep then inner r else None)"

fun read_octets :: "nat \<Rightarrow> nat \<Rightarrow> string \<Rightarrow> (nat list \<times> string) option" where
  "read_octets 0 i s = Some ([], s)"
| "read_octets (Suc k) i s =
     (case read_separator (CHR ''.'') i (read_number 10 3 255 False) s of
        None \<Rightarrow> None
      | Some (b, r) \<Rightarrow> map_option (\<lambda>(bs, r'). (b # bs, r')) (read_octets k (Suc i) r))"

definition read_ipv4_addr :: "string \<Rightarrow> (nat list \<times> string) option" where
  "read_ipv4_addr s = read_octets 4 0 s"

text \<open>Up to \<open>k\<close> groups from the \<open>i\<close>-th on, the last two of which may be written as an IPv4 address.\<close>

fun read_groups :: "nat \<Rightarrow> nat \<Rightarrow> string \<Rightarrow> nat list \<times> bool \<times> string" where
  "read_groups 0 i s = ([], False, s)"
| "read_groups (Suc k) i s =
     (case (if 0 < k then read_separator (CHR '':'') i read_ipv4_addr s else None) of
        Some (os, r) \<Rightarrow> ([os ! 0 * 256 + os ! 1, os ! 2 * 256 + os ! 3], True, r)
      | None \<Rightarrow>
          (case read_separator (CHR '':'') i (read_number 16 4 65535 True) s of
             None \<Rightarrow> ([], False, s)
           | Some (g, r) \<Rightarrow> (case read_groups k (Suc i) r of (gs, v4, r') \<Rightarrow> (g # gs, v4, r'))))"

definition read_ipv6_addr :: "string \<Rightarrow> (nat list \<times> string) option" where
  "read_ipv6_addr s =
     (case read_groups 8 0 s of
        (hs, v4, r) \<Rightarrow>
          if length hs = 8 then Some (hs, r)
          else if v4 then None
          else (case r of
             c # d # r' \<Rightarrow>
               if c = CHR '':'' \<and> d = CHR '':''
               then (case read_groups (8 - (length hs + 1)) 0 r' of
                       (ts, _, r'') \<Rightarrow> Some (hs @ replicate (8 - length hs - length ts) 0 @ ts, r''))
               else None
           | _ \<Rightarrow> None))"

definition parse_ip :: "string \<Rightarrow> IpAddr option" where
  "parse_ip s =
     (case read_ipv4_addr s of
        Some (os, r) \<Rightarrow> if r = [] then Some (V4 os) else None
      | None \<Rightarrow>
          (case read_ipv6_addr s of
             Some (gs, r) \<Rightarrow> if r = [] then Some (V6 gs) else None
           | None \<Rightarrow> None))"

fun is_loopback :: "IpAddr \<Rightarrow> bool" where
  "is_loopback (V4 os) \<longleftrightarrow> os ! 0 = 127"
| "is_loopback (V6 gs) \<longleftrightarrow> gs = [0, 0, 0, 0, 0, 0, 0, 1]"

fun is_link_local :: "IpAddr \<Rightarrow> bool" where
  "is_link_local (V4 os) \<longleftrightarrow> os ! 0 = 169 \<and> os ! 1 = 254"
| "is_link_local (V6 gs) \<longleftrightarrow> gs ! 0 div 64 = 0xfe80 div 64"

section \<open>Endpoints\<close>

text \<open>\<open>Url::parse\<close>: the error, or the scheme and \<open>host_str\<close>.\<close>

type_synonym url_parser = "string \<Rightarrow> string + string \<times> string option"

definition cluster_internal :: "string \<Rightarrow> bool" where
  "cluster_internal host \<longleftrightarrow>
     ends_with host ''.svc'' \<or> ends_with host ''.svc.cluster.local'' \<or>
     host = ''kubernetes'' \<or> host = ''kubernetes.default''"

definition blocked_hosts :: "string list" where
  "blocked_hosts = [''169.254.169.254'', ''metadata.google.internal'', ''100.100.100.200'']"

definition check_address :: "string \<Rightarrow> string + unit" where
  "check_address host =
     (case parse_ip host of
        None \<Rightarrow> Ok ()
      | Some ip \<Rightarrow>
          if is_loopback ip then Err (''endpoint must not target loopback: '' @ host)
          else if is_link_local ip then Err (''endpoint must not target link-local: '' @ host)
          else Ok ())"

definition validate_endpoint :: "url_parser \<Rightarrow> string \<Rightarrow> string + unit" where
  "validate_endpoint parse endpoint =
     (case parse endpoint of
        Inl e \<Rightarrow> Err (''invalid endpoint URL: '' @ e)
      | Inr (scheme, host_str) \<Rightarrow>
          if scheme \<notin> {''http'', ''https''} then Err (''unsupported scheme: '' @ scheme)
          else let host = unwrap_or host_str '''' in
            if cluster_internal host
            then Err (''endpoint must not target cluster-internal services: '' @ host)
            else if host \<in> set blocked_hosts
            then Err (''endpoint blocked (metadata service): '' @ host)
            else if host = ''localhost'' \<or> host = ''0.0.0.0''
            then Err (''endpoint must not target loopback: '' @ host)
            else check_address host)"

section \<open>Probing\<close>

record ProbeInfo =
  pi_omegon_version :: string
  pi_agent_id :: "string option"
  pi_model :: "string option"
  pi_ws_url :: "string option"

text \<open>
  The HTTP client: for a URL an error, or whether the status is a success, its text, and the body
  or the error of decoding it.  \<open>ws\<close> is the rewriting of the endpoint into its WebSocket URL.
\<close>

type_synonym http_client = "string \<Rightarrow> string + bool \<times> string \<times> (string + json)"

definition text_at :: "json \<Rightarrow> string list \<Rightarrow> string \<Rightarrow> string option" where
  "text_at body path key = Option.bind (or_else (pointer body path) (jget body key)) as_str"

definition startup_info :: "string option \<Rightarrow> json \<Rightarrow> ProbeInfo" where
  "startup_info ws_url body =
     \<lparr>pi_omegon_version =
        unwrap_or (text_at body [''instance_descriptor'', ''identity'', ''omegon_version''] ''omegon_version'')
          ''unknown'',
      pi_agent_id = text_at body [''instance_descriptor'', ''identity'', ''agent_id''] ''agent_id'',
      pi_model = text_at body [''instance_descriptor'', ''desired'', ''policy'', ''model''] ''model'',
      pi_ws_url = ws_url\<rparr>"

definition probe_external_agent ::
  "url_parser \<Rightarrow> http_client \<Rightarrow> (string \<Rightarrow> string option) \<Rightarrow> string \<Rightarrow> string + ProbeInfo"
where
  "probe_external_agent parse http ws endpoint =
     (case validate_endpoint parse endpoint of
        Inl e \<Rightarrow> Err e
      | Inr _ \<Rightarrow>
          (case http (endpoint @ ''/api/readyz'') of
             Inl e \<Rightarrow> Err (''health probe failed: '' @ e)
           | Inr (success, status, _) \<Rightarrow>
               if \<not> success then Err (''health probe returned '' @ status)
               else (case http (endpoint @ ''/api/startup'') of
                  Inl e \<Rightarrow> Err (''startup probe failed: '' @ e)
                | Inr (started, _, body) \<Rightarrow>
                    if \<not> started
                    then Ok \<lparr>pi_omegon_version = ''unknown'', pi_agent_id = None, pi_model = None,
                             pi_ws_url = None\<rparr>
                    else (case body of
                       Inl e \<Rightarrow> Err (''startup parse failed: '' @ e)
                     | Inr v \<Rightarrow> Ok (startup_info (ws endpoint) v)))))"

definition external_status :: "string \<Rightarrow> string + ProbeInfo \<Rightarrow> json" where
  "external_status now probe =
     (case probe of
        Inr info \<Rightarrow>
          jobj [(''status'', jobj
            [(''reachability'', JStr ''Online''), (''omegon_version'', JStr (pi_omegon_version info)),
             (''agent_id'', jopt_str (pi_agent_id info)), (''model'', jopt_str (pi_model info)),
             (''ws_url'', jopt_str (pi_ws_url info)), (''last_seen'', JStr now), (''last_error'', JNull)])]
      | Inl e \<Rightarrow>
          jobj [(''status'', jobj [(''reachability'', JStr ''Unreachable''), (''last_error'', JStr e)])])"

text \<open>The status sent, and the seconds to the next probe; a refused status is only logged.\<close>

definition reconcile_external ::
  "url_parser \<Rightarrow> http_client \<Rightarrow> (string \<Rightarrow> string option) \<Rightarrow> string \<Rightarrow> ExternalAgent \<Rightarrow> json \<times> nat"
where
  "reconcile_external parse http ws now a =
     (external_status now (probe_external_agent parse http ws (eas_endpoint (ea_spec a))),
      max (unat (eas_probe_interval_seconds (ea_spec a))) 10)"

section \<open>IPv4 endpoints\<close>

definition dotted :: "nat \<Rightarrow> nat \<Rightarrow> nat \<Rightarrow> nat \<Rightarrow> string" where
  "dotted a b c d = show_nat a @ ''.'' @ show_nat b @ ''.'' @ show_nat c @ ''.'' @ show_nat d"

lemma to_digit_digit_char: "d < 10 \<Longrightarrow> to_digit 10 (digit_char d) = Some d"
  by (simp add: to_digit_def hex_value_def digit_char_def Let_def)

lemma digits_of_show_nat:
  "digits_value 10 (show_nat n) = n \<and> (\<forall>c \<in> set (show_nat n). to_digit 10 c \<noteq> None) \<and>
   (hd (show_nat n) = CHR ''0'' \<longrightarrow> n = 0)"
proof (induction n rule: show_nat.induct)
  case (1 n)
  have zero: "CHR ''0'' = digit_char 0" by code_simp
  show ?case
  proof (cases "n < 10")
    case True
    then have "digit_char n = digit_char 0 \<Longrightarrow> n = 0"
      by (metis to_digit_digit_char option.inject zero_less_numeral)
    with True show ?thesis
      by (subst (1 2 3) show_nat.simps) (simp add: digits_value_def to_digit_digit_char zero)
  next
    case False
    with "1.IH" show ?thesis
      by (subst (1 2 3) show_nat.simps)
        (auto simp: digits_value_def to_digit_digit_char)
  qed
qed

lemma length_show_nat: "n \<le> 255 \<Longrightarrow> length (show_nat n) \<le> 3"
  by (subst show_nat.simps, subst show_nat.simps, subst show_nat.simps) auto

lemma show_nat_leading_zero: "hd (show_nat n) = CHR ''0'' \<Longrightarrow> length (show_nat n) = 1"
  using digits_of_show_nat [of n] by (subst show_nat.simps) simp

lemma read_number_show_nat:
  assumes "n \<le> 255" "rest = [] \<or> hd rest = CHR ''.''"
  shows "read_number 10 3 255 False (show_nat n @ rest) = Some (n, rest)"
proof -
  have facts: "digits_value 10 (show_nat n) = n" "length (show_nat n) \<le> 3"
      "hd (show_nat n) = CHR ''0'' \<Longrightarrow> length (show_nat n) = 1"
      "\<forall>c \<in> set (show_nat n). to_digit 10 c \<noteq> None"
    using digits_of_show_nat [of n] length_show_nat [OF assms(1)] show_nat_leading_zero by blast+
  have stop: "takeWhile (\<lambda>c. to_digit 10 c \<noteq> None) rest = []"
    "dropWhile (\<lambda>c. to_digit 10 c \<noteq> None) rest = rest"
    using assms(2) by (cases rest; simp add: to_digit_def hex_value_def)+
  have "takeWhile (\<lambda>c. to_digit 10 c \<noteq> None) (show_nat n @ rest) = show_nat n"
    "dropWhile (\<lambda>c. to_digit 10 c \<noteq> None) (show_nat n @ rest) = rest"
    using facts(4) stop by (simp_all add: takeWhile_append2 dropWhile_append2)
  with facts assms(1) show ?thesis
    by (auto simp: read_number_def Let_def)
qed

lemma parse_dotted:
  assumes "a \<le> 255" "b \<le> 255" "c \<le> 255" "d \<le> 255"
  shows "parse_ip (dotted a b c d) = Some (V4 [a, b, c, d])"
proof -
  have "read_ipv4_addr s = read_octets (Suc (Suc (Suc (Suc 0)))) 0 s" for s
    by (simp add: read_ipv4_addr_def eval_nat_numeral)
  then show ?thesis
    using assms read_number_show_nat [of d "[]"]
    by (simp add: parse_ip_def dotted_def read_separator_def read_number_show_nat)
qed

lemma dotted_inject:
  assumes "a \<le> 255" "b \<le> 255" "c \<le> 255" "d \<le> 255"
    and "a' \<le> 255" "b' \<le> 255" "c' \<le> 255" "d' \<le> 255"
  shows "dotted a b c d = dotted a' b' c' d' \<longleftrightarrow> [a, b, c, d] = [a', b', c', d']"
  by (metis parse_dotted [OF assms(1-4)] parse_dotted [OF assms(5-8)] option.inject IpAddr.inject(1)
      list.inject)

lemma last_dotted: "of_char (last (dotted a b c d)) \<in> {48 .. 57 :: nat}"
  using show_nat_digits [of "last (show_nat d)" d] by (simp add: dotted_def)

lemma not_dotted:
  assumes "w \<noteq> []" "of_char (last w) \<notin> {48 .. 57 :: nat}"
  shows "dotted a b c d \<noteq> w" "\<not> ends_with (dotted a b c d) w"
proof -
  show "dotted a b c d \<noteq> w" using assms last_dotted [of a b c d] by metis
  have "last (dotted a b c d) = last w" if "ends_with (dotted a b c d) w"
    using that assms(1) unfolding ends_with_def by (metis append_take_drop_id last_appendR)
  then show "\<not> ends_with (dotted a b c d) w" using assms(2) last_dotted [of a b c d] by metis
qed

text \<open>
  The check of IPv4 endpoints: an HTTP endpoint whose host is the address \<open>a.b.c.d\<close> is accepted
  exactly when the address is not in the loopback network 127/8, not in the link-local network
  169.254/16, which has the metadata services, and neither \<open>100.100.100.200\<close> nor \<open>0.0.0.0\<close>.
\<close>

theorem ipv4_endpoint_is_checked:
  assumes "parse endpoint = Ok (scheme, Some (dotted a b c d))" and "scheme \<in> {''http'', ''https''}"
    and octets: "a \<le> 255" "b \<le> 255" "c \<le> 255" "d \<le> 255"
  shows "is_ok (validate_endpoint parse endpoint) \<longleftrightarrow>
    a \<noteq> 127 \<and> (a, b) \<noteq> (169, 254) \<and> (a, b, c, d) \<notin> {(100, 100, 100, 200), (0, 0, 0, 0)}"
proof -
  let ?host = "dotted a b c d"
  have literals: "''169.254.169.254'' = dotted 169 254 169 254"
    "''100.100.100.200'' = dotted 100 100 100 200" "''0.0.0.0'' = dotted 0 0 0 0"
    by code_simp+
  have "\<not> cluster_internal ?host"
    unfolding cluster_internal_def by (simp add: not_dotted)
  moreover have "?host \<noteq> ''localhost''" "?host \<noteq> ''metadata.google.internal''"
    by (simp_all add: not_dotted)
  moreover have "?host = ''169.254.169.254'' \<longleftrightarrow> [a, b, c, d] = [169, 254, 169, 254]"
    "?host = ''100.100.100.200'' \<longleftrightarrow> [a, b, c, d] = [100, 100, 100, 200]"
    "?host = ''0.0.0.0'' \<longleftrightarrow> [a, b, c, d] = [0, 0, 0, 0]"
    unfolding literals using octets by (subst dotted_inject; simp)+
  ultimately show ?thesis
    using assms(2)
    by (auto simp: validate_endpoint_def assms(1) check_address_def parse_dotted [OF octets]
        blocked_hosts_def Let_def)
qed

text \<open>
  IPv6 endpoints are not checked at all.  The crate \<open>url\<close> gives an IPv6 host in brackets, which
  no address parser accepts, so that the tests of the address are never reached: every HTTP endpoint
  with an IPv6 host is accepted, the loopback address and link-local addresses included.
\<close>

theorem ipv6_endpoint_is_always_accepted:
  assumes "parse endpoint = Ok (scheme, Some (CHR ''['' # addr @ '']''))"
    and "scheme \<in> {''http'', ''https''}"
  shows "validate_endpoint parse endpoint = Ok ()"
proof -
  let ?host = "CHR ''['' # addr @ '']''"
  have bracket: "to_digit 10 (CHR ''['') = None" "to_digit 16 (CHR ''['') = None" by code_simp+
  have nonum: "read_number 10 m n z ?host = None" "read_number 16 m n z ?host = None" for m n z
    by (simp_all add: read_number_def bracket)
  have "read_ipv4_addr s = read_octets (Suc (Suc (Suc (Suc 0)))) 0 s" for s
    by (simp add: read_ipv4_addr_def eval_nat_numeral)
  then have v4: "read_ipv4_addr ?host = None"
    by (simp add: read_separator_def nonum)
  have "read_groups (Suc k) 0 ?host = ([], False, ?host)" for k
    by (simp add: v4 read_separator_def nonum)
  from this [of 7] have "read_groups 8 0 ?host = ([], False, ?host)" by simp
  then have "read_ipv6_addr ?host = None"
    by (cases addr) (simp_all add: read_ipv6_addr_def)
  with v4 have none: "parse_ip ?host = None"
    by (simp add: parse_ip_def)
  have "\<not> ends_with ?host w" if "w \<noteq> []" "last w \<noteq> CHR '']''" for w
  proof
    assume "ends_with ?host w"
    then have "last ?host = last w"
      using that(1) unfolding ends_with_def by (metis append_take_drop_id last_appendR)
    with that(2) show False by simp
  qed
  then have "\<not> cluster_internal ?host"
    by (simp add: cluster_internal_def)
  with none show ?thesis
    using assms(2) by (simp add: validate_endpoint_def assms(1) check_address_def blocked_hosts_def)
qed

definition sample_parser :: "string \<Rightarrow> url_parser" where
  "sample_parser host endpoint = Ok (''http'', Some host)"

theorem ipv4_endpoint_is_checked_example:
  "\<not> is_ok (validate_endpoint (sample_parser (dotted 127 0 0 53)) ''http://127.0.0.53'')"
proof -
  have "sample_parser (dotted 127 0 0 53) ''http://127.0.0.53'' = Ok (''http'', Some (dotted 127 0 0 53))"
    unfolding sample_parser_def ..
  from ipv4_endpoint_is_checked [of "sample_parser (dotted 127 0 0 53)" "''http://127.0.0.53''" "''http''" 127 0 0 53, OF this] show ?thesis by simp
qed

theorem ipv6_endpoint_is_always_accepted_example:
  "validate_endpoint (sample_parser ''[::1]'') ''http://[::1]:7842'' = Ok ()"
proof -
  have "sample_parser ''[::1]'' ''http://[::1]:7842'' = Ok (''http'', Some (CHR ''['' # ''::1'' @ '']''))"
    unfolding sample_parser_def by simp
  from ipv6_endpoint_is_always_accepted [of "sample_parser ''[::1]''" "''http://[::1]:7842''" "''http''" "''::1''", OF this] show ?thesis by simp
qed

end
