(* ===== verification/Operator_Api.thy ===== *)
theory Operator_Api
  imports Operator_Pod_Props
begin

text \<open>
  The fleet API of the operator (\<open>auspex-operator/src/main.rs\<close>): the authentication of requests,
  the projections of managed agents, and the handlers that read and change them.  The API server of
  the cluster is the parameter \<open>kube\<close>; a handler returns the calls it made and its answer.  The
  derived serialisers of specifications and statuses are a parameter.
\<close>

unbundle bit_operations_syntax

section \<open>Authentication\<close>

text \<open>
  \<open>constant_time_eq\<close>: the difference of the lengths is cut to one byte, and a byte that the input
  does not have counts as \<open>0xff\<close>.
\<close>

definition byte_of :: "char \<Rightarrow> 8 word" where
  "byte_of c = word_of_nat (of_char c)"

fun diff_bytes :: "string \<Rightarrow> string \<Rightarrow> 8 word \<Rightarrow> 8 word" where
  "diff_bytes actual [] diff = diff"
| "diff_bytes actual (e # expected) diff =
     diff_bytes (tl actual) expected
       (diff OR ((if actual = [] then 0xff else byte_of (hd actual)) XOR byte_of e))"

definition constant_time_eq :: "string \<Rightarrow> string \<Rightarrow> bool" where
  "constant_time_eq actual expected =
     (diff_bytes actual expected (word_of_nat (length actual XOR length expected)) = 0)"

text \<open>
  A request as the check sees it: the authorization and upgrade headers that are text, and the
  decoded query pairs.
\<close>

record ApiRequestHead =
  rh_authorization :: "string option"
  rh_upgrade :: "string option"
  rh_query :: "(string \<times> string) list option"

definition request_has_valid_api_auth :: "ApiRequestHead \<Rightarrow> string \<Rightarrow> bool" where
  "request_has_valid_api_auth req expected_bearer =
     (if constant_time_eq (unwrap_or (rh_authorization req) '''') expected_bearer then True
      else if \<not> (case rh_upgrade req of None \<Rightarrow> False
                 | Some v \<Rightarrow> to_ascii_lowercase v = ''websocket'') then False
      else if \<not> starts_with expected_bearer ''Bearer '' then False
      else (case rh_query req of
              None \<Rightarrow> False
            | Some query \<Rightarrow>
                \<exists>(k, v) \<in> set query. k \<in> {''access_token'', ''token''} \<and>
                  constant_time_eq v (drop (length ''Bearer '') expected_bearer)))"

section \<open>Projections\<close>

definition effective_namespace :: "OmegonAgent \<Rightarrow> string" where
  "effective_namespace a = unwrap_or (oa_namespace a) ''default''"

definition is_primary_agent :: "OmegonAgent \<Rightarrow> bool" where
  "is_primary_agent a \<longleftrightarrow>
     oas_role (oa_spec a) = ''primary-driver'' \<or>
     bt_get (oa_labels a) ''styrene.sh/agent-role'' = Some ''primary-driver''"

definition service_host :: "OmegonAgent \<Rightarrow> string" where
  "service_host a = oa_name_any a @ ''.'' @ effective_namespace a @ ''.svc''"

definition leaf_validity :: "ResolvedControlTls \<Rightarrow> string" where
  "leaf_validity t =
     (let year = (\<lambda>y. let i = sint y in if i < 0 then CHR ''-'' # show_nat (nat (- i)) else show_nat (nat i))
      in year (val_leaf_not_before_year (rct_validity t)) @ ''-'' @
         year (val_leaf_not_after_year (rct_validity t)))"

definition auth_mode :: "ResolvedControlTls option \<Rightarrow> string" where
  "auth_mode tls =
     (case tls of
        None \<Rightarrow> ''cluster-internal''
      | Some t \<Rightarrow> if rct_client_ca_key t \<noteq> None then ''mtls'' else ''cluster-internal-tls'')"

definition managed_agent_control_plane :: "OmegonAgent \<Rightarrow> json option" where
  "managed_agent_control_plane a =
     (if oas_mode (oa_spec a) \<noteq> Daemon then None
      else let tls = resolved_control_tls a (oa_name_any a);
               http = (if tls \<noteq> None then ''https'' else ''http'');
               ws = (if tls \<noteq> None then ''wss'' else ''ws'');
               at = (\<lambda>scheme path. JStr (scheme @ ''://'' @ service_host a @ '':7842'' @ path))
           in Some (jobj
             [(''schema_version'', JNum 2), (''service'', JStr (service_host a)),
              (''http_base'', at http ''''), (''base_url'', at http ''''),
              (''startup_url'', at http ''/api/startup''), (''state_url'', at http ''/api/state''),
              (''health_url'', at http ''/api/healthz''), (''ready_url'', at http ''/api/readyz''),
              (''ws_url'', at ws ''/ws''), (''acp_url'', at ws ''/acp''),
              (''acp_proxy_url'', JStr (''/api/agents/'' @ effective_namespace a @ ''/'' @
                                         oa_name_any a @ ''/acp'')),
              (''auth_mode'', JStr (auth_mode tls)),
              (''transport_security'', JStr (if tls \<noteq> None then ''tls'' else ''plaintext'')),
              (''mtls'', JBool (case tls of None \<Rightarrow> False | Some t \<Rightarrow> rct_client_ca_key t \<noteq> None)),
              (''tls_secret'', jopt (JStr \<circ> rct_secret_name) tls),
              (''tls_profile'', jopt (JStr \<circ> rct_profile) tls),
              (''tls_ca_epoch'', jopt (JStr \<circ> rct_ca_epoch) tls),
              (''tls_leaf_epoch'', jopt (JStr \<circ> rct_leaf_epoch) tls),
              (''tls_leaf_validity'', jopt (JStr \<circ> leaf_validity) tls)]))"

definition managed_agent_acp_url :: "OmegonAgent \<Rightarrow> string option" where
  "managed_agent_acp_url a =
     (if oas_mode (oa_spec a) \<noteq> Daemon then None
      else Some ((if resolved_control_tls a (oa_name_any a) \<noteq> None then ''wss'' else ''ws'') @
                 ''://'' @ service_host a @ '':7842/acp''))"

definition str_map :: "(string, string) btree \<Rightarrow> json" where
  "str_map m = JObj (map (\<lambda>(k, v). (k, JStr v)) m)"

text \<open>\<open>spec\<close> and \<open>status\<close> are the derived serialisations.\<close>

record serialisers =
  ser_spec :: "OmegonAgentSpec \<Rightarrow> json"
  ser_status :: "OmegonAgentStatus \<Rightarrow> json"
  ser_parse :: "json \<Rightarrow> string option"

definition managed_agent_detail :: "serialisers \<Rightarrow> OmegonAgent \<Rightarrow> json" where
  "managed_agent_detail ser a =
     jobj [(''name'', JStr (oa_name_any a)), (''namespace'', JStr (effective_namespace a)),
           (''metadata'', jobj [(''labels'', str_map (oa_labels a)),
                                (''annotations'', str_map (oa_annotations a))]),
           (''spec'', ser_spec ser (oa_spec a)), (''status'', jopt (ser_status ser) (oa_status a)),
           (''is_primary'', JBool (is_primary_agent a)),
           (''control_plane'', jopt id (managed_agent_control_plane a))]"

definition sbom_json :: "SbomStatus \<Rightarrow> json" where
  "sbom_json sb =
     (let count = jopt (\<lambda>n. JNum (uint n)) in
      jobj [(''available'', JBool (sbs_available sb)), (''format'', jopt_str (sbs_format sb)),
            (''artifact_ref'', jopt_str (sbs_artifact_ref sb)),
            (''image_digest'', jopt_str (sbs_image_digest sb)),
            (''generated_at'', jopt_str (sbs_generated_at sb)),
            (''component_count'', count (sbs_component_count sb)),
            (''vulnerability_count'', count (sbs_vulnerability_count sb)),
            (''signature_verified'', jopt JBool (sbs_signature_verified sb))])"

section \<open>Lifecycle\<close>

text \<open>The replicas and the worst condition of a deployment, or the error of reading it.\<close>

record DeploymentStatus =
  dep_ready_replicas :: "i32 option"
  dep_available_replicas :: "i32 option"
  dep_conditions :: "(string \<times> string \<times> string option \<times> string option) list option"

definition deployment_condition_message :: "DeploymentStatus \<Rightarrow> string option" where
  "deployment_condition_message status =
     (case dep_conditions status of
        None \<Rightarrow> None
      | Some conditions \<Rightarrow>
          (case find (\<lambda>(kind, st, message, reason).
                   kind \<in> {''Progressing'', ''Available'', ''ReplicaFailure''} \<and> st \<noteq> ''True'') conditions of
             None \<Rightarrow> None
           | Some (_, _, message, reason) \<Rightarrow> or_else message reason))"

definition lifecycle_step_state :: "bool \<Rightarrow> bool \<Rightarrow> string" where
  "lifecycle_step_state ready failed =
     (if ready then ''ok'' else if failed then ''failed'' else ''pending'')"

definition eq_ignore_ascii_case :: "string \<Rightarrow> string \<Rightarrow> bool" where
  "eq_ignore_ascii_case s t \<longleftrightarrow> to_ascii_lowercase s = to_ascii_lowercase t"

definition agent_phase :: "OmegonAgent \<Rightarrow> string" where
  "agent_phase a =
     (case oa_status a of
        None \<Rightarrow> ''Pending''
      | Some st \<Rightarrow> if ost_phase st = [] then ''Pending'' else ost_phase st)"

definition show_i32 :: "i32 \<Rightarrow> string" where
  "show_i32 n = (if sint n < 0 then CHR ''-'' # show_nat (nat (- sint n)) else show_nat (nat (sint n)))"

definition lifecycle_step :: "string \<Rightarrow> string \<Rightarrow> string \<Rightarrow> string \<Rightarrow> json" where
  "lifecycle_step key label st detail =
     jobj [(''key'', JStr key), (''label'', JStr label), (''state'', JStr st), (''detail'', JStr detail)]"

record WorkloadState =
  wl_created :: bool
  wl_ready :: i32
  wl_available :: i32
  wl_message :: "string option"

definition workload_state ::
  "(string \<Rightarrow> string \<Rightarrow> string + DeploymentStatus option) \<Rightarrow> OmegonAgent \<Rightarrow> WorkloadState"
where
  "workload_state get a =
     (if oas_mode (oa_spec a) = Daemon then
        (case get (effective_namespace a) (oa_name_any a) of
           Inl e \<Rightarrow> \<lparr>wl_created = False, wl_ready = 0, wl_available = 0, wl_message = Some e\<rparr>
         | Inr None \<Rightarrow> \<lparr>wl_created = True, wl_ready = 0, wl_available = 0, wl_message = None\<rparr>
         | Inr (Some st) \<Rightarrow>
             \<lparr>wl_created = True, wl_ready = unwrap_or (dep_ready_replicas st) 0,
              wl_available = unwrap_or (dep_available_replicas st) 0,
              wl_message = deployment_condition_message st\<rparr>)
      else \<lparr>wl_created = \<not> eq_ignore_ascii_case (agent_phase a) ''Pending'', wl_ready = 0,
            wl_available = 0, wl_message = None\<rparr>)"

definition managed_agent_lifecycle ::
  "(string \<Rightarrow> string \<Rightarrow> string + DeploymentStatus option) \<Rightarrow> OmegonAgent \<Rightarrow> json"
where
  "managed_agent_lifecycle get a =
     (let phase = agent_phase a;
          status_message = Option.bind (oa_status a) (\<lambda>st.
            case ost_message st of None \<Rightarrow> None | Some m \<Rightarrow> if m = [] then None else Some m);
          cr_observed = (case (Option.bind (oa_status a) ost_observed_generation, oa_generation a) of
            (Some observed, Some generation) \<Rightarrow> sint generation \<le> sint observed | _ \<Rightarrow> False);
          acp_proxy_ready = (case Option.bind (Option.bind (managed_agent_control_plane a)
              (\<lambda>c. jget c ''acp_proxy_url'')) as_str of None \<Rightarrow> False | Some url \<Rightarrow> url \<noteq> []);
          w = workload_state get a;
          pod_ready = (if oas_mode (oa_spec a) = Daemon
            then 0 < sint (wl_ready w) \<or> 0 < sint (wl_available w)
            else eq_ignore_ascii_case phase ''Succeeded'' \<or> eq_ignore_ascii_case phase ''Running'');
          failed = eq_ignore_ascii_case phase ''Failed'';
          summary = unwrap_or (or_else status_message (wl_message w))
            (if failed then ''Agent reconciliation failed.''
             else if pod_ready \<and> acp_proxy_ready
             then ''Agent workload is ready and control-plane metadata is published.''
             else if wl_created w then ''Agent workload exists; waiting for runtime readiness.''
             else ''OmegonAgent accepted; waiting for workload reconciliation.'')
      in jobj
        [(''phase'', JStr phase), (''summary'', JStr summary),
         (''ready_replicas'', JNum (sint (wl_ready w))),
         (''available_replicas'', JNum (sint (wl_available w))),
         (''steps'', JArr
           [lifecycle_step ''cr'' ''CR accepted'' (if failed then ''failed'' else ''ok'')
              (if cr_observed then ''Observed by operator'' else ''Stored in API server''),
            lifecycle_step ''workload'' ''Workload created'' (lifecycle_step_state (wl_created w) failed)
              (if wl_created w then ''Deployment/CronJob materialized'' else ''Waiting for reconcile''),
            lifecycle_step ''pod'' ''Pod ready'' (lifecycle_step_state pod_ready failed)
              (show_i32 (wl_ready w) @ '' ready / '' @ show_i32 (wl_available w) @ '' available''),
            lifecycle_step ''control-plane'' ''ACP reachable'' (lifecycle_step_state acp_proxy_ready failed)
              (if acp_proxy_ready then ''Operator ACP proxy published''
               else ''Waiting for daemon control plane'')])])"

end
