(* ===== verification/Operator_Handlers.thy ===== *)
theory Operator_Handlers
  imports Operator_Api
begin

text \<open>
  The handlers of the fleet API (\<open>auspex-operator/src/main.rs\<close>), the bootstrap of the primary agent
  and the checks on patches.  A handler returns its calls to the API server with its answer; a
  request that makes it panic is \<open>None\<close>.
\<close>

section \<open>Calls\<close>

datatype PatchKind = Apply | Merge

text \<open>The namespace and name of the agent; for a patch its kind, manager, whether forced, its body.\<close>

datatype KubeCall =
    GetAgent string string
  | PatchAgent string string PatchKind string bool json

fun call_namespace :: "KubeCall \<Rightarrow> string" where
  "call_namespace (GetAgent ns _) = ns"
| "call_namespace (PatchAgent ns _ _ _ _ _) = ns"

type_synonym kube_api = "KubeCall \<Rightarrow> string + OmegonAgent"

definition error_json :: "string \<Rightarrow> json" where
  "error_json e = jobj [(''error'', JStr e)]"

definition quote_ns :: "string \<Rightarrow> string" where
  "quote_ns s = [CHR 0x27] @ s @ [CHR 0x27]"

definition namespace_scope_error :: "string option \<Rightarrow> string \<Rightarrow> json option" where
  "namespace_scope_error watch ns =
     (case watch of
        None \<Rightarrow> None
      | Some allowed \<Rightarrow>
          if ns = allowed then None
          else Some (error_json (''namespace '' @ quote_ns ns @ '' is outside operator scope '' @
                                 quote_ns allowed)))"

text \<open>One call, answered with a projection of the agent or with the error.\<close>

definition call_agent :: "kube_api \<Rightarrow> KubeCall \<Rightarrow> (OmegonAgent \<Rightarrow> json) \<Rightarrow> KubeCall list \<times> json" where
  "call_agent kube call f =
     ([call], case kube call of Inr a \<Rightarrow> f a | Inl e \<Rightarrow> error_json e)"

section \<open>Reading\<close>

definition agent_detail_handler ::
  "serialisers \<Rightarrow> string option \<Rightarrow> kube_api \<Rightarrow> string \<Rightarrow> string \<Rightarrow> KubeCall list \<times> json"
where
  "agent_detail_handler ser watch kube ns name =
     (case namespace_scope_error watch ns of
        Some e \<Rightarrow> ([], e)
      | None \<Rightarrow> call_agent kube (GetAgent ns name) (managed_agent_detail ser))"

definition agent_control_plane_handler ::
  "string option \<Rightarrow> kube_api \<Rightarrow> string \<Rightarrow> string \<Rightarrow> KubeCall list \<times> json"
where
  "agent_control_plane_handler watch kube ns name =
     (case namespace_scope_error watch ns of
        Some e \<Rightarrow> ([], e)
      | None \<Rightarrow> call_agent kube (GetAgent ns name) (\<lambda>a.
          jobj [(''name'', JStr name), (''namespace'', JStr ns),
                (''control_plane'', jopt id (managed_agent_control_plane a))]))"

definition sbom_handler :: "string option \<Rightarrow> kube_api \<Rightarrow> string \<Rightarrow> string \<Rightarrow> KubeCall list \<times> json" where
  "sbom_handler watch kube ns name =
     (case namespace_scope_error watch ns of
        Some e \<Rightarrow> ([], e)
      | None \<Rightarrow> call_agent kube (GetAgent ns name) (\<lambda>a.
          jobj [(''name'', JStr name), (''namespace'', JStr ns),
                (''image'', JStr (oas_image (oa_spec a))), (''profile'', jopt_str (oas_profile (oa_spec a))),
                (''sbom'', jopt sbom_json (Option.bind (oa_status a) ost_sbom)),
                (''sbom_spec'', jopt (\<lambda>s.
                   jobj [(''enabled'', JBool (sbom_enabled s)), (''format'', JStr (sbom_format s)),
                         (''vulnerability_scan'', JBool (sbom_vulnerability_scan s))])
                   (oas_sbom (oa_spec a)))]))"

text \<open>The target of the ACP proxy: its URL and the TLS settings the connector is built from.\<close>

datatype ProxyError = Forbidden string | NotFound string | BadRequest string | BadGateway string

definition resolve_acp_proxy_target ::
  "string option \<Rightarrow> kube_api \<Rightarrow> string \<Rightarrow> string \<Rightarrow>
   KubeCall list \<times> (ProxyError + string \<times> ResolvedControlTls option)"
where
  "resolve_acp_proxy_target watch kube ns name =
     (case namespace_scope_error watch ns of
        Some e \<Rightarrow>
          ([], Err (Forbidden (unwrap_or (Option.bind (jget e ''error'') as_str)
                                 ''namespace outside operator scope'')))
      | None \<Rightarrow>
          ([GetAgent ns name],
           case kube (GetAgent ns name) of
             Inl e \<Rightarrow> Err (NotFound e)
           | Inr a \<Rightarrow>
               if oas_mode (oa_spec a) \<noteq> Daemon
               then Err (BadRequest ''ACP proxy is only available for daemon agents'')
               else case managed_agent_acp_url a of
                 None \<Rightarrow> Err (BadGateway ''agent has no ACP control-plane endpoint'')
               | Some url \<Rightarrow> Ok (url, resolved_control_tls a name)))"

section \<open>Deploying\<close>

definition wrap_agent :: "serialisers \<Rightarrow> OmegonAgent \<Rightarrow> json" where
  "wrap_agent ser a = jobj [(''agent'', managed_agent_detail ser a)]"

text \<open>\<open>ser_parse\<close> is the error of reading the manifest as an agent, if it is none.\<close>

definition deploy_checked ::
  "serialisers \<Rightarrow> string option \<Rightarrow> kube_api \<Rightarrow> string \<Rightarrow> string \<Rightarrow> json \<Rightarrow> KubeCall list \<times> json"
where
  "deploy_checked ser watch kube ns name manifest =
     (case namespace_scope_error watch ns of
        Some e \<Rightarrow> ([], e)
      | None \<Rightarrow>
          (case ser_parse ser manifest of
             Some e \<Rightarrow> ([], error_json (''invalid OmegonAgent manifest: '' @ e))
           | None \<Rightarrow> call_agent kube (PatchAgent ns name Apply ''auspex-webui'' True manifest)
                      (wrap_agent ser)))"

definition typed_manifest :: "json \<Rightarrow> json option" where
  "typed_manifest manifest =
     Option.bind (jset ''apiVersion'' (JStr ''styrene.sh/v1alpha1'') manifest)
       (jset ''kind'' (JStr ''OmegonAgent''))"

definition deploy_agent_handler ::
  "serialisers \<Rightarrow> string option \<Rightarrow> kube_api \<Rightarrow> json \<Rightarrow> (KubeCall list \<times> json) option"
where
  "deploy_agent_handler ser watch kube manifest =
     (case typed_manifest manifest of
        None \<Rightarrow> None
      | Some m \<Rightarrow>
          (let name = trim (unwrap_or (Option.bind (pointer m [''metadata'', ''name'']) as_str) '''')
           in if name = [] then Some ([], error_json ''metadata.name is required'')
              else let ns = unwrap_or (or_else (Option.bind (pointer m [''metadata'', ''namespace'']) as_str)
                                         watch) ''default''
                   in map_option (deploy_checked ser watch kube ns name)
                        (jset2 ''metadata'' ''namespace'' (JStr ns) m)))"

section \<open>Patching\<close>

text \<open>The keys of an object in their order, the first that is not allowed decides.\<close>

fun validate_metadata_keys :: "string list \<Rightarrow> string + unit" where
  "validate_metadata_keys [] = Ok ()"
| "validate_metadata_keys (k # ks) =
     (if k \<in> {''labels'', ''annotations''} then validate_metadata_keys ks
      else Err ''metadata patch may only update labels or annotations'')"

definition validate_patch_metadata :: "json \<Rightarrow> string + unit" where
  "validate_patch_metadata metadata =
     (case as_object metadata of
        None \<Rightarrow> Err ''metadata patch must be a JSON object''
      | Some m \<Rightarrow> validate_metadata_keys (map fst m))"

fun validate_patch_fields :: "(string \<times> json) list \<Rightarrow> string + unit" where
  "validate_patch_fields [] = Ok ()"
| "validate_patch_fields ((k, v) # m) =
     (if k = ''spec'' then validate_patch_fields m
      else if k = ''metadata'' then and_then (validate_patch_metadata v) (\<lambda>_. validate_patch_fields m)
      else Err ''agent patch may only update spec or metadata labels/annotations'')"

definition validate_webui_agent_patch :: "json \<Rightarrow> string + unit" where
  "validate_webui_agent_patch patch_body =
     (case as_object patch_body of
        None \<Rightarrow> Err ''agent patch must be a JSON object''
      | Some m \<Rightarrow> validate_patch_fields m)"

definition patch_agent_handler ::
  "serialisers \<Rightarrow> string option \<Rightarrow> kube_api \<Rightarrow> string \<Rightarrow> string \<Rightarrow> json \<Rightarrow> KubeCall list \<times> json"
where
  "patch_agent_handler ser watch kube ns name patch_body =
     (case namespace_scope_error watch ns of
        Some e \<Rightarrow> ([], e)
      | None \<Rightarrow>
          (case validate_webui_agent_patch patch_body of
             Inl e \<Rightarrow> ([], error_json e)
           | Inr _ \<Rightarrow> call_agent kube (PatchAgent ns name Merge [] False patch_body) (wrap_agent ser)))"

text \<open>\<open>now\<close> is the time in seconds.\<close>

definition rotation_epoch :: "nat \<Rightarrow> string" where
  "rotation_epoch now = ''manual-'' @ show_nat now"

definition tls_rotation :: "nat \<Rightarrow> json \<Rightarrow> json" where
  "tls_rotation now body =
     (let field = (\<lambda>camel snake. Option.bind (or_else (jget body camel) (jget body snake)) as_str)
      in jinsert_opt ''profile'' (map_option JStr (Option.bind (jget body ''profile'') as_str))
           (jinsert_opt ''caEpoch'' (map_option JStr (field ''caEpoch'' ''ca_epoch''))
             (jobj [(''enabled'', JBool True),
                    (''leafEpoch'', JStr (unwrap_or (field ''leafEpoch'' ''leaf_epoch'') (rotation_epoch now)))])))"

definition rotation_patch :: "json \<Rightarrow> json" where
  "rotation_patch tls = jobj [(''spec'', jobj [(''controlPlane'', jobj [(''tls'', tls)])])]"

definition rotate_control_tls_handler ::
  "serialisers \<Rightarrow> nat \<Rightarrow> string option \<Rightarrow> kube_api \<Rightarrow> string \<Rightarrow> string \<Rightarrow> json option \<Rightarrow> KubeCall list \<times> json"
where
  "rotate_control_tls_handler ser now watch kube ns name body =
     (case namespace_scope_error watch ns of
        Some e \<Rightarrow> ([], e)
      | None \<Rightarrow>
          call_agent kube
            (PatchAgent ns name Merge [] False
               (rotation_patch (tls_rotation now (unwrap_or body (jobj [])))))
            (\<lambda>a. jobj [(''agent'', managed_agent_detail ser a),
                       (''rotation'', jopt (\<lambda>tls.
                          jobj [(''profile'', JStr (rct_profile tls)), (''ca_epoch'', JStr (rct_ca_epoch tls)),
                                (''leaf_epoch'', JStr (rct_leaf_epoch tls)),
                                (''secret'', JStr (rct_secret_name tls))])
                          (resolved_control_tls a name))]))"

section \<open>The primary agent\<close>

definition env_flag :: "process_env \<Rightarrow> string \<Rightarrow> bool \<Rightarrow> bool" where
  "env_flag env name default_value =
     (case env name of
        None \<Rightarrow> default_value
      | Some v \<Rightarrow> to_ascii_lowercase v \<in> {''1'', ''true'', ''yes'', ''on''})"

record PrimaryAgentBootstrapConfig =
  pab_namespace :: string
  pab_name :: string
  pab_image :: string
  pab_model :: string
  pab_secret_name :: "string option"
  pab_auth_json_secret :: "string option"
  pab_control_tls_secret :: "string option"

definition primary_config :: "process_env \<Rightarrow> string option \<Rightarrow> PrimaryAgentBootstrapConfig" where
  "primary_config env watch =
     \<lparr>pab_namespace = unwrap_or (or_else (env ''AUSPEX_PRIMARY_AGENT_NAMESPACE'') watch) ''omegon-agents'',
      pab_name = unwrap_or (env ''AUSPEX_PRIMARY_AGENT_NAME'') ''auspex-primary'',
      pab_image = unwrap_or (env ''AUSPEX_PRIMARY_AGENT_IMAGE'') ''ghcr.io/styrene-lab/omegon:0.26.5'',
      pab_model = unwrap_or (env ''AUSPEX_PRIMARY_AGENT_MODEL'') ''anthropic:claude-sonnet-4-6'',
      pab_secret_name = env ''AUSPEX_PRIMARY_AGENT_SECRET'',
      pab_auth_json_secret = env ''AUSPEX_PRIMARY_AGENT_AUTH_JSON_SECRET'',
      pab_control_tls_secret = env ''AUSPEX_PRIMARY_AGENT_CONTROL_TLS_SECRET''\<rparr>"

definition primary_identity :: json where
  "primary_identity =
     jobj [(''provision'', JBool True), (''securityTier'', JStr ''file''),
           (''meshRole'', JStr ''operator''), (''mtls'', JBool True)]"

definition primary_spec :: "PrimaryAgentBootstrapConfig \<Rightarrow> json" where
  "primary_spec config =
     jobj ([(''agent'', JStr ''styrene.auspex-primary''), (''model'', JStr (pab_model config)),
            (''posture'', JStr ''architect''), (''role'', JStr ''primary-driver''),
            (''mode'', JStr ''daemon''), (''image'', JStr (pab_image config)),
            (''terminalTool'', JBool False),
            (''secrets'', jobj (push_some (pab_secret_name config) (\<lambda>s. [(''secretName'', JStr s)]) @
               push_some (pab_auth_json_secret config) (\<lambda>s. [(''authJsonSecret'', JStr s)]))),
            (''resources'', jobj [(''cpu'', JStr ''1''), (''memory'', JStr ''2Gi'')])] @
           push_some (pab_control_tls_secret config) (\<lambda>secret.
             [(''identity'', primary_identity),
              (''controlPlane'', jobj [(''tls'', jobj [(''enabled'', JBool True),
                                                      (''secretName'', JStr secret)])])]))"

definition primary_agent_manifest :: "PrimaryAgentBootstrapConfig \<Rightarrow> json" where
  "primary_agent_manifest config =
     jobj [(''apiVersion'', JStr ''styrene.sh/v1alpha1''), (''kind'', JStr ''OmegonAgent''),
           (''metadata'', jobj [(''name'', JStr (pab_name config)),
              (''namespace'', JStr (pab_namespace config)),
              (''labels'', jobj [(''app.kubernetes.io/part-of'', JStr ''auspex''),
                                 (''styrene.sh/agent-role'', JStr ''primary-driver'')])]),
           (''spec'', primary_spec config)]"

text \<open>\<open>exists\<close> is \<open>get_opt\<close>; the first error ends the bootstrap.\<close>

definition ensure_primary_agent ::
  "process_env \<Rightarrow> string option \<Rightarrow> (string \<Rightarrow> string \<Rightarrow> string + bool) \<Rightarrow> kube_api \<Rightarrow>
   KubeCall list \<times> (string + unit)"
where
  "ensure_primary_agent env watch exists kube =
     (if \<not> env_flag env ''AUSPEX_BOOTSTRAP_PRIMARY_AGENT'' True then ([], Ok ())
      else let config = primary_config env watch;
               get = GetAgent (pab_namespace config) (pab_name config);
               call = PatchAgent (pab_namespace config) (pab_name config) Apply ''auspex-operator'' True
                        (primary_agent_manifest config)
           in case exists (pab_namespace config) (pab_name config) of
                Inl e \<Rightarrow> ([get], Err e)
              | Inr True \<Rightarrow> ([get], Ok ())
              | Inr False \<Rightarrow> ([get, call], map_sum id (\<lambda>_. ()) (kube call)))"

section \<open>Secrets shown to the operator\<close>

record SecretObject =
  so_name :: string
  so_namespace :: "string option"
  so_type :: "string option"
  so_labels :: "(string, string) btree option"
  so_annotations :: "(string, string) btree"
  so_data :: "(string, 8 word list) btree option"

definition secret_grant_projection :: "SecretObject \<Rightarrow> json option" where
  "secret_grant_projection secret =
     (case so_labels secret of
        None \<Rightarrow> None
      | Some labels \<Rightarrow>
          if bt_get labels ''styrene.sh/secret-grant'' = None \<and>
             bt_get labels ''styrene.sh/identity'' = None \<and>
             bt_get labels ''styrene.sh/control-plane-tls'' = None
          then None
          else Some (jobj
            [(''name'', JStr (so_name secret)), (''namespace'', jopt_str (so_namespace secret)),
             (''type'', jopt_str (so_type secret)), (''labels'', str_map labels),
             (''annotations'', str_map (so_annotations secret)),
             (''data_keys'', JArr (map (JStr \<circ> fst) (unwrap_or (so_data secret) []))),
             (''redacted'', JBool True)]))"

end
