(* ===== verification/Operator_Handlers_Props.thy ===== *)
theory Operator_Handlers_Props
  imports Operator_Handlers
begin

text \<open>
  Properties of the fleet API: which tokens it accepts, that a scoped operator never calls outside
  its namespace, what an accepted patch can change, and what it tells about the transport of an
  agent.
\<close>

unbundle bit_operations_syntax

section \<open>The comparison of tokens\<close>

definition byte_at :: "string \<Rightarrow> nat \<Rightarrow> 8 word" where
  "byte_at s i = (if i < length s then byte_of (s ! i) else 0xff)"

lemma byte_of_inject: "byte_of c = byte_of d \<longleftrightarrow> c = d"
proof
  assume "byte_of c = byte_of d"
  then have "(of_char c :: nat) mod 256 = of_char d mod 256"
    by (simp add: byte_of_def word_of_nat_eq_iff take_bit_eq_mod)
  then show "c = d" by simp
qed simp

lemma byte_of_ff: "byte_of c = 0xff \<longleftrightarrow> c = CHR 0xFF"
proof -
  have "byte_of (CHR 0xFF) = 0xff" by (simp add: byte_of_def)
  then show ?thesis by (metis byte_of_inject)
qed

lemma xor_zero_iff: "a XOR b = 0 \<longleftrightarrow> a = (b :: 'a::semiring_bit_operations)"
  by (metis xor.assoc xor.left_neutral xor.right_neutral xor_self_eq)

lemma diff_bytes_zero:
  "diff_bytes actual expected diff = 0 \<longleftrightarrow>
     diff = 0 \<and> (\<forall>i < length expected. byte_at actual i = byte_of (expected ! i))"
proof (induction actual expected diff rule: diff_bytes.induct)
  case (1 actual diff)
  then show ?case by simp
next
  case (2 actual e expected diff)
  have head: "(if actual = [] then 0xff else byte_of (hd actual)) = byte_at actual 0"
    by (cases actual) (simp_all add: byte_at_def)
  have tail: "byte_at (tl actual) i = byte_at actual (Suc i)" for i
    by (cases actual) (simp_all add: byte_at_def)
  have zero: "x OR (y XOR z) = 0 \<longleftrightarrow> x = 0 \<and> y = z" for x y z :: "8 word"
    by (simp add: or_eq_0_iff xor_zero_iff)
  show ?case
    by (simp only: diff_bytes.simps head "2.IH" [unfolded head] tail zero) (auto simp: All_less_Suc2)
qed

lemma truncated_lengths:
  "(word_of_nat (m XOR n) :: 8 word) = 0 \<longleftrightarrow> m mod 256 = (n :: nat) mod 256"
proof -
  have "(word_of_nat (m XOR n) :: 8 word) = 0 \<longleftrightarrow> take_bit 8 (m XOR n) = 0"
    using word_of_nat_eq_iff [of "m XOR n" 0, where 'a = 8] by simp
  also have "\<dots> \<longleftrightarrow> take_bit 8 m = take_bit 8 n"
    by (simp add: take_bit_xor xor_zero_iff)
  finally show ?thesis by (simp add: take_bit_eq_mod)
qed

lemma constant_time_eq_iff:
  assumes "CHR 0xFF \<notin> set expected"
  shows "constant_time_eq actual expected \<longleftrightarrow>
    length actual mod 256 = length expected mod 256 \<and> length expected \<le> length actual \<and>
    take (length expected) actual = expected"
proof -
  have "(\<forall>i < length expected. byte_at actual i = byte_of (expected ! i)) \<longleftrightarrow>
      (\<forall>i < length expected. i < length actual \<and> actual ! i = expected ! i)"
    using assms by (auto simp: byte_at_def byte_of_inject) (metis byte_of_ff nth_mem)+
  also have "\<dots> \<longleftrightarrow> length expected \<le> length actual \<and> take (length expected) actual = expected"
  proof
    assume same: "\<forall>i < length expected. i < length actual \<and> actual ! i = expected ! i"
    have "length expected \<le> length actual"
      using same by (meson leI less_irrefl)
    with same show "length expected \<le> length actual \<and> take (length expected) actual = expected"
      by (simp add: list_eq_iff_nth_eq)
  next
    assume "length expected \<le> length actual \<and> take (length expected) actual = expected"
    then show "\<forall>i < length expected. i < length actual \<and> actual ! i = expected ! i"
      by (metis nth_take order_less_le_trans)
  qed
  finally show ?thesis
    by (simp add: constant_time_eq_def diff_bytes_zero truncated_lengths)
qed

text \<open>
  C25: The token comparison of the API.  Tokens are UTF-8, so they have no byte \<open>0xff\<close>; then what a
  caller presents passes exactly when it starts with the expected token and its length differs from
  that of the token by a multiple of 256, since the difference of the lengths is cut to one byte:
  every proper prefix and every change is refused, but a token with 256 further bytes passes.
\<close>

theorem token_comparison:
  assumes "CHR 0xFF \<notin> set expected"
  shows "constant_time_eq actual expected \<longleftrightarrow>
    (\<exists>further. actual = expected @ further \<and> 256 dvd length further)"
proof
  assume "constant_time_eq actual expected"
  then have len: "length actual mod 256 = length expected mod 256" "length expected \<le> length actual"
    and pre: "take (length expected) actual = expected"
    by (simp_all add: constant_time_eq_iff [OF assms])
  from pre have "actual = expected @ drop (length expected) actual"
    by (metis append_take_drop_id)
  moreover have "256 dvd length (drop (length expected) actual)"
    using len by (simp add: mod_eq_dvd_iff_nat)
  ultimately show "\<exists>further. actual = expected @ further \<and> 256 dvd length further" by blast
next
  assume "\<exists>further. actual = expected @ further \<and> 256 dvd length further"
  then show "constant_time_eq actual expected"
    by (auto simp: constant_time_eq_iff [OF assms])
qed

lemma padded_token_passes:
  assumes "CHR 0xFF \<notin> set expected" "length pad = 256"
  shows "constant_time_eq (expected @ pad) expected"
  using assms by (simp add: constant_time_eq_iff)

text \<open>No request passes without presenting the token, in the header or in a WebSocket query.\<close>

lemma accepted_request_presents_the_token:
  assumes "CHR 0xFF \<notin> set token" and "request_has_valid_api_auth req (''Bearer '' @ token)"
  shows "starts_with (unwrap_or (rh_authorization req) '''') (''Bearer '' @ token) \<or>
    (\<exists>(k, v) \<in> set (unwrap_or (rh_query req) []). k \<in> {''access_token'', ''token''} \<and> starts_with v token)"
proof -
  have bearer: "CHR 0xFF \<notin> set (''Bearer '' @ token)" using assms(1) by simp
  have pre: "constant_time_eq v t \<Longrightarrow> CHR 0xFF \<notin> set t \<Longrightarrow> starts_with v t" for v t
    by (simp add: constant_time_eq_iff starts_with_def)
  show ?thesis
    using assms(2) pre [OF _ bearer] pre [OF _ assms(1)]
    by (fastforce simp: request_has_valid_api_auth_def split: if_splits option.splits)
qed

section \<open>Scope\<close>

datatype api_request =
    Detail string string
  | ControlPlane string string
  | Sbom string string
  | AcpProxy string string
  | Deploy json
  | PatchRequest string string json
  | RotateTls string string "json option"

fun api_calls ::
  "serialisers \<Rightarrow> nat \<Rightarrow> string option \<Rightarrow> kube_api \<Rightarrow> api_request \<Rightarrow> KubeCall list"
where
  "api_calls ser now watch kube (Detail ns n) = fst (agent_detail_handler ser watch kube ns n)"
| "api_calls ser now watch kube (ControlPlane ns n) = fst (agent_control_plane_handler watch kube ns n)"
| "api_calls ser now watch kube (Sbom ns n) = fst (sbom_handler watch kube ns n)"
| "api_calls ser now watch kube (AcpProxy ns n) = fst (resolve_acp_proxy_target watch kube ns n)"
| "api_calls ser now watch kube (Deploy manifest) =
     (case deploy_agent_handler ser watch kube manifest of None \<Rightarrow> [] | Some r \<Rightarrow> fst r)"
| "api_calls ser now watch kube (PatchRequest ns n body) = fst (patch_agent_handler ser watch kube ns n body)"
| "api_calls ser now watch kube (RotateTls ns n body) =
     fst (rotate_control_tls_handler ser now watch kube ns n body)"

text \<open>A call in the namespace; what it applies is an agent of that namespace as well.\<close>

fun call_in_scope :: "string \<Rightarrow> KubeCall \<Rightarrow> bool" where
  "call_in_scope allowed (GetAgent ns _) \<longleftrightarrow> ns = allowed"
| "call_in_scope allowed (PatchAgent ns _ kind _ _ body) \<longleftrightarrow>
     ns = allowed \<and>
     (kind = Apply \<longrightarrow>
        jget body ''kind'' = Some (JStr ''OmegonAgent'') \<and>
        jget body ''apiVersion'' = Some (JStr ''styrene.sh/v1alpha1'') \<and>
        pointer body [''metadata'', ''namespace''] = Some (JStr allowed))"

lemma scope_ok: "namespace_scope_error (Some allowed) ns = None \<longleftrightarrow> ns = allowed"
  by (simp add: namespace_scope_error_def)

lemma typed_manifest_fields:
  assumes "typed_manifest v = Some m" "jok v"
  shows "jok m \<and> jget m ''kind'' = Some (JStr ''OmegonAgent'') \<and>
    jget m ''apiVersion'' = Some (JStr ''styrene.sh/v1alpha1'') \<and>
    jget m ''metadata'' = jget v ''metadata''"
proof -
  from assms(1) obtain w where w: "jset ''apiVersion'' (JStr ''styrene.sh/v1alpha1'') v = Some w"
    "jset ''kind'' (JStr ''OmegonAgent'') w = Some m"
    by (auto simp: typed_manifest_def bind_eq_Some_conv)
  from jset_Some [OF w(1) assms(2), of "''apiVersion''"] jset_Some [OF w(1) assms(2), of "''metadata''"]
    jset_Some [OF w(2), of "''kind''"] jset_Some [OF w(2), of "''apiVersion''"]
    jset_Some [OF w(2), of "''metadata''"]
  show ?thesis by simp
qed

lemma jset2_fields:
  assumes "jset2 k l x v = Some w" "jok v" "\<And>u. jget v k = Some u \<Longrightarrow> jok u"
  shows "pointer w [k, l] = Some x \<and> (\<forall>k'. k' \<noteq> k \<longrightarrow> jget w k' = jget v k')"
proof -
  from assms(1) obtain m u where m: "as_object_mut v = Some m"
    and u: "jset l x (unwrap_or (bt_get m k) JNull) = Some u" and w: "w = JObj (bt_insert k u m)"
    by (auto simp: jset2_def split: option.splits)
  have ok: "bt_ok m" using m assms(2) by (cases v) (auto simp: bt_ok_def bt_empty_def)
  have get: "jget v k' = bt_get m k'" for k'
    using m by (cases v) (auto simp: jget_def bt_get_def bt_empty_def)
  have "jok (unwrap_or (bt_get m k) JNull)"
    using assms(3) get by (cases "bt_get m k") auto
  from jset_Some [OF u this, of l] have "jget u l = Some x" by simp
  then show ?thesis
    using ok get by (auto simp: w jget_def bt_ok_def bt_get_def map_of_bt_insert)
qed


section \<open>Patches\<close>

text \<open>The JSON merge patch of RFC 7386, which the API server applies.\<close>

fun merge_json :: "json \<Rightarrow> json \<Rightarrow> json"
  and merge_fields :: "(string, json) btree \<Rightarrow> (string \<times> json) list \<Rightarrow> (string, json) btree" where
  "merge_json target (JObj p) = JObj (merge_fields (unwrap_or (as_object target) bt_empty) p)"
| "merge_json target v = v"
| "merge_fields m [] = m"
| "merge_fields m ((k, v) # p) =
     merge_fields (if v = JNull then bt_remove k m
                   else bt_insert k (merge_json (unwrap_or (bt_get m k) JNull) v) m) p"

lemma merge_fields_frame:
  assumes "bt_ok m" "k \<notin> fst ` set p"
  shows "bt_get (merge_fields m p) k = bt_get m k"
  using assms
proof (induction p arbitrary: m)
  case Nil
  then show ?case by simp
next
  case (Cons e p)
  obtain l v where e: "e = (l, v)" by (cases e)
  let ?m = "if v = JNull then bt_remove l m
    else bt_insert l (merge_json (unwrap_or (bt_get m l) JNull) v) m"
  have "bt_ok ?m" using Cons.prems(1) by (simp add: bt_ok_intros)
  moreover have "bt_get ?m k = bt_get m k"
    using Cons.prems by (auto simp: e bt_get_simps)
  ultimately show ?case using Cons.IH [of ?m] Cons.prems(2) by (simp add: e)
qed

lemma merge_fields_once:
  assumes "bt_ok m" "distinct (map fst p)" "(k, v) \<in> set p" "v \<noteq> JNull"
  shows "bt_get (merge_fields m p) k = Some (merge_json (unwrap_or (bt_get m k) JNull) v)"
  using assms
proof (induction p arbitrary: m)
  case Nil
  then show ?case by simp
next
  case (Cons e p)
  obtain l w where e: "e = (l, w)" by (cases e)
  let ?m = "if w = JNull then bt_remove l m
    else bt_insert l (merge_json (unwrap_or (bt_get m l) JNull) w) m"
  have ok: "bt_ok ?m" using Cons.prems(1) by (simp add: bt_ok_intros)
  show ?case
  proof (cases "l = k")
    case True
    with Cons.prems have new: "k \<notin> fst ` set p" by (auto simp: e)
    with True Cons.prems(3) have "v = w" by (force simp: e)
    with True new Cons.prems show ?thesis
      using merge_fields_frame [OF ok, of k p] by (simp add: e bt_get_simps)
  next
    case False
    with Cons.prems have "(k, v) \<in> set p" "bt_get ?m k = bt_get m k"
      by (auto simp: e bt_get_simps)
    with Cons.IH [OF ok] Cons.prems show ?thesis by (simp add: e)
  qed
qed

lemma validate_metadata_keys_ok:
  "validate_metadata_keys ks = Ok () \<longleftrightarrow> set ks \<subseteq> {''labels'', ''annotations''}"
  by (induction ks) auto

lemma validate_patch_fields_ok:
  "validate_patch_fields m = Ok () \<longleftrightarrow>
     fst ` set m \<subseteq> {''spec'', ''metadata''} \<and>
     (\<forall>v. (''metadata'', v) \<in> set m \<longrightarrow> validate_patch_metadata v = Ok ())"
proof (induction m)
  case Nil
  then show ?case by simp
next
  case (Cons e m)
  obtain k v where e: "e = (k, v)" by (cases e)
  have "(validate_patch_metadata v = Ok () \<and> R) = (and_then (validate_patch_metadata v) (\<lambda>_. r) = Ok ())"
    if "R \<longleftrightarrow> r = Ok ()" for R and r :: "string + unit"
    using that by (cases "validate_patch_metadata v") auto
  from this [OF Cons.IH [symmetric]] Cons.IH show ?case by (auto simp: e)
qed

text \<open>
  A patch the API accepts changes the specification, the labels and the annotations of an agent
  and nothing else: when the API server merges it, every other field of the object, its kind and
  status among them, and every other field of its metadata, its name, namespace, owners and
  finalizers among them, stays as it was.
\<close>

theorem accepted_patch_changes_spec_and_labels_only:
  assumes accepted: "validate_webui_agent_patch (JObj p) = Ok ()"
    and ok: "bt_ok p" "bt_ok m" "jget (JObj m) ''metadata'' = Some (JObj md)" "bt_ok md"
  shows "(\<forall>k. k \<notin> {''spec'', ''metadata''} \<longrightarrow>
           jget (merge_json (JObj m) (JObj p)) k = jget (JObj m) k) \<and>
    (\<forall>k. k \<notin> {''labels'', ''annotations''} \<longrightarrow>
           pointer (merge_json (JObj m) (JObj p)) [''metadata'', k] = pointer (JObj m) [''metadata'', k])"
proof (intro conjI allI impI)
  note fields = accepted [unfolded validate_webui_agent_patch_def, simplified,
      unfolded validate_patch_fields_ok]
  have merged: "jget (merge_json (JObj m) (JObj p)) k = bt_get (merge_fields m p) k" for k
    by (simp add: jget_def)
  show "jget (merge_json (JObj m) (JObj p)) k = jget (JObj m) k" if "k \<notin> {''spec'', ''metadata''}" for k
  proof -
    have "k \<notin> fst ` set p" using fields that by blast
    from merge_fields_frame [OF ok(2) this] show ?thesis
      by (simp only: merged) (simp add: jget_def)
  qed
  show "pointer (merge_json (JObj m) (JObj p)) [''metadata'', k] = pointer (JObj m) [''metadata'', k]"
    if k: "k \<notin> {''labels'', ''annotations''}" for k
  proof (cases "''metadata'' \<in> fst ` set p")
    case False
    from merge_fields_frame [OF ok(2) this] show ?thesis
      by (simp only: pointer.simps merged) (simp add: jget_def)
  next
    case True
    then obtain v where v: "(''metadata'', v) \<in> set p" by auto
    with fields have "validate_patch_metadata v = Ok ()" by blast
    then obtain q where q: "v = JObj q" "set (map fst q) \<subseteq> {''labels'', ''annotations''}"
      by (cases v) (auto simp: validate_patch_metadata_def validate_metadata_keys_ok)
    have "bt_get (merge_fields m p) ''metadata'' = Some (JObj (merge_fields md q))"
      using merge_fields_once [OF ok(2) bt_ok_distinct [OF ok(1)] v] ok(3) by (simp add: q jget_def)
    moreover have "bt_get (merge_fields md q) k = bt_get md k"
      using merge_fields_frame [OF ok(4)] q(2) k by fastforce
    ultimately show ?thesis
      by (simp only: pointer.simps merged ok(3) option.case) (simp add: jget_def)
  qed
qed

section \<open>What is told about the transport\<close>

lemma control_plane_fields:
  assumes "oas_mode (oa_spec a) = Daemon"
  shows "Option.bind (managed_agent_control_plane a) (\<lambda>c. jget c ''transport_security'') =
    Some (JStr (if resolved_control_tls a (oa_name_any a) \<noteq> None then ''tls'' else ''plaintext''))"
  using assms by (simp add: managed_agent_control_plane_def Let_def)

text \<open>
  The fleet API announces TLS for a daemon agent exactly when the agent is configured for it,
  whereas the pod serves TLS, and is probed by HTTPS, only when the operator process has the flag
  for the TLS arguments as well: without the flag the API, and with it the ACP proxy, expects TLS
  from an agent that listens without it.
\<close>

theorem announced_transport_ignores_the_flag:
  assumes "oas_mode (oa_spec a) = Daemon"
  defines "tls \<equiv> resolved_control_tls a (oa_name_any a)"
  shows "Option.bind (managed_agent_control_plane a) (\<lambda>c. jget c ''transport_security'') =
      Some (JStr (if tls \<noteq> None then ''tls'' else ''plaintext'')) \<and>
    managed_agent_acp_url a =
      Some ((if tls \<noteq> None then ''wss'' else ''ws'') @ ''://'' @ service_host a @ '':7842/acp'') \<and>
    pointer (agent_container env a (oa_name_any a)) [''readinessProbe'', ''exec'', ''command''] =
      Some (JArr (map JStr (probe_curl_args (tls \<noteq> None \<and> tls_args_enabled env) ''/api/readyz''))) \<and>
    take 4 (pod_args env a (oa_name_any a)) = [''serve'', ''--control-port'', ''7842'', ''--strict-port''] \<and>
    (pod_args env a (oa_name_any a) ! 4 = ''--control-tls-cert'' \<longleftrightarrow> tls \<noteq> None \<and> tls_args_enabled env)"
proof -
  have daemon: "\<not> is_bounded a" using assms(1) by (simp add: is_bounded_def)
  have probe: "jget (agent_container env a (oa_name_any a)) ''readinessProbe'' =
      Some (probe (probe_curl_args (tls \<noteq> None \<and> tls_args_enabled env) ''/api/readyz'') 10 10)"
    by (simp add: agent_container_def daemon daemon_fields_def Let_def tls_def)
  have args: "pod_args env a (oa_name_any a) ! 4 =
      (if tls \<noteq> None \<and> tls_args_enabled env then ''--control-tls-cert'' else ''--agent'')"
    by (auto simp: pod_args_def daemon tls_args_def push_if_def push_some_def tls_def split: option.split)
  show ?thesis
    using control_plane_fields [OF assms(1)] probe args assms(1)
    by (simp add: managed_agent_acp_url_def probe_def pod_args_def daemon tls_def)
qed

section \<open>Witnesses\<close>

definition sample_serialisers :: serialisers where
  "sample_serialisers =
     \<lparr>ser_spec = \<lambda>_. JNull, ser_status = \<lambda>_. JNull, ser_parse = \<lambda>_. None\<rparr>"

definition echo_api :: kube_api where
  "echo_api call = Ok sample_agent"

definition foreign_manifest :: json where
  "foreign_manifest =
     jobj [(''kind'', JStr ''Pod''), (''metadata'', jobj [(''name'', JStr ''n'')])]"

definition daemon_agent :: OmegonAgent where
  "daemon_agent =
     sample_agent\<lparr>oa_spec := sample_spec\<lparr>oas_mode := Daemon,
       oas_control_plane := \<lparr>cp_tls = default_tls\<lparr>tls_enabled := True\<rparr>\<rparr>\<rparr>\<rparr>"

theorem token_comparison_witness:
  "\<not> constant_time_eq ''secre'' ''secret'' \<and> constant_time_eq (''secret'' @ replicate 256 CHR ''x'') ''secret''"
proof
  have utf8: "CHR 0xFF \<notin> set ''secret''" by simp
  show "\<not> constant_time_eq ''secre'' ''secret''"
    unfolding token_comparison [OF utf8] by auto
  show "constant_time_eq (''secret'' @ replicate 256 CHR ''x'') ''secret''"
    unfolding token_comparison [OF utf8] by (intro exI conjI, rule refl) simp
qed

fun call_body :: "KubeCall \<Rightarrow> json" where
  "call_body (GetAgent _ _) = JNull"
| "call_body (PatchAgent _ _ _ _ _ body) = body"

fun is_apply :: "KubeCall \<Rightarrow> bool" where
  "is_apply (PatchAgent _ _ Apply _ _ _) \<longleftrightarrow> True"
| "is_apply _ \<longleftrightarrow> False"


theorem accepted_patch_changes_spec_and_labels_only_example:
  "jget (merge_json (JObj [(''kind'', JStr ''OmegonAgent''), (''metadata'', JObj [(''name'', JStr ''n'')])])
           (JObj [(''metadata'', JObj [(''labels'', JObj [])]), (''spec'', JObj [])])) ''kind'' =
     Some (JStr ''OmegonAgent'')"
proof -
  let ?p = "[(''metadata'', JObj [(''labels'', JObj [])]), (''spec'', JObj [])]"
  let ?m = "[(''kind'', JStr ''OmegonAgent''), (''metadata'', JObj [(''name'', JStr ''n'')])]"
  have "validate_webui_agent_patch (JObj ?p) = Ok ()" by code_simp
  moreover have "bt_ok ?p" "bt_ok ?m" "bt_ok [(''name'', JStr ''n'')]" by code_simp+
  moreover have "jget (JObj ?m) ''metadata'' = Some (JObj [(''name'', JStr ''n'')])"
    by (simp add: jget_def bt_get_def)
  ultimately show ?thesis
    using accepted_patch_changes_spec_and_labels_only [of ?p ?m "[(''name'', JStr ''n'')]"]
    by (simp add: jget_def bt_get_def)
qed

theorem announced_transport_ignores_the_flag_example:
  "Option.bind (managed_agent_control_plane daemon_agent) (\<lambda>c. jget c ''transport_security'') =
     Some (JStr ''tls'') \<and>
   pod_args (\<lambda>_. None) daemon_agent ''n'' ! 4 \<noteq> ''--control-tls-cert''"
proof -
  have "oas_mode (oa_spec daemon_agent) = Daemon" "oa_name_any daemon_agent = ''n''"
    by (simp_all add: daemon_agent_def sample_agent_def)
  moreover have "resolved_control_tls daemon_agent ''n'' \<noteq> None"
    by (simp add: resolved_control_tls_def control_plane_tls_enabled_def agent_tls_def daemon_agent_def
        sample_agent_def Let_def)
  moreover have "\<not> tls_args_enabled (\<lambda>_. None)"
    by (simp add: tls_args_enabled_def omegon_runtime_flag_enabled_def)
  ultimately show ?thesis
    using announced_transport_ignores_the_flag [of daemon_agent "\<lambda>_. None"] by simp
qed

end
