(* ===== verification/Oci_Backend.thy ===== *)
theory Oci_Backend
  imports Worker_Types Json
begin

text \<open>
  The container backend (\<open>auspex-core/src/oci_backend.rs\<close>): finding a Docker or Podman socket,
  launching a hardened container for an agent, ending it, and listing what Auspex launched.  The
  client crate \<open>bollard\<close> and the daemon behind it are the parameter \<open>docker\<close>; an operation returns
  the calls it made with its result.  A hash map is a map, its iteration order has no effect.
  Reading a CPU count goes through \<open>f64\<close> and is a parameter.
\<close>

section \<open>Data\<close>

definition LABEL_MANAGED_BY :: string where "LABEL_MANAGED_BY = ''styrene.sh/managed-by''"
definition LABEL_AGENT_ID :: string where "LABEL_AGENT_ID = ''styrene.sh/agent-id''"
definition LABEL_PACKAGE_ID :: string where "LABEL_PACKAGE_ID = ''styrene.sh/agent-package''"
definition LABEL_HOST_PORT :: string where "LABEL_HOST_PORT = ''auspex.styrene.sh/host-port''"
definition MANAGED_BY_VALUE :: string where "MANAGED_BY_VALUE = ''auspex''"
definition AGENT_CONTAINER_PORT :: u16 where "AGENT_CONTAINER_PORT = 7842"

datatype PullPolicy = Always | IfNotPresent | Never

record RegistryCredentials =
  rgc_username :: string
  rgc_password :: string
  rgc_server_address :: "string option"

record OciLaunchSpec =
  ols_image :: string
  ols_name :: string
  ols_host_port :: u16
  ols_env :: "(string \<times> string) list"
  ols_extra_labels :: "(string, string) btree"
  ols_resources :: "ResourceRequirements option"
  ols_pull_policy :: PullPolicy
  ols_registry_auth :: "RegistryCredentials option"

record DetectedRuntime =
  drt_runtime :: string
  drt_endpoint :: string

record DiscoveredContainer =
  dc_container_id :: string
  dc_name :: string
  dc_image :: string
  dc_host_port :: u16
  dc_status :: string

text \<open>The fields of the client's types that the backend sets or reads.\<close>

record PortBinding =
  pb_host_ip :: "string option"
  pb_host_port :: "string option"

record HostConfig =
  hc_cap_drop :: "string list option"
  hc_security_opt :: "string list option"
  hc_network_mode :: "string option"
  hc_port_bindings :: "(string \<times> PortBinding list option) list option"
  hc_memory :: "i64 option"
  hc_nano_cpus :: "i64 option"

record ContainerCreateBody =
  ccb_image :: "string option"
  ccb_env :: "string list option"
  ccb_labels :: "(string, string) btree option"
  ccb_host_config :: "HostConfig option"

record ContainerSummary =
  cs_id :: "string option"
  cs_names :: "string list option"
  cs_image :: "string option"
  cs_state :: "string option"
  cs_ports :: "(u16 \<times> u16 option) list option"

datatype DockerCall =
    InspectImage string
  | CreateImage string "RegistryCredentials option"
  | CreateContainer string ContainerCreateBody
  | StartContainer string
  | StopContainer string nat
  | RemoveContainer string bool bool
  | ListContainers bool "(string \<times> string list) list"

text \<open>What the daemon answers: an error, the identity of a new container, or a listing.\<close>

datatype DockerAnswer = Done | Created string | Listed "ContainerSummary list"

type_synonym docker = "DockerCall \<Rightarrow> string + DockerAnswer"

section \<open>Finding a runtime\<close>

datatype DockerHandle = Defaults | UnixSocket string

record docker_env =
  de_docker_host :: "string option"
  de_xdg_runtime_dir :: "string option"
  de_exists :: "string \<Rightarrow> bool"
  de_connects :: "DockerHandle \<Rightarrow> bool"

definition socket_candidate :: "docker_env \<Rightarrow> string \<Rightarrow> (string \<times> DockerHandle) list" where
  "socket_candidate env path =
     (if de_exists env path \<and> de_connects env (UnixSocket path) then [(path, UnixSocket path)] else [])"

definition candidate_connections :: "docker_env \<Rightarrow> (string \<times> DockerHandle) list" where
  "candidate_connections env =
     (case de_docker_host env of
        Some host \<Rightarrow> if de_connects env Defaults then [(host, Defaults)] else []
      | None \<Rightarrow> []) @
     socket_candidate env ''/var/run/docker.sock'' @
     (case de_xdg_runtime_dir env of
        Some xdg \<Rightarrow> socket_candidate env (xdg @ ''/podman/podman.sock'')
      | None \<Rightarrow> []) @
     socket_candidate env ''/run/podman/podman.sock''"

definition infer_runtime_name :: "string \<Rightarrow> string" where
  "infer_runtime_name endpoint =
     (if contains_str ''podman'' endpoint then ''Podman''
      else if starts_with endpoint ''tcp://'' \<or> starts_with endpoint ''http://'' then ''Docker (TCP)''
      else if starts_with endpoint ''ssh://'' then ''Docker (SSH)''
      else ''Docker'')"

definition detect :: "docker_env \<Rightarrow> (DockerHandle \<Rightarrow> bool) \<Rightarrow> (DockerHandle \<times> DetectedRuntime) option" where
  "detect env ping =
     map_option
       (\<lambda>(endpoint, handle).
          (handle, \<lparr>drt_runtime = infer_runtime_name endpoint, drt_endpoint = endpoint\<rparr>))
       (List.find (\<lambda>(_, handle). ping handle) (candidate_connections env))"

section \<open>Resources\<close>

text \<open>
  \<open>to_lowercase\<close> as far as the units can tell: of the characters outside ASCII only the Kelvin sign
  has a lower case within ASCII, and a text with any other one does not parse.
\<close>

definition lower_units :: "string \<Rightarrow> string" where
  "lower_units s = to_ascii_lowercase (replace_all [CHR 0xE2, CHR 0x84, CHR 0xAA] ''k'' s)"

text \<open>The product wraps around, as it does in a build without overflow checks.\<close>

definition scaled :: "i64 \<Rightarrow> string \<Rightarrow> i64 option" where
  "scaled unit n = map_option (\<lambda>v. word_of_int v * unit) (parse_i64 n)"

definition strip_unit :: "string \<Rightarrow> string \<Rightarrow> string \<Rightarrow> string option" where
  "strip_unit s long short = or_else (strip_suffix s long) (strip_suffix s short)"

definition parse_memory_bytes :: "string \<Rightarrow> i64 option" where
  "parse_memory_bytes text0 =
     (let s = lower_units (trim text0) in
      case strip_unit s ''gb'' ''g'' of
        Some n \<Rightarrow> scaled 1073741824 n
      | None \<Rightarrow>
          (case strip_unit s ''mb'' ''m'' of
             Some n \<Rightarrow> scaled 1048576 n
           | None \<Rightarrow>
               (case strip_unit s ''kb'' ''k'' of
                  Some n \<Rightarrow> scaled 1024 n
                | None \<Rightarrow> scaled 1 s)))"

section \<open>Launching\<close>

definition build_managed_labels ::
  "string \<Rightarrow> (string, string) btree \<Rightarrow> u16 \<Rightarrow> (string, string) btree"
where
  "build_managed_labels name extra host_port =
     fold (\<lambda>(k, v). bt_insert k v) extra
       (bt_insert LABEL_HOST_PORT (show_nat (unat host_port))
         (bt_insert LABEL_AGENT_ID name
           (bt_insert LABEL_MANAGED_BY MANAGED_BY_VALUE bt_empty)))"

text \<open>\<open>cpus\<close> is \<open>parse_nano_cpus\<close>.\<close>

definition build_host_config ::
  "(string \<Rightarrow> i64 option) \<Rightarrow> (string \<times> PortBinding list option) list \<Rightarrow> ResourceRequirements option \<Rightarrow> HostConfig"
where
  "build_host_config cpus port_bindings resources =
     \<lparr>hc_cap_drop = Some [''ALL''], hc_security_opt = Some [''no-new-privileges:true''],
      hc_network_mode = Some ''bridge'', hc_port_bindings = Some port_bindings,
      hc_memory = Option.bind (Option.bind resources rr_memory) parse_memory_bytes,
      hc_nano_cpus = Option.bind (Option.bind resources rr_cpu) cpus\<rparr>"

definition agent_port_binding :: "u16 \<Rightarrow> (string \<times> PortBinding list option) list" where
  "agent_port_binding host_port =
     [(show_nat (unat AGENT_CONTAINER_PORT) @ ''/tcp'',
       Some [\<lparr>pb_host_ip = Some ''127.0.0.1'', pb_host_port = Some (show_nat (unat host_port))\<rparr>])]"

definition create_body :: "(string \<Rightarrow> i64 option) \<Rightarrow> OciLaunchSpec \<Rightarrow> ContainerCreateBody" where
  "create_body cpus spec =
     (let env = map (\<lambda>(k, v). k @ ''='' @ v) (ols_env spec) in
      \<lparr>ccb_image = Some (ols_image spec),
       ccb_env = (if env = [] then None else Some env),
       ccb_labels = Some (build_managed_labels (ols_name spec) (ols_extra_labels spec) (ols_host_port spec)),
       ccb_host_config =
         Some (build_host_config cpus (agent_port_binding (ols_host_port spec)) (ols_resources spec))\<rparr>)"

definition ensure_image ::
  "docker \<Rightarrow> string \<Rightarrow> PullPolicy \<Rightarrow> RegistryCredentials option \<Rightarrow> DockerCall list \<times> (string + unit)"
where
  "ensure_image docker img policy auth =
     (if policy = Never then ([], Ok ())
      else let looked = (if policy = IfNotPresent then [InspectImage img] else []) in
        if policy = IfNotPresent \<and> is_ok (docker (InspectImage img)) then (looked, Ok ())
        else (looked @ [CreateImage img auth],
              map_sum id (\<lambda>_. ()) (docker (CreateImage img auth))))"

definition created_id :: "DockerAnswer \<Rightarrow> string" where
  "created_id a = (case a of Created i \<Rightarrow> i | _ \<Rightarrow> '''')"

definition launch ::
  "docker \<Rightarrow> (string \<Rightarrow> i64 option) \<Rightarrow> OciLaunchSpec \<Rightarrow> DockerCall list \<times> (string + string)"
where
  "launch docker cpus spec =
     (case ensure_image docker (ols_image spec) (ols_pull_policy spec) (ols_registry_auth spec) of
        (calls, Inl e) \<Rightarrow> (calls, Err e)
      | (calls, Inr _) \<Rightarrow>
          (let create = CreateContainer (ols_name spec) (create_body cpus spec) in
           case docker create of
             Inl e \<Rightarrow> (calls @ [create], Err e)
           | Inr answer \<Rightarrow>
               (let start = StartContainer (created_id answer) in
                (calls @ [create, start],
                 case docker start of Inl e \<Rightarrow> Err e | Inr _ \<Rightarrow> Ok (created_id answer)))))"

text \<open>The outcome of the stop is ignored.\<close>

definition terminate :: "docker \<Rightarrow> string \<Rightarrow> DockerCall list \<times> (string + unit)" where
  "terminate docker container_id =
     ([StopContainer container_id 10, RemoveContainer container_id True False],
      map_sum id (\<lambda>_. ()) (docker (RemoveContainer container_id True False)))"

section \<open>Listing\<close>

definition summary_container :: "ContainerSummary \<Rightarrow> DiscoveredContainer option" where
  "summary_container s =
     (case cs_ports s of
        None \<Rightarrow> None
      | Some ports \<Rightarrow>
          (case List.find (\<lambda>(private, public). private = AGENT_CONTAINER_PORT \<and> public \<noteq> None) ports of
             Some (_, Some public) \<Rightarrow>
               Some \<lparr>dc_container_id = unwrap_or (cs_id s) '''',
                     dc_name = trim_start_char (CHR ''/'')
                       (case cs_names s of Some (n # _) \<Rightarrow> n | _ \<Rightarrow> ''''),
                     dc_image = unwrap_or (cs_image s) '''', dc_host_port = public,
                     dc_status = unwrap_or (cs_state s) ''unknown''\<rparr>
           | _ \<Rightarrow> None))"

definition list_call :: DockerCall where
  "list_call = ListContainers False [(''label'', [LABEL_MANAGED_BY @ ''='' @ MANAGED_BY_VALUE])]"

definition list_agents :: "docker \<Rightarrow> string + DiscoveredContainer list" where
  "list_agents docker =
     (case docker list_call of
        Inl e \<Rightarrow> Err e
      | Inr (Listed summaries) \<Rightarrow> Ok (List.map_filter summary_container summaries)
      | Inr _ \<Rightarrow> Ok [])"

end
