(* ===== verification/Agent_Packages.thy ===== *)
theory Agent_Packages
  imports Oci_Backend
begin

text \<open>
  Agent packages (\<open>auspex-core/src/agent_packages.rs\<close>): what a package says, the assessment of an
  image reference, and the two realisations of a package, as an \<open>OmegonAgent\<close> manifest for the
  cluster and as a container for the local backend.
\<close>

section \<open>Data\<close>

record PackageResources =
  pkr_cpu :: "string option"
  pkr_memory :: "string option"

record AgentPackage =
  pkg_id :: string
  pkg_name :: string
  pkg_description :: string
  pkg_domain :: string
  pkg_agent :: string
  pkg_profile :: string
  pkg_default_model :: string
  pkg_posture :: string
  pkg_role :: string
  pkg_mode :: string
  pkg_image :: string
  pkg_labels :: "string list"
  pkg_required_secrets :: "string list"
  pkg_optional_secrets :: "string list"
  pkg_resources :: PackageResources
  pkg_control_tls_profile :: string
  pkg_mesh_role :: string
  pkg_terminal_tool :: bool

record AgentPackageDeployRequest =
  adr_name :: "string option"
  adr_namespace :: "string option"
  adr_image :: "string option"
  adr_model :: "string option"
  adr_secret_name :: "string option"
  adr_auth_json_secret :: "string option"
  adr_connectors :: "string list"
  adr_host_port :: "u16 option"

definition default_deploy_request :: AgentPackageDeployRequest where
  "default_deploy_request =
     \<lparr>adr_name = None, adr_namespace = None, adr_image = None, adr_model = None,
      adr_secret_name = None, adr_auth_json_secret = None, adr_connectors = [], adr_host_port = None\<rparr>"

section \<open>Image references\<close>

datatype OciImageReferenceKind = Digest | TagAndDigest | Tag | Untagged | Invalid

record OciImageAssessment =
  oia_image :: string
  oia_kind :: OciImageReferenceKind
  oia_digest_pinned :: bool
  oia_mutable_tag :: bool
  oia_tag :: "string option"
  oia_digest :: "string option"
  oia_warnings :: "string list"
  oia_errors :: "string list"

text \<open>\<open>chars().any(char::is_whitespace)\<close>.\<close>

definition has_white_space :: "string \<Rightarrow> bool" where
  "has_white_space s \<longleftrightarrow> list_ex (\<lambda>w. contains_str w s) white_space"

definition is_lower_hex :: "char \<Rightarrow> bool" where
  "is_lower_hex c \<longleftrightarrow> is_digit c \<or> (97 \<le> (of_char c :: nat) \<and> (of_char c :: nat) \<le> 102)"

definition is_supported_digest :: "string \<Rightarrow> bool" where
  "is_supported_digest digest =
     (case strip_prefix digest ''sha256:'' of
        None \<Rightarrow> False
      | Some hex \<Rightarrow> length hex = 64 \<and> list_all is_lower_hex hex)"

definition after_last_slash :: "string \<Rightarrow> string" where
  "after_last_slash s = rev (takeWhile (\<lambda>c. c \<noteq> CHR ''/'') (rev s))"

definition image_tag :: "string \<Rightarrow> string option" where
  "image_tag image_without_digest =
     (case rsplit_once (CHR '':'') (after_last_slash image_without_digest) of
        None \<Rightarrow> None
      | Some (_, tag) \<Rightarrow> if tag = [] then None else Some tag)"

definition tag_warnings :: "string option \<Rightarrow> string list" where
  "tag_warnings tag =
     (case tag of
        None \<Rightarrow> [''image has no tag or digest and will resolve implicitly'']
      | Some t \<Rightarrow> if t = ''latest'' then [''image uses mutable tag '' @ [CHR 0x27] @ ''latest'' @ [CHR 0x27]]
                 else [''image uses a mutable tag instead of a digest''])"

definition assess_oci_image_ref :: "string \<Rightarrow> OciImageAssessment" where
  "assess_oci_image_ref image_ref =
     (let img = trim image_ref in
      if img = [] then
        \<lparr>oia_image = img, oia_kind = Invalid, oia_digest_pinned = False, oia_mutable_tag = False,
         oia_tag = None, oia_digest = None, oia_warnings = [],
         oia_errors = [''image reference is required'']\<rparr>
      else
        let (name_and_tag, digest) =
              (case split_once (CHR ''@'') img of
                 Some (name, digest) \<Rightarrow> (name, Some digest)
               | None \<Rightarrow> (img, None));
            errors =
              (if has_white_space img then [''image reference must not contain whitespace''] else []) @
              (case digest of
                 Some d \<Rightarrow> if is_supported_digest d then []
                           else [''image digest must be sha256:<64 lowercase hex characters>'']
               | None \<Rightarrow> []);
            tag = image_tag name_and_tag
        in \<lparr>oia_image = img,
            oia_kind = (if errors \<noteq> [] then Invalid
                        else case (tag, digest) of
                               (None, Some _) \<Rightarrow> Digest
                             | (Some _, Some _) \<Rightarrow> TagAndDigest
                             | (Some _, None) \<Rightarrow> Tag
                             | (None, None) \<Rightarrow> Untagged),
            oia_digest_pinned = (digest \<noteq> None \<and> errors = []),
            oia_mutable_tag = (tag \<noteq> None \<and> digest = None),
            oia_tag = tag, oia_digest = digest,
            oia_warnings = (if digest = None then tag_warnings tag else []),
            oia_errors = errors\<rparr>)"

section \<open>Realising a package\<close>

definition trimmed_connectors :: "AgentPackageDeployRequest \<Rightarrow> string list" where
  "trimmed_connectors request = filter (\<lambda>c. c \<noteq> []) (map trim (adr_connectors request))"

definition stack_label :: "AgentPackage \<Rightarrow> string" where
  "stack_label p =
     unwrap_or
       (case List.map_filter (\<lambda>label. strip_prefix label ''home-stack:'') (pkg_labels p) of
          [] \<Rightarrow> None | s # _ \<Rightarrow> Some s)
       (pkg_domain p)"

definition secrets_json :: "AgentPackageDeployRequest \<Rightarrow> json" where
  "secrets_json request =
     (let entry = (\<lambda>key name v. case name of
                     Some n \<Rightarrow> if n = [] then v else jinsert key (JStr n) v | None \<Rightarrow> v)
      in entry ''authJsonSecret'' (adr_auth_json_secret request)
           (entry ''secretName'' (adr_secret_name request) (jobj [])))"

definition omegon_agent_manifest :: "AgentPackage \<Rightarrow> AgentPackageDeployRequest \<Rightarrow> json" where
  "omegon_agent_manifest p request =
     jobj
       [(''apiVersion'', JStr ''styrene.sh/v1alpha1''),
        (''kind'', JStr ''OmegonAgent''),
        (''metadata'', jobj
          [(''name'', JStr (unwrap_or (adr_name request) (pkg_id p))),
           (''namespace'', JStr (unwrap_or (adr_namespace request) ''omegon-agents'')),
           (''labels'', jobj
             [(''app.kubernetes.io/part-of'', JStr ''auspex-managed-agents''),
              (''styrene.sh/agent-package'', JStr (pkg_id p)),
              (''styrene.sh/agent-role'', JStr (pkg_role p)),
              (''styrene.sh/home-stack'', JStr (stack_label p))]),
           (''annotations'', jobj
             [(''auspex.styrene.sh/package-name'', JStr (pkg_name p)),
              (''auspex.styrene.sh/package-profile'', JStr (pkg_profile p)),
              (''auspex.styrene.sh/package-agent'', JStr (pkg_agent p))])]),
        (''spec'', jobj
          [(''agent'', JStr (pkg_agent p)),
           (''model'', JStr (unwrap_or (adr_model request) (pkg_default_model p))),
           (''posture'', JStr (pkg_posture p)), (''role'', JStr (pkg_role p)),
           (''mode'', JStr (pkg_mode p)),
           (''image'', JStr (unwrap_or (adr_image request) (pkg_image p))),
           (''profile'', JStr (pkg_profile p)), (''terminalTool'', JBool (pkg_terminal_tool p)),
           (''vox'', jobj [(''connectors'', JArr (map JStr (trimmed_connectors request)))]),
           (''secrets'', secrets_json request),
           (''identity'', jobj
             [(''provision'', JBool True), (''securityTier'', JStr ''file''),
              (''meshRole'', JStr (if pkg_mesh_role p = [] then ''monitor'' else pkg_mesh_role p)),
              (''mtls'', JBool True)]),
           (''controlPlane'', jobj
             [(''tls'', jobj
                [(''enabled'', JBool True),
                 (''profile'', JStr (if pkg_control_tls_profile p = [] then pkg_id p
                                     else pkg_control_tls_profile p))])]),
           (''resources'', jobj
             [(''cpu'', JStr (unwrap_or (pkr_cpu (pkg_resources p)) ''500m'')),
              (''memory'', JStr (unwrap_or (pkr_memory (pkg_resources p)) ''768Mi''))])])]"

definition bool_string :: "bool \<Rightarrow> string" where
  "bool_string b = (if b then ''true'' else ''false'')"

definition package_labels :: "AgentPackage \<Rightarrow> (string, string) btree" where
  "package_labels p =
     fold (\<lambda>label m. case split_once (CHR '':'') label of
                        None \<Rightarrow> m
                      | Some (key, value) \<Rightarrow> bt_insert (''styrene.sh/'' @ key) value m)
       (pkg_labels p)
       (bt_insert ''styrene.sh/agent-domain'' (pkg_domain p)
         (bt_insert ''styrene.sh/agent-role'' (pkg_role p)
           (bt_insert LABEL_PACKAGE_ID (pkg_id p) bt_empty)))"

definition package_env :: "AgentPackage \<Rightarrow> AgentPackageDeployRequest \<Rightarrow> (string \<times> string) list" where
  "package_env p request =
     [(''OMEGON_AGENT'', pkg_agent p), (''OMEGON_PROFILE'', pkg_profile p),
      (''OMEGON_MODEL'', unwrap_or (adr_model request) (pkg_default_model p)),
      (''OMEGON_POSTURE'', pkg_posture p), (''OMEGON_ROLE'', pkg_role p),
      (''OMEGON_MODE'', pkg_mode p),
      (''OMEGON_TERMINAL_TOOL'', bool_string (pkg_terminal_tool p))] @
     (if trimmed_connectors request = [] then []
      else [(''OMEGON_VOX_CONNECTORS'', join '','' (trimmed_connectors request))])"

definition oci_launch_spec :: "AgentPackage \<Rightarrow> AgentPackageDeployRequest \<Rightarrow> u16 \<Rightarrow> OciLaunchSpec" where
  "oci_launch_spec p request host_port =
     \<lparr>ols_image = unwrap_or (adr_image request) (pkg_image p),
      ols_name = unwrap_or (adr_name request) (pkg_id p),
      ols_host_port = host_port, ols_env = package_env p request,
      ols_extra_labels = package_labels p,
      ols_resources = Some \<lparr>rr_cpu = pkr_cpu (pkg_resources p), rr_memory = pkr_memory (pkg_resources p)\<rparr>,
      ols_pull_policy = IfNotPresent, ols_registry_auth = None\<rparr>"

section \<open>The built-in packages\<close>

definition default_model :: string where
  "default_model = ''anthropic:claude-sonnet-4-6''"

definition default_image :: string where
  "default_image = ''ghcr.io/styrene-lab/omegon:0.26.5''"

definition builtin_home_packages :: "AgentPackage list" where
  "builtin_home_packages =
     [\<lparr>pkg_id = ''home-media-operator'', pkg_name = ''Home Media Operator'',
       pkg_description = ''Long-running operator for Jellyfin, Jellyseerr, Arr services, downloaders, and media namespace health.'',
       pkg_domain = ''ops'', pkg_agent = ''styrene.home-media-operator'',
       pkg_profile = ''styrene-lab/omegon-home-media-operator'', pkg_default_model = default_model,
       pkg_posture = ''fabricator'', pkg_role = ''detached-service'', pkg_mode = ''daemon'',
       pkg_image = default_image, pkg_labels = [''home-stack:media''],
       pkg_required_secrets = [''ANTHROPIC_API_KEY''],
       pkg_optional_secrets =
         [''JELLYFIN_API_KEY'', ''JELLYSEERR_API_KEY'', ''RADARR_API_KEY'', ''SONARR_API_KEY'',
          ''PROWLARR_API_KEY'', ''QBITTORRENT_USERNAME'', ''QBITTORRENT_PASSWORD'', ''SABNZBD_API_KEY''],
       pkg_resources = \<lparr>pkr_cpu = Some ''500m'', pkr_memory = Some ''768Mi''\<rparr>,
       pkg_control_tls_profile = ''home-media'', pkg_mesh_role = ''operator'', pkg_terminal_tool = False\<rparr>,
      \<lparr>pkg_id = ''home-infra-sentinel'', pkg_name = ''Home Infra Sentinel'',
       pkg_description = ''Long-running sentinel for Brutus cluster health, ingress, identity, backups, and GitOps drift.'',
       pkg_domain = ''infra'', pkg_agent = ''styrene.home-infra-sentinel'',
       pkg_profile = ''styrene-lab/omegon-home-infra-sentinel'', pkg_default_model = default_model,
       pkg_posture = ''explorator'', pkg_role = ''detached-service'', pkg_mode = ''daemon'',
       pkg_image = default_image, pkg_labels = [''home-stack:infra''],
       pkg_required_secrets = [''ANTHROPIC_API_KEY''],
       pkg_optional_secrets = [''GITHUB_TOKEN'', ''VAULT_ADDR''],
       pkg_resources = \<lparr>pkr_cpu = Some ''500m'', pkr_memory = Some ''768Mi''\<rparr>,
       pkg_control_tls_profile = ''home-infra'', pkg_mesh_role = ''monitor'', pkg_terminal_tool = False\<rparr>,
      \<lparr>pkg_id = ''home-forge-steward'', pkg_name = ''Home Forge Steward'',
       pkg_description = ''Long-running steward for Styrene Forgejo, GitOps, image builds, package publication, and release readiness.'',
       pkg_domain = ''ops'', pkg_agent = ''styrene.home-forge-steward'',
       pkg_profile = ''styrene-lab/omegon-home-forge-steward'', pkg_default_model = default_model,
       pkg_posture = ''fabricator'', pkg_role = ''detached-service'', pkg_mode = ''daemon'',
       pkg_image = default_image, pkg_labels = [''home-stack:forge''],
       pkg_required_secrets = [''ANTHROPIC_API_KEY''],
       pkg_optional_secrets = [''GITHUB_TOKEN'', ''FORGEJO_TOKEN'', ''COSIGN_EXPERIMENTAL''],
       pkg_resources = \<lparr>pkr_cpu = Some ''500m'', pkr_memory = Some ''768Mi''\<rparr>,
       pkg_control_tls_profile = ''home-forge'', pkg_mesh_role = ''operator'', pkg_terminal_tool = False\<rparr>,
      \<lparr>pkg_id = ''home-knowledge-curator'', pkg_name = ''Home Knowledge Curator'',
       pkg_description = ''Long-running curator for home operations runbooks, incident summaries, boards, and handoff context.'',
       pkg_domain = ''ops'', pkg_agent = ''styrene.home-knowledge-curator'',
       pkg_profile = ''styrene-lab/omegon-home-knowledge-curator'', pkg_default_model = default_model,
       pkg_posture = ''fabricator'', pkg_role = ''detached-service'', pkg_mode = ''daemon'',
       pkg_image = default_image, pkg_labels = [''home-stack:knowledge''],
       pkg_required_secrets = [''ANTHROPIC_API_KEY''], pkg_optional_secrets = [''GITHUB_TOKEN''],
       pkg_resources = \<lparr>pkr_cpu = Some ''350m'', pkr_memory = Some ''512Mi''\<rparr>,
       pkg_control_tls_profile = ''home-knowledge'', pkg_mesh_role = ''monitor'', pkg_terminal_tool = False\<rparr>]"

definition find_builtin_agent_package :: "string \<Rightarrow> AgentPackage option" where
  "find_builtin_agent_package key =
     List.find (\<lambda>p. pkg_id p = key \<or> pkg_agent p = key) builtin_home_packages"

end
