(* ===== verification/Armory.thy ===== *)
theory Armory
  imports Agent_Packages
begin

text \<open>
  The Armory catalog (\<open>auspex-core/src/armory.rs\<close>): the index and its queries, the cached fetch, the
  dry-run plan of an installation with its policy gates, and the mapping of a package to an agent
  package through a deployment overlay.  HTTP and the decoder of the index are parameters.
\<close>

section \<open>Data\<close>

datatype ArmoryPackageKind = Skill | Persona | Tone | Profile | Agent | Extension | ForgeTemplate

datatype ArmoryDistribution = Oci | Registry | ExternalDistribution

record ArmoryCompatibilityMode =
  acm_runtime :: string
  acm_mode :: string
  acm_install_command :: string
  acm_entrypoints :: "string list"
  acm_extra :: "(string, json) btree"

record ArmoryCompatibility =
  aco_tier :: "8 word"
  aco_native :: "ArmoryCompatibilityMode list"
  aco_degraded :: "ArmoryCompatibilityMode list"
  aco_notes :: "string list"

record ArmoryDependencyCompatibility =
  adc_tier :: "8 word"
  adc_mode :: string
  adc_native_only :: bool

record ArmoryDependency =
  ad_kind :: ArmoryPackageKind
  ad_id :: string
  ad_version :: string
  ad_required :: bool
  ad_enabled :: bool
  ad_install_command :: string
  ad_compatibility :: ArmoryDependencyCompatibility
  ad_extra :: "(string, json) btree"

record ArmoryInterfaceDetails =
  aid_status :: string
  aid_install :: string
  aid_binary :: string
  aid_image :: string
  aid_commands :: "string list"
  aid_tools :: "string list"
  aid_extra :: "(string, json) btree"

record ArmoryPackage =
  ap_kind :: ArmoryPackageKind
  ap_id :: string
  ap_package_ref :: string
  ap_name :: string
  ap_version :: string
  ap_description :: string
  ap_category :: string
  ap_source_path :: string
  ap_source_url :: string
  ap_repository_url :: string
  ap_homepage_url :: string
  ap_armory_url :: string
  ap_install_command :: string
  ap_install_note :: string
  ap_verify_command :: string
  ap_oci_ref :: string
  ap_artifact_type :: string
  ap_payload_digest :: string
  ap_manifest_id :: string
  ap_license :: string
  ap_min_omegon :: string
  ap_min_nex :: string
  ap_canonical_format :: string
  ap_destructive_capabilities :: "string list"
  ap_network_requirements :: "string list"
  ap_publisher :: string
  ap_official :: bool
  ap_capabilities :: "string list"
  ap_keywords :: "string list"
  ap_files :: "string list"
  ap_dependencies :: "ArmoryDependency list"
  ap_distribution :: ArmoryDistribution
  ap_compatibility :: ArmoryCompatibility
  ap_interfaces :: "(string, ArmoryInterfaceDetails) btree"
  ap_extra :: "(string, json) btree"

record ArmoryIndex =
  ai_generated_at :: string
  ai_registry :: "string option"
  ai_items :: "ArmoryPackage list"
  ai_extra :: "(string, json) btree"

record ArmoryPackageFilter =
  apf_kind :: "ArmoryPackageKind option"
  apf_distribution :: "ArmoryDistribution option"
  apf_publisher :: "string option"
  apf_max_compatibility_tier :: "8 word option"

datatype ArmoryError =
    Fetch string
  | MalformedIndex string
  | UnknownPackage string
  | InvalidOverlay string

text \<open>The messages of \<open>thiserror\<close>.\<close>

fun armory_error_text :: "ArmoryError \<Rightarrow> string" where
  "armory_error_text (Fetch e) = ''armory index fetch failed: '' @ e"
| "armory_error_text (MalformedIndex e) = ''armory index malformed: '' @ e"
| "armory_error_text (UnknownPackage p) = ''unknown armory package '' @ [CHR 0x27] @ p @ [CHR 0x27]"
| "armory_error_text (InvalidOverlay e) = ''deployment overlay invalid: '' @ e"

section \<open>The index\<close>

definition index_from_json :: "(string \<Rightarrow> string + ArmoryIndex) \<Rightarrow> string \<Rightarrow> ArmoryError + ArmoryIndex" where
  "index_from_json decode body =
     (case decode body of
        Inl e \<Rightarrow> Err (MalformedIndex e)
      | Inr index \<Rightarrow>
          if trim (ai_generated_at index) = [] then Err (MalformedIndex ''generatedAt must not be empty'')
          else Ok index)"

definition package_refs :: "ArmoryIndex \<Rightarrow> string list" where
  "package_refs index = map ap_package_ref (ai_items index)"

definition index_get :: "ArmoryIndex \<Rightarrow> string \<Rightarrow> ArmoryPackage option" where
  "index_get index key = List.find (\<lambda>p. ap_package_ref p = key \<or> ap_id p = key) (ai_items index)"

definition ignore_case_eq :: "string \<Rightarrow> string \<Rightarrow> bool" where
  "ignore_case_eq s t \<longleftrightarrow> to_ascii_lowercase s = to_ascii_lowercase t"

definition none_or :: "('a \<Rightarrow> bool) \<Rightarrow> 'a option \<Rightarrow> bool" where
  "none_or P x \<longleftrightarrow> (case x of None \<Rightarrow> True | Some a \<Rightarrow> P a)"

definition index_filter :: "ArmoryPackageFilter \<Rightarrow> ArmoryIndex \<Rightarrow> ArmoryPackage list" where
  "index_filter f index =
     filter (\<lambda>p. none_or (\<lambda>k. ap_kind p = k) (apf_kind f) \<and>
                 none_or (\<lambda>d. ap_distribution p = d) (apf_distribution f) \<and>
                 none_or (ignore_case_eq (ap_publisher p)) (apf_publisher f) \<and>
                 none_or (\<lambda>tier. aco_tier (ap_compatibility p) \<le> tier) (apf_max_compatibility_tier f))
       (ai_items index)"

section \<open>Fetching\<close>

record ArmoryCachedIndex =
  aci_index :: ArmoryIndex
  aci_etag :: "string option"
  aci_last_modified :: "string option"

record ArmoryClient =
  acl_index_url :: string
  acl_schema_url :: "string option"
  acl_cached :: "ArmoryCachedIndex option"

definition DEFAULT_ARMORY_INDEX_URL :: string where
  "DEFAULT_ARMORY_INDEX_URL = ''https://armory.styrene.io/api/index.json''"

definition DEFAULT_ARMORY_SCHEMA_URL :: string where
  "DEFAULT_ARMORY_SCHEMA_URL = ''https://armory.styrene.io/api/schema.json''"

definition new_armory_client :: "string \<Rightarrow> ArmoryClient" where
  "new_armory_client url =
     \<lparr>acl_index_url = url, acl_schema_url = Some DEFAULT_ARMORY_SCHEMA_URL, acl_cached = None\<rparr>"

text \<open>A response: its status, the two validators and the body, or the error of reading it.\<close>

record http_reply =
  hr_status :: nat
  hr_etag :: "string option"
  hr_last_modified :: "string option"
  hr_body :: "string + string"

definition status_error :: "nat \<Rightarrow> bool" where
  "status_error code \<longleftrightarrow> 400 \<le> code \<and> code < 600"

text \<open>\<open>send\<close> gets the URL and the two conditional headers.\<close>

type_synonym index_http = "string \<Rightarrow> string option \<Rightarrow> string option \<Rightarrow> string + http_reply"

definition fetch_index ::
  "index_http \<Rightarrow> (nat \<Rightarrow> string) \<Rightarrow> (string \<Rightarrow> string + ArmoryIndex) \<Rightarrow> ArmoryClient \<Rightarrow>
   (ArmoryError + ArmoryIndex) \<times> ArmoryClient"
where
  "fetch_index send status_text decode c =
     (case send (acl_index_url c) (Option.bind (acl_cached c) aci_etag)
             (Option.bind (acl_cached c) aci_last_modified) of
        Inl e \<Rightarrow> (Err (Fetch e), c)
      | Inr reply \<Rightarrow>
          if hr_status reply = 304 then
            (ok_or (Fetch ''304 response without cached index'') (map_option aci_index (acl_cached c)), c)
          else if status_error (hr_status reply) then (Err (Fetch (status_text (hr_status reply))), c)
          else (case hr_body reply of
                  Inl e \<Rightarrow> (Err (Fetch e), c)
                | Inr body \<Rightarrow>
                    (case index_from_json decode body of
                       Inl e \<Rightarrow> (Err e, c)
                     | Inr index \<Rightarrow>
                         (Ok index,
                          c\<lparr>acl_cached := Some \<lparr>aci_index = index, aci_etag = hr_etag reply,
                                                aci_last_modified = hr_last_modified reply\<rparr>\<rparr>))))"

definition list_cached :: "ArmoryClient \<Rightarrow> ArmoryPackage list" where
  "list_cached c = (case acl_cached c of None \<Rightarrow> [] | Some cached \<Rightarrow> ai_items (aci_index cached))"

definition get_cached :: "ArmoryClient \<Rightarrow> string \<Rightarrow> ArmoryPackage option" where
  "get_cached c key = Option.bind (acl_cached c) (\<lambda>cached. index_get (aci_index cached) key)"

section \<open>Planning\<close>

datatype PolicySeverity = Info | ApprovalRequired | Blocked

record PolicyGate =
  pg_operation :: string
  pg_reason :: string
  pg_severity :: PolicySeverity

record OciArtifact =
  oa2_oci_ref :: string
  oa2_artifact_type :: string
  oa2_payload_digest :: string
  oa2_verify_command :: string

record OmegonPluginInstall =
  opi_package_ref :: string
  opi_entrypoints :: "string list"

record OmegonExtensionInstall =
  oei_id :: string
  oei_version :: string
  oei_install_command :: string
  oei_required :: bool

record ExternalIntegration =
  ei_id :: string
  ei_interfaces :: "(string, ArmoryInterfaceDetails) btree"
  ei_install_command :: string

record NexForgeTemplate =
  nft_package_ref :: string
  nft_canonical_format :: string
  nft_min_nex :: string
  nft_destructive_capabilities :: "string list"
  nft_network_requirements :: "string list"

record ArmoryInstallPlan =
  aip_package_ref :: string
  aip_package_id :: string
  aip_kind :: ArmoryPackageKind
  aip_distribution :: ArmoryDistribution
  aip_pull_artifacts :: "OciArtifact list"
  aip_omegon_plugins :: "OmegonPluginInstall list"
  aip_omegon_extensions :: "OmegonExtensionInstall list"
  aip_external_integrations :: "ExternalIntegration list"
  aip_nex_forge_templates :: "NexForgeTemplate list"
  aip_required_secrets :: "string list"
  aip_optional_secrets :: "string list"
  aip_warnings :: "string list"
  aip_policy_gates :: "PolicyGate list"

definition add_gate :: "string \<Rightarrow> string \<Rightarrow> PolicySeverity \<Rightarrow> ArmoryInstallPlan \<Rightarrow> ArmoryInstallPlan" where
  "add_gate operation reason severity plan =
     plan\<lparr>aip_policy_gates := aip_policy_gates plan @
       [\<lparr>pg_operation = operation, pg_reason = reason, pg_severity = severity\<rparr>]\<rparr>"

definition add_extension :: "string \<Rightarrow> string \<Rightarrow> string \<Rightarrow> bool \<Rightarrow> ArmoryInstallPlan \<Rightarrow> ArmoryInstallPlan" where
  "add_extension ident version install_command required plan =
     plan\<lparr>aip_omegon_extensions := aip_omegon_extensions plan @
       [\<lparr>oei_id = ident, oei_version = version, oei_install_command = install_command,
         oei_required = required\<rparr>]\<rparr>"

definition empty_plan :: "ArmoryPackage \<Rightarrow> ArmoryInstallPlan" where
  "empty_plan p =
     \<lparr>aip_package_ref = ap_package_ref p, aip_package_id = ap_id p, aip_kind = ap_kind p,
      aip_distribution = ap_distribution p,
      aip_pull_artifacts =
        (if ap_distribution p = Oci \<and> ap_oci_ref p \<noteq> []
         then [\<lparr>oa2_oci_ref = ap_oci_ref p, oa2_artifact_type = ap_artifact_type p,
                oa2_payload_digest = ap_payload_digest p, oa2_verify_command = ap_verify_command p\<rparr>]
         else []),
      aip_omegon_plugins = [], aip_omegon_extensions = [], aip_external_integrations = [],
      aip_nex_forge_templates = [], aip_required_secrets = [], aip_optional_secrets = [],
      aip_warnings = [], aip_policy_gates = []\<rparr>"

definition plan_forge_template :: "ArmoryPackage \<Rightarrow> ArmoryInstallPlan \<Rightarrow> ArmoryInstallPlan" where
  "plan_forge_template p plan =
     (let plan1 =
        add_gate (''validate Nex forge template '' @ ap_package_ref p)
          ''Forge templates are Nex-owned and require semantic validation before build or provisioning.''
          ApprovalRequired
          (plan\<lparr>aip_nex_forge_templates := aip_nex_forge_templates plan @
             [\<lparr>nft_package_ref = ap_package_ref p, nft_canonical_format = ap_canonical_format p,
               nft_min_nex = ap_min_nex p, nft_destructive_capabilities = ap_destructive_capabilities p,
               nft_network_requirements = ap_network_requirements p\<rparr>]\<rparr>)
      in if ap_destructive_capabilities p = [] then plan1
         else add_gate (''execute Nex forge template '' @ ap_package_ref p)
                (''Template declares destructive capabilities: '' @
                 join '', '' (ap_destructive_capabilities p)) Blocked plan1)"

definition plan_package :: "ArmoryPackage \<Rightarrow> ArmoryInstallPlan \<Rightarrow> ArmoryInstallPlan" where
  "plan_package p plan =
     (if ap_kind p \<in> {Agent, Profile} \<and> ap_distribution p = Oci then
        plan\<lparr>aip_omegon_plugins := aip_omegon_plugins plan @
          [\<lparr>opi_package_ref = ap_package_ref p, opi_entrypoints = ap_files p\<rparr>]\<rparr>
      else if ap_kind p = Extension \<and> ap_distribution p = Registry then
        add_gate (''install native extension '' @ ap_id p)
          ''Native Omegon extension installs change runtime authority.'' ApprovalRequired
          (add_extension (ap_id p) (ap_version p) (ap_install_command p) True plan)
      else if ap_kind p = Extension \<and> ap_distribution p = ExternalDistribution then
        add_gate (''link external integration '' @ ap_id p)
          ''External integrations are deployed or linked separately from Omegon extension installs.''
          ApprovalRequired
          (plan\<lparr>aip_external_integrations := aip_external_integrations plan @
             [\<lparr>ei_id = ap_id p, ei_interfaces = ap_interfaces p,
               ei_install_command = ap_install_command p\<rparr>]\<rparr>)
      else if ap_kind p = ForgeTemplate then plan_forge_template p plan
      else plan)"

definition secret_names_for_dependency :: "ArmoryDependency \<Rightarrow> string list" where
  "secret_names_for_dependency d =
     (case Option.bind (bt_get (ad_extra d) ''secrets'') as_array of
        None \<Rightarrow> [] | Some vs \<Rightarrow> List.map_filter as_str vs)"

definition plan_dependency :: "bool \<Rightarrow> ArmoryDependency \<Rightarrow> ArmoryInstallPlan \<Rightarrow> ArmoryInstallPlan" where
  "plan_dependency include_optional d plan =
     (if \<not> ad_required d \<and> \<not> include_optional then plan
      else
        let plan1 =
          (if ad_required d
           then plan\<lparr>aip_required_secrets := aip_required_secrets plan @ secret_names_for_dependency d\<rparr>
           else plan\<lparr>aip_optional_secrets := aip_optional_secrets plan @ secret_names_for_dependency d\<rparr>)
        in if ad_kind d = Extension \<and> adc_native_only (ad_compatibility d) then
             add_gate (''install native extension '' @ ad_id d)
               ''Dependency is native-only and must not be installed without explicit policy approval.''
               ApprovalRequired
               (add_extension (ad_id d) (ad_version d) (ad_install_command d) (ad_required d) plan1)
           else if ad_kind d = ForgeTemplate then
             add_gate (''delegate forge template dependency '' @ ad_id d)
               ''Forge template dependency must be handled by Nex validation/build paths.''
               ApprovalRequired plan1
           else plan1)"

text \<open>\<open>sort\<close> followed by \<open>dedup\<close>.\<close>

definition sort_dedup :: "string list \<Rightarrow> string list" where
  "sort_dedup xs = remdups_adj (sort xs)"

definition finish_plan :: "ArmoryInstallPlan \<Rightarrow> ArmoryInstallPlan" where
  "finish_plan plan =
     (let plan1 =
        (if list_ex (\<lambda>a. oa2_oci_ref a \<noteq> []) (aip_pull_artifacts plan)
         then add_gate ''pull and verify OCI artifact''
                ''Artifact pulls affect supply-chain state and should be audited.'' ApprovalRequired plan
         else plan)
      in plan1\<lparr>aip_required_secrets := sort_dedup (aip_required_secrets plan1),
               aip_optional_secrets := sort_dedup (aip_optional_secrets plan1)\<rparr>)"

definition plan_armory_install :: "bool \<Rightarrow> ArmoryPackage \<Rightarrow> ArmoryInstallPlan" where
  "plan_armory_install include_optional p =
     finish_plan (fold (plan_dependency include_optional) (ap_dependencies p)
                   (plan_package p (empty_plan p)))"

section \<open>Overlays\<close>

record ArmoryDeploymentOverlay =
  ov_id :: string
  ov_armory :: string
  ov_mode :: string
  ov_role :: string
  ov_image :: string
  ov_model :: string
  ov_posture :: string
  ov_resources :: PackageResources
  ov_namespace :: "string option"
  ov_required_secrets :: "string list"
  ov_optional_secrets :: "string list"
  ov_control_tls_profile :: string
  ov_mesh_role :: string
  ov_terminal_tool :: bool

fun validate_fields :: "(string \<times> string) list \<Rightarrow> ArmoryError + unit" where
  "validate_fields [] = Ok ()"
| "validate_fields ((field, value) # rest) =
     (if trim value = [] then Err (InvalidOverlay (field @ '' must be provided''))
      else validate_fields rest)"

definition overlay_validate :: "ArmoryDeploymentOverlay \<Rightarrow> ArmoryError + unit" where
  "overlay_validate ov =
     validate_fields
       [(''id'', ov_id ov), (''armory'', ov_armory ov), (''mode'', ov_mode ov), (''role'', ov_role ov),
        (''image'', ov_image ov), (''model'', ov_model ov)]"

text \<open>The debug form of a kind.\<close>

fun kind_debug :: "ArmoryPackageKind \<Rightarrow> string" where
  "kind_debug Skill = ''Skill''"
| "kind_debug Persona = ''Persona''"
| "kind_debug Tone = ''Tone''"
| "kind_debug Profile = ''Profile''"
| "kind_debug Agent = ''Agent''"
| "kind_debug Extension = ''Extension''"
| "kind_debug ForgeTemplate = ''ForgeTemplate''"

definition agent_package_from_armory_overlay ::
  "ArmoryPackage \<Rightarrow> ArmoryDeploymentOverlay \<Rightarrow> ArmoryInstallPlan \<Rightarrow> ArmoryError + AgentPackage"
where
  "agent_package_from_armory_overlay p ov plan =
     (case overlay_validate ov of
        Inl e \<Rightarrow> Err e
      | Inr _ \<Rightarrow>
          if ov_armory ov \<noteq> ap_package_ref p \<and> ov_armory ov \<noteq> ap_id p then
            Err (InvalidOverlay (''overlay references '' @ ov_armory ov @ '', but package is '' @ ap_package_ref p))
          else if ap_kind p \<notin> {Agent, Profile} then
            Err (InvalidOverlay (''only agent/profile packages can map to AgentPackage, got '' @ kind_debug (ap_kind p)))
          else
            Ok \<lparr>pkg_id = ov_id ov, pkg_name = ap_name p, pkg_description = ap_description p,
                pkg_domain = ap_category p, pkg_agent = ap_id p, pkg_profile = ap_package_ref p,
                pkg_default_model = ov_model ov,
                pkg_posture = (if ov_posture ov = [] then ''fabricator'' else ov_posture ov),
                pkg_role = ov_role ov, pkg_mode = ov_mode ov, pkg_image = ov_image ov,
                pkg_labels = [''armory:'' @ ap_package_ref p],
                pkg_required_secrets = sort_dedup (aip_required_secrets plan @ ov_required_secrets ov),
                pkg_optional_secrets = sort_dedup (aip_optional_secrets plan @ ov_optional_secrets ov),
                pkg_resources = ov_resources ov, pkg_control_tls_profile = ov_control_tls_profile ov,
                pkg_mesh_role = ov_mesh_role ov, pkg_terminal_tool = ov_terminal_tool ov\<rparr>)"

end
