(* ===== verification/Operator_Armory.thy ===== *)
theory Operator_Armory
  imports Armory Operator_Handlers
begin

text \<open>
  The catalog side of the fleet API (\<open>auspex-operator/src/main.rs\<close>): deployment overlays kept in a
  config map, the preflight of a catalog package, the deployment of built-in packages, and the
  handlers that list the fleet.  The config map is read by a function of namespace and name; a
  handler that writes returns the objects it applied with its answer.  Derived codecs, the fetched
  index and the process environment are parameters.
\<close>

section \<open>Codecs\<close>

record armory_codec =
  cdc_overlay_parse :: "string \<Rightarrow> string + ArmoryDeploymentOverlay"
  cdc_overlay_print :: "ArmoryDeploymentOverlay \<Rightarrow> string + string"
  cdc_overlay_read :: "json \<Rightarrow> string + ArmoryDeploymentOverlay"
  cdc_overlay_json :: "ArmoryDeploymentOverlay \<Rightarrow> json"
  cdc_request_read :: "json \<Rightarrow> string + AgentPackageDeployRequest"
  cdc_request_json :: "AgentPackageDeployRequest \<Rightarrow> json"
  cdc_armory_package_json :: "ArmoryPackage \<Rightarrow> json"
  cdc_package_json :: "AgentPackage \<Rightarrow> json"
  cdc_plan_json :: "ArmoryInstallPlan \<Rightarrow> json"
  cdc_assessment_json :: "OciImageAssessment \<Rightarrow> json"

definition quoted_name :: "string \<Rightarrow> string" where
  "quoted_name s = [CHR 0x27] @ s @ [CHR 0x27]"

section \<open>Overlay entries\<close>

definition overlay_key_char :: "char \<Rightarrow> bool" where
  "overlay_key_char c \<longleftrightarrow>
     is_digit c \<or> (65 \<le> (of_char c :: nat) \<and> (of_char c :: nat) \<le> 90) \<or>
     (97 \<le> (of_char c :: nat) \<and> (of_char c :: nat) \<le> 122) \<or>
     c = CHR ''.'' \<or> c = CHR ''_'' \<or> c = CHR ''-''"

definition armory_overlay_data_key :: "string \<Rightarrow> string + string" where
  "armory_overlay_data_key raw_id =
     (let i = trim raw_id in
      if i = [] then Err ''overlay id is required''
      else if 128 < length i then Err ''overlay id must be 128 characters or fewer''
      else if \<not> list_all overlay_key_char i then
        Err (''overlay id may only contain ASCII letters, numbers, '' @ quoted_name ''.'' @ '', '' @
             quoted_name ''_'' @ '', and '' @ quoted_name ''-'')
      else Ok (i @ ''.json''))"

definition parse_armory_overlay_json ::
  "armory_codec \<Rightarrow> string \<Rightarrow> string \<Rightarrow> string + ArmoryDeploymentOverlay"
where
  "parse_armory_overlay_json cdc key raw =
     (let at_key = (\<lambda>e. ''invalid overlay entry '' @ quoted_name key @ '': '' @ e) in
      case cdc_overlay_parse cdc raw of
        Inl e \<Rightarrow> Err (at_key e)
      | Inr ov \<Rightarrow>
          (case overlay_validate ov of
             Inl e \<Rightarrow> Err (at_key (armory_error_text e))
           | Inr _ \<Rightarrow> map_sum id (\<lambda>_. ov) (armory_overlay_data_key (ov_id ov))))"

fun parse_overlay_entries ::
  "armory_codec \<Rightarrow> (string \<times> string) list \<Rightarrow> ArmoryDeploymentOverlay list \<times> json list"
where
  "parse_overlay_entries cdc [] = ([], [])"
| "parse_overlay_entries cdc ((key, raw) # rest) =
     (if \<not> ends_with key ''.json'' then parse_overlay_entries cdc rest
      else case (parse_armory_overlay_json cdc key raw, parse_overlay_entries cdc rest) of
             (Inr ov, (ovs, errors)) \<Rightarrow> (ov # ovs, errors)
           | (Inl e, (ovs, errors)) \<Rightarrow>
               (ovs, jobj [(''key'', JStr key), (''error'', JStr e)] # errors))"

text \<open>The entries in the order of their keys; the overlays are then sorted, stably, by identifier.\<close>

definition parse_armory_overlay_config_data ::
  "armory_codec \<Rightarrow> (string, string) btree \<Rightarrow> ArmoryDeploymentOverlay list \<times> json list"
where
  "parse_armory_overlay_config_data cdc data =
     (case parse_overlay_entries cdc data of (ovs, errors) \<Rightarrow> (sort_key ov_id ovs, errors))"

definition upsert_armory_overlay_data ::
  "armory_codec \<Rightarrow> ArmoryDeploymentOverlay \<Rightarrow> (string, string) btree \<Rightarrow> string + (string, string) btree"
where
  "upsert_armory_overlay_data cdc ov data =
     (case armory_overlay_data_key (ov_id ov) of
        Inl e \<Rightarrow> Err e
      | Inr key \<Rightarrow>
          (case cdc_overlay_print cdc ov of
             Inl e \<Rightarrow> Err (''failed to encode Armory overlay: '' @ e)
           | Inr raw \<Rightarrow> Ok (bt_insert key raw data)))"

text \<open>\<open>value\<close> is the body or its field \<open>overlay\<close>; an empty identifier is taken from the route.\<close>

definition armory_overlay_from_body ::
  "armory_codec \<Rightarrow> json \<Rightarrow> string option \<Rightarrow> string + ArmoryDeploymentOverlay"
where
  "armory_overlay_from_body cdc body expected_id =
     (case cdc_overlay_read cdc (unwrap_or (jget body ''overlay'') body) of
        Inl e \<Rightarrow> Err (''invalid Armory overlay: '' @ e)
      | Inr ov0 \<Rightarrow>
          (let ov = (if trim (ov_id ov0) = [] then ov0\<lparr>ov_id := unwrap_or expected_id ''''\<rparr> else ov0) in
           if (case expected_id of Some i \<Rightarrow> ov_id ov \<noteq> i | None \<Rightarrow> False) then
             Err (''overlay id '' @ quoted_name (ov_id ov) @ '' does not match route id '' @
                  quoted_name (unwrap_or expected_id ''''))
           else case overlay_validate ov of
                  Inl e \<Rightarrow> Err (''invalid Armory overlay: '' @ armory_error_text e)
                | Inr _ \<Rightarrow> map_sum id (\<lambda>_. ov) (armory_overlay_data_key (ov_id ov))))"

section \<open>The config map\<close>

text \<open>\<open>get_opt\<close> on the config map: the error, or its data if the object is there and has some.\<close>

type_synonym config_reader = "string \<Rightarrow> string \<Rightarrow> string + (string, string) btree option"

text \<open>An object applied with the manager \<open>auspex-webui\<close>, forced; the error of a refusal.\<close>

type_synonym config_writer = "string \<Rightarrow> string \<Rightarrow> json \<Rightarrow> string option"

definition armory_overlay_store_location :: "process_env \<Rightarrow> string option \<Rightarrow> string \<times> string" where
  "armory_overlay_store_location env watch =
     (unwrap_or (or_else watch (env ''AUSPEX_ARMORY_OVERLAYS_NAMESPACE'')) ''default'',
      unwrap_or (env ''AUSPEX_ARMORY_OVERLAYS_CONFIG_MAP'') ''auspex-armory-overlays'')"

definition read_armory_overlay_config_data ::
  "config_reader \<Rightarrow> string \<times> string \<Rightarrow> string + (string, string) btree"
where
  "read_armory_overlay_config_data read loc =
     (case read (fst loc) (snd loc) of
        Inl e \<Rightarrow> Err (''failed to read Armory overlay ConfigMap: '' @ e)
      | Inr data \<Rightarrow> Ok (unwrap_or data bt_empty))"

definition read_armory_overlay_by_id ::
  "armory_codec \<Rightarrow> config_reader \<Rightarrow> string \<times> string \<Rightarrow> string \<Rightarrow> string + ArmoryDeploymentOverlay option"
where
  "read_armory_overlay_by_id cdc read loc i =
     and_then (armory_overlay_data_key i) (\<lambda>key.
     and_then (read_armory_overlay_config_data read loc) (\<lambda>data.
       case bt_get data key of
         None \<Rightarrow> Ok None
       | Some raw \<Rightarrow> map_sum id Some (parse_armory_overlay_json cdc key raw)))"

definition overlay_config_map :: "string \<times> string \<Rightarrow> (string, string) btree \<Rightarrow> json" where
  "overlay_config_map loc data =
     jobj [(''apiVersion'', JStr ''v1''), (''kind'', JStr ''ConfigMap''),
           (''metadata'', jobj
             [(''name'', JStr (snd loc)), (''namespace'', JStr (fst loc)),
              (''labels'', jobj [(''app.kubernetes.io/part-of'', JStr ''auspex''),
                                 (''auspex.styrene.sh/config'', JStr ''armory-overlays'')])]),
           (''data'', str_map data)]"

definition apply_armory_overlay_config_map ::
  "config_writer \<Rightarrow> string \<times> string \<Rightarrow> (string, string) btree \<Rightarrow> json list \<times> (string + unit)"
where
  "apply_armory_overlay_config_map write loc data =
     (let manifest = overlay_config_map loc data in
      ([manifest],
       case write (fst loc) (snd loc) manifest of
         Some e \<Rightarrow> Err (''failed to write Armory overlay ConfigMap: '' @ e)
       | None \<Rightarrow> Ok ()))"

definition write_armory_overlay ::
  "armory_codec \<Rightarrow> config_reader \<Rightarrow> config_writer \<Rightarrow> string \<times> string \<Rightarrow> ArmoryDeploymentOverlay \<Rightarrow>
   json list \<times> (string + unit)"
where
  "write_armory_overlay cdc read write loc ov =
     (case overlay_validate ov of
        Inl e \<Rightarrow> ([], Err (''invalid Armory overlay: '' @ armory_error_text e))
      | Inr _ \<Rightarrow>
          (case and_then (read_armory_overlay_config_data read loc) (upsert_armory_overlay_data cdc ov) of
             Inl e \<Rightarrow> ([], Err e)
           | Inr data \<Rightarrow> apply_armory_overlay_config_map write loc data))"

definition delete_armory_overlay ::
  "config_reader \<Rightarrow> config_writer \<Rightarrow> string \<times> string \<Rightarrow> string \<Rightarrow> json list \<times> (string + bool)"
where
  "delete_armory_overlay read write loc i =
     (case read_armory_overlay_config_data read loc of
        Inl e \<Rightarrow> ([], Err e)
      | Inr data \<Rightarrow>
          (case armory_overlay_data_key i of
             Inl e \<Rightarrow> ([], Err e)
           | Inr key \<Rightarrow>
               (case apply_armory_overlay_config_map write loc (bt_remove key data) of
                  (sent, r) \<Rightarrow> (sent, map_sum id (\<lambda>_. bt_get data key \<noteq> None) r))))"

section \<open>Overlay handlers\<close>

definition location_json :: "string \<times> string \<Rightarrow> json" where
  "location_json loc = jobj [(''namespace'', JStr (fst loc)), (''name'', JStr (snd loc))]"

definition armory_overlays_handler :: "armory_codec \<Rightarrow> config_reader \<Rightarrow> string \<times> string \<Rightarrow> json" where
  "armory_overlays_handler cdc read loc =
     (case read_armory_overlay_config_data read loc of
        Inl e \<Rightarrow> error_json e
      | Inr data \<Rightarrow>
          (case parse_armory_overlay_config_data cdc data of
             (ovs, errors) \<Rightarrow>
               jobj [(''overlays'', JArr (map (cdc_overlay_json cdc) ovs)), (''errors'', JArr errors),
                     (''source'', JStr ''config-map''), (''configMap'', location_json loc)]))"

definition armory_overlay_detail_handler ::
  "armory_codec \<Rightarrow> config_reader \<Rightarrow> string \<times> string \<Rightarrow> string \<Rightarrow> json"
where
  "armory_overlay_detail_handler cdc read loc i =
     (case read_armory_overlay_by_id cdc read loc i of
        Inr (Some ov) \<Rightarrow> jobj [(''overlay'', cdc_overlay_json cdc ov), (''source'', JStr ''config-map'')]
      | Inr None \<Rightarrow> error_json (''unknown Armory overlay '' @ quoted_name i)
      | Inl e \<Rightarrow> error_json e)"

definition upsert_armory_overlay_handler ::
  "armory_codec \<Rightarrow> config_reader \<Rightarrow> config_writer \<Rightarrow> string \<times> string \<Rightarrow> string option \<Rightarrow> json \<Rightarrow> json list \<times> json"
where
  "upsert_armory_overlay_handler cdc read write loc route_id body =
     (case armory_overlay_from_body cdc body route_id of
        Inl e \<Rightarrow> ([], error_json e)
      | Inr ov \<Rightarrow>
          (case write_armory_overlay cdc read write loc ov of
             (sent, Inl e) \<Rightarrow> (sent, error_json e)
           | (sent, Inr _) \<Rightarrow>
               (sent, jobj [(''overlay'', cdc_overlay_json cdc ov), (''source'', JStr ''config-map''),
                            (''configMap'', location_json loc)])))"

definition delete_armory_overlay_handler ::
  "config_reader \<Rightarrow> config_writer \<Rightarrow> string \<times> string \<Rightarrow> string \<Rightarrow> json list \<times> json"
where
  "delete_armory_overlay_handler read write loc i =
     (case delete_armory_overlay read write loc i of
        (sent, Inl e) \<Rightarrow> (sent, error_json e)
      | (sent, Inr deleted) \<Rightarrow>
          (sent, jobj [(''deleted'', JBool deleted), (''id'', JStr i), (''source'', JStr ''config-map''),
                       (''configMap'', location_json loc)]))"

section \<open>Catalog handlers\<close>

definition armory_packages_handler :: "armory_codec \<Rightarrow> ArmoryError + ArmoryIndex \<Rightarrow> json" where
  "armory_packages_handler cdc index =
     (case index of
        Inl e \<Rightarrow> error_json (armory_error_text e)
      | Inr idx \<Rightarrow>
          jobj [(''packages'', JArr (map (cdc_armory_package_json cdc) (ai_items idx))),
                (''source'', JStr ''armory''), (''generatedAt'', JStr (ai_generated_at idx)),
                (''registry'', jopt_str (ai_registry idx))])"

definition unknown_package :: "string \<Rightarrow> json" where
  "unknown_package package_ref = error_json (''unknown Armory package '' @ quoted_name package_ref)"

definition armory_package_detail_handler ::
  "armory_codec \<Rightarrow> ArmoryError + ArmoryIndex \<Rightarrow> string \<Rightarrow> string \<Rightarrow> json"
where
  "armory_package_detail_handler cdc index kind i =
     (let package_ref = kind @ ''/'' @ i in
      case index of
        Inl e \<Rightarrow> error_json (armory_error_text e)
      | Inr idx \<Rightarrow>
          (case index_get idx package_ref of
             None \<Rightarrow> unknown_package package_ref
           | Some p \<Rightarrow> jobj [(''package'', cdc_armory_package_json cdc p), (''source'', JStr ''armory'')]))"

text \<open>A field under its camel-case name, or only if that is absent under its snake-case name.\<close>

definition body_field :: "json \<Rightarrow> string \<Rightarrow> string \<Rightarrow> json option" where
  "body_field body camel snake = or_else (jget body camel) (jget body snake)"

definition body_text :: "json \<Rightarrow> string \<Rightarrow> string \<Rightarrow> string option" where
  "body_text body camel snake =
     (case Option.bind (body_field body camel snake) as_str of
        None \<Rightarrow> None | Some s \<Rightarrow> if trim s = [] then None else Some s)"

definition include_optional_of :: "json \<Rightarrow> bool" where
  "include_optional_of body =
     (case body_field body ''includeOptional'' ''include_optional'' of Some (JBool b) \<Rightarrow> b | _ \<Rightarrow> False)"

definition armory_plan_handler :: "armory_codec \<Rightarrow> ArmoryError + ArmoryIndex \<Rightarrow> json \<Rightarrow> json" where
  "armory_plan_handler cdc index body =
     (case body_text body ''packageRef'' ''package_ref'' of
        None \<Rightarrow> error_json ''packageRef is required''
      | Some package_ref \<Rightarrow>
          (case index of
             Inl e \<Rightarrow> error_json (armory_error_text e)
           | Inr idx \<Rightarrow>
               (case index_get idx package_ref of
                  None \<Rightarrow> unknown_package package_ref
                | Some p \<Rightarrow>
                    jobj [(''plan'', cdc_plan_json cdc (plan_armory_install (include_optional_of body) p)),
                          (''source'', JStr ''armory'')])))"

section \<open>Preflight\<close>

datatype OciPreflightPolicy = Warn | Strict

definition policy_string :: "OciPreflightPolicy \<Rightarrow> string" where
  "policy_string policy = (case policy of Warn \<Rightarrow> ''warn'' | Strict \<Rightarrow> ''strict'')"

definition policy_blocks :: "OciPreflightPolicy \<Rightarrow> OciImageAssessment \<Rightarrow> bool" where
  "policy_blocks policy assessment \<longleftrightarrow> policy = Strict \<and> \<not> oia_digest_pinned assessment"

definition oci_preflight_policy_from_body :: "process_env \<Rightarrow> json \<Rightarrow> OciPreflightPolicy" where
  "oci_preflight_policy_from_body env body =
     (let policy = unwrap_or (or_else (Option.bind (body_field body ''ociPolicy'' ''oci_policy'') as_str)
                                (env ''AUSPEX_OCI_PREFLIGHT_POLICY'')) ''warn''
      in if to_ascii_lowercase (trim policy) \<in> {''strict'', ''enforce'', ''required''} then Strict else Warn)"

definition empty_as_null :: "string \<Rightarrow> json" where
  "empty_as_null s = (if trim s = [] then JNull else JStr (trim s))"

definition unresolved :: "bool \<Rightarrow> json" where
  "unresolved expected =
     jobj [(''expected'', JBool expected), (''verified'', JBool False),
           (''status'', JStr ''not-resolved-in-preflight'')]"

definition armory_supply_chain_projection ::
  "armory_codec \<Rightarrow> ArmoryPackage \<Rightarrow> OciImageAssessment \<Rightarrow> OciPreflightPolicy \<Rightarrow> json"
where
  "armory_supply_chain_projection cdc p img policy =
     jobj [(''image'', cdc_assessment_json cdc img),
           (''packageArtifact'', jobj
             [(''ociRef'', empty_as_null (ap_oci_ref p)), (''artifactType'', empty_as_null (ap_artifact_type p)),
              (''payloadDigest'', empty_as_null (ap_payload_digest p)),
              (''verifyCommand'', empty_as_null (ap_verify_command p))]),
           (''sbom'', unresolved True), (''signature'', unresolved (policy = Strict)),
           (''provenance'', unresolved (policy = Strict))]"

definition resolve_armory_preflight_overlay ::
  "armory_codec \<Rightarrow> config_reader \<Rightarrow> string \<times> string \<Rightarrow> json \<Rightarrow> string + ArmoryDeploymentOverlay"
where
  "resolve_armory_preflight_overlay cdc read loc body =
     (case jget body ''overlay'' of
        Some v \<Rightarrow> armory_overlay_from_body cdc v None
      | None \<Rightarrow>
          (case body_text body ''overlayId'' ''overlay_id'' of
             None \<Rightarrow> Err ''overlay or overlayId is required''
           | Some overlay_id \<Rightarrow>
               and_then (read_armory_overlay_by_id cdc read loc overlay_id)
                 (ok_or (''unknown Armory overlay '' @ quoted_name overlay_id))))"

definition has_gate :: "PolicySeverity \<Rightarrow> ArmoryInstallPlan \<Rightarrow> bool" where
  "has_gate severity plan \<longleftrightarrow> list_ex (\<lambda>g. pg_severity g = severity) (aip_policy_gates plan)"

definition preflight_request ::
  "string option \<Rightarrow> ArmoryDeploymentOverlay \<Rightarrow> AgentPackageDeployRequest \<Rightarrow> AgentPackageDeployRequest"
where
  "preflight_request watch ov request =
     (let r1 = (if adr_namespace request = None
                then request\<lparr>adr_namespace := or_else (ov_namespace ov) (or_else watch (Some ''default''))\<rparr>
                else request)
      in if adr_name r1 = None then r1\<lparr>adr_name := Some (ov_id ov)\<rparr> else r1)"

text \<open>What the preflight finds out, before it is put into the answer.\<close>

record preflight =
  pf_package :: ArmoryPackage
  pf_overlay :: ArmoryDeploymentOverlay
  pf_plan :: ArmoryInstallPlan
  pf_agent_package :: AgentPackage
  pf_request :: AgentPackageDeployRequest
  pf_manifest :: json
  pf_scope_error :: "json option"
  pf_policy :: OciPreflightPolicy
  pf_assessment :: OciImageAssessment

definition run_preflight ::
  "armory_codec \<Rightarrow> process_env \<Rightarrow> string option \<Rightarrow> config_reader \<Rightarrow> ArmoryError + ArmoryIndex \<Rightarrow> json \<Rightarrow>
   json + preflight"
where
  "run_preflight cdc env watch read index body =
     and_then (ok_or (error_json ''packageRef is required'') (body_text body ''packageRef'' ''package_ref''))
       (\<lambda>package_ref.
     and_then (map_err error_json
         (resolve_armory_preflight_overlay cdc read (armory_overlay_store_location env watch) body)) (\<lambda>ov.
     and_then (map_err (error_json \<circ> armory_error_text) index) (\<lambda>idx.
     and_then (ok_or (unknown_package package_ref) (index_get idx package_ref)) (\<lambda>p.
     let plan = plan_armory_install (include_optional_of body) p in
     and_then (map_err (error_json \<circ> armory_error_text) (agent_package_from_armory_overlay p ov plan)) (\<lambda>pkg.
     and_then (case jget body ''deploy'' of
                 None \<Rightarrow> Ok default_deploy_request
               | Some v \<Rightarrow> map_err (\<lambda>e. error_json (''invalid deploy request: '' @ e)) (cdc_request_read cdc v))
       (\<lambda>request0.
     let request = preflight_request watch ov request0;
         manifest = omegon_agent_manifest pkg request
     in Ok \<lparr>pf_package = p, pf_overlay = ov, pf_plan = plan, pf_agent_package = pkg,
            pf_request = request, pf_manifest = manifest,
            pf_scope_error = namespace_scope_error watch
              (unwrap_or (Option.bind (pointer manifest [''metadata'', ''namespace'']) as_str) ''default''),
            pf_policy = oci_preflight_policy_from_body env body,
            pf_assessment = assess_oci_image_ref
              (unwrap_or (Option.bind (pointer manifest [''spec'', ''image'']) as_str) '''')\<rparr>))))))"

definition pf_policy_blocked :: "preflight \<Rightarrow> bool" where
  "pf_policy_blocked pf = policy_blocks (pf_policy pf) (pf_assessment pf)"

definition pf_deployable :: "preflight \<Rightarrow> bool" where
  "pf_deployable pf \<longleftrightarrow>
     \<not> has_gate Blocked (pf_plan pf) \<and> \<not> pf_policy_blocked pf \<and> pf_scope_error pf = None"

definition preflight_json :: "armory_codec \<Rightarrow> preflight \<Rightarrow> json" where
  "preflight_json cdc pf =
     jobj [(''package'', cdc_armory_package_json cdc (pf_package pf)),
           (''overlay'', cdc_overlay_json cdc (pf_overlay pf)),
           (''plan'', cdc_plan_json cdc (pf_plan pf)),
           (''agentPackage'', cdc_package_json cdc (pf_agent_package pf)),
           (''deployRequest'', cdc_request_json cdc (pf_request pf)),
           (''manifest'', pf_manifest pf),
           (''deployable'', JBool (pf_deployable pf)),
           (''blocked'', JBool (has_gate Blocked (pf_plan pf) \<or> pf_policy_blocked pf)),
           (''requiresApproval'', JBool (has_gate ApprovalRequired (pf_plan pf))),
           (''scopeError'', jopt id (pf_scope_error pf)),
           (''ociPolicy'', jobj
             [(''mode'', JStr (policy_string (pf_policy pf))), (''blocked'', JBool (pf_policy_blocked pf)),
              (''reason'', if pf_policy_blocked pf
                           then JStr ''strict OCI policy requires a valid digest-pinned image'' else JNull)]),
           (''supplyChain'', armory_supply_chain_projection cdc (pf_package pf) (pf_assessment pf) (pf_policy pf)),
           (''secretRequests'', jobj
             [(''required'', JArr (map JStr (aip_required_secrets (pf_plan pf)))),
              (''optional'', JArr (map JStr (aip_optional_secrets (pf_plan pf))))]),
           (''source'', JStr ''armory'')]"

definition armory_preflight_handler ::
  "armory_codec \<Rightarrow> process_env \<Rightarrow> string option \<Rightarrow> config_reader \<Rightarrow> ArmoryError + ArmoryIndex \<Rightarrow> json \<Rightarrow> json"
where
  "armory_preflight_handler cdc env watch read index body =
     (case run_preflight cdc env watch read index body of
        Inl e \<Rightarrow> e
      | Inr pf \<Rightarrow> preflight_json cdc pf)"

section \<open>Built-in packages\<close>

definition packages_handler :: "armory_codec \<Rightarrow> json" where
  "packages_handler cdc =
     jobj [(''packages'', JArr (map (cdc_package_json cdc) builtin_home_packages)),
           (''source'', JStr ''builtin''), (''next_source'', JStr ''armory-signum'')]"

definition package_detail_handler :: "armory_codec \<Rightarrow> string \<Rightarrow> json" where
  "package_detail_handler cdc i =
     (case find_builtin_agent_package i of
        Some p \<Rightarrow> jobj [(''package'', cdc_package_json cdc p), (''source'', JStr ''builtin'')]
      | None \<Rightarrow> error_json (''unknown package '' @ quoted_name i))"

definition deploy_package_handler ::
  "armory_codec \<Rightarrow> serialisers \<Rightarrow> string option \<Rightarrow> kube_api \<Rightarrow> string \<Rightarrow> json option \<Rightarrow>
   (KubeCall list \<times> json) option"
where
  "deploy_package_handler cdc ser watch kube i body =
     (case find_builtin_agent_package i of
        None \<Rightarrow> Some ([], error_json (''unknown package '' @ quoted_name i))
      | Some p \<Rightarrow>
          (case (case body of None \<Rightarrow> Ok default_deploy_request | Some v \<Rightarrow> cdc_request_read cdc v) of
             Inl e \<Rightarrow> Some ([], error_json (''invalid package deploy request: '' @ e))
           | Inr request \<Rightarrow>
               (let request1 = (if adr_namespace request = None
                                then request\<lparr>adr_namespace := or_else watch (Some ''default'')\<rparr> else request)
                in deploy_agent_handler ser watch kube (omegon_agent_manifest p request1))))"

end
