(* ===== verification/Operator_Armory_Props.thy ===== *)
theory Operator_Armory_Props
  imports Operator_Armory
begin

text \<open>
  What plans, overlays and preflights guarantee: every native extension of a plan is gated, a stored
  overlay is read back, and which conditions make a preflight deployable.
\<close>

section \<open>Plans\<close>

lemma add_gate_sel [simp]:
  "aip_policy_gates (add_gate operation reason severity plan) =
     aip_policy_gates plan @ [\<lparr>pg_operation = operation, pg_reason = reason, pg_severity = severity\<rparr>]"
  "aip_omegon_extensions (add_gate operation reason severity plan) = aip_omegon_extensions plan"
  "aip_kind (add_gate operation reason severity plan) = aip_kind plan"
  by (simp_all add: add_gate_def)

lemma add_extension_sel [simp]:
  "aip_policy_gates (add_extension i v c r plan) = aip_policy_gates plan"
  "aip_omegon_extensions (add_extension i v c r plan) =
     aip_omegon_extensions plan @
     [\<lparr>oei_id = i, oei_version = v, oei_install_command = c, oei_required = r\<rparr>]"
  by (simp_all add: add_extension_def)

definition gated :: "ArmoryInstallPlan \<Rightarrow> bool" where
  "gated plan \<longleftrightarrow>
     list_all (\<lambda>e. list_ex (\<lambda>g. pg_operation g = ''install native extension '' @ oei_id e \<and>
                                pg_severity g = ApprovalRequired) (aip_policy_gates plan))
       (aip_omegon_extensions plan)"

lemma gated_mono:
  "gated plan \<Longrightarrow> aip_omegon_extensions plan' = aip_omegon_extensions plan \<Longrightarrow>
   set (aip_policy_gates plan) \<subseteq> set (aip_policy_gates plan') \<Longrightarrow> gated plan'"
  by (fastforce simp: gated_def list_all_iff list_ex_iff)

lemma gated_add_gate: "gated plan \<Longrightarrow> gated (add_gate operation reason severity plan)"
  by (erule gated_mono) auto

lemma gated_extension:
  "gated plan \<Longrightarrow>
   gated (add_gate (''install native extension '' @ i) reason ApprovalRequired (add_extension i v c r plan))"
  by (auto simp: gated_def list_all_iff list_ex_iff)

lemma gated_empty: "gated (empty_plan p)"
  by (simp add: gated_def empty_plan_def)

lemma gated_forge: "gated plan \<Longrightarrow> gated (plan_forge_template p plan)"
  by (auto simp: plan_forge_template_def Let_def intro!: gated_add_gate elim: gated_mono)

lemma gated_package: "gated plan \<Longrightarrow> gated (plan_package p plan)"
proof -
  assume gated: "gated plan"
  have "gated (plan\<lparr>aip_omegon_plugins := x\<rparr>)" "gated (plan\<lparr>aip_external_integrations := y\<rparr>)" for x y
    using gated by (auto elim: gated_mono)
  then show ?thesis
    by (simp add: plan_package_def gated gated_extension gated_forge gated_add_gate del: append_Cons)
qed

lemma gated_dependency: "gated plan \<Longrightarrow> gated (plan_dependency include_optional d plan)"
proof -
  assume gated: "gated plan"
  have "gated (plan\<lparr>aip_required_secrets := x\<rparr>)" "gated (plan\<lparr>aip_optional_secrets := y\<rparr>)" for x y
    using gated by (auto elim: gated_mono)
  then show ?thesis
    by (simp add: plan_dependency_def Let_def gated gated_extension gated_add_gate del: append_Cons)
qed

lemma gated_dependencies: "gated plan \<Longrightarrow> gated (fold (plan_dependency include_optional) ds plan)"
  by (induction ds arbitrary: plan) (auto intro: gated_dependency)

lemma gated_finish: "gated plan \<Longrightarrow> gated (finish_plan plan)"
  by (erule gated_mono) (auto simp: finish_plan_def Let_def)

text \<open>
  A plan never installs a native extension on its own authority: every extension it lists, of the
  package or of one of its dependencies, has a gate that requires approval.
\<close>

theorem planned_extensions_are_gated: "gated (plan_armory_install include_optional p)"
  by (simp add: plan_armory_install_def gated_finish gated_dependencies gated_package gated_empty)

section \<open>Blocking gates\<close>

lemma has_gate_add [simp]:
  "has_gate s (add_gate operation reason severity plan) \<longleftrightarrow> has_gate s plan \<or> s = severity"
  by (auto simp: has_gate_def)

lemma has_gate_cong: "aip_policy_gates plan' = aip_policy_gates plan \<Longrightarrow> has_gate s plan' = has_gate s plan"
  by (simp add: has_gate_def)

lemma dependency_never_blocks:
  "has_gate Blocked (plan_dependency include_optional d plan) = has_gate Blocked plan"
  by (auto simp: plan_dependency_def Let_def has_gate_def)

lemma dependencies_never_block:
  "has_gate Blocked (fold (plan_dependency include_optional) ds plan) = has_gate Blocked plan"
  by (induction ds arbitrary: plan) (auto simp: dependency_never_blocks)

text \<open>A plan is blocked exactly by the destructive capabilities of a forge template.\<close>

lemma blocked_plan_iff:
  "has_gate Blocked (plan_armory_install include_optional p) \<longleftrightarrow>
     ap_kind p = ForgeTemplate \<and> ap_destructive_capabilities p \<noteq> []"
proof -
  have "has_gate Blocked (finish_plan plan) = has_gate Blocked plan" for plan
    by (auto simp: finish_plan_def Let_def has_gate_def)
  then have "has_gate Blocked (plan_armory_install include_optional p) =
      has_gate Blocked (plan_package p (empty_plan p))"
    by (simp add: plan_armory_install_def dependencies_never_block)
  also have "\<dots> \<longleftrightarrow> ap_kind p = ForgeTemplate \<and> ap_destructive_capabilities p \<noteq> []"
    by (auto simp: plan_package_def plan_forge_template_def Let_def has_gate_def empty_plan_def)
  finally show ?thesis .
qed

section \<open>Preflight\<close>

lemma agent_package_kind:
  "agent_package_from_armory_overlay p ov plan = Ok pkg \<Longrightarrow> ap_kind p \<in> {Agent, Profile}"
  by (auto simp: agent_package_from_armory_overlay_def split: sum.splits if_splits)

lemma run_preflight_Ok:
  assumes "run_preflight cdc env watch read index body = Ok pf"
  obtains "pf_plan pf = plan_armory_install (include_optional_of body) (pf_package pf)"
    and "ap_kind (pf_package pf) \<in> {Agent, Profile}"
    and "pf_policy pf = oci_preflight_policy_from_body env body"
  using assms
  by (auto simp: run_preflight_def and_then_eq_Ok Let_def dest!: agent_package_kind)

text \<open>
  A preflight that succeeds is deployable exactly when its namespace is in scope and, under the
  strict policy, its image is pinned: a plan that is blocked never gets that far, and an approval
  that the plan requires is reported but decides nothing.
\<close>

theorem preflight_ignores_the_gates:
  assumes "run_preflight cdc env watch read index body = Ok pf"
  shows "(pf_deployable pf \<longleftrightarrow>
            pf_scope_error pf = None \<and>
            (oci_preflight_policy_from_body env body = Strict \<longrightarrow> oia_digest_pinned (pf_assessment pf))) \<and>
         \<not> has_gate Blocked (pf_plan pf)"
proof -
  from assms obtain plan: "pf_plan pf = plan_armory_install (include_optional_of body) (pf_package pf)"
    and kind: "ap_kind (pf_package pf) \<in> {Agent, Profile}"
    and policy: "pf_policy pf = oci_preflight_policy_from_body env body"
    by (rule run_preflight_Ok)
  from plan kind have "\<not> has_gate Blocked (pf_plan pf)" by (auto simp: blocked_plan_iff)
  then show ?thesis by (auto simp: pf_deployable_def pf_policy_blocked_def policy_blocks_def policy)
qed

section \<open>Overlays\<close>

lemma overlay_key_trim: "armory_overlay_data_key (trim i) = armory_overlay_data_key i"
  by (simp add: armory_overlay_data_key_def Let_def)

text \<open>Identifiers that differ in white space only share an entry, and the later one replaces the other.\<close>

lemma padded_identifiers_share_an_entry:
  "armory_overlay_data_key '' prod'' = armory_overlay_data_key ''prod''"
proof -
  have "trim '' prod'' = trim ''prod''" by code_simp
  then show ?thesis by (metis overlay_key_trim)
qed

lemma overlay_key_is_a_file_name:
  "armory_overlay_data_key i = Ok key \<Longrightarrow> CHR ''/'' \<notin> set key \<and> ends_with key ''.json''"
proof -
  assume key: "armory_overlay_data_key i = Ok key"
  have "\<not> overlay_key_char (CHR ''/'')" by (simp add: overlay_key_char_def is_digit_def)
  with key show ?thesis
    by (auto simp: armory_overlay_data_key_def Let_def list_all_iff split: if_splits)
qed

text \<open>
  C28: An overlay that was stored is read back under its identifier as it was, and every entry under
  another key is as before.
\<close>

theorem stored_overlay_is_read_back:
  assumes "bt_ok data" "upsert_armory_overlay_data cdc ov data = Ok data'"
    and "overlay_validate ov = Ok ()"
    and "\<And>raw. cdc_overlay_print cdc ov = Ok raw \<Longrightarrow> cdc_overlay_parse cdc raw = Ok ov"
  shows "read_armory_overlay_by_id cdc (\<lambda>_ _. Ok (Some data')) loc (ov_id ov) = Ok (Some ov) \<and>
    (armory_overlay_data_key other \<noteq> armory_overlay_data_key (ov_id ov) \<longrightarrow>
       read_armory_overlay_by_id cdc (\<lambda>_ _. Ok (Some data')) loc other =
       read_armory_overlay_by_id cdc (\<lambda>_ _. Ok (Some data)) loc other)"
proof -
  from assms(2) obtain key raw where key: "armory_overlay_data_key (ov_id ov) = Ok key"
    and raw: "cdc_overlay_print cdc ov = Ok raw" and data': "data' = bt_insert key raw data"
    by (auto simp: upsert_armory_overlay_data_def split: sum.splits)
  have get: "bt_get data' k = (if k = key then Some raw else bt_get data k)" for k
    using assms(1) by (simp add: data' bt_get_simps)
  show ?thesis
    by (auto simp: read_armory_overlay_by_id_def read_armory_overlay_config_data_def key get
        parse_armory_overlay_json_def assms(3,4) raw and_then_def split: sum.split)
qed

text \<open>A codec that writes the identifier only, for the witness.\<close>

definition sample_overlay :: "string \<Rightarrow> ArmoryDeploymentOverlay" where
  "sample_overlay i =
     \<lparr>ov_id = i, ov_armory = ''agent/a'', ov_mode = ''daemon'', ov_role = ''r'', ov_image = ''i'',
      ov_model = ''m'', ov_posture = [], ov_resources = \<lparr>pkr_cpu = None, pkr_memory = None\<rparr>,
      ov_namespace = None, ov_required_secrets = [], ov_optional_secrets = [],
      ov_control_tls_profile = [], ov_mesh_role = [], ov_terminal_tool = False\<rparr>"

definition sample_codec :: armory_codec where
  "sample_codec =
     \<lparr>cdc_overlay_parse = \<lambda>s. Ok (sample_overlay s), cdc_overlay_print = \<lambda>ov. Ok (ov_id ov),
      cdc_overlay_read = \<lambda>v. (case as_str v of Some s \<Rightarrow> Ok (sample_overlay s) | None \<Rightarrow> Err ''overlay''),
      cdc_overlay_json = \<lambda>ov. JStr (ov_id ov),
      cdc_request_read = \<lambda>v. Ok default_deploy_request, cdc_request_json = \<lambda>r. JNull,
      cdc_armory_package_json = \<lambda>p. JStr (ap_id p), cdc_package_json = \<lambda>p. JStr (pkg_id p),
      cdc_plan_json = \<lambda>p. JNull, cdc_assessment_json = \<lambda>a. JNull\<rparr>"

lemma sample_overlay_valid: "overlay_validate (sample_overlay ''edge'') = Ok ()"
  by code_simp

theorem stored_overlay_is_read_back_witness:
  "read_armory_overlay_by_id sample_codec (\<lambda>_ _. Ok (Some [(''edge.json'', ''edge'')])) (''default'', ''overlays'') ''edge'' =
     Ok (Some (sample_overlay ''edge''))"
proof -
  have "armory_overlay_data_key ''edge'' = Ok ''edge.json''" by code_simp
  then have "upsert_armory_overlay_data sample_codec (sample_overlay ''edge'') bt_empty =
      Ok [(''edge.json'', ''edge'')]"
    by (simp add: upsert_armory_overlay_data_def sample_codec_def sample_overlay_def bt_empty_def)
  from stored_overlay_is_read_back [OF bt.ok_empty this sample_overlay_valid, of "(''default'', ''overlays'')"]
  show ?thesis by (simp add: sample_codec_def) (simp add: sample_overlay_def)
qed

section \<open>A preflight\<close>

definition sample_armory_package :: ArmoryPackage where
  "sample_armory_package =
     \<lparr>ap_kind = Agent, ap_id = ''a'', ap_package_ref = ''agent/a'', ap_name = ''A'', ap_version = ''1'',
      ap_description = [], ap_category = ''ops'', ap_source_path = [], ap_source_url = [],
      ap_repository_url = [], ap_homepage_url = [], ap_armory_url = [], ap_install_command = [],
      ap_install_note = [], ap_verify_command = [], ap_oci_ref = ''reg/a'', ap_artifact_type = [],
      ap_payload_digest = [], ap_manifest_id = [], ap_license = [], ap_min_omegon = [], ap_min_nex = [],
      ap_canonical_format = [], ap_destructive_capabilities = [], ap_network_requirements = [],
      ap_publisher = [], ap_official = False, ap_capabilities = [], ap_keywords = [], ap_files = [],
      ap_dependencies = [], ap_distribution = Oci,
      ap_compatibility = \<lparr>aco_tier = 0, aco_native = [], aco_degraded = [], aco_notes = []\<rparr>,
      ap_interfaces = [], ap_extra = []\<rparr>"

definition sample_index :: ArmoryIndex where
  "sample_index = \<lparr>ai_generated_at = ''now'', ai_registry = None, ai_items = [sample_armory_package], ai_extra = []\<rparr>"

definition sample_preflight_body :: json where
  "sample_preflight_body = jobj [(''packageRef'', JStr ''agent/a''), (''overlay'', JStr ''edge'')]"

lemma sample_preflight_runs:
  "\<exists>pf. run_preflight sample_codec (\<lambda>_. None) None (\<lambda>_ _. Ok None) (Ok sample_index) sample_preflight_body =
     Ok pf \<and> pf_scope_error pf = None"
proof -
  have ref: "body_text sample_preflight_body ''packageRef'' ''package_ref'' = Some ''agent/a''" by code_simp
  have key: "armory_overlay_data_key ''edge'' = Ok ''edge.json''" by code_simp
  have "trim ''edge'' \<noteq> []" by code_simp
  then have ov: "armory_overlay_from_body sample_codec (JStr ''edge'') None = Ok (sample_overlay ''edge'')"
    using key sample_overlay_valid
    by (simp add: armory_overlay_from_body_def sample_codec_def jget_def Let_def)
      (simp add: sample_overlay_def)
  have resolved: "resolve_armory_preflight_overlay sample_codec read loc sample_preflight_body =
      Ok (sample_overlay ''edge'')" for read loc
    by (simp add: resolve_armory_preflight_overlay_def sample_preflight_body_def ov)
  have pkg: "index_get sample_index ''agent/a'' = Some sample_armory_package"
    by (simp add: index_get_def sample_index_def sample_armory_package_def)
  have fits: "\<exists>k. agent_package_from_armory_overlay sample_armory_package (sample_overlay ''edge'') plan = Ok k" for plan
    using sample_overlay_valid
    by (simp add: agent_package_from_armory_overlay_def sample_armory_package_def)
      (simp add: sample_overlay_def)
  obtain k where k: "agent_package_from_armory_overlay sample_armory_package (sample_overlay ''edge'')
      (plan_armory_install (include_optional_of sample_preflight_body) sample_armory_package) = Ok k"
    using fits by blast
  have deploy: "jget sample_preflight_body ''deploy'' = None" by (simp add: sample_preflight_body_def)
  show ?thesis
    by (simp add: run_preflight_def ref resolved pkg k deploy Let_def namespace_scope_error_def)
qed

theorem preflight_ignores_the_gates_example:
  "\<exists>pf. run_preflight sample_codec (\<lambda>_. None) None (\<lambda>_ _. Ok None) (Ok sample_index) sample_preflight_body =
     Ok pf \<and> pf_deployable pf \<and> has_gate ApprovalRequired (pf_plan pf)"
proof -
  obtain pf where pf: "run_preflight sample_codec (\<lambda>_. None) None (\<lambda>_ _. Ok None) (Ok sample_index)
      sample_preflight_body = Ok pf" and scope: "pf_scope_error pf = None"
    using sample_preflight_runs by blast
  have "trim ''warn'' = ''warn''" "to_ascii_lowercase ''warn'' = ''warn''" by code_simp+
  then have "oci_preflight_policy_from_body (\<lambda>_. None) sample_preflight_body = Warn"
    by (simp add: oci_preflight_policy_from_body_def body_field_def sample_preflight_body_def)
  with preflight_ignores_the_gates [OF pf] scope have deployable: "pf_deployable pf" by simp
  have "pf_package pf = sample_armory_package"
    using pf by (auto simp: run_preflight_def and_then_eq_Ok Let_def sample_index_def index_get_def
        split: if_splits)
  with pf have "pf_plan pf = plan_armory_install (include_optional_of sample_preflight_body) sample_armory_package"
    by (metis run_preflight_Ok)
  then have "has_gate ApprovalRequired (pf_plan pf)"
    by (simp add: plan_armory_install_def sample_armory_package_def plan_package_def empty_plan_def
        finish_plan_def has_gate_def Let_def)
  with pf deployable show ?thesis by blast
qed

section \<open>Built-in packages\<close>

lemma manifest_fields:
  "\<exists>metadata spec. omegon_agent_manifest p request =
     jobj [(''apiVersion'', JStr ''styrene.sh/v1alpha1''), (''kind'', JStr ''OmegonAgent''),
           (''metadata'', jobj metadata), (''spec'', spec)]"
  by (simp add: omegon_agent_manifest_def) blast

text \<open>Deploying a built-in package never panics: its manifest is an object with object metadata.\<close>

lemma as_object_mut_jobj [simp]: "as_object_mut (jobj kvs) = Some (jfields kvs)"
  by (simp add: jobj_def)

lemma deploy_package_answers: "deploy_package_handler cdc ser watch kube i body \<noteq> None"
proof -
  have "deploy_agent_handler ser watch kube (omegon_agent_manifest p request) \<noteq> None" for p request
  proof -
    obtain metadata spec where m: "omegon_agent_manifest p request =
        jobj [(''apiVersion'', JStr ''styrene.sh/v1alpha1''), (''kind'', JStr ''OmegonAgent''),
              (''metadata'', jobj metadata), (''spec'', spec)]"
      using manifest_fields by blast
    show ?thesis
      by (auto simp: deploy_agent_handler_def typed_manifest_def jset_def jset2_def m Let_def
          get_jfields [unfolded bt_get_def] bt_get_def map_of_bt_insert bt_insert_sorted
          bt_ok_jfields [unfolded bt_ok_def])
  qed
  then show ?thesis
    by (simp add: deploy_package_handler_def Let_def split: option.split sum.split)
qed

end
