(* ===== verification/Operator_Fleet.thy ===== *)
theory Operator_Fleet
  imports Operator_Handlers
begin

text \<open>
  The listing handlers of the fleet API (\<open>auspex-operator/src/main.rs\<close>): the fleet of managed and
  external agents, the audit trail of cluster events, and the secret grants.  A list comes from the
  API server, either of the watched namespace or of all; the answers to the calls are parameters.
\<close>

section \<open>Lists\<close>

text \<open>The namespace a list is restricted to, and the limit on its length.\<close>

datatype ListCall =
    ListAgents "string option"
  | ListExternalAgents "string option"
  | ListEvents "string option" nat
  | ListSecrets "string option" nat

definition fleet_sbom_json :: "SbomStatus \<Rightarrow> json" where
  "fleet_sbom_json sb =
     (let count = jopt (\<lambda>n. JNum (uint n)) in
      jobj [(''available'', JBool (sbs_available sb)), (''format'', jopt_str (sbs_format sb)),
            (''artifact_ref'', jopt_str (sbs_artifact_ref sb)),
            (''image_digest'', jopt_str (sbs_image_digest sb)),
            (''component_count'', count (sbs_component_count sb)),
            (''vulnerability_count'', count (sbs_vulnerability_count sb)),
            (''signature_verified'', jopt JBool (sbs_signature_verified sb))])"

fun agent_mode_string :: "AgentMode \<Rightarrow> string" where
  "agent_mode_string Daemon = ''daemon''"
| "agent_mode_string Cronjob = ''cronjob''"
| "agent_mode_string AgentMode.Job = ''job''"

definition fleet_entry ::
  "(string \<Rightarrow> string \<Rightarrow> string + DeploymentStatus option) \<Rightarrow> OmegonAgent \<Rightarrow> json"
where
  "fleet_entry get a =
     (let spec = oa_spec a; label = (\<lambda>k. jopt_str (bt_get (oa_labels a) k)) in
      jobj [(''name'', JStr (oa_name_any a)), (''namespace'', JStr (effective_namespace a)),
            (''agent'', JStr (oas_agent spec)), (''model'', JStr (oas_model spec)),
            (''posture'', JStr (oas_posture spec)), (''role'', JStr (oas_role spec)),
            (''mode'', JStr (agent_mode_string (oas_mode spec))), (''image'', JStr (oas_image spec)),
            (''profile'', jopt_str (oas_profile spec)), (''package'', label ''styrene.sh/agent-package''),
            (''home_stack'', label ''styrene.sh/home-stack''),
            (''is_primary'', JBool (is_primary_agent a)),
            (''control_plane'', jopt id (managed_agent_control_plane a)),
            (''lifecycle'', managed_agent_lifecycle get a),
            (''status'', jopt (JStr \<circ> ost_phase) (oa_status a)),
            (''sbom'', jopt fleet_sbom_json (Option.bind (oa_status a) ost_sbom))])"

definition external_entry :: "ExternalAgent \<Rightarrow> json" where
  "external_entry a =
     (let field = (\<lambda>f. jopt_str (Option.bind (ea_status a) f)) in
      jobj [(''name'', jopt_str (ea_metadata_name a)), (''namespace'', jopt_str (ea_namespace a)),
            (''agent'', field est_agent_id), (''model'', field est_model), (''mode'', JStr ''external''),
            (''image'', JNull), (''profile'', JNull), (''endpoint'', JStr (eas_endpoint (ea_spec a))),
            (''display_name'', JStr (eas_display_name (ea_spec a))),
            (''reachability'', jopt (JStr \<circ> est_reachability) (ea_status a)),
            (''omegon_version'', field est_omegon_version), (''ws_url'', field est_ws_url),
            (''status'', jopt (JStr \<circ> est_reachability) (ea_status a)),
            (''sbom'', jopt fleet_sbom_json (Option.bind (ea_status a) est_sbom))])"

text \<open>An error of the second list leaves out the external agents only.\<close>

definition fleet_handler_inner ::
  "(string \<Rightarrow> string \<Rightarrow> string + DeploymentStatus option) \<Rightarrow> string option \<Rightarrow>
   (ListCall \<Rightarrow> string + OmegonAgent list) \<Rightarrow> (ListCall \<Rightarrow> string + ExternalAgent list) \<Rightarrow> ListCall list \<times> json"
where
  "fleet_handler_inner get watch agents externals =
     (case agents (ListAgents watch) of
        Inl e \<Rightarrow> ([ListAgents watch], error_json e)
      | Inr as \<Rightarrow>
          ([ListAgents watch, ListExternalAgents watch],
           jobj [(''agents'', JArr (map (fleet_entry get) as @
              (case externals (ListExternalAgents watch) of Inl _ \<Rightarrow> [] | Inr es \<Rightarrow> map external_entry es)))]))"

section \<open>Audit trail\<close>

text \<open>A cluster event; its time stamps are in the form of \<open>to_rfc3339\<close>.\<close>

record KubeEvent =
  kev_namespace :: "string option"
  kev_name_any :: string
  kev_labels :: "(string, string) btree option"
  kev_type :: "string option"
  kev_reason :: "string option"
  kev_message :: "string option"
  kev_count :: "i32 option"
  kev_first_timestamp :: "string option"
  kev_last_timestamp :: "string option"
  kev_object_kind :: "string option"
  kev_object_namespace :: "string option"
  kev_object_name :: "string option"

definition concerns_agent :: "KubeEvent \<Rightarrow> bool" where
  "concerns_agent e \<longleftrightarrow>
     kev_object_kind e = Some ''OmegonAgent'' \<or>
     (case kev_labels e of None \<Rightarrow> False | Some labels \<Rightarrow> bt_get labels ''styrene.sh/agent'' \<noteq> None)"

definition audit_event_json :: "KubeEvent \<Rightarrow> json" where
  "audit_event_json e =
     jobj [(''namespace'', jopt_str (kev_namespace e)), (''name'', JStr (kev_name_any e)),
           (''type'', jopt_str (kev_type e)), (''reason'', jopt_str (kev_reason e)),
           (''message'', jopt_str (kev_message e)), (''count'', jopt (\<lambda>n. JNum (sint n)) (kev_count e)),
           (''first_timestamp'', jopt_str (kev_first_timestamp e)),
           (''last_timestamp'', jopt_str (kev_last_timestamp e)),
           (''involved_object'', jobj
             [(''kind'', jopt_str (kev_object_kind e)), (''namespace'', jopt_str (kev_object_namespace e)),
              (''name'', jopt_str (kev_object_name e))])]"

definition audit_handler :: "string option \<Rightarrow> (ListCall \<Rightarrow> string + KubeEvent list) \<Rightarrow> json" where
  "audit_handler watch events =
     (case events (ListEvents watch 100) of
        Inl e \<Rightarrow> error_json e
      | Inr es \<Rightarrow> jobj [(''entries'', JArr (map audit_event_json (filter concerns_agent es)))])"

section \<open>Secret grants\<close>

definition secret_grants_handler :: "string option \<Rightarrow> (ListCall \<Rightarrow> string + SecretObject list) \<Rightarrow> json" where
  "secret_grants_handler watch secrets =
     (case secrets (ListSecrets watch 250) of
        Inl e \<Rightarrow> error_json e
      | Inr ss \<Rightarrow> jobj [(''grants'', JArr (List.map_filter secret_grant_projection ss))])"

section \<open>Properties\<close>

text \<open>What a secret shows of its data: the names of its keys.\<close>

definition redact :: "SecretObject \<Rightarrow> SecretObject" where
  "redact s = s\<lparr>so_data := map_option (map (\<lambda>(k, _). (k, []))) (so_data s)\<rparr>"

lemma projection_redact: "secret_grant_projection (redact s) = secret_grant_projection s"
  by (cases "so_data s")
    (simp_all add: secret_grant_projection_def redact_def comp_def case_prod_beta split: option.split)

text \<open>
  The secrets the fleet API lists tell nothing of their contents: the answer is the same for the
  secrets of the cluster and for the same secrets with all values removed.
\<close>

theorem listed_secrets_reveal_no_values:
  "secret_grants_handler watch secrets =
   secret_grants_handler watch (\<lambda>c. map_sum id (map redact) (secrets c))"
proof -
  have "List.map_filter secret_grant_projection (map redact ss) =
      List.map_filter secret_grant_projection ss" for ss
    by (induction ss) (auto simp: List.map_filter_def projection_redact)
  then show ?thesis by (simp add: secret_grants_handler_def split: sum.split)
qed

text \<open>A failing list of external agents does not hide the managed ones.\<close>

lemma managed_agents_are_listed:
  "agents (ListAgents watch) = Ok as \<Longrightarrow> externals (ListExternalAgents watch) = Err e \<Longrightarrow>
   snd (fleet_handler_inner get watch agents externals) = jobj [(''agents'', JArr (map (fleet_entry get) as))]"
  by (simp add: fleet_handler_inner_def)

end
