(* ===== verification/Agent_Packages_Props.thy ===== *)
theory Agent_Packages_Props
  imports Agent_Packages
begin

text \<open>
  What a package becomes: which image references count as pinned, how a container of Auspex is
  confined, which of its labels survive, and what is left of the resource limits of a package.
\<close>

section \<open>Image references\<close>

lemma assess_pinned_unfold:
  "oia_digest_pinned (assess_oci_image_ref s) \<longleftrightarrow>
     trim s \<noteq> [] \<and> \<not> has_white_space (trim s) \<and>
     (case split_once (CHR ''@'') (trim s) of Some (_, d) \<Rightarrow> is_supported_digest d | None \<Rightarrow> False)"
  by (auto simp: assess_oci_image_ref_def Let_def split: option.splits prod.splits)

text \<open>
  The assessment reports an image as pinned exactly when the trimmed reference has no white
  space and is a name without an at sign followed by \<open>@sha256:\<close> and 64 lowercase hexadecimal
  digits.
\<close>

theorem pinned_images_end_in_a_digest:
  "oia_digest_pinned (assess_oci_image_ref s) \<longleftrightarrow>
     \<not> has_white_space (trim s) \<and>
     (\<exists>name hex. trim s = name @ ''@sha256:'' @ hex \<and> CHR ''@'' \<notin> set name \<and>
                 length hex = 64 \<and> list_all is_lower_hex hex)"
proof -
  have "(case split_once (CHR ''@'') t of Some (_, d) \<Rightarrow> is_supported_digest d | None \<Rightarrow> False) \<longleftrightarrow>
      (\<exists>name hex. t = name @ ''@sha256:'' @ hex \<and> CHR ''@'' \<notin> set name \<and>
                  length hex = 64 \<and> list_all is_lower_hex hex)" (is "?l t \<longleftrightarrow> ?r t") for t
  proof
    assume "?l t"
    then obtain name d where d: "split_once (CHR ''@'') t = Some (name, d)" "is_supported_digest d"
      by (auto split: option.splits)
    from d(2) obtain hex where "d = ''sha256:'' @ hex" "length hex = 64" "list_all is_lower_hex hex"
      by (auto simp: is_supported_digest_def strip_prefix_Some split: option.splits)
    with split_once_Some [OF d(1)] show "?r t" by auto
  next
    assume "?r t"
    then obtain name hex where t: "t = name @ CHR ''@'' # (''sha256:'' @ hex)"
      and "CHR ''@'' \<notin> set name" and hex: "length hex = 64" "list_all is_lower_hex hex" by auto
    then have "split_once (CHR ''@'') t = Some (name, ''sha256:'' @ hex)"
      unfolding t by (intro split_once_append)
    moreover have "strip_prefix (''sha256:'' @ hex) ''sha256:'' = Some hex"
      by (rule strip_prefix_append)
    ultimately show "?l t" using hex
      by (simp only: is_supported_digest_def option.case prod.case)
  qed
  then show ?thesis by (auto simp: assess_pinned_unfold)
qed

text \<open>The name may be empty: a bare digest is a pinned image although it names no repository.\<close>

lemma nameless_digest_is_pinned:
  "oia_kind (assess_oci_image_ref (''@sha256:'' @ replicate 64 (CHR ''a''))) = Digest"
  by code_simp

lemma assessment_errors_are_invalid:
  "oia_kind (assess_oci_image_ref s) = Invalid \<longleftrightarrow> oia_errors (assess_oci_image_ref s) \<noteq> []"
  by (auto simp: assess_oci_image_ref_def Let_def split: option.splits prod.splits)

section \<open>Containers\<close>

definition confined :: "u16 \<Rightarrow> DockerCall \<Rightarrow> bool" where
  "confined port c =
     (case c of
        CreateContainer name body \<Rightarrow>
          (case ccb_host_config body of
             None \<Rightarrow> False
           | Some hc \<Rightarrow>
               hc_cap_drop hc = Some [''ALL''] \<and>
               hc_security_opt hc = Some [''no-new-privileges:true''] \<and>
               hc_network_mode hc = Some ''bridge'' \<and>
               hc_port_bindings hc =
                 Some [(''7842/tcp'', Some [\<lparr>pb_host_ip = Some ''127.0.0.1'',
                                            pb_host_port = Some (show_nat (unat port))\<rparr>])])
      | _ \<Rightarrow> True)"

lemma agent_container_port: "show_nat (unat AGENT_CONTAINER_PORT) = ''7842''"
  by (simp add: AGENT_CONTAINER_PORT_def show_nat.simps digit_char_def char_of_def bit_0)

lemma created_confined: "confined (ols_host_port spec) (CreateContainer name (create_body cpus spec))"
  by (simp add: confined_def create_body_def build_host_config_def agent_port_binding_def
      agent_container_port Let_def)

lemma ensure_image_creates_nothing:
  "list_all (confined port) (fst (ensure_image docker img policy auth))"
  by (simp add: ensure_image_def Let_def confined_def)

text \<open>
  Every container a launch creates has no capabilities, cannot gain privileges, and publishes
  one port, the control port, on the loopback address only.
\<close>

theorem launched_containers_are_confined:
  "list_all (confined (ols_host_port spec)) (fst (launch docker cpus spec))"
proof -
  obtain calls r where ensure: "ensure_image docker (ols_image spec) (ols_pull_policy spec)
      (ols_registry_auth spec) = (calls, r)" by force
  with ensure_image_creates_nothing have "list_all (confined (ols_host_port spec)) calls"
    by (metis fst_conv)
  moreover have "confined port (StartContainer i)" for port i by (simp add: confined_def)
  ultimately show ?thesis
    by (auto simp: launch_def ensure Let_def created_confined split: sum.splits)
qed

text \<open>A launch never removes what it created: a container that does not start stays behind.\<close>

lemma failed_start_leaves_the_container:
  assumes "docker (CreateContainer (ols_name spec) (create_body cpus spec)) = Ok (Created i)"
    and "docker (StartContainer i) = Err e" and "ols_pull_policy spec = Never"
  shows "launch docker cpus spec =
    ([CreateContainer (ols_name spec) (create_body cpus spec), StartContainer i], Err e)"
  using assms by (simp add: launch_def ensure_image_def created_id_def)

section \<open>Labels\<close>

definition label_entries :: "AgentPackage \<Rightarrow> (string \<times> string) list" where
  "label_entries p = List.map_filter (split_once (CHR '':'')) (pkg_labels p)"

lemma fold_label_entries:
  "fold (\<lambda>label m. case split_once (CHR '':'') label of
                     None \<Rightarrow> m | Some (key, value) \<Rightarrow> bt_insert (''styrene.sh/'' @ key) value m) ls m =
   fold (\<lambda>(k, v). bt_insert k v)
     (map (\<lambda>(k, v). (''styrene.sh/'' @ k, v)) (List.map_filter (split_once (CHR '':'')) ls)) m"
  by (induction ls arbitrary: m) (auto simp: List.map_filter_def split: option.splits)

lemma map_of_prefixed:
  "map_of (rev (map (\<lambda>(k, v). (pre @ k, v)) kvs)) (pre @ key) = map_of (rev kvs) key"
  by (induction kvs) (auto simp: map_add_def split: option.splits)

lemma get_fold_labels:
  "bt_ok m \<Longrightarrow> bt_get (fold (\<lambda>(k, v). bt_insert k v) kvs m) k =
     (case map_of (rev kvs) k of None \<Rightarrow> bt_get m k | Some v \<Rightarrow> Some v)"
  using fold_bt_insert [of m kvs] by (simp add: bt_get_def map_add_def split: option.splits)

lemma ok_fold_labels: "bt_ok m \<Longrightarrow> bt_ok (fold (\<lambda>(k, v). bt_insert k v) kvs m)"
  using fold_bt_insert by blast

text \<open>
  The label by which Auspex finds its containers again is the value of the last
  \<open>managed-by:\<close> label of the package, and \<open>auspex\<close> only when the package has none.
\<close>

theorem package_labels_decide_the_owner:
  "bt_get (the (ccb_labels (create_body cpus (oci_launch_spec p request port)))) LABEL_MANAGED_BY =
     Some (unwrap_or (map_of (rev (label_entries p)) ''managed-by'') MANAGED_BY_VALUE)"
proof -
  let ?base = "bt_insert ''styrene.sh/agent-domain'' (pkg_domain p)
         (bt_insert ''styrene.sh/agent-role'' (pkg_role p)
           (bt_insert LABEL_PACKAGE_ID (pkg_id p) bt_empty))"
  have ok: "bt_ok ?base" by (intro bt_ok_intros)
  have label: "LABEL_MANAGED_BY = ''styrene.sh/'' @ ''managed-by''"
    by (simp add: LABEL_MANAGED_BY_def)
  have base: "bt_get ?base LABEL_MANAGED_BY = None"
    by (simp add: bt_get_simps bt_ok_intros LABEL_MANAGED_BY_def LABEL_PACKAGE_ID_def)
  have "bt_get (package_labels p) LABEL_MANAGED_BY = map_of (rev (label_entries p)) ''managed-by''"
    unfolding package_labels_def fold_label_entries get_fold_labels [OF ok] base
    unfolding label map_of_prefixed label_entries_def by (simp split: option.split)
  moreover have "bt_ok (package_labels p)"
    unfolding package_labels_def fold_label_entries by (rule ok_fold_labels [OF ok])
  moreover have "map_of (rev m) = map_of m" if "bt_ok m" for m :: "(string, string) btree"
    using bt_ok_distinct [OF that] by (subst map_of_inject_set) (simp_all add: rev_map [symmetric])
  ultimately have extra: "map_of (rev (package_labels p)) LABEL_MANAGED_BY =
      map_of (rev (label_entries p)) ''managed-by''"
    by (simp add: bt_get_def)
  show ?thesis
    by (simp add: create_body_def oci_launch_spec_def Let_def build_managed_labels_def get_fold_labels
        bt_ok_intros bt_get_simps extra LABEL_MANAGED_BY_def [symmetric] unwrap_or_def split: option.split)
      (simp add: LABEL_MANAGED_BY_def LABEL_AGENT_ID_def LABEL_HOST_PORT_def)
qed

section \<open>Resources\<close>

lemma parse_i64_show_nat: "n < 2 ^ 63 \<Longrightarrow> parse_i64 (show_nat n) = Some (int n)"
proof -
  assume "n < 2 ^ 63"
  moreover obtain c cs where "show_nat n = c # cs" "c \<noteq> CHR ''+''" "c \<noteq> CHR ''-''"
    using show_nat_no_sign by blast
  moreover from this have "read_nat (c # cs) = n" "list_all is_digit (c # cs)"
    using read_show_nat [of n] show_nat_is_digits [of n] by metis+
  ultimately show ?thesis by (simp add: parse_i64_def Let_def)
qed

lemma scaled_show_nat:
  "n < 2 ^ 63 \<Longrightarrow> scaled unit (show_nat n) = Some (word_of_nat n * unit)"
  by (simp add: scaled_def parse_i64_show_nat)

text \<open>The product of a reading and its unit wraps: an enormous limit is no limit.\<close>

lemma memory_limit_wraps: "parse_memory_bytes ''17179869184g'' = Some 0"
proof -
  have "lower_units (trim ''17179869184g'') = ''17179869184g''" by code_simp
  moreover have "strip_unit ''17179869184g'' ''gb'' ''g'' = Some ''17179869184''" by code_simp
  moreover have "parse_i64 ''17179869184'' = Some 17179869184"
    by (simp add: parse_i64_def is_digit_def read_nat_def)
  ultimately show ?thesis by (simp add: parse_memory_bytes_def scaled_def)
qed

text \<open>A quantity of the cluster, in binary multiples, does not parse.\<close>

lemma cluster_quantity_is_no_limit:
  "parse_memory_bytes ''768Mi'' = None" "parse_memory_bytes ''512Mi'' = None"
proof -
  have "lower_units (trim ''768Mi'') = ''768mi''" "lower_units (trim ''512Mi'') = ''512mi''"
    by code_simp+
  moreover have "strip_unit s long short = None"
    if "s \<in> {''768mi'', ''512mi''}" "(long, short) \<in> {(''gb'', ''g''), (''mb'', ''m''), (''kb'', ''k'')}"
    for s long short
    using that by (auto simp: strip_unit_def strip_suffix_def ends_with_def)
  moreover have "parse_i64 ''768mi'' = None" "parse_i64 ''512mi'' = None"
    by (simp_all add: parse_i64_def is_digit_def)
  ultimately show "parse_memory_bytes ''768Mi'' = None" "parse_memory_bytes ''512Mi'' = None"
    by (simp_all add: parse_memory_bytes_def scaled_def)
qed

text \<open>
  The built-in packages state their limits as quantities of the cluster.  As containers they
  run without a memory limit, and, as no number has a unit, without a CPU limit.
\<close>

theorem builtin_containers_have_no_limits:
  assumes "cpus ''500m'' = None" "cpus ''350m'' = None"
  shows "list_all (\<lambda>p. \<exists>hc. ccb_host_config (create_body cpus (oci_launch_spec p request port)) = Some hc \<and>
           hc_memory hc = None \<and> hc_nano_cpus hc = None) builtin_home_packages"
  using assms cluster_quantity_is_no_limit
  by (simp add: builtin_home_packages_def create_body_def oci_launch_spec_def build_host_config_def Let_def)

theorem builtin_containers_have_no_limits_example:
  "list_all (\<lambda>p. \<exists>hc. ccb_host_config (create_body (\<lambda>s. if s = ''1'' then Some 1000000000 else None)
       (oci_launch_spec p default_deploy_request 7901)) = Some hc \<and>
     hc_memory hc = None \<and> hc_nano_cpus hc = None) builtin_home_packages"
  by (rule builtin_containers_have_no_limits) simp_all

end
