(* ===== verification/Container_Discovery.thy ===== *)
theory Container_Discovery
  imports Oci_Backend
begin

text \<open>
  The discovery of running agent containers (\<open>auspex-core/src/container_discovery.rs\<close>): through the
  container backend, else through the output of \<open>podman ps\<close>, and the instance record a container
  is given.  HTTP goes through \<open>curl\<close>; its body on success, the JSON parser, the clock and the
  semver crate are parameters.
\<close>

fun as_bool :: "json \<Rightarrow> bool option" where
  "as_bool (JBool b) = Some b"
| "as_bool _ = None"

fun as_u64 :: "json \<Rightarrow> u64 option" where
  "as_u64 (JNum n) = (if 0 \<le> n \<and> n < 18446744073709551616 then Some (word_of_int n) else None)"
| "as_u64 _ = None"

definition jget2 :: "json \<Rightarrow> string \<Rightarrow> string \<Rightarrow> json option" where
  "jget2 v k l = or_else (jget v k) (jget v l)"

section \<open>The podman fallback\<close>

text \<open>The host port is cut to 16 bits by \<open>as u16\<close>; the first matching entry decides.\<close>

fun host_port_of :: "json list \<Rightarrow> u16 option" where
  "host_port_of [] = None"
| "host_port_of (port # ports) =
     (if unwrap_or (Option.bind (jget2 port ''container_port'' ''containerPort'') as_u64) 0 = 7842
      then map_option ucast (Option.bind (jget2 port ''host_port'' ''hostPort'') as_u64)
      else host_port_of ports)"

definition extract_host_port :: "json \<Rightarrow> u16 option" where
  "extract_host_port container =
     Option.bind (Option.bind (jget container ''Ports'') as_array) host_port_of"

definition container_name_of :: "json \<Rightarrow> string option" where
  "container_name_of v =
     or_else (case as_array v of Some (n # _) \<Rightarrow> as_str n | _ \<Rightarrow> None) (as_str v)"

definition container_from_podman_json :: "json \<Rightarrow> DiscoveredContainer option" where
  "container_from_podman_json container =
     (case Option.bind (jget container ''Image'') as_str of
        None \<Rightarrow> None
      | Some img \<Rightarrow>
          if \<not> contains_str ''auspex-agents'' img then None
          else (case extract_host_port container of
                  None \<Rightarrow> None
                | Some host_port \<Rightarrow>
                    Some \<lparr>dc_container_id = unwrap_or (Option.bind (jget container ''Id'') as_str) '''',
                          dc_name = unwrap_or (Option.bind (jget container ''Names'') container_name_of) '''',
                          dc_image = img, dc_host_port = host_port,
                          dc_status = unwrap_or (Option.bind (jget container ''State'') as_str) ''unknown''\<rparr>))"

text \<open>\<open>output\<close> is what \<open>podman ps --format json\<close> printed, if it ran and succeeded.\<close>

definition discover_containers_via_podman_cli ::
  "(string \<Rightarrow> json option) \<Rightarrow> string option \<Rightarrow> DiscoveredContainer list"
where
  "discover_containers_via_podman_cli parse output =
     (case Option.bind (Option.bind output parse) as_array of
        None \<Rightarrow> []
      | Some containers \<Rightarrow> List.map_filter container_from_podman_json containers)"

text \<open>The native path gives up inside an asynchronous runtime, without a socket, or on an error.\<close>

definition discover_containers_via_bollard ::
  "bool \<Rightarrow> docker_env \<Rightarrow> (DockerHandle \<Rightarrow> bool) \<Rightarrow> (DockerHandle \<Rightarrow> docker) \<Rightarrow>
   DiscoveredContainer list option"
where
  "discover_containers_via_bollard in_runtime env ping connect =
     (if in_runtime then None
      else case detect env ping of
             None \<Rightarrow> None
           | Some (handle, _) \<Rightarrow>
               (case list_agents (connect handle) of Inl _ \<Rightarrow> None | Inr cs \<Rightarrow> Some cs))"

definition discover_containers ::
  "bool \<Rightarrow> docker_env \<Rightarrow> (DockerHandle \<Rightarrow> bool) \<Rightarrow> (DockerHandle \<Rightarrow> docker) \<Rightarrow>
   (string \<Rightarrow> json option) \<Rightarrow> string option \<Rightarrow> DiscoveredContainer list"
where
  "discover_containers in_runtime env ping connect parse output =
     (case discover_containers_via_bollard in_runtime env ping connect of
        Some cs \<Rightarrow> cs
      | None \<Rightarrow> discover_containers_via_podman_cli parse output)"

section \<open>Probing\<close>

record curl =
  curl_get :: "string \<Rightarrow> string option"
  curl_json :: "string \<Rightarrow> json option"

definition local_url :: "u16 \<Rightarrow> string \<Rightarrow> string" where
  "local_url host_port path = ''http://127.0.0.1:'' @ show_nat (unat host_port) @ path"

definition probe_container_health :: "curl \<Rightarrow> u16 \<Rightarrow> bool" where
  "probe_container_health c host_port =
     (case Option.bind (curl_get c (local_url host_port ''/api/readyz'')) (curl_json c) of
        None \<Rightarrow> False
      | Some v \<Rightarrow> unwrap_or (Option.bind (jget v ''ok'') as_bool) False)"

definition parse_startup_info :: "(string \<Rightarrow> json option) \<Rightarrow> string \<Rightarrow> (string \<times> string \<times> string list) option" where
  "parse_startup_info parse body =
     map_option (\<lambda>startup.
       (unwrap_or (Option.bind (jget startup ''token'') as_str) '''',
        unwrap_or
          (Option.bind
            (or_else (pointer startup [''instance_descriptor'', ''control_plane'', ''omegon_version''])
              (or_else (pointer startup [''instance_descriptor'', ''identity'', ''omegon_version''])
                (jget startup ''omegon_version'')))
            as_str) '''',
        (case Option.bind (pointer startup [''instance_descriptor'', ''control_plane'', ''capabilities'']) as_array of
           None \<Rightarrow> [] | Some items \<Rightarrow> List.map_filter as_str items)))
       (parse body)"

definition fetch_startup_info :: "curl \<Rightarrow> u16 \<Rightarrow> (string \<times> string \<times> string list) option" where
  "fetch_startup_info c host_port =
     Option.bind (curl_get c (local_url host_port ''/api/startup'')) (parse_startup_info (curl_json c))"

section \<open>Records\<close>

definition token_query :: "string \<Rightarrow> string" where
  "token_query token = (if token = [] then [] else ''?token='' @ token)"

definition container_control_plane :: "u16 \<Rightarrow> bool \<Rightarrow> string \<Rightarrow> string \<times> string \<times> string list \<Rightarrow> ObservedControlPlane" where
  "container_control_plane host_port ready now info =
     (case info of (token, omegon_version, _) \<Rightarrow>
        let ws = (\<lambda>path. ''ws://127.0.0.1:'' @ show_nat (unat host_port) @ path @ token_query token)
        in default_control_plane\<lparr>ocp_schema_version := 2, ocp_omegon_version := omegon_version,
             ocp_base_url := local_url host_port '''',
             ocp_startup_url := local_url host_port ''/api/startup'',
             ocp_health_url := local_url host_port ''/api/healthz'',
             ocp_ready_url := local_url host_port ''/api/readyz'',
             ocp_ws_url := ws ''/ws'', ocp_acp_url := Some (ws ''/acp''),
             ocp_auth_mode := ''ephemeral-bearer'',
             ocp_token_ref := (if token = [] then None else Some token),
             ocp_transport_security := Some ''plaintext'', ocp_mtls := Some False,
             ocp_last_ready_at := (if ready then Some now else None)\<rparr>)"

definition container_to_instance_record ::
  "'ver semver \<Rightarrow> curl \<Rightarrow> string \<Rightarrow> DiscoveredContainer \<Rightarrow> 'v InstanceRecord"
where
  "container_to_instance_record sv c now d =
     (let ready = probe_container_health c (dc_host_port d);
          info = unwrap_or (fetch_startup_info c (dc_host_port d)) ('''', '''', []);
          cp = container_control_plane (dc_host_port d) ready now info;
          instance_id = ''container:'' @ dc_name d
      in \<lparr>rec_schema_version = 1,
          rec_identity =
            \<lparr>wi_instance_id = instance_id, wi_role = DetachedService, wi_profile = ''container-agent'',
             wi_raw_role = None, wi_raw_profile = None, wi_raw_runtime_profile = None,
             wi_status = (if ready then WorkerLifecycleState.Ready else Starting),
             wi_created_at = now, wi_updated_at = now\<rparr>,
          rec_ownership =
            \<lparr>wo_owner_kind = AuspexSession, wo_owner_id = ''auspex'', wo_parent_instance_id = None\<rparr>,
          rec_desired =
            \<lparr>dw_backend = \<lparr>bc_kind = OciContainer, bc_image = Some (dc_image d), bc_namespace = None,
                           bc_resources = None\<rparr>,
             dw_workspace = \<lparr>wb_cwd = ''/workspace'', wb_workspace_id = instance_id, wb_branch = None\<rparr>,
             dw_task = None, dw_policy = default_policy_overrides, dw_security = default_security\<rparr>,
          rec_observed =
            \<lparr>ow_placement = \<lparr>opl_placement_id = dc_container_id d, opl_host = ''localhost'', opl_pid = None,
                             opl_namespace = None, opl_pod_name = None,
                             opl_container_name = Some (dc_name d)\<rparr>,
             ow_control_plane = cp,
             ow_health = \<lparr>oh_ready = ready, oh_degraded_reason = None, oh_last_heartbeat_at = Some now,
                          oh_last_seen_at = Some now, oh_freshness = None\<rparr>,
             ow_exit = \<lparr>oe_exited = False, oe_exit_code = None, oe_exit_reason = None,
                        oe_exited_at = None\<rparr>,
             ow_compatibility = Some (assess_observed_control_plane sv cp),
             ow_operational_profile = None,
             ow_capabilities =
               Some (from_instance_descriptor_capabilities instance_id (snd (snd info)))\<rparr>\<rparr>)"

definition discover_and_probe ::
  "'ver semver \<Rightarrow> curl \<Rightarrow> string \<Rightarrow> DiscoveredContainer list \<Rightarrow> 'v InstanceRecord list"
where
  "discover_and_probe sv c now ds = map (container_to_instance_record sv c now) ds"

section \<open>What a record says\<close>

lemma container_record_status:
  "status_of (container_to_instance_record sv c now d) =
     (if probe_container_health c (dc_host_port d) then WorkerLifecycleState.Ready else Starting)"
  "oh_ready (health_of (container_to_instance_record sv c now d)) = probe_container_health c (dc_host_port d)"
  by (simp_all add: container_to_instance_record_def Let_def)

text \<open>Records of two containers are told apart by the names of the containers.\<close>

lemma container_records_distinct:
  "distinct (map instance_id_of (discover_and_probe sv c now ds)) \<longleftrightarrow> distinct (map dc_name ds)"
  by (induction ds) (auto simp: discover_and_probe_def container_to_instance_record_def Let_def)

text \<open>A port beyond 16 bits is cut, not refused.\<close>

lemma oversized_host_port_is_cut:
  "host_port_of [jobj [(''container_port'', JNum 7842), (''host_port'', JNum 73400)]] = Some 7864"
  by (simp add: jget2_def)

end
