(* ===== verification/Local_Ports.thy ===== *)
theory Local_Ports
  imports Strings
begin

text \<open>
  The allocation of control ports for local agents (\<open>auspex-core/src/local_agent_ports.rs\<close>).  The
  state lives in a file: its content as the decoder read it, if it did, and whether writing it
  succeeds, are parameters, and so is the outcome of binding a port.
\<close>

definition LOCAL_AGENT_PORT_START :: nat where "LOCAL_AGENT_PORT_START = 7900"
definition LOCAL_AGENT_PORT_END :: nat where "LOCAL_AGENT_PORT_END = 7999"

record LocalAgentPortReservation =
  lpr_port :: u16
  lpr_instance_id :: "string option"
  lpr_label :: "string option"

record LocalAgentPortState =
  lps_last_allocated :: "u16 option"
  lps_reservations :: "LocalAgentPortReservation list"

definition default_port_state :: LocalAgentPortState where
  "default_port_state = \<lparr>lps_last_allocated = None, lps_reservations = []\<rparr>"

definition first_candidate :: "u16 option \<Rightarrow> nat" where
  "first_candidate last_allocated =
     (case last_allocated of
        Some port \<Rightarrow>
          if LOCAL_AGENT_PORT_START \<le> unat port \<and> unat port < LOCAL_AGENT_PORT_END then unat port + 1
          else LOCAL_AGENT_PORT_START
      | None \<Rightarrow> LOCAL_AGENT_PORT_START)"

definition monotonic_port_candidates :: "u16 option \<Rightarrow> u16 list" where
  "monotonic_port_candidates last_allocated =
     (let start = first_candidate last_allocated
      in map word_of_nat ([start..<LOCAL_AGENT_PORT_END + 1] @ [LOCAL_AGENT_PORT_START..<start]))"

text \<open>The loop over the candidates, with the ports it tried to bind.\<close>

fun try_ports :: "(u16 \<Rightarrow> bool) \<Rightarrow> u16 list \<Rightarrow> u16 list \<times> u16 option" where
  "try_ports available [] = ([], None)"
| "try_ports available (p # ps) =
     (if available p then ([p], Some p)
      else (case try_ports available ps of (tried, r) \<Rightarrow> (p # tried, r)))"

definition no_free_port :: string where
  "no_free_port = ''no free agent control-plane port in 7900..=7999''"

definition choose_next_port :: "(u16 \<Rightarrow> bool) \<Rightarrow> LocalAgentPortState \<Rightarrow> string + u16" where
  "choose_next_port available s =
     ok_or no_free_port (snd (try_ports available (monotonic_port_candidates (lps_last_allocated s))))"

text \<open>\<open>store\<close> is the decoded file and \<open>write\<close> its new content, or the error of writing it.\<close>

definition allocate_local_agent_port ::
  "(u16 \<Rightarrow> bool) \<Rightarrow> (LocalAgentPortState \<Rightarrow> string option) \<Rightarrow> string option \<Rightarrow> LocalAgentPortState option \<Rightarrow>
   (string + u16) \<times> LocalAgentPortState option"
where
  "allocate_local_agent_port available write label store =
     (let s = unwrap_or store default_port_state in
      case choose_next_port available s of
        Inl e \<Rightarrow> (Err e, store)
      | Inr port \<Rightarrow>
          (let s' = \<lparr>lps_last_allocated = Some port,
                     lps_reservations =
                       filter (\<lambda>r. lpr_port r \<noteq> port) (lps_reservations s) @
                       [\<lparr>lpr_port = port, lpr_instance_id = None, lpr_label = label\<rparr>]\<rparr>
           in case write s' of Some e \<Rightarrow> (Err e, store) | None \<Rightarrow> (Ok port, Some s')))"

definition record_local_agent_port_instance ::
  "(LocalAgentPortState \<Rightarrow> string option) \<Rightarrow> u16 \<Rightarrow> string \<Rightarrow> LocalAgentPortState option \<Rightarrow>
   (string + unit) \<times> LocalAgentPortState option"
where
  "record_local_agent_port_instance write port instance_id store =
     (let s = unwrap_or store default_port_state;
          rs = lps_reservations s;
          rs' = (case position (\<lambda>r. lpr_port r = port) rs of
                   Some i \<Rightarrow> rs[i := (rs ! i)\<lparr>lpr_instance_id := Some instance_id\<rparr>]
                 | None \<Rightarrow> rs @ [\<lparr>lpr_port = port, lpr_instance_id = Some instance_id, lpr_label = None\<rparr>]);
          s' = s\<lparr>lps_reservations := rs'\<rparr>
      in case write s' of Some e \<Rightarrow> (Err e, store) | None \<Rightarrow> (Ok (), Some s'))"

section \<open>The candidates\<close>

lemma first_candidate_bounds:
  "LOCAL_AGENT_PORT_START \<le> first_candidate l" "first_candidate l \<le> LOCAL_AGENT_PORT_END"
  by (auto simp: first_candidate_def LOCAL_AGENT_PORT_START_def LOCAL_AGENT_PORT_END_def split: option.split)

definition port_range :: "u16 set" where
  "port_range = {p. LOCAL_AGENT_PORT_START \<le> unat p \<and> unat p \<le> LOCAL_AGENT_PORT_END}"

lemma small_port: "n \<le> LOCAL_AGENT_PORT_END \<Longrightarrow> unat (word_of_nat n :: u16) = n"
  by (simp add: LOCAL_AGENT_PORT_END_def unsigned_of_nat take_bit_eq_mod)

lemma candidates_unat:
  "map unat (monotonic_port_candidates l) =
     [first_candidate l..<LOCAL_AGENT_PORT_END + 1] @ [LOCAL_AGENT_PORT_START..<first_candidate l]"
  using first_candidate_bounds [of l]
  by (auto simp: monotonic_port_candidates_def Let_def comp_def small_port intro!: map_idI)

lemma distinct_candidates: "distinct (monotonic_port_candidates l)"
proof -
  have "distinct (map unat (monotonic_port_candidates l))"
    unfolding candidates_unat by auto
  then show ?thesis by (rule distinct_map [THEN iffD1, THEN conjunct1])
qed

lemma length_candidates: "length (monotonic_port_candidates l) = 100"
  using first_candidate_bounds [of l] arg_cong [OF candidates_unat, of length l]
  by (simp add: LOCAL_AGENT_PORT_END_def LOCAL_AGENT_PORT_START_def)

lemma set_candidates: "set (monotonic_port_candidates l) = port_range"
proof -
  have "unat ` set (monotonic_port_candidates l) = {LOCAL_AGENT_PORT_START..LOCAL_AGENT_PORT_END}"
    using first_candidate_bounds [of l] by (auto simp flip: set_map simp: candidates_unat)
  then have "p \<in> set (monotonic_port_candidates l) \<longleftrightarrow>
      unat p \<in> {LOCAL_AGENT_PORT_START..LOCAL_AGENT_PORT_END}" for p
    by (metis image_eqI imageE unsigned_word_eqI)
  then show ?thesis by (auto simp: port_range_def)
qed

lemma last_candidate:
  assumes "p \<in> port_range"
  shows "last (monotonic_port_candidates (Some p)) = p"
proof -
  have "unat (last (monotonic_port_candidates (Some p))) = last (map unat (monotonic_port_candidates (Some p)))"
    using length_candidates [of "Some p"] by (subst last_map) auto
  also have "\<dots> = unat p"
    using assms unfolding candidates_unat
    by (auto simp: first_candidate_def port_range_def last_append LOCAL_AGENT_PORT_START_def
        LOCAL_AGENT_PORT_END_def)
  finally show ?thesis by (simp add: unsigned_word_eqI)
qed

lemma try_ports_result:
  "snd (try_ports available ps) = List.find available ps"
  by (induction ps) (auto split: prod.split)

lemma try_ports_tried: "\<exists>rest. ps = fst (try_ports available ps) @ rest"
  by (induction ps) (auto split: prod.split)

section \<open>Properties\<close>

text \<open>
  C27: The search for a port ends after at most 100 attempts, none of them repeated, and it fails
  only when it has tried every port of the range and none could be bound.
\<close>

theorem port_search_ends:
  "length (fst (try_ports available (monotonic_port_candidates l))) \<le> 100 \<and>
   distinct (fst (try_ports available (monotonic_port_candidates l))) \<and>
   (snd (try_ports available (monotonic_port_candidates l)) = None \<longleftrightarrow>
      list_all (\<lambda>p. \<not> available p) (monotonic_port_candidates l)) \<and>
   set (monotonic_port_candidates l) = port_range"
proof -
  obtain rest where rest: "monotonic_port_candidates l = fst (try_ports available (monotonic_port_candidates l)) @ rest"
    using try_ports_tried by blast
  have "length (fst (try_ports available (monotonic_port_candidates l))) \<le> length (monotonic_port_candidates l)"
    by (subst (2) rest) simp
  moreover have "distinct (fst (try_ports available (monotonic_port_candidates l)))"
    using distinct_candidates [of l] by (subst (asm) rest) simp
  ultimately show ?thesis
    by (simp add: length_candidates try_ports_result find_None_iff list_all_iff set_candidates Ball_def)
qed

text \<open>
  An allocated port is one of the range that could be bound, it is recorded as reserved, and it
  is the port allocated last only when no other port of the range could be bound.
\<close>

theorem allocation_moves_on:
  assumes "allocate_local_agent_port available write label store = (Ok port, store')"
  shows "port \<in> port_range \<and> available port \<and>
    (\<exists>s'. store' = Some s' \<and> lps_last_allocated s' = Some port \<and>
          \<lparr>lpr_port = port, lpr_instance_id = None, lpr_label = label\<rparr> \<in> set (lps_reservations s')) \<and>
    (Option.bind store lps_last_allocated = Some port \<longrightarrow> (\<forall>p \<in> port_range. available p \<longrightarrow> p = port))"
proof -
  let ?last = "lps_last_allocated (unwrap_or store default_port_state)"
  let ?cs = "monotonic_port_candidates ?last"
  from assms have found: "List.find available ?cs = Some port"
    by (auto simp: allocate_local_agent_port_def Let_def choose_next_port_def try_ports_result
        split: sum.splits option.splits)
  then have port: "port \<in> port_range" "available port"
    using set_candidates [of ?last] by (auto simp: find_Some_iff)
  moreover have "\<exists>s'. store' = Some s' \<and> lps_last_allocated s' = Some port \<and>
      \<lparr>lpr_port = port, lpr_instance_id = None, lpr_label = label\<rparr> \<in> set (lps_reservations s')"
    using assms by (auto simp: allocate_local_agent_port_def Let_def split: sum.splits option.splits)
  moreover have "p = port"
    if repeated: "Option.bind store lps_last_allocated = Some port" and p: "p \<in> port_range" "available p" for p
  proof (rule ccontr)
    assume "p \<noteq> port"
    from repeated have last: "?last = Some port" by (cases store) auto
    obtain i where i: "i < length ?cs" "?cs ! i = port" "\<forall>j < i. \<not> available (?cs ! j)"
      using found by (auto simp: find_Some_iff)
    have "i = length ?cs - 1"
      using i(1,2) distinct_candidates [of ?last] last_candidate [OF port(1)] length_candidates [of ?last]
      unfolding last
      by (metis One_nat_def diff_less last_conv_nth length_greater_0_conv lessI list.size(3)
          nth_eq_iff_index_eq less_nat_zero_code)
    moreover obtain k where "k < length ?cs" "?cs ! k = p"
      using p(1) set_candidates [of ?last] by (metis in_set_conv_nth)
    ultimately have "k < i" using \<open>p \<noteq> port\<close> i(2) by (metis Suc_pred' less_Suc_eq less_nat_zero_code not_gr_zero)
    with i(3) \<open>?cs ! k = p\<close> p(2) show False by blast
  qed
  ultimately show ?thesis by blast
qed

theorem allocation_moves_on_example:
  "fst (allocate_local_agent_port (\<lambda>p. p = 7901) (\<lambda>_. None) None
     (Some \<lparr>lps_last_allocated = Some 7900, lps_reservations = []\<rparr>)) = Ok 7901 \<and>
   (7901 :: u16) \<in> port_range"
proof -
  have cs: "monotonic_port_candidates (Some 7900) = 7901 # map word_of_nat ([7902..<8000] @ [7900..<7901])"
    by (simp add: monotonic_port_candidates_def first_candidate_def LOCAL_AGENT_PORT_START_def
        LOCAL_AGENT_PORT_END_def upt_conv_Cons)
  obtain store' where alloc: "allocate_local_agent_port (\<lambda>p. p = 7901) (\<lambda>_. None) None
      (Some \<lparr>lps_last_allocated = Some 7900, lps_reservations = []\<rparr>) = (Ok 7901, store')"
    by (simp add: allocate_local_agent_port_def choose_next_port_def cs)
  from allocation_moves_on [OF this] alloc show ?thesis by simp
qed

text \<open>Reservations name each port once, however allocations and recordings follow each other.\<close>

definition distinct_reservations :: "LocalAgentPortState option \<Rightarrow> bool" where
  "distinct_reservations store \<longleftrightarrow> distinct (map lpr_port (lps_reservations (unwrap_or store default_port_state)))"

lemma distinct_reservations_allocate:
  "distinct_reservations store \<Longrightarrow>
     distinct_reservations (snd (allocate_local_agent_port available write label store))"
  by (auto simp: distinct_reservations_def allocate_local_agent_port_def Let_def distinct_map_filter
      split: sum.split option.split)

lemma distinct_reservations_record:
  assumes "distinct_reservations store"
  shows "distinct_reservations (snd (record_local_agent_port_instance write port i store))"
proof -
  let ?rs = "lps_reservations (unwrap_or store default_port_state)"
  have "map lpr_port (?rs[k := (?rs ! k)\<lparr>lpr_instance_id := Some i\<rparr>]) = map lpr_port ?rs" for k
    by (rule map_list_update_same) simp
  moreover have "port \<notin> lpr_port ` set ?rs" if "position (\<lambda>r. lpr_port r = port) ?rs = None"
    using that by (auto simp: position_None)
  ultimately show ?thesis using assms
    by (auto simp: distinct_reservations_def record_local_agent_port_instance_def Let_def split: option.split)
qed

end
