(* ===== verification/Launch_Runtime.thy ===== *)
theory Launch_Runtime
  imports Json Instance_Facts Descriptors
begin

text \<open>
  Finding, verifying and owning the Omegon runtime (\<open>auspex-core/src/bootstrap.rs\<close>,
  \<open>tls_config.rs\<close>): the startup information and its validation, the search for the binary, the
  arguments it is started with, and the processes that belong to Auspex.  The environment, the file
  system, the output of \<open>ps\<close> and the digest are parameters; a path is its text, joined with relative
  paths only.
\<close>

section \<open>Environment\<close>

type_synonym process_environment = "string \<Rightarrow> string option"

definition non_empty_env :: "process_environment \<Rightarrow> string \<Rightarrow> string option" where
  "non_empty_env env key =
     (case env key of None \<Rightarrow> None | Some v \<Rightarrow> if trim v = [] then None else Some (trim v))"

definition omegon_control_tls_args_from_env :: "process_environment \<Rightarrow> string + string list" where
  "omegon_control_tls_args_from_env env =
     (let args =
        (case (non_empty_env env ''AUSPEX_OMEGON_CONTROL_TLS_CERT'',
               non_empty_env env ''AUSPEX_OMEGON_CONTROL_TLS_KEY'') of
           (None, None) \<Rightarrow> Ok []
         | (Some cert, Some key) \<Rightarrow> Ok [''--control-tls-cert'', cert, ''--control-tls-key'', key]
         | _ \<Rightarrow> Err ''AUSPEX_OMEGON_CONTROL_TLS_CERT and AUSPEX_OMEGON_CONTROL_TLS_KEY must be set together'')
      in and_then args (\<lambda>args.
           case non_empty_env env ''AUSPEX_OMEGON_CONTROL_TLS_CLIENT_CA'' of
             None \<Rightarrow> Ok args
           | Some client_ca \<Rightarrow>
               if args = [] then
                 Err ''AUSPEX_OMEGON_CONTROL_TLS_CLIENT_CA requires AUSPEX_OMEGON_CONTROL_TLS_CERT and AUSPEX_OMEGON_CONTROL_TLS_KEY''
               else Ok (args @ [''--control-tls-client-ca'', client_ca])))"

definition configured_root_path :: "process_environment \<Rightarrow> string option" where
  "configured_root_path env =
     or_else (non_empty_env env ''AUSPEX_OMEGON_CONTROL_TLS_ROOT'')
       (or_else (non_empty_env env ''AUSPEX_OMEGON_CONTROL_TLS_CLIENT_CA'')
         (non_empty_env env ''AUSPEX_OMEGON_CONTROL_TLS_CERT''))"

section \<open>Startup information\<close>

record OmegonStartupInfo =
  osi_schema_version :: u32
  osi_addr :: string
  osi_http_base :: string
  osi_state_url :: string
  osi_startup_url :: string
  osi_health_url :: string
  osi_ready_url :: string
  osi_ws_url :: string
  osi_acp_url :: "string option"
  osi_token :: string
  osi_auth_mode :: string
  osi_auth_source :: string
  osi_transport_security :: "string option"
  osi_mtls :: "bool option"
  osi_tls_secret :: "string option"
  osi_tls_profile :: "string option"
  osi_tls_ca_epoch :: "string option"
  osi_tls_leaf_epoch :: "string option"
  osi_tls_leaf_validity :: "string option"
  osi_ca_fingerprint_sha256 :: "string option"
  osi_server_fingerprint_sha256 :: "string option"
  osi_control_plane_state :: string
  osi_instance_descriptor :: "OmegonInstanceDescriptor option"

record OmegonCompatibilityManifest =
  ocm_minimum_version :: string
  ocm_maximum_tested_version :: string
  ocm_source_repository :: string
  ocm_source_branch :: string
  ocm_source_revision :: string
  ocm_features :: "string list"
  ocm_packaged_binary :: string
  ocm_control_plane_schema :: u32
  ocm_web_startup_schema :: u32
  ocm_instance_descriptor_schema :: u32
  ocm_control_plane_protocol :: u32

text \<open>\<open>OmegonCompatibilityManifest::parse\<close> after the decoding of the compiled-in manifest.\<close>

definition complete_manifest :: "OmegonCompatibilityManifest \<Rightarrow> OmegonCompatibilityManifest" where
  "complete_manifest m =
     m\<lparr>ocm_web_startup_schema :=
         (if ocm_web_startup_schema m = 0 then ocm_control_plane_schema m else ocm_web_startup_schema m),
       ocm_instance_descriptor_schema :=
         (if ocm_instance_descriptor_schema m = 0 then INSTANCE_DESCRIPTOR_SCHEMA_VERSION
          else ocm_instance_descriptor_schema m),
       ocm_control_plane_protocol :=
         (if ocm_control_plane_protocol m = 0 then CONTROL_PLANE_PROTOCOL_VERSION
          else ocm_control_plane_protocol m)\<rparr>"

definition startup_url_from_state_url :: "string \<Rightarrow> string" where
  "startup_url_from_state_url = replace_all ''/api/state'' ''/api/startup''"

definition startup_state_url :: "OmegonStartupInfo \<Rightarrow> string option" where
  "startup_state_url info =
     (if osi_state_url info \<noteq> [] then Some (osi_state_url info)
      else if osi_startup_url info \<noteq> [] then
        Some (replace_all ''/api/startup'' ''/api/state'' (osi_startup_url info))
      else if osi_http_base info \<noteq> [] then
        Some (rev (trim_start_char (CHR ''/'') (rev (osi_http_base info))) @ ''/api/state'')
      else None)"

definition detected_omegon_version :: "OmegonStartupInfo \<Rightarrow> string option" where
  "detected_omegon_version info =
     (case Option.bind (Option.bind (osi_instance_descriptor info) odesc_control_plane) ocd_omegon_version of
        None \<Rightarrow> None | Some v \<Rightarrow> if v = [] then None else Some v)"

text \<open>\<open>Version::parse\<close> with its error, the order of versions and their display.\<close>

record 'ver version_api =
  va_parse :: "string \<Rightarrow> string + 'ver"
  va_less :: "'ver \<Rightarrow> 'ver \<Rightarrow> bool"
  va_show :: "'ver \<Rightarrow> string"

definition parse_version :: "'ver version_api \<Rightarrow> string \<Rightarrow> string + 'ver" where
  "parse_version va version =
     map_err (\<lambda>e. ''invalid semver '' @ [CHR 0x27] @ version @ [CHR 0x27] @ '': '' @ e) (va_parse va version)"

definition validate_omegon_version ::
  "'ver version_api \<Rightarrow> OmegonCompatibilityManifest \<Rightarrow> OmegonStartupInfo \<Rightarrow> string + string option"
where
  "validate_omegon_version va manifest info =
     and_then
       (ok_or ''Auspex requires Omegon version identity, but the startup metadata did not report omegon_version.''
         (detected_omegon_version info)) (\<lambda>detected_text.
     and_then (parse_version va detected_text) (\<lambda>detected.
     and_then (parse_version va (ocm_minimum_version manifest)) (\<lambda>minimum.
     and_then (parse_version va (ocm_maximum_tested_version manifest)) (\<lambda>maximum.
       if va_less va detected minimum then
         Err (''Auspex requires Omegon '' @ ocm_minimum_version manifest @
              '' or newer. Connected instance is '' @ va_show va detected @ ''.'')
       else if va_less va maximum detected then
         Ok (Some (''Omegon '' @ va_show va detected @ '' is newer than Auspex'' @ [CHR 0x27] @
                   ''s maximum tested version '' @ ocm_maximum_tested_version manifest @
                   ''. Continuing with compatibility warning.''))
       else Ok None))))"

definition validate_startup_info ::
  "'ver version_api \<Rightarrow> OmegonCompatibilityManifest \<Rightarrow> OmegonStartupInfo \<Rightarrow> string + string option"
where
  "validate_startup_info va manifest info =
     (if osi_schema_version info \<noteq> ocm_web_startup_schema manifest then
        Err (''Auspex requires web startup schema '' @ show_nat (unat (ocm_web_startup_schema manifest)) @
             '', but Omegon reported schema '' @ show_nat (unat (osi_schema_version info)) @ ''.'')
      else validate_omegon_version va manifest info)"

definition existing_omegon_is_auspex_primary :: "OmegonStartupInfo \<Rightarrow> bool" where
  "existing_omegon_is_auspex_primary info =
     (case osi_instance_descriptor info of
        None \<Rightarrow> False
      | Some d \<Rightarrow>
          oid_profile (odesc_identity d) \<in> {''styrene.auspex-agent'', ''auspex-agent''} \<or>
          (case Option.bind (odesc_runtime d) ord_runtime_profile of
             None \<Rightarrow> False | Some p \<Rightarrow> p \<in> {''auspex-primary'', ''auspex-agent''}) \<or>
          (case Option.bind (odesc_workspace d) owd_cwd of
             None \<Rightarrow> False | Some cwd \<Rightarrow> contains_str ''auspex'' cwd))"

section \<open>The packaged runtime\<close>

record PackagedOmegonRuntime =
  por_repository :: string
  por_branch :: string
  por_revision :: string
  por_version :: string
  por_binary :: string
  por_sha256 :: string
  por_cargo_features :: "string list"
  por_default_features :: bool
  por_control_plane_schema :: u32

definition path_join :: "string \<Rightarrow> string \<Rightarrow> string" where
  "path_join p q = (if p = [] then q else if last p = CHR ''/'' then p @ q else p @ ''/'' @ q)"

text \<open>\<open>Path::parent\<close> of a path without doubled or trailing slashes.\<close>

definition path_parent :: "string \<Rightarrow> string option" where
  "path_parent p =
     (case rsplit_once (CHR ''/'') p of
        None \<Rightarrow> if p = [] then None else Some []
      | Some (dir, name) \<Rightarrow> if dir \<noteq> [] then Some dir else if name = [] then None else Some ''/'')"

text \<open>The path itself and its parents, up to the one that has none.\<close>

function path_ancestors :: "string \<Rightarrow> string list" where
  "path_ancestors p =
     p # (case path_parent p of None \<Rightarrow> [] | Some q \<Rightarrow> if length q < length p then path_ancestors q else [])"
  by pat_completeness auto
termination by (relation "measure length") auto

record host_files =
  hf_is_file :: "string \<Rightarrow> bool"
  hf_exists :: "string \<Rightarrow> bool"
  hf_manifest :: "string \<Rightarrow> string + PackagedOmegonRuntime"
  hf_sha256 :: "string \<Rightarrow> string + string"
  hf_cwd :: "string option"
  hf_exe :: "string option"
  hf_home :: "string option"
  hf_which_omegon :: "string option"
  hf_windows :: bool

definition matches_pinned :: "OmegonCompatibilityManifest \<Rightarrow> PackagedOmegonRuntime \<Rightarrow> bool" where
  "matches_pinned pinned m \<longleftrightarrow>
     por_repository m = ocm_source_repository pinned \<and> por_branch m = ocm_source_branch pinned \<and>
     por_revision m = ocm_source_revision pinned \<and> por_version m = ocm_maximum_tested_version pinned \<and>
     por_binary m = ocm_packaged_binary pinned \<and>
     por_control_plane_schema m = ocm_control_plane_schema pinned \<and>
     \<not> por_default_features m \<and> por_cargo_features m = ocm_features pinned"

text \<open>\<open>hf_manifest\<close> reads and decodes, with the message of the step that failed.\<close>

definition verify_packaged_omegon ::
  "host_files \<Rightarrow> OmegonCompatibilityManifest \<Rightarrow> string \<Rightarrow> string + unit"
where
  "verify_packaged_omegon fs pinned binary =
     (case path_parent binary of
        None \<Rightarrow> Err ''packaged Omegon path has no parent directory''
      | Some dir \<Rightarrow>
          (case hf_manifest fs (path_join dir ''omegon-runtime.json'') of
             Inl e \<Rightarrow> Err e
           | Inr m \<Rightarrow>
               if \<not> matches_pinned pinned m then
                 Err ''packaged Omegon manifest does not match the pinned Auspex runtime contract''
               else case hf_sha256 fs binary of
                      Inl e \<Rightarrow> Err (''packaged Omegon binary cannot be read: '' @ e)
                    | Inr digest \<Rightarrow>
                        if digest \<noteq> por_sha256 m then
                          Err ''packaged Omegon binary digest does not match its manifest''
                        else Ok ()))"

definition bundled_omegon_binary :: "host_files \<Rightarrow> OmegonCompatibilityManifest \<Rightarrow> string option" where
  "bundled_omegon_binary fs pinned =
     (case Option.bind (hf_exe fs) path_parent of
        None \<Rightarrow> None
      | Some dir \<Rightarrow>
          (let name = (if hf_windows fs then ''omegon-headless.exe'' else ''omegon-headless'')
           in List.find (\<lambda>p. hf_is_file fs p \<and> is_ok (verify_packaged_omegon fs pinned p))
                [path_join dir name, path_join (path_join dir ''runtime'') name,
                 path_join (path_join dir ''../Resources/runtime'') name,
                 path_join (path_join dir ''../libexec/auspex'') name]))"

definition find_system_omegon_binary :: "host_files \<Rightarrow> string option" where
  "find_system_omegon_binary fs =
     (case List.find (hf_is_file fs)
             ((case hf_home fs of
                 None \<Rightarrow> []
               | Some home \<Rightarrow> map (path_join home) [''.local/bin/omegon'', ''.cargo/bin/omegon'']) @
              [''/usr/local/bin/omegon'', ''/opt/homebrew/bin/omegon'']) of
        Some p \<Rightarrow> Some p
      | None \<Rightarrow>
          (case hf_which_omegon fs of
             None \<Rightarrow> None
           | Some out \<Rightarrow> if hf_is_file fs (trim out) then Some (trim out) else None))"

definition is_workspace :: "host_files \<Rightarrow> string \<Rightarrow> bool" where
  "is_workspace fs root \<longleftrightarrow>
     hf_exists fs (path_join root ''Cargo.toml'') \<and> hf_exists fs (path_join root ''auspex-core'')"

definition auspex_workspace_roots :: "host_files \<Rightarrow> string list" where
  "auspex_workspace_roots fs =
     remdups_adj
       ((case hf_cwd fs of None \<Rightarrow> [] | Some cwd \<Rightarrow> [cwd]) @
        (case Option.bind (hf_exe fs) (\<lambda>exe. List.find (is_workspace fs) (path_ancestors exe)) of
           None \<Rightarrow> [] | Some root \<Rightarrow> [root]))"

definition auspex_workspace_root :: "host_files \<Rightarrow> string option" where
  "auspex_workspace_root fs = List.find (is_workspace fs) (auspex_workspace_roots fs)"

definition AUSPEX_AGENT_BUNDLE_REL :: string where
  "AUSPEX_AGENT_BUNDLE_REL = ''agents/auspex-agent''"

definition auspex_agent_bundle_path :: "host_files \<Rightarrow> string option" where
  "auspex_agent_bundle_path fs =
     (case auspex_workspace_root fs of
        None \<Rightarrow> None
      | Some root \<Rightarrow>
          (let path = path_join root AUSPEX_AGENT_BUNDLE_REL
           in if hf_exists fs (path_join path ''agent.toml'') then Some path else None))"

definition workspace_builds :: "string list" where
  "workspace_builds =
     [''.local/omegon-auspex-managed-bridge/target/debug/omegon'',
      ''.local/omegon-auspex-managed-bridge/target/release/omegon'',
      ''../omegon/target/debug/omegon'', ''../omegon/target/release/omegon'']"

definition workspace_omegon_binary :: "host_files \<Rightarrow> string option" where
  "workspace_omegon_binary fs =
     List.find (hf_is_file fs)
       (concat (map (\<lambda>root. map (path_join root) workspace_builds) (auspex_workspace_roots fs)))"

definition override_omegon_binary :: "process_environment \<Rightarrow> host_files \<Rightarrow> string option" where
  "override_omegon_binary env fs =
     (case non_empty_env env ''AUSPEX_OMEGON_BIN'' of
        None \<Rightarrow> None | Some p \<Rightarrow> if hf_is_file fs p then Some p else None)"

definition find_omegon_binary ::
  "process_environment \<Rightarrow> host_files \<Rightarrow> OmegonCompatibilityManifest \<Rightarrow> string option"
where
  "find_omegon_binary env fs pinned =
     or_else (override_omegon_binary env fs)
       (or_else (bundled_omegon_binary fs pinned)
         (or_else (workspace_omegon_binary fs)
           (if non_empty_env env ''AUSPEX_ALLOW_SYSTEM_OMEGON'' = Some ''1''
            then find_system_omegon_binary fs else None)))"

section \<open>Arguments\<close>

definition build_omegon_serve_args :: "string option \<Rightarrow> string \<Rightarrow> nat \<Rightarrow> string list \<Rightarrow> string list" where
  "build_omegon_serve_args agent_bundle model control_port tls_args =
     [''--posture'', ''architect'', ''serve''] @
     (case agent_bundle of None \<Rightarrow> [] | Some bundle_path \<Rightarrow> [''--agent'', bundle_path]) @
     [''--control-port'', show_nat control_port, ''--strict-port'', ''--model'', model] @ tls_args"

text \<open>The command line as \<open>ps\<close> prints it.\<close>

definition command_line :: "string \<Rightarrow> string list \<Rightarrow> string" where
  "command_line binary args = join '' '' (binary # args)"

section \<open>Owned processes\<close>

definition command_is_owned_omegon_serve :: "string \<Rightarrow> bool" where
  "command_is_owned_omegon_serve command \<longleftrightarrow>
     contains_str ''omegon'' command \<and> contains_str '' serve '' command \<and>
     contains_str AUSPEX_AGENT_BUNDLE_REL command \<and> contains_str ''--strict-port'' command"

definition command_is_on_control_port :: "string \<Rightarrow> nat \<Rightarrow> bool" where
  "command_is_on_control_port command port \<longleftrightarrow>
     contains_str (''--control-port '' @ show_nat port @ '' '') command \<or>
     ends_with command (''--control-port '' @ show_nat port)"

text \<open>A line of \<open>ps ax -o pid=,command=\<close>.\<close>

definition owned_process_line :: "string \<Rightarrow> (nat \<times> string) option" where
  "owned_process_line line =
     (case split_once (CHR '' '') (trim line) of
        None \<Rightarrow> None
      | Some (pid, command) \<Rightarrow>
          if \<not> command_is_owned_omegon_serve command then None
          else map_option (\<lambda>p. (p, command)) (parse_unsigned 32 pid))"

text \<open>The argument is the output, if \<open>ps\<close> ran and succeeded.\<close>

definition owned_omegon_processes :: "string option \<Rightarrow> (nat \<times> string) list" where
  "owned_omegon_processes ps =
     (case ps of None \<Rightarrow> [] | Some out \<Rightarrow> List.map_filter owned_process_line (str_lines out))"

definition default_port_line :: "string \<Rightarrow> nat option" where
  "default_port_line line =
     (case split_once (CHR '' '') (trim line) of
        None \<Rightarrow> None
      | Some (pid, command) \<Rightarrow>
          if contains_str ''omegon'' command \<and> contains_str ''serve'' command \<and>
             contains_str ''--control-port 7842'' command
          then parse_unsigned 32 pid else None)"

definition default_omegon_control_port_pids :: "string option \<Rightarrow> nat list" where
  "default_omegon_control_port_pids ps =
     (case ps of None \<Rightarrow> [] | Some out \<Rightarrow> List.map_filter default_port_line (str_lines out))"

text \<open>\<open>ppid\<close> is the output of \<open>ps -o ppid= -p\<close>.\<close>

definition parent_pid_of :: "(nat \<Rightarrow> string option) \<Rightarrow> nat \<Rightarrow> nat option" where
  "parent_pid_of ppid pid =
     (case Option.bind (map_option trim (ppid pid)) (parse_unsigned 32) of
        None \<Rightarrow> None | Some p \<Rightarrow> if 1 < p then Some p else None)"

fun walk_ancestors :: "(nat \<Rightarrow> nat option) \<Rightarrow> nat \<Rightarrow> nat \<Rightarrow> nat list \<Rightarrow> nat list" where
  "walk_ancestors parent 0 current protected = protected"
| "walk_ancestors parent (Suc n) current protected =
     (case parent current of
        None \<Rightarrow> protected
      | Some p \<Rightarrow> if p \<in> set protected then protected
                  else walk_ancestors parent n p (protected @ [p]))"

definition protected_pids :: "(nat \<Rightarrow> string option) \<Rightarrow> nat \<Rightarrow> nat list" where
  "protected_pids ppid self = walk_ancestors (parent_pid_of ppid) 16 self [self]"

datatype LaunchEffect =
    KillTerm nat
  | KillChild
  | ClearPidFile
  | WritePidFile string
  | WriteProfile string json
  | SpawnChild "string option" string "string list" "(string \<times> string) list"

fun reap_candidates ::
  "nat list \<Rightarrow> nat option \<Rightarrow> (nat \<times> string) list \<Rightarrow> LaunchEffect list \<times> bool"
where
  "reap_candidates protected keep_port [] = ([], False)"
| "reap_candidates protected keep_port ((pid, command) # rest) =
     (case reap_candidates protected keep_port rest of
        (kills, kept) \<Rightarrow>
          if pid \<in> set protected \<or>
             (case keep_port of None \<Rightarrow> False | Some port \<Rightarrow> command_is_on_control_port command port)
          then (kills, True)
          else (KillTerm pid # kills, kept))"

text \<open>The effects in their order, and the number of processes killed.\<close>

definition reap_orphaned_omegon_serves ::
  "string option \<Rightarrow> (nat \<Rightarrow> string option) \<Rightarrow> nat \<Rightarrow> nat option \<Rightarrow> LaunchEffect list \<times> nat"
where
  "reap_orphaned_omegon_serves ps ppid self keep_port =
     (let candidates = owned_omegon_processes ps in
      if candidates = [] then ([], 0)
      else case reap_candidates (protected_pids ppid self) keep_port candidates of
             (kills, kept) \<Rightarrow> (kills @ (if kept then [] else [ClearPidFile]), length kills))"

definition pid_is_owned_omegon :: "string option \<Rightarrow> nat \<Rightarrow> bool" where
  "pid_is_owned_omegon ps pid \<longleftrightarrow> pid \<in> fst ` set (owned_omegon_processes ps)"

definition read_owned_omegon_pid :: "string option \<Rightarrow> nat option" where
  "read_owned_omegon_pid pid_file = Option.bind (map_option trim pid_file) (parse_unsigned 32)"

definition reap_owned_omegon_child :: "string option \<Rightarrow> string option \<Rightarrow> LaunchEffect list" where
  "reap_owned_omegon_child pid_file ps =
     (case read_owned_omegon_pid pid_file of
        None \<Rightarrow> []
      | Some pid \<Rightarrow> (if pid_is_owned_omegon ps pid then [KillTerm pid] else []) @ [ClearPidFile])"

definition choose_auspex_control_port :: "(nat \<Rightarrow> bool) \<Rightarrow> nat" where
  "choose_auspex_control_port free =
     (if free 7842 then 7842 else unwrap_or (List.find free [7843..<7900]) 7842)"

end
