(* ===== verification/Launch_Runtime_Props.thy ===== *)
theory Launch_Runtime_Props
  imports Launch_Runtime
begin

text \<open>
  Which binary is started, which processes Auspex takes for its own, and which it never ends.
\<close>

section \<open>The binary\<close>

definition verified_binary :: "host_files \<Rightarrow> OmegonCompatibilityManifest \<Rightarrow> string \<Rightarrow> bool" where
  "verified_binary fs pinned p \<longleftrightarrow>
     (\<exists>dir m. path_parent p = Some dir \<and> hf_manifest fs (path_join dir ''omegon-runtime.json'') = Ok m \<and>
              matches_pinned pinned m \<and> hf_sha256 fs p = Ok (por_sha256 m))"

lemma verify_packaged_omegon_iff: "is_ok (verify_packaged_omegon fs pinned p) \<longleftrightarrow> verified_binary fs pinned p"
  by (auto simp: verify_packaged_omegon_def verified_binary_def is_ok_def split: option.splits sum.splits)

lemma found_element: "List.find P xs = Some x \<Longrightarrow> P x"
  by (auto simp: find_Some_iff)

lemma bundled_is_verified:
  assumes "bundled_omegon_binary fs pinned = Some p"
  shows "hf_is_file fs p \<and> verified_binary fs pinned p"
proof -
  obtain xs where "List.find (\<lambda>p. hf_is_file fs p \<and> is_ok (verify_packaged_omegon fs pinned p)) xs = Some p"
    using assms by (auto simp only: bundled_omegon_binary_def Let_def split: option.splits)
  then show ?thesis by (auto dest: found_element simp flip: verify_packaged_omegon_iff)
qed

text \<open>
  C29: Without an override, without a workspace build, and unless system installations are allowed,
  the binary that is found is a file whose digest and pinned contract its manifest confirms.
\<close>

theorem production_binary_is_verified:
  assumes "find_omegon_binary env fs pinned = Some p"
    and "override_omegon_binary env fs = None" "workspace_omegon_binary fs = None"
    and "non_empty_env env ''AUSPEX_ALLOW_SYSTEM_OMEGON'' \<noteq> Some ''1''"
  shows "hf_is_file fs p \<and> verified_binary fs pinned p"
  using assms by (auto simp: find_omegon_binary_def or_else_def intro!: bundled_is_verified split: option.splits)

definition packaged_runtime :: PackagedOmegonRuntime where
  "packaged_runtime =
     \<lparr>por_repository = ''r'', por_branch = ''b'', por_revision = ''c'', por_version = ''1'',
      por_binary = ''runtime/omegon-headless'', por_sha256 = ''d'', por_cargo_features = [],
      por_default_features = False, por_control_plane_schema = 2\<rparr>"

definition pinned_runtime :: OmegonCompatibilityManifest where
  "pinned_runtime =
     \<lparr>ocm_minimum_version = ''1'', ocm_maximum_tested_version = ''1'', ocm_source_repository = ''r'',
      ocm_source_branch = ''b'', ocm_source_revision = ''c'', ocm_features = [],
      ocm_packaged_binary = ''runtime/omegon-headless'', ocm_control_plane_schema = 2,
      ocm_web_startup_schema = 2, ocm_instance_descriptor_schema = 1, ocm_control_plane_protocol = 1\<rparr>"

text \<open>An installation in \<open>/opt/auspex\<close> with its runtime beside the executable.\<close>

definition installed_files :: host_files where
  "installed_files =
     \<lparr>hf_is_file = (\<lambda>p. p = ''/opt/auspex/omegon-headless''), hf_exists = (\<lambda>_. False),
      hf_manifest = (\<lambda>p. if p = ''/opt/auspex/omegon-runtime.json'' then Ok packaged_runtime else Err ''none''),
      hf_sha256 = (\<lambda>_. Ok ''d''), hf_cwd = None, hf_exe = Some ''/opt/auspex/auspex'', hf_home = None,
      hf_which_omegon = None, hf_windows = False\<rparr>"

theorem production_binary_is_verified_witness:
  "find_omegon_binary (\<lambda>_. None) installed_files pinned_runtime = Some ''/opt/auspex/omegon-headless'' \<and>
   verified_binary installed_files pinned_runtime ''/opt/auspex/omegon-headless''"
proof -
  have parents: "path_parent ''/opt/auspex/auspex'' = Some ''/opt/auspex''"
    "path_parent ''/opt/auspex/omegon-headless'' = Some ''/opt/auspex''" by code_simp+
  have bundled: "bundled_omegon_binary installed_files pinned_runtime = Some ''/opt/auspex/omegon-headless''"
    by (simp add: bundled_omegon_binary_def installed_files_def parents path_join_def
        verify_packaged_omegon_def matches_pinned_def packaged_runtime_def pinned_runtime_def)
  then have found: "find_omegon_binary (\<lambda>_. None) installed_files pinned_runtime =
      Some ''/opt/auspex/omegon-headless''"
    by (simp add: find_omegon_binary_def override_omegon_binary_def non_empty_env_def)
  have "workspace_omegon_binary installed_files = None"
    by (auto simp: workspace_omegon_binary_def find_None_iff installed_files_def workspace_builds_def
        auspex_workspace_roots_def is_workspace_def find_None_iff split: option.splits)
  with production_binary_is_verified [OF found] found show ?thesis
    by (simp add: override_omegon_binary_def non_empty_env_def)
qed

section \<open>Command lines\<close>

lemma contains_str_piece:
  assumes "d \<notin> set needle" "needle \<noteq> []"
  shows "contains_str needle (x @ d # y) \<longleftrightarrow> contains_str needle x \<or> contains_str needle y"
proof
  assume "contains_str needle (x @ d # y)"
  then obtain a b where ab: "x @ d # y = a @ needle @ b" by (auto simp: contains_str_iff)
  then consider us where "x = a @ us" "us @ d # y = needle @ b" | us where "x @ us = a" "d # y = us @ needle @ b"
    by (auto simp: append_eq_append_conv2)
  then show "contains_str needle x \<or> contains_str needle y"
  proof cases
    case 1
    from 1(2) consider vs where "us = needle @ vs" | vs where "us @ vs = needle" "d # y = vs @ b"
      by (auto simp: append_eq_append_conv2)
    then show ?thesis
    proof cases
      case (1 vs)
      with \<open>x = a @ us\<close> show ?thesis by (auto simp: contains_str_iff)
    next
      case (2 vs)
      with assms(1) have "vs = []" by (cases vs) auto
      with 2(1) \<open>x = a @ us\<close> have "x = a @ needle @ []" by simp
      then show ?thesis unfolding contains_str_iff by blast
    qed
  next
    case 2
    then show ?thesis
    proof (cases us)
      case Nil
      with 2(2) assms show ?thesis by (cases needle) auto
    next
      case (Cons c us')
      with 2(2) show ?thesis by (auto simp: contains_str_iff)
    qed
  qed
next
  have right: "contains_str needle t \<Longrightarrow> contains_str needle (s @ t)" for s t
    by (auto simp: contains_str_iff) (metis append.assoc)
  have left: "contains_str needle s \<Longrightarrow> contains_str needle (s @ t)" for s t
    unfolding contains_str_iff by (metis append.assoc)
  assume "contains_str needle x \<or> contains_str needle y"
  then show "contains_str needle (x @ d # y)"
    using right [of "[d] @ y" x] right [of y "[d]"] left [of x "d # y"] by auto
qed

text \<open>A text without blanks occurs in a command line only inside one of its words.\<close>

lemma contains_str_join:
  assumes "CHR '' '' \<notin> set needle" "needle \<noteq> []"
  shows "contains_str needle (join '' '' ws) \<longleftrightarrow> list_ex (contains_str needle) ws"
proof (induction ws rule: induct_list012)
  case 1
  then show ?case using assms by simp
next
  case (2 x)
  then show ?case by simp
next
  case (3 x y zs)
  then show ?case using contains_str_piece [OF assms, of x "join '' '' (y # zs)"] by simp
qed

lemma join_append_Cons: "ws \<noteq> [] \<Longrightarrow> join sep (ws @ y # zs) = join sep ws @ sep @ join sep (y # zs)"
  by (induction ws rule: induct_list012) auto



lemma own_port_is_recognised:
  "command_is_on_control_port
     (command_line binary (build_omegon_serve_args agent_bundle model port tls_args)) port"
proof -
  define before where "before = binary # [''--posture'', ''architect'', ''serve''] @
     (case agent_bundle of None \<Rightarrow> [] | Some b \<Rightarrow> [''--agent'', b])"
  have "command_line binary (build_omegon_serve_args agent_bundle model port tls_args) =
      join '' '' (before @ ''--control-port'' # show_nat port # ''--strict-port'' # [''--model'', model] @ tls_args)"
    by (simp add: command_line_def build_omegon_serve_args_def before_def)
  also have "\<dots> = join '' '' before @ '' '' @ ''--control-port '' @ show_nat port @ '' '' @
      join '' '' (''--strict-port'' # [''--model'', model] @ tls_args)"
    by (subst join_append_Cons) (simp_all add: before_def)
  also have "\<dots> = (join '' '' before @ '' '') @ (''--control-port '' @ show_nat port @ '' '') @
      join '' '' (''--strict-port'' # [''--model'', model] @ tls_args)"
    by simp
  finally show ?thesis
    unfolding command_is_on_control_port_def by (metis contains_str_append)
qed

section \<open>Ending processes\<close>

lemma walk_keeps_element: "q \<in> set protected \<Longrightarrow> q \<in> set (walk_ancestors parent n current protected)"
  by (induction n arbitrary: current protected) (auto split: option.split)

lemma walk_keeps: "set protected \<subseteq> set (walk_ancestors parent n current protected)"
  using walk_keeps_element by blast

text \<open>The chain of parents, each of them still found by \<open>ps\<close>.\<close>

fun ancestor :: "(nat \<Rightarrow> nat option) \<Rightarrow> nat \<Rightarrow> nat \<Rightarrow> nat option" where
  "ancestor parent 0 pid = Some pid"
| "ancestor parent (Suc k) pid = (case parent pid of None \<Rightarrow> None | Some p \<Rightarrow> ancestor parent k p)"

text \<open>
  When the walk stops early it does so at a process already listed; all processes on a cycle-free
  chain of up to the given number of parents are listed.
\<close>

lemma walk_covers:
  "k \<le> n \<Longrightarrow> ancestor parent k current = Some q \<Longrightarrow> current \<in> set protected \<Longrightarrow>
   (\<And>j p. j < k \<Longrightarrow> ancestor parent (Suc j) current = Some p \<Longrightarrow> p \<notin> set protected) \<Longrightarrow>
   distinct (map (\<lambda>j. ancestor parent j current) [0..<Suc k]) \<Longrightarrow>
   q \<in> set (walk_ancestors parent n current protected)"
proof (induction n arbitrary: k current protected)
  case 0
  then show ?case by simp
next
  case (Suc n)
  show ?case
  proof (cases k)
    case 0
    with Suc.prems have "q \<in> set protected" by simp
    then show ?thesis using walk_keeps by blast
  next
    case (Suc k')
    with Suc.prems(2) obtain p where p: "parent current = Some p" "ancestor parent k' p = Some q"
      by (auto split: option.splits)
    have fresh: "p \<notin> set protected"
      using Suc.prems(4) [of 0 p] Suc p(1) by simp
    have step: "ancestor parent j p = ancestor parent (Suc j) current" for j
      by (simp add: p(1))
    have idx: "ancestor parent j current \<noteq> ancestor parent i current" if "i < j" "j \<le> k" for i j
    proof -
      from Suc.prems(5) have "inj_on (\<lambda>j. ancestor parent j current) {0..<Suc k}"
        by (simp add: distinct_map del: upt_Suc)
      with that show ?thesis by (auto dest: inj_onD [of _ _ j i])
    qed
    have "q \<in> set (walk_ancestors parent n p (protected @ [p]))"
    proof (rule Suc.IH [of k' p])
      show "k' \<le> n" "ancestor parent k' p = Some q" "p \<in> set (protected @ [p])"
        using Suc Suc.prems(1) p(2) by auto
      show "r \<notin> set (protected @ [p])" if "j < k'" "ancestor parent (Suc j) p = Some r" for j r
      proof -
        have "ancestor parent (Suc (Suc j)) current = Some r" using that(2) by (simp only: step)
        moreover from this have "r \<notin> set protected"
          using Suc.prems(4) [of "Suc j" r] Suc that(1) by simp
        moreover have "r \<noteq> p"
          using idx [of "Suc 0" "Suc (Suc j)"] Suc that(1) calculation(1) p(1) by auto
        ultimately show ?thesis by simp
      qed
      have "inj_on (\<lambda>j. ancestor parent (Suc j) current) {0..<Suc k'}"
        using idx Suc by (intro inj_onI) (metis Suc_le_mono Suc_less_eq atLeastLessThan_iff less_Suc_eq_le nat_neq_iff)
      then show "distinct (map (\<lambda>j. ancestor parent j p) [0..<Suc k'])"
        unfolding step by (simp add: distinct_map del: upt_Suc ancestor.simps)
    qed
    then show ?thesis by (simp add: p(1) fresh)
  qed
qed

definition spares :: "nat list \<Rightarrow> LaunchEffect \<Rightarrow> bool" where
  "spares pids e \<longleftrightarrow> (case e of KillTerm p \<Rightarrow> p \<notin> set pids | _ \<Rightarrow> True)"

lemma reap_candidates_spares: "list_all (spares protected) (fst (reap_candidates protected keep cs))"
  by (induction protected keep cs rule: reap_candidates.induct) (auto simp: spares_def split: prod.split)

lemma reap_candidates_owned:
  "KillTerm p \<in> set (fst (reap_candidates protected keep cs)) \<Longrightarrow>
   \<exists>command. (p, command) \<in> set cs \<and>
     (case keep of None \<Rightarrow> True | Some port \<Rightarrow> \<not> command_is_on_control_port command port)"
  by (induction protected keep cs rule: reap_candidates.induct)
    (auto split: prod.splits if_splits option.splits)

lemma owned_line_is_owned: "owned_process_line l = Some (p, command) \<Longrightarrow> command_is_owned_omegon_serve command"
  by (auto simp: owned_process_line_def split: option.splits if_splits)

lemma listed_processes_are_owned:
  "(p, command) \<in> set (owned_omegon_processes ps) \<Longrightarrow> command_is_owned_omegon_serve command"
  by (auto simp: owned_omegon_processes_def List.map_filter_def
      dest: owned_line_is_owned split: option.splits)

text \<open>
  The sweep of orphaned runtimes ends neither this process nor its parent nor any other process
  the ancestor walk has found, and every process it does end is one of Auspex that does not hold the
  kept port.
\<close>

theorem sweep_spares_ancestors:
  "list_all (spares (self # (case parent_pid_of ppid self of None \<Rightarrow> [] | Some p \<Rightarrow> [p])))
     (fst (reap_orphaned_omegon_serves ps ppid self keep)) \<and>
   list_all (spares (protected_pids ppid self)) (fst (reap_orphaned_omegon_serves ps ppid self keep)) \<and>
   list_all (\<lambda>e. case e of
       KillTerm p \<Rightarrow> list_ex (\<lambda>(q, command). q = p \<and> command_is_owned_omegon_serve command \<and>
         (case keep of None \<Rightarrow> True | Some port \<Rightarrow> \<not> command_is_on_control_port command port))
         (owned_omegon_processes ps)
     | _ \<Rightarrow> True) (fst (reap_orphaned_omegon_serves ps ppid self keep))"
proof -
  let ?r = "reap_orphaned_omegon_serves ps ppid self keep"
  let ?kills = "fst (reap_candidates (protected_pids ppid self) keep (owned_omegon_processes ps))"
  have effects: "set (fst ?r) \<subseteq> insert ClearPidFile (set ?kills)"
    by (auto simp: reap_orphaned_omegon_serves_def Let_def split: prod.splits if_splits)
  have "list_all (spares (protected_pids ppid self)) ?kills" by (rule reap_candidates_spares)
  with effects have walk: "list_all (spares (protected_pids ppid self)) (fst ?r)"
    by (auto simp: list_all_iff spares_def)
  moreover have "set (self # (case parent_pid_of ppid self of None \<Rightarrow> [] | Some p \<Rightarrow> [p])) \<subseteq>
      set (protected_pids ppid self)"
  proof -
    have "p \<in> set (protected_pids ppid self)" if "parent_pid_of ppid self = Some p" for p
      using that walk_keeps [of "[self, p]" "parent_pid_of ppid" 15 p] walk_keeps [of "[self]" "parent_pid_of ppid" 16 self]
      by (cases "p = self") (auto simp: protected_pids_def numeral_eq_Suc)
    then show ?thesis
      using walk_keeps [of "[self]" "parent_pid_of ppid" 16 self]
      by (auto simp: protected_pids_def split: option.split)
  qed
  with walk have "list_all (spares (self # (case parent_pid_of ppid self of None \<Rightarrow> [] | Some p \<Rightarrow> [p]))) (fst ?r)"
    by (auto simp: list_all_iff spares_def split: LaunchEffect.splits)
  moreover have "list_ex (\<lambda>(q, command). q = p \<and> command_is_owned_omegon_serve command \<and>
         (case keep of None \<Rightarrow> True | Some port \<Rightarrow> \<not> command_is_on_control_port command port))
         (owned_omegon_processes ps)" if "KillTerm p \<in> set (fst ?r)" for p
    using that effects reap_candidates_owned [of p "protected_pids ppid self" keep "owned_omegon_processes ps"]
      listed_processes_are_owned by (force simp: list_ex_iff)
  then have "list_all (\<lambda>e. case e of
       KillTerm p \<Rightarrow> list_ex (\<lambda>(q, command). q = p \<and> command_is_owned_omegon_serve command \<and>
         (case keep of None \<Rightarrow> True | Some port \<Rightarrow> \<not> command_is_on_control_port command port))
         (owned_omegon_processes ps)
     | _ \<Rightarrow> True) (fst ?r)"
    by (auto simp: list_all_iff split: LaunchEffect.split)
  ultimately show ?thesis by blast
qed

section \<open>Ports and versions\<close>

lemma chosen_control_port: "choose_auspex_control_port free \<in> {7842..7899}"
  by (auto simp: choose_auspex_control_port_def unwrap_or_def find_Some_iff split: option.split
      dest!: nth_mem)

lemma occupied_control_port:
  "(\<And>p. p \<in> {7842..7899} \<Longrightarrow> \<not> free p) \<Longrightarrow> choose_auspex_control_port free = 7842"
  by (auto simp: choose_auspex_control_port_def unwrap_or_def find_Some_iff split: option.split
      dest!: nth_mem)

lemma accepted_startup:
  "is_ok (validate_startup_info va manifest info) \<longleftrightarrow>
     osi_schema_version info = ocm_web_startup_schema manifest \<and>
     (\<exists>s v lo hi. detected_omegon_version info = Some s \<and> va_parse va s = Ok v \<and>
        va_parse va (ocm_minimum_version manifest) = Ok lo \<and>
        va_parse va (ocm_maximum_tested_version manifest) = Ok hi \<and> \<not> va_less va v lo)"
  by (auto simp: validate_startup_info_def validate_omegon_version_def parse_version_def is_ok_def
      and_then_def ok_or_def map_err_def split: option.splits sum.splits)

end
