(* ===== verification/Launch_Auth.thy ===== *)
theory Launch_Auth
  imports Launch_Runtime
begin

text \<open>
  Providers and profiles of the runtime (\<open>auspex-core/src/bootstrap.rs\<close>): reading the rows of
  \<open>omegon auth status\<close>, choosing the model of the coordinator among the authenticated providers, and
  correcting the stored profile before a launch.  Running a command is a parameter.
\<close>

section \<open>Commands\<close>

record ProviderAuthStatus =
  pas_name :: string
  pas_authenticated :: bool
  pas_auth_method :: "string option"
  pas_detail :: string

type_synonym DesktopAuthSnapshot = "ProviderAuthStatus list"

datatype DesktopAuthAction = Login | Logout | Unlock

definition subcommand :: "DesktopAuthAction \<Rightarrow> string" where
  "subcommand action = (case action of Login \<Rightarrow> ''login'' | Logout \<Rightarrow> ''logout'' | Unlock \<Rightarrow> ''unlock'')"

definition omegon_command_path ::
  "process_environment \<Rightarrow> host_files \<Rightarrow> OmegonCompatibilityManifest \<Rightarrow> string"
where
  "omegon_command_path env fs pinned = unwrap_or (find_omegon_binary env fs pinned) ''omegon''"

text \<open>The result of a finished process: its status as it is displayed if it failed, and its output.\<close>

record process_output =
  po_failure :: "string option"
  po_stdout :: string
  po_stderr :: string

type_synonym run_command = "string \<Rightarrow> string list \<Rightarrow> string + process_output"

section \<open>Status rows\<close>

text \<open>The two marks, U+2713 and U+2717, in UTF-8.\<close>

definition CHECK :: string where "CHECK = [CHR 0xE2, CHR 0x9C, CHR 0x93]"
definition CROSS :: string where "CROSS = [CHR 0xE2, CHR 0x9C, CHR 0x97]"

text \<open>The text before and after the first occurrence of a pattern.\<close>

fun split_at_str :: "string \<Rightarrow> string \<Rightarrow> (string \<times> string) option" where
  "split_at_str pat [] = (if pat = [] then Some ([], []) else None)"
| "split_at_str pat (c # s) =
     (if starts_with (c # s) pat then Some ([], drop (length pat) (c # s))
      else map_option (\<lambda>(before, after). (c # before, after)) (split_at_str pat s))"

definition trim_parens :: "string \<Rightarrow> string" where
  "trim_parens s =
     (let paren = (\<lambda>c. c = CHR ''('' \<or> c = CHR '')'')
      in rev (dropWhile paren (rev (dropWhile paren s))))"

definition skipped_row :: "string \<Rightarrow> bool" where
  "skipped_row row \<longleftrightarrow>
     row = [] \<or> starts_with row ''Authentication'' \<or> starts_with row ''Provider'' \<or> starts_with row ''Expired''"

text \<open>\<open>mark name (method)\<close>: the last word is the method even if it is the only one.\<close>

definition marked_row :: "bool \<Rightarrow> string \<Rightarrow> ProviderAuthStatus option" where
  "marked_row authenticated rest =
     (let rest = trim rest; parts = split_whitespace rest in
      if parts = [] then None
      else Some \<lparr>pas_name = (if 1 < length parts then join '' '' (butlast parts) else hd parts),
                 pas_authenticated = authenticated, pas_auth_method = Some (trim_parens (last parts)),
                 pas_detail = rest\<rparr>)"

text \<open>\<open>name mark status (method)\<close>.\<close>

definition tabular_row :: "bool \<Rightarrow> string \<times> string \<Rightarrow> ProviderAuthStatus option" where
  "tabular_row authenticated pieces =
     (case pieces of (name_part, rest) \<Rightarrow>
        let name = trim name_part; rest = trim rest in
        if name = [] then None
        else Some \<lparr>pas_name = name, pas_authenticated = authenticated,
                   pas_auth_method = map_option (\<lambda>(_, m). trim_end_char (CHR '')'') m) (rsplit_once (CHR ''('') rest),
                   pas_detail = rest\<rparr>)"

definition auth_row :: "string \<Rightarrow> ProviderAuthStatus option" where
  "auth_row line =
     (let row = trim line in
      if skipped_row row then None
      else case strip_prefix row CHECK of
             Some rest \<Rightarrow> marked_row True rest
           | None \<Rightarrow>
               (case strip_prefix row CROSS of
                  Some rest \<Rightarrow> marked_row False rest
                | None \<Rightarrow>
                    (case split_at_str CHECK row of
                       Some pieces \<Rightarrow> tabular_row True pieces
                     | None \<Rightarrow> Option.bind (split_at_str CROSS row) (tabular_row False))))"

definition parse_desktop_auth_status :: "string \<Rightarrow> string + DesktopAuthSnapshot" where
  "parse_desktop_auth_status stdout =
     (let providers = List.map_filter auth_row (str_lines stdout)
      in if providers = [] then Err ''omegon auth status returned no provider rows'' else Ok providers)"

definition finished :: "string \<Rightarrow> process_output \<Rightarrow> string + string" where
  "finished name out =
     (case po_failure out of
        None \<Rightarrow> Ok (po_stdout out)
      | Some status \<Rightarrow>
          Err (if trim (po_stderr out) = [] then ''omegon auth '' @ name @ '' failed with '' @ status
               else trim (po_stderr out)))"

definition load_desktop_auth_snapshot :: "run_command \<Rightarrow> string \<Rightarrow> string + DesktopAuthSnapshot" where
  "load_desktop_auth_snapshot run binary =
     and_then (map_err (\<lambda>e. ''failed to run omegon auth status: '' @ e) (run binary [''auth'', ''status'']))
       (\<lambda>out. and_then (finished ''status'' out) parse_desktop_auth_status)"

definition auth_args :: "DesktopAuthAction \<Rightarrow> string option \<Rightarrow> string list" where
  "auth_args action provider =
     [''auth'', subcommand action] @
     (case provider of None \<Rightarrow> [] | Some p \<Rightarrow> if trim p = [] then [] else [trim p]) @
     (if action = Logout then [''--yes''] else [])"

definition run_desktop_auth_action ::
  "run_command \<Rightarrow> string \<Rightarrow> DesktopAuthAction \<Rightarrow> string option \<Rightarrow> string + DesktopAuthSnapshot"
where
  "run_desktop_auth_action run binary action provider =
     and_then (map_err (\<lambda>e. ''failed to run omegon auth '' @ subcommand action @ '': '' @ e)
                (run binary (auth_args action provider)))
       (\<lambda>out. and_then (finished (subcommand action) out) (\<lambda>_. load_desktop_auth_snapshot run binary))"

section \<open>The model of the coordinator\<close>

definition AUSPEX_PRIMARY_DEFAULT_MODEL :: string where
  "AUSPEX_PRIMARY_DEFAULT_MODEL = ''openai-codex:gpt-5.5''"

definition provider_status_key :: "string \<Rightarrow> string" where
  "provider_status_key name = trim (takeWhile (\<lambda>c. c \<noteq> CHR ''/'') name)"

definition preferred_models :: "(string \<times> string) list" where
  "preferred_models =
     [(''openai-codex'', AUSPEX_PRIMARY_DEFAULT_MODEL), (''anthropic'', ''claude-sonnet-4-6''),
      (''ollama-cloud'', ''gpt-oss:120b-cloud'')]"

definition preferred_authenticated_omegon_model ::
  "string + DesktopAuthSnapshot \<Rightarrow> (string \<times> string) option"
where
  "preferred_authenticated_omegon_model status =
     (case status of
        Inl _ \<Rightarrow> None
      | Inr providers \<Rightarrow>
          List.find (\<lambda>(provider, _).
            list_ex (\<lambda>p. pas_authenticated p \<and> provider_status_key (pas_name p) = provider) providers)
            preferred_models)"

text \<open>The model passed to the runtime at launch.\<close>

definition launch_model :: "(string \<times> string) option \<Rightarrow> string" where
  "launch_model preferred =
     (case preferred of
        Some (provider, model) \<Rightarrow> provider @ '':'' @ model
      | None \<Rightarrow> ''anthropic:claude-sonnet-4-6'')"

section \<open>The profile\<close>

definition text_field :: "json \<Rightarrow> string \<Rightarrow> string option" where
  "text_field v k = Option.bind (jget v k) as_str"

text \<open>An assignment \<open>profile[key] = value\<close>; \<open>None\<close> is its panic on a value that is not an object.\<close>

definition set_if :: "bool \<Rightarrow> string \<Rightarrow> json \<Rightarrow> json \<Rightarrow> json option" where
  "set_if needed key x v = (if needed then jset key x v else Some v)"

datatype ProfileUpdate = Untouched | Rewritten json | Panicked

definition ensure_profile_uses_model :: "json option \<Rightarrow> (string \<times> string) option \<Rightarrow> ProfileUpdate" where
  "ensure_profile_uses_model contents preferred =
     (case contents of
        None \<Rightarrow> Untouched
      | Some profile \<Rightarrow>
          (let model_fix = (case preferred of
                 None \<Rightarrow> False
               | Some (provider, _) \<Rightarrow>
                   Option.bind (jget profile ''lastUsedModel'') (\<lambda>m. text_field m ''provider'') \<noteq> Some provider);
               posture_fix = (text_field profile ''defaultPosture'' \<noteq> Some ''architect'');
               thinking_fix = (text_field profile ''thinkingLevel'' \<noteq> Some ''medium'') in
           if model_fix \<or> posture_fix \<or> thinking_fix then
             (case Option.bind (Option.bind
                      (case preferred of
                         None \<Rightarrow> Some profile
                       | Some (provider, model) \<Rightarrow>
                           set_if model_fix ''lastUsedModel''
                             (jobj [(''provider'', JStr provider), (''modelId'', JStr model)]) profile)
                      (set_if posture_fix ''defaultPosture'' (JStr ''architect'')))
                    (set_if thinking_fix ''thinkingLevel'' (JStr ''medium'')) of
                None \<Rightarrow> Panicked
              | Some updated \<Rightarrow> Rewritten updated)
           else Untouched))"

text \<open>The profiles of the user and of the workspace; the argument lists those whose file reads and decodes.\<close>

definition profile_paths :: "host_files \<Rightarrow> string list" where
  "profile_paths fs =
     remdups_adj
       ((case hf_home fs of None \<Rightarrow> [] | Some home \<Rightarrow> [path_join home ''.omegon/profile.json'']) @
        (case auspex_workspace_root fs of None \<Rightarrow> [] | Some root \<Rightarrow> [path_join root ''.omegon/profile.json'']))"

text \<open>The updates in their order, up to a panic.\<close>

fun ensure_profiles ::
  "(string \<Rightarrow> json option) \<Rightarrow> (string \<times> string) option \<Rightarrow> string list \<Rightarrow> (string \<times> json) list \<times> bool"
where
  "ensure_profiles read preferred [] = ([], True)"
| "ensure_profiles read preferred (p # ps) =
     (case ensure_profile_uses_model (read p) preferred of
        Untouched \<Rightarrow> ensure_profiles read preferred ps
      | Rewritten v \<Rightarrow> (case ensure_profiles read preferred ps of (ws, fine) \<Rightarrow> ((p, v) # ws, fine))
      | Panicked \<Rightarrow> ([], False))"

definition ensure_omegon_profile_for_auspex ::
  "host_files \<Rightarrow> (string \<Rightarrow> json option) \<Rightarrow> (string \<times> string) option \<Rightarrow> (string \<times> json) list \<times> bool"
where
  "ensure_omegon_profile_for_auspex fs read preferred = ensure_profiles read preferred (profile_paths fs)"

end
