(* ===== verification/Event_Stream.thy ===== *)
theory Event_Stream
  imports Json
begin

text \<open>
  The WebSocket event stream of an instance (\<open>auspex-core/src/event_stream.rs\<close>): the queues between
  the stream task and the application, the URL of the socket, and the task itself as a sequence of
  steps between its awaits.  The crate \<open>url\<close>, the writer of JSON texts and the network are parameters.
\<close>

section \<open>URLs\<close>

record 'u url_api =
  ua_parse :: "string \<Rightarrow> string + 'u"
  ua_scheme :: "'u \<Rightarrow> string"
  ua_set_scheme :: "string \<Rightarrow> 'u \<Rightarrow> 'u option"
  ua_set_path :: "string \<Rightarrow> 'u \<Rightarrow> 'u"
  ua_clear_query :: "'u \<Rightarrow> 'u"
  ua_clear_fragment :: "'u \<Rightarrow> 'u"
  ua_query_pairs :: "'u \<Rightarrow> (string \<times> string) list"
  ua_append_pair :: "string \<Rightarrow> string \<Rightarrow> 'u \<Rightarrow> 'u"
  ua_text :: "'u \<Rightarrow> string"

definition derive_ws_url_from_state_url :: "'u url_api \<Rightarrow> string \<Rightarrow> string + string" where
  "derive_ws_url_from_state_url ua state_url =
     and_then (map_err (\<lambda>e. ''invalid state URL: '' @ e) (ua_parse ua state_url)) (\<lambda>url.
     and_then
       (if ua_scheme ua url = ''http'' then Ok ''ws''
        else if ua_scheme ua url = ''https'' then Ok ''wss''
        else Err (''unsupported state URL scheme '' @ ua_scheme ua url)) (\<lambda>scheme.
     and_then (ok_or ''could not set websocket URL scheme'' (ua_set_scheme ua scheme url)) (\<lambda>url.
       Ok (ua_text ua (ua_clear_fragment ua (ua_clear_query ua (ua_set_path ua ''/ws'' url)))))))"

definition apply_ws_auth_token :: "'u url_api \<Rightarrow> string \<Rightarrow> string option \<Rightarrow> string + string" where
  "apply_ws_auth_token ua url token =
     (case token of
        None \<Rightarrow> Ok url
      | Some t \<Rightarrow>
          if trim t = [] then Ok url
          else and_then (map_err (\<lambda>e. ''invalid websocket URL: '' @ e) (ua_parse ua url)) (\<lambda>parsed.
            Ok (ua_text ua
              (if \<exists>(k, _) \<in> set (ua_query_pairs ua parsed). k = ''token'' then parsed
               else ua_append_pair ua ''token'' (trim t) parsed))))"

definition derive_authenticated_ws_url :: "'u url_api \<Rightarrow> string \<Rightarrow> string option \<Rightarrow> string + string" where
  "derive_authenticated_ws_url ua state_url token =
     and_then (derive_ws_url_from_state_url ua state_url) (\<lambda>ws_url. apply_ws_auth_token ua ws_url token)"

section \<open>The handle\<close>

record EventStreamHandle =
  esh_url :: string
  esh_inbox :: "string list"
  esh_outbox :: "string list"
  esh_cancelled :: bool

definition websocket_handle :: "string \<Rightarrow> EventStreamHandle" where
  "websocket_handle url = \<lparr>esh_url = url, esh_inbox = [], esh_outbox = [], esh_cancelled = False\<rparr>"

definition inbox_push :: "string \<Rightarrow> EventStreamHandle \<Rightarrow> EventStreamHandle" where
  "inbox_push event h = h\<lparr>esh_inbox := esh_inbox h @ [event]\<rparr>"

definition inbox_drain :: "EventStreamHandle \<Rightarrow> string list \<times> EventStreamHandle" where
  "inbox_drain h = (esh_inbox h, h\<lparr>esh_inbox := []\<rparr>)"

definition push_raw :: "string \<Rightarrow> EventStreamHandle \<Rightarrow> EventStreamHandle" where
  "push_raw command h = h\<lparr>esh_outbox := esh_outbox h @ [command]\<rparr>"

definition outbox_drain :: "EventStreamHandle \<Rightarrow> string list \<times> EventStreamHandle" where
  "outbox_drain h = (esh_outbox h, h\<lparr>esh_outbox := []\<rparr>)"

definition cancel_stream :: "EventStreamHandle \<Rightarrow> EventStreamHandle" where
  "cancel_stream h = h\<lparr>esh_cancelled := True\<rparr>"

definition transport_event :: "string \<Rightarrow> json" where
  "transport_event state = jobj [(''type'', JStr ''auspex_transport_state''), (''state'', JStr state)]"

definition system_notice :: "string \<Rightarrow> json" where
  "system_notice message = jobj [(''type'', JStr ''system_notification''), (''message'', JStr message)]"

section \<open>The stream task\<close>

text \<open>
  Between two awaits the task is at the top of its outer loop, connecting, or exchanging frames; it
  ends only at the top.  The back-off is in seconds.
\<close>

datatype StreamPhase = Waiting | Connecting | Streaming | Stopped

record StreamTask =
  st_phase :: StreamPhase
  st_backoff :: nat
  st_first_attempt :: bool
  st_handle :: EventStreamHandle

definition MAX_BACKOFF :: nat where "MAX_BACKOFF = 30"

definition spawn_websocket_event_stream :: "string \<Rightarrow> StreamTask" where
  "spawn_websocket_event_stream url =
     \<lparr>st_phase = Waiting, st_backoff = 1, st_first_attempt = True, st_handle = websocket_handle url\<rparr>"

datatype StreamRead =
    TextFrame string
  | BinaryFrame
  | CloseFrame
  | ControlFrame
  | ReadError string
  | EndOfStream
  | NoData

text \<open>
  What the network and the application do: one round of the outer loop up to the connection attempt,
  the result of the attempt, one exchange with the failures of the commands it sends and the frame
  it reads, and the calls on the handle.
\<close>

datatype StreamInput =
    NextAttempt
  | AttemptResult "string + unit"
  | Exchange "string \<Rightarrow> string option" StreamRead
  | SendCommand string
  | DrainInbox
  | CancelStream

definition on_handle :: "(EventStreamHandle \<Rightarrow> EventStreamHandle) \<Rightarrow> StreamTask \<Rightarrow> StreamTask" where
  "on_handle f t = t\<lparr>st_handle := f (st_handle t)\<rparr>"

definition push_json :: "(json \<Rightarrow> string) \<Rightarrow> json \<Rightarrow> StreamTask \<Rightarrow> StreamTask" where
  "push_json to_text v = on_handle (inbox_push (to_text v))"

definition push_notice :: "(json \<Rightarrow> string) \<Rightarrow> string \<Rightarrow> StreamTask \<Rightarrow> StreamTask" where
  "push_notice to_text message = push_json to_text (system_notice message)"

definition next_attempt :: "(json \<Rightarrow> string) \<Rightarrow> StreamTask \<Rightarrow> StreamTask" where
  "next_attempt to_text t =
     (if esh_cancelled (st_handle t) then t\<lparr>st_phase := Stopped\<rparr>
      else
        (let t1 = (if st_first_attempt t then t
                   else (push_notice to_text
                           (''Reconnecting to Omegon event stream in '' @ show_nat (st_backoff t) @ ''s'' @
                            [CHR 0xE2, CHR 0x80, CHR 0xA6]) t)
                          \<lparr>st_backoff := min (st_backoff t * 2) MAX_BACKOFF\<rparr>)
         in t1\<lparr>st_first_attempt := False, st_phase := Connecting\<rparr>))"

definition attempt_result :: "(json \<Rightarrow> string) \<Rightarrow> string + unit \<Rightarrow> StreamTask \<Rightarrow> StreamTask" where
  "attempt_result to_text result t =
     (case result of
        Inl error \<Rightarrow>
          (push_notice to_text
             (''Could not connect to Omegon event stream at '' @ esh_url (st_handle t) @ '': '' @ error)
             (push_json to_text (transport_event ''disconnected'') t))\<lparr>st_phase := Waiting\<rparr>
      | Inr _ \<Rightarrow>
          push_notice to_text (''Connected to Omegon event stream at '' @ esh_url (st_handle t))
            ((push_json to_text (transport_event ''connected'') t)
               \<lparr>st_backoff := 1, st_phase := Streaming\<rparr>))"

text \<open>Every queued command is sent once; a failure is reported and the command is gone.\<close>

definition send_commands ::
  "(json \<Rightarrow> string) \<Rightarrow> (string \<Rightarrow> string option) \<Rightarrow> StreamTask \<Rightarrow> string list \<times> StreamTask"
where
  "send_commands to_text failure t =
     (case outbox_drain (st_handle t) of
        (commands, h) \<Rightarrow>
          (commands,
           fold (\<lambda>c t. case failure c of
                   None \<Rightarrow> t
                 | Some e \<Rightarrow> push_notice to_text (''Failed to send command to Omegon: '' @ e) t)
             commands (t\<lparr>st_handle := h\<rparr>)))"

definition connection_lost :: "(json \<Rightarrow> string) \<Rightarrow> string \<Rightarrow> StreamTask \<Rightarrow> StreamTask" where
  "connection_lost to_text message t =
     (push_notice to_text message (push_json to_text (transport_event ''disconnected'') t))
       \<lparr>st_phase := Waiting\<rparr>"

definition read_frame :: "(json \<Rightarrow> string) \<Rightarrow> StreamRead \<Rightarrow> StreamTask \<Rightarrow> StreamTask" where
  "read_frame to_text r t =
     (case r of
        TextFrame text \<Rightarrow> on_handle (inbox_push text) t
      | BinaryFrame \<Rightarrow> push_notice to_text ''Ignoring binary WebSocket frame from Omegon event stream'' t
      | CloseFrame \<Rightarrow> connection_lost to_text ''Omegon event stream closed by server. Will reconnect.'' t
      | ControlFrame \<Rightarrow> t
      | ReadError e \<Rightarrow> connection_lost to_text (''Omegon event stream error: '' @ e @ ''. Will reconnect.'') t
      | EndOfStream \<Rightarrow> connection_lost to_text ''Omegon event stream ended. Will reconnect.'' t
      | NoData \<Rightarrow> t)"

text \<open>One input; the commands put on the wire are the first component.  An input that does not fit the phase does nothing.\<close>

definition stream_input ::
  "(json \<Rightarrow> string) \<Rightarrow> StreamInput \<Rightarrow> StreamTask \<Rightarrow> string list \<times> StreamTask"
where
  "stream_input to_text input t =
     (case input of
        NextAttempt \<Rightarrow> ([], if st_phase t = Waiting then next_attempt to_text t else t)
      | AttemptResult r \<Rightarrow> ([], if st_phase t = Connecting then attempt_result to_text r t else t)
      | Exchange failure r \<Rightarrow>
          if st_phase t = Streaming then
            (case send_commands to_text failure t of (sent, t1) \<Rightarrow> (sent, read_frame to_text r t1))
          else ([], t)
      | SendCommand c \<Rightarrow> ([], on_handle (push_raw c) t)
      | DrainInbox \<Rightarrow> ([], on_handle (\<lambda>h. snd (inbox_drain h)) t)
      | CancelStream \<Rightarrow> ([], on_handle cancel_stream t))"

fun stream_run :: "(json \<Rightarrow> string) \<Rightarrow> StreamInput list \<Rightarrow> StreamTask \<Rightarrow> string list \<times> StreamTask" where
  "stream_run to_text [] t = ([], t)"
| "stream_run to_text (i # is) t =
     (case stream_input to_text i t of
        (sent, t1) \<Rightarrow> (case stream_run to_text is t1 of (later, t2) \<Rightarrow> (sent @ later, t2)))"

section \<open>Properties\<close>

lemmas handle_defs = on_handle_def push_json_def push_notice_def inbox_push_def push_raw_def
  outbox_drain_def inbox_drain_def cancel_stream_def connection_lost_def

lemma read_frame_outbox [simp]: "esh_outbox (st_handle (read_frame to_text r t)) = esh_outbox (st_handle t)"
  by (simp add: read_frame_def handle_defs split: StreamRead.split)

lemma report_failures_outbox:
  "esh_outbox (st_handle (fold (\<lambda>c t. case failure c of None \<Rightarrow> t | Some e \<Rightarrow> push_notice to_text (msg e) t) cs t)) =
   esh_outbox (st_handle t)"
  by (induction cs arbitrary: t) (simp_all add: handle_defs split: option.split)

lemma send_commands_outbox:
  "send_commands to_text failure t = (sent, t1) \<Longrightarrow>
   sent = esh_outbox (st_handle t) \<and> esh_outbox (st_handle t1) = []"
  by (auto simp: send_commands_def outbox_drain_def report_failures_outbox)

text \<open>The commands the application has queued.\<close>

definition queued :: "StreamInput list \<Rightarrow> string list" where
  "queued is = List.map_filter (\<lambda>i. case i of SendCommand c \<Rightarrow> Some c | _ \<Rightarrow> None) is"

lemma stream_input_commands:
  "fst (stream_input to_text i t) @ esh_outbox (st_handle (snd (stream_input to_text i t))) =
     esh_outbox (st_handle t) @ (case i of SendCommand c \<Rightarrow> [c] | _ \<Rightarrow> [])"
proof (cases i)
  case (Exchange failure r)
  obtain sent t1 where "send_commands to_text failure t = (sent, t1)" by force
  with send_commands_outbox [OF this] show ?thesis by (simp add: stream_input_def Exchange)
qed (simp_all add: stream_input_def next_attempt_def attempt_result_def handle_defs split: sum.split)

lemma queued_simps [simp]:
  "queued [] = []"
  "queued (i # is) = (case i of SendCommand c \<Rightarrow> [c] | _ \<Rightarrow> []) @ queued is"
  by (simp_all add: queued_def map_filter_simps split: StreamInput.split)

lemma stream_run_Cons:
  "fst (stream_run to_text (i # is) t) =
     fst (stream_input to_text i t) @ fst (stream_run to_text is (snd (stream_input to_text i t)))"
  "snd (stream_run to_text (i # is) t) = snd (stream_run to_text is (snd (stream_input to_text i t)))"
  by (simp_all add: case_prod_beta)


text \<open>The back-off starts over with every connection and is bounded.\<close>

lemma report_failures_frame:
  "st_phase (fold (\<lambda>c t. case failure c of None \<Rightarrow> t | Some e \<Rightarrow> push_notice to_text (msg e) t) cs t) = st_phase t"
  "st_backoff (fold (\<lambda>c t. case failure c of None \<Rightarrow> t | Some e \<Rightarrow> push_notice to_text (msg e) t) cs t) = st_backoff t"
  by (induction cs arbitrary: t) (simp_all add: handle_defs split: option.split)

lemma send_commands_frame [simp]:
  "st_phase (snd (send_commands to_text failure t)) = st_phase t"
  "st_backoff (snd (send_commands to_text failure t)) = st_backoff t"
  by (simp_all add: send_commands_def outbox_drain_def report_failures_frame)

lemma read_frame_backoff [simp]: "st_backoff (read_frame to_text r t) = st_backoff t"
  by (simp add: read_frame_def handle_defs split: StreamRead.split)

text \<open>The frames after which the connection goes on.\<close>

definition keeps_connection :: "StreamRead \<Rightarrow> bool" where
  "keeps_connection r \<longleftrightarrow>
     (case r of CloseFrame \<Rightarrow> False | ReadError _ \<Rightarrow> False | EndOfStream \<Rightarrow> False | _ \<Rightarrow> True)"

lemma read_frame_phase [simp]:
  "st_phase (read_frame to_text r t) = (if keeps_connection r then st_phase t else Waiting)"
  by (simp add: read_frame_def keeps_connection_def handle_defs split: StreamRead.split)

definition backoff_ok :: "StreamTask \<Rightarrow> bool" where
  "backoff_ok t \<longleftrightarrow>
     st_backoff t \<in> {1, 2, 4, 8, 16, 30} \<and> (st_phase t = Streaming \<longrightarrow> st_backoff t = 1)"

lemma backoff_attempt: "backoff_ok t \<Longrightarrow> backoff_ok (next_attempt to_text t)"
  by (auto simp: next_attempt_def backoff_ok_def handle_defs MAX_BACKOFF_def)

lemma backoff_result: "backoff_ok t \<Longrightarrow> backoff_ok (attempt_result to_text r t)"
  by (cases r) (auto simp: attempt_result_def backoff_ok_def handle_defs)

lemma backoff_input: "backoff_ok t \<Longrightarrow> backoff_ok (snd (stream_input to_text i t))"
proof (cases i)
  case (Exchange failure r)
  assume "backoff_ok t"
  then show ?thesis by (auto simp: stream_input_def Exchange case_prod_beta backoff_ok_def)
next
  case NextAttempt
  then show "backoff_ok t \<Longrightarrow> ?thesis" by (simp add: stream_input_def backoff_attempt)
next
  case (AttemptResult r)
  then show "backoff_ok t \<Longrightarrow> ?thesis" by (simp add: stream_input_def backoff_result)
qed (simp_all add: stream_input_def backoff_ok_def handle_defs)

lemma backoff_run: "backoff_ok t \<Longrightarrow> backoff_ok (snd (stream_run to_text is t))"
  by (induction "is" arbitrary: t) (simp_all add: stream_run_Cons backoff_input del: stream_run.simps(2))

lemma backoff_bounded:
  "st_backoff (snd (stream_run to_text is (spawn_websocket_event_stream url))) \<le> MAX_BACKOFF"
proof -
  have "backoff_ok (spawn_websocket_event_stream url)"
    by (simp add: spawn_websocket_event_stream_def backoff_ok_def)
  from backoff_run [OF this, of to_text "is"] show ?thesis
    by (auto simp: backoff_ok_def MAX_BACKOFF_def)
qed

text \<open>
  The task looks at the cancellation only before an attempt: while it is connected, a cancelled
  stream goes on sending and reading for as long as the server keeps the connection.
\<close>

definition connection_kept :: "StreamInput \<Rightarrow> bool" where
  "connection_kept i \<longleftrightarrow> (case i of Exchange _ r \<Rightarrow> keeps_connection r | _ \<Rightarrow> True)"

lemma streaming_input:
  "st_phase t = Streaming \<Longrightarrow> connection_kept i \<Longrightarrow> st_phase (snd (stream_input to_text i t)) = Streaming"
  by (cases i) (simp_all add: stream_input_def connection_kept_def handle_defs case_prod_beta)

lemma cancelled_stream_stays_connected:
  "st_phase t = Streaming \<Longrightarrow> list_all connection_kept is \<Longrightarrow>
   st_phase (snd (stream_run to_text is t)) = Streaming"
  by (induction "is" arbitrary: t) (simp_all add: stream_run_Cons streaming_input del: stream_run.simps(2))

lemma stopped_input:
  "st_phase t = Stopped \<Longrightarrow>
   fst (stream_input to_text i t) = [] \<and> st_phase (snd (stream_input to_text i t)) = Stopped"
  by (cases i) (simp_all add: stream_input_def handle_defs)

lemma stopped_is_final:
  "st_phase t = Stopped \<Longrightarrow>
   fst (stream_run to_text is t) = [] \<and> st_phase (snd (stream_run to_text is t)) = Stopped"
  by (induction "is" arbitrary: t) (simp_all add: stream_run_Cons stopped_input del: stream_run.simps(2))

end
