(* ===== verification/Launch_Spawn.thy ===== *)
theory Launch_Spawn
  imports Launch_Auth Event_Stream Session_Types
begin

text \<open>
  Attaching to a runtime and starting one (\<open>auspex-core/src/bootstrap.rs\<close>): the source the
  environment selects, the bootstrap from a state endpoint with the negotiation of the transport,
  and the launch of an owned runtime with its handshake and its checks.  The HTTP client, the IPC
  client, the decoders and the processes are parameters; the controller is used through the
  operations of \<open>controller_ops\<close>, each a method of \<open>AppController\<close>.
\<close>

section \<open>Results\<close>

record ConnectHints =
  chi_ws_url :: "string option"
  chi_startup_url :: "string option"
  chi_ws_token :: "string option"

definition hints_from_env :: "process_environment \<Rightarrow> ConnectHints" where
  "hints_from_env env =
     \<lparr>chi_ws_url = non_empty_env env ''AUSPEX_OMEGON_WS_URL'',
      chi_startup_url = non_empty_env env ''AUSPEX_OMEGON_STARTUP_URL'',
      chi_ws_token = non_empty_env env ''AUSPEX_OMEGON_WS_TOKEN''\<rparr>"

datatype BootstrapSource =
    MockDefault
  | FixtureScenario string
  | SnapshotFile string
  | HttpState string
  | SpawningOmegon string

datatype CommandTransport = EventStreamTransport | IpcTransport string

text \<open>A stream is represented by its URL, an IPC connection by its socket.\<close>

record 'c BootstrapResult =
  bre_controller :: 'c
  bre_source :: BootstrapSource
  bre_note :: "string option"
  bre_event_stream :: "string option"
  bre_ipc_event_stream :: "string option"
  bre_command_transport :: "CommandTransport option"

record HelloResponse =
  hel_protocol_version :: u16
  hel_server_instance_id :: string
  hel_server_name :: string
  hel_omegon_version :: string
  hel_capabilities :: "string list"

text \<open>
  \<open>aco_stored\<close> is \<open>with_audit_timeline\<close> and \<open>with_instance_registry\<close> on the stores at their default
  paths, \<open>aco_with_audit\<close> the first of them alone; \<open>aco_from_snapshot\<close> takes the stored registry.
\<close>

record 'c controller_ops =
  aco_default :: 'c
  aco_stored :: "'c \<Rightarrow> 'c"
  aco_with_audit :: "'c \<Rightarrow> 'c"
  aco_from_snapshot :: "string \<Rightarrow> string + 'c"
  aco_set_scenario :: "DevScenario \<Rightarrow> 'c \<Rightarrow> 'c"
  aco_select_scenario :: "string \<Rightarrow> 'c \<Rightarrow> 'c"
  aco_set_note :: "string \<Rightarrow> 'c \<Rightarrow> 'c"
  aco_reattach_containers :: "'c \<Rightarrow> 'c"
  aco_register_remotes :: "'c \<Rightarrow> 'c"
  aco_ipc_connected :: "HelloResponse \<Rightarrow> 'c \<Rightarrow> 'c"
  aco_ipc_snapshot :: "IpcStateSnapshot \<Rightarrow> 'c \<Rightarrow> 'c"
  aco_websocket :: "string \<Rightarrow> 'c \<Rightarrow> 'c"

definition plain_result :: "'c \<Rightarrow> BootstrapSource \<Rightarrow> string option \<Rightarrow> 'c BootstrapResult" where
  "plain_result c source note =
     \<lparr>bre_controller = c, bre_source = source, bre_note = note, bre_event_stream = None,
      bre_ipc_event_stream = None, bre_command_transport = None\<rparr>"

definition failed_result :: "'c controller_ops \<Rightarrow> DevScenario \<Rightarrow> string \<Rightarrow> 'c BootstrapResult" where
  "failed_result aco scenario note =
     plain_result (aco_set_note aco note (aco_set_scenario aco scenario (aco_stored aco (aco_default aco))))
       MockDefault (Some note)"

definition startup_failure :: "'c controller_ops \<Rightarrow> string \<Rightarrow> 'c BootstrapResult" where
  "startup_failure aco note = failed_result aco StartupFailure note"

definition compatibility_failure :: "'c controller_ops \<Rightarrow> string \<Rightarrow> 'c BootstrapResult" where
  "compatibility_failure aco note = failed_result aco CompatibilityFailure note"

definition ellipsis :: string where "ellipsis = [CHR 0xE2, CHR 0x80, CHR 0xA6]"

definition spawning_omegon :: "'c controller_ops \<Rightarrow> string \<Rightarrow> 'c BootstrapResult" where
  "spawning_omegon aco binary =
     plain_result (aco_set_note aco (''Starting owned Omegon at '' @ binary @ ellipsis)
         (aco_set_scenario aco Booting (aco_stored aco (aco_default aco))))
       (SpawningOmegon binary) None"

definition bootstrap_fixture_scenario :: "'c controller_ops \<Rightarrow> string \<Rightarrow> 'c BootstrapResult" where
  "bootstrap_fixture_scenario aco scenario =
     (let note = ''Loaded fixture scenario: '' @ scenario in
      plain_result (aco_set_note aco note (aco_select_scenario aco scenario (aco_stored aco (aco_default aco))))
        (FixtureScenario scenario) (Some note))"

definition bootstrap_from_snapshot_file ::
  "'c controller_ops \<Rightarrow> (string \<Rightarrow> string + string) \<Rightarrow> string \<Rightarrow> string + 'c BootstrapResult"
where
  "bootstrap_from_snapshot_file aco read path =
     and_then (map_err (\<lambda>e. ''could not read snapshot file: '' @ e) (read path)) (\<lambda>contents.
     and_then (map_err (\<lambda>e. ''invalid snapshot JSON: '' @ e) (aco_from_snapshot aco contents)) (\<lambda>c.
       Ok (plain_result (aco_with_audit aco c) (SnapshotFile path)
             (Some (''Loaded Omegon snapshot from '' @ path)))))"

definition bootstrap_controller_from_env ::
  "'c controller_ops \<Rightarrow> process_environment \<Rightarrow> host_files \<Rightarrow> OmegonCompatibilityManifest \<Rightarrow>
   (string \<Rightarrow> string + string) \<Rightarrow> 'c BootstrapResult"
where
  "bootstrap_controller_from_env aco env fs pinned read =
     (case non_empty_env env ''AUSPEX_SCENARIO'' of
        Some scenario \<Rightarrow> bootstrap_fixture_scenario aco scenario
      | None \<Rightarrow>
          (case non_empty_env env ''AUSPEX_REMOTE_SNAPSHOT_PATH'' of
             Some path \<Rightarrow>
               (case bootstrap_from_snapshot_file aco read path of
                  Inr r \<Rightarrow> r
                | Inl e \<Rightarrow> startup_failure aco (''Snapshot bootstrap failed for '' @ path @ '': '' @ e @ ''.''))
           | None \<Rightarrow>
               (case non_empty_env env ''AUSPEX_OMEGON_STATE_URL'' of
                  Some url \<Rightarrow>
                    plain_result (aco_set_note aco (''Attaching to Omegon control plane'' @ ellipsis)
                        (aco_set_scenario aco Booting (aco_default aco)))
                      (HttpState url) None
                | None \<Rightarrow>
                    (case find_omegon_binary env fs pinned of
                       Some binary \<Rightarrow> spawning_omegon aco binary
                     | None \<Rightarrow> startup_failure aco
                         ''Auspex could not locate its pinned headless Omegon sidecar. Reinstall Auspex or set AUSPEX_OMEGON_BIN for an explicit development override.''))))"

section \<open>Bootstrap from a state endpoint\<close>

text \<open>The outcomes of a request: no answer, an error status with its text, an unreadable body, the body.\<close>

datatype HttpFetch = RequestFailed string | StatusError string | BodyError string | Body string

record ipc_client_api =
  ica_available :: "string \<Rightarrow> bool"
  ica_inspect :: "string \<Rightarrow> string + HelloResponse"
  ica_get_state :: "string \<Rightarrow> string + IpcStateSnapshot"

text \<open>The world of the asynchronous bootstrap: building the client, requests, decoders and IPC.\<close>

record ('ver, 'u) boot_api =
  ba_client :: "string + unit"
  ba_get :: "string \<Rightarrow> HttpFetch"
  ba_startup :: "string \<Rightarrow> OmegonStartupInfo option"
  ba_version :: "'ver version_api"
  ba_manifest :: OmegonCompatibilityManifest
  ba_url :: "'u url_api"
  ba_ipc :: ipc_client_api

definition negotiate_native_ipc ::
  "ipc_client_api \<Rightarrow> OmegonStartupInfo option \<Rightarrow> string + string \<times> HelloResponse \<times> IpcStateSnapshot"
where
  "negotiate_native_ipc ipc startup =
     (case Option.bind (Option.bind (Option.bind startup osi_instance_descriptor) odesc_control_plane)
             ocd_ipc_socket_path of
        None \<Rightarrow> Err ''runtime did not advertise an IPC socket''
      | Some path \<Rightarrow>
          if path = [] then Err ''runtime did not advertise an IPC socket''
          else if \<not> ica_available ipc path then Err (''advertised IPC socket is unavailable: '' @ path)
          else and_then (map_err (\<lambda>e. ''IPC handshake failed: '' @ e) (ica_inspect ipc path)) (\<lambda>hello.
            case List.find (\<lambda>c. c \<notin> set (hel_capabilities hello)) [''state.snapshot'', ''events.stream''] of
              Some missing \<Rightarrow> Err (''IPC server did not advertise '' @ missing)
            | None \<Rightarrow>
                and_then (map_err (\<lambda>e. ''initial IPC state failed: '' @ e) (ica_get_state ipc path)) (\<lambda>snapshot.
                  if ipc_server_instance_id (iss_control_plane snapshot) \<noteq> hel_server_instance_id hello then
                    Err ''IPC hello and initial state reported different server identities''
                  else Ok (path, hello, snapshot))))"

definition fetch_startup_info_async ::
  "('ver, 'u) boot_api \<Rightarrow> string \<Rightarrow> ConnectHints \<Rightarrow> OmegonStartupInfo option"
where
  "fetch_startup_info_async ba state_url hints =
     (case ba_get ba (unwrap_or (chi_startup_url hints) (startup_url_from_state_url state_url)) of
        Body body \<Rightarrow> ba_startup ba body
      | _ \<Rightarrow> None)"

definition non_empty_text :: "string \<Rightarrow> string option" where
  "non_empty_text s = (if s = [] then None else Some s)"

definition default_ws_url :: string where
  "default_ws_url = ''ws://127.0.0.1:7842/ws''"

definition ok_of :: "string + 'a \<Rightarrow> 'a option" where
  "ok_of r = (case r of Inl _ \<Rightarrow> None | Inr v \<Rightarrow> Some v)"

definition session_ws_url ::
  "'u url_api \<Rightarrow> OmegonStartupInfo option \<Rightarrow> string \<Rightarrow> ConnectHints \<Rightarrow> string"
where
  "session_ws_url ua startup state_url hints =
     unwrap_or
       (or_else (Option.bind startup (\<lambda>s. non_empty_text (osi_ws_url s)))
         (or_else (Option.bind (chi_ws_url hints) (\<lambda>url. ok_of (apply_ws_auth_token ua url (chi_ws_token hints))))
           (ok_of (derive_authenticated_ws_url ua state_url (chi_ws_token hints)))))
       default_ws_url"

definition attach_note ::
  "string \<Rightarrow> string \<Rightarrow> OmegonStartupInfo option \<Rightarrow> string \<Rightarrow> string option \<Rightarrow> string"
where
  "attach_note url state_url startup transport_note warning =
     (case startup of
        Some s \<Rightarrow>
          ''Attached via Omegon startup discovery at '' @ startup_url_from_state_url url @ '' (auth: '' @
          osi_auth_mode s @ '' via '' @ osi_auth_source s @ ''). '' @ transport_note @ ''.''
      | None \<Rightarrow> ''Attached to Omegon state endpoint at '' @ state_url @ ''. '' @ transport_note @ ''.'') @
     (case warning of None \<Rightarrow> [] | Some w \<Rightarrow> '' Warning: '' @ w)"

definition bootstrap_from_http_state ::
  "'c controller_ops \<Rightarrow> ('ver, 'u) boot_api \<Rightarrow> string \<Rightarrow> ConnectHints \<Rightarrow> string + 'c BootstrapResult"
where
  "bootstrap_from_http_state aco ba url hints =
     and_then (ba_client ba) (\<lambda>_.
       let startup = fetch_startup_info_async ba url hints in
     and_then
       (case startup of None \<Rightarrow> Ok None | Some s \<Rightarrow> validate_startup_info (ba_version ba) (ba_manifest ba) s) (\<lambda>warning.
       let state_url = unwrap_or (Option.bind startup (\<lambda>s. non_empty_text (osi_state_url s))) url in
     and_then
       (case ba_get ba state_url of
          RequestFailed e \<Rightarrow> Err (''request failed: '' @ e)
        | StatusError e \<Rightarrow> Err (''state endpoint returned error: '' @ e)
        | BodyError e \<Rightarrow> Err (''could not read response body: '' @ e)
        | Body body \<Rightarrow> Ok body) (\<lambda>body.
     and_then (map_err (\<lambda>e. ''invalid state payload: '' @ e) (aco_from_snapshot aco body)) (\<lambda>c0.
       let c1 = aco_with_audit aco (aco_register_remotes aco (aco_reattach_containers aco c0));
           ws_url = session_ws_url (ba_url ba) startup state_url hints;
           result = (\<lambda>c stream ipc transport transport_note.
             \<lparr>bre_controller = c, bre_source = HttpState state_url,
              bre_note = Some (attach_note url state_url startup transport_note warning),
              bre_event_stream = stream, bre_ipc_event_stream = ipc,
              bre_command_transport = Some transport\<rparr>)
       in Ok (case negotiate_native_ipc (ba_ipc ba) startup of
                Inr (socket, hello, snapshot) \<Rightarrow>
                  result (aco_ipc_snapshot aco snapshot (aco_ipc_connected aco hello c1)) None (Some socket)
                    (IpcTransport socket) ''State, events, and commands use negotiated multiplexed IPC''
              | Inl reason \<Rightarrow>
                  result (aco_websocket aco reason c1) (Some ws_url) None EventStreamTransport
                    (''State, events, and commands use HTTP/WebSocket compatibility ('' @ reason @ '')''))))))"

text \<open>How the callers turn an error into a result.\<close>

definition attach_failure :: "'c controller_ops \<Rightarrow> (string \<Rightarrow> string) \<Rightarrow> string \<Rightarrow> 'c BootstrapResult" where
  "attach_failure aco message error =
     (if contains_str ''control-plane schema'' error then compatibility_failure aco error
      else startup_failure aco (message error))"

definition complete_http_bootstrap ::
  "'c controller_ops \<Rightarrow> ('ver, 'u) boot_api \<Rightarrow> string \<Rightarrow> ConnectHints \<Rightarrow> 'c BootstrapResult"
where
  "complete_http_bootstrap aco ba url hints =
     (case bootstrap_from_http_state aco ba url hints of
        Inr r \<Rightarrow> r
      | Inl e \<Rightarrow> attach_failure aco (\<lambda>e. ''Remote attach failed for '' @ url @ '': '' @ e @ ''.'') e)"

section \<open>The handshake\<close>

text \<open>What the loop waits for: a line, the end or an error of either output, or the deadline.\<close>

datatype LaunchEvent =
    StdoutLine string
  | StdoutEnd
  | StderrLine string
  | StderrEnd
  | Deadline

definition push_tail :: "string \<Rightarrow> string list \<Rightarrow> string list" where
  "push_tail line tail =
     (if line = [] then tail
      else let t = tail @ [line] in if 8 < length t then tl t else t)"

text \<open>The events arrive one by one; the loop ends at the handshake, at the end of the output or at the deadline.\<close>

partial_function (option) read_startup ::
  "(string \<Rightarrow> OmegonStartupInfo option) \<Rightarrow> (nat \<Rightarrow> LaunchEvent) \<Rightarrow> nat \<Rightarrow> string list \<Rightarrow>
   (OmegonStartupInfo option \<times> string list) option"
where
  "read_startup decode events i tail =
     (case events i of
        StdoutLine line \<Rightarrow>
          (case (if trim line = [] then None else decode (trim line)) of
             Some info \<Rightarrow>
               if 0 < osi_schema_version info then Some (Some info, tail)
               else read_startup decode events (Suc i) tail
           | None \<Rightarrow> read_startup decode events (Suc i) tail)
      | StdoutEnd \<Rightarrow> Some (None, tail)
      | StderrLine line \<Rightarrow> read_startup decode events (Suc i) (push_tail (trim line) tail)
      | StderrEnd \<Rightarrow> read_startup decode events (Suc i) tail
      | Deadline \<Rightarrow> Some (None, tail))"

section \<open>The launch\<close>

record ManagedAgentBridgeLaunchBinding =
  mlb_socket_path :: string
  mlb_capability :: string
  mlb_parent_session_id :: string

definition bridge_env :: "ManagedAgentBridgeLaunchBinding option \<Rightarrow> (string \<times> string) list" where
  "bridge_env binding =
     (case binding of
        None \<Rightarrow> []
      | Some b \<Rightarrow>
          [(''AUSPEX_MANAGED_AGENT_BRIDGE_SOCKET'', mlb_socket_path b),
           (''AUSPEX_MANAGED_AGENT_BRIDGE_CAPABILITY'', mlb_capability b),
           (''AUSPEX_MANAGED_AGENT_PARENT_SESSION_ID'', mlb_parent_session_id b)])"

text \<open>An answer to a poll: the status as it is displayed, whether it is a success, and the body.\<close>

datatype PollAnswer = Answered bool string string | Unanswered string

text \<open>Up to 20 polls; the result is the last error, or that one of them was satisfied.\<close>

fun poll_startup :: "nat \<Rightarrow> (nat \<Rightarrow> PollAnswer) \<Rightarrow> string option \<Rightarrow> string option + unit" where
  "poll_startup 0 answer last_error = Err last_error"
| "poll_startup (Suc n) answer last_error =
     (case answer n of
        Answered True _ _ \<Rightarrow> Ok ()
      | Answered False status _ \<Rightarrow> poll_startup n answer (Some (''HTTP '' @ status))
      | Unanswered e \<Rightarrow> poll_startup n answer (Some e))"

definition ready_payload :: "(string \<Rightarrow> json option) \<Rightarrow> string \<Rightarrow> bool" where
  "ready_payload parse body =
     (case Option.bind (parse body) (\<lambda>v. jget v ''ok'') of Some (JBool ok) \<Rightarrow> ok | _ \<Rightarrow> False)"

fun poll_ready ::
  "(string \<Rightarrow> json option) \<Rightarrow> nat \<Rightarrow> (nat \<Rightarrow> PollAnswer) \<Rightarrow> string option \<Rightarrow> string option + unit"
where
  "poll_ready parse 0 answer last_error = Err last_error"
| "poll_ready parse (Suc n) answer last_error =
     (case answer n of
        Answered True _ body \<Rightarrow>
          if ready_payload parse body then Ok ()
          else poll_ready parse n answer (Some (''payload '' @ body))
      | Answered False status _ \<Rightarrow> poll_ready parse n answer (Some (''HTTP '' @ status))
      | Unanswered e \<Rightarrow> poll_ready parse n answer (Some e))"

definition error_suffix :: "string option \<Rightarrow> string" where
  "error_suffix e = (case e of None \<Rightarrow> [] | Some t \<Rightarrow> '': '' @ t)"

text \<open>
  The world of a launch.  \<open>lw_ps\<close> and \<open>lw_ps_again\<close> are the process lists of the sweep after a
  finished or failed attach and of the sweep before the launch; the two readings of the provider
  status are those for the profile and for the model.  Of a spawned child there is its identifier,
  if it is still known, whether its output was captured, and what its outputs deliver.
\<close>

record launch_world =
  lw_env :: process_environment
  lw_files :: host_files
  lw_running :: bool
  lw_primary :: "string \<Rightarrow> bool"
  lw_self :: nat
  lw_ppid :: "nat \<Rightarrow> string option"
  lw_ps :: "string option"
  lw_ps_again :: "string option"
  lw_port_free :: "nat \<Rightarrow> bool"
  lw_profile :: "string \<Rightarrow> json option"
  lw_profile_status :: "string + DesktopAuthSnapshot"
  lw_model_status :: "string + DesktopAuthSnapshot"
  lw_spawn :: "string + nat option \<times> bool"
  lw_events :: "nat \<Rightarrow> LaunchEvent"
  lw_client :: "string + unit"
  lw_startup_poll :: "string \<Rightarrow> nat \<Rightarrow> PollAnswer"
  lw_ready_poll :: "string \<Rightarrow> nat \<Rightarrow> PollAnswer"
  lw_json :: "string \<Rightarrow> json option"

definition tls_configured :: "process_environment \<Rightarrow> bool" where
  "tls_configured env = (case omegon_control_tls_args_from_env env of Inl _ \<Rightarrow> False | Inr args \<Rightarrow> args \<noteq> [])"

definition default_state_url :: "process_environment \<Rightarrow> string" where
  "default_state_url env =
     (if tls_configured env then ''https://127.0.0.1:7842/api/state'' else ''http://127.0.0.1:7842/api/state'')"

text \<open>The attach to a primary that is already running, with the sweep that follows either way.\<close>

definition attach_existing ::
  "launch_world \<Rightarrow> (string \<Rightarrow> string + 'c BootstrapResult) \<Rightarrow> LaunchEffect list \<times> 'c BootstrapResult option"
where
  "attach_existing w boot =
     (let startup_url = replace_all ''/api/state'' ''/api/startup'' (default_state_url (lw_env w)) in
      if lw_running w \<and> lw_primary w startup_url then
        (case boot (replace_all ''/api/startup'' ''/api/state'' startup_url) of
           Inr r \<Rightarrow> (fst (reap_orphaned_omegon_serves (lw_ps w) (lw_ppid w) (lw_self w) (Some 7842)), Some r)
         | Inl _ \<Rightarrow> (fst (reap_orphaned_omegon_serves (lw_ps w) (lw_ppid w) (lw_self w) None), None))
      else ([], None))"

text \<open>
  What follows the handshake; no failure here has an effect on the child.
\<close>

definition finish_launch ::
  "'c controller_ops \<Rightarrow> launch_world \<Rightarrow> (string \<Rightarrow> string + 'c BootstrapResult) \<Rightarrow> string \<Rightarrow>
   OmegonStartupInfo \<Rightarrow> 'c BootstrapResult"
where
  "finish_launch aco w boot label info =
     (let state_url = unwrap_or (startup_state_url info) ''http://127.0.0.1:7842/api/state'';
          startup_url = (if osi_startup_url info \<noteq> [] then osi_startup_url info
                         else startup_url_from_state_url state_url);
          ready_url = (if osi_ready_url info \<noteq> [] then osi_ready_url info
                       else replace_all ''/api/state'' ''/api/readyz'' state_url);
          backend = ''Owned Omegon backend at '' @ label
      in case lw_client w of
           Inl e \<Rightarrow> startup_failure aco (backend @ '' started but Auspex could not build an HTTP client: '' @ e)
         | Inr _ \<Rightarrow>
             (case poll_startup 20 (lw_startup_poll w startup_url) None of
                Inl e \<Rightarrow> startup_failure aco (backend @ '' emitted startup info but /api/startup at '' @ startup_url @
                           '' did not become reachable within 5s'' @ error_suffix e @ ''.'')
              | Inr _ \<Rightarrow>
                  (case poll_ready (lw_json w) 20 (lw_ready_poll w ready_url) None of
                     Inl e \<Rightarrow> startup_failure aco (backend @ '' satisfied startup discovery but /api/readyz at '' @
                                ready_url @ '' did not report ready within 5s'' @ error_suffix e @ ''.'')
                   | Inr _ \<Rightarrow>
                       (case boot state_url of
                          Inr r \<Rightarrow> r
                        | Inl e \<Rightarrow> attach_failure aco
                            (\<lambda>e. ''Owned Omegon backend started at '' @ label @ '' but bootstrap failed: '' @ e) e))))"

datatype 'c LaunchOutcome = Returned "'c BootstrapResult" | LaunchPanics | NeverReturns

definition missing_handshake :: "string \<Rightarrow> string list \<Rightarrow> string" where
  "missing_handshake label tail =
     ''Owned Omegon backend at '' @ label @ '' did not emit a startup JSON line within 15s.'' @
     (if tail = [] then [] else '' stderr: '' @ join '' | '' tail)"

text \<open>From the spawned child to the result.\<close>

definition await_child ::
  "'c controller_ops \<Rightarrow> launch_world \<Rightarrow> (string \<Rightarrow> OmegonStartupInfo option) \<Rightarrow>
   (string \<Rightarrow> string + 'c BootstrapResult) \<Rightarrow> string \<Rightarrow> bool \<Rightarrow> LaunchEffect list \<times> 'c LaunchOutcome"
where
  "await_child aco w decode boot label captured =
     (if \<not> captured then
        ([KillChild, ClearPidFile],
         Returned (startup_failure aco ''Owned Omegon backend spawned but stdout was not captured.''))
      else case read_startup decode (lw_events w) 0 [] of
             None \<Rightarrow> ([], NeverReturns)
           | Some (None, tail) \<Rightarrow>
               ([KillChild, ClearPidFile], Returned (startup_failure aco (missing_handshake label tail)))
           | Some (Some info, _) \<Rightarrow> ([], Returned (finish_launch aco w boot label info)))"

definition spawn_child ::
  "launch_world \<Rightarrow> ManagedAgentBridgeLaunchBinding option \<Rightarrow> string \<Rightarrow> string list \<Rightarrow> nat \<Rightarrow> LaunchEffect"
where
  "spawn_child w bridge binary tls_args control_port =
     SpawnChild (auspex_workspace_root (lw_files w)) binary
       (build_omegon_serve_args (auspex_agent_bundle_path (lw_files w))
         (launch_model (preferred_authenticated_omegon_model (lw_model_status w))) control_port tls_args)
       (bridge_env bridge)"

definition launch_new ::
  "'c controller_ops \<Rightarrow> launch_world \<Rightarrow> (string \<Rightarrow> OmegonStartupInfo option) \<Rightarrow>
   (string \<Rightarrow> string + 'c BootstrapResult) \<Rightarrow> string \<Rightarrow> ManagedAgentBridgeLaunchBinding option \<Rightarrow>
   LaunchEffect list \<times> 'c LaunchOutcome"
where
  "launch_new aco w decode boot binary bridge =
     (let swept = fst (reap_orphaned_omegon_serves (lw_ps_again w) (lw_ppid w) (lw_self w) None);
          control_port = choose_auspex_control_port (lw_port_free w);
          (writes, fine) = ensure_omegon_profile_for_auspex (lw_files w) (lw_profile w)
            (preferred_authenticated_omegon_model (lw_profile_status w));
          before = swept @ map (\<lambda>(p, v). WriteProfile p v) writes
      in if \<not> fine then (before, LaunchPanics)
         else case omegon_control_tls_args_from_env (lw_env w) of
           Inl e \<Rightarrow> (before, Returned (startup_failure aco e))
         | Inr tls_args \<Rightarrow>
             (case lw_spawn w of
                Inl e \<Rightarrow>
                  (before, Returned (startup_failure aco (''Could not spawn owned Omegon backend at '' @ binary @ '': '' @ e @ ''.'')))
              | Inr (pid, captured) \<Rightarrow>
                  (case await_child aco w decode boot binary captured of
                     (after, outcome) \<Rightarrow>
                       (before @ [spawn_child w bridge binary tls_args control_port] @
                        (case pid of None \<Rightarrow> [] | Some p \<Rightarrow> [WritePidFile (show_nat p)]) @ after, outcome))))"

definition spawn_and_attach_omegon_with_bridge ::
  "'c controller_ops \<Rightarrow> launch_world \<Rightarrow> (string \<Rightarrow> OmegonStartupInfo option) \<Rightarrow>
   (string \<Rightarrow> string + 'c BootstrapResult) \<Rightarrow> string \<Rightarrow> ManagedAgentBridgeLaunchBinding option \<Rightarrow>
   LaunchEffect list \<times> 'c LaunchOutcome"
where
  "spawn_and_attach_omegon_with_bridge aco w decode boot binary bridge =
     (case attach_existing w boot of
        (swept, Some r) \<Rightarrow> (swept, Returned r)
      | (swept, None) \<Rightarrow>
          (case launch_new aco w decode boot binary bridge of (effects, outcome) \<Rightarrow> (swept @ effects, outcome)))"

text \<open>A restart ends the recorded child and every other owned runtime first.\<close>

definition restart_owned_omegon ::
  "'c controller_ops \<Rightarrow> launch_world \<Rightarrow> OmegonCompatibilityManifest \<Rightarrow> (string \<Rightarrow> OmegonStartupInfo option) \<Rightarrow>
   (string \<Rightarrow> string + 'c BootstrapResult) \<Rightarrow> string option \<Rightarrow> string option \<Rightarrow> string option \<Rightarrow>
   LaunchEffect list \<times> 'c LaunchOutcome option"
where
  "restart_owned_omegon aco w pinned decode boot pid_file ps_child ps_sweep =
     (let reaped = reap_owned_omegon_child pid_file ps_child @
            fst (reap_orphaned_omegon_serves ps_sweep (lw_ppid w) (lw_self w) None)
      in case find_omegon_binary (lw_env w) (lw_files w) pinned of
           None \<Rightarrow> (reaped, None)
         | Some binary \<Rightarrow>
             (case spawn_and_attach_omegon_with_bridge aco w decode boot binary None of
                (effects, outcome) \<Rightarrow> (reaped @ effects, Some outcome)))"

end
