(* ===== verification/Launch_Spawn_Props.thy ===== *)
theory Launch_Spawn_Props
  imports Launch_Spawn
begin

text \<open>
  When the launch of a runtime ends and what it leaves behind, which transport a session gets, how
  failures are reported, and which model and profile the runtime is started with.
\<close>

section \<open>The handshake\<close>

definition ends_launch :: "(string \<Rightarrow> OmegonStartupInfo option) \<Rightarrow> LaunchEvent \<Rightarrow> bool" where
  "ends_launch decode e \<longleftrightarrow>
     (case e of
        StdoutLine line \<Rightarrow>
          trim line \<noteq> [] \<and> (case decode (trim line) of None \<Rightarrow> False | Some info \<Rightarrow> 0 < osi_schema_version info)
      | StdoutEnd \<Rightarrow> True
      | StderrLine _ \<Rightarrow> False
      | StderrEnd \<Rightarrow> False
      | Deadline \<Rightarrow> True)"

lemma read_startup_ends:
  "ends_launch decode (events (i + k)) \<Longrightarrow> \<exists>r. read_startup decode events i tail = Some r"
proof (induction k arbitrary: i tail)
  case 0
  then show ?case
    by (subst read_startup.simps) (auto simp: ends_launch_def split: LaunchEvent.splits option.splits)
next
  case (Suc k)
  then have "\<exists>r. read_startup decode events (Suc i) tail = Some r" for tail by simp
  then show ?case
    by (subst read_startup.simps) (simp split: LaunchEvent.split option.split)
qed

lemma read_startup_stopped:
  "read_startup decode events i tail = Some r \<Longrightarrow> \<exists>n\<ge>i. ends_launch decode (events n)"
proof (induction rule: read_startup.raw_induct [rotated, consumes 1])
  case (1 f decode events i tail r)
  show ?case
  proof (cases "ends_launch decode (events i)")
    case True
    then show ?thesis by blast
  next
    case False
    with 1(2) obtain tail' where "f decode events (Suc i) tail' = Some r"
      by (cases "events i") (auto simp: ends_launch_def split: option.splits if_splits)
    with 1(1) show ?thesis by (meson Suc_leD)
  qed
qed

text \<open>
  C31: The wait for the handshake ends exactly if at some time the runtime prints its startup
  information, closes its output, or the deadline passes; closed or noisy error output alone never
  ends it.
\<close>

theorem handshake_ends_exactly_on_its_events:
  "(\<exists>r. read_startup decode events 0 [] = Some r) \<longleftrightarrow> (\<exists>n. ends_launch decode (events n))"
  using read_startup_ends [of decode events 0] read_startup_stopped [of decode events 0 "[]"] by auto

lemma push_tail_bounded: "length tail \<le> 8 \<Longrightarrow> length (push_tail line tail) \<le> 8"
  by (simp add: push_tail_def Let_def)

lemma stderr_tail_bounded:
  "read_startup decode events i tail = Some r \<Longrightarrow> length tail \<le> 8 \<Longrightarrow> length (snd r) \<le> 8"
proof (induction rule: read_startup.raw_induct [rotated, consumes 1])
  case (1 f decode events i tail r)
  have "length (push_tail line tail) \<le> 8" for line using 1(3) by (rule push_tail_bounded)
  with 1 show ?case by (auto split: LaunchEvent.splits option.splits if_splits)
qed

section \<open>The child\<close>

lemma sweep_keeps_children:
  "KillChild \<notin> set (fst (reap_orphaned_omegon_serves ps ppid self keep))"
proof -
  have "KillChild \<notin> set (fst (reap_candidates protected keep cs))" for protected cs
    by (induction protected keep cs rule: reap_candidates.induct) (auto split: prod.split)
  from this [of "protected_pids ppid self" "owned_omegon_processes ps"] show ?thesis
    by (auto simp: reap_orphaned_omegon_serves_def Let_def split: prod.splits)
qed

text \<open>The launch reaches its child: the profiles were corrected and the TLS settings are complete.\<close>

definition launch_reached ::
  "launch_world \<Rightarrow> bool"
where
  "launch_reached w \<longleftrightarrow>
     snd (ensure_omegon_profile_for_auspex (lw_files w) (lw_profile w)
       (preferred_authenticated_omegon_model (lw_profile_status w))) \<and>
     is_ok (omegon_control_tls_args_from_env (lw_env w))"

text \<open>
  C32: A launch ends the child it has started exactly if the child's output was not captured or the
  handshake failed.  After the handshake no failure ends it: a runtime that never becomes ready is
  reported as failed and goes on running.
\<close>

theorem child_is_ended_only_before_the_handshake:
  "KillChild \<in> set (fst (launch_new aco w decode boot binary bridge)) \<longleftrightarrow>
     launch_reached w \<and>
     (case lw_spawn w of
        Inl _ \<Rightarrow> False
      | Inr (_, captured) \<Rightarrow>
          if captured then (case read_startup decode (lw_events w) 0 [] of Some (None, _) \<Rightarrow> True | _ \<Rightarrow> False) else True)"
proof -
  obtain writes fine where profiles: "ensure_omegon_profile_for_auspex (lw_files w) (lw_profile w)
      (preferred_authenticated_omegon_model (lw_profile_status w)) = (writes, fine)" by force
  have child: "KillChild \<in> set (fst (await_child aco w decode boot binary captured)) \<longleftrightarrow>
      (if captured then (case read_startup decode (lw_events w) 0 [] of Some (None, _) \<Rightarrow> True | _ \<Rightarrow> False) else True)"
    for captured
    by (auto simp: await_child_def split: option.split)
  have before: "KillChild \<notin> set (fst (reap_orphaned_omegon_serves (lw_ps_again w) (lw_ppid w) (lw_self w) None) @
      map (\<lambda>(p, v). WriteProfile p v) writes)"
    using sweep_keeps_children by auto
  show ?thesis
  proof (cases "launch_reached w")
    case False
    with before show ?thesis
      by (auto simp: launch_new_def launch_reached_def profiles Let_def is_ok_def split: sum.split)
  next
    case True
    then obtain tls where tls: "omegon_control_tls_args_from_env (lw_env w) = Ok tls" and fine
      by (auto simp: launch_reached_def profiles is_ok_def split: sum.splits)
    show ?thesis
    proof (cases "lw_spawn w")
      case (Inl e)
      with before show ?thesis by (simp add: launch_new_def profiles tls \<open>fine\<close>)
    next
      case (Inr r)
      obtain pid captured where r: "r = (pid, captured)" by force
      obtain later outcome where await: "await_child aco w decode boot binary captured = (later, outcome)"
        by force
      have "KillChild \<in> set (fst (launch_new aco w decode boot binary bridge)) \<longleftrightarrow> KillChild \<in> set later"
        using before
        by (auto simp: launch_new_def profiles tls \<open>fine\<close> Inr r await spawn_child_def split: option.splits)
      with child [of captured] True show ?thesis by (simp add: await Inr r)
    qed
  qed
qed

section \<open>Transports\<close>

text \<open>
  A session that was attached has exactly one stream of events, and its commands take the same
  way: over the socket the runtime has advertised, after a handshake with the capabilities of both
  directions, or over the WebSocket.
\<close>

theorem attached_session_has_one_transport:
  "case bootstrap_from_http_state aco ba url hints of
     Inl _ \<Rightarrow> True
   | Inr r \<Rightarrow>
       (case negotiate_native_ipc (ba_ipc ba) (fetch_startup_info_async ba url hints) of
          Inr (socket, hello, snapshot) \<Rightarrow>
            bre_ipc_event_stream r = Some socket \<and> bre_event_stream r = None \<and>
            bre_command_transport r = Some (IpcTransport socket) \<and>
            {''state.snapshot'', ''events.stream''} \<subseteq> set (hel_capabilities hello) \<and>
            ipc_server_instance_id (iss_control_plane snapshot) = hel_server_instance_id hello
        | Inl _ \<Rightarrow>
            bre_ipc_event_stream r = None \<and> bre_event_stream r \<noteq> None \<and>
            bre_command_transport r = Some EventStreamTransport)"
proof (cases "bootstrap_from_http_state aco ba url hints")
  case (Inr r)
  let ?n = "negotiate_native_ipc (ba_ipc ba) (fetch_startup_info_async ba url hints)"
  have "{''state.snapshot'', ''events.stream''} \<subseteq> set (hel_capabilities hello) \<and>
      ipc_server_instance_id (iss_control_plane snapshot) = hel_server_instance_id hello"
    if "?n = Inr (socket, hello, snapshot)" for socket hello snapshot
    using that by (auto simp: negotiate_native_ipc_def map_err_def and_then_def
        split: option.splits if_splits sum.splits)
  with Inr show ?thesis
    by (cases ?n) (auto simp: bootstrap_from_http_state_def and_then_def map_err_def Let_def
        split: sum.splits option.splits HttpFetch.splits)
qed simp

section \<open>Failures\<close>

lemma contains_str_elements: "contains_str needle s \<Longrightarrow> set needle \<subseteq> set s"
  by (auto simp: contains_str_iff)

text \<open>
  C33: A runtime of another startup schema is reported as a failed start, never as incompatible: the
  caller looks for a phrase that the message does not contain.
\<close>

theorem schema_mismatch_is_reported_as_startup_failure:
  assumes "ba_client ba = Ok ()" and "fetch_startup_info_async ba url hints = Some info"
    and "osi_schema_version info \<noteq> ocm_web_startup_schema (ba_manifest ba)"
  shows "\<exists>note. complete_http_bootstrap aco ba url hints = startup_failure aco note"
proof -
  define message where "message =
    ''Auspex requires web startup schema '' @ show_nat (unat (ocm_web_startup_schema (ba_manifest ba))) @
    '', but Omegon reported schema '' @ show_nat (unat (osi_schema_version info)) @ ''.''"
  have "bootstrap_from_http_state aco ba url hints = Err message"
    using assms by (simp add: bootstrap_from_http_state_def validate_startup_info_def message_def)
  moreover have "CHR ''-'' \<notin> set (show_nat n)" for n
    using show_nat_digits [of "CHR ''-''" n] by auto
  then have "CHR ''-'' \<notin> set message" by (simp add: message_def)
  then have "\<not> contains_str ''control-plane schema'' message"
    using contains_str_elements [of "''control-plane schema''" message] by auto
  ultimately show ?thesis by (auto simp: complete_http_bootstrap_def attach_failure_def)
qed

section \<open>Models and profiles\<close>

definition logged_in :: "string \<Rightarrow> string + DesktopAuthSnapshot \<Rightarrow> bool" where
  "logged_in provider status \<longleftrightarrow>
     (case status of
        Inl _ \<Rightarrow> False
      | Inr ps \<Rightarrow> list_ex (\<lambda>p. pas_authenticated p \<and> provider_status_key (pas_name p) = provider) ps)"

text \<open>
  The model of the coordinator is the one of the first authenticated provider.  That of the first
  provider carries its name already, so that the runtime is started with the name twice.
\<close>

theorem launched_model_of_the_providers:
  "launch_model (preferred_authenticated_omegon_model status) =
     (if logged_in ''openai-codex'' status then ''openai-codex:openai-codex:gpt-5.5''
      else if logged_in ''anthropic'' status then ''anthropic:claude-sonnet-4-6''
      else if logged_in ''ollama-cloud'' status then ''ollama-cloud:gpt-oss:120b-cloud''
      else ''anthropic:claude-sonnet-4-6'')"
  by (cases status)
    (simp_all add: launch_model_def preferred_authenticated_omegon_model_def preferred_models_def
      logged_in_def AUSPEX_PRIMARY_DEFAULT_MODEL_def)

lemma text_field_jset:
  "jset k x v = Some v' \<Longrightarrow> jok v \<Longrightarrow> text_field v' l = (if l = k then as_str x else text_field v l)"
  using jset_Some [of k x v v' l] by (simp add: text_field_def)

lemma set_if_fields:
  "set_if b k x v = Some v' \<Longrightarrow> jok v \<Longrightarrow>
   jok v' \<and> jget v' l = (if b \<and> l = k then Some x else jget v l)"
  using jset_Some [of k x v v' l] by (auto simp: set_if_def split: if_splits)

text \<open>
  One correction of a profile is enough: a second look at the corrected profile finds nothing to
  change.
\<close>

theorem corrected_profile_is_stable:
  assumes "ensure_profile_uses_model (Some profile) preferred = Rewritten updated" and "jok profile"
  shows "ensure_profile_uses_model (Some updated) preferred = Untouched"
proof -
  define provider where "provider v = Option.bind (jget v ''lastUsedModel'') (\<lambda>m. text_field m ''provider'')" for v
  define fix_model where "fix_model = (case preferred of None \<Rightarrow> False | Some (p, _) \<Rightarrow> provider profile \<noteq> Some p)"
  define fix_posture where "fix_posture = (text_field profile ''defaultPosture'' \<noteq> Some ''architect'')"
  define fix_thinking where "fix_thinking = (text_field profile ''thinkingLevel'' \<noteq> Some ''medium'')"
  obtain v1 v2 where
    v1: "(case preferred of None \<Rightarrow> Some profile
          | Some (p, m) \<Rightarrow> set_if fix_model ''lastUsedModel'' (jobj [(''provider'', JStr p), (''modelId'', JStr m)]) profile) = Some v1"
    and v2: "set_if fix_posture ''defaultPosture'' (JStr ''architect'') v1 = Some v2"
    and v3: "set_if fix_thinking ''thinkingLevel'' (JStr ''medium'') v2 = Some updated"
    using assms(1)
    unfolding ensure_profile_uses_model_def option.case Let_def provider_def [symmetric]
      fix_model_def [symmetric] fix_posture_def [symmetric] fix_thinking_def [symmetric]
    by (auto simp: bind_eq_Some_conv split: if_splits option.splits)
  have ok1: "jok v1" and f1: "\<And>l. l \<noteq> ''lastUsedModel'' \<Longrightarrow> jget v1 l = jget profile l"
    and m1: "case preferred of None \<Rightarrow> True | Some (p, _) \<Rightarrow> provider v1 = Some p"
    using v1 assms(2) set_if_fields [of fix_model "''lastUsedModel''" _ profile v1]
    by (auto simp: provider_def fix_model_def text_field_def jget_jobj split: option.splits prod.splits if_splits)
  have ok2: "jok v2" and f2: "jget v2 l = (if fix_posture \<and> l = ''defaultPosture'' then Some (JStr ''architect'') else jget v1 l)" for l
    using set_if_fields [OF v2 ok1] by auto
  have f3: "jget updated l = (if fix_thinking \<and> l = ''thinkingLevel'' then Some (JStr ''medium'') else jget v2 l)" for l
    using set_if_fields [OF v3 ok2] by auto
  have "case preferred of None \<Rightarrow> True | Some (p, _) \<Rightarrow> provider updated = Some p"
    using m1 by (simp add: provider_def f3 f2 split: option.splits prod.splits)
  moreover have "text_field updated ''defaultPosture'' = Some ''architect''"
    by (cases fix_posture) (simp_all add: text_field_def f3 f2 f1 fix_posture_def)
  moreover have "text_field updated ''thinkingLevel'' = Some ''medium''"
    by (cases fix_thinking) (simp_all add: text_field_def f3 f2 f1 fix_thinking_def)
  ultimately show ?thesis
    by (auto simp: ensure_profile_uses_model_def provider_def split: option.splits prod.splits)
qed

text \<open>A profile that is neither an object nor null ends the launch.\<close>

lemma list_profile_panics: "ensure_profile_uses_model (Some (JArr vs)) preferred = Panicked"
  by (auto simp: ensure_profile_uses_model_def text_field_def jget_def set_if_def jset_def
      split: option.splits prod.splits)

text \<open>A row of a provider that is not logged in and has no method reports its name as the method.\<close>

lemma lone_name_is_its_method:
  "auth_row (CROSS @ '' github'') =
     Some \<lparr>pas_name = ''github'', pas_authenticated = False, pas_auth_method = Some ''github'',
           pas_detail = ''github''\<rparr>"
  by code_simp

section \<open>Examples\<close>

definition trace_controller :: "string list controller_ops" where
  "trace_controller =
     \<lparr>aco_default = [], aco_stored = (\<lambda>c. c @ [''stored'']), aco_with_audit = (\<lambda>c. c @ [''audit'']),
      aco_from_snapshot = (\<lambda>body. Ok [body]), aco_set_scenario = (\<lambda>_ c. c @ [''scenario'']),
      aco_select_scenario = (\<lambda>s c. c @ [s]), aco_set_note = (\<lambda>s c. c @ [s]),
      aco_reattach_containers = (\<lambda>c. c @ [''containers'']), aco_register_remotes = (\<lambda>c. c @ [''remotes'']),
      aco_ipc_connected = (\<lambda>_ c. c @ [''ipc'']), aco_ipc_snapshot = (\<lambda>_ c. c @ [''snapshot'']),
      aco_websocket = (\<lambda>reason c. c @ [reason])\<rparr>"

definition other_schema :: OmegonStartupInfo where
  "other_schema =
     \<lparr>osi_schema_version = 3, osi_addr = [], osi_http_base = [], osi_state_url = [], osi_startup_url = [],
      osi_health_url = [], osi_ready_url = [], osi_ws_url = [], osi_acp_url = None, osi_token = [],
      osi_auth_mode = [], osi_auth_source = [], osi_transport_security = None, osi_mtls = None,
      osi_tls_secret = None, osi_tls_profile = None, osi_tls_ca_epoch = None, osi_tls_leaf_epoch = None,
      osi_tls_leaf_validity = None, osi_ca_fingerprint_sha256 = None, osi_server_fingerprint_sha256 = None,
      osi_control_plane_state = [], osi_instance_descriptor = None\<rparr>"

definition other_runtime :: "(nat, string) boot_api" where
  "other_runtime =
     \<lparr>ba_client = Ok (), ba_get = (\<lambda>_. Body ''startup''), ba_startup = (\<lambda>_. Some other_schema),
      ba_version = \<lparr>va_parse = (\<lambda>_. Ok 1), va_less = (<), va_show = show_nat\<rparr>,
      ba_manifest =
        \<lparr>ocm_minimum_version = ''1'', ocm_maximum_tested_version = ''1'', ocm_source_repository = ''r'',
         ocm_source_branch = ''b'', ocm_source_revision = ''c'', ocm_features = [],
         ocm_packaged_binary = ''p'', ocm_control_plane_schema = 2, ocm_web_startup_schema = 2,
         ocm_instance_descriptor_schema = 1, ocm_control_plane_protocol = 1\<rparr>,
      ba_url = \<lparr>ua_parse = Ok, ua_scheme = (\<lambda>_. ''http''), ua_set_scheme = (\<lambda>_. Some), ua_set_path = (\<lambda>_ u. u),
        ua_clear_query = id, ua_clear_fragment = id, ua_query_pairs = (\<lambda>_. []),
        ua_append_pair = (\<lambda>_ _ u. u), ua_text = id\<rparr>,
      ba_ipc = \<lparr>ica_available = (\<lambda>_. False), ica_inspect = (\<lambda>_. Err ''none''), ica_get_state = (\<lambda>_. Err ''none'')\<rparr>\<rparr>"

definition no_hints :: ConnectHints where
  "no_hints = \<lparr>chi_ws_url = None, chi_startup_url = None, chi_ws_token = None\<rparr>"

theorem schema_mismatch_is_reported_as_startup_failure_witness:
  "\<exists>note. complete_http_bootstrap trace_controller other_runtime ''http://h/api/state'' no_hints =
     startup_failure trace_controller note"
proof -
  have "fetch_startup_info_async other_runtime ''http://h/api/state'' no_hints = Some other_schema"
    by (simp add: fetch_startup_info_async_def other_runtime_def)
  then show ?thesis
    by (rule schema_mismatch_is_reported_as_startup_failure [rotated])
      (simp_all add: other_runtime_def other_schema_def)
qed

definition old_profile :: json where
  "old_profile = jobj [(''defaultPosture'', JStr ''fabricator'')]"

definition new_profile :: json where
  "new_profile = jobj [(''defaultPosture'', JStr ''architect''), (''thinkingLevel'', JStr ''medium'')]"

theorem corrected_profile_is_stable_example:
  "ensure_profile_uses_model (Some new_profile) None = Untouched"
proof -
  have "ensure_profile_uses_model (Some old_profile) None = Rewritten new_profile" by code_simp
  moreover have "jok old_profile" by (simp add: old_profile_def jok_jobj)
  ultimately show ?thesis by (rule corrected_profile_is_stable)
qed

end
