(* ===== verification/Local_Discovery.thy ===== *)
theory Local_Discovery
  imports Launch_Runtime
begin

text \<open>
  Local runtimes nobody has to configure (\<open>auspex-core/src/local_omegon_discovery.rs\<close>): candidates
  from the pid file, the process table and known ports, and how the evidence about one runtime is
  merged.  The pid file, the output of \<open>ps\<close> and HTTP are parameters; a path is its text.
\<close>

section \<open>Candidates\<close>

datatype LocalOmegonCandidateSource =
    AuspexOwnedPidFile
  | ProcessTable
  | KnownControlPort
  | ConfiguredLocal
  | IpcSocket

datatype LocalOmegonOwnership = AuspexOwned | UserOwned | Unknown

record LocalOmegonCandidate =
  loc_source :: LocalOmegonCandidateSource
  loc_ownership :: LocalOmegonOwnership
  loc_instance_id :: "string option"
  loc_pid :: "nat option"
  loc_command :: "string option"
  loc_cwd :: "string option"
  loc_startup_url :: "string option"
  loc_state_url :: "string option"
  loc_ipc_socket :: "string option"

definition auspex_owned_pid :: "nat \<Rightarrow> LocalOmegonCandidate" where
  "auspex_owned_pid pid =
     \<lparr>loc_source = AuspexOwnedPidFile, loc_ownership = AuspexOwned, loc_instance_id = None,
      loc_pid = Some pid, loc_command = None, loc_cwd = None, loc_startup_url = None,
      loc_state_url = None, loc_ipc_socket = None\<rparr>"

definition control_url :: "nat \<Rightarrow> string \<Rightarrow> string" where
  "control_url port path = ''http://127.0.0.1:'' @ show_nat port @ path"

definition known_control_port :: "nat \<Rightarrow> LocalOmegonCandidate" where
  "known_control_port port =
     \<lparr>loc_source = KnownControlPort, loc_ownership = Unknown, loc_instance_id = None,
      loc_pid = None, loc_command = None, loc_cwd = None,
      loc_startup_url = Some (control_url port ''/api/startup''),
      loc_state_url = Some (control_url port ''/api/state''), loc_ipc_socket = None\<rparr>"

definition with_instance_id :: "string \<Rightarrow> LocalOmegonCandidate \<Rightarrow> LocalOmegonCandidate" where
  "with_instance_id instance_id c = (if instance_id = [] then c else c\<lparr>loc_instance_id := Some instance_id\<rparr>)"

text \<open>The words of a command line; a flag at the end or with a bad number gives no port.\<close>

fun control_port_of :: "string list \<Rightarrow> nat option" where
  "control_port_of [] = None"
| "control_port_of (part # parts) =
     (if part = ''--control-port'' then
        (case parts of [] \<Rightarrow> None | v # _ \<Rightarrow> parse_unsigned 16 v)
      else case strip_prefix part ''--control-port='' of
             Some v \<Rightarrow> parse_unsigned 16 v
           | None \<Rightarrow> control_port_of parts)"

definition infer_control_port_from_command :: "string \<Rightarrow> nat option" where
  "infer_control_port_from_command command = control_port_of (split_whitespace command)"

definition infer_startup_url_from_command :: "string \<Rightarrow> string option" where
  "infer_startup_url_from_command command =
     map_option (\<lambda>port. control_url port ''/api/startup'') (infer_control_port_from_command command)"

definition infer_state_url_from_command :: "string \<Rightarrow> string option" where
  "infer_state_url_from_command command =
     map_option (\<lambda>port. control_url port ''/api/state'') (infer_control_port_from_command command)"

definition from_process_table :: "nat \<Rightarrow> string \<Rightarrow> LocalOmegonCandidate" where
  "from_process_table pid command =
     \<lparr>loc_source = ProcessTable, loc_ownership = UserOwned, loc_instance_id = None,
      loc_pid = Some pid, loc_command = Some command, loc_cwd = None,
      loc_startup_url = infer_startup_url_from_command command,
      loc_state_url = infer_state_url_from_command command, loc_ipc_socket = None\<rparr>"

definition is_omegon_serve_command :: "string \<Rightarrow> bool" where
  "is_omegon_serve_command command \<longleftrightarrow>
     contains_str ''omegon'' command \<and> contains_str ''serve'' command"

definition parse_process_line :: "string \<Rightarrow> (nat \<times> string) option" where
  "parse_process_line line =
     (case split_once (CHR '' '') (trim line) of
        None \<Rightarrow> None
      | Some (pid, command) \<Rightarrow>
          map_option (\<lambda>p. (p, trim command)) (parse_unsigned 32 (trim pid)))"

definition parse_omegon_process_table :: "string \<Rightarrow> LocalOmegonCandidate list" where
  "parse_omegon_process_table out =
     map (\<lambda>(pid, command). from_process_table pid command)
       (filter (\<lambda>(_, command). is_omegon_serve_command command)
         (List.map_filter parse_process_line (str_lines out)))"

definition discover_process_table_candidates :: "string option \<Rightarrow> LocalOmegonCandidate list" where
  "discover_process_table_candidates ps =
     (case ps of None \<Rightarrow> [] | Some out \<Rightarrow> parse_omegon_process_table out)"

definition discover_owned_pid_candidate :: "string option \<Rightarrow> LocalOmegonCandidate option" where
  "discover_owned_pid_candidate pid_file =
     map_option auspex_owned_pid (Option.bind pid_file (\<lambda>raw. parse_unsigned 32 (trim raw)))"

definition DEFAULT_LOCAL_CONTROL_PORTS :: "nat list" where
  "DEFAULT_LOCAL_CONTROL_PORTS = [7842]"

definition default_detect_scan_ports :: "nat list" where
  "default_detect_scan_ports = 7842 # [7843 ..< 7900] @ [7900 ..< 8000]"

definition discover_known_control_port_candidates :: "nat list \<Rightarrow> LocalOmegonCandidate list" where
  "discover_known_control_port_candidates ports = map known_control_port ports"

section \<open>Merging\<close>

fun strongest_ownership :: "LocalOmegonOwnership \<Rightarrow> LocalOmegonOwnership \<Rightarrow> LocalOmegonOwnership" where
  "strongest_ownership AuspexOwned _ = AuspexOwned"
| "strongest_ownership _ AuspexOwned = AuspexOwned"
| "strongest_ownership UserOwned _ = UserOwned"
| "strongest_ownership _ UserOwned = UserOwned"
| "strongest_ownership _ _ = Unknown"

definition merge_candidate :: "LocalOmegonCandidate \<Rightarrow> LocalOmegonCandidate \<Rightarrow> LocalOmegonCandidate" where
  "merge_candidate existing incoming =
     \<lparr>loc_source = (if loc_source incoming = AuspexOwnedPidFile then AuspexOwnedPidFile else loc_source existing),
      loc_ownership = strongest_ownership (loc_ownership existing) (loc_ownership incoming),
      loc_instance_id = or_else (loc_instance_id existing) (loc_instance_id incoming),
      loc_pid = or_else (loc_pid existing) (loc_pid incoming),
      loc_command = or_else (loc_command existing) (loc_command incoming),
      loc_cwd = or_else (loc_cwd existing) (loc_cwd incoming),
      loc_startup_url = or_else (loc_startup_url existing) (loc_startup_url incoming),
      loc_state_url = or_else (loc_state_url existing) (loc_state_url incoming),
      loc_ipc_socket = or_else (loc_ipc_socket existing) (loc_ipc_socket incoming)\<rparr>"

fun debug_source :: "LocalOmegonCandidateSource \<Rightarrow> string" where
  "debug_source AuspexOwnedPidFile = ''AuspexOwnedPidFile''"
| "debug_source ProcessTable = ''ProcessTable''"
| "debug_source KnownControlPort = ''KnownControlPort''"
| "debug_source ConfiguredLocal = ''ConfiguredLocal''"
| "debug_source IpcSocket = ''IpcSocket''"

definition candidate_evidence_key :: "LocalOmegonCandidate \<Rightarrow> string" where
  "candidate_evidence_key c =
     (case non_empty (loc_state_url c) of Some url \<Rightarrow> ''state:'' @ url | None \<Rightarrow>
     (case non_empty (loc_startup_url c) of Some url \<Rightarrow> ''startup:'' @ url | None \<Rightarrow>
     (case loc_pid c of Some pid \<Rightarrow> ''pid:'' @ show_nat pid | None \<Rightarrow>
     (case loc_ipc_socket c of Some socket \<Rightarrow> ''ipc:'' @ socket
      | None \<Rightarrow> ''source:'' @ debug_source (loc_source c)))))"

definition candidate_identity_key :: "LocalOmegonCandidate \<Rightarrow> string" where
  "candidate_identity_key c =
     (case non_empty (loc_instance_id c) of Some i \<Rightarrow> ''instance:'' @ i
      | None \<Rightarrow> candidate_evidence_key c)"

text \<open>\<open>entry(key).and_modify(merge).or_insert(candidate)\<close> for each candidate, then the values in key order.\<close>

definition add_candidate ::
  "(LocalOmegonCandidate \<Rightarrow> string) \<Rightarrow> LocalOmegonCandidate \<Rightarrow> (string, LocalOmegonCandidate) btree \<Rightarrow>
   (string, LocalOmegonCandidate) btree"
where
  "add_candidate key c m =
     bt_insert (key c) (case bt_get m (key c) of None \<Rightarrow> c | Some e \<Rightarrow> merge_candidate e c) m"

definition merged_by :: "(LocalOmegonCandidate \<Rightarrow> string) \<Rightarrow> LocalOmegonCandidate list \<Rightarrow> LocalOmegonCandidate list" where
  "merged_by key cs = map snd (fold (add_candidate key) cs bt_empty)"

definition merge_local_omegon_candidates :: "LocalOmegonCandidate list \<Rightarrow> LocalOmegonCandidate list" where
  "merge_local_omegon_candidates cs = merged_by candidate_identity_key (merged_by candidate_evidence_key cs)"

definition upgrade_owned_pid_candidates :: "LocalOmegonCandidate list \<Rightarrow> nat option \<Rightarrow> LocalOmegonCandidate list" where
  "upgrade_owned_pid_candidates cs owned_pid =
     map (\<lambda>c. if loc_pid c \<noteq> None \<and> loc_pid c = owned_pid
              then c\<lparr>loc_ownership := AuspexOwned, loc_source := AuspexOwnedPidFile\<rparr> else c) cs"

section \<open>Discovery\<close>

definition discover_local_omegon_candidates :: "string option \<Rightarrow> string option \<Rightarrow> LocalOmegonCandidate list" where
  "discover_local_omegon_candidates pid_file ps =
     (let owned = discover_owned_pid_candidate pid_file in
      merge_local_omegon_candidates
        ((case owned of None \<Rightarrow> [] | Some c \<Rightarrow> [c]) @
         upgrade_owned_pid_candidates (discover_process_table_candidates ps) (Option.bind owned loc_pid) @
         discover_known_control_port_candidates DEFAULT_LOCAL_CONTROL_PORTS))"

definition discover_attach_candidates :: "string option \<Rightarrow> string option \<Rightarrow> LocalOmegonCandidate list" where
  "discover_attach_candidates pid_file ps =
     merge_local_omegon_candidates
       (discover_local_omegon_candidates pid_file ps @
        discover_known_control_port_candidates default_detect_scan_ports)"

definition candidate_ready_url :: "LocalOmegonCandidate \<Rightarrow> string option" where
  "candidate_ready_url c =
     or_else (map_option (replace_all ''/api/startup'' ''/api/readyz'') (loc_startup_url c))
       (map_option (replace_all ''/api/state'' ''/api/readyz'') (loc_state_url c))"

definition candidate_state_url :: "LocalOmegonCandidate \<Rightarrow> string option" where
  "candidate_state_url c =
     or_else (loc_state_url c)
       (map_option (replace_all ''/api/startup'' ''/api/state'') (loc_startup_url c))"

text \<open>\<open>fetch\<close> is the JSON body of a successful request.\<close>

definition probe_instance_id_from_url :: "(string \<Rightarrow> json option) \<Rightarrow> string \<Rightarrow> string option" where
  "probe_instance_id_from_url fetch url =
     Option.bind (fetch url) (\<lambda>v.
       non_empty (Option.bind
         (or_else (pointer v [''instance_descriptor'', ''identity'', ''instance_id''])
           (pointer v [''session'', ''instance_descriptor'', ''identity'', ''instance_id'']))
         as_str))"

definition probe_candidate_instance_id ::
  "(string \<Rightarrow> json option) \<Rightarrow> string option \<Rightarrow> string option \<Rightarrow> string option"
where
  "probe_candidate_instance_id fetch startup_url state_url =
     or_else (Option.bind startup_url (probe_instance_id_from_url fetch))
       (Option.bind state_url (probe_instance_id_from_url fetch))"

definition enrich_candidate_with_instance_id ::
  "(string \<Rightarrow> json option) \<Rightarrow> LocalOmegonCandidate \<Rightarrow> LocalOmegonCandidate option"
where
  "enrich_candidate_with_instance_id fetch c =
     map_option (\<lambda>state_url.
       if loc_instance_id c = None
       then c\<lparr>loc_instance_id := probe_candidate_instance_id fetch (loc_startup_url c) (Some state_url)\<rparr>
       else c)
       (candidate_state_url c)"

definition discover_enriched_attach_candidates ::
  "(string \<Rightarrow> json option) \<Rightarrow> string option \<Rightarrow> string option \<Rightarrow> LocalOmegonCandidate list"
where
  "discover_enriched_attach_candidates fetch pid_file ps =
     merge_local_omegon_candidates
       (List.map_filter (enrich_candidate_with_instance_id fetch) (discover_attach_candidates pid_file ps))"

end
