(* ===== verification/Local_Discovery_Props.thy ===== *)
theory Local_Discovery_Props
  imports Local_Discovery
begin

text \<open>
  What merging keeps: one entry per identity, and the ownership of what it merges.
\<close>

section \<open>Keys survive a merge\<close>

lemma non_empty_or_else:
  "non_empty (or_else a b) = (if a = None then non_empty b else non_empty a)"
  by (cases a) simp_all

lemmas key_defs = candidate_evidence_key_def non_empty_or_else merge_candidate_def

lemma evidence_key_merge:
  assumes "candidate_evidence_key c = candidate_evidence_key e"
  shows "candidate_evidence_key (merge_candidate e c) = candidate_evidence_key e"
proof (cases "non_empty (loc_state_url e)")
  case (Some u)
  then show ?thesis by (auto simp: key_defs)
next
  case no_state: None
  with assms have c_state: "non_empty (loc_state_url c) = None"
    by (auto simp: key_defs split: option.splits)
  show ?thesis
  proof (cases "non_empty (loc_startup_url e)")
    case (Some u)
    with no_state c_state show ?thesis by (auto simp: key_defs)
  next
    case no_startup: None
    with assms no_state c_state have c_startup: "non_empty (loc_startup_url c) = None"
      by (auto simp: key_defs split: option.splits)
    from assms no_state c_state no_startup c_startup show ?thesis
      by (auto simp: key_defs split: option.splits)
  qed
qed

lemma identity_key_merge:
  assumes "candidate_identity_key c = candidate_identity_key e"
  shows "candidate_identity_key (merge_candidate e c) = candidate_identity_key e"
proof (cases "non_empty (loc_instance_id e)")
  case (Some i)
  then show ?thesis by (auto simp: candidate_identity_key_def key_defs)
next
  case none: None
  with assms have c_none: "non_empty (loc_instance_id c) = None"
    by (auto simp: candidate_identity_key_def candidate_evidence_key_def split: option.splits)
  from assms none c_none have "candidate_evidence_key c = candidate_evidence_key e"
    by (simp add: candidate_identity_key_def)
  from evidence_key_merge [OF this] have "candidate_evidence_key (merge_candidate e c) = candidate_evidence_key e" .
  moreover have "non_empty (loc_instance_id (merge_candidate e c)) = None"
    using none c_none by (simp add: merge_candidate_def non_empty_or_else)
  ultimately show ?thesis using none by (simp add: candidate_identity_key_def)
qed

text \<open>The map holds every candidate under its own key.\<close>

definition keyed_by :: "(LocalOmegonCandidate \<Rightarrow> string) \<Rightarrow> (string, LocalOmegonCandidate) btree \<Rightarrow> bool" where
  "keyed_by key m \<longleftrightarrow> bt_ok m \<and> bt.all_values (\<lambda>k c. key c = k) m"

lemma keyed_by_add:
  assumes key: "\<And>c e. key c = key e \<Longrightarrow> key (merge_candidate e c) = key e"
  shows "keyed_by key m \<Longrightarrow> keyed_by key (add_candidate key c m)"
  unfolding keyed_by_def add_candidate_def
  by (auto simp: bt.ok_insert key split: option.splits intro!: bt.all_values_insert dest: bt.all_valuesD)

lemma keyed_by_fold:
  assumes key: "\<And>c e. key c = key e \<Longrightarrow> key (merge_candidate e c) = key e"
  shows "keyed_by key m \<Longrightarrow> keyed_by key (fold (add_candidate key) cs m)"
  by (induction cs arbitrary: m) (simp_all add: keyed_by_add key)

lemma keyed_by_keys: "keyed_by key m \<Longrightarrow> map (key \<circ> snd) m = map fst m"
  unfolding keyed_by_def
  by (auto dest!: bt.all_valuesD simp flip: bt.entries_get)

lemma merged_by_distinct:
  assumes key: "\<And>c e. key c = key e \<Longrightarrow> key (merge_candidate e c) = key e"
  shows "distinct (map key (merged_by key cs))"
proof -
  have start: "keyed_by key bt_empty"
    by (simp add: keyed_by_def bt.ok_empty bt.all_values_empty)
  let ?m = "fold (add_candidate key) cs bt_empty"
  have "keyed_by key ?m" by (rule keyed_by_fold [OF key start])
  moreover from this have "distinct (map fst ?m)"
    by (simp add: keyed_by_def bt_ok_distinct)
  ultimately show ?thesis
    using keyed_by_keys [of key ?m] unfolding merged_by_def map_map by metis
qed

text \<open>
  Whatever is discovered, the merged list has one entry per identity: no two entries share an
  instance id, and no two entries without one share a URL, a process or a socket.
\<close>

theorem merged_candidates_are_distinct:
  "distinct (map candidate_identity_key (merge_local_omegon_candidates cs))"
  unfolding merge_local_omegon_candidates_def
  by (rule merged_by_distinct) (rule identity_key_merge)

section \<open>Ownership survives a merge\<close>

abbreviation owned_in :: "LocalOmegonCandidate list \<Rightarrow> bool" where
  "owned_in cs \<equiv> list_ex (\<lambda>c. loc_ownership c = AuspexOwned) cs"

lemma strongest_ownership_owned:
  "strongest_ownership a b = AuspexOwned \<longleftrightarrow> a = AuspexOwned \<or> b = AuspexOwned"
  by (cases a; cases b) simp_all

lemma bt_ok_add: "bt_ok m \<Longrightarrow> bt_ok (add_candidate key c m)"
  by (simp add: add_candidate_def bt.ok_insert)

lemma owned_in_values:
  "bt_ok m \<Longrightarrow> owned_in (map snd m) \<longleftrightarrow> (\<exists>k c. bt_get m k = Some c \<and> loc_ownership c = AuspexOwned)"
  by (force simp: list_ex_iff simp flip: bt.entries_get)

lemma owned_in_add:
  assumes "bt_ok m"
  shows "owned_in (map snd (add_candidate key c m)) \<longleftrightarrow> owned_in (c # map snd m)"
proof -
  let ?v = "case bt_get m (key c) of None \<Rightarrow> c | Some e \<Rightarrow> merge_candidate e c"
  have get: "bt_get (add_candidate key c m) k = (if k = key c then Some ?v else bt_get m k)" for k
    using assms by (simp add: add_candidate_def bt.get_insert)
  have own: "loc_ownership ?v = AuspexOwned \<longleftrightarrow>
      loc_ownership c = AuspexOwned \<or> (\<exists>e. bt_get m (key c) = Some e \<and> loc_ownership e = AuspexOwned)"
    by (auto simp: merge_candidate_def strongest_ownership_owned split: option.splits)
  show ?thesis (is "?l \<longleftrightarrow> ?r")
  proof
    assume ?l
    then obtain k e where e: "bt_get (add_candidate key c m) k = Some e" "loc_ownership e = AuspexOwned"
      by (auto simp: owned_in_values [OF bt_ok_add [OF assms]])
    show ?r
    proof (cases "k = key c")
      case True
      with e own show ?thesis by (auto simp: get owned_in_values [OF assms])
    next
      case False
      with e show ?thesis by (auto simp: get owned_in_values [OF assms])
    qed
  next
    assume r: ?r
    show ?l
    proof (cases "loc_ownership ?v = AuspexOwned")
      case True
      with get [of "key c"] show ?thesis
        unfolding owned_in_values [OF bt_ok_add [OF assms]] by (intro exI [of _ "key c"]) simp
    next
      case False
      with own r obtain k e where "bt_get m k = Some e" "loc_ownership e = AuspexOwned" "k \<noteq> key c"
        by (auto simp: owned_in_values [OF assms])
      with get [of k] show ?thesis
        unfolding owned_in_values [OF bt_ok_add [OF assms]] by (intro exI [of _ k]) simp
    qed
  qed
qed

lemma owned_in_fold:
  "bt_ok m \<Longrightarrow> owned_in (map snd (fold (add_candidate key) cs m)) \<longleftrightarrow> owned_in (cs @ map snd m)"
  by (induction cs arbitrary: m) (simp_all add: owned_in_add bt_ok_add disj_commute disj_left_commute)

lemma merged_by_owned: "owned_in (merged_by key cs) \<longleftrightarrow> owned_in cs"
  unfolding merged_by_def by (subst owned_in_fold) (simp_all add: bt.ok_empty, simp add: bt_empty_def)

text \<open>
  Merging neither loses nor invents ownership: an entry belongs to Auspex after the merge
  exactly if some candidate did before.
\<close>

theorem merging_keeps_ownership:
  "list_ex (\<lambda>c. loc_ownership c = AuspexOwned) (merge_local_omegon_candidates cs) \<longleftrightarrow>
   list_ex (\<lambda>c. loc_ownership c = AuspexOwned) cs"
  by (simp add: merge_local_omegon_candidates_def merged_by_owned)

text \<open>
  The owned runtime is listed twice once its row in the process table tells a port: the entry of the
  pid file is known by its process, the row by its URL, and neither step merges the two.
\<close>

lemma owned_runtime_is_listed_twice:
  assumes "infer_control_port_from_command command = Some port"
  shows "map loc_pid (merge_local_omegon_candidates
           (auspex_owned_pid pid # upgrade_owned_pid_candidates [from_process_table pid command] (Some pid))) =
         [Some pid, Some pid]"
  by (simp add: assms merge_local_omegon_candidates_def merged_by_def add_candidate_def bt_empty_def bt_get_def
      upgrade_owned_pid_candidates_def from_process_table_def auspex_owned_pid_def candidate_evidence_key_def
      candidate_identity_key_def infer_state_url_from_command_def infer_startup_url_from_command_def control_url_def)

end
