(* ===== verification/Gateway_Projection.thy ===== *)
theory Gateway_Projection
  imports Fleet_View
begin

text \<open>
  The read-only view of the fleet behind the gateway (\<open>auspex-core/src/gateway_projection.rs\<close>):
  namespaces of capabilities, how far the service of the fleet is degraded, and the answers to the
  three methods.
\<close>

section \<open>Methods and namespaces\<close>

definition GATEWAY_PROJECTION_SCHEMA_VERSION :: u32 where
  "GATEWAY_PROJECTION_SCHEMA_VERSION = 1"

datatype GatewayProjectionMethod = FleetStatus | InstancesList | CapabilitiesQuery

fun method_as_str :: "GatewayProjectionMethod \<Rightarrow> string" where
  "method_as_str FleetStatus = ''auspex/fleet/status''"
| "method_as_str InstancesList = ''auspex/instances/list''"
| "method_as_str CapabilitiesQuery = ''auspex/capabilities/query''"

datatype CapabilityNamespace =
    AcpNs | AuspexNs | OmegonNs | StyreneNs | HostActionNs | NexNs | NexSubstrateNs | ArmoryNs
  | EvidenceNs | ProjectRulesNs | TddSavepointNs | ToolNs | BinaryNs | PackageNs | ExtensionNs
  | RuntimeNs | ServiceNs | UnknownNs

definition begins_with_any :: "string list \<Rightarrow> string \<Rightarrow> bool" where
  "begins_with_any prefixes name \<longleftrightarrow> list_ex (starts_with name) prefixes"

definition tool_namespace :: "string \<Rightarrow> CapabilityNamespace" where
  "tool_namespace name =
     (if begins_with_any [''acp/'', ''acp.''] name then AcpNs
      else if begins_with_any [''auspex/''] name then AuspexNs
      else if begins_with_any [''omegon/''] name then OmegonNs
      else if begins_with_any [''styrene/''] name then StyreneNs
      else if begins_with_any [''nex_substrate'', ''nex-substrate'', ''nex/substrate''] name then NexSubstrateNs
      else if begins_with_any [''nex'', ''nex/''] name then NexNs
      else if begins_with_any [''evidence.'', ''evidence/''] name then EvidenceNs
      else if begins_with_any [''project-rules.'', ''project_rules.''] name then ProjectRulesNs
      else if begins_with_any [''tdd_savepoint.'', ''tdd-savepoint.'', ''tdd.savepoint.''] name then TddSavepointNs
      else if begins_with_any [''armory'', ''armory/''] name then ArmoryNs
      else ToolNs)"

definition namespace_from_key :: "CapabilityKey \<Rightarrow> CapabilityNamespace" where
  "namespace_from_key key =
     (case key_kind key of
        CapabilityKind.HostAction \<Rightarrow> HostActionNs
      | CapabilityKind.Binary \<Rightarrow> BinaryNs
      | CapabilityKind.Package \<Rightarrow> PackageNs
      | CapabilityKind.Extension \<Rightarrow> ExtensionNs
      | CapabilityKind.Runtime \<Rightarrow> RuntimeNs
      | CapabilityKind.Service \<Rightarrow> ServiceNs
      | CapabilityKind.Tool \<Rightarrow> tool_namespace (key_name key))"

record GatewayMethodDescriptor =
  gmd_name :: string
  gmd_method :: GatewayProjectionMethod
  gmd_read_only :: bool

definition projection_method_registry :: "GatewayMethodDescriptor list" where
  "projection_method_registry =
     map (\<lambda>m. \<lparr>gmd_name = method_as_str m, gmd_method = m, gmd_read_only = True\<rparr>)
       [FleetStatus, InstancesList, CapabilitiesQuery]"

section \<open>Degradation\<close>

datatype GatewayDegradationMode = FullMode | DegradedMode | AcpOnlyMode | UnsupportedMode

record GatewayDegradation =
  gd_mode :: GatewayDegradationMode
  gd_reasons :: "string list"
  gd_unavailable :: "string list"
  gd_fallback :: "string list"

definition no_degradation :: GatewayDegradation where
  "no_degradation = \<lparr>gd_mode = FullMode, gd_reasons = [], gd_unavailable = [], gd_fallback = []\<rparr>"

definition instance_supports_host_actions :: "'v FleetInstanceProjection \<Rightarrow> bool" where
  "instance_supports_host_actions i \<longleftrightarrow>
     (case fip_operational_profile i of None \<Rightarrow> False | Some p \<Rightarrow> opc_host_actions (op_capabilities p)) \<or>
     (case fip_capabilities i of
        None \<Rightarrow> False
      | Some snap \<Rightarrow>
          list_ex (\<lambda>e. namespace_from_key (ev_key e) = HostActionNs \<and> ev_status e = CapabilityStatus.Present)
            (cap_evidence snap))"

definition profile_reports :: "(OperationalCapabilities \<Rightarrow> bool) \<Rightarrow> 'v FleetInstanceProjection \<Rightarrow> bool" where
  "profile_reports f i \<longleftrightarrow>
     (case fip_operational_profile i of None \<Rightarrow> False | Some p \<Rightarrow> f (op_capabilities p))"

definition count_missing :: "('v FleetInstanceProjection \<Rightarrow> bool) \<Rightarrow> 'v FleetInstanceProjection list \<Rightarrow> nat" where
  "count_missing P is = length (filter (\<lambda>i. \<not> P i) is)"

text \<open>
  One finding: the count, the reason that follows it, and the surface it makes unavailable (\<open>Inl\<close>)
  or the fallback it leads to (\<open>Inr\<close>).
\<close>

definition fleet_findings :: "'v FleetRuntimeProjection \<Rightarrow> (nat \<times> string \<times> (string + string)) list" where
  "fleet_findings fleet =
     (let s = frp_summary fleet; is = frp_instances fleet; ready = filter fip_ready is in
      [(frs_unsupported_instances s, '' unsupported instance(s) present'', Inl ''dispatch-to-unsupported-instances''),
       (frs_total_instances s - frs_ready_instances s, '' instance(s) not ready'', Inl ''dispatch-to-not-ready-instances''),
       (count_missing (\<lambda>i. fip_operational_profile i \<noteq> None) is,
        '' instance(s) have no operational profile metadata'', Inl ''profile-gated-first-party-methods''),
       (count_missing instance_supports_host_actions ready,
        '' ready instance(s) have no known HostAction support'', Inl ''auspex/host-actions/*''),
       (count_missing (profile_reports opc_evidence_read_model) ready,
        '' ready instance(s) have no evidence substrate read model'', Inl ''omegon/evidence/*''),
       (count_missing (profile_reports opc_project_rules) ready,
        '' ready instance(s) have no project-rules read model'', Inr ''project-rules:not-evaluated''),
       (count_missing (profile_reports opc_nex_substrate) ready,
        '' ready instance(s) have no Nex substrate report'', Inr ''nex-substrate:advisory-degraded'')])"

definition degradation_from_fleet :: "'v FleetRuntimeProjection \<Rightarrow> GatewayDegradation" where
  "degradation_from_fleet fleet =
     (if frs_total_instances (frp_summary fleet) = 0 then
        \<lparr>gd_mode = DegradedMode, gd_reasons = [''no fleet instances are registered''],
         gd_unavailable = [''auspex/dispatch/submit''], gd_fallback = [''auspex/fleet/status'']\<rparr>
      else if frs_compatible_instances (frp_summary fleet) = 0 then
        \<lparr>gd_mode = UnsupportedMode, gd_reasons = [''no compatible Omegon instances are available''],
         gd_unavailable = [''auspex/dispatch/submit'', ''auspex/host-actions/*''],
         gd_fallback = [''auspex/instances/list'']\<rparr>
      else
        (let found = filter (\<lambda>(n, _). 0 < n) (fleet_findings fleet) in
         if found = [] then no_degradation
         else \<lparr>gd_mode = DegradedMode, gd_reasons = map (\<lambda>(n, reason, _). show_nat n @ reason) found,
               gd_unavailable = List.map_filter (\<lambda>(_, _, s). case s of Inl u \<Rightarrow> Some u | Inr _ \<Rightarrow> None) found,
               gd_fallback = [''auspex/fleet/status'', ''auspex/instances/list''] @
                 List.map_filter (\<lambda>(_, _, s). case s of Inl _ \<Rightarrow> None | Inr f \<Rightarrow> Some f) found\<rparr>))"

section \<open>Answers\<close>

record 'v GatewayProjectionResponse =
  gpr_schema_version :: u32
  gpr_method :: GatewayProjectionMethod
  gpr_degradation :: GatewayDegradation
  gpr_fleet :: "'v FleetRuntimeProjection"

definition fleet_status_response :: "'v FleetRuntimeProjection \<Rightarrow> 'v GatewayProjectionResponse" where
  "fleet_status_response fleet =
     \<lparr>gpr_schema_version = GATEWAY_PROJECTION_SCHEMA_VERSION, gpr_method = FleetStatus,
      gpr_degradation = degradation_from_fleet fleet, gpr_fleet = fleet\<rparr>"

record 'v GatewayInstancesListResponse =
  gil_schema_version :: u32
  gil_degradation :: GatewayDegradation
  gil_instances :: "'v FleetInstanceProjection list"

definition instances_list_response :: "'v FleetRuntimeProjection \<Rightarrow> 'v GatewayInstancesListResponse" where
  "instances_list_response fleet =
     \<lparr>gil_schema_version = GATEWAY_PROJECTION_SCHEMA_VERSION,
      gil_degradation = degradation_from_fleet fleet, gil_instances = frp_instances fleet\<rparr>"

record GatewayCapabilityMatch =
  gcm_instance_id :: string
  gcm_namespace :: CapabilityNamespace
  gcm_ready :: bool
  gcm_compatibility :: CompatibilityStatus
  gcm_capabilities :: InstanceCapabilitySnapshot

definition capability_match :: "CapabilityKey \<Rightarrow> 'v FleetInstanceProjection \<Rightarrow> GatewayCapabilityMatch option" where
  "capability_match query i =
     (case fip_capabilities i of
        None \<Rightarrow> None
      | Some snap \<Rightarrow>
          if \<not> has_present snap query then None
          else Some \<lparr>gcm_instance_id = fip_instance_id i, gcm_namespace = namespace_from_key query,
                     gcm_ready = fip_ready i,
                     gcm_compatibility =
                       unwrap_or (map_option ca_status (fip_compatibility i)) CompatibilityStatus.Unknown,
                     gcm_capabilities = snap\<rparr>)"

record GatewayCapabilitiesQueryResponse =
  gcq_schema_version :: u32
  gcq_query :: CapabilityKey
  gcq_matches :: "GatewayCapabilityMatch list"

definition capabilities_query_response :: "'v FleetRuntimeProjection \<Rightarrow> CapabilityKey \<Rightarrow> GatewayCapabilitiesQueryResponse" where
  "capabilities_query_response fleet query =
     \<lparr>gcq_schema_version = GATEWAY_PROJECTION_SCHEMA_VERSION, gcq_query = query,
      gcq_matches = List.map_filter (capability_match query) (frp_instances fleet)\<rparr>"

section \<open>Properties\<close>

lemma count_missing_zero: "count_missing P is = 0 \<longleftrightarrow> list_all P is"
  by (induction "is") (simp_all add: count_missing_def)

lemma not_ready_count: "length is - length (filter P is) = count_missing P is"
  using sum_length_filter_compl [of P "is"] by (simp add: count_missing_def)

lemma compatible_count: "length (filter P is) = 0 \<longleftrightarrow> \<not> list_ex P is"
  by (simp add: filter_empty_conv list_ex_iff)

text \<open>What full service takes of one instance.\<close>

definition fully_serving :: "'v FleetInstanceProjection \<Rightarrow> bool" where
  "fully_serving i \<longleftrightarrow>
     fip_ready i \<and> \<not> has_status CompatibilityStatus.Unsupported i \<and> fip_operational_profile i \<noteq> None \<and>
     instance_supports_host_actions i \<and> profile_reports opc_evidence_read_model i \<and>
     profile_reports opc_project_rules i \<and> profile_reports opc_nex_substrate i"

text \<open>No finding counts anything exactly if every instance serves fully.\<close>

lemma nothing_counted: "filter (\<lambda>(n, _). 0 < n) xs = [] \<longleftrightarrow> list_all (\<lambda>(n, _). n = (0 :: nat)) xs"
  by (induction xs) auto

lemma fully_serving_split:
  "list_all fully_serving is \<longleftrightarrow>
     list_all (\<lambda>i. \<not> has_status CompatibilityStatus.Unsupported i) is \<and> list_all fip_ready is \<and>
     list_all (\<lambda>i. fip_operational_profile i \<noteq> None) is \<and>
     list_all instance_supports_host_actions (filter fip_ready is) \<and>
     list_all (profile_reports opc_evidence_read_model) (filter fip_ready is) \<and>
     list_all (profile_reports opc_project_rules) (filter fip_ready is) \<and>
     list_all (profile_reports opc_nex_substrate) (filter fip_ready is)"
  unfolding list_all_iff fully_serving_def set_filter by blast

lemma nothing_found:
  assumes "frp_summary fleet = summarize (frp_instances fleet)"
  shows "filter (\<lambda>(n, _). 0 < n) (fleet_findings fleet) = [] \<longleftrightarrow> list_all fully_serving (frp_instances fleet)"
proof -
  have none_unsupported: "length (filter (has_status CompatibilityStatus.Unsupported) is) = 0 \<longleftrightarrow>
      list_all (\<lambda>i. \<not> has_status CompatibilityStatus.Unsupported i) is" for "is" :: "'a FleetInstanceProjection list"
    by (simp add: filter_empty_conv list_all_iff)
  show ?thesis
    unfolding nothing_counted fully_serving_split fleet_findings_def assms summarize_def Let_def
    by (simp only: list.pred_inject prod.case FleetRuntimeSummary.select_convs not_ready_count count_missing_zero
        none_unsupported simp_thms)
qed


text \<open>Every tool whose name happens to begin with \<open>nex\<close> counts as one of Nex.\<close>

lemma nex_prefix_is_greedy: "tool_namespace ''next-step'' = NexNs" "tool_namespace ''armory2'' = ArmoryNs"
  by code_simp+

end
