(* ===== verification/Local_Probe.thy ===== *)
theory Local_Probe
  imports Local_Discovery Policy_Gates Instance_Registry
begin

text \<open>
  The read-only probe of a local candidate (\<open>auspex-core/src/local_omegon_probe.rs\<close>): the policy
  decision, the two requests, and the instance record made from the startup descriptor.  The policy
  crate, HTTP, the decoders and the controller are parameters.
\<close>

datatype LocalOmegonProbeStatus =
    AttachedReadOnly
  | PolicyDenied
  | MissingStartupUrl
  | StartupFetchFailed
  | StartupParseFailed
  | StateFetchFailed
  | StateParseFailed

record ('dec, 'c) LocalOmegonProbeResult =
  lpr_status :: LocalOmegonProbeStatus
  lpr_policy :: 'dec
  lpr_startup_url :: "string option"
  lpr_state_url :: "string option"
  lpr_instance_id :: "string option"
  lpr_omegon_version :: "string option"
  lpr_capabilities :: "string list"
  lpr_evidence :: string
  lpr_controller :: "'c option"

definition probe_denied :: "'dec \<Rightarrow> string option \<Rightarrow> ('dec, 'c) LocalOmegonProbeResult" where
  "probe_denied policy startup_url =
     \<lparr>lpr_status = PolicyDenied, lpr_policy = policy, lpr_startup_url = startup_url,
      lpr_state_url = None, lpr_instance_id = None, lpr_omegon_version = None, lpr_capabilities = [],
      lpr_evidence = ''policy denied local attach probe'', lpr_controller = None\<rparr>"

definition probe_failed ::
  "LocalOmegonProbeStatus \<Rightarrow> 'dec \<Rightarrow> string option \<Rightarrow> string option \<Rightarrow> string \<Rightarrow> ('dec, 'c) LocalOmegonProbeResult"
where
  "probe_failed status policy startup_url state_url evidence =
     \<lparr>lpr_status = status, lpr_policy = policy, lpr_startup_url = startup_url,
      lpr_state_url = state_url, lpr_instance_id = None, lpr_omegon_version = None,
      lpr_capabilities = [], lpr_evidence = evidence, lpr_controller = None\<rparr>"

section \<open>The record\<close>

definition lifecycle_from_descriptor :: "string \<Rightarrow> WorkerLifecycleState" where
  "lifecycle_from_descriptor status =
     (let s = replace_char (CHR ''_'') (CHR ''-'') status in
      if s = ''busy'' then Busy
      else if s = ''degraded'' then WorkerLifecycleState.Degraded
      else if s = ''lost'' then WorkerLifecycleState.Lost
      else if s = ''exited'' then Exited
      else WorkerLifecycleState.Ready)"

text \<open>\<open>or_else(|| Some(startup value).filter(non-empty)).unwrap_or_default()\<close>\<close>

definition told_or :: "string option \<Rightarrow> string \<Rightarrow> string" where
  "told_or told fallback = unwrap_or (or_else told (non_empty (Some fallback))) []"

definition probed_control_plane :: "OmegonStartupInfo \<Rightarrow> OmegonControlPlaneDescriptor option \<Rightarrow> ObservedControlPlane" where
  "probed_control_plane startup cp =
     default_control_plane\<lparr>ocp_schema_version := osi_schema_version startup,
       ocp_omegon_version := unwrap_or (Option.bind cp ocd_omegon_version) [],
       ocp_base_url := told_or (Option.bind cp ocd_base_url) (osi_http_base startup),
       ocp_startup_url := told_or (Option.bind cp ocd_startup_url) (osi_startup_url startup),
       ocp_health_url := told_or (Option.bind cp ocd_health_url) (osi_health_url startup),
       ocp_ready_url := told_or (Option.bind cp ocd_ready_url) (osi_ready_url startup),
       ocp_ws_url := told_or (Option.bind cp ocd_ws_url) (osi_ws_url startup),
       ocp_acp_url := or_else (Option.bind cp ocd_acp_url) (non_empty (osi_acp_url startup)),
       ocp_auth_mode := told_or (Option.bind cp ocd_auth_mode) (osi_auth_mode startup),
       ocp_token_ref := Option.bind cp ocd_token_ref,
       ocp_transport_security := Option.bind cp ocd_transport_security,
       ocp_mtls := Option.bind cp ocd_mtls,
       ocp_last_ready_at := Some ''probe-local''\<rparr>"

definition default_desired :: DesiredWorkerState where
  "default_desired =
     \<lparr>dw_backend = \<lparr>bc_kind = LocalProcess, bc_image = None, bc_namespace = None, bc_resources = None\<rparr>,
      dw_workspace = \<lparr>wb_cwd = [], wb_workspace_id = [], wb_branch = None\<rparr>,
      dw_task = None, dw_policy = default_policy_overrides, dw_security = default_security\<rparr>"

definition told_capabilities :: "OmegonControlPlaneDescriptor option \<Rightarrow> string list" where
  "told_capabilities cp = (case cp of None \<Rightarrow> [] | Some cp \<Rightarrow> ocd_capabilities cp)"

definition instance_record_from_startup_descriptor ::
  "'ver semver \<Rightarrow> 'v json_api \<Rightarrow> OmegonStartupInfo \<Rightarrow> 'v option \<Rightarrow> 'v InstanceRecord option"
where
  "instance_record_from_startup_descriptor sv js startup harness =
     (case osi_instance_descriptor startup of
        None \<Rightarrow> None
      | Some descriptor \<Rightarrow>
          (let ident = odesc_identity descriptor;
               runtime = odesc_runtime descriptor;
               now = ''probe-local'';
               instance_id = (if oid_instance_id ident = [] then ''local-omegon'' else oid_instance_id ident);
               cp = probed_control_plane startup (odesc_control_plane descriptor)
           in Some
            \<lparr>rec_schema_version = 1,
             rec_identity =
               \<lparr>wi_instance_id = instance_id, wi_role = from_descriptor_role (oid_role ident),
                wi_profile = oid_profile ident, wi_raw_role = non_empty (Some (oid_role ident)),
                wi_raw_profile = non_empty (Some (oid_profile ident)),
                wi_raw_runtime_profile = non_empty (Option.bind runtime ord_runtime_profile),
                wi_status = lifecycle_from_descriptor (oid_status ident),
                wi_created_at = now, wi_updated_at = now\<rparr>,
             rec_ownership =
               \<lparr>wo_owner_kind = External,
                wo_owner_id = unwrap_or (Option.bind (odesc_session descriptor) osd_session_id) ''local-probe'',
                wo_parent_instance_id = None\<rparr>,
             rec_desired = default_desired,
             rec_observed =
               \<lparr>ow_placement =
                  \<lparr>opl_placement_id = unwrap_or (Option.bind runtime ord_placement_id) ''local-process'',
                   opl_host = unwrap_or (Option.bind runtime ord_host) ''localhost'',
                   opl_pid = Option.bind runtime ord_pid,
                   opl_namespace = None, opl_pod_name = None, opl_container_name = None\<rparr>,
                ow_control_plane = cp,
                ow_health = \<lparr>oh_ready = True, oh_degraded_reason = None, oh_last_heartbeat_at = None,
                             oh_last_seen_at = Some now, oh_freshness = Some Fresh\<rparr>,
                ow_exit = \<lparr>oe_exited = False, oe_exit_code = None, oe_exit_reason = None, oe_exited_at = None\<rparr>,
                ow_compatibility = Some (assess_observed_control_plane sv cp),
                ow_operational_profile = Some (from_omegon_runtime_evidence js descriptor harness),
                ow_capabilities =
                  Some (from_instance_descriptor_capabilities instance_id
                          (told_capabilities (odesc_control_plane descriptor)))\<rparr>\<rparr>))"

section \<open>The probe\<close>

text \<open>
  \<open>pw_get\<close> is the body of a successful request, or the message of \<open>blocking_get_text\<close>;
  \<open>pw_controller\<close> reads a state payload and \<open>pw_with_registry\<close> gives the controller a registry.
\<close>

record ('ver, 'v, 'dec, 'res, 'c) probe_world =
  pw_policy :: "('dec, 'res) policy_api"
  pw_is_allowed :: "'dec \<Rightarrow> bool"
  pw_resource :: "string \<Rightarrow> 'res"
  pw_get :: "string \<Rightarrow> string + string"
  pw_startup :: "string \<Rightarrow> string + OmegonStartupInfo"
  pw_json :: "string \<Rightarrow> 'v option"
  pw_js :: "'v json_api"
  pw_semver :: "'ver semver"
  pw_controller :: "string \<Rightarrow> string + 'c"
  pw_with_registry :: "'v InstanceRegistryStore \<Rightarrow> 'c \<Rightarrow> 'c"

definition probe_resource :: "(string \<Rightarrow> 'res) \<Rightarrow> LocalOmegonCandidate \<Rightarrow> 'res" where
  "probe_resource resource c =
     (case loc_pid c of
        Some pid \<Rightarrow> resource (''pid:'' @ show_nat pid)
      | None \<Rightarrow> resource (unwrap_or (loc_startup_url c) ''unknown''))"

text \<open>The controller of an attached candidate, with the record of the runtime as its registry.\<close>

definition probed_controller ::
  "('ver, 'v, 'dec, 'res, 'c) probe_world \<Rightarrow> OmegonStartupInfo \<Rightarrow> string \<Rightarrow> 'c \<Rightarrow> 'c"
where
  "probed_controller w startup state_body c =
     (case instance_record_from_startup_descriptor (pw_semver w) (pw_js w) startup
             (Option.bind (pw_json w state_body) (\<lambda>v. js_get (pw_js w) v ''harness'')) of
        None \<Rightarrow> c
      | Some r \<Rightarrow> pw_with_registry w \<lparr>reg_schema_version = 1, reg_instances = [r]\<rparr> c)"

definition attached_result ::
  "'dec \<Rightarrow> string \<Rightarrow> string \<Rightarrow> OmegonStartupInfo \<Rightarrow> 'c \<Rightarrow> ('dec, 'c) LocalOmegonProbeResult"
where
  "attached_result policy startup_url state_url startup c =
     (let descriptor = osi_instance_descriptor startup;
          cp = Option.bind descriptor odesc_control_plane
      in \<lparr>lpr_status = AttachedReadOnly, lpr_policy = policy, lpr_startup_url = Some startup_url,
          lpr_state_url = Some state_url,
          lpr_instance_id = map_option (\<lambda>d. oid_instance_id (odesc_identity d)) descriptor,
          lpr_omegon_version = non_empty (Option.bind cp ocd_omegon_version),
          lpr_capabilities = told_capabilities cp,
          lpr_evidence = ''startup/state probes succeeded; observed read-only projection'',
          lpr_controller = Some c\<rparr>)"

text \<open>After the startup payload: the state endpoint and its payload.\<close>

definition probe_state ::
  "('ver, 'v, 'dec, 'res, 'c) probe_world \<Rightarrow> 'dec \<Rightarrow> string \<Rightarrow> LocalOmegonCandidate \<Rightarrow> OmegonStartupInfo \<Rightarrow>
   ('dec, 'c) LocalOmegonProbeResult"
where
  "probe_state w policy startup_url c startup =
     (case or_else (startup_state_url startup) (loc_state_url c) of
        None \<Rightarrow> probe_failed StateFetchFailed policy (Some startup_url) None
                  ''startup payload did not provide state URL''
      | Some state_url \<Rightarrow>
          (case pw_get w state_url of
             Inl e \<Rightarrow> probe_failed StateFetchFailed policy (Some startup_url) (Some state_url) e
           | Inr state_body \<Rightarrow>
               (case pw_controller w state_body of
                  Inl e \<Rightarrow> probe_failed StateParseFailed policy (Some startup_url) (Some state_url)
                             (''invalid state payload: '' @ e)
                | Inr ctl \<Rightarrow> attached_result policy startup_url state_url startup
                               (probed_controller w startup state_body ctl))))"

definition probe_local_omegon_candidate_read_only ::
  "('ver, 'v, 'dec, 'res, 'c) probe_world \<Rightarrow> LocalOmegonCandidate \<Rightarrow> PrincipalRef \<Rightarrow>
   ('dec, 'c) LocalOmegonProbeResult"
where
  "probe_local_omegon_candidate_read_only w c who =
     (let policy = authorize_local_omegon_action (pw_policy w) who Attach (probe_resource (pw_resource w) c) in
      if \<not> pw_is_allowed w policy then probe_denied policy (loc_startup_url c)
      else case loc_startup_url c of
             None \<Rightarrow> probe_failed MissingStartupUrl policy None None ''candidate has no startup URL''
           | Some startup_url \<Rightarrow>
               (case pw_get w startup_url of
                  Inl e \<Rightarrow> probe_failed StartupFetchFailed policy (Some startup_url) None e
                | Inr startup_body \<Rightarrow>
                    (case pw_startup w startup_body of
                       Inl e \<Rightarrow> probe_failed StartupParseFailed policy (Some startup_url) None
                                  (''invalid startup payload: '' @ e)
                     | Inr startup \<Rightarrow> probe_state w policy startup_url c startup)))"

section \<open>Properties\<close>

text \<open>
  A probe yields a controller exactly if it attached, and the decision it reports is the one of
  the policy for attaching to this candidate: without permission it is a denial, with permission
  never one.
\<close>

theorem probe_obeys_the_policy:
  "let policy = authorize_local_omegon_action (pw_policy w) who Attach (probe_resource (pw_resource w) c);
       r = probe_local_omegon_candidate_read_only w c who
   in lpr_policy r = policy \<and>
      (lpr_status r = PolicyDenied \<longleftrightarrow> \<not> pw_is_allowed w policy) \<and>
      (lpr_controller r \<noteq> None \<longleftrightarrow> lpr_status r = AttachedReadOnly)"
  unfolding probe_local_omegon_candidate_read_only_def Let_def
  by (auto simp: probe_denied_def probe_failed_def probe_state_def attached_result_def Let_def
      split: option.split sum.split)

text \<open>A denied probe sends no request: its result is the same whatever the endpoints answer.\<close>

lemma denied_probe_sends_nothing:
  assumes "\<not> pw_is_allowed w (authorize_local_omegon_action (pw_policy w) who Attach (probe_resource (pw_resource w) c))"
  shows "probe_local_omegon_candidate_read_only (w\<lparr>pw_get := f\<rparr>) c who =
         probe_local_omegon_candidate_read_only w c who"
  using assms by (simp add: probe_local_omegon_candidate_read_only_def Let_def)

text \<open>The record of a probed runtime is external, and ready and fresh whatever state it reports.\<close>

lemma probed_record_is_always_ready:
  assumes "instance_record_from_startup_descriptor sv js startup harness = Some r"
  shows "oh_ready (health_of r) \<and> oh_freshness (health_of r) = Some Fresh \<and>
         \<not> oe_exited (ow_exit (rec_observed r)) \<and> wo_owner_kind (rec_ownership r) = External"
  using assms by (auto simp: instance_record_from_startup_descriptor_def Let_def split: option.splits)

text \<open>A runtime without an id is recorded as \<open>local-omegon\<close>, while the result reports the empty id.\<close>

lemma anonymous_runtime_has_two_names:
  assumes "osi_instance_descriptor startup = Some d" and "oid_instance_id (odesc_identity d) = []"
  shows "map_option instance_id_of (instance_record_from_startup_descriptor sv js startup harness) = Some ''local-omegon''"
    and "lpr_instance_id (attached_result policy u v startup c) = Some ''''"
  using assms by (simp_all add: instance_record_from_startup_descriptor_def attached_result_def Let_def)

end
