(* ===== verification/Cop_Surface.thy ===== *)
theory Cop_Surface
  imports Gateway_Projection Local_Probe
begin

text \<open>
  The common operating picture (\<open>auspex-core/src/cop_surface.rs\<close>): regions that agents write through
  tool calls, the feeds that grow instead of being replaced, and the projections of the fleet, of
  discovery and of a probe into regions.  The policy decision is a parameter with its views.
\<close>

section \<open>Regions and content\<close>

datatype CopRegion = Center | North | South | East | West | Named string

text \<open>The derived order of the regions, the key order of the map.\<close>

fun region_rank :: "CopRegion \<Rightarrow> nat" where
  "region_rank Center = 0"
| "region_rank North = 1"
| "region_rank South = 2"
| "region_rank East = 3"
| "region_rank West = 4"
| "region_rank (Named _) = 5"

fun region_name :: "CopRegion \<Rightarrow> string" where
  "region_name (Named s) = s"
| "region_name _ = []"

instantiation CopRegion :: linorder
begin

definition less_eq_CopRegion :: "CopRegion \<Rightarrow> CopRegion \<Rightarrow> bool" where
  "less_eq_CopRegion a b \<longleftrightarrow>
     region_rank a < region_rank b \<or> region_rank a = region_rank b \<and> region_name a \<le> region_name b"

definition less_CopRegion :: "CopRegion \<Rightarrow> CopRegion \<Rightarrow> bool" where
  "less_CopRegion a b \<longleftrightarrow> a \<le> b \<and> \<not> b \<le> (a :: CopRegion)"

instance
proof
  fix a b c :: CopRegion
  show "a < b \<longleftrightarrow> a \<le> b \<and> \<not> b \<le> a" by (rule less_CopRegion_def)
  show "a \<le> a" by (simp add: less_eq_CopRegion_def)
  show "a \<le> b \<Longrightarrow> b \<le> c \<Longrightarrow> a \<le> c" by (auto simp: less_eq_CopRegion_def)
  show "a \<le> b \<Longrightarrow> b \<le> a \<Longrightarrow> a = b"
    by (cases a; cases b) (auto simp: less_eq_CopRegion_def)
  show "a \<le> b \<or> b \<le> a" by (auto simp: less_eq_CopRegion_def)
qed

end

definition region_from_str :: "string \<Rightarrow> CopRegion" where
  "region_from_str s =
     (let t = trim (to_ascii_lowercase s) in
      if t = ''center'' then Center
      else if t = ''north'' then North
      else if t = ''south'' then South
      else if t = ''east'' then East
      else if t = ''west'' then West
      else Named t)"

fun region_label :: "CopRegion \<Rightarrow> string" where
  "region_label Center = ''center''"
| "region_label North = ''north''"
| "region_label South = ''south''"
| "region_label East = ''east''"
| "region_label West = ''west''"
| "region_label (Named name) = name"

datatype ContentType = Table | StatusCard | AlertFeed | KvGrid | TextBlock | CodeBlock | Metric

definition content_type_from_str :: "string \<Rightarrow> ContentType option" where
  "content_type_from_str s =
     (let t = trim (replace_char (CHR ''-'') (CHR ''_'') (to_ascii_lowercase s)) in
      if t = ''table'' then Some Table
      else if t = ''status_card'' then Some StatusCard
      else if t = ''alert_feed'' then Some AlertFeed
      else if t = ''kv_grid'' then Some KvGrid
      else if t = ''text_block'' then Some TextBlock
      else if t = ''code_block'' then Some CodeBlock
      else if t = ''metric'' then Some Metric
      else None)"

definition is_append_mode :: "ContentType \<Rightarrow> bool" where
  "is_append_mode t \<longleftrightarrow> t = AlertFeed"

record RegionContent =
  rc_content_type :: ContentType
  rc_title :: "string option"
  rc_data :: json
  rc_seq :: u64

section \<open>The state\<close>

definition MAX_ALERT_FEED_ENTRIES :: nat where
  "MAX_ALERT_FEED_ENTRIES = 100"

record CopDisplayState =
  cop_regions :: "(CopRegion, RegionContent) btree"
  cop_write_seq :: u64
  cop_active_regions :: "CopRegion list"

definition default_cop :: CopDisplayState where
  "default_cop = \<lparr>cop_regions = bt_empty, cop_write_seq = 0, cop_active_regions = []\<rparr>"

definition new_items :: "json \<Rightarrow> json list option" where
  "new_items data = or_else (Option.bind (jget data ''items'') as_array) (as_array data)"

text \<open>The last entries of a feed, as many as fit.\<close>

definition keep_last :: "nat \<Rightarrow> 'a list \<Rightarrow> 'a list" where
  "keep_last n xs = drop (length xs - n) xs"

definition append_items :: "json \<Rightarrow> RegionContent \<Rightarrow> RegionContent" where
  "append_items data e =
     (case (new_items data, Option.bind (jget (rc_data e) ''items'') as_array) of
        (Some new, Some old) \<Rightarrow>
          e\<lparr>rc_data := jinsert ''items'' (JArr (keep_last MAX_ALERT_FEED_ENTRIES (old @ new))) (rc_data e)\<rparr>
      | (Some new, None) \<Rightarrow> e\<lparr>rc_data := jobj [(''items'', JArr new)]\<rparr>
      | (None, _) \<Rightarrow> e)"

definition cop_write ::
  "CopRegion \<Rightarrow> ContentType \<Rightarrow> string option \<Rightarrow> json \<Rightarrow> CopDisplayState \<Rightarrow> CopDisplayState"
where
  "cop_write region content_type title data st =
     (let seq = cop_write_seq st + 1;
          fresh = \<lparr>rc_content_type = content_type, rc_title = title, rc_data = data, rc_seq = seq\<rparr>;
          content =
            (case bt_get (cop_regions st) region of
               None \<Rightarrow> fresh
             | Some existing \<Rightarrow>
                 if is_append_mode content_type \<and> rc_content_type existing = content_type
                 then append_items data (existing\<lparr>rc_seq := seq\<rparr>) else fresh)
      in st\<lparr>cop_write_seq := seq, cop_regions := bt_insert region content (cop_regions st)\<rparr>)"

definition cop_clear :: "CopRegion \<Rightarrow> CopDisplayState \<Rightarrow> CopDisplayState" where
  "cop_clear region st = st\<lparr>cop_regions := bt_remove region (cop_regions st)\<rparr>"

definition cop_clear_all :: "CopDisplayState \<Rightarrow> CopDisplayState" where
  "cop_clear_all st = st\<lparr>cop_regions := bt_empty\<rparr>"

definition set_layout :: "CopRegion list \<Rightarrow> CopDisplayState \<Rightarrow> CopDisplayState" where
  "set_layout regions st = st\<lparr>cop_active_regions := regions\<rparr>"

section \<open>Tool calls\<close>

definition apply_cop_write :: "json \<Rightarrow> CopDisplayState \<Rightarrow> CopDisplayState" where
  "apply_cop_write args st =
     (let region = region_from_str (unwrap_or (Option.bind (jget args ''region'') as_str) ''center'');
          data = unwrap_or (jget args ''data'') JNull
      in case content_type_from_str (unwrap_or (Option.bind (jget args ''content_type'') as_str) ''text_block'') of
           None \<Rightarrow> st
         | Some t \<Rightarrow> cop_write region t (Option.bind (jget args ''title'') as_str) data st)"

definition apply_cop_clear :: "json \<Rightarrow> CopDisplayState \<Rightarrow> CopDisplayState" where
  "apply_cop_clear args =
     (case Option.bind (jget args ''region'') as_str of
        Some region \<Rightarrow> cop_clear (region_from_str region)
      | None \<Rightarrow> cop_clear_all)"

definition apply_cop_layout :: "json \<Rightarrow> CopDisplayState \<Rightarrow> CopDisplayState" where
  "apply_cop_layout args st =
     (case Option.bind (jget args ''regions'') as_array of
        None \<Rightarrow> st
      | Some regions \<Rightarrow> set_layout (map region_from_str (List.map_filter as_str regions)) st)"

definition try_apply_tool_start :: "string \<Rightarrow> json option \<Rightarrow> CopDisplayState \<Rightarrow> bool \<times> CopDisplayState" where
  "try_apply_tool_start tool_name args st =
     (let handled = (\<lambda>f. (True, case args of None \<Rightarrow> st | Some a \<Rightarrow> f a st)) in
      if tool_name = ''cop_write'' then handled apply_cop_write
      else if tool_name = ''cop_clear'' then handled apply_cop_clear
      else if tool_name = ''cop_layout'' then handled apply_cop_layout
      else (False, st))"

section \<open>Projections\<close>

definition DASH :: string where "DASH = [CHR 0xE2, CHR 0x80, CHR 0x94]"

definition or_dash :: "string option \<Rightarrow> json" where
  "or_dash s = JStr (unwrap_or s DASH)"

fun debug_mode :: "GatewayDegradationMode \<Rightarrow> string" where
  "debug_mode FullMode = ''Full''"
| "debug_mode DegradedMode = ''Degraded''"
| "debug_mode AcpOnlyMode = ''AcpOnly''"
| "debug_mode UnsupportedMode = ''Unsupported''"

fun mode_severity :: "GatewayDegradationMode \<Rightarrow> string" where
  "mode_severity FullMode = ''healthy''"
| "mode_severity DegradedMode = ''warning''"
| "mode_severity AcpOnlyMode = ''degraded''"
| "mode_severity UnsupportedMode = ''critical''"

fun debug_compatibility :: "CompatibilityStatus \<Rightarrow> string" where
  "debug_compatibility Compatible = ''Compatible''"
| "debug_compatibility CompatibilityStatus.Unsupported = ''Unsupported''"
| "debug_compatibility CompatibilityStatus.Unknown = ''Unknown''"

definition count_json :: "nat \<Rightarrow> json" where
  "count_json n = JNum (int n)"

definition pairs_json :: "(string \<times> json) list \<Rightarrow> json" where
  "pairs_json ps = jobj [(''pairs'', JArr (map (\<lambda>(k, v). jobj [(''key'', JStr k), (''value'', v)]) ps))]"

definition table_json :: "string list \<Rightarrow> json list \<Rightarrow> json" where
  "table_json columns rows = jobj [(''columns'', JArr (map JStr columns)), (''rows'', JArr rows)]"

text \<open>The columns that both tables of instances begin with.\<close>

definition instance_columns :: "'v FleetInstanceProjection \<Rightarrow> json list" where
  "instance_columns i =
     [JStr (fip_instance_id i), or_dash (fip_raw_role i), JStr (fip_role i),
      JStr (unwrap_or (fip_raw_profile i) (fip_profile i)), or_dash (fip_raw_runtime_profile i),
      JBool (fip_ready i)]"

definition apply_gateway_fleet_projection :: "'v GatewayProjectionResponse \<Rightarrow> CopDisplayState \<Rightarrow> CopDisplayState" where
  "apply_gateway_fleet_projection p st =
     (let d = gpr_degradation p; s = frp_summary (gpr_fleet p) in
      cop_write South TextBlock (Some ''Gateway Degradation'')
        (jobj [(''text'', JStr (if gd_reasons d = [] then ''No degradation detected''
                                else join [CHR 0x0A] (gd_reasons d))),
               (''unavailable_surfaces'', JArr (map JStr (gd_unavailable d))),
               (''fallback_surfaces'', JArr (map JStr (gd_fallback d)))])
      (cop_write East KvGrid (Some ''Fleet Summary'')
        (pairs_json [(''Total'', count_json (frs_total_instances s)), (''Ready'', count_json (frs_ready_instances s)),
                     (''Compatible'', count_json (frs_compatible_instances s)),
                     (''Unsupported'', count_json (frs_unsupported_instances s)),
                     (''Pending HostActions'', count_json (frs_pending_host_actions s))])
      (cop_write Center Table (Some ''Deployed Fleet'')
        (table_json [''Instance'', ''Raw Role'', ''Role'', ''Raw Profile'', ''Runtime Profile'', ''Ready'',
                     ''Compatibility'', ''Base URL'']
          (map (\<lambda>i. JArr (instance_columns i @
                  [JStr (to_ascii_lowercase (debug_compatibility (fip_compatibility_status i))),
                   JStr (fip_base_url i)])) (frp_instances (gpr_fleet p))))
      (cop_write North StatusCard (Some ''Fleet Gateway'')
        (jobj [(''label'', JStr ''Auspex Gateway''),
               (''status'', JStr (to_ascii_lowercase (debug_mode (gd_mode d)))),
               (''detail'', JStr (join ''; '' (gd_reasons d))),
               (''severity'', JStr (mode_severity (gd_mode d)))])
      (set_layout [North, Center, East, South] st)))))"

text \<open>The views of a policy decision.\<close>

record 'dec decision_view =
  dv_effect :: "'dec \<Rightarrow> string"
  dv_allowed :: "'dec \<Rightarrow> bool"
  dv_obligations :: "'dec \<Rightarrow> nat"
  dv_supererogations :: "'dec \<Rightarrow> nat"
  dv_reasons :: "'dec \<Rightarrow> (string \<times> string) list"

fun debug_ownership :: "LocalOmegonOwnership \<Rightarrow> string" where
  "debug_ownership AuspexOwned = ''AuspexOwned''"
| "debug_ownership UserOwned = ''UserOwned''"
| "debug_ownership LocalOmegonOwnership.Unknown = ''Unknown''"

definition count_owned :: "LocalOmegonOwnership \<Rightarrow> LocalOmegonCandidate list \<Rightarrow> nat" where
  "count_owned owner cs = length (filter (\<lambda>c. loc_ownership c = owner) cs)"

definition candidate_row :: "LocalOmegonCandidate \<Rightarrow> json" where
  "candidate_row c =
     JArr [JStr (debug_source (loc_source c)), JStr (debug_ownership (loc_ownership c)),
           or_dash (map_option show_nat (loc_pid c)), or_dash (loc_startup_url c),
           or_dash (loc_state_url c), or_dash (loc_command c)]"

definition apply_local_omegon_discovery_with_policy ::
  "'dec decision_view \<Rightarrow> LocalOmegonCandidate list \<Rightarrow> 'dec option \<Rightarrow> CopDisplayState \<Rightarrow> CopDisplayState"
where
  "apply_local_omegon_discovery_with_policy dv cs policy st =
     (let owned = count_owned AuspexOwned cs; user_owned = count_owned UserOwned cs;
          unknown = count_owned LocalOmegonOwnership.Unknown cs;
          effect = JStr (unwrap_or (map_option (dv_effect dv) policy) ''not evaluated'') in
      cop_write East KvGrid (Some ''Discovery Summary'')
        (pairs_json [(''Total'', count_json (length cs)), (''Auspex-owned'', count_json owned),
                     (''User-owned'', count_json user_owned), (''Unknown'', count_json unknown),
                     (''Policy'', effect),
                     (''Obligations'', count_json (unwrap_or (map_option (dv_obligations dv) policy) 0)),
                     (''Reasons'', count_json (unwrap_or (map_option (\<lambda>d. length (dv_reasons dv d)) policy) 0))])
      (cop_write Center Table (Some ''Local Candidates'')
        (table_json [''Source'', ''Ownership'', ''PID'', ''Startup URL'', ''State URL'', ''Command'']
          (map candidate_row cs))
      (cop_write North StatusCard (Some ''Local Omegon Discovery'')
        (jobj [(''label'', JStr ''Local Omegon''),
               (''status'', JStr (if cs = [] then ''none'' else ''discovered'')),
               (''detail'', JStr (show_nat (length cs) @ '' local candidate(s): '' @ show_nat owned @
                  '' Auspex-owned, '' @ show_nat user_owned @ '' user-owned, '' @ show_nat unknown @ '' unknown'')),
               (''severity'', JStr (if cs = [] then ''warning'' else ''active'')),
               (''policy'', effect)])
      (set_layout [North, Center, East] st))))"

fun debug_probe_status :: "LocalOmegonProbeStatus \<Rightarrow> string" where
  "debug_probe_status AttachedReadOnly = ''AttachedReadOnly''"
| "debug_probe_status PolicyDenied = ''PolicyDenied''"
| "debug_probe_status MissingStartupUrl = ''MissingStartupUrl''"
| "debug_probe_status StartupFetchFailed = ''StartupFetchFailed''"
| "debug_probe_status StartupParseFailed = ''StartupParseFailed''"
| "debug_probe_status StateFetchFailed = ''StateFetchFailed''"
| "debug_probe_status StateParseFailed = ''StateParseFailed''"

definition probe_evidence_rows :: "('dec, 'c) LocalOmegonProbeResult \<Rightarrow> (string \<times> string) list" where
  "probe_evidence_rows r =
     [(''Startup URL'', unwrap_or (lpr_startup_url r) DASH), (''State URL'', unwrap_or (lpr_state_url r) DASH),
      (''Instance ID'', unwrap_or (lpr_instance_id r) DASH),
      (''Omegon Version'', unwrap_or (lpr_omegon_version r) DASH),
      (''Capabilities'', show_nat (length (lpr_capabilities r)))]"

text \<open>The two regions whose content depends on whether there is a controller.\<close>

definition probe_regions ::
  "'dec decision_view \<Rightarrow> ('c \<Rightarrow> 'v GatewayProjectionResponse) \<Rightarrow> ('dec, 'c) LocalOmegonProbeResult \<Rightarrow>
   CopDisplayState \<Rightarrow> CopDisplayState"
where
  "probe_regions dv fleet_status r st =
     (let effect = JStr (dv_effect dv (lpr_policy r));
          obligations = count_json (dv_obligations dv (lpr_policy r)) in
      case map_option fleet_status (lpr_controller r) of
        Some p \<Rightarrow>
          (let s = frp_summary (gpr_fleet p) in
           cop_write East KvGrid (Some ''Observation + Authorization'')
             (pairs_json [(''Total'', count_json (frs_total_instances s)), (''Ready'', count_json (frs_ready_instances s)),
                          (''Compatible'', count_json (frs_compatible_instances s)),
                          (''Unsupported'', count_json (frs_unsupported_instances s)),
                          (''Policy'', effect), (''Obligations'', obligations)])
           (cop_write Center Table (Some ''Observed Runtimes'')
             (table_json [''Instance'', ''Raw Role'', ''Role'', ''Raw Profile'', ''Runtime Profile'', ''Ready'', ''Compatibility'']
               (map (\<lambda>i. JArr (instance_columns i @ [JStr (debug_compatibility (fip_compatibility_status i))]))
                 (frp_instances (gpr_fleet p)))) st))
      | None \<Rightarrow>
          cop_write East KvGrid (Some ''Authorization'')
            (pairs_json [(''Effect'', effect), (''Obligations'', obligations),
                         (''Supererogations'', count_json (dv_supererogations dv (lpr_policy r))),
                         (''Reasons'', count_json (length (dv_reasons dv (lpr_policy r))))])
          (cop_write Center Table (Some ''Probe Evidence'')
            (table_json [''Field'', ''Value'']
              (map (\<lambda>(k, v). JArr [JStr k, JStr v]) (probe_evidence_rows r))) st))"

definition apply_local_omegon_probe_result ::
  "'dec decision_view \<Rightarrow> ('c \<Rightarrow> 'v GatewayProjectionResponse) \<Rightarrow> ('dec, 'c) LocalOmegonProbeResult \<Rightarrow>
   CopDisplayState \<Rightarrow> CopDisplayState"
where
  "apply_local_omegon_probe_result dv fleet_status r st =
     cop_write South TextBlock (Some ''Probe Evidence + Notes'')
       (jobj [(''text'', JStr (join [CHR 0x0A]
          (map (\<lambda>(k, v). k @ '': '' @ v) (probe_evidence_rows r @ dv_reasons dv (lpr_policy r)))))])
     (probe_regions dv fleet_status r
       (cop_write North StatusCard (Some ''Local Runtime Probe'')
         (jobj [(''label'', JStr ''Local Omegon Probe''), (''status'', JStr (debug_probe_status (lpr_status r))),
                (''detail'', JStr (lpr_evidence r)),
                (''severity'', JStr (if dv_allowed dv (lpr_policy r) then ''active'' else ''warning'')),
                (''policy'', JStr (dv_effect dv (lpr_policy r)))])
         (set_layout [North, Center, East, South] st)))"

definition default_segmenta_regions :: "CopRegion list" where
  "default_segmenta_regions = [North, West, Center, East, South]"

end
