(* ===== verification/Cop_Surface_Props.thy ===== *)
theory Cop_Surface_Props
  imports Cop_Surface
begin

text \<open>
  The operating picture under any sequence of tool calls: its numbers, its feeds and its layout.
\<close>

section \<open>Sequence numbers\<close>

definition cop_run :: "(string \<times> json option) list \<Rightarrow> CopDisplayState \<Rightarrow> CopDisplayState" where
  "cop_run calls st = fold (\<lambda>(name, args) st. snd (try_apply_tool_start name args st)) calls st"

text \<open>
  After at most \<open>n\<close> writes: the regions are an ordered map, their numbers are at most that of the
  last write, and no two regions share one.
\<close>

definition cop_inv :: "nat \<Rightarrow> CopDisplayState \<Rightarrow> bool" where
  "cop_inv n st \<longleftrightarrow>
     bt_ok (cop_regions st) \<and> unat (cop_write_seq st) \<le> n \<and>
     bt.all_values (\<lambda>_ c. rc_seq c \<le> cop_write_seq st) (cop_regions st) \<and>
     (\<forall>r r' c c'. bt_get (cop_regions st) r = Some c \<longrightarrow> bt_get (cop_regions st) r' = Some c' \<longrightarrow>
        rc_seq c = rc_seq c' \<longrightarrow> r = r')"

lemma cop_inv_default: "cop_inv 0 default_cop"
  by (simp add: cop_inv_def default_cop_def bt.ok_empty bt.all_values_empty bt.get_empty)

lemma cop_inv_mono: "cop_inv n st \<Longrightarrow> n \<le> m \<Longrightarrow> cop_inv m st"
  by (auto simp: cop_inv_def)

lemma append_items_seq [simp]: "rc_seq (append_items data e) = rc_seq e"
  by (simp add: append_items_def split: option.split)

lemma append_items_type [simp]: "rc_content_type (append_items data e) = rc_content_type e"
  by (simp add: append_items_def split: option.split)

text \<open>A write puts one content under its region, with the next number.\<close>

lemma cop_write_shape:
  obtains c where "cop_regions (cop_write region t title data st) = bt_insert region c (cop_regions st)"
    and "rc_seq c = cop_write_seq st + 1" and "rc_content_type c = t"
proof
  show "rc_seq (case bt_get (cop_regions st) region of
           None \<Rightarrow> \<lparr>rc_content_type = t, rc_title = title, rc_data = data, rc_seq = cop_write_seq st + 1\<rparr>
         | Some e \<Rightarrow> if is_append_mode t \<and> rc_content_type e = t
             then append_items data (e\<lparr>rc_seq := cop_write_seq st + 1\<rparr>)
             else \<lparr>rc_content_type = t, rc_title = title, rc_data = data, rc_seq = cop_write_seq st + 1\<rparr>) =
      cop_write_seq st + 1"
    by (simp split: option.split)
qed (simp_all add: cop_write_def Let_def split: option.split)

lemma cop_write_number [simp]: "cop_write_seq (cop_write region t title data st) = cop_write_seq st + 1"
  by (simp add: cop_write_def Let_def)

lemma cop_inv_write:
  assumes inv: "cop_inv n st" and room: "Suc n < 2 ^ 64"
  shows "cop_inv (Suc n) (cop_write region t title data st)"
proof -
  from inv have ok: "bt_ok (cop_regions st)" and le: "unat (cop_write_seq st) \<le> n"
    and seqs: "bt.all_values (\<lambda>_ c. rc_seq c \<le> cop_write_seq st) (cop_regions st)"
    and inj: "\<And>r r' c c'. bt_get (cop_regions st) r = Some c \<Longrightarrow> bt_get (cop_regions st) r' = Some c' \<Longrightarrow>
        rc_seq c = rc_seq c' \<Longrightarrow> r = r'"
    by (auto simp: cop_inv_def)
  have next_number: "unat (cop_write_seq st + 1) = Suc (unat (cop_write_seq st))"
  proof -
    have "unat (cop_write_seq st) + unat (1 :: u64) < 2 ^ LENGTH(64)"
      using le room by simp
    then have "unat (cop_write_seq st + 1) = unat (cop_write_seq st) + unat (1 :: u64)"
      by (rule unat_add_lem [THEN iffD1])
    then show ?thesis by simp
  qed
  have older: "rc_seq c < cop_write_seq st + 1" if "bt_get (cop_regions st) r = Some c" for r c
    using bt.all_valuesD [OF seqs that] next_number by (simp add: word_le_nat_alt word_less_nat_alt)
  obtain c where c: "cop_regions (cop_write region t title data st) = bt_insert region c (cop_regions st)"
    "rc_seq c = cop_write_seq st + 1" by (rule cop_write_shape)
  have "bt.all_values (\<lambda>_ d. rc_seq d \<le> cop_write_seq st + 1) (bt_insert region c (cop_regions st))"
    using older c by (intro bt.all_values_insert [OF ok]) (auto intro!: bt.all_valuesI dest: older)
  moreover have "r = r'" if "bt_get (bt_insert region c (cop_regions st)) r = Some d"
    "bt_get (bt_insert region c (cop_regions st)) r' = Some d'" "rc_seq d = rc_seq d'" for r r' d d'
    using that inj older c by (auto simp: bt.get_insert [OF ok] split: if_splits dest: older)
  ultimately show ?thesis
    using ok le next_number by (simp add: cop_inv_def c bt.ok_insert)
qed

lemma cop_inv_tool:
  assumes "cop_inv n st" and "Suc n < 2 ^ 64"
  shows "cop_inv (Suc n) (snd (try_apply_tool_start name args st))"
proof -
  have kept: "cop_inv (Suc n) st" by (rule cop_inv_mono [OF assms(1)]) simp
  have cleared: "cop_inv (Suc n) (cop_clear r st)" "cop_inv (Suc n) (cop_clear_all st)"
    "cop_inv (Suc n) (set_layout rs st)" for r rs
    using kept
    by (auto simp: cop_inv_def cop_clear_def cop_clear_all_def set_layout_def bt.ok_remove bt.all_values_remove
        bt.get_remove bt.ok_empty bt.all_values_empty bt.get_empty split: if_splits)
  show ?thesis
    using kept cleared cop_inv_write [OF assms]
    by (auto simp: try_apply_tool_start_def apply_cop_write_def apply_cop_clear_def apply_cop_layout_def Let_def
        split: option.split)
qed

lemma cop_inv_run:
  "cop_inv n st \<Longrightarrow> n + length calls < 2 ^ 64 \<Longrightarrow> cop_inv (n + length calls) (cop_run calls st)"
proof (induction calls arbitrary: n st)
  case Nil
  then show ?case by (simp add: cop_run_def)
next
  case (Cons call calls)
  obtain name args where call: "call = (name, args)" by (cases call)
  from Cons.prems have "cop_inv (Suc n) (snd (try_apply_tool_start name args st))"
    by (intro cop_inv_tool) simp_all
  from Cons.IH [OF this] Cons.prems show ?case by (simp add: cop_run_def call)
qed



section \<open>Feeds\<close>

lemma keep_last_length: "length (keep_last n xs) = min n (length xs)"
  by (auto simp: keep_last_def)

text \<open>A feed that grows keeps its last hundred entries, and its title.\<close>

lemma feed_is_cut_when_it_grows:
  assumes "bt_ok (cop_regions st)" and "bt_get (cop_regions st) r = Some e" and "rc_content_type e = AlertFeed"
    and "rc_data e = jobj [(''items'', JArr old)]"
  shows "\<exists>c. bt_get (cop_regions (cop_write r AlertFeed title (jobj [(''items'', JArr new)]) st)) r = Some c \<and>
           Option.bind (jget (rc_data c) ''items'') as_array = Some (keep_last MAX_ALERT_FEED_ENTRIES (old @ new)) \<and>
           rc_title c = rc_title e"
  using assms
  by (simp add: cop_write_def is_append_mode_def append_items_def new_items_def bt.get_insert jobj_def jget_def
      get_jfields Let_def)

text \<open>Its first write is kept whole, however long it is.\<close>

lemma first_feed_write_is_not_cut:
  assumes "bt_ok (cop_regions st)" and "bt_get (cop_regions st) r = None"
  shows "map_option rc_data (bt_get (cop_regions (cop_write r AlertFeed title data st)) r) = Some data"
  using assms by (simp add: cop_write_def bt.get_insert Let_def)

end
