(* ===== verification/Session_View.thy ===== *)
theory Session_View
  imports Remote_Session
begin

text \<open>
  What a session shows (\<open>remote_session.rs\<close>, with the data of \<open>fixtures.rs\<close>): the projections of
  a remote session into the data of the work, session and graph screens.  \<open>fmt\<close> prints an \<open>f32\<close>.
\<close>

section \<open>Data\<close>

record WorkNode =
  wn_id :: string
  wn_title :: string
  wn_status :: string

record DelegateSummaryData =
  dsd_task_id :: string
  dsd_agent_name :: string
  dsd_status :: string
  dsd_elapsed_ms :: u64

record GraphData =
  grd_nodes :: "WorkNode list"
  grd_is_full_inventory :: bool
  grd_counts :: "(string \<times> nat) list"

record WorkData =
  wkd_focused_id :: "string option"
  wkd_focused_title :: "string option"
  wkd_focused_status :: "string option"
  wkd_open_question_count :: nat
  wkd_implementing :: "WorkNode list"
  wkd_actionable :: "WorkNode list"
  wkd_openspec_total :: nat
  wkd_openspec_done :: nat
  wkd_cleave_active :: bool
  wkd_cleave_total :: nat
  wkd_cleave_completed :: nat
  wkd_cleave_failed :: nat

text \<open>The fields of \<open>SessionData\<close> beside those the state engine reads.\<close>

record 'v SessionView = "'v SessionData" +
  sv_git_branch :: "string option"
  sv_git_detached :: bool
  sv_thinking_level :: string
  sv_capability_tier :: string
  sv_providers :: "ProviderInfo list"
  sv_memory_available :: bool
  sv_cleave_available :: bool
  sv_memory_warning :: "string option"
  sv_active_delegate_count :: nat
  sv_active_delegates :: "DelegateSummaryData list"
  sv_session_turns :: u32
  sv_session_tool_calls :: u32
  sv_session_compactions :: u32
  sv_context_tokens :: "u64 option"
  sv_context_window :: "u64 option"
  sv_telemetry :: SessionTelemetryData
  sv_latest_plan :: "PlanSnapshotData option"
  sv_ipc_authority :: "IpcSessionAuthorityData option"

section \<open>Descriptors\<close>

definition project_control_plane :: "OmegonControlPlaneDescriptor \<Rightarrow> InstanceControlPlaneData" where
  "project_control_plane c =
     \<lparr>icp_schema_version = ocd_schema_version c, icp_omegon_version = ocd_omegon_version c,
      icp_base_url = ocd_base_url c, icp_startup_url = ocd_startup_url c, icp_state_url = ocd_state_url c,
      icp_health_url = ocd_health_url c, icp_ready_url = ocd_ready_url c, icp_ws_url = ocd_ws_url c,
      icp_acp_url = ocd_acp_url c, icp_auth_mode = ocd_auth_mode c, icp_token_ref = ocd_token_ref c,
      icp_transport_security = ocd_transport_security c, icp_mtls = ocd_mtls c,
      icp_tls_secret = ocd_tls_secret c, icp_tls_profile = ocd_tls_profile c,
      icp_tls_ca_epoch = ocd_tls_ca_epoch c, icp_tls_leaf_epoch = ocd_tls_leaf_epoch c,
      icp_tls_leaf_validity = ocd_tls_leaf_validity c,
      icp_ca_fingerprint_sha256 = ocd_ca_fingerprint_sha256 c,
      icp_server_fingerprint_sha256 = ocd_server_fingerprint_sha256 c,
      icp_last_ready_at = ocd_last_ready_at c, icp_last_verified_at = ocd_last_verified_at c,
      icp_capabilities = ocd_capabilities c\<rparr>"

definition project_runtime :: "OmegonRuntimeDescriptor \<Rightarrow> InstanceRuntimeData" where
  "project_runtime r =
     \<lparr>ird_backend = ord_backend r, ird_host = ord_host r, ird_pid = ord_pid r,
      ird_placement_id = ord_placement_id r, ird_namespace = ord_namespace r,
      ird_pod_name = ord_pod_name r, ird_container_name = ord_container_name r,
      ird_execution_substrate = ord_execution_substrate r\<rparr>"

definition project_instance_descriptor :: "OmegonInstanceDescriptor \<Rightarrow> InstanceDescriptorData" where
  "project_instance_descriptor d =
     (let i = odesc_identity d in
      \<lparr>idd_identity =
         \<lparr>iid_instance_id = oid_instance_id i, iid_role = oid_role i, iid_profile = oid_profile i,
          iid_status = oid_status i\<rparr>,
       idd_workspace = map_option (\<lambda>w. \<lparr>iwd_cwd = owd_cwd w, iwd_workspace_id = owd_workspace_id w,
                                        iwd_branch = owd_branch w\<rparr>) (odesc_workspace d),
       idd_control_plane = map_option project_control_plane (odesc_control_plane d),
       idd_runtime = map_option project_runtime (odesc_runtime d),
       idd_session = map_option (\<lambda>s. \<lparr>isd_session_id = osd_session_id s\<rparr>) (odesc_session d),
       idd_policy = map_option (\<lambda>p. \<lparr>ipd_model = opd_model p, ipd_thinking_level = opd_thinking_level p,
                                     ipd_capability_tier = opd_capability_tier p\<rparr>) (odesc_policy d)\<rparr>)"

text \<open>What the descriptor of a dispatcher says, unless it says nothing: then what the binding expects.\<close>

definition project_dispatcher_binding :: "DispatcherBindingSnapshot \<Rightarrow> DispatcherBindingData" where
  "project_dispatcher_binding b =
     (let d = db_instance_descriptor b;
          cp = Option.bind d odesc_control_plane;
          said = (\<lambda>f fallback. unwrap_or (non_empty (map_option (\<lambda>d. f (odesc_identity d)) d)) fallback) in
      \<lparr>dbd_session_id =
         unwrap_or (Option.bind (Option.bind d odesc_session) osd_session_id) (db_session_id b),
       dbd_dispatcher_instance_id = said oid_instance_id (db_dispatcher_instance_id b),
       dbd_expected_role = said oid_role (db_expected_role b),
       dbd_expected_profile = said oid_profile (db_expected_profile b),
       dbd_expected_model =
         or_else (Option.bind (Option.bind d odesc_policy) opd_model) (db_expected_model b),
       dbd_control_plane_schema =
         (case map_option ocd_schema_version cp of
            Some v \<Rightarrow> if 0 < v then v else db_control_plane_schema b
          | None \<Rightarrow> db_control_plane_schema b),
       dbd_token_ref = or_else (Option.bind cp ocd_token_ref) (db_token_ref b),
       dbd_observed_base_url = or_else (Option.bind cp ocd_base_url) (db_observed_base_url b),
       dbd_last_verified_at = or_else (Option.bind cp ocd_last_verified_at) (db_last_verified_at b),
       dbd_instance_descriptor = map_option project_instance_descriptor d,
       dbd_available_options =
         map (\<lambda>x. \<lparr>dod_profile = dos_profile x, dod_label = dos_label x, dod_model = dos_model x\<rparr>)
           (db_available_options b),
       dbd_switch_state =
         map_option (\<lambda>s. \<lparr>dss_request_id = sw_request_id s, dss_requested_profile = sw_requested_profile s,
                          dss_requested_model = sw_requested_model s, dss_status = sw_status s,
                          dss_failure_code = sw_failure_code s, dss_note = sw_note s\<rparr>) (db_switch_state b)\<rparr>)"

section \<open>Screens\<close>

definition work_node :: "NodeBrief \<Rightarrow> WorkNode" where
  "work_node n = \<lparr>wn_id = nb_id n, wn_title = nb_title n, wn_status = nb_status n\<rparr>"

definition work_data :: "'v RemoteHostSession \<Rightarrow> WorkData" where
  "work_data s =
     (let focused = ds_focused (rs_design s) in
      \<lparr>wkd_focused_id = map_option fn_id focused, wkd_focused_title = map_option fn_title focused,
       wkd_focused_status = map_option fn_status focused,
       wkd_open_question_count = unwrap_or (map_option (\<lambda>n. length (fn_open_questions n)) focused) 0,
       wkd_implementing = map work_node (ds_implementing (rs_design s)),
       wkd_actionable = map work_node (ds_actionable (rs_design s)),
       wkd_openspec_total = os_total_tasks (rs_openspec s), wkd_openspec_done = os_done_tasks (rs_openspec s),
       wkd_cleave_active = cl_active (rs_cleave s), wkd_cleave_total = cl_total_children (rs_cleave s),
       wkd_cleave_completed = cl_completed (rs_cleave s), wkd_cleave_failed = cl_failed (rs_cleave s)\<rparr>)"

text \<open>The level of the harness unless it is blank, then of the dispatcher's policy, then of the instance's.\<close>

definition policy_level ::
  "(HarnessStatusSnapshot \<Rightarrow> string) \<Rightarrow> (OmegonPolicyDescriptor \<Rightarrow> string option) \<Rightarrow> 'v RemoteHostSession \<Rightarrow> string"
where
  "policy_level of_harness of_policy s =
     (let from = (\<lambda>d. Option.bind (Option.bind d odesc_policy) of_policy) in
      unwrap_or
        (or_else
          (case map_option of_harness (rs_harness_snapshot s) of
             Some v \<Rightarrow> if trim v = [] then None else Some v
           | None \<Rightarrow> None)
          (or_else (from (Option.bind (rs_dispatcher_binding s) db_instance_descriptor))
            (from (rs_instance_descriptor s)))) [])"

definition provider_info :: "ProviderStatusSnapshot \<Rightarrow> ProviderInfo" where
  "provider_info p =
     \<lparr>pin_name = prs_name p, pin_authenticated = prs_authenticated p,
      pin_auth_method = prs_auth_method p, pin_model = prs_model p\<rparr>"

definition remote_session_data :: "(nat \<Rightarrow> f32 \<Rightarrow> string) \<Rightarrow> 'v RemoteHostSession \<Rightarrow> 'v SessionView" where
  "remote_session_data fmt s =
     (let h = rs_harness_snapshot s; instance = rs_instance_descriptor s in
      \<lparr>sd_instance_descriptor = map_option project_instance_descriptor instance,
       sd_operational_profile_metadata = rs_operational_profile_metadata s,
       sd_dispatcher_binding = map_option project_dispatcher_binding (rs_dispatcher_binding s),
       sv_git_branch = or_else (Option.bind h hs_git_branch)
         (Option.bind (Option.bind instance odesc_workspace) owd_branch),
       sv_git_detached = unwrap_or (map_option hs_git_detached h) False,
       sv_thinking_level = policy_level hs_thinking_level opd_thinking_level s,
       sv_capability_tier = policy_level hs_capability_tier opd_capability_tier s,
       sv_providers = unwrap_or (map_option (\<lambda>h. map provider_info (hs_providers h)) h) [],
       sv_memory_available = unwrap_or (map_option hs_memory_available h) True,
       sv_cleave_available = unwrap_or (map_option hs_cleave_available h) True,
       sv_memory_warning = Option.bind h hs_memory_warning,
       sv_active_delegate_count =
         unwrap_or (map_option (\<lambda>h. unwrap_or (hs_reported_active_delegate_count h) (length (hs_active_delegates h))) h) 0,
       sv_active_delegates =
         unwrap_or (map_option (\<lambda>h. map (\<lambda>d. \<lparr>dsd_task_id = dls_task_id d, dsd_agent_name = dls_agent_name d,
                                              dsd_status = dls_status d, dsd_elapsed_ms = dls_elapsed_ms d\<rparr>)
                                     (hs_active_delegates h)) h) [],
       sv_session_turns = ss_turns (rs_session_stats s), sv_session_tool_calls = ss_tool_calls (rs_session_stats s),
       sv_session_compactions = ss_compactions (rs_session_stats s),
       sv_context_tokens = rs_context_tokens s, sv_context_window = rs_context_window s,
       sv_telemetry = build_session_telemetry fmt h (ss_turns (rs_session_stats s))
         (ss_tool_calls (rs_session_stats s)) (rs_dispatcher_binding s) instance (rs_latest_turn_telemetry s),
       sv_latest_plan = rs_latest_plan s, sv_ipc_authority = rs_ipc_authority s\<rparr>)"

definition graph_data :: "'v RemoteHostSession \<Rightarrow> GraphData" where
  "graph_data s =
     (let d = rs_design s; full = (ds_all_nodes d \<noteq> []) in
      \<lparr>grd_nodes = map work_node (if full then ds_all_nodes d else ds_implementing d @ ds_actionable d),
       grd_is_full_inventory = full,
       grd_counts = sort_key (\<lambda>(_, n). - int n) (ds_counts d)\<rparr>)"

section \<open>Properties\<close>

text \<open>The summary of the telemetry counts the providers that are shown.\<close>

lemma provider_summary_agrees:
  "std_provider_summary (sv_telemetry (remote_session_data fmt s)) =
     authenticated_of_total (length (filter pin_authenticated (sv_providers (remote_session_data fmt s))))
       (length (sv_providers (remote_session_data fmt s)))"
  by (cases "rs_harness_snapshot s")
    (simp_all add: remote_session_data_def build_session_telemetry_def provider_info_def comp_def Let_def)

text \<open>The counts are those of the design, the largest first.\<close>

lemma graph_counts_sorted:
  "set (grd_counts (graph_data s)) = set (ds_counts (rs_design s))"
  "length (grd_counts (graph_data s)) = length (ds_counts (rs_design s))"
  "sorted_wrt (\<lambda>a b. snd b \<le> snd a) (grd_counts (graph_data s))"
proof -
  show "set (grd_counts (graph_data s)) = set (ds_counts (rs_design s))"
    and "length (grd_counts (graph_data s)) = length (ds_counts (rs_design s))"
    by (simp_all add: graph_data_def Let_def)
  have "sorted (map (\<lambda>(_, n). - int n) (grd_counts (graph_data s)))"
    by (simp add: graph_data_def Let_def)
  then show "sorted_wrt (\<lambda>a b. snd b \<le> snd a) (grd_counts (graph_data s))"
    by (simp add: sorted_wrt_map case_prod_beta)
qed

text \<open>A dispatcher without a descriptor is shown as the binding expects it.\<close>

lemma undescribed_dispatcher_as_expected:
  assumes "db_instance_descriptor b = None"
  shows "dbd_session_id (project_dispatcher_binding b) = db_session_id b"
    and "dbd_dispatcher_instance_id (project_dispatcher_binding b) = db_dispatcher_instance_id b"
    and "dbd_expected_profile (project_dispatcher_binding b) = db_expected_profile b"
    and "dbd_control_plane_schema (project_dispatcher_binding b) = db_control_plane_schema b"
  using assms by (simp_all add: project_dispatcher_binding_def Let_def)

end
