(* ===== verification/Mock_Session.thy ===== *)
theory Mock_Session
  imports Session_View Session_Reducer
begin

text \<open>
  The session without an engine (\<open>MockHostSession\<close> of \<open>fixtures.rs\<close>): the scenarios of the
  development fixtures with their data, and the only thing it does, which is to answer a prompt with
  a fixed text.  Text that is not ASCII is written as its UTF-8 bytes.
\<close>

section \<open>Scenarios\<close>

record MockHostSession =
  mhs_shell_state :: ShellState
  mhs_scenario :: DevScenario
  mhs_summary :: HostSessionSummary
  mhs_messages :: "ChatMessage list"
  mhs_composer :: ComposerState
  mhs_transcript :: TranscriptData

definition no_draft :: ComposerState where
  "no_draft = \<lparr>cst_draft = []\<rparr>"

definition blank_telemetry :: SessionTelemetryData where
  "blank_telemetry =
     \<lparr>std_provider_summary = [], std_lifecycle_summary = [], std_lifecycle = default_lifecycle,
      std_route_summary = [], std_latest_turn_summary = [], std_latest_provider_telemetry = None,
      std_provider_rollups = [], std_latest_estimated_tokens = None, std_latest_actual_input_tokens = None,
      std_latest_actual_output_tokens = None, std_latest_cache_read_tokens = None, std_control_plane = None,
      std_control_plane_rollups = [], std_transport = default_transport\<rparr>"

text \<open>\<open>SessionData::default()\<close>\<close>

definition blank_session_data :: "'v SessionView" where
  "blank_session_data =
     \<lparr>sd_instance_descriptor = None, sd_operational_profile_metadata = None, sd_dispatcher_binding = None,
      sv_git_branch = None, sv_git_detached = False, sv_thinking_level = [], sv_capability_tier = [],
      sv_providers = [], sv_memory_available = False, sv_cleave_available = False, sv_memory_warning = None,
      sv_active_delegate_count = 0, sv_active_delegates = [], sv_session_turns = 0,
      sv_session_tool_calls = 0, sv_session_compactions = 0, sv_context_tokens = None,
      sv_context_window = None, sv_telemetry = blank_telemetry, sv_latest_plan = None,
      sv_ipc_authority = None\<rparr>"

definition ready_session :: MockHostSession where
  "ready_session =
     \<lparr>mhs_shell_state = ShellState.Ready, mhs_scenario = DevScenario.Ready,
      mhs_summary = \<lparr>hss_connection = ''Connected to local host session'',
                     hss_activity = (''Idle '' @ [CHR 0xE2, CHR 0x80, CHR 0x94] @ '' waiting for your next prompt''),
                     hss_activity_kind = ActivityKind.Idle,
                     hss_work = ''No focused work item yet''\<rparr>,
      mhs_messages = [\<lparr>cm_role = Assistant,
                       cm_text = ''Auspex scaffold ready. Type a prompt to grow the shell from here.''\<rparr>],
      mhs_composer = no_draft,
      mhs_transcript = empty_transcript\<rparr>"

definition booting_session :: MockHostSession where
  "booting_session =
     \<lparr>mhs_shell_state = StartingOmegon, mhs_scenario = Booting,
      mhs_summary = \<lparr>hss_connection = ''Starting bundled runtime'',
                     hss_activity = ''Launching Styrene and Omegon'',
                     hss_activity_kind = ActivityKind.Waiting,
                     hss_work = ''Work state unavailable during startup''\<rparr>,
      mhs_messages = [\<lparr>cm_role = MessageRole.System,
                       cm_text = ''Auspex is starting Styrene and Omegon. The conversation shell will become interactive when the host session is ready.''\<rparr>],
      mhs_composer = no_draft,
      mhs_transcript = empty_transcript\<rparr>"

definition degraded_session :: MockHostSession where
  "degraded_session =
     \<lparr>mhs_shell_state = ShellState.Degraded, mhs_scenario = DevScenario.Degraded,
      mhs_summary = \<lparr>hss_connection = ''Connected locally, relay degraded'',
                     hss_activity = ''Continuing with degraded remote connectivity'',
                     hss_activity_kind = ActivityKind.Degraded,
                     hss_work = ''1 cached work item in progress''\<rparr>,
      mhs_messages = [\<lparr>cm_role = Assistant,
                       cm_text = ''Cached session restored. The local shell is still usable.''\<rparr>,
                      \<lparr>cm_role = MessageRole.System,
                       cm_text = ''Styrene relay is degraded. Phone clients may reconnect automatically while local work continues.''\<rparr>],
      mhs_composer = no_draft,
      mhs_transcript = empty_transcript\<rparr>"

definition startup_failure_session :: MockHostSession where
  "startup_failure_session =
     \<lparr>mhs_shell_state = ShellState.Failed, mhs_scenario = StartupFailure,
      mhs_summary = \<lparr>hss_connection = ''Embedded Omegon backend unavailable'',
                     hss_activity = ''Startup blocked by embedded backend failure'',
                     hss_activity_kind = ActivityKind.Failure,
                     hss_work = ''No local session available''\<rparr>,
      mhs_messages = [\<lparr>cm_role = MessageRole.System,
                       cm_text = ''Auspex could not start its embedded Omegon backend. Local operation is blocked until the backend startup contract succeeds.''\<rparr>],
      mhs_composer = no_draft,
      mhs_transcript = empty_transcript\<rparr>"

definition compatibility_failure_session :: MockHostSession where
  "compatibility_failure_session =
     \<lparr>mhs_shell_state = ShellState.Failed, mhs_scenario = CompatibilityFailure,
      mhs_summary = \<lparr>hss_connection = ''Host incompatible'',
                     hss_activity = ''Startup blocked by compatibility failure'',
                     hss_activity_kind = ActivityKind.Failure,
                     hss_work = ''No session available''\<rparr>,
      mhs_messages = [\<lparr>cm_role = MessageRole.System,
                       cm_text = ''Compatibility failure: Auspex expects Omegon control-plane schema 2, but the detected host did not satisfy the declared contract.''\<rparr>],
      mhs_composer = no_draft,
      mhs_transcript = empty_transcript\<rparr>"

definition reconnecting_session :: MockHostSession where
  "reconnecting_session =
     \<lparr>mhs_shell_state = CompatibilityChecking, mhs_scenario = DevScenario.Reconnecting,
      mhs_summary = \<lparr>hss_connection = ''Reconnecting to desktop host'',
                     hss_activity = ''Restoring remote session link'',
                     hss_activity_kind = ActivityKind.Waiting,
                     hss_work = ''Showing last known focused work''\<rparr>,
      mhs_messages = [\<lparr>cm_role = Assistant,
                       cm_text = ''Last known session state is still visible.''\<rparr>,
                      \<lparr>cm_role = MessageRole.System,
                       cm_text = ''Connection to the host is reconnecting. New input is temporarily paused while Auspex restores the session link.''\<rparr>],
      mhs_composer = no_draft,
      mhs_transcript = empty_transcript\<rparr>"

definition local_dev_quiet_session :: MockHostSession where
  "local_dev_quiet_session =
     \<lparr>mhs_shell_state = ShellState.Ready, mhs_scenario = LocalDevQuiet,
      mhs_summary = \<lparr>hss_connection = ''Connected to local host session'',
                     hss_activity = (''Idle '' @ [CHR 0xE2, CHR 0x80, CHR 0x94] @ '' waiting for the next local prompt''),
                     hss_activity_kind = ActivityKind.Idle,
                     hss_work = ''No focused work item yet''\<rparr>,
      mhs_messages = [\<lparr>cm_role = Assistant,
                       cm_text = ''Quiet local-dev fixture loaded. This scenario is optimized for baseline layout checks with minimal operational noise.''\<rparr>],
      mhs_composer = no_draft,
      mhs_transcript = empty_transcript\<rparr>"

definition local_dev_busy_session :: MockHostSession where
  "local_dev_busy_session =
     \<lparr>mhs_shell_state = ShellState.Degraded, mhs_scenario = LocalDevBusy,
      mhs_summary = \<lparr>hss_connection = ''Connected to local host session'',
                     hss_activity = ''Input paused pending provider auth'',
                     hss_activity_kind = ActivityKind.Running,
                     hss_work = ''Dispatcher posture review in progress''\<rparr>,
      mhs_messages = [\<lparr>cm_role = Assistant,
                       cm_text = ''Busy local-dev fixture loaded. The shell shows a blocked composer, active delegates, and recent transcript density.''\<rparr>,
                      \<lparr>cm_role = MessageRole.System,
                       cm_text = ''Provider auth is incomplete. Sending is paused until a provider is authenticated.''\<rparr>],
      mhs_composer = \<lparr>cst_draft = ''Summarize the last dispatcher switch and propose the next smallest implementation step.''\<rparr>,
      mhs_transcript = \<lparr>td_turns = [\<lparr>turn_number = 1, turn_user_prompt = None,
                                     turn_blocks = [TurnBlock.Text \<lparr>at_text = ''Summarize the current session, branch, and work focus around primary_driver attached to workspace unknown.'',
                                                                    at_origin = None,
                                                                    at_notice_kind = None\<rparr>]\<rparr>,
                                    \<lparr>turn_number = 2, turn_user_prompt = None,
                                     turn_blocks = [TurnBlock.System \<lparr>at_text = (''Dispatcher switch confirmed (dispatcher-switch-17): primary-interactive '' @ [CHR 0xC2, CHR 0xB7] @ '' anthropic:claude-sonnet-4-6''),
                                                                      at_origin = Some (\<lparr>bo_kind = Dispatcher,
                                                                                         bo_label = ''primary_driver''\<rparr>),
                                                                      at_notice_kind = Some SystemNoticeKind.DispatcherSwitch\<rparr>,
                                                    TurnBlock.Text \<lparr>at_text = ''Current branch is main and the focused work remains the shell integration pass.'',
                                                                    at_origin = Some (\<lparr>bo_kind = Dispatcher,
                                                                                       bo_label = ''primary_driver''\<rparr>),
                                                                    at_notice_kind = None\<rparr>]\<rparr>,
                                    \<lparr>turn_number = 3, turn_user_prompt = None,
                                     turn_blocks = [TurnBlock.Tool \<lparr>tc_id = ''tool-1'',
                                                                    tc_name = ''cargo test'',
                                                                    tc_args = ''--lib screens::tests'',
                                                                    tc_partial_output = [],
                                                                    tc_result = Some ''188 passed; 0 failed'',
                                                                    tc_is_error = False,
                                                                    tc_origin = Some (\<lparr>bo_kind = Child,
                                                                                       bo_label = ''subtask-1''\<rparr>)\<rparr>]\<rparr>,
                                    \<lparr>turn_number = 4, turn_user_prompt = None,
                                     turn_blocks = [TurnBlock.System \<lparr>at_text = ''Prompt execution blocked: authenticate a provider before sending prompts so Auspex can route work to a runnable model backend.'',
                                                                      at_origin = Some (\<lparr>bo_kind = OriginKind.System,
                                                                                         bo_label = ''Auspex''\<rparr>),
                                                                      at_notice_kind = Some SystemNoticeKind.Failure\<rparr>]\<rparr>],
                        td_active_turn = Some 5, td_context_tokens = Some 148000\<rparr>\<rparr>"

definition homelab_fleet_session :: MockHostSession where
  "homelab_fleet_session =
     \<lparr>mhs_shell_state = ShellState.Ready, mhs_scenario = HomelabFleet,
      mhs_summary = \<lparr>hss_connection = ''Connected to homelab control plane'',
                     hss_activity = ''Fleet overview with mixed freshness across attached instances'',
                     hss_activity_kind = ActivityKind.Running,
                     hss_work = (''4 attached routes '' @ [CHR 0xC2, CHR 0xB7] @ '' 2 delegates active'')\<rparr>,
      mhs_messages = [\<lparr>cm_role = Assistant,
                       cm_text = ''Homelab fleet fixture loaded. This scenario stresses right-rail summaries and lifecycle density.''\<rparr>,
                      \<lparr>cm_role = MessageRole.System,
                       cm_text = ''Two detached services are stale but still report control-plane metadata.''\<rparr>],
      mhs_composer = no_draft,
      mhs_transcript = \<lparr>td_turns = [\<lparr>turn_number = 7, turn_user_prompt = None,
                                     turn_blocks = [TurnBlock.Text \<lparr>at_text = ''List all stale detached services and identify any with mismatched profiles.'',
                                                                    at_origin = None,
                                                                    at_notice_kind = None\<rparr>]\<rparr>,
                                    \<lparr>turn_number = 8, turn_user_prompt = None,
                                     turn_blocks = [TurnBlock.Text \<lparr>at_text = ''Detached service omg_detached_backup is stale on profile homelab-watch, while omg_media_index remains fresh on profile media-index.'',
                                                                    at_origin = Some (\<lparr>bo_kind = Dispatcher,
                                                                                       bo_label = ''primary_driver''\<rparr>),
                                                                    at_notice_kind = None\<rparr>,
                                                    TurnBlock.System \<lparr>at_text = (''Lifecycle rollup: fresh 4 '' @ [CHR 0xC2, CHR 0xB7] @ '' stale 2 '' @ [CHR 0xC2, CHR 0xB7] @ '' lost 1''),
                                                                      at_origin = Some (\<lparr>bo_kind = OriginKind.System,
                                                                                         bo_label = ''Auspex''\<rparr>),
                                                                      at_notice_kind = Some SystemNoticeKind.Generic\<rparr>]\<rparr>],
                        td_active_turn = Some 8, td_context_tokens = Some 62000\<rparr>\<rparr>"

definition enterprise_incident_session :: MockHostSession where
  "enterprise_incident_session =
     \<lparr>mhs_shell_state = ShellState.Degraded, mhs_scenario = EnterpriseIncident,
      mhs_summary = \<lparr>hss_connection = ''Connected to enterprise relay, incident mode'',
                     hss_activity = ''Provider exhaustion and stale routes require triage'',
                     hss_activity_kind = ActivityKind.Failure,
                     hss_work = (''12 attached routes '' @ [CHR 0xC2, CHR 0xB7] @ '' 3 stale '' @ [CHR 0xC2, CHR 0xB7] @ '' 1 abandoned'')\<rparr>,
      mhs_messages = [\<lparr>cm_role = Assistant,
                       cm_text = ''Enterprise incident fixture loaded. This pack is intended to stress every shell surface with high-density degraded-state data.''\<rparr>,
                      \<lparr>cm_role = MessageRole.System,
                       cm_text = ''Anthropic is exhausted for the current 5h window and the primary detached analytics route has entered stale lifecycle state.''\<rparr>],
      mhs_composer = \<lparr>cst_draft = ''Summarize the enterprise incident state and propose a triage sequence.''\<rparr>,
      mhs_transcript = \<lparr>td_turns = [\<lparr>turn_number = 18, turn_user_prompt = None,
                                     turn_blocks = [TurnBlock.System \<lparr>at_text = (''Dispatcher switch requested (dispatcher-switch-42): enterprise-triage '' @ [CHR 0xC2, CHR 0xB7] @ '' openai:gpt-4.1''),
                                                                      at_origin = Some (\<lparr>bo_kind = Dispatcher,
                                                                                         bo_label = ''primary_driver''\<rparr>),
                                                                      at_notice_kind = Some SystemNoticeKind.DispatcherSwitch\<rparr>]\<rparr>,
                                    \<lparr>turn_number = 19, turn_user_prompt = None,
                                     turn_blocks = [TurnBlock.Text \<lparr>at_text = ''Provider exhaustion detected for anthropic. Remaining enterprise routes should be redistributed to openai:gpt-4.1 and local codex workers until the retry window clears.'',
                                                                    at_origin = Some (\<lparr>bo_kind = Dispatcher,
                                                                                       bo_label = ''primary_driver''\<rparr>),
                                                                    at_notice_kind = None\<rparr>,
                                                    TurnBlock.System \<lparr>at_text = ''Abandoned route omg_enterprise_batch_03 exceeded lifecycle policy and awaits reap.'',
                                                                      at_origin = Some (\<lparr>bo_kind = OriginKind.System,
                                                                                         bo_label = ''Auspex''\<rparr>),
                                                                      at_notice_kind = Some SystemNoticeKind.Failure\<rparr>]\<rparr>],
                        td_active_turn = Some 19, td_context_tokens = Some 182000\<rparr>\<rparr>"

section \<open>Data\<close>

definition mock_work_data :: "MockHostSession \<Rightarrow> WorkData" where
  "mock_work_data s =
     (case mhs_scenario s of
        LocalDevQuiet \<Rightarrow>
          \<lparr>wkd_focused_id = Some ''simple-mode-mvp'',
           wkd_focused_title = Some (''Phase 3 '' @ [CHR 0xE2, CHR 0x80, CHR 0x94] @ '' Simple mode MVP''),
           wkd_focused_status = Some ''decided'', wkd_open_question_count = 0,
           wkd_implementing = [],
           wkd_actionable = [\<lparr>wn_id = ''simple-mode-shell'',
                              wn_title = ''Wire shell composition for local dev'',
                              wn_status = ''ready''\<rparr>],
           wkd_openspec_total = 3, wkd_openspec_done = 2, wkd_cleave_active = False,
           wkd_cleave_total = 0, wkd_cleave_completed = 0, wkd_cleave_failed = 0\<rparr>
      | LocalDevBusy \<Rightarrow>
          \<lparr>wkd_focused_id = Some ''shell-integration'',
           wkd_focused_title = Some ''Dispatcher posture review'',
           wkd_focused_status = Some ''implementing'', wkd_open_question_count = 2,
           wkd_implementing = [\<lparr>wn_id = ''embedded-bootstrap'',
                                wn_title = ''Repair embedded control-plane bootstrap'',
                                wn_status = ''implementing''\<rparr>],
           wkd_actionable = [\<lparr>wn_id = ''provider-auth'',
                              wn_title = ''Authenticate a runnable provider'',
                              wn_status = ''blocked''\<rparr>,
                             \<lparr>wn_id = ''dispatcher-review'',
                              wn_title = ''Confirm dispatcher route and profile'',
                              wn_status = ''ready''\<rparr>],
           wkd_openspec_total = 5, wkd_openspec_done = 3, wkd_cleave_active = True,
           wkd_cleave_total = 3, wkd_cleave_completed = 1, wkd_cleave_failed = 0\<rparr>
      | HomelabFleet \<Rightarrow>
          \<lparr>wkd_focused_id = Some ''fleet-overview'',
           wkd_focused_title = Some ''Homelab fleet lifecycle audit'',
           wkd_focused_status = Some ''implementing'', wkd_open_question_count = 1,
           wkd_implementing = [\<lparr>wn_id = ''fleet-lifecycle'',
                                wn_title = ''Normalize stale route lifecycle summaries'',
                                wn_status = ''implementing''\<rparr>,
                               \<lparr>wn_id = ''control-plane-card'',
                                wn_title = ''Surface detached instance control-plane metadata'',
                                wn_status = ''implementing''\<rparr>],
           wkd_actionable = [\<lparr>wn_id = ''profile-drift'',
                              wn_title = ''Investigate mismatched detached profiles'',
                              wn_status = ''ready''\<rparr>],
           wkd_openspec_total = 7, wkd_openspec_done = 4, wkd_cleave_active = True,
           wkd_cleave_total = 2, wkd_cleave_completed = 1, wkd_cleave_failed = 0\<rparr>
      | EnterpriseIncident \<Rightarrow>
          \<lparr>wkd_focused_id = Some ''enterprise-triage'',
           wkd_focused_title = Some ''Enterprise incident triage'',
           wkd_focused_status = Some ''implementing'', wkd_open_question_count = 4,
           wkd_implementing = [\<lparr>wn_id = ''provider-failover'',
                                wn_title = ''Redistribute exhausted provider load'',
                                wn_status = ''implementing''\<rparr>,
                               \<lparr>wn_id = ''stale-routes'',
                                wn_title = ''Triage stale and abandoned enterprise routes'',
                                wn_status = ''implementing''\<rparr>],
           wkd_actionable = [\<lparr>wn_id = ''incident-summary'',
                              wn_title = ''Produce incident commander summary'',
                              wn_status = ''ready''\<rparr>,
                             \<lparr>wn_id = ''reap-policy'',
                              wn_title = ''Confirm reap policy for abandoned route'',
                              wn_status = ''blocked''\<rparr>],
           wkd_openspec_total = 9, wkd_openspec_done = 5, wkd_cleave_active = True,
           wkd_cleave_total = 4, wkd_cleave_completed = 2, wkd_cleave_failed = 1\<rparr>
      | _ \<Rightarrow>
          \<lparr>wkd_focused_id = None,
           wkd_focused_title = Some (''Phase 3 '' @ [CHR 0xE2, CHR 0x80, CHR 0x94] @ '' Simple mode MVP''),
           wkd_focused_status = Some ''decided'', wkd_open_question_count = 0,
           wkd_implementing = [], wkd_actionable = [], wkd_openspec_total = 0,
           wkd_openspec_done = 0, wkd_cleave_active = False, wkd_cleave_total = 0,
           wkd_cleave_completed = 0, wkd_cleave_failed = 0\<rparr>)"

definition mock_data_local_dev_quiet :: "'v SessionView" where
  "mock_data_local_dev_quiet =
     blank_session_data\<lparr>sv_git_branch := Some ''main'', sv_thinking_level := ''medium'',
       sv_capability_tier := ''victory'',
       sv_providers := [\<lparr>pin_name = ''Anthropic'', pin_authenticated = True,
                   pin_auth_method = Some ''oauth'', pin_model = Some ''claude-sonnet''\<rparr>],
       sv_memory_available := True, sv_cleave_available := True, sv_session_turns := 1,
       sv_session_tool_calls := 0,
       sv_telemetry := \<lparr>std_provider_summary = ''1 / 1 authenticated'',
                  std_lifecycle_summary = ''no active delegates'',
                  std_lifecycle = \<lparr>ltd_summary = ''single local shell attached'',
                                   ltd_attached_count = 0, ltd_selected_route_id = None,
                                   ltd_selected_instance = None, ltd_counts = default_counts,
                                   ltd_instances = []\<rparr>,
                  std_route_summary = ''local shell'',
                  std_latest_turn_summary = (''turns 1 '' @ [CHR 0xC2, CHR 0xB7] @ '' tool calls 0''),
                  std_latest_provider_telemetry = None, std_provider_rollups = [],
                  std_latest_estimated_tokens = Some 2400, std_latest_actual_input_tokens = None,
                  std_latest_actual_output_tokens = None, std_latest_cache_read_tokens = None,
                  std_control_plane = None, std_control_plane_rollups = [],
                  std_transport = default_transport\<rparr>\<rparr>"

definition mock_data_local_dev_busy :: "'v SessionView" where
  "mock_data_local_dev_busy =
     blank_session_data\<lparr>sv_git_branch := Some ''main'', sv_thinking_level := ''high'',
       sv_capability_tier := ''victory'',
       sv_providers := [\<lparr>pin_name = ''Anthropic'', pin_authenticated = False,
                   pin_auth_method = Some ''oauth'', pin_model = Some ''claude-sonnet-4-6''\<rparr>,
                  \<lparr>pin_name = ''OpenAI'', pin_authenticated = False,
                   pin_auth_method = Some ''api key'', pin_model = Some ''gpt-5-codex''\<rparr>],
       sv_memory_available := True, sv_cleave_available := True, sv_active_delegate_count := 1,
       sv_active_delegates := [\<lparr>dsd_task_id = ''subtask-1'', dsd_agent_name = ''analyzer'',
                          dsd_status = ''running'', dsd_elapsed_ms = 84000\<rparr>],
       sv_session_turns := 4, sv_session_tool_calls := 12, sv_context_tokens := Some 148000,
       sv_context_window := Some 272000,
       sv_telemetry := \<lparr>std_provider_summary = ''0 / 2 authenticated'',
                  std_lifecycle_summary = ''1 delegate active'',
                  std_lifecycle = \<lparr>ltd_summary = (''dispatcher attached '' @ [CHR 0xC2, CHR 0xB7] @ '' 1 active delegate''),
                                   ltd_attached_count = 1, ltd_selected_route_id = None,
                                   ltd_selected_instance = None,
                                   ltd_counts = \<lparr>lrc_total_attached = 1, lrc_fresh = 1,
                                                 lrc_stale = 0, lrc_lost = 0, lrc_abandoned = 0,
                                                 lrc_reaped = 0, lrc_unknown = 0\<rparr>,
                                   ltd_instances = []\<rparr>,
                  std_route_summary = (''local shell '' @ [CHR 0xC2, CHR 0xB7] @ '' dispatcher pending auth''),
                  std_latest_turn_summary = (''turns 4 '' @ [CHR 0xC2, CHR 0xB7] @ '' tool calls 12''),
                  std_latest_provider_telemetry = None, std_provider_rollups = [],
                  std_latest_estimated_tokens = Some 148000,
                  std_latest_actual_input_tokens = Some 4822,
                  std_latest_actual_output_tokens = Some 1188,
                  std_latest_cache_read_tokens = Some 0, std_control_plane = None,
                  std_control_plane_rollups = [], std_transport = default_transport\<rparr>,
       sd_dispatcher_binding := Some (\<lparr>dbd_session_id = ''session_01HVLOCAL'',
                                 dbd_dispatcher_instance_id = ''primary_driver'',
                                 dbd_expected_role = ''dispatcher'',
                                 dbd_expected_profile = ''primary-interactive'',
                                 dbd_expected_model = Some ''anthropic:claude-sonnet-4-6'',
                                 dbd_control_plane_schema = 1, dbd_token_ref = None,
                                 dbd_observed_base_url = None, dbd_last_verified_at = None,
                                 dbd_instance_descriptor = None, dbd_available_options = [],
                                 dbd_switch_state = None\<rparr>)\<rparr>"

definition mock_data_homelab_fleet :: "'v SessionView" where
  "mock_data_homelab_fleet =
     blank_session_data\<lparr>sv_git_branch := Some ''homelab/fleet-audit'', sv_thinking_level := ''medium'',
       sv_capability_tier := ''victory'',
       sv_providers := [\<lparr>pin_name = ''Anthropic'', pin_authenticated = True,
                   pin_auth_method = Some ''oauth'', pin_model = Some ''claude-sonnet-4-6''\<rparr>,
                  \<lparr>pin_name = ''OpenAI'', pin_authenticated = True,
                   pin_auth_method = Some ''api key'', pin_model = Some ''gpt-5-codex''\<rparr>],
       sv_memory_available := True, sv_cleave_available := True, sv_active_delegate_count := 2,
       sv_active_delegates := [\<lparr>dsd_task_id = ''media-index-audit'', dsd_agent_name = ''general'',
                          dsd_status = ''running'', dsd_elapsed_ms = 212000\<rparr>,
                         \<lparr>dsd_task_id = ''backup-watch'', dsd_agent_name = ''analyzer'',
                          dsd_status = ''waiting'', dsd_elapsed_ms = 98000\<rparr>],
       sv_session_turns := 8, sv_session_tool_calls := 26, sv_context_tokens := Some 62000,
       sv_context_window := Some 272000,
       sv_telemetry := \<lparr>std_provider_summary = ''2 / 2 authenticated'',
                  std_lifecycle_summary = (''4 fresh '' @ [CHR 0xC2, CHR 0xB7] @ '' 2 stale '' @ [CHR 0xC2, CHR 0xB7] @ '' 1 lost''),
                  std_lifecycle = \<lparr>ltd_summary = ''7 attached homelab routes'',
                                   ltd_attached_count = 7, ltd_selected_route_id = None,
                                   ltd_selected_instance = None,
                                   ltd_counts = \<lparr>lrc_total_attached = 7, lrc_fresh = 4,
                                                 lrc_stale = 2, lrc_lost = 1, lrc_abandoned = 0,
                                                 lrc_reaped = 0, lrc_unknown = 0\<rparr>,
                                   ltd_instances = []\<rparr>,
                  std_route_summary = ''homelab control plane'',
                  std_latest_turn_summary = (''turns 8 '' @ [CHR 0xC2, CHR 0xB7] @ '' tool calls 26''),
                  std_latest_provider_telemetry = None, std_provider_rollups = [],
                  std_latest_estimated_tokens = Some 62000,
                  std_latest_actual_input_tokens = Some 2704,
                  std_latest_actual_output_tokens = Some 1006,
                  std_latest_cache_read_tokens = Some 320, std_control_plane = None,
                  std_control_plane_rollups = [], std_transport = default_transport\<rparr>,
       sd_dispatcher_binding := Some (\<lparr>dbd_session_id = ''session_01HVHOME'',
                                 dbd_dispatcher_instance_id = ''primary_driver'',
                                 dbd_expected_role = ''dispatcher'',
                                 dbd_expected_profile = ''homelab-watch'',
                                 dbd_expected_model = Some ''anthropic:claude-sonnet-4-6'',
                                 dbd_control_plane_schema = 1, dbd_token_ref = None,
                                 dbd_observed_base_url = None, dbd_last_verified_at = None,
                                 dbd_instance_descriptor = None, dbd_available_options = [],
                                 dbd_switch_state = None\<rparr>)\<rparr>"

definition mock_data_enterprise_incident :: "'v SessionView" where
  "mock_data_enterprise_incident =
     blank_session_data\<lparr>sv_git_branch := Some ''incident/enterprise-relay'', sv_thinking_level := ''high'',
       sv_capability_tier := ''gloriana'',
       sv_providers := [\<lparr>pin_name = ''Anthropic'', pin_authenticated = True,
                   pin_auth_method = Some ''oauth'', pin_model = Some ''claude-sonnet-4-6''\<rparr>,
                  \<lparr>pin_name = ''OpenAI'', pin_authenticated = True,
                   pin_auth_method = Some ''api key'', pin_model = Some ''gpt-4.1''\<rparr>,
                  \<lparr>pin_name = ''Local Codex'', pin_authenticated = True,
                   pin_auth_method = Some ''loopback'', pin_model = Some ''gpt-5-codex''\<rparr>],
       sv_memory_available := True, sv_cleave_available := True, sv_active_delegate_count := 3,
       sv_active_delegates := [\<lparr>dsd_task_id = ''reroute-primary'', dsd_agent_name = ''general'',
                          dsd_status = ''running'', dsd_elapsed_ms = 441000\<rparr>,
                         \<lparr>dsd_task_id = ''quota-audit'', dsd_agent_name = ''analyzer'',
                          dsd_status = ''running'', dsd_elapsed_ms = 305000\<rparr>,
                         \<lparr>dsd_task_id = ''reap-abandoned'', dsd_agent_name = ''general'',
                          dsd_status = ''blocked'', dsd_elapsed_ms = 127000\<rparr>],
       sv_session_turns := 19, sv_session_tool_calls := 73, sv_session_compactions := 2,
       sv_context_tokens := Some 182000, sv_context_window := Some 272000,
       sv_telemetry := \<lparr>std_provider_summary = (''3 providers available '' @ [CHR 0xC2, CHR 0xB7] @ '' anthropic exhausted''),
                  std_lifecycle_summary = (''12 attached '' @ [CHR 0xC2, CHR 0xB7] @ '' 3 stale '' @ [CHR 0xC2, CHR 0xB7] @ '' 1 abandoned''),
                  std_lifecycle = \<lparr>ltd_summary = ''enterprise relay under incident load'',
                                   ltd_attached_count = 12, ltd_selected_route_id = None,
                                   ltd_selected_instance = None,
                                   ltd_counts = \<lparr>lrc_total_attached = 12, lrc_fresh = 8,
                                                 lrc_stale = 3, lrc_lost = 0, lrc_abandoned = 1,
                                                 lrc_reaped = 0, lrc_unknown = 0\<rparr>,
                                   ltd_instances = []\<rparr>,
                  std_route_summary = ''enterprise relay'',
                  std_latest_turn_summary = (''turns 19 '' @ [CHR 0xC2, CHR 0xB7] @ '' tool calls 73''),
                  std_latest_provider_telemetry = Some (\<lparr>ptd_provider = ''Anthropic'',
                                                         ptd_source = ''dispatcher'',
                                                         ptd_route_id = None,
                                                         ptd_instance_id = None, ptd_role = None,
                                                         ptd_profile = Some ''enterprise-triage'',
                                                         ptd_model = Some ''claude-sonnet-4-6'',
                                                         ptd_requests_remaining = None,
                                                         ptd_tokens_remaining = None,
                                                         ptd_retry_after_secs = Some 2400,
                                                         ptd_request_id = None,
                                                         ptd_unified_5h_utilization_pct = None,
                                                         ptd_unified_7d_utilization_pct = None,
                                                         ptd_codex_primary_used_pct = None,
                                                         ptd_codex_secondary_used_pct = None\<rparr>),
                  std_provider_rollups = [], std_latest_estimated_tokens = Some 182000,
                  std_latest_actual_input_tokens = Some 9640,
                  std_latest_actual_output_tokens = Some 2118,
                  std_latest_cache_read_tokens = Some 2048, std_control_plane = None,
                  std_control_plane_rollups = [], std_transport = default_transport\<rparr>,
       sd_dispatcher_binding := Some (\<lparr>dbd_session_id = ''session_01HVENT'',
                                 dbd_dispatcher_instance_id = ''primary_driver'',
                                 dbd_expected_role = ''dispatcher'',
                                 dbd_expected_profile = ''enterprise-triage'',
                                 dbd_expected_model = Some ''openai:gpt-4.1'',
                                 dbd_control_plane_schema = 1, dbd_token_ref = None,
                                 dbd_observed_base_url = None, dbd_last_verified_at = None,
                                 dbd_instance_descriptor = None, dbd_available_options = [],
                                 dbd_switch_state = None\<rparr>)\<rparr>"

definition mock_data_other :: "'v SessionView" where
  "mock_data_other =
     blank_session_data\<lparr>sv_git_branch := Some ''main'', sv_thinking_level := ''medium'',
       sv_capability_tier := ''victory'',
       sv_providers := [\<lparr>pin_name = ''Anthropic'', pin_authenticated = True,
                   pin_auth_method = Some ''oauth'', pin_model = Some ''claude-sonnet''\<rparr>],
       sv_memory_available := True, sv_cleave_available := True, sv_session_turns := 4,
       sv_session_tool_calls := 12,
       sv_telemetry := \<lparr>std_provider_summary = ''1 / 1 authenticated'',
                  std_lifecycle_summary = ''no active delegates'',
                  std_lifecycle = \<lparr>ltd_summary = ''no attached instances'',
                                   ltd_attached_count = 0, ltd_selected_route_id = None,
                                   ltd_selected_instance = None, ltd_counts = default_counts,
                                   ltd_instances = []\<rparr>,
                  std_route_summary = ''local shell'',
                  std_latest_turn_summary = (''turns 4 '' @ [CHR 0xC2, CHR 0xB7] @ '' tool calls 12''),
                  std_latest_provider_telemetry = None, std_provider_rollups = [],
                  std_latest_estimated_tokens = None, std_latest_actual_input_tokens = None,
                  std_latest_actual_output_tokens = None, std_latest_cache_read_tokens = None,
                  std_control_plane = None, std_control_plane_rollups = [],
                  std_transport = default_transport\<rparr>\<rparr>"

definition mock_session_data :: "MockHostSession \<Rightarrow> 'v SessionView" where
  "mock_session_data s =
     (case mhs_scenario s of
        LocalDevQuiet \<Rightarrow> mock_data_local_dev_quiet
      | LocalDevBusy \<Rightarrow> mock_data_local_dev_busy
      | HomelabFleet \<Rightarrow> mock_data_homelab_fleet
      | EnterpriseIncident \<Rightarrow> mock_data_enterprise_incident
      | _ \<Rightarrow> mock_data_other)"

definition mock_graph_data :: GraphData where
  "mock_graph_data =
     \<lparr>grd_nodes = [\<lparr>wn_id = ''auspex-mvp'', wn_title = ''Auspex MVP'',
                    wn_status = ''implementing''\<rparr>,
                   \<lparr>wn_id = ''simple-mode'',
                    wn_title = (''Phase 3 '' @ [CHR 0xE2, CHR 0x80, CHR 0x94] @ '' Simple mode''),
                    wn_status = ''decided''\<rparr>,
                   \<lparr>wn_id = ''power-mode'',
                    wn_title = (''Phase 4 '' @ [CHR 0xE2, CHR 0x80, CHR 0x94] @ '' Power mode''),
                    wn_status = ''implementing''\<rparr>,
                   \<lparr>wn_id = ''phone-client'',
                    wn_title = (''Phase 5 '' @ [CHR 0xE2, CHR 0x80, CHR 0x94] @ '' Phone''),
                    wn_status = ''seed''\<rparr>],
      grd_is_full_inventory = True,
      grd_counts = [(''implementing'', 2),
                    (''decided'', 1),
                    (''seed'', 1)]\<rparr>"

section \<open>Operations\<close>

fun from_scenario :: "DevScenario \<Rightarrow> MockHostSession" where
  "from_scenario DevScenario.Ready = ready_session"
| "from_scenario Booting = booting_session"
| "from_scenario DevScenario.Degraded = degraded_session"
| "from_scenario StartupFailure = startup_failure_session"
| "from_scenario CompatibilityFailure = compatibility_failure_session"
| "from_scenario DevScenario.Reconnecting = reconnecting_session"
| "from_scenario LocalDevQuiet = local_dev_quiet_session"
| "from_scenario LocalDevBusy = local_dev_busy_session"
| "from_scenario HomelabFleet = homelab_fleet_session"
| "from_scenario EnterpriseIncident = enterprise_incident_session"

definition default_mock_session :: MockHostSession where
  "default_mock_session = from_scenario DevScenario.Ready"

definition mock_set_scenario :: "DevScenario \<Rightarrow> MockHostSession \<Rightarrow> MockHostSession" where
  "mock_set_scenario scenario s = from_scenario scenario"

definition mock_can_submit :: "MockHostSession \<Rightarrow> bool" where
  "mock_can_submit s \<longleftrightarrow> mhs_shell_state s = ShellState.Ready \<or> mhs_shell_state s = ShellState.Degraded"

definition mock_answer :: string where
  "mock_answer = ''No engine is attached yet. This scaffold only proves the basic conversation shell.''"

definition mock_turn :: "nat \<Rightarrow> string \<Rightarrow> Turn" where
  "mock_turn n prompt =
     \<lparr>turn_number = of_nat n + 1, turn_user_prompt = None,
      turn_blocks =
        [TurnBlock.Text \<lparr>at_text = prompt, at_origin = None, at_notice_kind = None\<rparr>,
         TurnBlock.Text \<lparr>at_text = mock_answer,
           at_origin = Some \<lparr>bo_kind = OriginKind.System, bo_label = ''Auspex''\<rparr>, at_notice_kind = None\<rparr>]\<rparr>"

definition mock_submit :: "MockHostSession \<Rightarrow> bool \<times> MockHostSession" where
  "mock_submit s =
     (let prompt = trim (cst_draft (mhs_composer s)) in
      if \<not> mock_can_submit s \<or> prompt = [] then (False, s)
      else (True,
        s\<lparr>mhs_messages := mhs_messages s @
             [\<lparr>cm_role = User, cm_text = prompt\<rparr>, \<lparr>cm_role = Assistant, cm_text = mock_answer\<rparr>],
          mhs_transcript := (mhs_transcript s)\<lparr>td_turns := td_turns (mhs_transcript s) @
             [mock_turn (length (td_turns (mhs_transcript s))) prompt]\<rparr>,
          mhs_summary := (mhs_summary s)\<lparr>hss_activity := ''Waiting for attached engine integration''\<rparr>,
          mhs_composer := clear_draft (mhs_composer s)\<rparr>))"

section \<open>Properties\<close>

lemmas mock_sessions = ready_session_def booting_session_def degraded_session_def startup_failure_session_def
  compatibility_failure_session_def reconnecting_session_def local_dev_quiet_session_def
  local_dev_busy_session_def homelab_fleet_session_def enterprise_incident_session_def

text \<open>
  A scenario means the same for both kinds of session: the mock session of a scenario has its name
  and the shell state a remote session takes when it is set to it.
\<close>

lemma scenario_shell_states_agree:
  "mhs_scenario (from_scenario sc) = sc"
  "mhs_shell_state (from_scenario sc) = rs_shell_state (set_scenario sc s)"
  by (cases sc; simp add: mock_sessions set_scenario_def)+

text \<open>A prompt that is refused changes nothing; an accepted one is answered and clears the composer.\<close>

lemma mock_submit_outcome:
  "fst (mock_submit s) \<longleftrightarrow> mock_can_submit s \<and> trim (cst_draft (mhs_composer s)) \<noteq> []"
  "\<not> fst (mock_submit s) \<Longrightarrow> snd (mock_submit s) = s"
  "fst (mock_submit s) \<Longrightarrow>
     length (mhs_messages (snd (mock_submit s))) = length (mhs_messages s) + 2 \<and>
     cst_draft (mhs_composer (snd (mock_submit s))) = [] \<and> \<not> fst (mock_submit (snd (mock_submit s)))"
  by (auto simp: mock_submit_def Let_def clear_draft_def split: if_splits)

text \<open>The scenario that shows a blocked composer accepts prompts.\<close>

lemma busy_fixture_is_not_blocked: "mock_can_submit local_dev_busy_session"
  by (simp add: mock_can_submit_def local_dev_busy_session_def)

text \<open>A turn is numbered by the length of the transcript: after turn 19 of the incident comes turn 3.\<close>

lemma incident_draft: "trim (cst_draft (mhs_composer enterprise_incident_session)) \<noteq> []"
  by code_simp

lemma mock_turn_numbers_go_back:
  "map turn_number (td_turns (mhs_transcript (snd (mock_submit enterprise_incident_session)))) = [18, 19, 3]"
proof -
  have "mock_can_submit enterprise_incident_session"
    by (simp add: mock_can_submit_def enterprise_incident_session_def)
  then show ?thesis
    using incident_draft by (simp add: mock_submit_def Let_def) (simp add: enterprise_incident_session_def mock_turn_def)
qed

end
