(* ===== verification/App_Controller.thy ===== *)
theory App_Controller
  imports Launch_Spawn Mock_Session Cop_Surface Audit_Timeline Session_Props Fleet_Control
begin

text \<open>
  The controller of the shell (\<open>auspex-core/src/controller.rs\<close>): one session, the registry with the
  attached instances, the telemetry it shows, the audit timeline, the provider status of the settings
  and the picture, and every operation by which events, answers and the operator change them.  JSON
  values are those of \<open>Json\<close>, so that tool arguments reach the picture.  Decoders, the demo snapshot
  of the source as the decoder reads it, and the commands of the runtime are parameters; writing the
  registry and the timeline to their files reads the state only.
\<close>

section \<open>Provider names\<close>

definition is_ascii_alphanumeric :: "char \<Rightarrow> bool" where
  "is_ascii_alphanumeric c \<longleftrightarrow>
     (let n = of_char c :: nat in (48 \<le> n \<and> n \<le> 57) \<or> (65 \<le> n \<and> n \<le> 90) \<or> (97 \<le> n \<and> n \<le> 122))"

text \<open>The first word of letters and digits; the function of the same name in \<open>bootstrap.rs\<close> is another.\<close>

definition settings_provider_key :: "string \<Rightarrow> string option" where
  "settings_provider_key name =
     (case split_whitespace (map (\<lambda>c. if is_ascii_alphanumeric c then ascii_lower c else CHR 0x20) name) of
        [] \<Rightarrow> None
      | token # _ \<Rightarrow> Some token)"

definition provider_inventory_key :: "string \<Rightarrow> string" where
  "provider_inventory_key name = unwrap_or (settings_provider_key name) (to_ascii_lowercase (trim name))"

definition merged_provider :: "ProviderInfo list \<Rightarrow> ProviderInfo \<Rightarrow> ProviderInfo" where
  "merged_provider settings p =
     (let s = List.find (\<lambda>q. provider_inventory_key (pin_name q) = provider_inventory_key (pin_name p)) settings
      in p\<lparr>pin_auth_method := or_else (Option.bind s pin_auth_method) (pin_auth_method p),
           pin_model := or_else (pin_model p) (Option.bind s pin_model)\<rparr>)"

text \<open>The providers of the settings whose key has not been seen, the first of each key.\<close>

fun unseen_providers :: "string set \<Rightarrow> ProviderInfo list \<Rightarrow> ProviderInfo list" where
  "unseen_providers seen [] = []"
| "unseen_providers seen (p # ps) =
     (let key = provider_inventory_key (pin_name p) in
      if key \<in> seen then unseen_providers seen ps else p # unseen_providers (insert key seen) ps)"

definition merge_provider_inventory :: "ProviderInfo list \<Rightarrow> ProviderInfo list \<Rightarrow> ProviderInfo list" where
  "merge_provider_inventory runtime settings =
     map (merged_provider settings) runtime @
     unseen_providers (set (map (\<lambda>p. provider_inventory_key (pin_name p)) runtime)) settings"

section \<open>State\<close>

datatype SessionMode = Mock | Live

fun mode_label :: "SessionMode \<Rightarrow> string" where
  "mode_label Mock = ''Mock (offline)''"
| "mode_label Live = ''Live''"

datatype SessionSource = MockSource MockHostSession | RemoteSource "json RemoteHostSession"

fun source_mode :: "SessionSource \<Rightarrow> SessionMode" where
  "source_mode (MockSource _) = Mock"
| "source_mode (RemoteSource _) = Live"

record SettingsAuthState =
  sas_providers :: "ProviderInfo list"
  sas_last_error :: "string option"
  sas_last_action :: "string option"
  sas_inventory_refreshed :: bool

text \<open>The registry, the attached instances, the connected sessions and the focus are the fields of
  \<open>Fleet_Control\<close>.\<close>

record AppController =
  app_session :: SessionSource
  app_fleet :: "json FleetControl"
  app_bootstrap_note :: "string option"
  app_transcript_auto_expand :: bool
  app_audit_timeline :: AuditTimelineStore
  app_telemetry_snapshot :: SessionTelemetryData
  app_transport_telemetry :: TransportTelemetryData
  app_last_audited :: SessionTelemetryData
  app_telemetry_audit_sequence :: nat
  app_settings_auth_state :: SettingsAuthState
  app_cop_state :: CopDisplayState
  app_unread_counts :: "(string \<times> u32) list"

record 'ver controller_world =
  cw_fmt :: "nat \<Rightarrow> f32 \<Rightarrow> string"
  cw_plan :: "json plan_json"
  cw_event :: "string \<Rightarrow> string + json OmegonEvent"
  cw_snapshot :: "string \<Rightarrow> string + json OmegonStateSnapshot"
  cw_demo :: "json OmegonStateSnapshot"
  cw_semver :: "'ver semver"
  cw_js :: "json json_api"

abbreviation app_engine :: "AppController \<Rightarrow> json AttachedInstanceStateEngine" where
  "app_engine c \<equiv> fl_engine (app_fleet c)"

abbreviation app_registry :: "AppController \<Rightarrow> json InstanceRegistryStore" where
  "app_registry c \<equiv> fl_instance_registry (app_fleet c)"

definition on_fleet :: "(json FleetControl \<Rightarrow> json FleetControl) \<Rightarrow> AppController \<Rightarrow> AppController" where
  "on_fleet f c = c\<lparr>app_fleet := f (app_fleet c)\<rparr>"

section \<open>The session behind the model interface\<close>

definition model_session_data :: "'ver controller_world \<Rightarrow> SessionSource \<Rightarrow> json SessionView" where
  "model_session_data w src =
     (case src of MockSource m \<Rightarrow> mock_session_data m | RemoteSource s \<Rightarrow> remote_session_data (cw_fmt w) s)"

definition model_shell_state :: "SessionSource \<Rightarrow> ShellState" where
  "model_shell_state src = (case src of MockSource m \<Rightarrow> mhs_shell_state m | RemoteSource s \<Rightarrow> rs_shell_state s)"

definition model_scenario :: "SessionSource \<Rightarrow> DevScenario" where
  "model_scenario src = (case src of MockSource m \<Rightarrow> mhs_scenario m | RemoteSource s \<Rightarrow> rs_scenario s)"

definition model_summary :: "SessionSource \<Rightarrow> HostSessionSummary" where
  "model_summary src = (case src of MockSource m \<Rightarrow> mhs_summary m | RemoteSource s \<Rightarrow> rs_summary s)"

definition model_transcript :: "SessionSource \<Rightarrow> TranscriptData" where
  "model_transcript src = (case src of MockSource m \<Rightarrow> mhs_transcript m | RemoteSource s \<Rightarrow> rs_transcript s)"

definition model_composer :: "SessionSource \<Rightarrow> ComposerState" where
  "model_composer src = (case src of MockSource m \<Rightarrow> mhs_composer m | RemoteSource s \<Rightarrow> rs_composer s)"

definition model_can_submit :: "SessionSource \<Rightarrow> bool" where
  "model_can_submit src \<longleftrightarrow> (case src of MockSource m \<Rightarrow> mock_can_submit m | RemoteSource s \<Rightarrow> can_submit s)"

definition model_is_run_active :: "SessionSource \<Rightarrow> bool" where
  "model_is_run_active src \<longleftrightarrow> (case src of MockSource m \<Rightarrow> False | RemoteSource s \<Rightarrow> rs_run_active s)"

definition model_work_data :: "SessionSource \<Rightarrow> WorkData" where
  "model_work_data src = (case src of MockSource m \<Rightarrow> mock_work_data m | RemoteSource s \<Rightarrow> work_data s)"

definition model_graph_data :: "SessionSource \<Rightarrow> GraphData" where
  "model_graph_data src = (case src of MockSource m \<Rightarrow> mock_graph_data | RemoteSource s \<Rightarrow> graph_data s)"

definition model_set_scenario :: "DevScenario \<Rightarrow> SessionSource \<Rightarrow> SessionSource" where
  "model_set_scenario scenario src =
     (case src of
        MockSource m \<Rightarrow> MockSource (mock_set_scenario scenario m)
      | RemoteSource s \<Rightarrow> RemoteSource (set_scenario scenario s))"

definition model_set_draft :: "string \<Rightarrow> SessionSource \<Rightarrow> SessionSource" where
  "model_set_draft txt src =
     (case src of
        MockSource m \<Rightarrow> MockSource (m\<lparr>mhs_composer := set_draft txt (mhs_composer m)\<rparr>)
      | RemoteSource s \<Rightarrow> RemoteSource (s\<lparr>rs_composer := set_draft txt (rs_composer s)\<rparr>))"

definition model_submit :: "SessionSource \<Rightarrow> bool \<times> SessionSource" where
  "model_submit src =
     (case src of
        MockSource m \<Rightarrow> map_prod id MockSource (mock_submit m)
      | RemoteSource s \<Rightarrow> map_prod id RemoteSource (submit s))"

fun scenario_key :: "DevScenario \<Rightarrow> string" where
  "scenario_key DevScenario.Ready = ''ready''"
| "scenario_key Booting = ''booting''"
| "scenario_key DevScenario.Degraded = ''degraded''"
| "scenario_key StartupFailure = ''startup-failure''"
| "scenario_key CompatibilityFailure = ''compat-failure''"
| "scenario_key DevScenario.Reconnecting = ''reconnecting''"
| "scenario_key LocalDevQuiet = ''local-dev-quiet''"
| "scenario_key LocalDevBusy = ''local-dev-busy''"
| "scenario_key HomelabFleet = ''homelab-fleet''"
| "scenario_key EnterpriseIncident = ''enterprise-incident''"

definition session_audit_key :: "'ver controller_world \<Rightarrow> SessionSource \<Rightarrow> string" where
  "session_audit_key w src =
     (case src of
        RemoteSource s \<Rightarrow>
          (case sd_dispatcher_binding (remote_session_data (cw_fmt w) s) of
             Some b \<Rightarrow> ''remote:'' @ dbd_session_id b
           | None \<Rightarrow> ''remote:detached'')
      | MockSource m \<Rightarrow> ''mock:'' @ scenario_key (mhs_scenario m))"

section \<open>Telemetry\<close>

definition effective_provider_inventory :: "SettingsAuthState \<Rightarrow> json SessionView \<Rightarrow> ProviderInfo list" where
  "effective_provider_inventory settings data =
     (if sas_providers settings \<noteq> [] then merge_provider_inventory (sv_providers data) (sas_providers settings)
      else sv_providers data)"

definition refresh_telemetry_snapshot :: "'ver controller_world \<Rightarrow> AppController \<Rightarrow> AppController" where
  "refresh_telemetry_snapshot w c =
     (let data = model_session_data w (app_session c);
          telemetry = sv_telemetry data;
          providers = effective_provider_inventory (app_settings_auth_state c) data;
          attached = eng_attached_instances (app_engine c);
          selected = selected_command_route_id (app_engine c);
          lifecycle = aggregate_lifecycle_telemetry attached (eng_registry_store (app_engine c)) selected
      in c\<lparr>app_telemetry_snapshot := telemetry
             \<lparr>std_provider_summary := summarize_provider_inventory providers,
              std_provider_rollups :=
                aggregate_provider_rollups attached providers selected (std_latest_provider_telemetry telemetry),
              std_lifecycle_summary := ltd_summary lifecycle, std_lifecycle := lifecycle,
              std_control_plane_rollups :=
                aggregate_control_plane_rollups attached selected (std_control_plane telemetry),
              std_transport := app_transport_telemetry c\<rparr>\<rparr>)"

fun adapter_label :: "TransportAdapterData \<Rightarrow> string" where
  "adapter_label TransportAdapterData.Pending = ''pending''"
| "adapter_label NativeIpc = ''native IPC''"
| "adapter_label WebSocketCompatibility = ''HTTP/WebSocket compatibility''"

fun reconciliation_label :: "ReconciliationStatusData \<Rightarrow> string" where
  "reconciliation_label ReconciliationStatusData.Unknown = ''unknown''"
| "reconciliation_label Authoritative = ''authoritative''"
| "reconciliation_label ReconciliationStatusData.Required = ''reconciliation required''"
| "reconciliation_label Refreshing = ''refreshing''"
| "reconciliation_label ReconciliationStatusData.Reconnecting = ''reconnecting''"
| "reconciliation_label ReconciliationStatusData.Degraded = ''degraded''"

definition newline :: string where "newline = [CHR 0x0A]"

definition titled :: "string \<Rightarrow> string" where "titled title = ''Telemetry'' @ dot_sep @ title"

definition transport_text :: "TransportTelemetryData \<Rightarrow> string" where
  "transport_text t =
     join newline
       [''adapter: '' @ adapter_label (ttd_active_adapter t),
        ''protocol: '' @ unwrap_or (map_option (\<lambda>p. show_nat (unat p)) (ttd_negotiated_protocol t)) ''not negotiated'',
        ''server: '' @ unwrap_or (ttd_server_instance_id t) ''not reported'',
        ''capabilities: '' @ (if ttd_capabilities t = [] then ''none'' else join '', '' (ttd_capabilities t)),
        ''fallback: '' @ unwrap_or (ttd_fallback_reason t) ''none'',
        ''reconciliation: '' @ reconciliation_label (ttd_reconciliation_status t),
        ''detail: '' @ unwrap_or (ttd_reconciliation_detail t) ''none'',
        ''frontier: '' @ unwrap_or (map_option (\<lambda>f. show_nat (unat f)) (ttd_projection_frontier t)) ''not reported'']"

definition provider_rollup_entry :: "string \<Rightarrow> nat \<Rightarrow> nat \<Rightarrow> ProviderTelemetryData \<Rightarrow> AuditEntry" where
  "provider_rollup_entry key sequence index p =
     telemetry_entry key (''provider-rollup-'' @ show_nat sequence @ ''-'' @ show_nat index)
       (titled (''Provider rollup'' @ dot_sep @ unwrap_or (ptd_route_id p) ''unrouted''))
       (join newline
          [''provider: '' @ ptd_provider p, ''source: '' @ ptd_source p,
           ''instance: '' @ unwrap_or (ptd_instance_id p) ''not reported'',
           ''role: '' @ unwrap_or (ptd_role p) ''not reported'',
           ''profile: '' @ unwrap_or (ptd_profile p) ''not reported'',
           ''model: '' @ unwrap_or (ptd_model p) ''model not reported''])"

definition control_plane_rollup_entry ::
  "string \<Rightarrow> nat \<Rightarrow> nat \<Rightarrow> ControlPlaneTelemetryData \<Rightarrow> AuditEntry"
where
  "control_plane_rollup_entry key sequence index p =
     telemetry_entry key (''control-plane-rollup-'' @ show_nat sequence @ ''-'' @ show_nat index)
       (titled (''Control-plane rollup'' @ dot_sep @ unwrap_or (cpt_route_id p) ''unrouted''))
       (join newline
          [''instance: '' @ unwrap_or (cpt_instance_id p) ''not reported'',
           ''role: '' @ unwrap_or (cpt_role p) ''not reported'',
           ''profile: '' @ unwrap_or (cpt_profile p) ''not reported'',
           ''base_url: '' @ unwrap_or (cpt_base_url p) ''not reported'',
           ''auth_mode: '' @ unwrap_or (cpt_auth_mode p) ''not reported''])"

definition telemetry_entries :: "string \<Rightarrow> nat \<Rightarrow> SessionTelemetryData \<Rightarrow> AuditEntry list" where
  "telemetry_entries key sequence t =
     map (\<lambda>(name, title, content). telemetry_entry key (name @ ''-'' @ show_nat sequence) (titled title) content)
       [(''provider-summary'', ''Provider summary'', std_provider_summary t),
        (''lifecycle-summary'', ''Lifecycle summary'', std_lifecycle_summary t),
        (''route-summary'', ''Route summary'', std_route_summary t),
        (''latest-turn-summary'', ''Latest turn summary'', std_latest_turn_summary t),
        (''transport-authority'', ''Transport authority'', transport_text (std_transport t))] @
     map (\<lambda>(i, p). provider_rollup_entry key sequence i p)
       (zip [0 ..< length (std_provider_rollups t)] (std_provider_rollups t)) @
     map (\<lambda>(i, p). control_plane_rollup_entry key sequence i p)
       (zip [0 ..< length (std_control_plane_rollups t)] (std_control_plane_rollups t))"

definition append_telemetry_audit_entries :: "string \<Rightarrow> AppController \<Rightarrow> AppController" where
  "append_telemetry_audit_entries key c =
     (if app_telemetry_snapshot c = app_last_audited c then c
      else (let sequence = app_telemetry_audit_sequence c + 1 in
        c\<lparr>app_telemetry_audit_sequence := sequence,
          app_audit_timeline :=
            snd (append_entries (telemetry_entries key sequence (app_telemetry_snapshot c)) (app_audit_timeline c)),
          app_last_audited := app_telemetry_snapshot c\<rparr>))"

definition refresh_audit_timeline :: "'ver controller_world \<Rightarrow> AppController \<Rightarrow> AppController" where
  "refresh_audit_timeline w c =
     (let key = session_audit_key w (app_session c) in
      append_telemetry_audit_entries key
        (c\<lparr>app_audit_timeline :=
             snd (append_transcript_snapshot key (model_transcript (app_session c)) (app_audit_timeline c))\<rparr>))"

definition query_audit_timeline :: "'ver controller_world \<Rightarrow> AuditTimelineQuery \<Rightarrow> AppController \<Rightarrow> AuditTimelineView" where
  "query_audit_timeline w q c =
     (let view = audit_query q (app_audit_timeline c); key = session_audit_key w (app_session c) in
      if key \<in> set (atv_sessions view) then view
      else view\<lparr>atv_sessions := sort (atv_sessions view @ [key])\<rparr>)"

section \<open>Attached instances\<close>

definition rebuild_attached_instances :: "'ver controller_world \<Rightarrow> AppController \<Rightarrow> AppController" where
  "rebuild_attached_instances w c =
     (let key = session_audit_key w (app_session c);
          data = model_session_data w (app_session c);
          selected_route = selected_command_route_id (app_engine c);
          engine = select_command_route selected_route
                     (from_registry_and_session (app_registry c) key (SessionData.truncate data))
      in on_fleet (\<lambda>f. adopt_engine_registry (f\<lparr>fl_engine := engine\<rparr>)) c)"

text \<open>The ids are those of the instances that carry the key of the session.\<close>

definition handle_session_mutation :: "'ver controller_world \<Rightarrow> AppController \<Rightarrow> AppController" where
  "handle_session_mutation w c =
     (let c = rebuild_attached_instances w c;
          active = map att_instance_id
                     (filter (\<lambda>a. att_session_key a = session_audit_key w (app_session c))
                        (eng_attached_instances (app_engine c)))
      in refresh_audit_timeline w
           (refresh_telemetry_snapshot w (on_fleet (purge_stale_instance_records active) c)))"

definition instance_attachment :: "json InstanceRecord \<Rightarrow> json AttachedInstanceRecord" where
  "instance_attachment r =
     (let route = ''instance:'' @ instance_id_of r
      in \<lparr>att_instance_id = instance_id_of r, att_route_id = route,
          att_role = role_label (wi_role (rec_identity r)), att_profile = wi_profile (rec_identity r),
          att_session_key = route, att_base_url = non_empty (Some (record_base_url r)),
          att_model = po_model (dw_policy (rec_desired r)), att_dispatcher_instance_id = None,
          att_registry_record = Some r\<rparr>)"

text \<open>The writes of \<open>sync_primary_descriptor_to_registry\<close> to the record it finds.\<close>

definition told :: "string option \<Rightarrow> string \<Rightarrow> string" where
  "told reported kept = unwrap_or (non_empty reported) kept"

definition synced_record :: "'ver semver \<Rightarrow> InstanceDescriptorData \<Rightarrow> json InstanceRecord \<Rightarrow> json InstanceRecord" where
  "synced_record sv d r =
     (case idd_control_plane d of
        None \<Rightarrow> r
      | Some cp \<Rightarrow>
          (let obs = rec_observed r;
               ocp = (ow_control_plane obs)
                 \<lparr>ocp_schema_version := icp_schema_version cp,
                  ocp_omegon_version := told (icp_omegon_version cp) (ocp_omegon_version (ow_control_plane obs)),
                  ocp_base_url := told (icp_base_url cp) (ocp_base_url (ow_control_plane obs))\<rparr>
           in r\<lparr>rec_observed := obs\<lparr>ow_control_plane := ocp,
                  ow_compatibility := Some (assess_observed_control_plane sv ocp),
                  ow_capabilities := Some (from_instance_descriptor_capabilities
                    (iid_instance_id (idd_identity d)) (icp_capabilities cp))\<rparr>\<rparr>))"

definition sync_primary_descriptor_to_registry :: "'ver controller_world \<Rightarrow> AppController \<Rightarrow> bool \<times> AppController" where
  "sync_primary_descriptor_to_registry w c =
     (case sd_instance_descriptor (model_session_data w (app_session c)) of
        None \<Rightarrow> (False, c)
      | Some d \<Rightarrow>
          (let instance_id = iid_instance_id (idd_identity d) in
           case (instance_id = [], find_instance (app_registry c) instance_id) of
             (False, Some r) \<Rightarrow>
               (True, refresh_telemetry_snapshot w
                        (on_fleet (attach_instance_record (instance_attachment (synced_record (cw_semver w) d r))) c))
           | _ \<Rightarrow> (False, c)))"

definition apply_instance_descriptor ::
  "'ver controller_world \<Rightarrow> string \<Rightarrow> OmegonInstanceDescriptor \<Rightarrow> AppController \<Rightarrow> bool \<times> AppController"
where
  "apply_instance_descriptor w instance_id d c =
     (case find_instance (app_registry c) instance_id of
        None \<Rightarrow> (False, c)
      | Some r \<Rightarrow>
          (let r' = r\<lparr>rec_observed := apply_descriptor_to_observed_state (cw_semver w) (cw_js w) instance_id d
                                        (rec_observed r)\<rparr>
           in (True, refresh_telemetry_snapshot w (on_fleet (attach_instance_record (instance_attachment r')) c))))"

definition app_select_command_route :: "'ver controller_world \<Rightarrow> string \<Rightarrow> AppController \<Rightarrow> AppController" where
  "app_select_command_route w route_id c =
     refresh_telemetry_snapshot w (on_fleet (\<lambda>f. f\<lparr>fl_engine := select_command_route route_id (fl_engine f)\<rparr>) c)"

definition select_command_route_for_instance ::
  "'ver controller_world \<Rightarrow> string \<Rightarrow> AppController \<Rightarrow> bool \<times> AppController"
where
  "select_command_route_for_instance w instance_id c =
     (case List.find (\<lambda>a. att_instance_id a = instance_id) (eng_attached_instances (app_engine c)) of
        None \<Rightarrow> (False, c)
      | Some a \<Rightarrow> (True, app_select_command_route w (att_route_id a) c))"

definition focus_instance :: "'ver controller_world \<Rightarrow> string option \<Rightarrow> AppController \<Rightarrow> AppController" where
  "focus_instance w instance_id c =
     (let c = on_fleet (\<lambda>f. f\<lparr>fl_focused_instance_id := instance_id\<rparr>) c in
      case instance_id of
        None \<Rightarrow> c
      | Some i \<Rightarrow>
          (let c = snd (select_command_route_for_instance w i c)
           in c\<lparr>app_unread_counts := filter (\<lambda>(j, _). j \<noteq> i) (app_unread_counts c)\<rparr>))"

section \<open>Making a controller\<close>

definition no_telemetry :: SessionTelemetryData where
  "no_telemetry =
     \<lparr>std_provider_summary = [], std_lifecycle_summary = [], std_lifecycle = default_lifecycle,
      std_route_summary = [], std_latest_turn_summary = [], std_latest_provider_telemetry = None,
      std_provider_rollups = [], std_latest_estimated_tokens = None, std_latest_actual_input_tokens = None,
      std_latest_actual_output_tokens = None, std_latest_cache_read_tokens = None, std_control_plane = None,
      std_control_plane_rollups = [], std_transport = default_transport\<rparr>"

definition default_engine :: "json AttachedInstanceStateEngine" where
  "default_engine =
     \<lparr>eng_session_key = [], eng_attached_instances = [], eng_selected_command_route_id = None,
      eng_registry_store = default_registry\<rparr>"

definition new_controller ::
  "SessionSource \<Rightarrow> json InstanceRegistryStore \<Rightarrow> SettingsAuthState \<Rightarrow> AppController"
where
  "new_controller src registry settings =
     \<lparr>app_session = src,
      app_fleet = \<lparr>fl_instance_registry = registry, fl_engine = default_engine, fl_sessions = [],
                   fl_focused_instance_id = None\<rparr>,
      app_bootstrap_note = None, app_transcript_auto_expand = True, app_audit_timeline = default_audit,
      app_telemetry_snapshot = no_telemetry, app_transport_telemetry = default_transport,
      app_last_audited = no_telemetry, app_telemetry_audit_sequence = 0,
      app_settings_auth_state = settings, app_cop_state = default_cop, app_unread_counts = []\<rparr>"

definition default_controller :: "'ver controller_world \<Rightarrow> AppController" where
  "default_controller w =
     refresh_telemetry_snapshot w
       (new_controller (MockSource default_mock_session) default_registry
          \<lparr>sas_providers = [\<lparr>pin_name = ''Anthropic/Claude'', pin_authenticated = True,
                             pin_auth_method = Some ''oauth'', pin_model = Some ''claude-sonnet''\<rparr>],
           sas_last_error = None, sas_last_action = None, sas_inventory_refreshed = True\<rparr>)"

definition from_remote_snapshot_json_with_registry ::
  "'ver controller_world \<Rightarrow> json InstanceRegistryStore \<Rightarrow> string \<Rightarrow> string + AppController"
where
  "from_remote_snapshot_json_with_registry w registry payload =
     and_then (cw_snapshot w payload) (\<lambda>snapshot.
       Ok (refresh_audit_timeline w (refresh_telemetry_snapshot w (rebuild_attached_instances w
            (new_controller (RemoteSource (from_snapshot snapshot)) registry
               \<lparr>sas_providers = [], sas_last_error = None, sas_last_action = None,
                sas_inventory_refreshed = False\<rparr>)))))"

definition with_audit_timeline :: "'ver controller_world \<Rightarrow> AuditTimelineStore \<Rightarrow> AppController \<Rightarrow> AppController" where
  "with_audit_timeline w store c = refresh_audit_timeline w (c\<lparr>app_audit_timeline := store\<rparr>)"

definition with_fresh_instance_registry ::
  "'ver controller_world \<Rightarrow> json InstanceRegistryStore \<Rightarrow> AppController \<Rightarrow> AppController"
where
  "with_fresh_instance_registry w store c =
     refresh_telemetry_snapshot w (rebuild_attached_instances w (on_fleet (\<lambda>f. f\<lparr>fl_instance_registry := store\<rparr>) c))"

definition with_instance_registry ::
  "'ver controller_world \<Rightarrow> json InstanceRegistryStore \<Rightarrow> AppController \<Rightarrow> AppController"
where
  "with_instance_registry w store c = with_fresh_instance_registry w (stale_rehydrated store) c"

text \<open>Only a detach of the instances of the old session is specific to leaving the live mode.\<close>

definition switch_session_mode :: "'ver controller_world \<Rightarrow> string \<Rightarrow> AppController \<Rightarrow> AppController" where
  "switch_session_mode w raw c =
     (let key = session_audit_key w (app_session c);
          previous = map att_instance_id
            (filter (\<lambda>a. att_session_key a = key) (eng_attached_instances (app_engine c)));
          c = c\<lparr>app_session := (if raw = ''live'' then RemoteSource (from_snapshot (cw_demo w))
                                  else MockSource default_mock_session)\<rparr>;
          c = (if raw = ''live'' then c else fold (\<lambda>i. on_fleet (detach_instance_record i)) previous c);
          c = refresh_telemetry_snapshot w (rebuild_attached_instances w c)
      in refresh_audit_timeline w (c\<lparr>app_bootstrap_note := None\<rparr>))"

definition app_set_scenario :: "'ver controller_world \<Rightarrow> DevScenario \<Rightarrow> AppController \<Rightarrow> AppController" where
  "app_set_scenario w scenario c =
     refresh_audit_timeline w
       (refresh_telemetry_snapshot w (c\<lparr>app_session := model_set_scenario scenario (app_session c)\<rparr>))"

definition scenario_of_raw :: "string \<Rightarrow> DevScenario" where
  "scenario_of_raw raw =
     (if raw = ''booting'' then Booting
      else if raw = ''degraded'' then DevScenario.Degraded
      else if raw = ''startup-failure'' then StartupFailure
      else if raw = ''compat-failure'' then CompatibilityFailure
      else if raw = ''reconnecting'' then DevScenario.Reconnecting
      else if raw = ''local-dev-quiet'' then LocalDevQuiet
      else if raw = ''local-dev-busy'' then LocalDevBusy
      else if raw = ''homelab-fleet'' then HomelabFleet
      else if raw = ''enterprise-incident'' then EnterpriseIncident
      else DevScenario.Ready)"

definition select_scenario :: "'ver controller_world \<Rightarrow> string \<Rightarrow> AppController \<Rightarrow> AppController" where
  "select_scenario w raw = app_set_scenario w (scenario_of_raw raw)"

definition update_draft :: "string \<Rightarrow> AppController \<Rightarrow> AppController" where
  "update_draft txt c = c\<lparr>app_session := model_set_draft txt (app_session c)\<rparr>"

section \<open>Transport\<close>

definition with_transport ::
  "'ver controller_world \<Rightarrow> (TransportTelemetryData \<Rightarrow> TransportTelemetryData) \<Rightarrow> AppController \<Rightarrow> AppController"
where
  "with_transport w f c = refresh_telemetry_snapshot w (c\<lparr>app_transport_telemetry := f (app_transport_telemetry c)\<rparr>)"

definition reconciliation ::
  "ReconciliationStatusData \<Rightarrow> string \<Rightarrow> TransportTelemetryData \<Rightarrow> TransportTelemetryData"
where
  "reconciliation status detail t =
     t\<lparr>ttd_reconciliation_status := status, ttd_reconciliation_detail := Some detail\<rparr>"

definition report_websocket_compatibility ::
  "'ver controller_world \<Rightarrow> string option \<Rightarrow> AppController \<Rightarrow> AppController"
where
  "report_websocket_compatibility w reason =
     with_transport w (\<lambda>_. default_transport
       \<lparr>ttd_active_adapter := WebSocketCompatibility, ttd_fallback_reason := reason,
        ttd_reconciliation_status := Authoritative,
        ttd_reconciliation_detail := Some ''state and events use HTTP/WebSocket compatibility''\<rparr>)"

definition report_ipc_connected :: "'ver controller_world \<Rightarrow> HelloResponse \<Rightarrow> AppController \<Rightarrow> AppController" where
  "report_ipc_connected w hello =
     with_transport w (\<lambda>t. reconciliation Refreshing ''IPC handshake complete; applying authoritative state''
       (t\<lparr>ttd_negotiated_protocol := Some (hel_protocol_version hello),
          ttd_server_instance_id := Some (hel_server_instance_id hello),
          ttd_server_name := Some (hel_server_name hello), ttd_omegon_version := Some (hel_omegon_version hello),
          ttd_capabilities := hel_capabilities hello, ttd_active_adapter := NativeIpc,
          ttd_fallback_reason := None\<rparr>))"

definition mark_ipc_reconciliation_required :: "'ver controller_world \<Rightarrow> string \<Rightarrow> AppController \<Rightarrow> AppController" where
  "mark_ipc_reconciliation_required w reason = with_transport w (reconciliation ReconciliationStatusData.Required reason)"

definition mark_ipc_reconciliation_refreshing :: "'ver controller_world \<Rightarrow> AppController \<Rightarrow> AppController" where
  "mark_ipc_reconciliation_refreshing w =
     with_transport w (reconciliation Refreshing ''refreshing authoritative IPC snapshot'')"

definition mark_ipc_reconciliation_failed :: "'ver controller_world \<Rightarrow> string \<Rightarrow> AppController \<Rightarrow> AppController" where
  "mark_ipc_reconciliation_failed w error = with_transport w (reconciliation ReconciliationStatusData.Degraded error)"

definition mark_ipc_reconnecting :: "'ver controller_world \<Rightarrow> string \<Rightarrow> AppController \<Rightarrow> AppController" where
  "mark_ipc_reconnecting w error = with_transport w (reconciliation ReconciliationStatusData.Reconnecting error)"

definition mark_ipc_reconciled :: "'ver controller_world \<Rightarrow> u64 option \<Rightarrow> AppController \<Rightarrow> AppController" where
  "mark_ipc_reconciled w frontier =
     with_transport w (\<lambda>t. (reconciliation Authoritative ''authoritative IPC state is current'' t)
       \<lparr>ttd_projection_frontier := frontier\<rparr>)"

section \<open>Commands\<close>

definition app_command_target :: "AppController \<Rightarrow> CommandTarget" where
  "app_command_target c = current_command_target (app_engine c)"

definition submit_prompt :: "'ver controller_world \<Rightarrow> AppController \<Rightarrow> bool \<times> AppController" where
  "submit_prompt w c =
     (let (submitted, src) = model_submit (app_session c); c = c\<lparr>app_session := src\<rparr>
      in (submitted, if submitted then refresh_audit_timeline w c else c))"

definition submit_prompt_command ::
  "'ver controller_world \<Rightarrow> AppController \<Rightarrow> json TargetedCommand option \<times> AppController"
where
  "submit_prompt_command w c =
     (let target = app_command_target c in
      case app_session c of
        RemoteSource s \<Rightarrow>
          (let trimmed = trim (cst_draft (rs_composer s)); (submitted, s') = submit s in
           if trimmed = [] \<or> \<not> can_submit s then (None, c)
           else if \<not> submitted then (None, c\<lparr>app_session := RemoteSource s'\<rparr>)
           else (Some (prompt_submit target trimmed),
                 refresh_audit_timeline w (c\<lparr>app_session := RemoteSource s'\<rparr>)))
      | MockSource m \<Rightarrow> (None, snd (submit_prompt w c)))"

definition cancel_command :: "AppController \<Rightarrow> json TargetedCommand option" where
  "cancel_command c =
     (case app_session c of
        RemoteSource s \<Rightarrow> if rs_run_active s then Some (turn_cancel (app_command_target c)) else None
      | MockSource _ \<Rightarrow> None)"

definition request_dispatcher_switch_command ::
  "string \<Rightarrow> string option \<Rightarrow> AppController \<Rightarrow> json TargetedCommand option \<times> AppController"
where
  "request_dispatcher_switch_command profile model c =
     (case app_session c of
        MockSource _ \<Rightarrow> (None, c)
      | RemoteSource s \<Rightarrow>
          (let (outcome, s') = request_dispatcher_switch profile model s in
           (case outcome of
              Some (Issued request_id) \<Rightarrow> Some (dispatcher_switch (app_command_target c) request_id profile model)
            | _ \<Rightarrow> None,
            c\<lparr>app_session := RemoteSource s'\<rparr>)))"

section \<open>Events and answers\<close>

definition try_intercept_cop_tool_event :: "json SessionEvent \<Rightarrow> AppController \<Rightarrow> AppController" where
  "try_intercept_cop_tool_event e c =
     (case e of
        SessionEvent.ToolStarted _ name args \<Rightarrow>
          c\<lparr>app_cop_state := snd (try_apply_tool_start name args (app_cop_state c))\<rparr>
      | _ \<Rightarrow> c)"

text \<open>A change of a live session: what follows it, if there was one, and the answer.\<close>

definition live_change ::
  "(AppController \<Rightarrow> AppController) \<Rightarrow> (json RemoteHostSession \<Rightarrow> bool \<times> json RemoteHostSession) \<Rightarrow>
   AppController \<Rightarrow> bool \<times> AppController"
where
  "live_change followed f c =
     (case app_session c of
        MockSource _ \<Rightarrow> (False, c)
      | RemoteSource s \<Rightarrow>
          (let (applied, s') = f s; c = c\<lparr>app_session := RemoteSource s'\<rparr>
           in (applied, if applied then followed c else c)))"

definition mutation_with_sync :: "'ver controller_world \<Rightarrow> AppController \<Rightarrow> AppController" where
  "mutation_with_sync w c = snd (sync_primary_descriptor_to_registry w (handle_session_mutation w c))"

definition app_apply_session_event ::
  "'ver controller_world \<Rightarrow> json SessionEvent \<Rightarrow> AppController \<Rightarrow> bool \<times> AppController"
where
  "app_apply_session_event w e c =
     live_change (mutation_with_sync w)
       (\<lambda>s. case e of
              SessionEvent.HarnessChanged \<Rightarrow> (False, s)
            | SessionEvent.StateChanged _ \<Rightarrow> (False, s)
            | _ \<Rightarrow> apply_session_event (cw_plan w) e s)
       (try_intercept_cop_tool_event e c)"

definition apply_remote_event_json ::
  "'ver controller_world \<Rightarrow> string \<Rightarrow> AppController \<Rightarrow> (string + bool) \<times> AppController"
where
  "apply_remote_event_json w payload c =
     (case cw_event w payload of
        Inl e \<Rightarrow> (Err e, c)
      | Inr event \<Rightarrow>
          map_prod Ok id
            (live_change (mutation_with_sync w) (apply_event (cw_plan w) event)
               (try_intercept_cop_tool_event (session_event_of_omegon event) c)))"

definition apply_ipc_event ::
  "'ver controller_world \<Rightarrow> json IpcEventPayload \<Rightarrow> AppController \<Rightarrow> bool \<times> AppController"
where
  "apply_ipc_event w event c =
     (let frontier = (case event of
                        IpcEventPayload.StateReconciled snapshot \<Rightarrow> ips_projection_frontier (iss_session snapshot)
                      | _ \<Rightarrow> None);
          (applied, c) = app_apply_session_event w (session_event_of_ipc event) c
      in (applied, if applied \<and> frontier \<noteq> None then mark_ipc_reconciled w frontier c else c))"

record IpcCommandOutcome =
  ico_target :: CommandTarget
  ico_command :: IpcCommandKind
  ico_status :: IpcCommandOutcomeStatus

definition app_apply_ipc_command_outcome ::
  "'ver controller_world \<Rightarrow> IpcCommandOutcome \<Rightarrow> AppController \<Rightarrow> bool \<times> AppController"
where
  "app_apply_ipc_command_outcome w outcome c =
     (if ico_target outcome \<noteq> app_command_target c then (False, c)
      else live_change (handle_session_mutation w)
             (apply_ipc_command_outcome (ico_command outcome) (ico_status outcome)) c)"

definition apply_ipc_disconnect :: "'ver controller_world \<Rightarrow> string \<Rightarrow> AppController \<Rightarrow> bool \<times> AppController" where
  "apply_ipc_disconnect w error c =
     live_change (handle_session_mutation w) (mark_ipc_disconnected error)
       (with_transport w (reconciliation ReconciliationStatusData.Reconnecting error) c)"

definition ipc_event_requires_refresh :: "json IpcEventPayload \<Rightarrow> bool" where
  "ipc_event_requires_refresh event \<longleftrightarrow>
     (case event of
        IpcEventPayload.HarnessChanged \<Rightarrow> True
      | IpcEventPayload.StateChanged _ \<Rightarrow> True
      | RuntimeQueueUpdated \<Rightarrow> True
      | RuntimeLifecycleUpdated \<Rightarrow> True
      | _ \<Rightarrow> False)"

definition apply_ipc_state_snapshot ::
  "'ver controller_world \<Rightarrow> IpcStateSnapshot \<Rightarrow> AppController \<Rightarrow> bool \<times> AppController"
where
  "apply_ipc_state_snapshot w snapshot c =
     live_change
       (\<lambda>c. mark_ipc_reconciled w (ips_projection_frontier (iss_session snapshot)) (handle_session_mutation w c))
       (refresh_from_ipc_state snapshot) c"

definition record_dispatch_failure :: "'ver controller_world \<Rightarrow> string \<Rightarrow> AppController \<Rightarrow> AppController" where
  "record_dispatch_failure w message c =
     snd (live_change (handle_session_mutation w) (\<lambda>s. (True, report_dispatch_failure message s)) c)"

section \<open>Provider status\<close>

definition known_model :: "ProviderInfo list \<Rightarrow> string \<Rightarrow> string option" where
  "known_model existing name =
     Option.bind (List.find (\<lambda>p. settings_provider_key (pin_name p) = settings_provider_key name) existing) pin_model"

definition snapshot_provider :: "ProviderInfo list \<Rightarrow> ProviderAuthStatus \<Rightarrow> ProviderInfo" where
  "snapshot_provider existing p =
     \<lparr>pin_name = pas_name p, pin_authenticated = pas_authenticated p, pin_auth_method = pas_auth_method p,
      pin_model = known_model existing (pas_name p)\<rparr>"

definition snapshot_status :: "ProviderInfo list \<Rightarrow> ProviderAuthStatus \<Rightarrow> ProviderStatusSnapshot" where
  "snapshot_status existing p =
     \<lparr>prs_name = pas_name p, prs_authenticated = pas_authenticated p, prs_auth_method = pas_auth_method p,
      prs_model = known_model existing (pas_name p)\<rparr>"

text \<open>What both settings operations do with the answer of the command.\<close>

definition adopt_auth_snapshot ::
  "'ver controller_world \<Rightarrow> string \<Rightarrow> string + DesktopAuthSnapshot \<Rightarrow> AppController \<Rightarrow> (string + unit) \<times> AppController"
where
  "adopt_auth_snapshot w action answer c =
     (case answer of
        Inl e \<Rightarrow>
          (Err e, c\<lparr>app_settings_auth_state := (app_settings_auth_state c)
                     \<lparr>sas_last_error := Some e, sas_inventory_refreshed := True\<rparr>\<rparr>)
      | Inr snapshot \<Rightarrow>
          (let existing = merge_provider_inventory (sv_providers (model_session_data w (app_session c)))
                            (sas_providers (app_settings_auth_state c))
           in (Ok (), refresh_telemetry_snapshot w
                 (c\<lparr>app_session := (case app_session c of
                                      RemoteSource s \<Rightarrow>
                                        RemoteSource (refresh_provider_auth (map (snapshot_status existing) snapshot) s)
                                    | MockSource m \<Rightarrow> MockSource m),
                    app_settings_auth_state :=
                      \<lparr>sas_providers = map (snapshot_provider existing) snapshot, sas_last_error = None,
                       sas_last_action = Some action, sas_inventory_refreshed = True\<rparr>\<rparr>))))"

definition refresh_settings_auth_status ::
  "'ver controller_world \<Rightarrow> string + DesktopAuthSnapshot \<Rightarrow> AppController \<Rightarrow> (string + unit) \<times> AppController"
where
  "refresh_settings_auth_status w answer c = adopt_auth_snapshot w ''auth.refresh'' answer c"

definition ensure_settings_auth_status ::
  "'ver controller_world \<Rightarrow> string + DesktopAuthSnapshot \<Rightarrow> AppController \<Rightarrow> AppController"
where
  "ensure_settings_auth_status w answer c =
     (if sas_inventory_refreshed (app_settings_auth_state c) then c
      else snd (refresh_settings_auth_status w answer c))"

definition run_settings_auth_action ::
  "'ver controller_world \<Rightarrow> DesktopAuthAction \<Rightarrow> string + DesktopAuthSnapshot \<Rightarrow> AppController \<Rightarrow> (string + unit) \<times> AppController"
where
  "run_settings_auth_action w action answer c = adopt_auth_snapshot w (''auth.'' @ subcommand action) answer c"

text \<open>The session data the screens get: the status of the settings and the telemetry of the controller.\<close>

definition shown_provider :: "ProviderInfo list \<Rightarrow> ProviderInfo \<Rightarrow> ProviderInfo" where
  "shown_provider settings p =
     (case List.find (\<lambda>q. settings_provider_key (pin_name q) = settings_provider_key (pin_name p)) settings of
        None \<Rightarrow> p
      | Some q \<Rightarrow> p\<lparr>pin_auth_method := pin_auth_method q, pin_model := or_else (pin_model p) (pin_model q)\<rparr>)"

definition app_session_data :: "'ver controller_world \<Rightarrow> AppController \<Rightarrow> json SessionView" where
  "app_session_data w c =
     (let data = model_session_data w (app_session c); settings = sas_providers (app_settings_auth_state c)
      in data\<lparr>sv_providers := map (shown_provider settings) (sv_providers data),
              sv_telemetry := app_telemetry_snapshot c\<rparr>)"

section \<open>Notices and readiness\<close>

datatype AppSurfaceKind =
  BootstrapNote | Startup | ReconnectingSurface | StartupFailureSurface | CompatibilityFailureSurface

record AppSurfaceNotice =
  asn_kind :: AppSurfaceKind
  asn_body :: string
  asn_detail :: "string option"

definition surface_notice :: "AppController \<Rightarrow> AppSurfaceNotice option" where
  "surface_notice c =
     (let note = app_bootstrap_note c;
          incompatible = (model_scenario (app_session c) = CompatibilityFailure) in
      case model_shell_state (app_session c) of
        StartingOmegon \<Rightarrow>
          Some \<lparr>asn_kind = Startup,
                asn_body = ''Launching the Omegon engine. The conversation shell will activate automatically once ready.'',
                asn_detail = note\<rparr>
      | CompatibilityChecking \<Rightarrow>
          Some \<lparr>asn_kind = ReconnectingSurface,
                asn_body = ''The connection to the host is being restored. New input is temporarily paused. Cached session state is shown.'',
                asn_detail = None\<rparr>
      | ShellState.Failed \<Rightarrow>
          Some \<lparr>asn_kind = (if incompatible then CompatibilityFailureSurface else StartupFailureSurface),
                asn_body = hss_connection (model_summary (app_session c)),
                asn_detail = Some (unwrap_or note
                  (if incompatible
                   then ''Auspex cannot operate with the detected host. Update Omegon to a compatible version and restart.''
                   else ''Auspex requires its embedded Omegon backend for local operation. Fix backend startup and relaunch, or explicitly attach to a remote Omegon control plane.''))\<rparr>
      | _ \<Rightarrow> map_option (\<lambda>body. \<lparr>asn_kind = BootstrapNote, asn_body = body, asn_detail = None\<rparr>) note)"

datatype ReadinessStepState = PendingStep | ActiveStep | CompleteStep | BlockedStep

record ReadinessStepData =
  rsd_label :: string
  rsd_detail :: string
  rsd_state :: ReadinessStepState

record OperatorReadinessData =
  ord_ready :: bool
  ord_title :: string
  ord_detail :: string
  ord_steps :: "ReadinessStepData list"

abbreviation readiness_step :: "string \<Rightarrow> string \<Rightarrow> ReadinessStepState \<Rightarrow> ReadinessStepData" where
  "readiness_step label detail state \<equiv> \<lparr>rsd_label = label, rsd_detail = detail, rsd_state = state\<rparr>"

definition host_step :: "ShellState \<Rightarrow> ReadinessStepData" where
  "host_step shell =
     (case shell of
        StartingOmegon \<Rightarrow> readiness_step ''Embedded Omegon'' ''Launching embedded Omegon process'' ActiveStep
      | CompatibilityChecking \<Rightarrow>
          readiness_step ''Embedded Omegon'' ''Embedded host discovered; validating compatibility'' ActiveStep
      | ShellState.Failed \<Rightarrow>
          readiness_step ''Embedded Omegon'' ''Embedded host failed to reach an operational state'' BlockedStep
      | _ \<Rightarrow> readiness_step ''Embedded Omegon'' ''Embedded host is running'' CompleteStep)"

definition is_starting :: "ShellState \<Rightarrow> bool" where
  "is_starting shell \<longleftrightarrow> shell = StartingOmegon \<or> shell = CompatibilityChecking"

definition session_ready_step :: "SessionMode \<Rightarrow> ShellState \<Rightarrow> ReadinessStepData" where
  "session_ready_step mode shell =
     (if mode = Live then readiness_step ''Session snapshot'' ''Remote session state is attached'' CompleteStep
      else if is_starting shell
      then readiness_step ''Session snapshot'' ''Waiting for host control-plane session state'' PendingStep
      else readiness_step ''Session snapshot'' ''Using fallback local session state'' CompleteStep)"

definition auth_step :: "SettingsAuthState \<Rightarrow> nat \<Rightarrow> ReadinessStepData" where
  "auth_step settings records =
     (if \<not> sas_inventory_refreshed settings
      then readiness_step ''Auth inventory'' ''Loading provider auth inventory'' ActiveStep
      else case sas_last_error settings of
             Some e \<Rightarrow> readiness_step ''Auth inventory'' e BlockedStep
           | None \<Rightarrow> readiness_step ''Auth inventory'' (show_nat records @ '' provider record(s) loaded'') CompleteStep)"

definition prompt_step :: "bool \<Rightarrow> bool \<Rightarrow> bool \<Rightarrow> ReadinessStepData" where
  "prompt_step promptable refreshed authenticated =
     (if promptable
      then readiness_step ''Prompt execution'' ''At least one authenticated provider is available'' CompleteStep
      else if \<not> refreshed
      then readiness_step ''Prompt execution'' ''Waiting for provider auth inventory'' PendingStep
      else if \<not> authenticated
      then readiness_step ''Prompt execution'' ''No authenticated providers are available yet'' BlockedStep
      else readiness_step ''Prompt execution'' ''Prompt execution is temporarily unavailable'' BlockedStep)"

definition operator_readiness :: "'ver controller_world \<Rightarrow> AppController \<Rightarrow> OperatorReadinessData" where
  "operator_readiness w c =
     (let shell = model_shell_state (app_session c);
          settings = app_settings_auth_state c;
          refreshed = sas_inventory_refreshed settings;
          providers = sv_providers (app_session_data w c);
          ready = (\<not> is_starting shell \<and> refreshed)
      in \<lparr>ord_ready = ready,
          ord_title = (if ready then ''Ready'' else if \<not> refreshed then ''Preparing operator controls''
                       else ''Starting embedded Omegon''),
          ord_detail =
            (if ready then ''Operator controls are fully converged.''
             else if \<not> refreshed
             then ''Auspex is attached, but provider auth inventory is still loading so promptability and remediation paths can converge.''
             else ''Auspex is waiting for the embedded host and control plane to become operational.''),
          ord_steps = [host_step shell, session_ready_step (source_mode (app_session c)) shell,
                       auth_step settings (length providers),
                       prompt_step (model_can_submit (app_session c)) refreshed
                         (list_ex pin_authenticated providers)]\<rparr>)"

section \<open>Gateway and picture\<close>

definition fleet_runtime_projection :: "AppController \<Rightarrow> json FleetRuntimeProjection" where
  "fleet_runtime_projection c = from_instances (reg_instances (app_registry c))"

definition gateway_fleet_status :: "AppController \<Rightarrow> json GatewayProjectionResponse" where
  "gateway_fleet_status c = fleet_status_response (fleet_runtime_projection c)"

definition gateway_instances_list :: "AppController \<Rightarrow> json GatewayInstancesListResponse" where
  "gateway_instances_list c = instances_list_response (fleet_runtime_projection c)"

definition gateway_capabilities_query :: "CapabilityKey \<Rightarrow> AppController \<Rightarrow> GatewayCapabilitiesQueryResponse" where
  "gateway_capabilities_query query c = capabilities_query_response (fleet_runtime_projection c) query"

definition project_gateway_fleet_to_cop :: "AppController \<Rightarrow> AppController" where
  "project_gateway_fleet_to_cop c =
     c\<lparr>app_cop_state := apply_gateway_fleet_projection (gateway_fleet_status c) (app_cop_state c)\<rparr>"

text \<open>Discovery under the policy; \<open>found\<close> is what \<open>discover_local_omegon_candidates\<close> returns.\<close>

definition discover_local_omegon_to_cop ::
  "'dec decision_view \<Rightarrow> 'dec \<Rightarrow> LocalOmegonCandidate list \<Rightarrow> AppController \<Rightarrow> LocalOmegonCandidate list \<times> AppController"
where
  "discover_local_omegon_to_cop dv policy found c =
     (let candidates = (if dv_allowed dv policy then found else [])
      in (candidates,
          c\<lparr>app_cop_state :=
              apply_local_omegon_discovery_with_policy dv candidates (Some policy) (app_cop_state c)\<rparr>))"

definition apply_local_omegon_probe_attachment ::
  "'ver controller_world \<Rightarrow> ('dec, AppController) LocalOmegonProbeResult \<Rightarrow> AppController \<Rightarrow> AppController"
where
  "apply_local_omegon_probe_attachment w r c =
     (case lpr_controller r of
        None \<Rightarrow> c
      | Some probed \<Rightarrow>
          (let c = on_fleet (\<lambda>f. f\<lparr>fl_instance_registry := app_registry probed\<rparr>) c in
           refresh_telemetry_snapshot w
             (case reg_instances (app_registry c) of
                found # _ \<Rightarrow>
                  on_fleet (\<lambda>f. adopt_engine_registry
                    (f\<lparr>fl_engine := select_command_route (''instance:'' @ instance_id_of found)
                                      (attach_instance (instance_attachment found) (fl_engine f))\<rparr>)) c
              | [] \<Rightarrow> rebuild_attached_instances w c)))"

definition attach_local_omegon_candidate ::
  "'ver controller_world \<Rightarrow> 'dec decision_view \<Rightarrow>
   (LocalOmegonCandidate \<Rightarrow> ('dec, AppController) LocalOmegonProbeResult) \<Rightarrow> LocalOmegonCandidate \<Rightarrow>
   AppController \<Rightarrow> ('dec, AppController) LocalOmegonProbeResult \<times> AppController"
where
  "attach_local_omegon_candidate w dv probe candidate c =
     (let r = probe candidate; c = apply_local_omegon_probe_attachment w r c
      in (r, c\<lparr>app_cop_state := apply_local_omegon_probe_result dv gateway_fleet_status r (app_cop_state c)\<rparr>))"

definition probe_first_local_omegon_to_cop ::
  "'ver controller_world \<Rightarrow> 'dec decision_view \<Rightarrow>
   (LocalOmegonCandidate \<Rightarrow> ('dec, AppController) LocalOmegonProbeResult) \<Rightarrow> LocalOmegonCandidate list \<Rightarrow>
   AppController \<Rightarrow> ('dec, AppController) LocalOmegonProbeResult option \<times> AppController"
where
  "probe_first_local_omegon_to_cop w dv probe found c =
     (case List.find (\<lambda>d. loc_startup_url d \<noteq> None) found of
        None \<Rightarrow> (None, c)
      | Some candidate \<Rightarrow> map_prod Some id (attach_local_omegon_candidate w dv probe candidate c))"

section \<open>Slash commands\<close>

record SlashCommandResult =
  scr_name :: string
  scr_args :: string
  scr_accepted :: bool
  scr_output :: string

fun as_bool :: "json \<Rightarrow> bool option" where
  "as_bool (JBool b) = Some b"
| "as_bool _ = None"

definition parse_slash_command_result :: "json option \<Rightarrow> SlashCommandResult option" where
  "parse_slash_command_result parsed =
     Option.bind parsed (\<lambda>v.
     Option.bind (Option.bind (jget v ''type'') as_str) (\<lambda>kind.
     if kind \<noteq> ''slash_command_result'' then None
     else Option.bind (Option.bind (jget v ''name'') as_str) (\<lambda>name.
          Option.bind (Option.bind (jget v ''accepted'') as_bool) (\<lambda>accepted.
            Some \<lparr>scr_name = name,
                  scr_args = unwrap_or (Option.bind (jget v ''args'') as_str) [],
                  scr_accepted = accepted,
                  scr_output = unwrap_or (Option.bind (jget v ''output'') as_str) []\<rparr>))))"

end
