(* ===== verification/App_Controller_Props.thy ===== *)
theory App_Controller_Props
  imports App_Controller
begin

text \<open>
  What the controller keeps whatever it is told: its copy of the registry, the transport it shows, the
  timeline, and the session its commands are addressed to.  Then what happens to a prompt, and to the
  instances that are attached beside the session.
\<close>

section \<open>Frames\<close>

lemma on_fleet_frame [simp]:
  "app_session (on_fleet f c) = app_session c" "app_fleet (on_fleet f c) = f (app_fleet c)"
  "app_audit_timeline (on_fleet f c) = app_audit_timeline c"
  "app_transport_telemetry (on_fleet f c) = app_transport_telemetry c"
  "app_telemetry_snapshot (on_fleet f c) = app_telemetry_snapshot c"
  "app_settings_auth_state (on_fleet f c) = app_settings_auth_state c"
  "app_cop_state (on_fleet f c) = app_cop_state c"
  by (simp_all add: on_fleet_def)

lemma refresh_telemetry_frame [simp]:
  "app_session (refresh_telemetry_snapshot w c) = app_session c"
  "app_fleet (refresh_telemetry_snapshot w c) = app_fleet c"
  "app_audit_timeline (refresh_telemetry_snapshot w c) = app_audit_timeline c"
  "app_transport_telemetry (refresh_telemetry_snapshot w c) = app_transport_telemetry c"
  "app_cop_state (refresh_telemetry_snapshot w c) = app_cop_state c"
  "std_transport (app_telemetry_snapshot (refresh_telemetry_snapshot w c)) = app_transport_telemetry c"
  by (simp_all add: refresh_telemetry_snapshot_def Let_def)

lemma refresh_audit_frame [simp]:
  "app_session (refresh_audit_timeline w c) = app_session c"
  "app_fleet (refresh_audit_timeline w c) = app_fleet c"
  "app_transport_telemetry (refresh_audit_timeline w c) = app_transport_telemetry c"
  "app_telemetry_snapshot (refresh_audit_timeline w c) = app_telemetry_snapshot c"
  "app_cop_state (refresh_audit_timeline w c) = app_cop_state c"
  by (simp_all add: refresh_audit_timeline_def append_telemetry_audit_entries_def Let_def)

lemma refresh_audit_ok [simp]:
  "audit_ok (app_audit_timeline c) \<Longrightarrow> audit_ok (app_audit_timeline (refresh_audit_timeline w c))"
  by (simp add: refresh_audit_timeline_def append_telemetry_audit_entries_def append_transcript_snapshot_def
      audit_ok_append_entries Let_def)

lemma adopt_engine_registry_simps [simp]:
  "fl_instance_registry (adopt_engine_registry f) = eng_registry_store (fl_engine f)"
  "fl_engine (adopt_engine_registry f) = fl_engine f"
  "fl_sessions (adopt_engine_registry f) = fl_sessions f"
  "fl_focused_instance_id (adopt_engine_registry f) = fl_focused_instance_id f"
  by (simp_all add: adopt_engine_registry_def)

lemma engine_session_key [simp]:
  "eng_session_key (attach_instance a e) = eng_session_key e"
  "eng_session_key (detach_instance i e) = eng_session_key e"
  "eng_session_key (purge_stale_instances ids e) = eng_session_key e"
  "eng_session_key (select_command_route r e) = eng_session_key e"
  "eng_session_key (evaluate_lifecycle_policy now e) = eng_session_key e"
  "eng_session_key (from_registry_and_session store key session) = key"
  by (simp_all add: attach_instance_def detach_instance_def purge_stale_instances_def select_command_route_def
      evaluate_lifecycle_policy_def from_registry_and_session_def Let_def)

lemma engine_after_selection [simp]:
  "eng_registry_store (select_command_route r e) = eng_registry_store e"
  "eng_attached_instances (select_command_route r e) = eng_attached_instances e"
  by (simp_all add: select_command_route_def)

lemma disconnect_frame [simp]:
  "fl_engine (disconnect_instance_session i f) = fl_engine f"
  "fl_instance_registry (disconnect_instance_session i f) = fl_instance_registry f"
  by (simp_all add: disconnect_instance_session_def)

lemma fold_disconnect_frame [simp]:
  "fl_engine (fold disconnect_instance_session ids f) = fl_engine f"
  "fl_instance_registry (fold disconnect_instance_session ids f) = fl_instance_registry f"
  by (induction ids arbitrary: f) simp_all

text \<open>An operation of the fleet that adopts the registry of the engine and keeps its session.\<close>

definition adopts :: "(json FleetControl \<Rightarrow> json FleetControl) \<Rightarrow> bool" where
  "adopts f \<longleftrightarrow>
     (\<forall>c. (fl_instance_registry c = eng_registry_store (fl_engine c) \<longrightarrow>
            fl_instance_registry (f c) = eng_registry_store (fl_engine (f c))) \<and>
          eng_session_key (fl_engine (f c)) = eng_session_key (fl_engine c))"

named_theorems adopting

lemma adopts_fleet [adopting]:
  "adopts (attach_instance_record a)" "adopts (detach_instance_record i)"
  "adopts (purge_stale_instance_records ids)" "adopts (register_container_agent r)"
  "adopts (evaluate_instance_lifecycle now)"
  "adopts (\<lambda>f. f\<lparr>fl_engine := select_command_route route (fl_engine f)\<rparr>)"
  "adopts (\<lambda>f. f\<lparr>fl_focused_instance_id := focus\<rparr>)"
  by (simp_all add: adopts_def attach_instance_record_def detach_instance_record_def
      purge_stale_instance_records_def register_container_agent_def evaluate_instance_lifecycle_def Let_def)

lemma adopts_fold: "(\<And>x. adopts (f x)) \<Longrightarrow> adopts (fold f xs)"
  by (induction xs) (simp_all add: adopts_def)

lemma adopts_reattach [adopting]: "adopts reattach_container_agents"
  using adopts_fold [where f = register_container_agent]
  by (simp add: adopts_def reattach_container_agents_def Let_def adopting [unfolded adopts_def])

section \<open>The key of the session\<close>

definition binding_session :: "json RemoteHostSession \<Rightarrow> string option" where
  "binding_session s = map_option (\<lambda>b. dbd_session_id (project_dispatcher_binding b)) (rs_dispatcher_binding s)"

lemma audit_key_of_binding:
  "session_audit_key w (RemoteSource s) =
     (case binding_session s of Some i \<Rightarrow> ''remote:'' @ i | None \<Rightarrow> ''remote:detached'')"
  by (simp add: session_audit_key_def binding_session_def remote_session_data_def Let_def split: option.split)

lemma push_frame [simp]:
  "rs_dispatcher_binding (push_system_notice m origin k s) = rs_dispatcher_binding s"
  "rs_dispatcher_binding (set_activity a k2 s) = rs_dispatcher_binding s"
  "rs_dispatcher_binding (push_chat_message role txt s) = rs_dispatcher_binding s"
  by (simp_all add: push_system_notice_def set_activity_def push_chat_message_def Let_def split_beta)

lemma projected_session_switch [simp]:
  "dbd_session_id (project_dispatcher_binding (b\<lparr>db_switch_state := x\<rparr>)) =
   dbd_session_id (project_dispatcher_binding b)"
  by (simp add: project_dispatcher_binding_def Let_def)

lemma binding_session_kept [simp]:
  "binding_session (snd (submit s)) = binding_session s"
  "binding_session (refresh_provider_auth ps s) = binding_session s"
  "binding_session (set_scenario sc s) = binding_session s"
  "binding_session (s\<lparr>rs_composer := d\<rparr>) = binding_session s"
  "binding_session (snd (request_dispatcher_switch profile model s)) = binding_session s"
  by (auto simp: binding_session_def submit_def refresh_provider_auth_def on_harness_status_changed_def
      set_scenario_def request_dispatcher_switch_def noop_switch_def issue_switch_def superseded_notice_def
      allocate_dispatcher_request_id_def Let_def split: option.split)

text \<open>A session that refuses an event is unchanged.\<close>

lemma refused_event:
  "\<not> fst (apply_session_event js e s) \<Longrightarrow> snd (apply_session_event js e s) = s"
  by (cases e) (auto simp: on_thinking_delta_def on_message_completed_def refresh_from_ipc_state_def Let_def
      split: option.splits if_splits)

lemma refused_outcome:
  "\<not> fst (apply_ipc_command_outcome command status s) \<Longrightarrow> snd (apply_ipc_command_outcome command status s) = s"
  by (auto simp: apply_ipc_command_outcome_def Let_def split: IpcCommandKind.splits option.splits if_splits)

lemma refused_snapshot:
  "\<not> fst (refresh_from_ipc_state snap s) \<Longrightarrow> snd (refresh_from_ipc_state snap s) = s"
  by (auto simp: refresh_from_ipc_state_def Let_def split: if_splits)

section \<open>Everything that happens to a controller\<close>

text \<open>
  The transports, the operator and the fleet.  The operations that rewrite the registry from probes,
  discovered containers and configuration are those of \<open>Fleet_Control_Props\<close>.
\<close>

datatype controller_input =
    SessionIn "json SessionEvent"
  | RemoteIn string
  | IpcIn "json IpcEventPayload"
  | OutcomeIn IpcCommandOutcome
  | DisconnectIn string
  | SnapshotIn IpcStateSnapshot
  | DispatchFailureIn string
  | PromptIn
  | SwitchIn string "string option"
  | DraftIn string
  | ScenarioIn string
  | ModeIn string
  | AuthIn DesktopAuthAction "string + DesktopAuthSnapshot"
  | RefreshAuthIn "string + DesktopAuthSnapshot"
  | RouteIn string
  | FocusIn "string option"
  | NoteIn "string option"
  | WebsocketIn "string option"
  | HelloIn HelloResponse
  | ReconciliationIn ReconciliationStatusData string
  | AttachIn "json AttachedInstanceRecord"
  | DetachIn string
  | ContainerIn "json InstanceRecord"
  | ReattachIn
  | LifecycleIn u64
  | DescriptorIn string OmegonInstanceDescriptor
  | RegistryIn "json InstanceRegistryStore"
  | GatewayIn

fun controller_step :: "'ver controller_world \<Rightarrow> controller_input \<Rightarrow> AppController \<Rightarrow> AppController" where
  "controller_step w (SessionIn e) c = snd (app_apply_session_event w e c)"
| "controller_step w (RemoteIn payload) c = snd (apply_remote_event_json w payload c)"
| "controller_step w (IpcIn e) c = snd (apply_ipc_event w e c)"
| "controller_step w (OutcomeIn outcome) c = snd (app_apply_ipc_command_outcome w outcome c)"
| "controller_step w (DisconnectIn error) c = snd (apply_ipc_disconnect w error c)"
| "controller_step w (SnapshotIn snapshot) c = snd (apply_ipc_state_snapshot w snapshot c)"
| "controller_step w (DispatchFailureIn message) c = record_dispatch_failure w message c"
| "controller_step w PromptIn c = snd (submit_prompt_command w c)"
| "controller_step w (SwitchIn profile model) c = snd (request_dispatcher_switch_command profile model c)"
| "controller_step w (DraftIn txt) c = update_draft txt c"
| "controller_step w (ScenarioIn raw) c = select_scenario w raw c"
| "controller_step w (ModeIn raw) c = switch_session_mode w raw c"
| "controller_step w (AuthIn action answer) c = snd (run_settings_auth_action w action answer c)"
| "controller_step w (RefreshAuthIn answer) c = snd (refresh_settings_auth_status w answer c)"
| "controller_step w (RouteIn route) c = app_select_command_route w route c"
| "controller_step w (FocusIn i) c = focus_instance w i c"
| "controller_step w (NoteIn note) c = c\<lparr>app_bootstrap_note := note\<rparr>"
| "controller_step w (WebsocketIn reason) c = report_websocket_compatibility w reason c"
| "controller_step w (HelloIn hello) c = report_ipc_connected w hello c"
| "controller_step w (ReconciliationIn status detail) c = with_transport w (reconciliation status detail) c"
| "controller_step w (AttachIn a) c = on_fleet (attach_instance_record a) c"
| "controller_step w (DetachIn i) c = on_fleet (detach_instance_record i) c"
| "controller_step w (ContainerIn r) c = on_fleet (register_container_agent r) c"
| "controller_step w ReattachIn c = on_fleet reattach_container_agents c"
| "controller_step w (LifecycleIn now) c = on_fleet (evaluate_instance_lifecycle now) c"
| "controller_step w (DescriptorIn i d) c = snd (apply_instance_descriptor w i d c)"
| "controller_step w (RegistryIn store) c = with_instance_registry w store c"
| "controller_step w GatewayIn c = project_gateway_fleet_to_cop c"

definition controller_run :: "'ver controller_world \<Rightarrow> controller_input list \<Rightarrow> AppController \<Rightarrow> AppController" where
  "controller_run w = fold (controller_step w)"

section \<open>The invariant\<close>

definition session_ok :: "'ver controller_world \<Rightarrow> string \<Rightarrow> SessionSource \<Rightarrow> bool" where
  "session_ok w key src =
     (case src of
        MockSource _ \<Rightarrow> True
      | RemoteSource s \<Rightarrow> session_reachable (cw_plan w) s \<and> key = session_audit_key w src)"

definition controller_ok :: "'ver controller_world \<Rightarrow> AppController \<Rightarrow> bool" where
  "controller_ok w c \<longleftrightarrow>
     app_registry c = eng_registry_store (app_engine c) \<and>
     std_transport (app_telemetry_snapshot c) = app_transport_telemetry c \<and>
     audit_ok (app_audit_timeline c) \<and>
     session_ok w (eng_session_key (app_engine c)) (app_session c)"

text \<open>Before the fleet is rebuilt, the session only has to be a session.\<close>

definition session_known :: "'ver controller_world \<Rightarrow> SessionSource \<Rightarrow> bool" where
  "session_known w src = (case src of MockSource _ \<Rightarrow> True | RemoteSource s \<Rightarrow> session_reachable (cw_plan w) s)"

lemma session_ok_known: "session_ok w key src \<Longrightarrow> session_known w src"
  by (cases src) (simp_all add: session_ok_def session_known_def)

lemma session_ok_key: "session_known w src \<Longrightarrow> session_ok w (session_audit_key w src) src"
  by (cases src) (simp_all add: session_ok_def session_known_def)

lemma ok_refresh_telemetry [intro]: "controller_ok w c \<Longrightarrow> controller_ok w (refresh_telemetry_snapshot w c)"
  by (simp add: controller_ok_def)

lemma ok_refresh_audit [intro]: "controller_ok w c \<Longrightarrow> controller_ok w (refresh_audit_timeline w c)"
  by (simp add: controller_ok_def)

lemma ok_transport [intro]: "controller_ok w c \<Longrightarrow> controller_ok w (with_transport w f c)"
  by (simp add: controller_ok_def with_transport_def)

lemma ok_fleet: "adopts f \<Longrightarrow> controller_ok w c \<Longrightarrow> controller_ok w (on_fleet f c)"
  by (simp add: controller_ok_def adopts_def)

lemma rebuild_frame [simp]:
  "app_session (rebuild_attached_instances w c) = app_session c"
  "app_registry (rebuild_attached_instances w c) = eng_registry_store (app_engine (rebuild_attached_instances w c))"
  "eng_session_key (app_engine (rebuild_attached_instances w c)) = session_audit_key w (app_session c)"
  "app_audit_timeline (rebuild_attached_instances w c) = app_audit_timeline c"
  "app_transport_telemetry (rebuild_attached_instances w c) = app_transport_telemetry c"
  "app_telemetry_snapshot (rebuild_attached_instances w c) = app_telemetry_snapshot c"
  by (simp_all add: rebuild_attached_instances_def Let_def)

lemma ok_rebuild:
  "session_known w (app_session c) \<Longrightarrow> audit_ok (app_audit_timeline c) \<Longrightarrow>
     controller_ok w (refresh_telemetry_snapshot w (rebuild_attached_instances w c))"
  by (simp add: controller_ok_def session_ok_key)

lemma ok_mutation:
  "session_known w (app_session c) \<Longrightarrow> audit_ok (app_audit_timeline c) \<Longrightarrow>
     controller_ok w (handle_session_mutation w c)"
  by (simp add: handle_session_mutation_def Let_def controller_ok_def session_ok_key
      purge_stale_instance_records_def)

lemma ok_sync: "controller_ok w c \<Longrightarrow> controller_ok w (snd (sync_primary_descriptor_to_registry w c))"
  by (auto simp: sync_primary_descriptor_to_registry_def Let_def ok_fleet adopting split: option.split bool.split)

lemma ok_mutation_sync:
  "session_known w (app_session c) \<Longrightarrow> audit_ok (app_audit_timeline c) \<Longrightarrow> controller_ok w (mutation_with_sync w c)"
  by (simp add: mutation_with_sync_def ok_sync ok_mutation)

text \<open>A change of a live session, given what follows it.\<close>

lemma ok_live_change:
  assumes ok: "controller_ok w c"
    and reach: "\<And>s. session_reachable (cw_plan w) s \<Longrightarrow> session_reachable (cw_plan w) (snd (f s))"
    and refused: "\<And>s. \<not> fst (f s) \<Longrightarrow> snd (f s) = s"
    and follow: "\<And>c. session_known w (app_session c) \<Longrightarrow> audit_ok (app_audit_timeline c) \<Longrightarrow> controller_ok w (g c)"
  shows "controller_ok w (snd (live_change g f c))"
proof (cases "app_session c")
  case (RemoteSource s)
  then have known: "session_reachable (cw_plan w) (snd (f s))" and audit: "audit_ok (app_audit_timeline c)"
    using ok reach by (auto simp: controller_ok_def session_ok_def)
  show ?thesis
  proof (cases "fst (f s)")
    case True
    with known audit RemoteSource show ?thesis
      by (auto simp: live_change_def split_beta session_known_def intro!: follow)
  next
    case False
    then have "snd (f s) = s" by (rule refused)
    then have "snd (live_change g f c) = c"
      using False RemoteSource by (simp add: live_change_def split_beta)
    with ok show ?thesis by simp
  qed
qed (use ok in \<open>simp add: live_change_def\<close>)

text \<open>A new session with the same dispatcher.\<close>

lemma ok_same_binding:
  assumes "controller_ok w c" and "app_session c = RemoteSource s"
    and "session_reachable (cw_plan w) s'" and "binding_session s' = binding_session s"
  shows "controller_ok w (c\<lparr>app_session := RemoteSource s'\<rparr>)"
  using assms by (simp add: controller_ok_def session_ok_def audit_key_of_binding)

section \<open>Every step keeps it\<close>

lemma reach_step: "session_reachable js s \<Longrightarrow> session_reachable js (session_step js i s)"
  by (rule session_reachable.moved)

lemma reach_inputs:
  assumes "session_reachable js s"
  shows "session_reachable js (snd (apply_session_event js e s))"
    and "session_reachable js (snd (apply_event js omegon s))"
    and "session_reachable js (snd (apply_ipc_command_outcome command status s))"
    and "session_reachable js (snd (mark_ipc_disconnected error s))"
    and "session_reachable js (snd (refresh_from_ipc_state snapshot s))"
    and "session_reachable js (report_dispatch_failure message s)"
    and "session_reachable js (snd (submit s))"
    and "session_reachable js (snd (request_dispatcher_switch profile model s))"
    and "session_reachable js (s\<lparr>rs_composer := set_draft txt (rs_composer s)\<rparr>)"
    and "session_reachable js (set_scenario scenario s)"
    and "session_reachable js (refresh_provider_auth providers s)"
  using reach_step [OF assms, of "Event e"] reach_step [OF assms, of "Event (session_event_of_omegon omegon)"]
    reach_step [OF assms, of "Outcome command status"] reach_step [OF assms, of "Disconnected error"]
    reach_step [OF assms, of "Event (SessionEvent.StateReconciled snapshot)"]
    reach_step [OF assms, of "DispatchFailure message"] reach_step [OF assms, of Submit]
    reach_step [OF assms, of "Switch profile model"] reach_step [OF assms, of "EditDraft txt"]
    reach_step [OF assms, of "Scenario scenario"] reach_step [OF assms, of "ProviderAuth providers"]
  by (simp_all add: apply_event_def)

lemma ok_intercept: "controller_ok w c \<Longrightarrow> controller_ok w (try_intercept_cop_tool_event e c)"
  by (cases e) (simp_all add: try_intercept_cop_tool_event_def controller_ok_def)

text \<open>The events the controller sorts out are those the session refuses as well.\<close>

lemma app_session_event:
  "app_apply_session_event w e c =
     live_change (mutation_with_sync w) (apply_session_event (cw_plan w) e) (try_intercept_cop_tool_event e c)"
proof -
  have "(\<lambda>s. case e of
            SessionEvent.HarnessChanged \<Rightarrow> (False, s)
          | SessionEvent.StateChanged _ \<Rightarrow> (False, s)
          | _ \<Rightarrow> apply_session_event (cw_plan w) e s) = apply_session_event (cw_plan w) e"
    by (cases e) (simp_all add: fun_eq_iff)
  then show ?thesis by (simp only: app_apply_session_event_def)
qed

lemma ok_session_event: "controller_ok w c \<Longrightarrow> controller_ok w (snd (app_apply_session_event w e c))"
  unfolding app_session_event
  by (rule ok_live_change) (simp_all add: ok_intercept ok_mutation_sync reach_inputs refused_event)

lemma ok_remote_event: "controller_ok w c \<Longrightarrow> controller_ok w (snd (apply_remote_event_json w payload c))"
proof (cases "cw_event w payload")
  case (Inr event)
  assume "controller_ok w c"
  then have "controller_ok w (snd (live_change (mutation_with_sync w) (apply_event (cw_plan w) event)
      (try_intercept_cop_tool_event (session_event_of_omegon event) c)))"
    by (intro ok_live_change) (auto simp: ok_intercept ok_mutation_sync reach_inputs apply_event_def refused_event)
  with Inr show ?thesis by (simp add: apply_remote_event_json_def)
qed (simp add: apply_remote_event_json_def)

lemma ok_ipc_event: "controller_ok w c \<Longrightarrow> controller_ok w (snd (apply_ipc_event w e c))"
  using ok_session_event [of w c "session_event_of_ipc e"]
  by (simp add: apply_ipc_event_def Let_def split_beta mark_ipc_reconciled_def ok_transport)

lemma ok_answers:
  assumes "controller_ok w c"
  shows "controller_ok w (snd (app_apply_ipc_command_outcome w outcome c))"
    and "controller_ok w (snd (apply_ipc_disconnect w error c))"
    and "controller_ok w (snd (apply_ipc_state_snapshot w snapshot c))"
    and "controller_ok w (record_dispatch_failure w message c)"
proof -
  show "controller_ok w (snd (app_apply_ipc_command_outcome w outcome c))"
    unfolding app_apply_ipc_command_outcome_def using assms
    by (auto intro!: ok_live_change ok_mutation refused_outcome reach_inputs)
  show "controller_ok w (snd (apply_ipc_disconnect w error c))"
    unfolding apply_ipc_disconnect_def using assms
    by (intro ok_live_change ok_mutation reach_inputs ok_transport) (simp_all add: mark_ipc_disconnected_def)
  show "controller_ok w (snd (apply_ipc_state_snapshot w snapshot c))"
    unfolding apply_ipc_state_snapshot_def using assms
    by (intro ok_live_change reach_inputs refused_snapshot)
      (simp_all add: mark_ipc_reconciled_def ok_transport ok_mutation)
  show "controller_ok w (record_dispatch_failure w message c)"
    unfolding record_dispatch_failure_def using assms
    by (intro ok_live_change ok_mutation) (simp_all add: reach_inputs)
qed

lemma ok_mock: "app_session c = MockSource m \<Longrightarrow> controller_ok w c \<Longrightarrow> controller_ok w (c\<lparr>app_session := MockSource m'\<rparr>)"
  by (simp add: controller_ok_def session_ok_def)

lemma session_reach: "controller_ok w c \<Longrightarrow> app_session c = RemoteSource s \<Longrightarrow> session_reachable (cw_plan w) s"
  by (simp add: controller_ok_def session_ok_def)

lemma ok_operator:
  assumes ok: "controller_ok w c"
  shows "controller_ok w (snd (submit_prompt_command w c))"
    and "controller_ok w (snd (request_dispatcher_switch_command profile model c))"
    and "controller_ok w (update_draft txt c)"
    and "controller_ok w (app_set_scenario w scenario c)"
proof -
  note kept = ok_same_binding [OF ok] ok_mock [OF _ ok] session_reach [OF ok] reach_inputs ok_refresh_audit
    ok_refresh_telemetry
  show "controller_ok w (snd (submit_prompt_command w c))"
    using ok by (cases "app_session c")
      (auto simp: submit_prompt_command_def submit_prompt_def model_submit_def Let_def split_beta intro!: kept)
  show "controller_ok w (snd (request_dispatcher_switch_command profile model c))"
    using ok by (cases "app_session c")
      (auto simp: request_dispatcher_switch_command_def Let_def split_beta intro!: kept)
  show "controller_ok w (update_draft txt c)"
    by (cases "app_session c") (auto simp: update_draft_def model_set_draft_def intro!: kept)
  show "controller_ok w (app_set_scenario w scenario c)"
    by (cases "app_session c") (auto simp: app_set_scenario_def model_set_scenario_def intro!: kept)
qed

lemma ok_auth:
  assumes ok: "controller_ok w c"
  shows "controller_ok w (snd (adopt_auth_snapshot w action answer c))"
proof (cases answer)
  case (Inl e)
  with ok show ?thesis by (simp add: adopt_auth_snapshot_def controller_ok_def)
next
  case (Inr snapshot)
  have settings: "controller_ok w (c\<lparr>app_settings_auth_state := x\<rparr>)" for x
    using ok by (simp add: controller_ok_def)
  from Inr ok show ?thesis
    by (cases "app_session c")
      (auto simp: adopt_auth_snapshot_def Let_def controller_ok_def session_ok_def audit_key_of_binding
        reach_inputs)
qed

lemma ok_mode: "controller_ok w c \<Longrightarrow> controller_ok w (switch_session_mode w raw c)"
proof -
  assume ok: "controller_ok w c"
  have detached: "app_session (fold (\<lambda>i. on_fleet (detach_instance_record i)) is c) = app_session c \<and>
      app_audit_timeline (fold (\<lambda>i. on_fleet (detach_instance_record i)) is c) = app_audit_timeline c" for "is" c
    by (induction "is" arbitrary: c) simp_all
  have noted: "controller_ok w c \<Longrightarrow> controller_ok w (c\<lparr>app_bootstrap_note := n\<rparr>)" for c n
    by (simp add: controller_ok_def)
  have "audit_ok (app_audit_timeline c)" using ok by (simp add: controller_ok_def)
  then show ?thesis
    by (auto simp: switch_session_mode_def Let_def session_known_def detached
        intro!: ok_refresh_audit noted ok_rebuild session_reachable.attached)
qed

lemma ok_routes:
  assumes "controller_ok w c"
  shows "controller_ok w (app_select_command_route w route c)" and "controller_ok w (focus_instance w i c)"
proof -
  have route: "controller_ok w (app_select_command_route w route c)" if "controller_ok w c" for route c
    using that by (simp add: app_select_command_route_def ok_refresh_telemetry ok_fleet adopting)
  then show "controller_ok w (app_select_command_route w route c)" using assms .
  have unread: "controller_ok w c \<Longrightarrow> controller_ok w (c\<lparr>app_unread_counts := u\<rparr>)" for c u
    by (simp add: controller_ok_def)
  show "controller_ok w (focus_instance w i c)"
    using assms by (auto simp: focus_instance_def select_command_route_for_instance_def Let_def
        intro!: unread route ok_fleet adopting split: option.split)
qed

lemma ok_registry: "controller_ok w c \<Longrightarrow> controller_ok w (with_instance_registry w store c)"
  by (auto simp: with_instance_registry_def with_fresh_instance_registry_def controller_ok_def
      dest: session_ok_known intro!: session_ok_key)

lemma ok_unrelated:
  "controller_ok w c \<Longrightarrow> controller_ok w (c\<lparr>app_bootstrap_note := note\<rparr>)"
  "controller_ok w c \<Longrightarrow> controller_ok w (c\<lparr>app_cop_state := cop\<rparr>)"
  by (simp_all add: controller_ok_def)

lemma step_keeps_controller: "controller_ok w c \<Longrightarrow> controller_ok w (controller_step w i c)"
  by (cases i)
    (auto simp: ok_session_event ok_remote_event ok_ipc_event ok_answers ok_operator ok_mode ok_routes ok_registry
      select_scenario_def run_settings_auth_action_def refresh_settings_auth_status_def ok_auth
      report_websocket_compatibility_def report_ipc_connected_def ok_fleet adopting ok_transport
      apply_instance_descriptor_def Let_def ok_refresh_telemetry
      project_gateway_fleet_to_cop_def ok_unrelated split: option.split)

lemma run_keeps_controller: "controller_ok w c \<Longrightarrow> controller_ok w (controller_run w inputs c)"
  by (induction inputs arbitrary: c) (simp_all add: controller_run_def step_keeps_controller)

lemma ok_new:
  "controller_ok w (default_controller w)"
  "from_remote_snapshot_json_with_registry w registry payload = Inr c \<Longrightarrow> controller_ok w c"
proof -
  show "controller_ok w (default_controller w)"
    by (simp add: default_controller_def controller_ok_def new_controller_def default_engine_def
        session_ok_def audit_ok_default)
  assume "from_remote_snapshot_json_with_registry w registry payload = Inr c"
  then show "controller_ok w c"
    by (cases "cw_snapshot w payload")
      (auto simp: from_remote_snapshot_json_with_registry_def new_controller_def session_known_def audit_ok_default
        intro!: ok_refresh_audit ok_rebuild session_reachable.attached)
qed


section \<open>Prompts\<close>

lemma submit_frame:
  "fst (submit s) \<longleftrightarrow> can_submit s \<and> trim (cst_draft (rs_composer s)) \<noteq> []"
  "\<not> fst (submit s) \<Longrightarrow> snd (submit s) = s"
  "fst (submit s) \<Longrightarrow> rs_pending_user_prompt (snd (submit s)) = Some (trim (cst_draft (rs_composer s))) \<and>
     cst_draft (rs_composer (snd (submit s))) = []"
  by (auto simp: submit_def Let_def push_chat_message_def set_activity_def clear_draft_def split: if_splits)


section \<open>Instances beside the session\<close>

lemma reconciled_key: "a \<in> set (reconcile_attached_instances store key session) \<Longrightarrow> att_session_key a = key"
  by (auto simp: reconcile_attached_instances_def described_host_def recorded_host_def session_dispatcher_def Let_def
      split: option.splits)

text \<open>After a mutation the attached instances are those the session reports.\<close>

lemma attached_after_mutation:
  "eng_attached_instances (app_engine (handle_session_mutation w c)) =
     reconcile_attached_instances (app_registry c) (session_audit_key w (app_session c))
       (SessionData.truncate (model_session_data w (app_session c)))"
proof -
  let ?as = "reconcile_attached_instances (app_registry c) (session_audit_key w (app_session c))
       (SessionData.truncate (model_session_data w (app_session c)))"
  have rebuilt: "eng_attached_instances (app_engine (rebuild_attached_instances w c)) = ?as"
    by (simp add: rebuild_attached_instances_def from_registry_and_session_def Let_def)
  have "filter (\<lambda>a. att_session_key a = session_audit_key w (app_session c)) ?as = ?as"
    by (auto simp: filter_id_conv dest: reconciled_key)
  moreover have "filter (\<lambda>a. List.member (map att_instance_id ?as) (att_instance_id a)) ?as = ?as"
    by (simp add: filter_id_conv)
  ultimately show ?thesis
    by (simp add: handle_session_mutation_def Let_def rebuilt purge_stale_instance_records_def
        purge_stale_instances_def)
qed

definition primary_id :: "'ver controller_world \<Rightarrow> SessionSource \<Rightarrow> string option" where
  "primary_id w src = map_option (\<lambda>d. iid_instance_id (idd_identity d)) (sd_instance_descriptor (model_session_data w src))"

lemma upsert_record_members: "x \<in> set (upsert_record key r rs) \<Longrightarrow> x = r \<or> x \<in> set rs"
  by (auto simp: upsert_record_def dest: set_update_subset_insert [THEN subsetD] split: option.splits)

lemma mutation_frame [simp]:
  "app_session (handle_session_mutation w c) = app_session c"
  "eng_session_key (app_engine (handle_session_mutation w c)) = session_audit_key w (app_session c)"
  by (simp_all add: handle_session_mutation_def Let_def purge_stale_instance_records_def)

lemma sync_session [simp]: "app_session (snd (sync_primary_descriptor_to_registry w c)) = app_session c"
  by (simp add: sync_primary_descriptor_to_registry_def Let_def split: option.split bool.split)

lemma attached_after_sync:
  assumes "a \<in> set (eng_attached_instances (app_engine (snd (sync_primary_descriptor_to_registry w c))))"
  shows "a \<in> set (eng_attached_instances (app_engine c)) \<or> Some (att_instance_id a) = primary_id w (app_session c)"
proof (cases "fst (sync_primary_descriptor_to_registry w c)")
  case False
  then have "snd (sync_primary_descriptor_to_registry w c) = c"
    by (auto simp: sync_primary_descriptor_to_registry_def Let_def split: option.splits bool.splits if_splits)
  with assms show ?thesis by simp
next
  case True
  then obtain d r where d: "sd_instance_descriptor (model_session_data w (app_session c)) = Some d"
    and id: "iid_instance_id (idd_identity d) \<noteq> []"
    and r: "find_instance (app_registry c) (iid_instance_id (idd_identity d)) = Some r"
    by (auto simp: sync_primary_descriptor_to_registry_def Let_def split: option.splits bool.splits)
  from r have "instance_id_of r = iid_instance_id (idd_identity d)"
    by (auto simp: find_instance_def find_Some_iff)
  then have "instance_id_of (synced_record (cw_semver w) d r) = iid_instance_id (idd_identity d)"
    by (simp add: synced_record_def Let_def split: option.split)
  with assms d id r show ?thesis
    by (auto simp: sync_primary_descriptor_to_registry_def Let_def attach_instance_record_def attach_instance_def
        primary_id_def instance_attachment_def dest!: upsert_record_members)
qed

text \<open>
  C39: After an event that changed the session, the instances that commands can be sent to are those
  the session itself reports and its primary instance: every container or remote instance that was
  attached beside it has lost its route.  An event that changed nothing leaves all of them.
\<close>

theorem event_drops_other_instances:
  "let (applied, c') = app_apply_session_event w e c in
   if applied
   then list_all (\<lambda>a. att_session_key a = session_audit_key w (app_session c') \<or>
                      Some (att_instance_id a) = primary_id w (app_session c'))
          (eng_attached_instances (app_engine c'))
   else app_engine c' = app_engine c"
proof -
  have dropped: "att_session_key a = session_audit_key w (app_session c1) \<or>
      Some (att_instance_id a) = primary_id w (app_session c1)"
    if "a \<in> set (eng_attached_instances (app_engine (mutation_with_sync w c1)))" for a c1
    using attached_after_sync [OF that [unfolded mutation_with_sync_def]]
    by (auto simp: attached_after_mutation dest: reconciled_key)
  have same: "app_session (mutation_with_sync w c1) = app_session c1" for c1
    by (simp add: mutation_with_sync_def)
  have kept: "app_engine (try_intercept_cop_tool_event e c) = app_engine c"
    by (cases e) (simp_all add: try_intercept_cop_tool_event_def)
  show ?thesis
    by (cases "app_session (try_intercept_cop_tool_event e c)")
      (auto simp: app_session_event live_change_def split_beta list_all_iff Let_def same kept dest!: dropped)
qed

section \<open>Answers\<close>

text \<open>An answer to a command for another target is ignored.\<close>

lemma foreign_outcome_ignored:
  "ico_target outcome \<noteq> app_command_target c \<Longrightarrow> app_apply_ipc_command_outcome w outcome c = (False, c)"
  by (simp add: app_apply_ipc_command_outcome_def)

lemma single_route_target:
  "eng_attached_instances e = [a] \<Longrightarrow>
     current_command_target e =
       \<lparr>ct_session_key = att_session_key a, ct_dispatcher_instance_id = att_dispatcher_instance_id a\<rparr>"
  by (auto simp: current_command_target_def selected_command_route_id_def available_command_routes_def
      project_command_route_def Let_def split: option.split)

lemma find_after_purge:
  assumes "List.member active k"
  shows "find_instance (eng_registry_store (purge_stale_instances active e)) k =
     map_option (lose_record (eng_session_key e) active) (find_instance (eng_registry_store e) k)"
  using assms find_instance_map [of "lose_record (eng_session_key e) active" "eng_registry_store e" k]
  by (simp add: purge_stale_instances_def find_instance_filter_kept)

lemma mutation_registers:
  assumes "a \<in> set (eng_attached_instances (app_engine (handle_session_mutation w c)))"
  shows "find_instance (app_registry (handle_session_mutation w c)) (att_instance_id a) \<noteq> None"
proof -
  let ?as = "reconcile_attached_instances (app_registry c) (session_audit_key w (app_session c))
       (SessionData.truncate (model_session_data w (app_session c)))"
  let ?c = "rebuild_attached_instances w c"
  have rebuilt: "eng_attached_instances (app_engine ?c) = ?as"
    "eng_registry_store (app_engine ?c) = merge_attached_instances_into_registry (app_registry c) ?as"
    by (simp_all add: rebuild_attached_instances_def from_registry_and_session_def Let_def)
  have own: "filter (\<lambda>a. att_session_key a = session_audit_key w (app_session c)) ?as = ?as"
    by (auto simp: filter_id_conv dest: reconciled_key)
  from assms have a: "a \<in> set ?as" by (simp add: attached_after_mutation)
  then have "List.member (map att_instance_id ?as) (att_instance_id a)" by simp
  from find_after_purge [OF this, of "app_engine ?c"] find_merge_attached [OF a, of "app_registry c"] show ?thesis
    by (auto simp: handle_session_mutation_def Let_def purge_stale_instance_records_def rebuilt own)
qed

lemma single_upsert: "key a = key b \<Longrightarrow> upsert_record key b [a] = [b]"
  by (simp add: upsert_record_def)

text \<open>
  C40: A session without a dispatcher changes the target of its commands with every event: after an
  event the target is the primary instance, after an answer or a state snapshot it is the session.
  As an answer counts only for the target that is current when it arrives, a prompt sent after a
  snapshot whose answer arrives after the next event is never settled: the answer is ignored.
\<close>

theorem outcome_is_lost_after_an_event:
  assumes "app_session c = RemoteSource s" and "rs_dispatcher_binding s = None"
    and "rs_instance_descriptor s = Some d" and "oid_instance_id (odesc_identity d) \<noteq> []"
  shows "app_command_target (handle_session_mutation w c) =
           \<lparr>ct_session_key = ''remote:detached'', ct_dispatcher_instance_id = None\<rparr> \<and>
         app_command_target (mutation_with_sync w c) =
           \<lparr>ct_session_key = ''instance:'' @ oid_instance_id (odesc_identity d), ct_dispatcher_instance_id = None\<rparr> \<and>
         app_apply_ipc_command_outcome w
           \<lparr>ico_target = app_command_target (handle_session_mutation w c), ico_command = command, ico_status = status\<rparr>
           (mutation_with_sync w c) = (False, mutation_with_sync w c)"
proof -
  let ?m = "handle_session_mutation w c" and ?id = "oid_instance_id (odesc_identity d)"
  have data: "sd_instance_descriptor (model_session_data w (app_session c)) = Some (project_instance_descriptor d)"
    "sd_dispatcher_binding (model_session_data w (app_session c)) = None"
    using assms by (simp_all add: model_session_data_def remote_session_data_def Let_def)
  have id: "iid_instance_id (idd_identity (project_instance_descriptor d)) = ?id"
    by (simp add: project_instance_descriptor_def Let_def)
  have key: "session_audit_key w (app_session c) = ''remote:detached''"
    using assms by (simp add: audit_key_of_binding binding_session_def)
  have attached: "eng_attached_instances (app_engine ?m) =
      [described_host (app_registry c) ''remote:detached'' (project_instance_descriptor d)]"
    by (simp add: attached_after_mutation key reconcile_attached_instances_def SessionData.defs data)
  have host: "att_instance_id (described_host (app_registry c) ''remote:detached'' (project_instance_descriptor d)) = ?id"
    using assms id by (simp add: described_host_def or_default_def Let_def)
  from mutation_registers [of _ w c] attached host obtain r where r: "find_instance (app_registry ?m) ?id = Some r"
    by fastforce
  then have rid: "instance_id_of (synced_record (cw_semver w) (project_instance_descriptor d) r) = ?id"
    by (auto simp: synced_record_def Let_def find_instance_def find_Some_iff split: option.split)
  have synced: "eng_attached_instances (app_engine (mutation_with_sync w c)) =
      [(instance_attachment (synced_record (cw_semver w) (project_instance_descriptor d) r))
         \<lparr>att_registry_record := Some (synthesize_instance_record
            (instance_attachment (synced_record (cw_semver w) (project_instance_descriptor d) r)))\<rparr>]"
    using assms(4) r host rid
    by (simp add: mutation_with_sync_def sync_primary_descriptor_to_registry_def data id attach_instance_record_def
        attach_instance_def attached instance_attachment_def Let_def upsert_record_def)
  have "app_command_target ?m = \<lparr>ct_session_key = ''remote:detached'', ct_dispatcher_instance_id = None\<rparr>"
    using single_route_target [OF attached] by (simp add: app_command_target_def described_host_def Let_def)
  moreover have "app_command_target (mutation_with_sync w c) =
      \<lparr>ct_session_key = ''instance:'' @ ?id, ct_dispatcher_instance_id = None\<rparr>"
    using single_route_target [OF synced] rid by (simp add: app_command_target_def instance_attachment_def Let_def)
  ultimately show ?thesis by (simp add: foreign_outcome_ignored)
qed

definition demo_json_plan :: "json plan_json" where
  "demo_json_plan =
     \<lparr>pj_get = jget, pj_as_str = as_str, pj_as_array = as_array, pj_to_string = \<lambda>_. [],
      pj_to_string_pretty = \<lambda>_. None\<rparr>"

definition bare_snapshot :: "json OmegonStateSnapshot" where
  "bare_snapshot =
     \<lparr>snap_design = \<lparr>ds_focused = None, ds_implementing = [], ds_actionable = [], ds_all_nodes = [],
                     ds_counts = []\<rparr>,
      snap_openspec = \<lparr>os_total_tasks = 0, os_done_tasks = 0\<rparr>,
      snap_cleave = \<lparr>cl_active = False, cl_total_children = 0, cl_completed = 0, cl_failed = 0\<rparr>,
      snap_session = \<lparr>ss_turns = 0, ss_tool_calls = 0, ss_compactions = 0\<rparr>,
      snap_harness = None, snap_dispatcher = None, snap_instance_descriptor = None,
      snap_initialize_metadata = None, snap_extension_metadata = None, snap_operational_profile = None\<rparr>"

definition demo_world :: "unit controller_world" where
  "demo_world =
     \<lparr>cw_fmt = \<lambda>_ _. [], cw_plan = demo_json_plan, cw_event = \<lambda>_. Err ''no event'',
      cw_snapshot = \<lambda>_. Ok bare_snapshot, cw_demo = bare_snapshot,
      cw_semver = \<lparr>sv_parse = \<lambda>_. Some (), sv_less = \<lambda>_ _. False, sv_minimum = ()\<rparr>,
      cw_js = \<lparr>js_get = jget, js_pointer = \<lambda>_ _. None, js_as_str = as_str, js_as_bool = \<lambda>_. None,
               js_as_u64 = \<lambda>_. None, js_string = JStr\<rparr>\<rparr>"

text \<open>A session without a dispatcher whose first snapshot names its instance.\<close>

definition named_session :: "json RemoteHostSession" where
  "named_session =
     from_snapshot (bare_snapshot\<lparr>snap_instance_descriptor := Some (project_ipc_instance_descriptor (demo_ipc 1))\<rparr>)"

definition named_controller :: AppController where
  "named_controller = (default_controller demo_world)\<lparr>app_session := RemoteSource named_session\<rparr>"

theorem outcome_is_lost_after_an_event_witness:
  "app_apply_ipc_command_outcome demo_world
     \<lparr>ico_target = app_command_target (handle_session_mutation demo_world named_controller),
      ico_command = IpcCommandKind.PromptSubmit, ico_status = IpcCommandOutcomeStatus.Rejected\<rparr>
     (mutation_with_sync demo_world named_controller) = (False, mutation_with_sync demo_world named_controller)"
proof -
  have "app_session named_controller = RemoteSource named_session" by (simp add: named_controller_def)
  moreover have "rs_dispatcher_binding named_session = None"
    by (simp add: named_session_def from_snapshot_def bare_snapshot_def Let_def)
  moreover have "rs_instance_descriptor named_session = Some (project_ipc_instance_descriptor (demo_ipc 1))"
    by (simp add: named_session_def from_snapshot_def Let_def)
  moreover have "oid_instance_id (odesc_identity (project_ipc_instance_descriptor (demo_ipc 1))) \<noteq> []"
    by (simp add: project_ipc_instance_descriptor_def demo_ipc_def Let_def)
  ultimately show ?thesis by (rule outcome_is_lost_after_an_event [THEN conjunct2, THEN conjunct2])
qed

section \<open>The timeline across restarts\<close>

lemma append_seen_entries: "ae_block_id ` set es \<subseteq> ats_seen_ids store \<Longrightarrow> append_entries es store = (0, store)"
  by (induction es) (simp_all add: append_entry_def)

lemma appended_entries_seen: "ae_block_id ` set es \<subseteq> ats_seen_ids (snd (append_entries es store))"
proof (induction es arbitrary: store)
  case (Cons e es)
  have grows: "ats_seen_ids store \<subseteq> ats_seen_ids (snd (append_entries es store))" for store
    by (induction es arbitrary: store) (fastforce simp: append_entry_def split_beta Let_def)+
  have "ae_block_id e \<in> ats_seen_ids (snd (append_entry e store))" by (simp add: append_entry_def)
  with grows [of "snd (append_entry e store)"] Cons.IH [of "snd (append_entry e store)"] show ?case
    by (auto simp: split_beta Let_def)
qed simp

lemma rollup_ids:
  "map ae_block_id (map (\<lambda>(i, p). provider_rollup_entry key n i p) (zip [0 ..< length ps] ps)) =
     map (\<lambda>i. ae_block_id (provider_rollup_entry key n i undefined)) [0 ..< length ps]"
  "map ae_block_id (map (\<lambda>(i, p). control_plane_rollup_entry key n i p) (zip [0 ..< length cs] cs)) =
     map (\<lambda>i. ae_block_id (control_plane_rollup_entry key n i undefined)) [0 ..< length cs]"
  by (rule nth_equalityI;
      simp add: provider_rollup_entry_def control_plane_rollup_entry_def telemetry_entry_def)+

lemma telemetry_ids:
  assumes "length (std_provider_rollups t) = length (std_provider_rollups t')"
    and "length (std_control_plane_rollups t) = length (std_control_plane_rollups t')"
  shows "map ae_block_id (telemetry_entries key n t) = map ae_block_id (telemetry_entries key n t')"
  unfolding telemetry_entries_def map_append rollup_ids
  by (simp only: assms list.map prod.case telemetry_entry_def AuditEntry.simps)

text \<open>
  The number of a telemetry entry starts anew with every controller, the timeline does not: what a
  restarted controller reports under the numbers of its predecessor is dropped.
\<close>

lemma repeated_number_is_dropped:
  fixes key n t store
  assumes "length (std_provider_rollups t) = length (std_provider_rollups t')"
    and "length (std_control_plane_rollups t) = length (std_control_plane_rollups t')"
  defines "stored \<equiv> snd (append_entries (telemetry_entries key n t) store)"
  shows "append_entries (telemetry_entries key n t') stored = (0, stored)"
proof (rule append_seen_entries)
  have "ae_block_id ` set (telemetry_entries key n t') = ae_block_id ` set (telemetry_entries key n t)"
    using telemetry_ids [OF assms(1,2), of key n] by (metis list.set_map)
  then show "ae_block_id ` set (telemetry_entries key n t') \<subseteq> ats_seen_ids stored"
    using appended_entries_seen [of "telemetry_entries key n t" store] by (simp add: stored_def)
qed

section \<open>Smaller observations\<close>

text \<open>Two providers whose names begin alike are one to the settings.\<close>

lemma providers_share_a_key:
  "settings_provider_key ''openai-codex'' = settings_provider_key ''OpenAI''"
  "shown_provider [\<lparr>pin_name = ''openai-codex'', pin_authenticated = True, pin_auth_method = Some ''oauth'',
                    pin_model = Some ''gpt-5.5''\<rparr>]
     \<lparr>pin_name = ''OpenAI'', pin_authenticated = False, pin_auth_method = None, pin_model = None\<rparr> =
   \<lparr>pin_name = ''OpenAI'', pin_authenticated = False, pin_auth_method = Some ''oauth'', pin_model = Some ''gpt-5.5''\<rparr>"
proof -
  let ?lower = "map (\<lambda>c. if is_ascii_alphanumeric c then ascii_lower c else CHR 0x20)"
  have "char_of (111::nat) = CHR ''o''" "char_of (97::nat) = CHR ''a''" "char_of (105::nat) = CHR ''i''"
    using char_of_char [of "CHR ''o''"] char_of_char [of "CHR ''a''"] char_of_char [of "CHR ''i''"] by simp_all
  then have "?lower ''openai-codex'' = ''openai codex''" "?lower ''OpenAI'' = ''openai''"
    by (simp_all add: is_ascii_alphanumeric_def ascii_lower_def)
  moreover have "split_whitespace ''openai codex'' = [''openai'', ''codex'']" "split_whitespace ''openai'' = [''openai'']"
    by (simp_all add: split_whitespace_def ws_words.simps white_space_def starts_with_def)
  ultimately have keys: "settings_provider_key ''openai-codex'' = Some ''openai''"
    "settings_provider_key ''OpenAI'' = Some ''openai''"
    by (simp_all add: settings_provider_key_def)
  then show "settings_provider_key ''openai-codex'' = settings_provider_key ''OpenAI''" by simp
  from keys show "shown_provider [\<lparr>pin_name = ''openai-codex'', pin_authenticated = True,
      pin_auth_method = Some ''oauth'', pin_model = Some ''gpt-5.5''\<rparr>]
     \<lparr>pin_name = ''OpenAI'', pin_authenticated = False, pin_auth_method = None, pin_model = None\<rparr> =
   \<lparr>pin_name = ''OpenAI'', pin_authenticated = False, pin_auth_method = Some ''oauth'', pin_model = Some ''gpt-5.5''\<rparr>"
    by (simp add: shown_provider_def or_else_def)
qed

text \<open>A host that has failed counts as ready once the provider status has been read.\<close>

lemma failed_host_is_ready:
  assumes "model_shell_state (app_session c) = ShellState.Failed"
    and "sas_inventory_refreshed (app_settings_auth_state c)"
  shows "ord_ready (operator_readiness w c)"
    and "ord_detail (operator_readiness w c) = ''Operator controls are fully converged.''"
    and "rsd_state (hd (ord_steps (operator_readiness w c))) = BlockedStep"
  using assms by (simp_all add: operator_readiness_def Let_def is_starting_def host_step_def)

text \<open>
  Attaching to a runtime that reports no descriptor replaces the registry by the empty one of the
  probe before it is rebuilt from the session: the records of all other instances are gone.
\<close>

lemma anonymous_probe_empties_the_registry:
  assumes "lpr_controller r = Some probed" and "reg_instances (app_registry probed) = []"
    and "app_session c = MockSource m" and "mhs_scenario m = DevScenario.Ready"
  shows "reg_instances (app_registry (apply_local_omegon_probe_attachment w r c)) = []"
proof -
  have "sd_instance_descriptor (mock_session_data m :: json SessionView) = None"
    "sd_dispatcher_binding (mock_session_data m :: json SessionView) = None"
    using assms(4) by (simp_all add: mock_session_data_def mock_data_other_def blank_session_data_def)
  with assms show ?thesis
    by (simp add: apply_local_omegon_probe_attachment_def Let_def rebuild_attached_instances_def
        from_registry_and_session_def model_session_data_def reconcile_attached_instances_def SessionData.defs
        merge_attached_instances_into_registry_def)
qed

section \<open>A failed launch\<close>

text \<open>The operations of \<open>Launch_Spawn\<close> as those of this controller, with what is stored on disk.\<close>

definition controller_api ::
  "'ver controller_world \<Rightarrow> AuditTimelineStore \<Rightarrow> json InstanceRegistryStore \<Rightarrow>
   (string \<times> string \<times> RemoteInstanceEntry) list \<Rightarrow> AppController controller_ops"
where
  "controller_api w audit store remotes =
     \<lparr>aco_default = default_controller w,
      aco_stored = \<lambda>c. with_instance_registry w store (with_audit_timeline w audit c),
      aco_with_audit = with_audit_timeline w audit,
      aco_from_snapshot = from_remote_snapshot_json_with_registry w store,
      aco_set_scenario = app_set_scenario w, aco_select_scenario = select_scenario w,
      aco_set_note = \<lambda>note c. c\<lparr>app_bootstrap_note := Some note\<rparr>,
      aco_reattach_containers = on_fleet reattach_container_agents,
      aco_register_remotes = on_fleet (register_remote_instances (cw_semver w) remotes),
      aco_ipc_connected = report_ipc_connected w,
      aco_ipc_snapshot = \<lambda>snapshot c. snd (apply_ipc_state_snapshot w snapshot c),
      aco_websocket = \<lambda>reason. report_websocket_compatibility w (Some reason)\<rparr>"

text \<open>
  A launch that fails leaves a controller that says so: it is offline, its notice is the failure
  with the note of the launch, no draft can be sent from it and nothing can be cancelled.
\<close>

theorem failed_launch_is_shown:
  "let c = bre_controller (startup_failure (controller_api w audit store remotes) note) in
   source_mode (app_session c) = Mock \<and>
   map_option asn_kind (surface_notice c) = Some StartupFailureSurface \<and>
   Option.bind (surface_notice c) asn_detail = Some note \<and>
   submit_prompt_command w (update_draft txt c) = (None, update_draft txt c) \<and> cancel_command c = None"
  by (simp add: startup_failure_def failed_result_def plain_result_def controller_api_def Let_def
      with_instance_registry_def with_fresh_instance_registry_def with_audit_timeline_def
      app_set_scenario_def default_controller_def new_controller_def model_set_scenario_def
      surface_notice_def model_scenario_def model_shell_state_def model_summary_def
      mock_set_scenario_def startup_failure_session_def submit_prompt_command_def
      submit_prompt_def model_submit_def mock_submit_def mock_can_submit_def cancel_command_def
      update_draft_def model_set_draft_def)

end
