(* ===== verification/Instance_Sessions.thy ===== *)
theory Instance_Sessions
  imports Event_Stream Managed_Control Session_Props
begin

text \<open>
  The sessions of the instances beside the primary one (\<open>auspex-core/src/instance_session.rs\<close>): what a
  drained inbox is sorted into, the badge of an instance that is not shown, and the map of sessions
  with the batch its drain hands to the controller.  The readers of JSON texts and the writer of
  commands are parameters; a \<open>HashMap\<close> is the list of its entries in iteration order.
\<close>

section \<open>One session\<close>

record ActivitySummary =
  acs_run_active :: bool
  acs_turn_count :: u32
  acs_tool_call_count :: u32
  acs_last_activity :: "string option"

definition idle_activity :: ActivitySummary where
  "idle_activity =
     \<lparr>acs_run_active = False, acs_turn_count = 0, acs_tool_call_count = 0, acs_last_activity = None\<rparr>"

record InstanceSession =
  ins_instance_id :: string
  ins_ws_url :: string
  ins_session :: "json RemoteHostSession"
  ins_event_stream :: EventStreamHandle
  ins_activity :: ActivitySummary

definition default_state_snapshot :: "json OmegonStateSnapshot" where
  "default_state_snapshot =
     \<lparr>snap_design = \<lparr>ds_focused = None, ds_implementing = [], ds_actionable = [], ds_all_nodes = [],
                     ds_counts = []\<rparr>,
      snap_openspec = \<lparr>os_total_tasks = 0, os_done_tasks = 0\<rparr>,
      snap_cleave = \<lparr>cl_active = False, cl_total_children = 0, cl_completed = 0, cl_failed = 0\<rparr>,
      snap_session = \<lparr>ss_turns = 0, ss_tool_calls = 0, ss_compactions = 0\<rparr>,
      snap_harness = None, snap_dispatcher = None, snap_instance_descriptor = None,
      snap_initialize_metadata = None, snap_extension_metadata = None, snap_operational_profile = None\<rparr>"

text \<open>The task that \<open>spawn_websocket_event_stream\<close> starts is the machine of \<open>Event_Stream\<close>.\<close>

definition connect_session :: "string \<Rightarrow> string \<Rightarrow> InstanceSession" where
  "connect_session instance_id ws_url =
     \<lparr>ins_instance_id = instance_id, ins_ws_url = ws_url, ins_session = from_snapshot default_state_snapshot,
      ins_event_stream = st_handle (spawn_websocket_event_stream ws_url), ins_activity = idle_activity\<rparr>"

definition update_activity :: "json SessionEvent \<Rightarrow> ActivitySummary \<Rightarrow> ActivitySummary" where
  "update_activity e a =
     (case e of
        SessionEvent.TurnStarted _ \<Rightarrow>
          a\<lparr>acs_run_active := True, acs_turn_count := acs_turn_count a + 1,
            acs_last_activity := Some ''turn started''\<rparr>
      | SessionEvent.TurnEnded _ _ \<Rightarrow> a\<lparr>acs_run_active := False, acs_last_activity := Some ''turn ended''\<rparr>
      | SessionEvent.ToolStarted _ name _ \<Rightarrow>
          a\<lparr>acs_tool_call_count := acs_tool_call_count a + 1, acs_last_activity := Some (''tool: '' @ name)\<rparr>
      | SessionEvent.AgentCompleted \<Rightarrow> a\<lparr>acs_run_active := False, acs_last_activity := Some ''agent completed''\<rparr>
      | SessionEvent.MessageAbort \<Rightarrow> a\<lparr>acs_run_active := False, acs_last_activity := Some ''message aborted''\<rparr>
      | _ \<Rightarrow> a)"

section \<open>Draining an inbox\<close>

record instance_io =
  ii_value :: "string \<Rightarrow> json option"
  ii_event :: "string \<Rightarrow> string + json OmegonEvent"
  ii_plan :: "json plan_json"
  ii_command :: "json TargetedCommand \<Rightarrow> string"

definition kind_of :: "instance_io \<Rightarrow> string \<Rightarrow> string option" where
  "kind_of io payload = Option.bind (Option.bind (ii_value io payload) (\<lambda>v. jget v ''type'')) as_str"

definition transport_state :: "instance_io \<Rightarrow> string \<Rightarrow> string option" where
  "transport_state io payload =
     (if kind_of io payload = Some ''auspex_transport_state''
      then Option.bind (Option.bind (ii_value io payload) (\<lambda>v. jget v ''state'')) as_str else None)"

definition CONTROL_RESPONSE_KINDS :: "string list" where
  "CONTROL_RESPONSE_KINDS =
     [''delegate_dispatch_result'', ''delegate_get_result'', ''delegate_result_result'',
      ''delegate_cancel_result'', ''control_command_receipt'', EVENT_MANAGED_AGENT_COMMAND_ACK]"

definition is_managed_agent_response :: "instance_io \<Rightarrow> string \<Rightarrow> bool" where
  "is_managed_agent_response io payload \<longleftrightarrow>
     (case kind_of io payload of None \<Rightarrow> False | Some kind \<Rightarrow> kind \<in> set CONTROL_RESPONSE_KINDS)"

definition transport_events_of :: "string \<Rightarrow> SessionTransportEvent list" where
  "transport_events_of state =
     (if state = ''connected'' then [SessionTransportEvent.Connected]
      else if state = ''disconnected'' then [SessionTransportEvent.Disconnected] else [])"

definition apply_instance_event :: "instance_io \<Rightarrow> json OmegonEvent \<Rightarrow> InstanceSession \<Rightarrow> InstanceSession" where
  "apply_instance_event io event s =
     s\<lparr>ins_activity := update_activity (session_event_of_omegon event) (ins_activity s),
       ins_session := snd (apply_event (ii_plan io) event (ins_session s))\<rparr>"

text \<open>One pass of the loop over the drained inbox.\<close>

definition receive_text ::
  "instance_io \<Rightarrow> string \<Rightarrow> string list \<times> SessionTransportEvent list \<times> InstanceSession \<Rightarrow>
   string list \<times> SessionTransportEvent list \<times> InstanceSession"
where
  "receive_text io payload acc =
     (case acc of (responses, transports, s) \<Rightarrow>
        (case transport_state io payload of
           Some state \<Rightarrow> (responses, transports @ transport_events_of state, s)
         | None \<Rightarrow>
             if is_managed_agent_response io payload then (responses @ [payload], transports, s)
             else case ii_event io payload of
                    Inr event \<Rightarrow> (responses, transports, apply_instance_event io event s)
                  | Inl _ \<Rightarrow> (responses, transports, s)))"

definition drain_and_apply_with_control_responses ::
  "instance_io \<Rightarrow> InstanceSession \<Rightarrow> (bool \<times> string list \<times> SessionTransportEvent list) \<times> InstanceSession"
where
  "drain_and_apply_with_control_responses io s =
     (let (events, stream) = inbox_drain (ins_event_stream s);
          (responses, transports, s') = fold (receive_text io) events ([], [], s\<lparr>ins_event_stream := stream\<rparr>)
      in ((events \<noteq> [], responses, transports), s'))"

definition drain_and_apply :: "instance_io \<Rightarrow> InstanceSession \<Rightarrow> bool \<times> InstanceSession" where
  "drain_and_apply io s =
     (let ((had_events, _), s') = drain_and_apply_with_control_responses io s in (had_events, s'))"

definition send_command :: "instance_io \<Rightarrow> json TargetedCommand \<Rightarrow> InstanceSession \<Rightarrow> InstanceSession" where
  "send_command io command s =
     s\<lparr>ins_event_stream := push_raw (ii_command io command) (ins_event_stream s)\<rparr>"

section \<open>All sessions\<close>

type_synonym InstanceSessionMap = "(string \<times> InstanceSession) list"

definition map_connect :: "string \<Rightarrow> string \<Rightarrow> InstanceSessionMap \<Rightarrow> InstanceSessionMap" where
  "map_connect instance_id ws_url m =
     filter (\<lambda>(i, _). i \<noteq> instance_id) m @ [(instance_id, connect_session instance_id ws_url)]"

text \<open>The handle of a removed session is the one its task still looks at.\<close>

definition map_disconnect :: "string \<Rightarrow> InstanceSessionMap \<Rightarrow> EventStreamHandle option \<times> InstanceSessionMap" where
  "map_disconnect instance_id m =
     (map_option (\<lambda>s. cancel_stream (ins_event_stream s)) (map_of m instance_id),
      filter (\<lambda>(i, _). i \<noteq> instance_id) m)"

definition map_is_connected :: "string \<Rightarrow> InstanceSessionMap \<Rightarrow> bool" where
  "map_is_connected instance_id m \<longleftrightarrow> map_of m instance_id \<noteq> None"

definition drain_all_with_control_responses ::
  "instance_io \<Rightarrow> InstanceSessionMap \<Rightarrow> InstanceDrainBatch \<times> InstanceSessionMap"
where
  "drain_all_with_control_responses io m =
     (let drained = map (\<lambda>(i, s). (i, drain_and_apply_with_control_responses io s)) m in
      (\<lparr>batch_active_instance_ids = map fst (filter (\<lambda>(_, (had_events, _), _). had_events) drained),
        batch_control_responses = concat (map (\<lambda>(i, (_, responses, _), _). map (Pair i) responses) drained),
        batch_transport_events = concat (map (\<lambda>(i, (_, _, transports), _). map (Pair i) transports) drained)\<rparr>,
       map (\<lambda>(i, _, s). (i, s)) drained))"

definition drain_all_with_ids :: "instance_io \<Rightarrow> InstanceSessionMap \<Rightarrow> string list \<times> InstanceSessionMap" where
  "drain_all_with_ids io m =
     (let (batch, m') = drain_all_with_control_responses io m in (batch_active_instance_ids batch, m'))"

definition activity_summaries :: "InstanceSessionMap \<Rightarrow> (string \<times> ActivitySummary) list" where
  "activity_summaries m = map (\<lambda>(i, s). (i, ins_activity s)) m"

definition map_dispatch ::
  "instance_io \<Rightarrow> string \<Rightarrow> json TargetedCommand \<Rightarrow> InstanceSessionMap \<Rightarrow> (string + unit) \<times> InstanceSessionMap"
where
  "map_dispatch io instance_id command m =
     (if map_is_connected instance_id m
      then (Ok (), map (\<lambda>(i, s). (i, if i = instance_id then send_command io command s else s)) m)
      else (Err (''no session for instance '' @ instance_id), m))"

section \<open>What a drain does with a text\<close>

lemma receive_simps [simp]:
  "receive_text io payload (rs, ts, s) =
     (rs @ (if transport_state io payload = None \<and> is_managed_agent_response io payload then [payload] else []),
      ts @ (case transport_state io payload of None \<Rightarrow> [] | Some state \<Rightarrow> transport_events_of state),
      if transport_state io payload \<noteq> None \<or> is_managed_agent_response io payload then s
      else case ii_event io payload of Inr event \<Rightarrow> apply_instance_event io event s | Inl _ \<Rightarrow> s)"
  by (simp add: receive_text_def split: option.split sum.split)

text \<open>A text of the transport is no answer of a managed agent: their kinds differ.\<close>

lemma transport_is_no_response: "transport_state io payload = Some state \<Longrightarrow> \<not> is_managed_agent_response io payload"
  by (auto simp: transport_state_def is_managed_agent_response_def CONTROL_RESPONSE_KINDS_def
      EVENT_MANAGED_AGENT_COMMAND_ACK_def split: if_splits)

text \<open>The events the session gets: the readable texts among those that remain.\<close>

definition session_events :: "instance_io \<Rightarrow> string list \<Rightarrow> json OmegonEvent list" where
  "session_events io events =
     concat (map (\<lambda>p. if transport_state io p \<noteq> None \<or> is_managed_agent_response io p then []
                      else case ii_event io p of Inr event \<Rightarrow> [event] | Inl _ \<Rightarrow> []) events)"

definition transport_changes :: "instance_io \<Rightarrow> string list \<Rightarrow> SessionTransportEvent list" where
  "transport_changes io events =
     concat (map (\<lambda>p. case transport_state io p of None \<Rightarrow> [] | Some state \<Rightarrow> transport_events_of state) events)"

lemma fold_receive:
  "fold (receive_text io) events (rs, ts, s) =
     (rs @ filter (is_managed_agent_response io) events, ts @ transport_changes io events,
      fold (apply_instance_event io) (session_events io events) s)"
proof (induction events arbitrary: rs ts s)
  case (Cons payload events)
  then show ?case
    by (cases "transport_state io payload")
      (auto simp: session_events_def transport_changes_def transport_is_no_response split: sum.split)
qed (simp add: session_events_def transport_changes_def)

lemma fold_apply_event:
  "ins_session (fold (apply_instance_event io) es s) =
     fold (\<lambda>e t. snd (apply_event (ii_plan io) e t)) es (ins_session s)"
  "ins_activity (fold (apply_instance_event io) es s) =
     fold (\<lambda>e. update_activity (session_event_of_omegon e)) es (ins_activity s)"
  "ins_event_stream (fold (apply_instance_event io) es s) = ins_event_stream s"
  by (induction es arbitrary: s) (simp_all add: apply_instance_event_def)

text \<open>
  Draining an instance sorts every text it has received, in order and each into one place: the
  answers of managed agents are handed out unchanged, changes of the connection become transport
  events, and only the remaining readable texts reach the session and its badge.  The inbox is empty
  afterwards, the commands that wait to be sent stay.
\<close>

theorem drained_texts_are_sorted:
  "let inbox = esh_inbox (ins_event_stream s);
       ((had_events, responses, transports), s') = drain_and_apply_with_control_responses io s
   in had_events = (inbox \<noteq> []) \<and> responses = filter (is_managed_agent_response io) inbox \<and>
      transports = transport_changes io inbox \<and>
      ins_session s' = fold (\<lambda>e t. snd (apply_event (ii_plan io) e t)) (session_events io inbox) (ins_session s) \<and>
      ins_activity s' =
        fold (\<lambda>e. update_activity (session_event_of_omegon e)) (session_events io inbox) (ins_activity s) \<and>
      esh_inbox (ins_event_stream s') = [] \<and> esh_outbox (ins_event_stream s') = esh_outbox (ins_event_stream s)"
  by (simp add: drain_and_apply_with_control_responses_def inbox_drain_def Let_def fold_receive fold_apply_event)

text \<open>Sessions of instances are sessions: draining takes session steps.\<close>

lemma drained_session_reachable:
  assumes "session_reachable (ii_plan io) (ins_session s)"
  shows "session_reachable (ii_plan io) (ins_session (snd (drain_and_apply_with_control_responses io s)))"
proof -
  have "session_reachable (ii_plan io) (fold (\<lambda>e t. snd (apply_event (ii_plan io) e t)) es t)"
    if "session_reachable (ii_plan io) t" for es t
    using that
  proof (induction es arbitrary: t)
    case (Cons e es)
    from session_reachable.moved [OF Cons.prems, of "Event (session_event_of_omegon e)"] Cons.IH show ?case
      by (simp add: apply_event_def)
  qed simp
  with assms drained_texts_are_sorted [of s io] show ?thesis by (auto simp: Let_def split_beta)
qed

section \<open>The badge\<close>

lemma run_active_step:
  "e \<noteq> OmegonEvent.SessionReset \<Longrightarrow> acs_run_active a = rs_run_active t \<Longrightarrow>
     acs_run_active (update_activity (session_event_of_omegon e) a) = rs_run_active (snd (apply_event js e t))"
  by (cases e)
    (auto simp: apply_event_def update_activity_def on_state_snapshot_def on_message_start_def on_message_delta_def
      on_thinking_delta_def on_message_completed_def on_message_abort_def on_harness_status_changed_def
      on_plan_updated_def on_turn_started_def on_turn_ended_def flush_pending_def on_tool_started_def
      on_tool_updated_def on_tool_ended_def on_context_updated_def on_decomposition_started_def
      on_child_completed_def on_decomposition_completed_def push_system_notice_def push_dispatcher_notice_def
      push_chat_message_def push_text_block_def set_activity_def Let_def split_beta
      split: option.split TurnBlock.split)

text \<open>Without a session reset the badge of an instance agrees with its session.\<close>

lemma badge_follows_the_session:
  assumes "OmegonEvent.SessionReset \<notin> set (session_events io (esh_inbox (ins_event_stream s)))"
    and "acs_run_active (ins_activity s) = rs_run_active (ins_session s)"
  defines "s' \<equiv> snd (drain_and_apply_with_control_responses io s)"
  shows "acs_run_active (ins_activity s') = rs_run_active (ins_session s')"
proof -
  have "acs_run_active (fold (\<lambda>e. update_activity (session_event_of_omegon e)) es a) =
      rs_run_active (fold (\<lambda>e t. snd (apply_event (ii_plan io) e t)) es t)"
    if "OmegonEvent.SessionReset \<notin> set es" "acs_run_active a = rs_run_active t" for es a t
    using that
  proof (induction es arbitrary: a t)
    case (Cons e es)
    from Cons.prems have "e \<noteq> OmegonEvent.SessionReset" by auto
    from run_active_step [OF this Cons.prems(2)] Cons.IH Cons.prems(1) show ?case by simp
  qed simp
  with assms drained_texts_are_sorted [of s io] show ?thesis by (auto simp: Let_def split_beta)
qed

text \<open>A reset ends the turn of the session, but the badge goes on showing it.\<close>

lemma reset_leaves_the_badge:
  fixes io :: instance_io and s :: InstanceSession
  assumes "acs_run_active (ins_activity s)"
  defines "s' \<equiv> apply_instance_event io OmegonEvent.SessionReset s"
  shows "\<not> rs_run_active (ins_session s') \<and> acs_run_active (ins_activity s')"
  using assms by (simp add: apply_instance_event_def apply_event_def update_activity_def on_session_reset_def Let_def)

section \<open>The batch\<close>

text \<open>What a batch reports of an instance was received on the stream of that instance.\<close>

lemma batch_comes_from_its_instances:
  assumes "(i, r) \<in> set (batch_control_responses (fst (drain_all_with_control_responses io m)))"
  shows "\<exists>s. (i, s) \<in> set m \<and> r \<in> set (esh_inbox (ins_event_stream s)) \<and> is_managed_agent_response io r"
proof -
  from assms obtain s where s: "(i, s) \<in> set m"
    and r: "r \<in> set (fst (snd (fst (drain_and_apply_with_control_responses io s))))"
    by (auto simp: drain_all_with_control_responses_def Let_def split_beta)
  from r drained_texts_are_sorted [of s io] have "r \<in> set (filter (is_managed_agent_response io) (esh_inbox (ins_event_stream s)))"
    by (auto simp: Let_def split_beta)
  with s show ?thesis by auto
qed

lemma drain_keeps_the_sessions:
  "map fst (snd (drain_all_with_control_responses io m)) = map fst m"
  by (simp add: drain_all_with_control_responses_def Let_def comp_def split_beta)

lemma map_of_without:
  "map_of (filter (\<lambda>(i, _). i \<noteq> k) m) j = (if j = k then None else map_of m j)"
  by (induction m) auto

text \<open>Connecting again replaces the session of an instance and forgets what it has received.\<close>

lemma map_connect_lookup:
  "map_of (map_connect i url m) j = (if j = i then Some (connect_session i url) else map_of m j)"
proof (cases "j = i")
  case True
  then show ?thesis unfolding map_connect_def by (simp only: map_of_append map_add_def map_of_without) simp
next
  case False
  then show ?thesis unfolding map_connect_def by (simp only: map_of_append map_add_def map_of_without) (simp split: option.split)
qed

lemma map_disconnect_lookup:
  "map_of (snd (map_disconnect i m)) j = (if j = i then None else map_of m j)"
  "\<not> map_is_connected i (snd (map_disconnect i m))"
  by (simp_all add: map_disconnect_def map_is_connected_def map_of_without)

end
