(* ===== verification/Spec2Isabelle.thy ===== *)
theory Spec2Isabelle
  imports Managed_Control_Props Secret_Orchestration Fleet_Control_Props Fleet_Inventory Fleet_View Session_Flows Audit_Timeline
    Operator_Reconcile_Props Operator_External Operator_Handlers_Props Operator_Armory_Props Operator_Fleet
    Agent_Packages_Props Container_Discovery Local_Ports Launch_Runtime_Props Launch_Spawn_Props
    Local_Discovery_Props Cop_Surface_Props App_Controller_Props Instance_Sessions
begin

text \<open>
  Auspex supervises Omegon agents: it dispatches managed runs to workers and follows them to their
  end, hands out secrets to workers, and keeps a registry of the instances it is attached to.
  It shows the operator one session per instance and keeps an audit log of it.  A Kubernetes
  operator runs agents as pods.  This development models those parts of \<open>auspex-core\<close> and
  \<open>auspex-operator\<close> and the policy and view code around them.

  \<^bold>\<open>Managed agents.\<close>  \<open>Managed_Agents\<close> (\<open>managed_agents.rs\<close>) is the life of one run, a record
  with one function per method.  \<open>Supervisor_Contract\<close> (\<open>managed_agent_supervisor.rs\<close>, the
  command types of \<open>runtime_types.rs\<close>) are the requests, responses and acknowledgements exchanged
  with a worker and their validation; \<open>A2a_Bearer\<close> (\<open>managed_agent_mqtt.rs\<close>) the envelopes of
  the MQTT bearer.  \<open>Supervisor_Runtime\<close> (\<open>managed_agent_runtime.rs\<close>) is the supervisor: three
  ordered maps of runs, commands and the index between them, and every operation on them.
  \<open>Supervisor_Invariant\<close> relates the operations as the steps \<open>sup_step\<close> and shows what every step
  keeps; \<open>Supervisor_Props\<close> and \<open>Supervisor_Views\<close> hold the properties.  \<open>Bridge_Protocol\<close>
  (\<open>managed_agent_bridge.rs\<close>, \<open>managed_agent_feature.rs\<close>, \<open>managed_agent_bridge_server.rs\<close>) is
  the private socket through which a parent session asks for status, dispatch and cancellation.
  \<open>Managed_Control\<close> (\<open>controller.rs\<close>, \<open>managed_agent_mutation_coordinator.rs\<close>) is the scheduler
  tick, the routing of answers by instance and the idempotent application of bridge requests;
  \<open>controller_refines_supervisor\<close> shows that it only takes supervisor steps.

  \<^bold>\<open>Secrets.\<close>  \<open>Secret_Grants\<close> (\<open>secret_grants.rs\<close>) is the file-backed broker of grants and leases
  behind the interface \<open>secret_grant_broker\<close>; \<open>Secret_Orchestration\<close> (\<open>secret_orchestration.rs\<close>)
  is its client.

  \<^bold>\<open>Fleet.\<close>  \<open>Descriptors\<close>, \<open>Instance_Facts\<close> (\<open>compatibility.rs\<close>, \<open>capability_registry.rs\<close>),
  \<open>Operational_Profile\<close> and \<open>Worker_Types\<close> (\<open>runtime_types.rs\<close>) are the data about instances.
  \<open>Instance_Registry\<close> is the store of records behind the interface \<open>instance_store\<close>,
  \<open>State_Engine\<close> (\<open>state_engine.rs\<close>) the attached instances, command routes and the lifecycle
  policy, \<open>Fleet_Control\<close> the controller operations on both, \<open>Runtime_Inventory\<close> and
  \<open>Fleet_Inventory\<close> the inventory of what a runtime offers.  \<open>Fleet_View\<close>
  (\<open>descriptor_ingest.rs\<close>, \<open>fleet_projection.rs\<close>) and \<open>Policy_Gates\<close>
  (\<open>host_action_policy.rs\<close>, \<open>authorization.rs\<close>) complete the picture.
  \<open>Local_Discovery\<close> (\<open>local_omegon_discovery.rs\<close>) finds runtimes on the machine and merges what it
  finds, \<open>Local_Probe\<close> (\<open>local_omegon_probe.rs\<close>) asks one of them under the policy.
  \<open>Gateway_Projection\<close> (\<open>gateway_projection.rs\<close>) answers for the fleet with its degradation, and
  \<open>Cop_Surface\<close> (\<open>cop_surface.rs\<close>) is the picture agents and Auspex write regions of;
  \<open>Cop_Surface_Props\<close> runs it.

  \<^bold>\<open>Sessions.\<close>  \<open>Session_Types\<close> (\<open>fixtures.rs\<close>, \<open>omegon_control.rs\<close>, \<open>session_event.rs\<close>)
  holds transcripts, snapshots and events, and the conversions of the events of both transports
  into session events.  \<open>Remote_Session\<close> and \<open>Session_Reducer\<close> (\<open>remote_session.rs\<close>) are the
  session of one instance: how snapshots, events, command outcomes and the operator change it,
  one function per event.  \<open>Session_Props\<close> runs it as the steps \<open>session_step\<close>, with the invariant
  of all reachable sessions and the monotony of the authoritative state; \<open>Session_Flows\<close> follows
  a message, a prompt and a dispatcher switch from their start to their end.  \<open>Session_View\<close> is the
  data a session gives to the screens, \<open>Mock_Session\<close> the demo sessions.  \<open>Telemetry\<close>
  (\<open>telemetry.rs\<close>) rolls up what sessions and registry report, and \<open>Audit_Timeline\<close>
  (\<open>audit_timeline.rs\<close>) is the append-only log with its file format and queries.

  \<^bold>\<open>Controller.\<close>  \<open>App_Controller\<close> (\<open>controller.rs\<close>) holds one session, live or demo, beside the
  fleet of \<open>Fleet_Control\<close>, and with it the telemetry, the timeline, the provider status and the
  picture.  It takes the events and answers of both transports and the commands of the operator, and
  it is what a launch hands over.  \<open>App_Controller_Props\<close> runs it as the steps \<open>controller_step\<close>: its
  live session only takes session steps, so that the invariant of \<open>Session_Props\<close> carries over;
  it then follows a prompt, an answer and the routes of attached instances.  \<open>Instance_Sessions\<close>
  (\<open>instance_session.rs\<close>) keeps a session with its own event stream for each other instance: its drain
  sorts the received texts into answers, changes of the connection and events of the session.

  \<^bold>\<open>Operator.\<close>  \<open>Json\<close> is the value type of \<open>serde_json\<close> with the accessors and macros the
  operator uses.  \<open>Operator_Crd\<close> (\<open>auspex-operator/src/crd.rs\<close>) are the custom resources,
  \<open>Operator_Pod\<close> and \<open>Operator_Reconcile\<close> (\<open>reconciler.rs\<close>) the pod template and the
  reconciliation of an agent, a list of objects applied one by one; \<open>Operator_Identity\<close>
  (\<open>identity.rs\<close>) derives its keys and certificates, \<open>Operator_External\<close> (\<open>external.rs\<close>) checks
  and probes agents outside the cluster.  \<open>Operator_Api\<close> and \<open>Operator_Handlers\<close> (\<open>main.rs\<close>) are
  the fleet API: authentication, what it tells of an agent, and the handlers that change one.  The
  theories named \<open>_Props\<close> show that a template is well typed and finds its volumes, that nothing
  leaves the namespace of the resource, that derived keys reach the pod unchanged, and which
  endpoints and tokens are accepted.  \<open>Operator_Armory\<close> is its store of overlays with the catalogue
  and the preflight of a deployment, \<open>Operator_Fleet\<close> its lists of agents, events and secrets.

  \<^bold>\<open>Packages and containers.\<close>  \<open>Agent_Packages\<close> (\<open>agent_packages.rs\<close>) assesses image references and
  turns packages into manifests and containers, \<open>Armory\<close> (\<open>armory.rs\<close>) is the package index with
  its install plans.  \<open>Oci_Backend\<close> (\<open>oci_backend.rs\<close>) launches and lists the containers as a
  sequence of requests to the daemon, \<open>Container_Discovery\<close> (\<open>container_discovery.rs\<close>) registers
  the ones it finds, and \<open>Local_Ports\<close> (\<open>local_agent_ports.rs\<close>) assigns their ports.

  \<^bold>\<open>Launch.\<close>  \<open>Launch_Runtime\<close> (\<open>bootstrap.rs\<close>, \<open>tls_config.rs\<close>) finds and verifies the runtime,
  builds its arguments and decides which processes belong to Auspex and which are ended;
  \<open>Launch_Auth\<close> reads the provider status and corrects the profile.  \<open>Event_Stream\<close>
  (\<open>event_stream.rs\<close>) is the WebSocket task as a machine driven by its inputs, with its inbox, its
  outbox and its reconnection.  \<open>Launch_Spawn\<close> attaches to a state endpoint, over IPC or the stream,
  and launches a runtime: the handshake on its output, the two polls and what is ended on a failure.

  \<^bold>\<open>Conventions.\<close>  \<open>Prelude\<close>, \<open>Strings\<close> and \<open>OrdMap\<close> hold the shared vocabulary.  A string is its UTF-8
  bytes; integers keep their width, with saturating, checked and truncating arithmetic written
  out; a \<open>BTreeMap\<close> is a strictly sorted association list behind the interface \<open>ordered_map\<close>; a
  fallible method returns a sum and the state, so that what is written before an error is kept.
  Record fields carry a prefix for their struct.  Instants are nanoseconds up to a limit at which
  addition fails.  No definition needs fuel: loops run over lists, the walk along parent processes
  and the polls of a launch carry the bounds of the code (16 steps, 20 attempts), and the handshake
  loop is a partial function with the exact condition of its end,
  \<open>handshake_ends_exactly_on_its_events\<close>.

  \<^bold>\<open>Parameters.\<close>  Code outside the repository is an argument: \<open>serde_json\<close> (encoders, decoders and
  value accessors), UUID generation and clocks (the drawn values), \<open>semver\<close>, \<open>styrene_policy\<close>,
  the MQTT envelope crate, the file system, and the asynchronous runtime (a connection is the list
  of the lines it reads, a channel a function).  For the operator these are also the cluster
  behind \<open>kube\<close>, the key derivation and certificates of its crypto crates, the \<open>url\<close> parser, the
  HTTP client, the process environment and the files compiled into the binary.  For containers and
  launch they are the container daemon, \<open>podman\<close>, \<open>curl\<close> and \<open>ps\<close>, the reading of floating
  point numbers, the \<open>url\<close> parser, sockets and the operations of the controller a launch calls.

  \<^bold>\<open>Findings.\<close>  Some properties state behaviour that is not what the code is for: a late
  observation reopens a finished run, a reconnect strands an unaccepted run, an oversized reason
  blocks cancellation, the projection snapshot of a parent goes stale with its last run, leases
  are renewed past their limits, a failed creation leaves its grant, a second worker of a kind is
  refused, a partial policy drops its safety switches, probe results and container exits do not
  last in the registry, inventory answers follow the selection, and the second message of a turn
  overwrites the first.  In the operator, IPv6 endpoints are not checked, a token may be followed by
  256 arbitrary bytes, announced transports ignore the flag that enables them, and prompt mounts,
  vault keys and certificate names can clash.  Built-in packages lose their limits as containers, the
  approval gates of a plan do not affect its preflight, an installed runtime is never recognised
  as owned, the default model is passed with its provider twice, a schema mismatch is never
  reported as one, and a launch that fails after the handshake leaves its child running.  In the
  controller an event takes the routes of all instances beside the session away, an answer that
  arrives after the target has changed is ignored, and telemetry is not logged after a restart.

  \<^bold>\<open>Not modelled.\<close>  The desktop shell and its screens, the WebSocket proxy of the operator, the
  IPC client, the installation of assets and the loading of certificates are framework, network or
  operating-system code.  The release agent is left out.
\<close>

end
